(* ===== verification/Prelude.thy ===== *)
theory Prelude
  imports Main
begin

text \<open>
  Shared material of the development: the collections of facts the component proofs
  extend, and generic lemmas on the list operations that the table model uses
  (a table is the list of its rows, in insertion order).
\<close>

named_theorems sql_defs \<open>definitions of the database statements\<close>
named_theorems preserve \<open>rules that an operation keeps a property of the database\<close>
named_theorems read_only \<open>rules that an operation leaves the database unchanged\<close>

section \<open>Tables as lists\<close>

definition update_where :: "('r \<Rightarrow> bool) \<Rightarrow> ('r \<Rightarrow> 'r) \<Rightarrow> 'r list \<Rightarrow> 'r list" where
  "update_where p g rows = map (\<lambda>r. if p r then g r else r) rows"

definition delete_where :: "('r \<Rightarrow> bool) \<Rightarrow> 'r list \<Rightarrow> 'r list" where
  "delete_where p rows = filter (\<lambda>r. \<not> p r) rows"

definition exists_row :: "('r \<Rightarrow> bool) \<Rightarrow> 'r list \<Rightarrow> bool" where
  "exists_row p rows = list_ex p rows"

definition count_rows :: "('r \<Rightarrow> bool) \<Rightarrow> 'r list \<Rightarrow> int" where
  "count_rows p rows = int (length (filter p rows))"

definition sum_rows :: "('r \<Rightarrow> bool) \<Rightarrow> ('r \<Rightarrow> int) \<Rightarrow> 'r list \<Rightarrow> int" where
  "sum_rows p f rows = sum_list (map f (filter p rows))"

text \<open>\<open>LIMIT l OFFSET o\<close>: Postgres refuses negative values, which the callers never pass.\<close>

definition page :: "int \<Rightarrow> int \<Rightarrow> 'r list \<Rightarrow> 'r list" where
  "page limit offset rows = take (nat limit) (drop (nat offset) rows)"

text \<open>
  \<open>ORDER BY\<close> an integer key. Rows with equal keys keep their insertion order, one of the
  orders Postgres may return them in.
\<close>

definition order_asc :: "('r \<Rightarrow> int) \<Rightarrow> 'r list \<Rightarrow> 'r list" where
  "order_asc k rows = sort_key k rows"

definition order_desc :: "('r \<Rightarrow> int) \<Rightarrow> 'r list \<Rightarrow> 'r list" where
  "order_desc k rows = sort_key (\<lambda>r. - k r) rows"

lemma exists_row_iff [simp]: "exists_row p rows \<longleftrightarrow> (\<exists>r\<in>set rows. p r)"
  by (simp add: exists_row_def list_ex_iff)

lemma set_update_where: "set (update_where p g rows) = (\<lambda>r. if p r then g r else r) ` set rows"
  by (simp add: update_where_def)

lemma set_delete_where [simp]: "set (delete_where p rows) = {r \<in> set rows. \<not> p r}"
  by (simp add: delete_where_def)

lemma length_update_where [simp]: "length (update_where p g rows) = length rows"
  by (simp add: update_where_def)

lemma update_where_Nil [simp]: "update_where p g [] = []"
  by (simp add: update_where_def)

lemma update_where_Cons [simp]:
  "update_where p g (r # rs) = (if p r then g r else r) # update_where p g rs"
  by (simp add: update_where_def)

lemma map_update_where:
  "(\<And>r. p r \<Longrightarrow> f (g r) = f r) \<Longrightarrow> map f (update_where p g rows) = map f rows"
  by (simp add: update_where_def)

lemma filter_update_where_disjoint:
  "(\<And>r. r \<in> set rows \<Longrightarrow> p r \<Longrightarrow> \<not> q r \<and> \<not> q (g r)) \<Longrightarrow>
    filter q (update_where p g rows) = filter q rows"
  by (induction rows) (auto simp: update_where_def)

lemma filter_delete_where_disjoint:
  "(\<And>r. r \<in> set rows \<Longrightarrow> p r \<Longrightarrow> \<not> q r) \<Longrightarrow> filter q (delete_where p rows) = filter q rows"
  by (induction rows) (auto simp: delete_where_def)

lemma find_update_where:
  "(\<And>r. p r \<Longrightarrow> q (g r) = q r) \<Longrightarrow>
    find q (update_where p g rows) = map_option (\<lambda>r. if p r then g r else r) (find q rows)"
  by (induction rows) auto

lemma find_delete_where_other:
  "(\<And>r. q r \<Longrightarrow> \<not> p r) \<Longrightarrow> find q (delete_where p rows) = find q rows"
  by (induction rows) (auto simp: delete_where_def)

lemma find_append: "find p (xs @ ys) = (case find p xs of None \<Rightarrow> find p ys | Some r \<Rightarrow> Some r)"
  by (induction xs) auto

lemma find_SomeD: "find p rows = Some r \<Longrightarrow> r \<in> set rows \<and> p r"
  by (auto simp: find_Some_iff)

lemma find_NoneD: "find p rows = None \<Longrightarrow> r \<in> set rows \<Longrightarrow> \<not> p r"
  by (auto simp: find_None_iff)

lemma find_Some_ex: "r \<in> set rows \<Longrightarrow> p r \<Longrightarrow> \<exists>r'. find p rows = Some r'"
  by (cases "find p rows") (auto simp: find_None_iff)

text \<open>A key that is distinct over the table determines the row it finds.\<close>

lemma find_distinct_key:
  assumes "distinct (map k rows)" and "r \<in> set rows"
  shows "find (\<lambda>x. k x = k r) rows = Some r"
  using assms by (induction rows) (auto simp: rev_image_eqI)

lemma distinct_map_unique:
  "distinct (map k rows) \<Longrightarrow> r \<in> set rows \<Longrightarrow> r' \<in> set rows \<Longrightarrow> k r = k r' \<Longrightarrow> r = r'"
  by (induction rows) (auto simp: rev_image_eqI)

lemma set_order [simp]:
  "set (order_asc k rows) = set rows" "set (order_desc k rows) = set rows"
  by (simp_all add: order_asc_def order_desc_def)

lemma page_subset: "set (page l n rows) \<subseteq> set rows"
  unfolding page_def by (meson set_drop_subset set_take_subset subset_trans)

lemma length_page: "length (page l n rows) \<le> nat l"
  by (simp add: page_def)

lemma count_rows_nonneg [simp]: "0 \<le> count_rows p rows"
  by (simp add: count_rows_def)

lemma count_rows_zero: "count_rows p rows = 0 \<longleftrightarrow> (\<forall>r\<in>set rows. \<not> p r)"
  by (auto simp: count_rows_def filter_empty_conv)

lemma count_rows_pos: "0 < count_rows p rows \<longleftrightarrow> (\<exists>r\<in>set rows. p r)"
  by (auto simp: count_rows_def filter_empty_conv)

lemma count_rows_append: "count_rows p (xs @ ys) = count_rows p xs + count_rows p ys"
  by (simp add: count_rows_def)

lemma count_rows_Cons: "count_rows p (x # xs) = (if p x then 1 else 0) + count_rows p xs"
  by (simp add: count_rows_def)

lemma count_rows_Nil [simp]: "count_rows p [] = 0"
  by (simp add: count_rows_def)

lemma sum_rows_append: "sum_rows q f (xs @ ys) = sum_rows q f xs + sum_rows q f ys"
  by (simp add: sum_rows_def)

lemma update_where_none: "(\<And>r. r \<in> set rows \<Longrightarrow> \<not> p r) \<Longrightarrow> update_where p g rows = rows"
  unfolding update_where_def by (rule map_idI) simp

text \<open>Updating the one row with a given key changes a sum by that row's difference.\<close>

lemma sum_rows_update_key:
  assumes "distinct (map k rows)" and "r \<in> set rows" and "\<And>x. q (g x) = q x"
  shows "sum_rows q f (update_where (\<lambda>x. k x = k r) g rows) =
    sum_rows q f rows + (if q r then f (g r) - f r else 0)"
  using assms(1,2)
proof (induction rows)
  case (Cons x xs)
  show ?case
  proof (cases "x = r")
    case True
    then have "update_where (\<lambda>x. k x = k r) g xs = xs"
      using Cons.prems by (intro update_where_none) (auto simp: image_iff)
    then show ?thesis using True assms(3) by (simp add: sum_rows_def)
  next
    case False
    then have "k x \<noteq> k r" and "r \<in> set xs" and "distinct (map k xs)"
      using Cons.prems by (auto simp: image_iff)
    then show ?thesis using Cons.IH by (auto simp: sum_rows_def)
  qed
qed simp

end
