(* ===== verification/Go_Strings.thy ===== *)
theory Go_Strings
  imports Prelude
begin

text \<open>
  The functions of Go's \<open>strings\<close>, \<open>strconv\<close> and \<open>regexp\<close> packages that the engine calls.
  A Go string is its list of bytes. \<open>TrimSpace\<close> is exact on UTF-8; case conversion is exact
  on ASCII and leaves the other bytes alone.
\<close>

section \<open>strings.TrimSpace\<close>

text \<open>The UTF-8 encodings of the code points that \<open>unicode.IsSpace\<close> accepts.\<close>

definition space_seqs :: "string list" where
  "space_seqs =
     [[CHR 0x20], [CHR 0x09], [CHR 0x0A], [CHR 0x0B], [CHR 0x0C], [CHR 0x0D],
      [CHR 0xC2, CHR 0x85], [CHR 0xC2, CHR 0xA0], [CHR 0xE1, CHR 0x9A, CHR 0x80],
      [CHR 0xE2, CHR 0x80, CHR 0x80], [CHR 0xE2, CHR 0x80, CHR 0x81],
      [CHR 0xE2, CHR 0x80, CHR 0x82], [CHR 0xE2, CHR 0x80, CHR 0x83],
      [CHR 0xE2, CHR 0x80, CHR 0x84], [CHR 0xE2, CHR 0x80, CHR 0x85],
      [CHR 0xE2, CHR 0x80, CHR 0x86], [CHR 0xE2, CHR 0x80, CHR 0x87],
      [CHR 0xE2, CHR 0x80, CHR 0x88], [CHR 0xE2, CHR 0x80, CHR 0x89],
      [CHR 0xE2, CHR 0x80, CHR 0x8A], [CHR 0xE2, CHR 0x80, CHR 0xA8],
      [CHR 0xE2, CHR 0x80, CHR 0xA9], [CHR 0xE2, CHR 0x80, CHR 0xAF],
      [CHR 0xE2, CHR 0x81, CHR 0x9F], [CHR 0xE3, CHR 0x80, CHR 0x80]]"

fun has_prefix :: "string \<Rightarrow> string \<Rightarrow> bool" where
  "has_prefix [] s = True"
| "has_prefix (p # ps) [] = False"
| "has_prefix (p # ps) (c # cs) = (p = c \<and> has_prefix ps cs)"

fun strip_one :: "string list \<Rightarrow> string \<Rightarrow> string option" where
  "strip_one [] s = None"
| "strip_one (q # qs) s =
     (if q \<noteq> [] \<and> has_prefix q s then Some (drop (length q) s) else strip_one qs s)"

lemma has_prefix_iff: "has_prefix q s \<longleftrightarrow> (\<exists>t. s = q @ t)"
  by (induction q s rule: has_prefix.induct) auto

lemma strip_one_shorter: "strip_one qs s = Some r \<Longrightarrow> length r < length s"
  by (induction qs) (auto simp: has_prefix_iff split: if_splits)

function trim_seqs :: "string list \<Rightarrow> string \<Rightarrow> string" where
  "trim_seqs qs s = (case strip_one qs s of None \<Rightarrow> s | Some r \<Rightarrow> trim_seqs qs r)"
  by pat_completeness auto
termination
  by (relation "measure (\<lambda>(qs, s). length s)") (auto dest: strip_one_shorter)

declare trim_seqs.simps [simp del]

definition trim_left :: "string \<Rightarrow> string" where
  "trim_left s = trim_seqs space_seqs s"

definition trim_right :: "string \<Rightarrow> string" where
  "trim_right s = rev (trim_seqs (map rev space_seqs) (rev s))"

definition TrimSpace :: "string \<Rightarrow> string" where
  "TrimSpace s = trim_right (trim_left s)"

lemma trim_seqs_fixed: "strip_one qs (trim_seqs qs s) = None"
proof (induction qs s rule: trim_seqs.induct)
  case (1 qs s)
  then show ?case
    by (cases "strip_one qs s") (simp_all add: trim_seqs.simps [of qs s])
qed

lemma trim_seqs_id: "strip_one qs s = None \<Longrightarrow> trim_seqs qs s = s"
  by (simp add: trim_seqs.simps)

lemma strip_one_suffix: "strip_one qs s = Some r \<Longrightarrow> \<exists>p. s = p @ r"
  by (induction qs) (auto simp: has_prefix_iff split: if_splits)

lemma trim_seqs_suffix: "\<exists>p. s = p @ trim_seqs qs s"
proof (induction qs s rule: trim_seqs.induct)
  case (1 qs s)
  show ?case
  proof (cases "strip_one qs s")
    case None
    then show ?thesis by (simp add: trim_seqs.simps [of qs s])
  next
    case (Some r)
    with 1 obtain p where "r = p @ trim_seqs qs r" by blast
    moreover obtain p' where "s = p' @ r" using strip_one_suffix [OF Some] by blast
    ultimately have "s = (p' @ p) @ trim_seqs qs r" by simp
    moreover have "trim_seqs qs s = trim_seqs qs r"
      using Some by (simp add: trim_seqs.simps [of qs s])
    ultimately show ?thesis by metis
  qed
qed

lemma has_prefix_append: "has_prefix q s \<Longrightarrow> has_prefix q (s @ t)"
  by (induction q s rule: has_prefix.induct) auto

lemma strip_one_prefix_None: "strip_one qs (s @ t) = None \<Longrightarrow> strip_one qs s = None"
  by (induction qs) (auto split: if_splits dest: has_prefix_append)

lemma trim_right_prefix: "\<exists>t. s = trim_right s @ t"
proof -
  obtain p where "rev s = p @ trim_seqs (map rev space_seqs) (rev s)"
    using trim_seqs_suffix by blast
  then have "rev (rev s) = trim_right s @ rev p"
    unfolding trim_right_def by (metis rev_append)
  then show ?thesis by auto
qed

lemma trim_right_idem: "trim_right (trim_right s) = trim_right s"
  by (simp add: trim_right_def trim_seqs_id trim_seqs_fixed)

lemma trim_left_trim_right: "trim_left s = s \<Longrightarrow> trim_left (trim_right s) = trim_right s"
  unfolding trim_left_def
  by (metis strip_one_prefix_None trim_right_prefix trim_seqs_fixed trim_seqs_id)

lemma TrimSpace_idem [simp]: "TrimSpace (TrimSpace s) = TrimSpace s"
  unfolding TrimSpace_def
  by (metis trim_left_def trim_left_trim_right trim_right_idem trim_seqs_fixed trim_seqs_id)

lemma length_trim_right: "length (trim_right s) \<le> length s"
  by (metis trim_right_prefix length_append le_add1)

lemma length_trim_left: "length (trim_left s) \<le> length s"
  unfolding trim_left_def by (metis trim_seqs_suffix length_append le_add2)

lemma length_TrimSpace: "length (TrimSpace s) \<le> length s"
  unfolding TrimSpace_def by (meson length_trim_left length_trim_right order_trans)

section \<open>Case conversion, prefixes, splitting\<close>

definition lower_char :: "char \<Rightarrow> char" where
  "lower_char c =
     (if 65 \<le> (of_char c :: nat) \<and> (of_char c :: nat) \<le> 90 then char_of ((of_char c :: nat) + 32)
      else c)"

definition ToLower :: "string \<Rightarrow> string" where
  "ToLower s = map lower_char s"

definition has_suffix :: "string \<Rightarrow> string \<Rightarrow> bool" where
  "has_suffix q s = has_prefix (rev q) (rev s)"

fun contains_sub :: "string \<Rightarrow> string \<Rightarrow> bool" where
  "contains_sub q [] = (q = [])"
| "contains_sub q (c # cs) = (has_prefix q (c # cs) \<or> contains_sub q cs)"

fun split_on :: "char \<Rightarrow> string \<Rightarrow> string list" where
  "split_on sep [] = [[]]"
| "split_on sep (c # cs) =
     (if c = sep then [] # split_on sep cs
      else (case split_on sep cs of [] \<Rightarrow> [[c]] | w # ws \<Rightarrow> (c # w) # ws))"

fun split_first :: "char \<Rightarrow> string \<Rightarrow> (string \<times> string) option" where
  "split_first sep [] = None"
| "split_first sep (c # cs) =
     (if c = sep then Some ([], cs) else map_option (\<lambda>(a, b). (c # a, b)) (split_first sep cs))"

definition trim_char_right :: "char \<Rightarrow> string \<Rightarrow> string" where
  "trim_char_right c s = rev (dropWhile (\<lambda>x. x = c) (rev s))"

definition trim_char :: "char \<Rightarrow> string \<Rightarrow> string" where
  "trim_char c s = trim_char_right c (dropWhile (\<lambda>x. x = c) s)"

lemma lower_char_idem [simp]: "lower_char (lower_char c) = lower_char c"
  by (auto simp: lower_char_def)

lemma ToLower_idem [simp]: "ToLower (ToLower s) = ToLower s"
  by (simp add: ToLower_def)

lemma split_on_nonempty [simp]: "split_on sep s \<noteq> []"
  by (induction s) (auto split: list.splits)

lemma split_on_no_sep: "sep \<notin> set s \<Longrightarrow> split_on sep s = [s]"
  by (induction s) auto

lemma split_on_append: "sep \<notin> set a \<Longrightarrow> split_on sep (a @ sep # b) = a # split_on sep b"
  by (induction a) auto

lemma split_first_append: "sep \<notin> set a \<Longrightarrow> split_first sep (a @ sep # b) = Some (a, b)"
  by (induction a) auto

section \<open>strconv: decimal integers\<close>

definition digit_char :: "nat \<Rightarrow> char" where
  "digit_char d = char_of (48 + d)"

definition digit_val :: "char \<Rightarrow> nat option" where
  "digit_val c =
     (if 48 \<le> (of_char c :: nat) \<and> (of_char c :: nat) \<le> 57 then Some (of_char c - 48) else None)"

fun format_nat :: "nat \<Rightarrow> string" where
  "format_nat n = (if n < 10 then [digit_char n] else format_nat (n div 10) @ [digit_char (n mod 10)])"

declare format_nat.simps [simp del]

text \<open>\<open>strconv.FormatInt(n, 10)\<close>.\<close>

definition FormatInt :: "int \<Rightarrow> string" where
  "FormatInt n = (if n < 0 then CHR ''-'' # format_nat (nat (- n)) else format_nat (nat n))"

fun parse_digits :: "nat \<Rightarrow> string \<Rightarrow> nat option" where
  "parse_digits acc [] = Some acc"
| "parse_digits acc (c # cs) =
     (case digit_val c of None \<Rightarrow> None | Some d \<Rightarrow> parse_digits (10 * acc + d) cs)"

definition parse_nat :: "string \<Rightarrow> nat option" where
  "parse_nat s = (if s = [] then None else parse_digits 0 s)"

text \<open>
  \<open>strconv.ParseInt(s, 10, 64)\<close>: an optional sign, decimal digits, in the range of an
  \<open>int64\<close>; \<open>None\<close> stands for the error.
\<close>

definition ParseInt :: "string \<Rightarrow> int option" where
  "ParseInt s =
     (case s of
        [] \<Rightarrow> None
      | c # cs \<Rightarrow>
          (case (if c = CHR ''-'' then map_option (\<lambda>n. - int n) (parse_nat cs)
                 else if c = CHR ''+'' then map_option int (parse_nat cs)
                 else map_option int (parse_nat s)) of
             None \<Rightarrow> None
           | Some v \<Rightarrow> if - (2 ^ 63) \<le> v \<and> v < 2 ^ 63 then Some v else None))"

lemma digit_val_char [simp]: "d < 10 \<Longrightarrow> digit_val (digit_char d) = Some d"
  by (simp add: digit_val_def digit_char_def)

lemma parse_digits_append:
  "parse_digits acc (xs @ ys) = (case parse_digits acc xs of None \<Rightarrow> None | Some v \<Rightarrow> parse_digits v ys)"
  by (induction xs arbitrary: acc) (auto split: option.splits)

lemma parse_format_nat: "parse_digits 0 (format_nat n) = Some n"
proof (induction n rule: format_nat.induct)
  case (1 n)
  show ?case
  proof (cases "n < 10")
    case True
    then show ?thesis by (simp add: format_nat.simps [of n])
  next
    case False
    with 1 show ?thesis by (simp add: format_nat.simps [of n] parse_digits_append)
  qed
qed

lemma format_nat_nonempty [simp]: "format_nat n \<noteq> []"
  by (subst format_nat.simps) simp

lemma format_nat_digits: "c \<in> set (format_nat n) \<Longrightarrow> \<exists>d<10. c = digit_char d"
proof (induction n rule: format_nat.induct)
  case (1 n)
  show ?case
  proof (cases "n < 10")
    case True
    with "1.prems" show ?thesis by (auto simp: format_nat.simps [of n])
  next
    case False
    then have "c \<in> set (format_nat (n div 10)) \<or> c = digit_char (n mod 10)"
      using "1.prems" by (subst (asm) format_nat.simps) auto
    then show ?thesis using "1.IH" False by (metis mod_less_divisor zero_less_numeral)
  qed
qed

lemma digit_char_of: "d < 10 \<Longrightarrow> of_char (digit_char d) = 48 + d"
  by (simp add: digit_char_def)

lemma digit_char_sep:
  "d < 10 \<Longrightarrow> digit_char d \<noteq> CHR ''-''" "d < 10 \<Longrightarrow> digit_char d \<noteq> CHR ''+''"
  "d < 10 \<Longrightarrow> digit_char d \<noteq> CHR '':''"
  using digit_char_of by force+

lemma format_nat_no_colon: "CHR '':'' \<notin> set (format_nat n)"
  using format_nat_digits digit_char_sep(3) by metis

lemma FormatInt_no_colon: "CHR '':'' \<notin> set (FormatInt n)"
  by (auto simp: FormatInt_def format_nat_no_colon)

lemma digit_char_not_slash: "d < 10 \<Longrightarrow> digit_char d \<noteq> CHR ''/''"
  using digit_char_of by force

lemma FormatInt_no_slash: "CHR ''/'' \<notin> set (FormatInt n)"
  using format_nat_digits digit_char_not_slash by (auto simp: FormatInt_def) metis+

lemma format_nat_inject: "format_nat m = format_nat n \<Longrightarrow> m = n"
  by (metis option.inject parse_format_nat)

lemma format_nat_no_dash: "format_nat n \<noteq> CHR ''-'' # cs"
  by (metis digit_char_sep(1) format_nat_digits list.set_intros(1))

lemma FormatInt_inject: "FormatInt m = FormatInt n \<longleftrightarrow> m = n"
proof
  assume "FormatInt m = FormatInt n"
  then show "m = n"
    using format_nat_inject [of "nat (- m)" "nat (- n)"] format_nat_inject [of "nat m" "nat n"]
      format_nat_no_dash [of "nat m"] format_nat_no_dash [of "nat n"]
    by (auto simp: FormatInt_def split: if_splits) (metis format_nat_no_dash)+
qed simp

lemma ParseInt_FormatInt:
  assumes "- (2 ^ 63) \<le> n" and "n < 2 ^ 63"
  shows "ParseInt (FormatInt n) = Some n"
proof (cases "n < 0")
  case True
  with assms show ?thesis
    by (simp add: FormatInt_def ParseInt_def parse_nat_def parse_format_nat)
next
  case False
  obtain c cs where f: "format_nat (nat n) = c # cs"
    by (cases "format_nat (nat n)") simp_all
  then obtain d where d: "d < 10" "c = digit_char d"
    using format_nat_digits [of c "nat n"] by auto
  with False assms f show ?thesis
    using parse_format_nat [of "nat n"] digit_char_sep [of d]
    by (simp add: FormatInt_def ParseInt_def parse_nat_def)
qed

section \<open>Slugs\<close>

definition is_alnum_lower :: "char \<Rightarrow> bool" where
  "is_alnum_lower c =
     (let n = (of_char c :: nat) in (97 \<le> n \<and> n \<le> 122) \<or> (48 \<le> n \<and> n \<le> 57))"

text \<open>
  The matcher of \<open>^[a-z0-9]+(?:-[a-z0-9]+)*$\<close>. The flag says whether the current segment
  has a character already.
\<close>

fun slug_match :: "bool \<Rightarrow> string \<Rightarrow> bool" where
  "slug_match seen [] = seen"
| "slug_match seen (c # cs) =
     (if is_alnum_lower c then slug_match True cs
      else if c = CHR ''-'' \<and> seen then slug_match False cs else False)"

definition slug_pattern :: "string \<Rightarrow> bool" where
  "slug_pattern s = slug_match False s"

fun join_dash :: "string list \<Rightarrow> string" where
  "join_dash [] = []"
| "join_dash [w] = w"
| "join_dash (w # ws) = w @ CHR ''-'' # join_dash ws"

definition slug_segment :: "string \<Rightarrow> bool" where
  "slug_segment w \<longleftrightarrow> w \<noteq> [] \<and> list_all is_alnum_lower w"

lemma slug_match_segment:
  "list_all is_alnum_lower w \<Longrightarrow> slug_match seen (w @ s) = slug_match (seen \<or> w \<noteq> []) s"
  by (induction w arbitrary: seen) auto

lemma dash_not_alnum [simp]: "\<not> is_alnum_lower (CHR ''-'')"
  by (simp add: is_alnum_lower_def)

lemma slug_match_join:
  "ws \<noteq> [] \<Longrightarrow> list_all slug_segment ws \<Longrightarrow> slug_match False (join_dash ws)"
proof (induction ws rule: join_dash.induct)
  case (2 w)
  then show ?case using slug_match_segment [of w False "[]"] by (simp add: slug_segment_def)
next
  case (3 w v vs)
  then show ?case
    using slug_match_segment [of w False "CHR ''-'' # join_dash (v # vs)"]
    by (simp add: slug_segment_def)
qed simp

lemma join_dash_Cons_char:
  "\<exists>ws. xs = w # ws \<Longrightarrow> join_dash ((c # hd xs) # tl xs) = c # join_dash xs"
  by (cases xs rule: join_dash.cases) auto

lemma slug_match_decompose:
  "slug_match seen s \<Longrightarrow>
    \<exists>w ws. s = join_dash (w # ws) \<and> list_all is_alnum_lower w \<and> (w = [] \<longrightarrow> seen) \<and>
      list_all slug_segment ws"
proof (induction s arbitrary: seen)
  case Nil
  then show ?case by (intro exI [of _ "[]"]) simp
next
  case (Cons c cs)
  show ?case
  proof (cases "is_alnum_lower c")
    case True
    with Cons obtain w ws where h: "cs = join_dash (w # ws)" "list_all is_alnum_lower w"
      "list_all slug_segment ws" by fastforce
    then have "c # cs = join_dash ((c # w) # ws)"
      using join_dash_Cons_char [of "w # ws" w c] by simp
    with h True show ?thesis
      by (intro exI [of _ "c # w"] exI [of _ ws]) simp
  next
    case False
    with Cons.prems have c: "c = CHR ''-''" "seen" "slug_match False cs"
      by (auto split: if_splits)
    from Cons.IH [OF c(3)] obtain w ws where h: "cs = join_dash (w # ws)"
      "list_all is_alnum_lower w" "w \<noteq> []" "list_all slug_segment ws" by auto
    then have "c # cs = join_dash ([] # w # ws)" using c by simp
    moreover have "list_all slug_segment (w # ws)" using h by (simp add: slug_segment_def)
    ultimately show ?thesis using c(2) by (metis list.pred_inject(1))
  qed
qed

lemma slug_pattern_iff:
  "slug_pattern s \<longleftrightarrow> (\<exists>ws. ws \<noteq> [] \<and> list_all slug_segment ws \<and> s = join_dash ws)"
proof
  assume "slug_pattern s"
  then show "\<exists>ws. ws \<noteq> [] \<and> list_all slug_segment ws \<and> s = join_dash ws"
    unfolding slug_pattern_def using slug_match_decompose [of False s]
    by (metis list.pred_inject(2) list.distinct(1) slug_segment_def)
qed (auto simp: slug_pattern_def slug_match_join)

lemma slug_pattern_nonempty: "slug_pattern s \<Longrightarrow> s \<noteq> []"
  by (auto simp: slug_pattern_def)

text \<open>\<open>[^a-z0-9-]+\<close> replaced by the empty string, \<open>-+\<close> by one dash, spaces by dashes.\<close>

definition remove_non_slug :: "string \<Rightarrow> string" where
  "remove_non_slug s = filter (\<lambda>c. is_alnum_lower c \<or> c = CHR ''-'') s"

fun collapse_dashes :: "string \<Rightarrow> string" where
  "collapse_dashes (a # b # cs) =
     (if a = CHR ''-'' \<and> b = CHR ''-'' then collapse_dashes (b # cs)
      else a # collapse_dashes (b # cs))"
| "collapse_dashes s = s"

definition spaces_to_dashes :: "string \<Rightarrow> string" where
  "spaces_to_dashes s = map (\<lambda>c. if c = CHR '' '' then CHR ''-'' else c) s"

text \<open>The pattern without segments: its characters, no double dash, no dash at an end.\<close>

definition slug_char :: "char \<Rightarrow> bool" where
  "slug_char c \<longleftrightarrow> is_alnum_lower c \<or> c = CHR ''-''"

fun no_double_dash :: "string \<Rightarrow> bool" where
  "no_double_dash (a # b # cs) \<longleftrightarrow> \<not> (a = CHR ''-'' \<and> b = CHR ''-'') \<and> no_double_dash (b # cs)"
| "no_double_dash s \<longleftrightarrow> True"

lemma slug_match_iff:
  "slug_match seen s \<longleftrightarrow> list_all slug_char s \<and> no_double_dash s \<and> (s = [] \<longrightarrow> seen) \<and>
    (s \<noteq> [] \<longrightarrow> last s \<noteq> CHR ''-'') \<and> (\<not> seen \<longrightarrow> s \<noteq> [] \<and> hd s \<noteq> CHR ''-'')"
proof (induction s arbitrary: seen)
  case Nil
  then show ?case by simp
next
  case (Cons c cs)
  show ?case
  proof (cases "is_alnum_lower c")
    case True
    then have c: "c \<noteq> CHR ''-''" using dash_not_alnum by blast
    show ?thesis
    proof (cases cs)
      case (Cons a as)
      then show ?thesis using Cons.IH [of True] True c by (simp add: slug_char_def)
    qed (use True c in \<open>simp add: slug_char_def\<close>)
  next
    case False
    show ?thesis
    proof (cases cs)
      case (Cons a as)
      then show ?thesis using Cons.IH [of False] False
        by (cases "c = CHR ''-''"; cases seen; cases "as = []") (simp_all add: slug_char_def, blast)
    qed (use False in \<open>simp add: slug_char_def\<close>)
  qed
qed

lemma no_double_dash_collapse: "no_double_dash (collapse_dashes s)"
proof -
  have "no_double_dash (collapse_dashes s) \<and> (s \<noteq> [] \<longrightarrow> collapse_dashes s \<noteq> [] \<and>
    hd (collapse_dashes s) = hd s)"
  proof (induction s rule: collapse_dashes.induct)
    case (1 a b cs)
    then show ?case by (cases "collapse_dashes (b # cs)") auto
  qed auto
  then show ?thesis by simp
qed

lemma set_collapse_dashes: "set (collapse_dashes s) = set s"
  by (induction s rule: collapse_dashes.induct) auto

lemma no_double_dash_append: "no_double_dash (xs @ ys) \<Longrightarrow> no_double_dash xs \<and> no_double_dash ys"
  by (induction xs rule: no_double_dash.induct; cases ys) simp_all

lemma trim_char_infix: "\<exists>a b. s = a @ trim_char c s @ b"
proof -
  define t where "t = dropWhile (\<lambda>x. x = c) s"
  have "s = takeWhile (\<lambda>x. x = c) s @ t" by (simp add: t_def)
  moreover have "rev t = takeWhile (\<lambda>x. x = c) (rev t) @ rev (trim_char_right c t)"
    by (simp add: trim_char_right_def)
  then have "t = trim_char_right c t @ rev (takeWhile (\<lambda>x. x = c) (rev t))"
    by (metis rev_append rev_rev_ident)
  ultimately show ?thesis unfolding trim_char_def t_def [symmetric] by metis
qed

lemma trim_char_ends:
  assumes "trim_char c s \<noteq> []"
  shows "hd (trim_char c s) \<noteq> c \<and> last (trim_char c s) \<noteq> c"
proof -
  define t where "t = dropWhile (\<lambda>x. x = c) s"
  define u where "u = dropWhile (\<lambda>x. x = c) (rev t)"
  have tr: "trim_char c s = rev u" by (simp add: trim_char_def trim_char_right_def t_def u_def)
  then have "u \<noteq> []" using assms by auto
  then have "hd u \<noteq> c" unfolding u_def by (rule hd_dropWhile)
  moreover have "last u = last (rev t)" unfolding u_def
    using \<open>u \<noteq> []\<close> u_def by (metis last_appendR takeWhile_dropWhile_id)
  moreover have "t \<noteq> []" using \<open>u \<noteq> []\<close> by (auto simp: u_def)
  then have "hd t \<noteq> c" unfolding t_def by (rule hd_dropWhile)
  ultimately show ?thesis using \<open>t \<noteq> []\<close> \<open>u \<noteq> []\<close> by (simp add: tr hd_rev last_rev)
qed

lemma trim_char_keeps: "x \<in> set s \<Longrightarrow> x \<noteq> c \<Longrightarrow> x \<in> set (trim_char c s)"
proof -
  have keep: "x \<in> set (dropWhile (\<lambda>x. x = c) t)" if "x \<in> set t" "x \<noteq> c" for t
    using that by (induction t) auto
  show "x \<in> set s \<Longrightarrow> x \<noteq> c \<Longrightarrow> x \<in> set (trim_char c s)"
    by (simp add: trim_char_def trim_char_right_def keep)
qed

text \<open>The slug derived from a name is empty or matches the pattern.\<close>

lemma derived_slug:
  assumes "list_all slug_char s"
  shows "trim_char CHR ''-'' (collapse_dashes s) = [] \<or> slug_pattern (trim_char CHR ''-'' (collapse_dashes s))"
proof (cases "trim_char CHR ''-'' (collapse_dashes s) = []")
  case False
  define w where "w = trim_char CHR ''-'' (collapse_dashes s)"
  obtain a b where ab: "collapse_dashes s = a @ w @ b" unfolding w_def using trim_char_infix by blast
  have "set w \<subseteq> set s" using arg_cong [OF ab, of set] by (auto simp: set_collapse_dashes)
  then have "list_all slug_char w" using assms by (auto simp: list_all_iff)
  moreover have "no_double_dash w"
    using no_double_dash_collapse [of s] ab no_double_dash_append by metis
  moreover have "hd w \<noteq> CHR ''-'' \<and> last w \<noteq> CHR ''-''"
    using trim_char_ends [of "CHR ''-''"] False by (simp add: w_def)
  ultimately show ?thesis using False by (simp add: slug_pattern_def slug_match_iff w_def)
qed simp

lemma strip_one_heads:
  "list_all (\<lambda>q. q \<noteq> [] \<and> hd q \<noteq> c) qs \<Longrightarrow> strip_one qs (c # cs) = None"
  by (induction qs) (auto simp: neq_Nil_conv)

lemma space_seqs_not_slug:
  "list_all (\<lambda>q. q \<noteq> [] \<and> \<not> slug_char (hd q)) space_seqs"
  "list_all (\<lambda>q. q \<noteq> [] \<and> \<not> slug_char (hd q)) (map rev space_seqs)"
  by (simp_all add: space_seqs_def slug_char_def is_alnum_lower_def)

lemma slug_char_heads:
  assumes "slug_char c"
  shows "list_all (\<lambda>q. q \<noteq> [] \<and> hd q \<noteq> c) space_seqs"
    and "list_all (\<lambda>q. q \<noteq> [] \<and> hd q \<noteq> c) (map rev space_seqs)"
  using space_seqs_not_slug assms unfolding list_all_iff by blast+

lemma TrimSpace_slug:
  assumes "slug_pattern s"
  shows "TrimSpace s = s"
proof -
  have s: "s \<noteq> []" "list_all slug_char s"
    using assms slug_pattern_nonempty unfolding slug_pattern_def slug_match_iff by blast+
  then have ends: "slug_char (hd s)" "slug_char (last s)"
    unfolding list_all_iff using hd_in_set [OF s(1)] last_in_set [OF s(1)] by blast+
  have "trim_left s = s"
    using s(1) strip_one_heads [OF slug_char_heads(1) [OF ends(1)], of "tl s"]
    by (simp add: trim_left_def trim_seqs_id)
  moreover have r: "rev s = last s # tl (rev s)"
    using s(1) by (metis hd_rev list.collapse rev_is_Nil_conv)
  have "strip_one (map rev space_seqs) (rev s) = None"
    by (subst r) (rule strip_one_heads [OF slug_char_heads(2) [OF ends(2)]])
  then have "trim_right s = s" by (simp add: trim_right_def trim_seqs_id)
  ultimately show ?thesis by (simp add: TrimSpace_def)
qed

lemma ToLower_slug: "list_all slug_char s \<Longrightarrow> ToLower s = s"
  unfolding ToLower_def
  by (rule map_idI) (auto simp: list_all_iff slug_char_def is_alnum_lower_def lower_char_def Let_def)

end
