(* ===== verification/Errors.thy ===== *)
theory Errors
  imports Go_Strings
begin

text \<open>
  Error values. Each Go package declares its sentinel errors with \<open>errors.New\<close>; a package
  becomes a datatype with one constructor per sentinel, and \<open>goerr\<close> is their union with the
  errors of the database driver: \<open>ENoRows\<close> is \<open>pgx.ErrNoRows\<close>, \<open>EPg\<close> a
  \<open>pgconn.PgError\<close> with its SQLSTATE and constraint, \<open>EConn\<close> a failed connection. The code
  never wraps errors, so \<open>errors.Is\<close> is equality.
\<close>

datatype authz_err = Authz_Forbidden

datatype workspaces_err =
    Ws_NotFound | Ws_NotMember | Ws_SlugTaken | Ws_InvalidSlug | Ws_Forbidden | Ws_InvalidRole
  | Ws_CannotModifyOwner | Ws_UserNotFound | Ws_AlreadyMember | Ws_NameRequired | Ws_EmailRequired

datatype channels_err =
    Ch_ChannelNotFound | Ch_AlreadyMember | Ch_NotMember | Ch_OwnerCannotLeave
  | Ch_NotWorkspaceMember | Ch_DuplicateChannelName | Ch_Forbidden

datatype chat_err =
    Chat_NotMember | Chat_NotWorkspaceMember | Chat_ChannelNotFound | Chat_Forbidden
  | Chat_EmptyContent | Chat_MessageTooLong

datatype attachments_err =
    Att_NotFound | Att_Forbidden | Att_StorageUnavailable | Att_InvalidFile | Att_FileTooLarge
  | Att_MimeNotAllowed | Att_ObjectNotFound | Att_ObjectKeyMismatch

datatype calls_err =
    Calls_NotFound | Calls_NotMember | Calls_NotParticipant | Calls_CallEnded
  | Calls_CallAlreadyActive | Calls_CallFull | Calls_ChannelNotFound | Calls_RecordingActive
  | Calls_RecordingNotFound | Calls_InvalidMode

datatype billing_err =
    Bil_NotFound | Bil_Forbidden | Bil_InvalidPlan | Bil_StripeNotConfigured
  | Bil_PlanStripePriceMissing | Bil_MessageLimit | Bil_SubscriptionInactive
  | Bil_WebhooksNotAllowed | Bil_VideoNotAllowed | Bil_VideoMinutesLimit | Bil_AppLimit
  | Bil_InvalidRequest | Bil_PlanInUse | Bil_SlugTaken | Bil_InvalidSlug | Bil_MissingMetadata
  | Bil_BadMetadata

datatype notifications_err = Not_NotFound | Not_InvalidType

datatype apps_err =
    Apps_NotFound | Apps_Forbidden | Apps_SlugTaken | Apps_InvalidSlug | Apps_NameRequired
  | Apps_InvalidKey | Apps_KeyNotFound | Apps_WebhookNotFound | Apps_WebhookURLRequired
  | Apps_InvalidOrigin | Apps_TooManyOrigins

datatype devapi_err =
    Dev_NotFound | Dev_InvalidRequest | Dev_ExternalIDTaken | Dev_UserNotFound
  | Dev_ChannelNotFound | Dev_EmptyContent | Dev_SandboxLimit | Dev_ChannelNameExists

datatype admin_err =
    Adm_Forbidden | Adm_NotFound | Adm_InvalidRole | Adm_SelfDemotion | Adm_SelfSuspend
  | Adm_InvalidRequest | Adm_KeyNotFound

datatype auth_err =
    Auth_EmailExists | Auth_InvalidCredentials | Auth_InvalidToken | Auth_RegistrationFailed
  | Auth_AccountSuspended | Auth_TokenInvalid | Auth_TokenRevoked | Auth_TokenExpired

datatype users_err =
    Usr_NotFound | Usr_UsernameRequired | Usr_UsernameTaken | Usr_InvalidPassword
  | Usr_PasswordRequired | Usr_PasswordTooShort

datatype presence_err = Pres_InvalidStatus | Pres_NotWorkspaceMember

datatype origins_err = Org_OriginRequired | Org_InvalidOrigin | Org_TooManyOrigins

datatype goerr =
    ENoRows
  | EConn
  | EPg string string
  | EExternal string
  | EAuthz authz_err
  | EWorkspaces workspaces_err
  | EChannels channels_err
  | EChat chat_err
  | EAttachments attachments_err
  | ECalls calls_err
  | EBilling billing_err
  | ENotifications notifications_err
  | EApps apps_err
  | EDev devapi_err
  | EAdmin admin_err
  | EAuth auth_err
  | EUsers users_err
  | EPresence presence_err
  | EOrigins origins_err

text \<open>SQLSTATE of the constraint classes.\<close>

abbreviation unique_violation :: "string \<Rightarrow> goerr" where
  "unique_violation c \<equiv> EPg ''23505'' c"

abbreviation fk_violation :: "string \<Rightarrow> goerr" where
  "fk_violation c \<equiv> EPg ''23503'' c"

abbreviation check_violation :: "string \<Rightarrow> goerr" where
  "check_violation c \<equiv> EPg ''23514'' c"

abbreviation too_long :: goerr where
  "too_long \<equiv> EPg ''22001'' []"

text \<open>\<open>errors.As(err, &pgErr) && pgErr.Code == "23505"\<close>, as several packages write it.\<close>

fun is_unique_violation :: "goerr \<Rightarrow> bool" where
  "is_unique_violation (EPg code c) = (code = ''23505'')"
| "is_unique_violation e = False"

text \<open>\<open>if errors.Is(err, pgx.ErrNoRows) { return a }; return err\<close>.\<close>

definition no_rows_as :: "goerr \<Rightarrow> goerr \<Rightarrow> goerr" where
  "no_rows_as a e = (if e = ENoRows then a else e)"

end
