(* ===== verification/Schema.thy ===== *)
theory Schema
  imports Errors
begin

text \<open>
  The database: one record per row type of \<open>internal/db/models.go\<close> and the record \<open>db\<close> of all
  tables. A table is the list of its rows in insertion order; \<open>nextid\<close> holds the sequences
  behind the \<open>BIGSERIAL\<close> keys. Times are microseconds since the epoch, the resolution of
  \<open>TIMESTAMPTZ\<close>; a nullable column is an \<open>option\<close>.
\<close>

section \<open>Go values of type any\<close>

text \<open>
  A float64 is \<open>m * 2 ^ e\<close> with integers \<open>m\<close> and \<open>e\<close>; \<open>VTime t\<close> is the RFC 3339 text of a time.
\<close>

datatype gov =
    VNull
  | VBool bool
  | VInt int
  | VFloat int int
  | VStr string
  | VTime int
  | VList "gov list"
  | VObj "(string \<times> gov) list"

type_synonym gomap = "(string \<times> gov) list"

section \<open>Rows\<close>

record user_row =
  u_id :: int
  u_email :: string
  u_username :: string
  u_password_hash :: string
  u_created_at :: int
  u_platform_role :: string
  u_suspended_at :: "int option"
  u_tokens_invalidated_at :: "int option"
  u_stripe_customer_id :: "string option"

record workspace_row =
  w_id :: int
  w_name :: string
  w_slug :: string
  w_owner_id :: int
  w_created_at :: int
  w_updated_at :: "int option"

record workspace_member_row =
  wm_id :: int
  wm_workspace_id :: int
  wm_user_id :: int
  wm_role :: string
  wm_created_at :: int
  wm_updated_at :: "int option"

record channel_row =
  ch_id :: int
  ch_name :: string
  ch_owner_id :: int
  ch_created_at :: int
  ch_updated_at :: "int option"
  ch_workspace_id :: int
  ch_is_read_only :: bool

record channel_member_row =
  cm_id :: int
  cm_channel_id :: int
  cm_user_id :: int
  cm_created_at :: int
  cm_updated_at :: "int option"

record channel_role_row =
  cr_id :: int
  cr_channel_id :: int
  cr_user_id :: int
  cr_role :: string
  cr_created_at :: int

record message_row =
  m_id :: int
  m_channel_id :: int
  m_sender_id :: int
  m_content :: string
  m_created_at :: int

record attachment_row =
  at_id :: int
  at_message_id :: int
  at_uploader_id :: int
  at_object_key :: string
  at_file_name :: string
  at_mime_type :: string
  at_size_bytes :: int
  at_created_at :: int

record notification_row =
  n_id :: int
  n_user_id :: int
  n_type :: string
  n_title :: string
  n_body :: string
  n_data :: gomap
  n_read_at :: "int option"
  n_created_at :: int

record call_row =
  c_id :: int
  c_channel_id :: int
  c_workspace_id :: int
  c_initiator_id :: int
  c_status :: string
  c_created_at :: int
  c_ended_at :: "int option"
  c_mode :: string

record participant_row =
  p_id :: int
  p_call_id :: int
  p_user_id :: int
  p_joined_at :: int
  p_left_at :: "int option"

record recording_row =
  r_id :: int
  r_call_id :: int
  r_started_by :: int
  r_started_at :: int
  r_ended_at :: "int option"
  r_metadata :: gomap

record app_row =
  a_id :: int
  a_name :: string
  a_slug :: string
  a_workspace_id :: int
  a_owner_id :: int
  a_created_at :: int
  a_allowed_origins :: "string list"
  a_sandbox_workspace_id :: int

record api_key_row =
  k_id :: int
  k_app_id :: int
  k_name :: string
  k_key_prefix :: string
  k_key_hash :: string
  k_is_sandbox :: bool
  k_created_at :: int
  k_revoked_at :: "int option"
  k_last_used_at :: "int option"
  k_expires_at :: "int option"

record app_user_row =
  au_id :: int
  au_app_id :: int
  au_user_id :: int
  au_external_id :: string
  au_created_at :: int
  au_environment :: string

record webhook_row =
  wh_id :: int
  wh_app_id :: int
  wh_url :: string
  wh_events :: "string list"
  wh_secret :: string
  wh_disabled_at :: "int option"
  wh_created_at :: int

record idempotency_row =
  ik_id :: int
  ik_app_id :: int
  ik_key :: string
  ik_endpoint :: string
  ik_status_code :: int
  ik_response_body :: string
  ik_created_at :: int

record revoked_token_row =
  rt_jti :: string
  rt_user_id :: int
  rt_revoked_at :: int
  rt_expires_at :: int

record plan_row =
  pl_slug :: string
  pl_name :: string
  pl_price_cents :: int
  pl_stripe_price_id :: "string option"
  pl_messages_limit :: int
  pl_connections_limit :: int
  pl_retention_days :: int
  pl_webhooks_enabled :: bool
  pl_video_calls_enabled :: bool
  pl_moderation_enabled :: bool
  pl_created_at :: int
  pl_is_active :: bool
  pl_is_highlighted :: bool
  pl_sort_order :: int
  pl_description :: string
  pl_updated_at :: int
  pl_max_apps :: int
  pl_video_minutes_limit :: int
  pl_max_call_participants :: int

record subscription_row =
  s_id :: int
  s_user_id :: int
  s_plan_slug :: string
  s_status :: string
  s_stripe_customer_id :: "string option"
  s_stripe_subscription_id :: "string option"
  s_current_period_start :: "int option"
  s_current_period_end :: "int option"
  s_created_at :: int
  s_updated_at :: int

record usage_row =
  uc_id :: int
  uc_app_id :: int
  uc_period_month :: int
  uc_messages_count :: int
  uc_updated_at :: int
  uc_video_minutes :: int

record setting_row =
  ps_key :: string
  ps_value :: string
  ps_updated_at :: int

record audit_row =
  al_id :: int
  al_user_id :: "int option"
  al_app_id :: "int option"
  al_action :: string
  al_method :: string
  al_path :: string
  al_ip_address :: "string option"
  al_status_code :: "int option"
  al_created_at :: int

datatype tbl =
    TUsers | TWorkspaces | TWorkspaceMembers | TChannels | TChannelMembers | TChannelRoles
  | TMessages | TNotifications | TCalls | TParticipants | TRecordings | TApps | TApiKeys
  | TAppUsers | TWebhooks | TIdempotency | TSubscriptions | TUsage | TAttachments | TAudit

record db =
  users :: "user_row list"
  workspaces :: "workspace_row list"
  workspace_members :: "workspace_member_row list"
  channels :: "channel_row list"
  channel_members :: "channel_member_row list"
  channel_roles :: "channel_role_row list"
  messages :: "message_row list"
  attachments :: "attachment_row list"
  notifications :: "notification_row list"
  calls :: "call_row list"
  call_participants :: "participant_row list"
  call_recordings :: "recording_row list"
  apps :: "app_row list"
  api_keys :: "api_key_row list"
  app_users :: "app_user_row list"
  webhooks :: "webhook_row list"
  idempotency_keys :: "idempotency_row list"
  revoked_tokens :: "revoked_token_row list"
  plans :: "plan_row list"
  user_subscriptions :: "subscription_row list"
  usage_counters :: "usage_row list"
  platform_settings :: "setting_row list"
  audit_logs :: "audit_row list"
  nextid :: "tbl \<Rightarrow> int"

definition empty_db :: db where
  "empty_db =
     \<lparr>users = [], workspaces = [], workspace_members = [], channels = [], channel_members = [],
      channel_roles = [], messages = [], attachments = [], notifications = [], calls = [], call_participants = [],
      call_recordings = [], apps = [], api_keys = [], app_users = [], webhooks = [],
      idempotency_keys = [], revoked_tokens = [], plans = [], user_subscriptions = [],
      usage_counters = [], platform_settings = [], audit_logs = [], nextid = (\<lambda>_. 1)\<rparr>"

section \<open>Calendar\<close>

text \<open>
  \<open>date_trunc('month', NOW())::date\<close> in UTC, as the number of months since year 0: the civil
  date of a day count, in the proleptic Gregorian calendar, with years that start in March.
\<close>

definition month_of :: "int \<Rightarrow> int" where
  "month_of t =
     (let z = t div 86400000000 + 719468;
          era = z div 146097;
          doe = z mod 146097;
          yoe = (doe - doe div 1460 + doe div 36524 - doe div 146096) div 365;
          doy = doe - (365 * yoe + yoe div 4 - yoe div 100);
          mp = (5 * doy + 2) div 153;
          m = (if mp < 10 then mp + 3 else mp - 9);
          y = yoe + era * 400 + (if m \<le> 2 then 1 else 0)
      in 12 * y + (m - 1))"

text \<open>The number of characters of a UTF-8 text, which \<open>VARCHAR(n)\<close> bounds.\<close>

definition char_count :: "string \<Rightarrow> nat" where
  "char_count s = length (filter (\<lambda>c. (of_char c :: nat) < 128 \<or> 192 \<le> (of_char c :: nat)) s)"

end
