(* ===== verification/World.thy ===== *)
theory World
  imports Schema
begin

text \<open>
  Programs over the database. Every statement the engine sends runs in its own transaction, so
  a service method is a sequence of statements with Go code between them. The world is the
  database, the clock, the events sent to other components, and a tape that decides the fate of
  each statement: \<open>Done\<close>, \<open>Refused\<close> (the statement never ran) or \<open>Lost\<close> (it ran and its reply
  was lost), with the time that passed before it. A statement whose tape is used up succeeds.
\<close>

datatype fate = Done | Refused | Lost

datatype effect =
    Publish string int int gomap      \<comment> \<open>type, workspace, channel, payload\<close>
  | Deliver int gomap                 \<comment> \<open>notification.new to a user\<close>
  | Webhook webhook_row string gomap  \<comment> \<open>hook, event, data\<close>

record world =
  db :: db
  now :: int
  tape :: "(fate \<times> int) list"
  outbox :: "effect list"

text \<open>A statement reads \<open>NOW()\<close> and the tables, and returns rows or an error.\<close>

type_synonym 'a sql = "int \<Rightarrow> db \<Rightarrow> (goerr + 'a) \<times> db"
type_synonym 'a prog = "world \<Rightarrow> (goerr + 'a) \<times> world"

definition world_of :: "db \<Rightarrow> int \<Rightarrow> world" where
  "world_of d t = \<lparr>db = d, now = t, tape = [], outbox = []\<rparr>"

section \<open>Program combinators\<close>

definition ret :: "'a \<Rightarrow> 'a prog" where
  "ret x s = (Inr x, s)"

definition fail :: "goerr \<Rightarrow> 'a prog" where
  "fail e s = (Inl e, s)"

text \<open>\<open>x, err := q(); if err != nil { h(err) }; k(x)\<close>.\<close>

definition attempt :: "'a prog \<Rightarrow> (goerr \<Rightarrow> 'b prog) \<Rightarrow> ('a \<Rightarrow> 'b prog) \<Rightarrow> 'b prog" where
  "attempt q h k s = (case q s of (Inl e, s1) \<Rightarrow> h e s1 | (Inr x, s1) \<Rightarrow> k x s1)"

text \<open>\<open>if err != nil { return err }\<close>.\<close>

definition andthen :: "'a prog \<Rightarrow> ('a \<Rightarrow> 'b prog) \<Rightarrow> 'b prog" where
  "andthen q k = attempt q fail k"

text \<open>\<open>_ = q()\<close>: the error is dropped.\<close>

definition ignoring :: "'a prog \<Rightarrow> unit prog" where
  "ignoring q = attempt q (\<lambda>_. ret ()) (\<lambda>_. ret ())"

definition clock :: "(int \<Rightarrow> 'b prog) \<Rightarrow> 'b prog" where
  "clock k s = k (now s) s"

definition emit :: "effect \<Rightarrow> unit prog" where
  "emit e s = (Inr (), s\<lparr>outbox := outbox s @ [e]\<rparr>)"

text \<open>A call into code outside the program: its result is given.\<close>

definition external :: "goerr + 'a \<Rightarrow> 'a prog" where
  "external r s = (r, s)"

text \<open>The bridges of \<open>internal/realtime\<close> hand events to \<open>hub.Publish\<close>.\<close>

definition hub_publish :: "string \<Rightarrow> int \<Rightarrow> int \<Rightarrow> gomap \<Rightarrow> unit prog" where
  "hub_publish event ws ch payload = emit (Publish event ws ch payload)"

text \<open>A \<open>for\<close> loop whose body returns from the method at the first error.\<close>

fun for_each :: "'a list \<Rightarrow> ('a \<Rightarrow> unit prog) \<Rightarrow> unit prog" where
  "for_each [] f = ret ()"
| "for_each (x # xs) f = andthen (f x) (\<lambda>_. for_each xs f)"

definition exec :: "'a sql \<Rightarrow> 'a prog" where
  "exec q s =
     (case tape s of
        [] \<Rightarrow> (case q (now s) (db s) of (r, d) \<Rightarrow> (r, s\<lparr>db := d\<rparr>))
      | (f, dt) # rest \<Rightarrow>
          (let s1 = s\<lparr>now := now s + dt, tape := rest\<rparr>
           in case f of
                Done \<Rightarrow> (case q (now s1) (db s1) of (r, d) \<Rightarrow> (r, s1\<lparr>db := d\<rparr>))
              | Refused \<Rightarrow> (Inl EConn, s1)
              | Lost \<Rightarrow> (Inl EConn, s1\<lparr>db := snd (q (now s1) (db s1))\<rparr>)))"

section \<open>Statement forms\<close>

definition select :: "(db \<Rightarrow> 'a) \<Rightarrow> 'a sql" where
  "select f t d = (Inr (f d), d)"

definition select_one :: "(db \<Rightarrow> 'a option) \<Rightarrow> 'a sql" where
  "select_one f t d = (case f d of None \<Rightarrow> (Inl ENoRows, d) | Some r \<Rightarrow> (Inr r, d))"

fun first_violation :: "(bool \<times> goerr) list \<Rightarrow> goerr option" where
  "first_violation [] = None"
| "first_violation ((b, e) # vs) = (if b then Some e else first_violation vs)"

text \<open>
  \<open>INSERT ... RETURNING *\<close>: the sequence advances even when a constraint refuses the row.
\<close>

definition insert_into ::
  "tbl \<Rightarrow> (('r list \<Rightarrow> 'r list) \<Rightarrow> db \<Rightarrow> db) \<Rightarrow> (db \<Rightarrow> (bool \<times> goerr) list) \<Rightarrow> (int \<Rightarrow> int \<Rightarrow> 'r) \<Rightarrow> 'r sql"
where
  "insert_into tb upd viol mk t d =
     (let r = mk (nextid d tb) t;
          d1 = d\<lparr>nextid := (nextid d)(tb := nextid d tb + 1)\<rparr>
      in case first_violation (viol d) of
           Some e \<Rightarrow> (Inl e, d1)
         | None \<Rightarrow> (Inr r, upd (\<lambda>rows. rows @ [r]) d1))"

text \<open>\<open>UPDATE ... RETURNING *\<close> with \<open>:one\<close>: no row is \<open>pgx.ErrNoRows\<close>.\<close>

definition update_one ::
  "(db \<Rightarrow> 'r list) \<Rightarrow> (('r list \<Rightarrow> 'r list) \<Rightarrow> db \<Rightarrow> db) \<Rightarrow> ('r \<Rightarrow> bool) \<Rightarrow> (int \<Rightarrow> 'r \<Rightarrow> 'r) \<Rightarrow> 'r sql"
where
  "update_one get upd p g t d =
     (case find p (get d) of
        None \<Rightarrow> (Inl ENoRows, d)
      | Some r \<Rightarrow> (Inr (g t r), upd (update_where p (g t)) d))"

definition update_all ::
  "(('r list \<Rightarrow> 'r list) \<Rightarrow> db \<Rightarrow> db) \<Rightarrow> ('r \<Rightarrow> bool) \<Rightarrow> (int \<Rightarrow> 'r \<Rightarrow> 'r) \<Rightarrow> unit sql"
where
  "update_all upd p g t d = (Inr (), upd (update_where p (g t)) d)"

definition delete_all :: "(('r list \<Rightarrow> 'r list) \<Rightarrow> db \<Rightarrow> db) \<Rightarrow> ('r \<Rightarrow> bool) \<Rightarrow> unit sql" where
  "delete_all upd p t d = (Inr (), upd (delete_where p) d)"

text \<open>A statement that a constraint may refuse as a whole.\<close>

definition guarded :: "(db \<Rightarrow> (bool \<times> goerr) list) \<Rightarrow> 'a sql \<Rightarrow> 'a sql" where
  "guarded viol q t d =
     (case first_violation (viol d) of Some e \<Rightarrow> (Inl e, d) | None \<Rightarrow> q t d)"

declare select_def [sql_defs] select_one_def [sql_defs] insert_into_def [sql_defs]
  update_one_def [sql_defs] update_all_def [sql_defs] delete_all_def [sql_defs]
  guarded_def [sql_defs]

section \<open>Running a statement\<close>

lemma exec_quiet:
  "tape s = [] \<Longrightarrow> exec q s = (fst (q (now s) (db s)), s\<lparr>db := snd (q (now s) (db s))\<rparr>)"
  by (simp add: exec_def split: prod.splits)

lemma exec_cases:
  assumes "exec q s = (r, s')"
  shows "outbox s' = outbox s \<and>
    (q (now s') (db s) = (r, db s') \<or>
     (r = Inl EConn \<and> (db s' = db s \<or> db s' = snd (q (now s') (db s)))))"
  using assms
  by (auto simp: exec_def Let_def split: list.splits prod.splits fate.splits)

lemma exec_Inr:
  "exec q s = (Inr x, s') \<Longrightarrow> q (now s') (db s) = (Inr x, db s') \<and> outbox s' = outbox s"
  using exec_cases [of q s "Inr x" s'] by auto

lemma exec_error:
  "exec q s = (Inl e, s') \<Longrightarrow> e \<noteq> EConn \<Longrightarrow>
    q (now s') (db s) = (Inl e, db s') \<and> outbox s' = outbox s"
  using exec_cases [of q s "Inl e" s'] by auto

lemma exec_db: "\<exists>t. db (snd (exec q s)) = db s \<or> db (snd (exec q s)) = snd (q t (db s))"
proof (cases "exec q s")
  case (Pair r s')
  then show ?thesis using exec_cases [OF Pair] by (metis snd_conv)
qed

lemma outbox_exec [simp]: "outbox (snd (exec q s)) = outbox s"
  by (simp add: exec_def Let_def split: list.splits prod.splits fate.splits)

lemma tape_exec_quiet: "tape s = [] \<Longrightarrow> tape (snd (exec q s)) = []"
  by (simp add: exec_quiet)

section \<open>Inverting a run\<close>

lemma ret_eq [simp]: "ret x s = (r, s') \<longleftrightarrow> r = Inr x \<and> s' = s"
  by (auto simp: ret_def)

lemma fail_eq [simp]: "fail e s = (r, s') \<longleftrightarrow> r = Inl e \<and> s' = s"
  by (auto simp: fail_def)

lemma attempt_eq:
  "attempt q h k s = (r, s') \<longleftrightarrow>
    (\<exists>e s1. q s = (Inl e, s1) \<and> h e s1 = (r, s')) \<or> (\<exists>x s1. q s = (Inr x, s1) \<and> k x s1 = (r, s'))"
  by (auto simp: attempt_def split: prod.splits sum.splits)

lemma andthen_eq:
  "andthen q k s = (r, s') \<longleftrightarrow>
    (\<exists>e. q s = (Inl e, s') \<and> r = Inl e) \<or> (\<exists>x s1. q s = (Inr x, s1) \<and> k x s1 = (r, s'))"
  by (auto simp: andthen_def attempt_eq)

lemma andthen_Inr:
  "andthen q k s = (Inr y, s') \<longleftrightarrow> (\<exists>x s1. q s = (Inr x, s1) \<and> k x s1 = (Inr y, s'))"
  by (auto simp: andthen_eq)

lemma clock_eq [simp]: "clock k s = k (now s) s"
  by (simp add: clock_def)

lemma emit_eq [simp]: "emit e s = (r, s') \<longleftrightarrow> r = Inr () \<and> s' = s\<lparr>outbox := outbox s @ [e]\<rparr>"
  by (auto simp: emit_def)

lemma ignoring_eq: "ignoring q s = (r, s') \<longleftrightarrow> r = Inr () \<and> s' = snd (q s)"
  by (auto simp: ignoring_def attempt_def split: prod.splits sum.splits)

lemma andthen_ignoring: "andthen (ignoring q) k s = k () (snd (q s))"
  by (auto simp: andthen_def attempt_def ignoring_def ret_def split: prod.splits sum.splits)

lemmas prog_eqs = attempt_eq andthen_eq ignoring_eq

section \<open>Inverting the statement forms\<close>

lemma exec_select_Inr:
  "exec (select f) s = (Inr x, s') \<Longrightarrow> x = f (db s) \<and> db s' = db s \<and> outbox s' = outbox s"
  by (drule exec_Inr) (auto simp: select_def)

lemma exec_select_one_Inr:
  "exec (select_one f) s = (Inr x, s') \<Longrightarrow>
    f (db s) = Some x \<and> db s' = db s \<and> outbox s' = outbox s"
  by (drule exec_Inr) (auto simp: select_one_def split: option.splits)

lemma exec_select_one_NoRows:
  "exec (select_one f) s = (Inl ENoRows, s') \<Longrightarrow>
    f (db s) = None \<and> db s' = db s \<and> outbox s' = outbox s"
  by (drule exec_error) (auto simp: select_one_def split: option.splits)

lemma exec_insert_Inr:
  "exec (insert_into tb upd viol mk) s = (Inr r, s') \<Longrightarrow>
    r = mk (nextid (db s) tb) (now s') \<and> outbox s' = outbox s \<and>
    first_violation (viol (db s)) = None \<and>
    db s' = upd (\<lambda>rows. rows @ [r]) ((db s)\<lparr>nextid := (nextid (db s))(tb := nextid (db s) tb + 1)\<rparr>)"
  by (drule exec_Inr) (auto simp: insert_into_def Let_def split: option.splits)

text \<open>A refused insert changes the sequence only.\<close>

lemma insert_error:
  "insert_into tb upd viol mk t d = (Inl e, d') \<Longrightarrow>
    d' = d\<lparr>nextid := (nextid d)(tb := nextid d tb + 1)\<rparr>"
  by (auto simp: insert_into_def Let_def split: option.splits)

lemma exec_update_one_Inr:
  "exec (update_one get upd p g) s = (Inr r, s') \<Longrightarrow>
    outbox s' = outbox s \<and> (\<exists>r0. find p (get (db s)) = Some r0 \<and> r = g (now s') r0 \<and>
      db s' = upd (update_where p (g (now s'))) (db s))"
  by (drule exec_Inr) (auto simp: update_one_def split: option.splits)

lemma guarded_updateE [consumes 1]:
  assumes "guarded viol (update_one get upd p g) t d = (res, d')"
  obtains (same) "d' = d"
    | (updated) r where "first_violation (viol d) = None" and "r \<in> set (get d)" and "p r"
      and "d' = upd (update_where p (g t)) d" and "res = Inr (g t r)" and "find p (get d) = Some r"
  using assms
  by (cases "first_violation (viol d)"; cases "find p (get d)")
     (auto simp: guarded_def update_one_def dest: find_SomeD)

section \<open>The statement forms in a quiet world\<close>

lemma exec_delete_quiet:
  "tape s = [] \<Longrightarrow> exec (delete_all upd p) s = (Inr (), s\<lparr>db := upd (delete_where p) (db s)\<rparr>)"
  by (simp add: exec_quiet delete_all_def)

lemma exec_update_all_quiet:
  "tape s = [] \<Longrightarrow>
    exec (update_all upd p g) s = (Inr (), s\<lparr>db := upd (update_where p (g (now s))) (db s)\<rparr>)"
  by (simp add: exec_quiet update_all_def)

lemma exec_update_one_quiet:
  "tape s = [] \<Longrightarrow>
    exec (update_one get upd p g) s =
      (case find p (get (db s)) of
         None \<Rightarrow> (Inl ENoRows, s)
       | Some r \<Rightarrow> (Inr (g (now s) r), s\<lparr>db := upd (update_where p (g (now s))) (db s)\<rparr>))"
  by (simp add: exec_quiet update_one_def split: option.splits)

lemma exec_insert_quiet:
  "tape s = [] \<Longrightarrow>
    exec (insert_into tb upd viol mk) s =
      (let d = db s; r = mk (nextid d tb) (now s);
           d1 = d\<lparr>nextid := (nextid d)(tb := nextid d tb + 1)\<rparr>
       in case first_violation (viol d) of
            Some e \<Rightarrow> (Inl e, s\<lparr>db := d1\<rparr>)
          | None \<Rightarrow> (Inr r, s\<lparr>db := upd (\<lambda>rows. rows @ [r]) d1\<rparr>))"
  by (simp add: exec_quiet insert_into_def Let_def split: option.splits)

section \<open>Preservation\<close>

text \<open>
  \<open>preserves I m\<close>: the program keeps a property of the database, whatever its statements meet.
  \<open>leaves f m\<close>: it never changes the part \<open>f\<close> of the database.
\<close>

definition preserves :: "(db \<Rightarrow> bool) \<Rightarrow> 'a prog \<Rightarrow> bool" where
  "preserves I m \<longleftrightarrow> (\<forall>s. I (db s) \<longrightarrow> I (db (snd (m s))))"

definition leaves :: "(db \<Rightarrow> 'b) \<Rightarrow> 'a prog \<Rightarrow> bool" where
  "leaves f m \<longleftrightarrow> (\<forall>s. f (db (snd (m s))) = f (db s))"

lemma preservesD: "preserves I m \<Longrightarrow> I (db s) \<Longrightarrow> I (db (snd (m s)))"
  by (simp add: preserves_def)

lemma leavesD: "leaves f m \<Longrightarrow> f (db (snd (m s))) = f (db s)"
  by (simp add: leaves_def)

lemma leaves_run: "leaves f m \<Longrightarrow> m s = (r, s') \<Longrightarrow> f (db s') = f (db s)"
  by (metis leavesD snd_conv)

lemma preserves_run: "preserves I m \<Longrightarrow> m s = (r, s') \<Longrightarrow> I (db s) \<Longrightarrow> I (db s')"
  by (metis preservesD snd_conv)

lemma preserves_ret [preserve]: "preserves I (ret x)"
  by (simp add: preserves_def ret_def)

lemma preserves_fail [preserve]: "preserves I (fail e)"
  by (simp add: preserves_def fail_def)

lemma preserves_attempt [preserve]:
  "preserves I q \<Longrightarrow> (\<And>e. preserves I (h e)) \<Longrightarrow> (\<And>x. preserves I (k x)) \<Longrightarrow>
    preserves I (attempt q h k)"
  unfolding preserves_def attempt_def
  by (auto split: prod.splits sum.splits)

lemma preserves_andthen [preserve]:
  "preserves I q \<Longrightarrow> (\<And>x. preserves I (k x)) \<Longrightarrow> preserves I (andthen q k)"
  by (simp add: andthen_def preserves_attempt preserves_fail)

lemma preserves_ignoring [preserve]: "preserves I q \<Longrightarrow> preserves I (ignoring q)"
  by (simp add: ignoring_def preserves_attempt preserves_ret)

lemma preserves_clock [preserve]: "(\<And>t. preserves I (k t)) \<Longrightarrow> preserves I (clock k)"
  by (simp add: preserves_def clock_def)

lemma preserves_emit [preserve]: "preserves I (emit e)"
  by (simp add: preserves_def emit_def)

lemma preserves_if [preserve]:
  "(b \<Longrightarrow> preserves I p) \<Longrightarrow> (\<not> b \<Longrightarrow> preserves I q) \<Longrightarrow> preserves I (if b then p else q)"
  by simp

lemma preserves_for_each [preserve]:
  "(\<And>x. x \<in> set xs \<Longrightarrow> preserves I (f x)) \<Longrightarrow> preserves I (for_each xs f)"
  by (induction xs) (auto intro: preserve)

lemma preserves_exec:
  "(\<And>t d. I d \<Longrightarrow> I (snd (q t d))) \<Longrightarrow> preserves I (exec q)"
  unfolding preserves_def by (metis exec_db)

lemma leaves_preserves: "leaves f m \<longleftrightarrow> (\<forall>v. preserves (\<lambda>d. f d = v) m)"
  by (auto simp: leaves_def preserves_def)

lemma leaves_ret [read_only]: "leaves f (ret x)"
  by (simp add: leaves_def ret_def)

lemma leaves_fail [read_only]: "leaves f (fail e)"
  by (simp add: leaves_def fail_def)

lemma leaves_emit [read_only]: "leaves f (emit e)"
  by (simp add: leaves_def emit_def)

lemma leaves_external [read_only]: "leaves f (external r)"
  by (simp add: leaves_def external_def)

lemma leaves_hub_publish [read_only]: "leaves f (hub_publish t ws ch p)"
  by (simp add: hub_publish_def leaves_emit)

lemma preserves_external [preserve]: "preserves I (external r)"
  by (simp add: preserves_def external_def)

lemma preserves_hub_publish [preserve]: "preserves I (hub_publish t ws ch p)"
  by (simp add: hub_publish_def preserves_emit)

lemma leaves_attempt [read_only]:
  "leaves f q \<Longrightarrow> (\<And>e. leaves f (h e)) \<Longrightarrow> (\<And>x. leaves f (k x)) \<Longrightarrow> leaves f (attempt q h k)"
  by (simp add: leaves_preserves preserves_attempt)

lemma leaves_andthen [read_only]:
  "leaves f q \<Longrightarrow> (\<And>x. leaves f (k x)) \<Longrightarrow> leaves f (andthen q k)"
  by (simp add: leaves_preserves preserves_andthen)

lemma leaves_ignoring [read_only]: "leaves f q \<Longrightarrow> leaves f (ignoring q)"
  by (simp add: leaves_preserves preserves_ignoring)

lemma leaves_clock [read_only]: "(\<And>t. leaves f (k t)) \<Longrightarrow> leaves f (clock k)"
  by (simp add: leaves_preserves preserves_clock)

lemma leaves_if [read_only]:
  "(b \<Longrightarrow> leaves f p) \<Longrightarrow> (\<not> b \<Longrightarrow> leaves f q) \<Longrightarrow> leaves f (if b then p else q)"
  by simp

lemma leaves_for_each [read_only]:
  "(\<And>x. x \<in> set xs \<Longrightarrow> leaves f (g x)) \<Longrightarrow> leaves f (for_each xs g)"
  by (simp add: leaves_preserves preserves_for_each)

lemma leaves_exec: "(\<And>t d. f (snd (q t d)) = f d) \<Longrightarrow> leaves f (exec q)"
  unfolding leaves_def by (metis exec_db)

lemma leaves_select [read_only]: "leaves f (exec (select g))"
  by (rule leaves_exec) (simp add: select_def)

lemma leaves_select_one [read_only]: "leaves f (exec (select_one g))"
  by (rule leaves_exec) (simp add: select_one_def split: option.splits)

lemma leaves_case_option [read_only]:
  "(o' = None \<Longrightarrow> leaves f p) \<Longrightarrow> (\<And>x. o' = Some x \<Longrightarrow> leaves f (q x)) \<Longrightarrow>
    leaves f (case o' of None \<Rightarrow> p | Some x \<Rightarrow> q x)"
  by (cases o') auto

lemma preserves_case_sum [preserve]:
  "(\<And>e. r = Inl e \<Longrightarrow> preserves I (p e)) \<Longrightarrow> (\<And>x. r = Inr x \<Longrightarrow> preserves I (q x)) \<Longrightarrow>
    preserves I (case r of Inl e \<Rightarrow> p e | Inr x \<Rightarrow> q x)"
  by (cases r) auto

lemma preserves_case_prod [preserve]:
  "(\<And>a b. x = (a, b) \<Longrightarrow> preserves I (f a b)) \<Longrightarrow> preserves I (case x of (a, b) \<Rightarrow> f a b)"
  by (cases x) auto

lemma leaves_case_prod [read_only]:
  "(\<And>a b. x = (a, b) \<Longrightarrow> leaves f (g a b)) \<Longrightarrow> leaves f (case x of (a, b) \<Rightarrow> g a b)"
  by (cases x) auto

lemma preserves_case_option [preserve]:
  "(o' = None \<Longrightarrow> preserves f p) \<Longrightarrow> (\<And>x. o' = Some x \<Longrightarrow> preserves f (q x)) \<Longrightarrow>
    preserves f (case o' of None \<Rightarrow> p | Some x \<Rightarrow> q x)"
  by (cases o') auto

lemma leaves_case_sum [read_only]:
  "(\<And>e. r = Inl e \<Longrightarrow> leaves f (p e)) \<Longrightarrow> (\<And>x. r = Inr x \<Longrightarrow> leaves f (q x)) \<Longrightarrow>
    leaves f (case r of Inl e \<Rightarrow> p e | Inr x \<Rightarrow> q x)"
  by (cases r) auto

lemma leaves_fun: "leaves g m \<Longrightarrow> (\<And>d d'. g d = g d' \<Longrightarrow> f d = f d') \<Longrightarrow> leaves f m"
  unfolding leaves_def by blast

lemma leaves_imp_preserves:
  "leaves g m \<Longrightarrow> (\<And>d d'. g d = g d' \<Longrightarrow> I d \<Longrightarrow> I d') \<Longrightarrow> preserves I m"
  unfolding leaves_def preserves_def by metis

lemma preserves_select [preserve]: "preserves I (exec (select g))"
  by (rule preserves_exec) (simp add: select_def)

lemma preserves_select_one [preserve]: "preserves I (exec (select_one g))"
  by (rule preserves_exec) (simp add: select_one_def split: option.splits)

section \<open>Quiet worlds stay quiet\<close>

named_theorems calm \<open>rules that a program run in a quiet world leaves it quiet\<close>

definition keeps_quiet :: "'a prog \<Rightarrow> bool" where
  "keeps_quiet m \<longleftrightarrow> (\<forall>s. tape s = [] \<longrightarrow> tape (snd (m s)) = [] \<and> now (snd (m s)) = now s)"

lemma keeps_quiet_run:
  "keeps_quiet m \<Longrightarrow> m s = (r, s') \<Longrightarrow> tape s = [] \<Longrightarrow> tape s' = [] \<and> now s' = now s"
  by (metis keeps_quiet_def snd_conv)

lemma keeps_quiet_ret [calm]: "keeps_quiet (ret x)"
  by (simp add: keeps_quiet_def ret_def)

lemma keeps_quiet_fail [calm]: "keeps_quiet (fail e)"
  by (simp add: keeps_quiet_def fail_def)

lemma keeps_quiet_emit [calm]: "keeps_quiet (emit e)"
  by (simp add: keeps_quiet_def emit_def)

lemma keeps_quiet_external [calm]: "keeps_quiet (external r)"
  by (simp add: keeps_quiet_def external_def)

lemma keeps_quiet_hub_publish [calm]: "keeps_quiet (hub_publish t ws ch p)"
  by (simp add: hub_publish_def keeps_quiet_emit)

lemma keeps_quiet_exec [calm]: "keeps_quiet (exec q)"
  by (simp add: keeps_quiet_def exec_quiet)

lemma keeps_quiet_attempt [calm]:
  assumes "keeps_quiet q" and "\<And>e. keeps_quiet (h e)" and "\<And>x. keeps_quiet (k x)"
  shows "keeps_quiet (attempt q h k)"
  using assms unfolding keeps_quiet_def attempt_def
  by (auto split: prod.splits sum.splits)

lemma keeps_quiet_andthen [calm]:
  "keeps_quiet q \<Longrightarrow> (\<And>x. keeps_quiet (k x)) \<Longrightarrow> keeps_quiet (andthen q k)"
  by (simp add: andthen_def keeps_quiet_attempt keeps_quiet_fail)

lemma keeps_quiet_ignoring [calm]: "keeps_quiet q \<Longrightarrow> keeps_quiet (ignoring q)"
  by (simp add: ignoring_def keeps_quiet_attempt keeps_quiet_ret)

lemma keeps_quiet_clock [calm]: "(\<And>t. keeps_quiet (k t)) \<Longrightarrow> keeps_quiet (clock k)"
  by (simp add: keeps_quiet_def clock_def)

lemma keeps_quiet_for_each [calm]: "(\<And>x. keeps_quiet (f x)) \<Longrightarrow> keeps_quiet (for_each xs f)"
  by (induction xs) (auto intro: calm)

lemma keeps_quiet_if [calm]: "keeps_quiet p \<Longrightarrow> keeps_quiet q \<Longrightarrow> keeps_quiet (if b then p else q)"
  by simp

lemma keeps_quiet_option [calm]:
  "keeps_quiet p \<Longrightarrow> (\<And>x. keeps_quiet (q x)) \<Longrightarrow>
    keeps_quiet (case v of None \<Rightarrow> p | Some x \<Rightarrow> q x)"
  by (cases v) auto

lemma keeps_quiet_sum [calm]:
  "(\<And>e. keeps_quiet (p e)) \<Longrightarrow> (\<And>x. keeps_quiet (q x)) \<Longrightarrow>
    keeps_quiet (case v of Inl e \<Rightarrow> p e | Inr x \<Rightarrow> q x)"
  by (cases v) auto

lemma keeps_quiet_prod [calm]:
  "(\<And>a b. keeps_quiet (f a b)) \<Longrightarrow> keeps_quiet (case v of (a, b) \<Rightarrow> f a b)"
  by (cases v) auto

section \<open>Programs that cannot fail\<close>

named_theorems total \<open>rules that a program never returns an error\<close>

definition never_fails :: "'a prog \<Rightarrow> bool" where
  "never_fails m \<longleftrightarrow> (\<forall>s. \<exists>x s'. m s = (Inr x, s'))"

lemma never_fails_ret [total]: "never_fails (ret x)"
  by (simp add: never_fails_def ret_def)

lemma never_fails_emit [total]: "never_fails (emit e)"
  by (simp add: never_fails_def emit_def)

lemma never_fails_ignoring [total]: "never_fails (ignoring q)"
  by (auto simp: never_fails_def ignoring_eq)

lemma never_fails_attempt [total]:
  "(\<And>e. never_fails (h e)) \<Longrightarrow> (\<And>x. never_fails (k x)) \<Longrightarrow> never_fails (attempt q h k)"
  unfolding never_fails_def attempt_def by (auto split: prod.splits sum.splits)

lemma never_fails_andthen [total]:
  "never_fails q \<Longrightarrow> (\<And>x. never_fails (k x)) \<Longrightarrow> never_fails (andthen q k)"
  unfolding never_fails_def andthen_def attempt_def by (metis (no_types, lifting) case_prod_conv sum.simps(6))

lemma never_fails_clock [total]: "(\<And>t. never_fails (k t)) \<Longrightarrow> never_fails (clock k)"
  by (simp add: never_fails_def)

lemma never_fails_option [total]:
  "(v = None \<Longrightarrow> never_fails p) \<Longrightarrow> (\<And>x. v = Some x \<Longrightarrow> never_fails (q x)) \<Longrightarrow>
    never_fails (case v of None \<Rightarrow> p | Some x \<Rightarrow> q x)"
  by (cases v) auto

lemma never_fails_if [total]:
  "(b \<Longrightarrow> never_fails p) \<Longrightarrow> (\<not> b \<Longrightarrow> never_fails q) \<Longrightarrow> never_fails (if b then p else q)"
  by simp

lemma never_fails_run: "never_fails m \<Longrightarrow> m s = (r, s') \<Longrightarrow> \<exists>x. r = Inr x"
  by (metis never_fails_def prod.inject)

section \<open>Programs that only read\<close>

text \<open>
  \<open>reader q f\<close>: the program changes neither tables nor events, and returns \<open>f\<close> of the database
  or the error of a connection that failed on the way; in a quiet world it returns \<open>f\<close>.
\<close>

definition reader :: "'a prog \<Rightarrow> (db \<Rightarrow> goerr + 'a) \<Rightarrow> bool" where
  "reader q f \<longleftrightarrow> (\<forall>s. db (snd (q s)) = db s \<and> outbox (snd (q s)) = outbox s \<and>
     (fst (q s) = f (db s) \<or> fst (q s) = Inl EConn) \<and>
     (tape s = [] \<longrightarrow> q s = (f (db s), s)))"

named_theorems readers \<open>rules that a program only reads, with its result\<close>

lemma readerD:
  "reader q f \<Longrightarrow> q s = (r, s') \<Longrightarrow>
    db s' = db s \<and> outbox s' = outbox s \<and> (r = f (db s) \<or> r = Inl EConn)"
  by (metis reader_def fst_conv snd_conv)

lemma reader_Inr:
  "reader q f \<Longrightarrow> q s = (Inr x, s') \<Longrightarrow>
    f (db s) = Inr x \<and> db s' = db s \<and> outbox s' = outbox s"
  using readerD by fastforce

lemma reader_quiet: "reader q f \<Longrightarrow> tape s = [] \<Longrightarrow> q s = (f (db s), s)"
  by (simp add: reader_def)

lemma reader_leaves: "reader q f \<Longrightarrow> leaves g q"
  by (simp add: reader_def leaves_def)

lemma reader_preserves: "reader q f \<Longrightarrow> preserves I q"
  by (simp add: reader_def preserves_def)

lemma reader_ret [readers]: "reader (ret x) (\<lambda>d. Inr x)"
  by (simp add: reader_def ret_def)

lemma reader_fail [readers]: "reader (fail e) (\<lambda>d. Inl e)"
  by (simp add: reader_def fail_def)

lemma world_same: "(s :: world)\<lparr>db := db s\<rparr> = s"
  by simp

lemma reader_select [readers]: "reader (exec (select g)) (\<lambda>d. Inr (g d))"
  unfolding reader_def exec_def select_def Let_def
  by (auto split: list.splits prod.splits fate.splits)

lemma reader_select_one [readers]:
  "reader (exec (select_one g)) (\<lambda>d. case g d of None \<Rightarrow> Inl ENoRows | Some x \<Rightarrow> Inr x)"
  unfolding reader_def exec_def select_one_def Let_def
  by (auto split: list.splits prod.splits fate.splits option.splits)

lemma reader_attempt [readers]:
  assumes "reader q f" and "\<And>e. reader (h e) (l e)" and "\<And>x. reader (k x) (g x)"
    and "\<And>d. l EConn d = Inl EConn"
  shows "reader (attempt q h k) (\<lambda>d. case f d of Inl e \<Rightarrow> l e d | Inr x \<Rightarrow> g x d)"
  unfolding reader_def
proof (intro allI)
  fix s
  obtain r s1 where q: "q s = (r, s1)" by (cases "q s") auto
  note rd = readerD [OF assms(1) q]
  show "db (snd (attempt q h k s)) = db s \<and> outbox (snd (attempt q h k s)) = outbox s \<and>
     (fst (attempt q h k s) = (case f (db s) of Inl e \<Rightarrow> l e (db s) | Inr x \<Rightarrow> g x (db s)) \<or>
      fst (attempt q h k s) = Inl EConn) \<and>
     (tape s = [] \<longrightarrow> attempt q h k s = (case f (db s) of Inl e \<Rightarrow> l e (db s) | Inr x \<Rightarrow> g x (db s), s))"
  proof (cases r)
    case (Inl e)
    obtain r2 s2 where h: "h e s1 = (r2, s2)" by (cases "h e s1") auto
    have run: "attempt q h k s = (r2, s2)" by (simp add: attempt_def q Inl h)
    have e: "f (db s) = Inl e \<or> e = EConn" using rd Inl by auto
    have r2: "r2 = l e (db s) \<or> r2 = Inl EConn"
      using readerD [OF assms(2) h] rd by simp
    have same: "db s2 = db s \<and> outbox s2 = outbox s"
      using readerD [OF assms(2) h] rd by simp
    have quiet: "tape s = [] \<Longrightarrow> f (db s) = Inl e \<and> s2 = s \<and> r2 = l e (db s)"
      using reader_quiet [OF assms(1), of s] reader_quiet [OF assms(2), of s e] q Inl h
      by (metis Pair_inject)
    show ?thesis using e r2 same quiet assms(4) by (auto simp: run)
  next
    case (Inr x)
    obtain r2 s2 where k: "k x s1 = (r2, s2)" by (cases "k x s1") auto
    have run: "attempt q h k s = (r2, s2)" by (simp add: attempt_def q Inr k)
    have f: "f (db s) = Inr x" using rd Inr by auto
    have same: "db s2 = db s \<and> outbox s2 = outbox s \<and> (r2 = g x (db s) \<or> r2 = Inl EConn)"
      using readerD [OF assms(3) k] rd by simp
    have quiet: "tape s = [] \<Longrightarrow> s2 = s \<and> r2 = g x (db s)"
      using reader_quiet [OF assms(1), of s] reader_quiet [OF assms(3), of s x] q Inr k
      by (metis Pair_inject)
    show ?thesis using f same quiet by (auto simp: run)
  qed
qed

lemma reader_andthen [readers]:
  assumes "reader q f" and "\<And>x. reader (k x) (g x)"
  shows "reader (andthen q k) (\<lambda>d. case f d of Inl e \<Rightarrow> Inl e | Inr x \<Rightarrow> g x d)"
  unfolding andthen_def by (rule reader_attempt) (auto intro: assms readers)

lemma reader_if [readers]:
  "reader p f \<Longrightarrow> reader q g \<Longrightarrow> reader (if b then p else q) (\<lambda>d. if b then f d else g d)"
  by simp

lemma reader_case_option [readers]:
  "reader p f \<Longrightarrow> (\<And>x. reader (q x) (g x)) \<Longrightarrow>
    reader (case v of None \<Rightarrow> p | Some x \<Rightarrow> q x) (\<lambda>d. case v of None \<Rightarrow> f d | Some x \<Rightarrow> g x d)"
  by (cases v) auto

lemma reader_cong: "reader q f \<Longrightarrow> (\<And>d. f d = g d) \<Longrightarrow> reader q g"
  by (simp add: reader_def)

text \<open>Inverting a run that starts with a read: the database is still the one it read.\<close>

lemma attempt_readerE [consumes 2]:
  assumes "attempt q h k s = (r, s')" and "reader q f"
  obtains (error) e s1 where "f (db s) = Inl e \<or> e = EConn" and "h e s1 = (r, s')"
      and "db s1 = db s" and "outbox s1 = outbox s"
    | (got) x s1 where "f (db s) = Inr x" and "k x s1 = (r, s')"
      and "db s1 = db s" and "outbox s1 = outbox s"
proof (cases "q s")
  case (Pair v s1)
  then have rd: "db s1 = db s \<and> outbox s1 = outbox s \<and> (v = f (db s) \<or> v = Inl EConn)"
    using readerD assms(2) by blast
  show ?thesis
  proof (cases v)
    case (Inl e)
    then have "h e s1 = (r, s')" using Pair assms(1) by (simp add: attempt_def)
    then show ?thesis using rd Inl error [of e s1] by fastforce
  next
    case (Inr x)
    then have "k x s1 = (r, s')" using Pair assms(1) by (simp add: attempt_def)
    then show ?thesis using rd Inr got [of x s1] by fastforce
  qed
qed

lemma andthen_readerE [consumes 2]:
  assumes "andthen q k s = (r, s')" and "reader q f"
  obtains (error) e where "f (db s) = Inl e \<or> e = EConn" and "r = Inl e"
      and "db s' = db s" and "outbox s' = outbox s"
    | (got) x s1 where "f (db s) = Inr x" and "k x s1 = (r, s')"
      and "db s1 = db s" and "outbox s1 = outbox s"
  using assms unfolding andthen_def by (elim attempt_readerE) auto

lemma exec_runE [consumes 1]:
  assumes "exec q s = (r, s')"
  obtains (same) "db s' = db s" and "r = Inl EConn" and "outbox s' = outbox s"
    | (ran) t where "db s' = snd (q t (db s))" and "r = fst (q t (db s)) \<or> r = Inl EConn"
      and "outbox s' = outbox s"
  using exec_cases [OF assms] by (metis fst_conv snd_conv)

end
