(* ===== verification/Db_Workspaces.thy ===== *)
theory Db_Workspaces
  imports World
begin

text \<open>
  The statements of \<open>internal/db/users.sql.go\<close>, \<open>tokens.sql.go\<close>, \<open>workspaces.sql.go\<close>,
  \<open>channels.sql.go\<close>, \<open>channel_roles.sql.go\<close>, \<open>messages.sql.go\<close> and \<open>notifications.sql.go\<close>,
  under the names of the Go methods. The constraints that can refuse a row (unique, foreign key,
  check, length) are those of \<open>sql/migrations\<close>.
\<close>

definition user_exists :: "db \<Rightarrow> int \<Rightarrow> bool" where
  "user_exists d uid = exists_row (\<lambda>u. u_id u = uid) (users d)"

definition workspace_exists :: "db \<Rightarrow> int \<Rightarrow> bool" where
  "workspace_exists d ws = exists_row (\<lambda>w. w_id w = ws) (workspaces d)"

definition channel_exists :: "db \<Rightarrow> int \<Rightarrow> bool" where
  "channel_exists d ch = exists_row (\<lambda>c. ch_id c = ch) (channels d)"

section \<open>Users and tokens\<close>

definition CreateUser :: "string \<Rightarrow> string \<Rightarrow> string \<Rightarrow> user_row sql" where
  "CreateUser email username hash =
     insert_into TUsers users_update
       (\<lambda>d. [(exists_row (\<lambda>u. u_email u = email) (users d), unique_violation ''users_email_key''),
             (exists_row (\<lambda>u. u_username u = username) (users d),
               unique_violation ''users_username_key'')])
       (\<lambda>i t. \<lparr>u_id = i, u_email = email, u_username = username, u_password_hash = hash,
               u_created_at = t, u_platform_role = ''user'', u_suspended_at = None,
               u_tokens_invalidated_at = None, u_stripe_customer_id = None\<rparr>)"

definition GetUserByEmail :: "string \<Rightarrow> user_row sql" where
  "GetUserByEmail email = select_one (\<lambda>d. find (\<lambda>u. u_email u = email) (users d))"

definition GetUserByID :: "int \<Rightarrow> user_row sql" where
  "GetUserByID i = select_one (\<lambda>d. find (\<lambda>u. u_id u = i) (users d))"

definition GetUserByUsername :: "string \<Rightarrow> user_row sql" where
  "GetUserByUsername name =
     select_one (\<lambda>d. find (\<lambda>u. ToLower (u_username u) = ToLower name) (users d))"

definition UpdateUserProfile :: "int \<Rightarrow> string \<Rightarrow> user_row sql" where
  "UpdateUserProfile i name =
     guarded (\<lambda>d. [(exists_row (\<lambda>u. u_id u = i) (users d) \<and>
                    exists_row (\<lambda>u. u_id u \<noteq> i \<and> u_username u = name) (users d),
                    unique_violation ''users_username_key'')])
       (update_one users users_update (\<lambda>u. u_id u = i) (\<lambda>t u. u\<lparr>u_username := name\<rparr>))"

definition UpdateUserPassword :: "int \<Rightarrow> string \<Rightarrow> unit sql" where
  "UpdateUserPassword i hash =
     update_all users_update (\<lambda>u. u_id u = i) (\<lambda>t u. u\<lparr>u_password_hash := hash\<rparr>)"

record auth_state =
  as_id :: int
  as_email :: string
  as_platform_role :: string
  as_suspended_at :: "int option"
  as_tokens_invalidated_at :: "int option"

definition GetUserAuthState :: "int \<Rightarrow> auth_state sql" where
  "GetUserAuthState i =
     select_one (\<lambda>d. map_option
       (\<lambda>u. \<lparr>as_id = u_id u, as_email = u_email u, as_platform_role = u_platform_role u,
             as_suspended_at = u_suspended_at u,
             as_tokens_invalidated_at = u_tokens_invalidated_at u\<rparr>)
       (find (\<lambda>u. u_id u = i) (users d)))"

definition RevokeToken :: "string \<Rightarrow> int \<Rightarrow> int \<Rightarrow> unit sql" where
  "RevokeToken jti uid expires t d =
     (if exists_row (\<lambda>r. rt_jti r = jti) (revoked_tokens d) then (Inr (), d)
      else if \<not> user_exists d uid then (Inl (fk_violation ''revoked_tokens_user_id_fkey''), d)
      else (Inr (), d\<lparr>revoked_tokens := revoked_tokens d @
             [\<lparr>rt_jti = jti, rt_user_id = uid, rt_revoked_at = t, rt_expires_at = expires\<rparr>]\<rparr>))"

definition IsTokenRevoked :: "string \<Rightarrow> bool sql" where
  "IsTokenRevoked jti = select (\<lambda>d. exists_row (\<lambda>r. rt_jti r = jti) (revoked_tokens d))"

section \<open>Workspaces and their members\<close>

definition CreateWorkspace :: "string \<Rightarrow> string \<Rightarrow> int \<Rightarrow> workspace_row sql" where
  "CreateWorkspace name slug owner =
     insert_into TWorkspaces workspaces_update
       (\<lambda>d. [(255 < char_count name \<or> 255 < char_count slug, too_long),
             (exists_row (\<lambda>w. w_slug w = slug) (workspaces d),
               unique_violation ''workspaces_slug_key''),
             (\<not> user_exists d owner, fk_violation ''workspaces_owner_id_fkey'')])
       (\<lambda>i t. \<lparr>w_id = i, w_name = name, w_slug = slug, w_owner_id = owner, w_created_at = t,
               w_updated_at = Some t\<rparr>)"

definition AddWorkspaceMember :: "int \<Rightarrow> int \<Rightarrow> string \<Rightarrow> workspace_member_row sql" where
  "AddWorkspaceMember ws uid role =
     insert_into TWorkspaceMembers workspace_members_update
       (\<lambda>d. [(role \<notin> {''owner'', ''admin'', ''moderator'', ''member''},
               check_violation ''workspace_members_role_check''),
             (exists_row (\<lambda>m. wm_workspace_id m = ws \<and> wm_user_id m = uid) (workspace_members d),
               unique_violation ''workspace_members_workspace_id_user_id_key''),
             (\<not> workspace_exists d ws, fk_violation ''workspace_members_workspace_id_fkey''),
             (\<not> user_exists d uid, fk_violation ''workspace_members_user_id_fkey'')])
       (\<lambda>i t. \<lparr>wm_id = i, wm_workspace_id = ws, wm_user_id = uid, wm_role = role,
               wm_created_at = t, wm_updated_at = Some t\<rparr>)"

definition GetWorkspacesByUser :: "int \<Rightarrow> (workspace_row \<times> string) list sql" where
  "GetWorkspacesByUser uid = select (\<lambda>d.
     order_desc (\<lambda>(w, role). w_created_at w)
       [(w, wm_role m). w \<leftarrow> workspaces d, m \<leftarrow> workspace_members d,
          wm_workspace_id m = w_id w \<and> wm_user_id m = uid])"

definition GetWorkspaceByID :: "int \<Rightarrow> workspace_row sql" where
  "GetWorkspaceByID i = select_one (\<lambda>d. find (\<lambda>w. w_id w = i) (workspaces d))"

definition GetWorkspaceBySlug :: "string \<Rightarrow> workspace_row sql" where
  "GetWorkspaceBySlug slug = select_one (\<lambda>d. find (\<lambda>w. w_slug w = slug) (workspaces d))"

definition IsWorkspaceMember :: "int \<Rightarrow> int \<Rightarrow> bool sql" where
  "IsWorkspaceMember ws uid = select (\<lambda>d.
     exists_row (\<lambda>m. wm_workspace_id m = ws \<and> wm_user_id m = uid) (workspace_members d))"

definition GetWorkspaceMember :: "int \<Rightarrow> int \<Rightarrow> workspace_member_row sql" where
  "GetWorkspaceMember ws uid = select_one (\<lambda>d.
     find (\<lambda>m. wm_workspace_id m = ws \<and> wm_user_id m = uid) (workspace_members d))"

text \<open>The rows of a join: user id, username, email.\<close>

definition members_named :: "int \<Rightarrow> string \<Rightarrow> db \<Rightarrow> (int \<times> string \<times> string) list" where
  "members_named ws name d =
     [(wm_user_id m, u_username u, u_email u). m \<leftarrow> workspace_members d, u \<leftarrow> users d,
        u_id u = wm_user_id m \<and> wm_workspace_id m = ws \<and> ToLower (u_username u) = ToLower name]"

definition GetWorkspaceMemberByUsername :: "int \<Rightarrow> string \<Rightarrow> (int \<times> string \<times> string) sql" where
  "GetWorkspaceMemberByUsername ws name = select_one (\<lambda>d.
     (case members_named ws name d of [] \<Rightarrow> None | r # _ \<Rightarrow> Some r))"

definition ListWorkspaceMembers :: "int \<Rightarrow> (workspace_member_row \<times> string \<times> string) list sql" where
  "ListWorkspaceMembers ws = select (\<lambda>d.
     order_asc (\<lambda>(m, name, email). wm_created_at m)
       [(m, u_username u, u_email u). m \<leftarrow> workspace_members d, u \<leftarrow> users d,
          u_id u = wm_user_id m \<and> wm_workspace_id m = ws])"

definition UpdateWorkspaceMemberRole :: "int \<Rightarrow> int \<Rightarrow> string \<Rightarrow> unit sql" where
  "UpdateWorkspaceMemberRole ws uid role =
     guarded (\<lambda>d. [(role \<notin> {''owner'', ''admin'', ''moderator'', ''member''} \<and>
                    exists_row (\<lambda>m. wm_workspace_id m = ws \<and> wm_user_id m = uid) (workspace_members d),
                    check_violation ''workspace_members_role_check'')])
       (update_all workspace_members_update (\<lambda>m. wm_workspace_id m = ws \<and> wm_user_id m = uid)
         (\<lambda>t m. m\<lparr>wm_role := role, wm_updated_at := Some t\<rparr>))"

definition RemoveWorkspaceMember :: "int \<Rightarrow> int \<Rightarrow> unit sql" where
  "RemoveWorkspaceMember ws uid =
     delete_all workspace_members_update (\<lambda>m. wm_workspace_id m = ws \<and> wm_user_id m = uid)"

section \<open>Channels\<close>

definition CreateChannel :: "string \<Rightarrow> int \<Rightarrow> int \<Rightarrow> bool \<Rightarrow> channel_row sql" where
  "CreateChannel name owner ws ro =
     insert_into TChannels channels_update
       (\<lambda>d. [(255 < char_count name, too_long),
             (exists_row (\<lambda>c. ch_workspace_id c = ws \<and> ch_name c = name) (channels d),
               unique_violation ''channels_workspace_name_unique''),
             (\<not> user_exists d owner, fk_violation ''channels_owner_id_fkey''),
             (\<not> workspace_exists d ws, fk_violation ''channels_workspace_id_fkey'')])
       (\<lambda>i t. \<lparr>ch_id = i, ch_name = name, ch_owner_id = owner, ch_created_at = t,
               ch_updated_at = Some t, ch_workspace_id = ws, ch_is_read_only = ro\<rparr>)"

definition AddChannelMember :: "int \<Rightarrow> int \<Rightarrow> channel_member_row sql" where
  "AddChannelMember ch uid =
     insert_into TChannelMembers channel_members_update
       (\<lambda>d. [(exists_row (\<lambda>m. cm_channel_id m = ch \<and> cm_user_id m = uid) (channel_members d),
               unique_violation ''channel_members_channel_id_user_id_key''),
             (\<not> channel_exists d ch, fk_violation ''channel_members_channel_id_fkey''),
             (\<not> user_exists d uid, fk_violation ''channel_members_user_id_fkey'')])
       (\<lambda>i t. \<lparr>cm_id = i, cm_channel_id = ch, cm_user_id = uid, cm_created_at = t,
               cm_updated_at = Some t\<rparr>)"

definition GetChannelsByWorkspaceAndUser :: "int \<Rightarrow> int \<Rightarrow> channel_row list sql" where
  "GetChannelsByWorkspaceAndUser uid ws = select (\<lambda>d.
     order_desc ch_created_at
       [c. c \<leftarrow> channels d, m \<leftarrow> channel_members d,
          cm_channel_id m = ch_id c \<and> cm_user_id m = uid \<and> ch_workspace_id c = ws])"

definition IsChannelMember :: "int \<Rightarrow> int \<Rightarrow> bool sql" where
  "IsChannelMember ch uid = select (\<lambda>d.
     exists_row (\<lambda>m. cm_channel_id m = ch \<and> cm_user_id m = uid) (channel_members d))"

definition GetChannelByID :: "int \<Rightarrow> channel_row sql" where
  "GetChannelByID i = select_one (\<lambda>d. find (\<lambda>c. ch_id c = i) (channels d))"

definition GetChannelInWorkspace :: "int \<Rightarrow> int \<Rightarrow> channel_row sql" where
  "GetChannelInWorkspace i ws =
     select_one (\<lambda>d. find (\<lambda>c. ch_id c = i \<and> ch_workspace_id c = ws) (channels d))"

definition GetChannelByNameInWorkspace :: "int \<Rightarrow> string \<Rightarrow> channel_row sql" where
  "GetChannelByNameInWorkspace ws name =
     select_one (\<lambda>d. find (\<lambda>c. ch_workspace_id c = ws \<and> ch_name c = name) (channels d))"

definition GetChannelMember :: "int \<Rightarrow> int \<Rightarrow> channel_member_row sql" where
  "GetChannelMember ch uid = select_one (\<lambda>d.
     find (\<lambda>m. cm_channel_id m = ch \<and> cm_user_id m = uid) (channel_members d))"

definition RemoveChannelMember :: "int \<Rightarrow> int \<Rightarrow> unit sql" where
  "RemoveChannelMember ch uid =
     delete_all channel_members_update (\<lambda>m. cm_channel_id m = ch \<and> cm_user_id m = uid)"

definition GetChannelRole :: "int \<Rightarrow> int \<Rightarrow> channel_role_row sql" where
  "GetChannelRole ch uid = select_one (\<lambda>d.
     find (\<lambda>r. cr_channel_id r = ch \<and> cr_user_id r = uid) (channel_roles d))"

definition ListChannelMemberUserIDs :: "int \<Rightarrow> int list sql" where
  "ListChannelMemberUserIDs ch = select (\<lambda>d.
     map cm_user_id (filter (\<lambda>m. cm_channel_id m = ch) (channel_members d)))"

section \<open>Messages\<close>

definition CreateMessage :: "int \<Rightarrow> int \<Rightarrow> string \<Rightarrow> message_row sql" where
  "CreateMessage ch sender content =
     insert_into TMessages messages_update
       (\<lambda>d. [(\<not> channel_exists d ch, fk_violation ''messages_channel_id_fkey''),
             (\<not> user_exists d sender, fk_violation ''messages_sender_id_fkey'')])
       (\<lambda>i t. \<lparr>m_id = i, m_channel_id = ch, m_sender_id = sender, m_content = content,
               m_created_at = t\<rparr>)"

definition GetChannelMessages :: "int \<Rightarrow> int \<Rightarrow> int \<Rightarrow> (message_row \<times> string) list sql" where
  "GetChannelMessages ch limit offset = select (\<lambda>d.
     page limit offset (order_asc (\<lambda>(m, name). m_created_at m)
       [(m, u_username u). m \<leftarrow> messages d, u \<leftarrow> users d,
          m_sender_id m = u_id u \<and> m_channel_id m = ch]))"

definition GetMessageByID :: "int \<Rightarrow> message_row sql" where
  "GetMessageByID i = select_one (\<lambda>d. find (\<lambda>m. m_id m = i) (messages d))"

section \<open>Notifications\<close>

definition notification_types :: "string list" where
  "notification_types =
     [''mention'', ''reply'', ''channel_invite'', ''workspace_invite'', ''call_invite'']"

definition CreateNotification ::
  "int \<Rightarrow> string \<Rightarrow> string \<Rightarrow> string \<Rightarrow> gomap \<Rightarrow> notification_row sql" where
  "CreateNotification uid typ title body data =
     insert_into TNotifications notifications_update
       (\<lambda>d. [(typ \<notin> set notification_types, check_violation ''notifications_type_check''),
             (\<not> user_exists d uid, fk_violation ''notifications_user_id_fkey'')])
       (\<lambda>i t. \<lparr>n_id = i, n_user_id = uid, n_type = typ, n_title = title, n_body = body,
               n_data = data, n_read_at = None, n_created_at = t\<rparr>)"

definition GetNotificationByID :: "int \<Rightarrow> notification_row sql" where
  "GetNotificationByID i = select_one (\<lambda>d. find (\<lambda>n. n_id n = i) (notifications d))"

definition ListNotificationsByUser :: "int \<Rightarrow> int \<Rightarrow> int \<Rightarrow> notification_row list sql" where
  "ListNotificationsByUser uid limit offset = select (\<lambda>d.
     page limit offset (order_desc n_created_at
       (filter (\<lambda>n. n_user_id n = uid) (notifications d))))"

definition MarkNotificationRead :: "int \<Rightarrow> int \<Rightarrow> notification_row sql" where
  "MarkNotificationRead i uid =
     update_one notifications notifications_update
       (\<lambda>n. n_id n = i \<and> n_user_id n = uid \<and> n_read_at n = None)
       (\<lambda>t n. n\<lparr>n_read_at := Some t\<rparr>)"

text \<open>\<open>:execrows\<close>: the number of rows changed.\<close>

definition MarkAllNotificationsRead :: "int \<Rightarrow> int sql" where
  "MarkAllNotificationsRead uid t d =
     (Inr (count_rows (\<lambda>n. n_user_id n = uid \<and> n_read_at n = None) (notifications d)),
      d\<lparr>notifications := update_where (\<lambda>n. n_user_id n = uid \<and> n_read_at n = None)
           (\<lambda>n. n\<lparr>n_read_at := Some t\<rparr>) (notifications d)\<rparr>)"

end
