(* ===== verification/Db_Calls.thy ===== *)
theory Db_Calls
  imports Db_Workspaces
begin

text \<open>
  The statements of \<open>internal/db/calls.sql.go\<close> over the tables \<open>calls\<close>, \<open>call_participants\<close> and
  \<open>call_recordings\<close>, with the constraints of migrations 8 and 9: the partial unique indexes allow
  one active participation per call and user, and one active recording per call.
\<close>

definition call_exists :: "db \<Rightarrow> int \<Rightarrow> bool" where
  "call_exists d i = exists_row (\<lambda>c. c_id c = i) (calls d)"

definition active_in :: "int \<Rightarrow> participant_row \<Rightarrow> bool" where
  "active_in call p \<longleftrightarrow> p_call_id p = call \<and> p_left_at p = None"

definition CreateCall :: "int \<Rightarrow> int \<Rightarrow> int \<Rightarrow> string \<Rightarrow> string \<Rightarrow> call_row sql" where
  "CreateCall ch ws initiator status mode =
     insert_into TCalls calls_update
       (\<lambda>d. [(status \<notin> {''ringing'', ''active'', ''ended''}, check_violation ''calls_status_check''),
             (mode \<notin> {''voice'', ''video''}, check_violation ''calls_mode_check''),
             (\<not> channel_exists d ch, fk_violation ''calls_channel_id_fkey''),
             (\<not> workspace_exists d ws, fk_violation ''calls_workspace_id_fkey''),
             (\<not> user_exists d initiator, fk_violation ''calls_initiator_id_fkey'')])
       (\<lambda>i t. \<lparr>c_id = i, c_channel_id = ch, c_workspace_id = ws, c_initiator_id = initiator,
               c_status = status, c_created_at = t, c_ended_at = None, c_mode = mode\<rparr>)"

definition AddCallParticipant :: "int \<Rightarrow> int \<Rightarrow> participant_row sql" where
  "AddCallParticipant call uid =
     insert_into TParticipants call_participants_update
       (\<lambda>d. [(exists_row (\<lambda>p. active_in call p \<and> p_user_id p = uid) (call_participants d),
               unique_violation ''idx_call_participants_active''),
             (\<not> call_exists d call, fk_violation ''call_participants_call_id_fkey''),
             (\<not> user_exists d uid, fk_violation ''call_participants_user_id_fkey'')])
       (\<lambda>i t. \<lparr>p_id = i, p_call_id = call, p_user_id = uid, p_joined_at = t, p_left_at = None\<rparr>)"

definition GetCallByID :: "int \<Rightarrow> call_row sql" where
  "GetCallByID i = select_one (\<lambda>d. find (\<lambda>c. c_id c = i) (calls d))"

definition live :: "call_row \<Rightarrow> bool" where
  "live c \<longleftrightarrow> c_status c \<in> {''ringing'', ''active''}"

text \<open>\<open>ORDER BY created_at DESC LIMIT 1\<close>: the newest live call of the channel.\<close>

definition GetActiveCallByChannel :: "int \<Rightarrow> call_row sql" where
  "GetActiveCallByChannel ch = select_one (\<lambda>d.
     (case order_desc c_created_at (filter (\<lambda>c. c_channel_id c = ch \<and> live c) (calls d)) of
        [] \<Rightarrow> None
      | c # _ \<Rightarrow> Some c))"

definition GetActiveCallParticipant :: "int \<Rightarrow> int \<Rightarrow> participant_row sql" where
  "GetActiveCallParticipant call uid = select_one (\<lambda>d.
     find (\<lambda>p. active_in call p \<and> p_user_id p = uid) (call_participants d))"

definition CountActiveCallParticipants :: "int \<Rightarrow> int sql" where
  "CountActiveCallParticipants call = select (\<lambda>d. count_rows (active_in call) (call_participants d))"

definition CountAllCallParticipants :: "int \<Rightarrow> int sql" where
  "CountAllCallParticipants call =
     select (\<lambda>d. count_rows (\<lambda>p. p_call_id p = call) (call_participants d))"

definition ListActiveCallParticipants :: "int \<Rightarrow> participant_row list sql" where
  "ListActiveCallParticipants call =
     select (\<lambda>d. order_asc p_joined_at (filter (active_in call) (call_participants d)))"

definition MarkCallParticipantLeft :: "int \<Rightarrow> int \<Rightarrow> participant_row sql" where
  "MarkCallParticipantLeft call uid =
     update_one call_participants call_participants_update
       (\<lambda>p. active_in call p \<and> p_user_id p = uid) (\<lambda>t p. p\<lparr>p_left_at := Some t\<rparr>)"

definition UpdateCallStatus :: "int \<Rightarrow> string \<Rightarrow> call_row sql" where
  "UpdateCallStatus i status =
     guarded (\<lambda>d. [(status \<notin> {''ringing'', ''active'', ''ended''} \<and> call_exists d i,
                    check_violation ''calls_status_check'')])
       (update_one calls calls_update (\<lambda>c. c_id c = i)
         (\<lambda>t c. c\<lparr>c_status := status,
                  c_ended_at := (if status = ''ended'' then Some t else c_ended_at c)\<rparr>))"

definition CreateCallRecording :: "int \<Rightarrow> int \<Rightarrow> gomap \<Rightarrow> recording_row sql" where
  "CreateCallRecording call uid metadata =
     insert_into TRecordings call_recordings_update
       (\<lambda>d. [(exists_row (\<lambda>r. r_call_id r = call \<and> r_ended_at r = None) (call_recordings d),
               unique_violation ''idx_call_recordings_active''),
             (\<not> call_exists d call, fk_violation ''call_recordings_call_id_fkey''),
             (\<not> user_exists d uid, fk_violation ''call_recordings_started_by_fkey'')])
       (\<lambda>i t. \<lparr>r_id = i, r_call_id = call, r_started_by = uid, r_started_at = t,
               r_ended_at = None, r_metadata = metadata\<rparr>)"

definition GetActiveCallRecording :: "int \<Rightarrow> recording_row sql" where
  "GetActiveCallRecording call = select_one (\<lambda>d.
     (case order_desc r_started_at
             (filter (\<lambda>r. r_call_id r = call \<and> r_ended_at r = None) (call_recordings d)) of
        [] \<Rightarrow> None
      | r # _ \<Rightarrow> Some r))"

definition EndCallRecording :: "int \<Rightarrow> int \<Rightarrow> recording_row sql" where
  "EndCallRecording i call =
     update_one call_recordings call_recordings_update
       (\<lambda>r. r_id r = i \<and> r_call_id r = call \<and> r_ended_at r = None)
       (\<lambda>t r. r\<lparr>r_ended_at := Some t\<rparr>)"

end
