(* ===== verification/Sample.thy ===== *)
theory Sample
  imports World
begin

text \<open>
  A small database on which the properties are applied to concrete data: alice (1) owns the
  workspace Acme (1), where bob (2) is an admin and carol (3) a member; the channels general (10)
  and news (11, read-only); an app (1) of alice's with the sandbox workspace 2, and her
  subscription to the plan starter. dave (4) belongs to no workspace.
\<close>

definition sample_user :: "int \<Rightarrow> string \<Rightarrow> user_row" where
  "sample_user i name =
     \<lparr>u_id = i, u_email = name @ ''@x.io'', u_username = name, u_password_hash = ''h'',
      u_created_at = 0, u_platform_role = ''user'', u_suspended_at = None,
      u_tokens_invalidated_at = None, u_stripe_customer_id = None\<rparr>"

definition sample_member :: "int \<Rightarrow> int \<Rightarrow> int \<Rightarrow> string \<Rightarrow> workspace_member_row" where
  "sample_member i ws uid role =
     \<lparr>wm_id = i, wm_workspace_id = ws, wm_user_id = uid, wm_role = role, wm_created_at = 0,
      wm_updated_at = None\<rparr>"

definition sample_plan :: plan_row where
  "sample_plan =
     \<lparr>pl_slug = ''starter'', pl_name = ''Starter'', pl_price_cents = 0, pl_stripe_price_id = None,
      pl_messages_limit = 2, pl_connections_limit = 500, pl_retention_days = 30,
      pl_webhooks_enabled = False, pl_video_calls_enabled = True, pl_moderation_enabled = False,
      pl_created_at = 0, pl_is_active = True, pl_is_highlighted = False, pl_sort_order = 1,
      pl_description = [], pl_updated_at = 0, pl_max_apps = 2, pl_video_minutes_limit = 100,
      pl_max_call_participants = 5\<rparr>"

definition sample_db :: db where
  "sample_db = empty_db
     \<lparr>users := [sample_user 1 ''alice'', sample_user 2 ''bob'', sample_user 3 ''carol'',
                sample_user 4 ''dave''],
      workspaces :=
        [\<lparr>w_id = 1, w_name = ''Acme'', w_slug = ''acme'', w_owner_id = 1, w_created_at = 0,
          w_updated_at = None\<rparr>,
         \<lparr>w_id = 2, w_name = ''Acme Sandbox'', w_slug = ''app-acme-sandbox'', w_owner_id = 1,
          w_created_at = 0, w_updated_at = None\<rparr>],
      workspace_members :=
        [sample_member 1 1 1 ''owner'', sample_member 2 1 2 ''admin'', sample_member 3 1 3 ''member'',
         sample_member 4 2 1 ''owner''],
      channels :=
        [\<lparr>ch_id = 10, ch_name = ''general'', ch_owner_id = 1, ch_created_at = 0,
          ch_updated_at = None, ch_workspace_id = 1, ch_is_read_only = False\<rparr>,
         \<lparr>ch_id = 11, ch_name = ''news'', ch_owner_id = 1, ch_created_at = 0,
          ch_updated_at = None, ch_workspace_id = 1, ch_is_read_only = True\<rparr>],
      channel_members :=
        [\<lparr>cm_id = 1, cm_channel_id = 10, cm_user_id = 1, cm_created_at = 0, cm_updated_at = None\<rparr>,
         \<lparr>cm_id = 2, cm_channel_id = 10, cm_user_id = 2, cm_created_at = 0, cm_updated_at = None\<rparr>,
         \<lparr>cm_id = 3, cm_channel_id = 11, cm_user_id = 3, cm_created_at = 0, cm_updated_at = None\<rparr>],
      apps :=
        [\<lparr>a_id = 1, a_name = ''Acme'', a_slug = ''acme'', a_workspace_id = 1, a_owner_id = 1,
          a_created_at = 0, a_allowed_origins = [], a_sandbox_workspace_id = 2\<rparr>],
      plans := [sample_plan],
      user_subscriptions :=
        [\<lparr>s_id = 1, s_user_id = 1, s_plan_slug = ''starter'', s_status = ''active'',
          s_stripe_customer_id = None, s_stripe_subscription_id = None,
          s_current_period_start = None, s_current_period_end = None, s_created_at = 0,
          s_updated_at = 0\<rparr>],
      nextid := (\<lambda>_. 100)\<rparr>"

definition sample :: world where
  "sample = world_of sample_db 1000000"

lemma sample_quiet [simp]: "tape sample = []" "outbox sample = []" "db sample = sample_db"
  "now sample = 1000000"
  by (simp_all add: sample_def world_of_def)

end
