(* ===== verification/Authz.thy ===== *)
theory Authz
  imports Db_Workspaces Sample
begin

text \<open>
  \<open>internal/authz\<close>: the roles of a workspace, the permission matrix \<open>Allowed\<close>, and the service
  that reads the caller's role before it consults the matrix.
\<close>

datatype Role = RoleOwner | RoleAdmin | RoleModerator | RoleMember

datatype Action =
    ActionCreateChannel | ActionInviteMember | ActionRemoveMember | ActionChangeMemberRole
  | ActionSendMessage

text \<open>The zero value of \<open>ChannelRole\<close> is \<open>None\<close>.\<close>

record Options =
  ReadOnlyChannel :: bool
  ChannelRole :: "Role option"
  channelIDValue :: int

definition no_options :: Options where
  "no_options = \<lparr>ReadOnlyChannel = False, ChannelRole = None, channelIDValue = 0\<rparr>"

fun Allowed :: "Role \<Rightarrow> Action \<Rightarrow> Options \<Rightarrow> bool" where
  "Allowed role ActionCreateChannel opts = (role \<in> {RoleOwner, RoleAdmin, RoleModerator})"
| "Allowed role ActionInviteMember opts = (role \<in> {RoleOwner, RoleAdmin})"
| "Allowed role ActionRemoveMember opts = (role \<in> {RoleOwner, RoleAdmin})"
| "Allowed role ActionChangeMemberRole opts = (role \<in> {RoleOwner, RoleAdmin})"
| "Allowed role ActionSendMessage opts =
     (if \<not> ReadOnlyChannel opts then True
      else if role \<in> {RoleOwner, RoleAdmin, RoleModerator} then True
      else ChannelRole opts = Some RoleModerator)"

fun role_name :: "Role \<Rightarrow> string" where
  "role_name RoleOwner = ''owner''"
| "role_name RoleAdmin = ''admin''"
| "role_name RoleModerator = ''moderator''"
| "role_name RoleMember = ''member''"

definition ParseRole :: "string \<Rightarrow> Role option" where
  "ParseRole raw =
     (if raw = ''owner'' then Some RoleOwner
      else if raw = ''admin'' then Some RoleAdmin
      else if raw = ''moderator'' then Some RoleModerator
      else if raw = ''member'' then Some RoleMember
      else None)"

fun AssignableRoles :: "Role \<Rightarrow> Role list" where
  "AssignableRoles RoleOwner = [RoleAdmin, RoleModerator, RoleMember]"
| "AssignableRoles RoleAdmin = [RoleModerator, RoleMember]"
| "AssignableRoles RoleModerator = []"
| "AssignableRoles RoleMember = []"

definition canAssignRole :: "Role \<Rightarrow> Role \<Rightarrow> bool" where
  "canAssignRole actor target = list_ex (\<lambda>allowed. allowed = target) (AssignableRoles actor)"

definition MessageOptions :: "int \<Rightarrow> bool \<Rightarrow> Options" where
  "MessageOptions ch ro = \<lparr>ReadOnlyChannel = ro, ChannelRole = None, channelIDValue = ch\<rparr>"

section \<open>The service\<close>

definition authz_WorkspaceRole :: "int \<Rightarrow> int \<Rightarrow> Role prog" where
  "authz_WorkspaceRole ws uid =
     attempt (exec (GetWorkspaceMember ws uid))
       (\<lambda>e. fail (no_rows_as (EAuthz Authz_Forbidden) e))
       (\<lambda>m. case ParseRole (wm_role m) of
               None \<Rightarrow> fail (EAuthz Authz_Forbidden)
             | Some role \<Rightarrow> ret role)"

definition authz_channelRole :: "int \<Rightarrow> int \<Rightarrow> string prog" where
  "authz_channelRole ch uid =
     (if ch = 0 then fail ENoRows
      else andthen (exec (GetChannelRole ch uid)) (\<lambda>row. ret (cr_role row)))"

definition authz_decide :: "Role \<Rightarrow> Action \<Rightarrow> Options \<Rightarrow> unit prog" where
  "authz_decide role action opts =
     (if Allowed role action opts then ret () else fail (EAuthz Authz_Forbidden))"

definition authz_Can :: "int \<Rightarrow> int \<Rightarrow> Action \<Rightarrow> Options \<Rightarrow> unit prog" where
  "authz_Can ws uid action opts =
     andthen (authz_WorkspaceRole ws uid) (\<lambda>role.
       if ReadOnlyChannel opts \<and> action = ActionSendMessage \<and> ChannelRole opts = None then
         attempt (authz_channelRole (channelIDValue opts) uid)
           (\<lambda>e. if e = ENoRows then authz_decide role action opts else fail e)
           (\<lambda>raw. authz_decide role action
              (case ParseRole raw of Some r \<Rightarrow> opts\<lparr>ChannelRole := Some r\<rparr> | None \<Rightarrow> opts))
       else authz_decide role action opts)"

section \<open>Facts\<close>

lemma ParseRole_role_name [simp]: "ParseRole (role_name r) = Some r"
  by (cases r) (simp_all add: ParseRole_def)

lemma ParseRole_iff: "ParseRole s = Some r \<longleftrightarrow> s = role_name r"
  by (cases r) (auto simp: ParseRole_def)

lemma canAssignRole_iff: "canAssignRole a t \<longleftrightarrow> t \<in> set (AssignableRoles a)"
  by (auto simp: canAssignRole_def list_ex_iff)

lemma not_assign_owner [simp]: "\<not> canAssignRole a RoleOwner"
  by (cases a) (simp_all add: canAssignRole_def)

text \<open>The role a member holds in the database, as \<open>WorkspaceRole\<close> computes it.\<close>

definition member_of :: "db \<Rightarrow> int \<Rightarrow> int \<Rightarrow> workspace_member_row option" where
  "member_of d ws uid =
     find (\<lambda>m. wm_workspace_id m = ws \<and> wm_user_id m = uid) (workspace_members d)"

definition role_of :: "db \<Rightarrow> int \<Rightarrow> int \<Rightarrow> Role option" where
  "role_of d ws uid =
     (case member_of d ws uid of None \<Rightarrow> None | Some m \<Rightarrow> ParseRole (wm_role m))"

definition channel_role_of :: "db \<Rightarrow> int \<Rightarrow> int \<Rightarrow> Role option" where
  "channel_role_of d ch uid =
     (if ch = 0 then None
      else case find (\<lambda>r. cr_channel_id r = ch \<and> cr_user_id r = uid) (channel_roles d) of
             None \<Rightarrow> None
           | Some r \<Rightarrow> ParseRole (cr_role r))"

lemma reader_GetWorkspaceMember [readers]:
  "reader (exec (GetWorkspaceMember ws uid))
     (\<lambda>d. case member_of d ws uid of None \<Rightarrow> Inl ENoRows | Some m \<Rightarrow> Inr m)"
  unfolding GetWorkspaceMember_def member_of_def by (rule readers)

lemma reader_WorkspaceRole [readers]:
  "reader (authz_WorkspaceRole ws uid)
     (\<lambda>d. case role_of d ws uid of None \<Rightarrow> Inl (EAuthz Authz_Forbidden) | Some r \<Rightarrow> Inr r)"
  unfolding authz_WorkspaceRole_def
  by (rule reader_cong, (rule readers)+)
     (auto simp: no_rows_as_def role_of_def split: option.splits)

lemma reader_decide [readers]:
  "reader (authz_decide role a opts)
     (\<lambda>d. if Allowed role a opts then Inr () else Inl (EAuthz Authz_Forbidden))"
  unfolding authz_decide_def by (rule readers)+

lemma reader_channelRole [readers]:
  "reader (authz_channelRole ch uid)
     (\<lambda>d. if ch = 0 then Inl ENoRows
          else case find (\<lambda>r. cr_channel_id r = ch \<and> cr_user_id r = uid) (channel_roles d) of
                 None \<Rightarrow> Inl ENoRows | Some r \<Rightarrow> Inr (cr_role r))"
  unfolding authz_channelRole_def GetChannelRole_def
  by (rule reader_cong, (rule readers)+) (auto split: option.splits)

text \<open>The options \<open>Can\<close> decides with.\<close>

definition effective_options :: "db \<Rightarrow> int \<Rightarrow> Action \<Rightarrow> Options \<Rightarrow> Options" where
  "effective_options d uid action opts =
     (if ReadOnlyChannel opts \<and> action = ActionSendMessage \<and> ChannelRole opts = None
      then opts\<lparr>ChannelRole := channel_role_of d (channelIDValue opts) uid\<rparr> else opts)"

definition can_result :: "db \<Rightarrow> int \<Rightarrow> int \<Rightarrow> Action \<Rightarrow> Options \<Rightarrow> goerr + unit" where
  "can_result d ws uid action opts =
     (case role_of d ws uid of
        Some role \<Rightarrow>
          if Allowed role action (effective_options d uid action opts) then Inr ()
          else Inl (EAuthz Authz_Forbidden)
      | None \<Rightarrow> Inl (EAuthz Authz_Forbidden))"

lemma same_channel_role: "ChannelRole opts = None \<Longrightarrow> (opts :: Options)\<lparr>ChannelRole := None\<rparr> = opts"
  by (cases opts) simp

lemma reader_Can [readers]:
  "reader (authz_Can ws uid a opts) (\<lambda>d. can_result d ws uid a opts)"
  unfolding authz_Can_def
  by (rule reader_cong, (rule readers | simp)+)
     (auto simp: can_result_def effective_options_def channel_role_of_def same_channel_role
        split: option.splits)

end
