(* ===== verification/Channels.thy ===== *)
theory Channels
  imports Authz
begin

text \<open>
  \<open>internal/channels\<close>: creating, listing, joining and leaving channels, and the membership check
  \<open>AssertChannelMember\<close> that the calls service uses through its \<open>ChannelAccessChecker\<close> interface.
\<close>

definition mapAuthzError :: "goerr \<Rightarrow> goerr \<Rightarrow> goerr" where
  "mapAuthzError forbidden e = (if e = EAuthz Authz_Forbidden then forbidden else e)"

definition channels_assertWorkspaceMember :: "int \<Rightarrow> int \<Rightarrow> unit prog" where
  "channels_assertWorkspaceMember ws uid =
     andthen (exec (IsWorkspaceMember ws uid)) (\<lambda>is_member.
     if \<not> is_member then fail (EChannels Ch_NotWorkspaceMember) else ret ())"

definition channels_getChannelInWorkspace :: "int \<Rightarrow> int \<Rightarrow> channel_row prog" where
  "channels_getChannelInWorkspace ws ch =
     attempt (exec (GetChannelInWorkspace ch ws))
       (\<lambda>e. fail (no_rows_as (EChannels Ch_ChannelNotFound) e)) ret"

definition channels_CreateChannel :: "int \<Rightarrow> int \<Rightarrow> string \<Rightarrow> bool \<Rightarrow> channel_row prog" where
  "channels_CreateChannel ws uid name read_only =
     andthen (channels_assertWorkspaceMember ws uid) (\<lambda>_.
     attempt (authz_Can ws uid ActionCreateChannel no_options)
       (\<lambda>e. fail (mapAuthzError (EChannels Ch_Forbidden) e)) (\<lambda>_.
     andthen (if read_only then
                attempt (authz_WorkspaceRole ws uid)
                  (\<lambda>e. fail (mapAuthzError (EChannels Ch_Forbidden) e))
                  (\<lambda>role. if role \<noteq> RoleOwner \<and> role \<noteq> RoleAdmin
                          then fail (EChannels Ch_Forbidden) else ret ())
              else ret ()) (\<lambda>_.
     attempt (exec (CreateChannel name uid ws read_only))
       (\<lambda>e. fail (if is_unique_violation e then EChannels Ch_DuplicateChannelName else e)) (\<lambda>c.
     andthen (exec (AddChannelMember (ch_id c) uid)) (\<lambda>_.
     ret c)))))"

definition channels_GetChannels :: "int \<Rightarrow> int \<Rightarrow> channel_row list prog" where
  "channels_GetChannels ws uid =
     andthen (channels_assertWorkspaceMember ws uid) (\<lambda>_.
     exec (GetChannelsByWorkspaceAndUser uid ws))"

definition channels_JoinChannel :: "int \<Rightarrow> int \<Rightarrow> int \<Rightarrow> unit prog" where
  "channels_JoinChannel ws ch uid =
     andthen (channels_assertWorkspaceMember ws uid) (\<lambda>_.
     andthen (channels_getChannelInWorkspace ws ch) (\<lambda>_.
     andthen (exec (IsChannelMember ch uid)) (\<lambda>is_member.
     if is_member then fail (EChannels Ch_AlreadyMember)
     else andthen (exec (AddChannelMember ch uid)) (\<lambda>_. ret ()))))"

definition channels_LeaveChannel :: "int \<Rightarrow> int \<Rightarrow> int \<Rightarrow> unit prog" where
  "channels_LeaveChannel ws ch uid =
     andthen (channels_assertWorkspaceMember ws uid) (\<lambda>_.
     andthen (channels_getChannelInWorkspace ws ch) (\<lambda>c.
     if ch_owner_id c = uid then fail (EChannels Ch_OwnerCannotLeave)
     else attempt (exec (GetChannelMember ch uid))
            (\<lambda>e. fail (no_rows_as (EChannels Ch_NotMember) e))
            (\<lambda>_. exec (RemoveChannelMember ch uid))))"

definition channels_AssertChannelMember :: "int \<Rightarrow> int \<Rightarrow> int \<Rightarrow> unit prog" where
  "channels_AssertChannelMember ws ch uid =
     andthen (exec (IsWorkspaceMember ws uid)) (\<lambda>is_ws_member.
     if \<not> is_ws_member then fail (ECalls Calls_NotMember)
     else attempt (exec (GetChannelInWorkspace ch ws))
            (\<lambda>e. fail (no_rows_as (ECalls Calls_ChannelNotFound) e)) (\<lambda>_.
     andthen (exec (IsChannelMember ch uid)) (\<lambda>is_member.
     if \<not> is_member then fail (ECalls Calls_NotMember) else ret ())))"

section \<open>Membership as a fact of the database\<close>

definition in_workspace :: "db \<Rightarrow> int \<Rightarrow> int \<Rightarrow> bool" where
  "in_workspace d ws uid \<longleftrightarrow>
     (\<exists>m\<in>set (workspace_members d). wm_workspace_id m = ws \<and> wm_user_id m = uid)"

definition in_channel :: "db \<Rightarrow> int \<Rightarrow> int \<Rightarrow> bool" where
  "in_channel d ch uid \<longleftrightarrow>
     (\<exists>m\<in>set (channel_members d). cm_channel_id m = ch \<and> cm_user_id m = uid)"

definition channel_of :: "db \<Rightarrow> int \<Rightarrow> int \<Rightarrow> channel_row option" where
  "channel_of d ws ch = find (\<lambda>c. ch_id c = ch \<and> ch_workspace_id c = ws) (channels d)"

lemma reader_IsWorkspaceMember [readers]:
  "reader (exec (IsWorkspaceMember ws uid)) (\<lambda>d. Inr (in_workspace d ws uid))"
  unfolding IsWorkspaceMember_def in_workspace_def
  by (rule reader_cong, rule readers) simp

lemma reader_IsChannelMember [readers]:
  "reader (exec (IsChannelMember ch uid)) (\<lambda>d. Inr (in_channel d ch uid))"
  unfolding IsChannelMember_def in_channel_def
  by (rule reader_cong, rule readers) simp

lemma reader_GetChannelInWorkspace [readers]:
  "reader (exec (GetChannelInWorkspace ch ws))
     (\<lambda>d. case channel_of d ws ch of None \<Rightarrow> Inl ENoRows | Some c \<Rightarrow> Inr c)"
  unfolding GetChannelInWorkspace_def channel_of_def by (rule readers)

lemma reader_assertWorkspaceMember [readers]:
  "reader (channels_assertWorkspaceMember ws uid)
     (\<lambda>d. if in_workspace d ws uid then Inr () else Inl (EChannels Ch_NotWorkspaceMember))"
  unfolding channels_assertWorkspaceMember_def
  by (rule reader_cong, (rule readers)+) auto

lemma reader_getChannelInWorkspace [readers]:
  "reader (channels_getChannelInWorkspace ws ch)
     (\<lambda>d. case channel_of d ws ch of None \<Rightarrow> Inl (EChannels Ch_ChannelNotFound) | Some c \<Rightarrow> Inr c)"
  unfolding channels_getChannelInWorkspace_def
  by (rule reader_cong, (rule readers | simp add: no_rows_as_def)+)
     (auto simp: no_rows_as_def split: option.splits)

lemma reader_GetChannelMember [readers]:
  "reader (exec (GetChannelMember ch uid))
     (\<lambda>d. case find (\<lambda>m. cm_channel_id m = ch \<and> cm_user_id m = uid) (channel_members d) of
            None \<Rightarrow> Inl ENoRows | Some m \<Rightarrow> Inr m)"
  unfolding GetChannelMember_def by (rule readers)

text \<open>The result of \<open>AssertChannelMember\<close>.\<close>

definition access_result :: "db \<Rightarrow> int \<Rightarrow> int \<Rightarrow> int \<Rightarrow> goerr + unit" where
  "access_result d ws ch uid =
     (if \<not> in_workspace d ws uid then Inl (ECalls Calls_NotMember)
      else if channel_of d ws ch = None then Inl (ECalls Calls_ChannelNotFound)
      else if \<not> in_channel d ch uid then Inl (ECalls Calls_NotMember) else Inr ())"

lemma reader_AssertChannelMember [readers]:
  "reader (channels_AssertChannelMember ws ch uid) (\<lambda>d. access_result d ws ch uid)"
  unfolding channels_AssertChannelMember_def
  by (rule reader_cong, (rule readers | simp add: no_rows_as_def)+)
     (auto simp: access_result_def no_rows_as_def split: option.splits)

section \<open>Joining and leaving\<close>

lemma find_member_None:
  "find (\<lambda>m. cm_channel_id m = ch \<and> cm_user_id m = uid) (channel_members d) = None \<longleftrightarrow>
    \<not> in_channel d ch uid"
  by (auto simp: find_None_iff in_channel_def)

lemma AddChannelMember_quiet:
  assumes "tape s = []"
  shows "exec (AddChannelMember ch uid) s =
    (let d = db s; i = nextid d TChannelMembers;
         d1 = d\<lparr>nextid := (nextid d)(TChannelMembers := i + 1)\<rparr>;
         m = \<lparr>cm_id = i, cm_channel_id = ch, cm_user_id = uid, cm_created_at = now s,
              cm_updated_at = Some (now s)\<rparr>
     in if in_channel d ch uid
        then (Inl (unique_violation ''channel_members_channel_id_user_id_key''), s\<lparr>db := d1\<rparr>)
        else if \<not> channel_exists d ch then (Inl (fk_violation ''channel_members_channel_id_fkey''), s\<lparr>db := d1\<rparr>)
        else if \<not> user_exists d uid then (Inl (fk_violation ''channel_members_user_id_fkey''), s\<lparr>db := d1\<rparr>)
        else (Inr m, s\<lparr>db := d1\<lparr>channel_members := channel_members d @ [m]\<rparr>\<rparr>))"
  using assms
  by (auto simp: exec_quiet AddChannelMember_def insert_into_def Let_def in_channel_def)

text \<open>What the two operations do to the membership table, in the order of their checks.\<close>

definition join_result :: "db \<Rightarrow> int \<Rightarrow> int \<Rightarrow> int \<Rightarrow> goerr + unit" where
  "join_result d ws ch uid =
     (if \<not> in_workspace d ws uid then Inl (EChannels Ch_NotWorkspaceMember)
      else if channel_of d ws ch = None then Inl (EChannels Ch_ChannelNotFound)
      else if in_channel d ch uid then Inl (EChannels Ch_AlreadyMember)
      else Inr ())"

definition leave_result :: "db \<Rightarrow> int \<Rightarrow> int \<Rightarrow> int \<Rightarrow> goerr + unit" where
  "leave_result d ws ch uid =
     (if \<not> in_workspace d ws uid then Inl (EChannels Ch_NotWorkspaceMember)
      else case channel_of d ws ch of
             None \<Rightarrow> Inl (EChannels Ch_ChannelNotFound)
           | Some c \<Rightarrow>
               if ch_owner_id c = uid then Inl (EChannels Ch_OwnerCannotLeave)
               else if \<not> in_channel d ch uid then Inl (EChannels Ch_NotMember)
               else Inr ())"

lemma channel_of_exists: "channel_of d ws ch = Some c \<Longrightarrow> channel_exists d ch"
  unfolding channel_of_def channel_exists_def by (drule find_SomeD) auto

definition with_member :: "db \<Rightarrow> int \<Rightarrow> int \<Rightarrow> int \<Rightarrow> db" where
  "with_member d ch uid t =
     d\<lparr>nextid := (nextid d)(TChannelMembers := nextid d TChannelMembers + 1),
       channel_members := channel_members d @
         [\<lparr>cm_id = nextid d TChannelMembers, cm_channel_id = ch, cm_user_id = uid,
           cm_created_at = t, cm_updated_at = Some t\<rparr>]\<rparr>"

definition without_member :: "db \<Rightarrow> int \<Rightarrow> int \<Rightarrow> db" where
  "without_member d ch uid =
     d\<lparr>channel_members :=
         delete_where (\<lambda>m. cm_channel_id m = ch \<and> cm_user_id m = uid) (channel_members d)\<rparr>"

lemma JoinChannel_quiet:
  assumes "tape s = []" and "user_exists (db s) uid"
  shows "channels_JoinChannel ws ch uid s =
    (join_result (db s) ws ch uid,
     case join_result (db s) ws ch uid of
       Inl e \<Rightarrow> s | Inr _ \<Rightarrow> s\<lparr>db := with_member (db s) ch uid (now s)\<rparr>)"
  using assms
  by (auto simp: channels_JoinChannel_def andthen_def attempt_def with_member_def
      reader_quiet [OF reader_assertWorkspaceMember] reader_quiet [OF reader_getChannelInWorkspace]
      reader_quiet [OF reader_IsChannelMember] join_result_def AddChannelMember_quiet Let_def
      fail_def ret_def split: option.splits dest: channel_of_exists)

lemma LeaveChannel_quiet:
  assumes "tape s = []"
  shows "channels_LeaveChannel ws ch uid s =
    (leave_result (db s) ws ch uid,
     case leave_result (db s) ws ch uid of
       Inl e \<Rightarrow> s
     | Inr _ \<Rightarrow> s\<lparr>db := without_member (db s) ch uid\<rparr>)"
proof -
  note find_member_None [of ch uid "db s"]
  then show ?thesis using assms
    by (auto simp: channels_LeaveChannel_def andthen_def attempt_def leave_result_def
        reader_quiet [OF reader_assertWorkspaceMember] reader_quiet [OF reader_getChannelInWorkspace]
        reader_quiet [OF reader_GetChannelMember] fail_def ret_def no_rows_as_def
        RemoveChannelMember_def exec_delete_quiet without_member_def split: option.splits)
qed

section \<open>Properties\<close>

lemma in_channel_with_member [simp]:
  "in_channel (with_member d ch uid t) ch' v \<longleftrightarrow> (ch' = ch \<and> v = uid) \<or> in_channel d ch' v"
  by (auto simp: in_channel_def with_member_def)

lemma in_channel_without_member [simp]:
  "in_channel (without_member d ch uid) ch' v \<longleftrightarrow> in_channel d ch' v \<and> \<not> (ch' = ch \<and> v = uid)"
  by (auto simp: in_channel_def without_member_def)

lemma other_tables_with_member [simp]:
  "in_workspace (with_member d ch uid t) = in_workspace d"
  "channel_of (with_member d ch uid t) = channel_of d"
  by (simp_all add: in_workspace_def channel_of_def with_member_def fun_eq_iff)

lemma without_with_member:
  "\<not> in_channel d ch uid \<Longrightarrow>
    channel_members (without_member (with_member d ch uid t) ch uid) = channel_members d"
  by (auto simp: without_member_def with_member_def delete_where_def in_channel_def filter_id_conv)

text \<open>joining a channel and leaving it again. In a quiet world a workspace member who is
neither in the channel nor its owner joins, is then a member, leaves, and the membership table is
what it was; the owner's attempt to leave is refused.\<close>
theorem join_then_leave:
  assumes "tape s = []" and "user_exists (db s) uid" and "in_workspace (db s) ws uid"
    and "channel_of (db s) ws ch = Some c" and "\<not> in_channel (db s) ch uid"
    and "channels_JoinChannel ws ch uid s = (r, s1)" and "channels_LeaveChannel ws ch uid s1 = (r', s2)"
  shows "r = Inr () \<and> in_channel (db s1) ch uid \<and>
    (\<forall>v c'. in_channel (db s1) c' v \<longleftrightarrow> (c' = ch \<and> v = uid) \<or> in_channel (db s) c' v) \<and>
    (if ch_owner_id c = uid then r' = Inl (EChannels Ch_OwnerCannotLeave) \<and> s2 = s1
     else r' = Inr () \<and> channel_members (db s2) = channel_members (db s))"
proof -
  have join: "join_result (db s) ws ch uid = Inr ()"
    using assms by (simp add: join_result_def)
  then have r: "r = Inr ()" and s1: "s1 = s\<lparr>db := with_member (db s) ch uid (now s)\<rparr>"
    using JoinChannel_quiet [OF assms(1,2), of ws ch] assms(6) by auto
  have leave: "leave_result (db s1) ws ch uid =
    (if ch_owner_id c = uid then Inl (EChannels Ch_OwnerCannotLeave) else Inr ())"
    using assms s1 by (simp add: leave_result_def)
  have "channels_LeaveChannel ws ch uid s1 =
    (leave_result (db s1) ws ch uid,
     case leave_result (db s1) ws ch uid of
       Inl e \<Rightarrow> s1 | Inr _ \<Rightarrow> s1\<lparr>db := without_member (db s1) ch uid\<rparr>)"
    by (rule LeaveChannel_quiet) (simp add: s1 assms)
  then show ?thesis
    using r s1 leave assms(5,7) without_with_member [OF assms(5)] by (auto split: if_splits)
qed

theorem join_then_leave_witness:
  "\<exists>s1 s2. channels_JoinChannel 1 10 3 sample = (Inr (), s1) \<and> in_channel (db s1) 10 3 \<and>
    channels_LeaveChannel 1 10 3 s1 = (Inr (), s2) \<and> channel_members (db s2) = channel_members sample_db"
proof -
  obtain c where "channel_of sample_db 1 10 = Some c" "ch_owner_id c \<noteq> 3"
    by (simp add: channel_of_def sample_db_def)
  moreover have "in_workspace sample_db 1 3" "\<not> in_channel sample_db 10 3" "user_exists sample_db 3"
    by (simp_all add: in_workspace_def in_channel_def user_exists_def sample_db_def sample_member_def
        sample_user_def)
  moreover obtain r s1 where j: "channels_JoinChannel 1 10 3 sample = (r, s1)" by (rule prod.exhaust)
  moreover obtain r' s2 where "channels_LeaveChannel 1 10 3 s1 = (r', s2)" by (rule prod.exhaust)
  ultimately show ?thesis using join_then_leave [of sample 3 1 10 c r s1 r' s2] by simp
qed

text \<open>every outcome of \<open>AssertChannelMember\<close>, whatever the statements meet: it changes
nothing, and unless a connection fails it succeeds exactly for the members of a channel of the
workspace who are members of the workspace.\<close>
theorem AssertChannelMember_exact:
  assumes "channels_AssertChannelMember ws ch uid s = (r, s')" and "r \<noteq> Inl EConn"
  shows "db s' = db s \<and> outbox s' = outbox s \<and> r = access_result (db s) ws ch uid \<and>
    (r = Inr () \<longleftrightarrow> in_workspace (db s) ws uid \<and> channel_of (db s) ws ch \<noteq> None \<and>
                   in_channel (db s) ch uid)"
  using readerD [OF reader_AssertChannelMember assms(1)] assms(2) by (auto simp: access_result_def)

theorem AssertChannelMember_exact_witness:
  "\<exists>s'. channels_AssertChannelMember 1 10 2 sample = (Inr (), s') \<and> db s' = sample_db"
proof -
  obtain r s' where run: "channels_AssertChannelMember 1 10 2 sample = (r, s')" by (rule prod.exhaust)
  moreover have "r = access_result sample_db 1 10 2"
    using run reader_quiet [OF reader_AssertChannelMember, of sample 1 10 2] by simp
  moreover have "access_result sample_db 1 10 2 = Inr ()" by code_simp
  ultimately show ?thesis using AssertChannelMember_exact [of 1 10 2 sample r s'] by simp
qed

end
