(* ===== verification/Notifications.thy ===== *)
theory Notifications
  imports Db_Workspaces Sample
begin

text \<open>
  \<open>internal/notifications\<close>: the mention parser, the service that stores a notification and hands
  it to the realtime, push and email adapters, and the handlers of messages, invitations and calls.
  The adapters are the fields of \<open>notifications_service\<close>; \<open>main.go\<close> wires the hub and the no-op
  push and email senders.
\<close>

section \<open>Mentions\<close>

definition is_word_char :: "char \<Rightarrow> bool" where
  "is_word_char c =
     (let n = (of_char c :: nat)
      in (97 \<le> n \<and> n \<le> 122) \<or> (65 \<le> n \<and> n \<le> 90) \<or> (48 \<le> n \<and> n \<le> 57) \<or> n = 95)"

text \<open>The submatches of \<open>@([a-zA-Z0-9_]+)\<close>, leftmost and greedy.\<close>

function find_mentions :: "string \<Rightarrow> string list" where
  "find_mentions [] = []"
| "find_mentions (c # cs) =
     (if c = CHR ''@'' \<and> takeWhile is_word_char cs \<noteq> []
      then takeWhile is_word_char cs # find_mentions (dropWhile is_word_char cs)
      else find_mentions cs)"
  by pat_completeness auto
termination
  by (relation "measure length") (auto simp: length_dropWhile_le less_Suc_eq_le)

fun dedupe :: "string list \<Rightarrow> string list \<Rightarrow> string list" where
  "dedupe seen [] = []"
| "dedupe seen (x # xs) = (if x \<in> set seen then dedupe seen xs else x # dedupe (x # seen) xs)"

definition ParseMentions :: "string \<Rightarrow> string list" where
  "ParseMentions content = dedupe [] (find_mentions content)"

section \<open>The service\<close>

record notifications_service =
  ns_realtime :: bool
  ns_push :: "int \<Rightarrow> string \<Rightarrow> string \<Rightarrow> gomap \<Rightarrow> unit prog"
  ns_email :: "int \<Rightarrow> string \<Rightarrow> string \<Rightarrow> unit prog"

definition noopPush :: "int \<Rightarrow> string \<Rightarrow> string \<Rightarrow> gomap \<Rightarrow> unit prog" where
  "noopPush uid title body data = ret ()"

definition noopEmail :: "int \<Rightarrow> string \<Rightarrow> string \<Rightarrow> unit prog" where
  "noopEmail uid subject body = ret ()"

definition notifications_wired :: notifications_service where
  "notifications_wired = \<lparr>ns_realtime = True, ns_push = noopPush, ns_email = noopEmail\<rparr>"

record notification_input =
  in_user :: int
  in_type :: string
  in_title :: string
  in_body :: string
  in_data :: gomap

definition ValidType :: "string \<Rightarrow> bool" where
  "ValidType v \<longleftrightarrow> v = ''mention'' \<or> v = ''reply'' \<or> v = ''channel_invite'' \<or>
     v = ''workspace_invite'' \<or> v = ''call_invite''"

record notification_response =
  nr_id :: int
  nr_type :: string
  nr_title :: string
  nr_body :: string
  nr_data :: gomap
  nr_read :: bool
  nr_created_at :: int
  nr_read_at :: "int option"

definition notification_ToResponse :: "notification_row \<Rightarrow> notification_response" where
  "notification_ToResponse row =
     \<lparr>nr_id = n_id row, nr_type = n_type row, nr_title = n_title row, nr_body = n_body row,
      nr_data = n_data row, nr_read = (n_read_at row \<noteq> None), nr_created_at = n_created_at row,
      nr_read_at = n_read_at row\<rparr>"

definition notification_payload :: "notification_row \<Rightarrow> gomap" where
  "notification_payload row =
     (let p = notification_ToResponse row
      in [(''id'', VInt (nr_id p)), (''type'', VStr (nr_type p)), (''title'', VStr (nr_title p)),
          (''body'', VStr (nr_body p)), (''data'', VObj (nr_data p)), (''read'', VBool (nr_read p)),
          (''created_at'', VTime (nr_created_at p))] @
         (case nr_read_at p of None \<Rightarrow> [] | Some t \<Rightarrow> [(''read_at'', VTime t)]))"

definition notifications_dispatch :: "notifications_service \<Rightarrow> notification_row \<Rightarrow> unit prog" where
  "notifications_dispatch sv row =
     andthen (if ns_realtime sv then emit (Deliver (n_user_id row) (notification_payload row))
              else ret ()) (\<lambda>_.
     andthen (ignoring (ns_push sv (n_user_id row) (n_title row) (n_body row) (n_data row))) (\<lambda>_.
     ignoring (ns_email sv (n_user_id row) (n_title row) (n_body row))))"

definition notifications_Create ::
  "notifications_service \<Rightarrow> notification_input \<Rightarrow> notification_row prog" where
  "notifications_Create sv inp =
     (if \<not> ValidType (in_type inp) then fail (ENotifications Not_InvalidType)
      else andthen (exec (CreateNotification (in_user inp) (in_type inp) (in_title inp)
                           (in_body inp) (in_data inp))) (\<lambda>row.
           andthen (notifications_dispatch sv row) (\<lambda>_. ret row)))"

definition clamp_page :: "int \<Rightarrow> int \<Rightarrow> int \<Rightarrow> int" where
  "clamp_page dflt maximum limit =
     (let l = (if limit \<le> 0 then dflt else limit) in if l > maximum then maximum else l)"

definition notifications_List :: "int \<Rightarrow> int \<Rightarrow> int \<Rightarrow> notification_response list prog" where
  "notifications_List uid limit offset =
     andthen (exec (ListNotificationsByUser uid (clamp_page 50 100 limit)
                      (if offset < 0 then 0 else offset))) (\<lambda>rows.
     ret (map notification_ToResponse rows))"

definition notifications_MarkRead :: "int \<Rightarrow> int \<Rightarrow> notification_response prog" where
  "notifications_MarkRead uid nid =
     attempt (exec (MarkNotificationRead nid uid))
       (\<lambda>e. fail (no_rows_as (ENotifications Not_NotFound) e))
       (\<lambda>row. ret (notification_ToResponse row))"

definition notifications_MarkAllRead :: "int \<Rightarrow> int prog" where
  "notifications_MarkAllRead uid = exec (MarkAllNotificationsRead uid)"

definition notifications_HandleWorkspaceInvite ::
  "notifications_service \<Rightarrow> int \<Rightarrow> int \<Rightarrow> int \<Rightarrow> string \<Rightarrow> string \<Rightarrow> unit prog" where
  "notifications_HandleWorkspaceInvite sv ws actor target ws_name actor_name =
     (if target = actor then ret ()
      else andthen (notifications_Create sv
             \<lparr>in_user = target, in_type = ''workspace_invite'',
              in_title = ''Workspace invitation'',
              in_body = actor_name @ '' added you to '' @ ws_name,
              in_data = [(''workspace_id'', VInt ws), (''actor_id'', VInt actor)]\<rparr>)
           (\<lambda>_. ret ()))"

definition notifications_NotifyCallInvite ::
  "notifications_service \<Rightarrow> int \<Rightarrow> int \<Rightarrow> int \<Rightarrow> int \<Rightarrow> int \<Rightarrow> string \<Rightarrow> unit prog" where
  "notifications_NotifyCallInvite sv ws ch call initiator target name =
     andthen (notifications_Create sv
       \<lparr>in_user = target, in_type = ''call_invite'', in_title = ''Incoming voice call'',
        in_body = name @ '' started a voice call'',
        in_data = [(''workspace_id'', VInt ws), (''channel_id'', VInt ch), (''call_id'', VInt call),
                   (''initiator_id'', VInt initiator)]\<rparr>)
     (\<lambda>_. ret ())"

definition mention_input :: "int \<Rightarrow> int \<Rightarrow> int \<Rightarrow> message_row \<Rightarrow> string \<Rightarrow> int \<Rightarrow> notification_input" where
  "mention_input ws ch sender msg sender_name target =
     \<lparr>in_user = target, in_type = ''mention'', in_title = ''You were mentioned'',
      in_body = sender_name @ '' mentioned you in a message'',
      in_data = [(''workspace_id'', VInt ws), (''channel_id'', VInt ch),
                 (''message_id'', VInt (m_id msg)), (''sender_id'', VInt sender)]\<rparr>"

text \<open>The body of the loop over the mentioned names; \<open>continue\<close> is \<open>ret ()\<close>.\<close>

definition notify_one ::
  "notifications_service \<Rightarrow> int \<Rightarrow> int \<Rightarrow> int \<Rightarrow> message_row \<Rightarrow> string \<Rightarrow> string \<Rightarrow> unit prog" where
  "notify_one sv ws ch sender msg sender_name name =
     attempt (exec (GetWorkspaceMemberByUsername ws name))
       (\<lambda>e. if e = ENoRows then ret () else fail e)
       (\<lambda>(uid, uname, email).
          if uid = sender then ret ()
          else andthen (notifications_Create sv (mention_input ws ch sender msg sender_name uid))
                 (\<lambda>_. ret ()))"

definition notifications_notifyMentions ::
  "notifications_service \<Rightarrow> int \<Rightarrow> int \<Rightarrow> int \<Rightarrow> message_row \<Rightarrow> string \<Rightarrow> unit prog" where
  "notifications_notifyMentions sv ws ch sender msg sender_name =
     for_each (ParseMentions (m_content msg)) (notify_one sv ws ch sender msg sender_name)"

definition notifications_notifyReply ::
  "notifications_service \<Rightarrow> int \<Rightarrow> int \<Rightarrow> int \<Rightarrow> message_row \<Rightarrow> int \<Rightarrow> string \<Rightarrow> unit prog" where
  "notifications_notifyReply sv ws ch sender msg reply_to sender_name =
     attempt (exec (GetMessageByID reply_to))
       (\<lambda>e. if e = ENoRows then ret () else fail e)
       (\<lambda>parent.
          if m_channel_id parent \<noteq> ch \<or> m_sender_id parent = sender then ret ()
          else andthen (notifications_Create sv
                 \<lparr>in_user = m_sender_id parent, in_type = ''reply'', in_title = ''New reply'',
                  in_body = sender_name @ '' replied to your message'',
                  in_data = [(''workspace_id'', VInt ws), (''channel_id'', VInt ch),
                             (''message_id'', VInt (m_id msg)),
                             (''reply_to_message_id'', VInt reply_to), (''sender_id'', VInt sender)]\<rparr>)
               (\<lambda>_. ret ()))"

definition notifications_HandleMessageCreated ::
  "notifications_service \<Rightarrow> int \<Rightarrow> int \<Rightarrow> int \<Rightarrow> message_row \<Rightarrow> int option \<Rightarrow> string \<Rightarrow> unit prog" where
  "notifications_HandleMessageCreated sv ws ch sender msg reply_to sender_name =
     andthen (case reply_to of
                None \<Rightarrow> ret ()
              | Some r \<Rightarrow> ignoring (notifications_notifyReply sv ws ch sender msg r sender_name))
       (\<lambda>_. notifications_notifyMentions sv ws ch sender msg sender_name)"

section \<open>What the parser finds\<close>

text \<open>An occurrence of \<open>@name\<close>, with the name as long as possible.\<close>

definition mentions :: "string \<Rightarrow> string \<Rightarrow> bool" where
  "mentions s w \<longleftrightarrow> w \<noteq> [] \<and> list_all is_word_char w \<and>
     (\<exists>a b. s = a @ CHR ''@'' # w @ b \<and> (b = [] \<or> \<not> is_word_char (hd b)))"

lemma at_not_word [simp]: "\<not> is_word_char (CHR ''@'')"
  by (simp add: is_word_char_def)

lemma takeWhile_maximal:
  "list_all is_word_char w \<Longrightarrow> b = [] \<or> \<not> is_word_char (hd b) \<Longrightarrow>
    takeWhile is_word_char (w @ b) = w \<and> dropWhile is_word_char (w @ b) = b"
  by (induction w) (cases b, auto)

lemma mentions_Cons:
  "mentions (c # cs) w \<longleftrightarrow>
    (c = CHR ''@'' \<and> w \<noteq> [] \<and> w = takeWhile is_word_char cs) \<or> mentions cs w"
  (is "?L \<longleftrightarrow> ?R")
proof
  assume ?L
  then obtain a b where w: "w \<noteq> []" "list_all is_word_char w"
    and s: "c # cs = a @ CHR ''@'' # w @ b" and b: "b = [] \<or> \<not> is_word_char (hd b)"
    by (auto simp: mentions_def)
  show ?R
  proof (cases a)
    case Nil
    then show ?thesis using s w takeWhile_maximal [OF w(2) b] by simp
  next
    case (Cons x xs)
    then have "mentions cs w" using s w b by (auto simp: mentions_def)
    then show ?thesis ..
  qed
next
  assume ?R
  then show ?L
  proof
    assume h: "c = CHR ''@'' \<and> w \<noteq> [] \<and> w = takeWhile is_word_char cs"
    have "c # cs = [] @ CHR ''@'' # w @ dropWhile is_word_char cs" using h by simp
    moreover have "list_all is_word_char w" using h by (auto simp: list_all_iff dest: set_takeWhileD)
    moreover have "dropWhile is_word_char cs = [] \<or> \<not> is_word_char (hd (dropWhile is_word_char cs))"
      using hd_dropWhile by blast
    ultimately show ?L using h unfolding mentions_def by blast
  next
    assume "mentions cs w"
    then obtain a b where "w \<noteq> []" "list_all is_word_char w"
      "cs = a @ CHR ''@'' # w @ b" "b = [] \<or> \<not> is_word_char (hd b)" by (auto simp: mentions_def)
    moreover from this have "c # cs = (c # a) @ CHR ''@'' # w @ b" by simp
    ultimately show ?L unfolding mentions_def by blast
  qed
qed

lemma mentions_Nil [simp]: "\<not> mentions [] w"
  by (simp add: mentions_def)

lemma mentions_skip_word: "list_all is_word_char v \<Longrightarrow> mentions (v @ s) w \<longleftrightarrow> mentions s w"
  by (induction v) (auto simp: mentions_Cons)

lemma set_find_mentions: "w \<in> set (find_mentions s) \<longleftrightarrow> mentions s w"
proof (induction s rule: find_mentions.induct)
  case 1
  then show ?case by simp
next
  case (2 c cs)
  have word: "list_all is_word_char (takeWhile is_word_char cs)"
    by (auto simp: list_all_iff dest: set_takeWhileD)
  have skip: "mentions cs w \<longleftrightarrow> mentions (dropWhile is_word_char cs) w"
    using mentions_skip_word [OF word, of "dropWhile is_word_char cs"] by simp
  show ?case using 2 skip by (auto simp: mentions_Cons)
qed

lemma set_dedupe: "set (dedupe seen xs) = set xs - set seen"
  by (induction xs arbitrary: seen) auto

lemma distinct_dedupe: "distinct (dedupe seen xs)"
  by (induction xs arbitrary: seen) (auto simp: set_dedupe)

section \<open>What the service changes\<close>

text \<open>Everything but the notifications.\<close>

definition sans_notifications :: "db \<Rightarrow> db" where
  "sans_notifications d = d\<lparr>notifications := [], nextid := (nextid d)(TNotifications := 0)\<rparr>"

lemma sans_notifications_cong:
  assumes "sans_notifications d = sans_notifications d'"
  shows "users d = users d'" "workspaces d = workspaces d'"
    "workspace_members d = workspace_members d'" "channels d = channels d'"
    "channel_members d = channel_members d'" "channel_roles d = channel_roles d'"
    "messages d = messages d'" "calls d = calls d'" "call_participants d = call_participants d'"
    "call_recordings d = call_recordings d'" "apps d = apps d'"
    "user_subscriptions d = user_subscriptions d'" "usage_counters d = usage_counters d'"
    "plans d = plans d'"
    "tb \<noteq> TNotifications \<Longrightarrow> nextid d tb = nextid d' tb"
  using assms
  by (cases d; cases d'; auto simp: sans_notifications_def fun_eq_iff split: if_splits)+

lemma CreateNotification_leaves [read_only]:
  "leaves sans_notifications (exec (CreateNotification uid typ title body data))"
  by (rule leaves_exec)
     (auto simp: CreateNotification_def insert_into_def sans_notifications_def Let_def
        split: option.splits)

text \<open>The law the push and email adapters promise: they do not touch the database.\<close>

locale notification_senders =
  fixes sv :: notifications_service
  assumes push_reads: "\<exists>f. reader (ns_push sv uid title body data) f"
    and email_reads: "\<exists>f. reader (ns_email sv uid title body) f"
begin

lemma dispatch_leaves: "leaves f (notifications_dispatch sv row)"
proof -
  obtain p e where "reader (ns_push sv (n_user_id row) (n_title row) (n_body row) (n_data row)) p"
    and "reader (ns_email sv (n_user_id row) (n_title row) (n_body row)) e"
    using push_reads email_reads by blast
  then show ?thesis
    unfolding notifications_dispatch_def by (intro read_only reader_leaves) auto
qed

lemma Create_leaves: "leaves sans_notifications (notifications_Create sv inp)"
  unfolding notifications_Create_def by (intro read_only dispatch_leaves)

lemma HandleWorkspaceInvite_leaves:
  "leaves sans_notifications (notifications_HandleWorkspaceInvite sv ws a t wn an)"
  unfolding notifications_HandleWorkspaceInvite_def by (intro read_only Create_leaves)

lemma NotifyCallInvite_leaves:
  "leaves sans_notifications (notifications_NotifyCallInvite sv ws ch c i t name)"
  unfolding notifications_NotifyCallInvite_def by (intro read_only Create_leaves)

lemma notify_one_leaves:
  "leaves sans_notifications (notify_one sv ws ch sender msg sender_name name)"
  unfolding notify_one_def GetWorkspaceMemberByUsername_def
  by (intro read_only) (auto split: prod.splits intro!: read_only Create_leaves)

lemma HandleMessageCreated_leaves:
  "leaves sans_notifications (notifications_HandleMessageCreated sv ws ch sender msg reply name)"
  unfolding notifications_HandleMessageCreated_def notifications_notifyReply_def
    notifications_notifyMentions_def GetMessageByID_def
  by (intro read_only Create_leaves notify_one_leaves)

text \<open>In a quiet world, storing and dispatching a notification for an existing user.\<close>

lemma dispatch_quiet:
  assumes "tape s = []"
  shows "notifications_dispatch sv row s =
    (Inr (), if ns_realtime sv
             then s\<lparr>outbox := outbox s @ [Deliver (n_user_id row) (notification_payload row)]\<rparr> else s)"
proof -
  obtain p e where "reader (ns_push sv (n_user_id row) (n_title row) (n_body row) (n_data row)) p"
    and "reader (ns_email sv (n_user_id row) (n_title row) (n_body row)) e"
    using push_reads email_reads by blast
  then show ?thesis using assms
    by (simp add: notifications_dispatch_def andthen_def attempt_def emit_def ret_def ignoring_def
        reader_quiet split: sum.splits)
qed

lemma Create_quiet:
  assumes "tape s = []" and "ValidType (in_type inp)" and "user_exists (db s) (in_user inp)"
  shows "\<exists>row s'. notifications_Create sv inp s = (Inr row, s') \<and> tape s' = [] \<and>
    now s' = now s \<and> sans_notifications (db s') = sans_notifications (db s) \<and>
    notifications (db s') = notifications (db s) @ [row] \<and> n_user_id row = in_user inp \<and>
    n_type row = in_type inp \<and> n_data row = in_data inp \<and> n_read_at row = None"
proof -
  have ok_type: "in_type inp \<in> set notification_types"
    using assms(2) by (auto simp: ValidType_def notification_types_def)
  show ?thesis using assms ok_type
    by (auto simp: notifications_Create_def andthen_def attempt_def exec_quiet insert_into_def
        CreateNotification_def Let_def dispatch_quiet ret_def sans_notifications_def)
qed

end

lemma reader_noop: "reader (noopPush uid t b m) (\<lambda>d. Inr ())" "reader (noopEmail uid t b) (\<lambda>d. Inr ())"
  by (simp_all add: noopPush_def noopEmail_def reader_ret)

lemma noop_calm [calm]: "keeps_quiet (noopPush uid t b m)" "keeps_quiet (noopEmail uid t b)"
  by (simp_all add: noopPush_def noopEmail_def keeps_quiet_ret)

lemma wired_adapters:
  "ns_realtime notifications_wired" "ns_push notifications_wired = noopPush"
  "ns_email notifications_wired = noopEmail"
  by (simp_all add: notifications_wired_def)

lemma notifications_calm [calm]:
  "keeps_quiet (notifications_Create notifications_wired inp)"
  "keeps_quiet (notifications_HandleMessageCreated notifications_wired ws ch sender msg reply name)"
  "keeps_quiet (notifications_NotifyCallInvite notifications_wired ws ch c i t name)"
  unfolding notifications_HandleMessageCreated_def notifications_notifyReply_def
    notifications_notifyMentions_def notify_one_def notifications_Create_def
    notifications_NotifyCallInvite_def notifications_dispatch_def wired_adapters
  by (intro calm)+

interpretation wired_senders: notification_senders notifications_wired
  by unfold_locales (auto simp: notifications_wired_def intro: reader_noop)

section \<open>Who is notified\<close>

definition resolve :: "db \<Rightarrow> int \<Rightarrow> string \<Rightarrow> int option" where
  "resolve d ws name =
     (case members_named ws name d of [] \<Rightarrow> None | r # _ \<Rightarrow> Some (fst r))"

definition mention_targets :: "db \<Rightarrow> int \<Rightarrow> int \<Rightarrow> string list \<Rightarrow> int list" where
  "mention_targets d ws sender names =
     filter (\<lambda>uid. uid \<noteq> sender) (List.map_filter (resolve d ws) names)"

lemma members_named_user:
  "(uid, un, em) \<in> set (members_named ws name d) \<Longrightarrow> user_exists d uid"
  by (auto simp: members_named_def user_exists_def)

lemma resolve_user_exists: "resolve d ws name = Some uid \<Longrightarrow> user_exists d uid"
  unfolding resolve_def
  by (cases "members_named ws name d") (auto intro: members_named_user [of _ _ _ ws name])

lemma resolve_cong:
  "sans_notifications d = sans_notifications d' \<Longrightarrow> resolve d = resolve d'"
  by (simp add: resolve_def members_named_def fun_eq_iff sans_notifications_cong [of d d'])

lemma GetWorkspaceMemberByUsername_quiet:
  assumes "tape s = []"
  shows "resolve (db s) ws name = None \<Longrightarrow>
      exec (GetWorkspaceMemberByUsername ws name) s = (Inl ENoRows, s)"
    and "resolve (db s) ws name = Some uid \<Longrightarrow>
      \<exists>un em. exec (GetWorkspaceMemberByUsername ws name) s = (Inr (uid, un, em), s)"
  using assms
  by (auto simp: exec_quiet GetWorkspaceMemberByUsername_def select_one_def resolve_def
      split: list.splits)

lemma user_exists_cong:
  "sans_notifications d = sans_notifications d' \<Longrightarrow> user_exists d = user_exists d'"
  by (simp add: user_exists_def fun_eq_iff sans_notifications_cong [of d d'])

context notification_senders
begin

lemma notify_one_quiet:
  assumes "tape s = []"
  shows "\<exists>s' new. notify_one sv ws ch sender msg sname name s = (Inr (), s') \<and> tape s' = [] \<and>
    sans_notifications (db s') = sans_notifications (db s) \<and>
    notifications (db s') = notifications (db s) @ new \<and>
    map n_user_id new = mention_targets (db s) ws sender [name] \<and>
    list_all (\<lambda>n. n_type n = ''mention'') new"
proof (cases "resolve (db s) ws name")
  case None
  then show ?thesis using assms GetWorkspaceMemberByUsername_quiet(1) [OF assms None]
    by (auto simp: notify_one_def attempt_def ret_def mention_targets_def List.map_filter_def)
next
  case (Some uid)
  then obtain un em where q: "exec (GetWorkspaceMemberByUsername ws name) s = (Inr (uid, un, em), s)"
    using GetWorkspaceMemberByUsername_quiet(2) [OF assms] by blast
  show ?thesis
  proof (cases "uid = sender")
    case True
    then show ?thesis using assms q Some
      by (auto simp: notify_one_def attempt_def ret_def mention_targets_def List.map_filter_def)
  next
    case False
    define inp where "inp = mention_input ws ch sender msg sname uid"
    have inp: "ValidType (in_type inp)" "in_user inp = uid" "in_type inp = ''mention''"
      by (simp_all add: inp_def mention_input_def ValidType_def)
    obtain row s' where c: "notifications_Create sv inp s = (Inr row, s')" "tape s' = []"
      "sans_notifications (db s') = sans_notifications (db s)"
      "notifications (db s') = notifications (db s) @ [row]" "n_user_id row = uid"
      "n_type row = ''mention''"
      using Create_quiet [OF assms inp(1)] resolve_user_exists [OF Some] inp by auto
    have "notify_one sv ws ch sender msg sname name s = (Inr (), s')"
      using q False c(1) by (simp add: notify_one_def attempt_def andthen_def ret_def inp_def)
    moreover have "map n_user_id [row] = mention_targets (db s) ws sender [name]"
      using Some False c(5) by (simp add: mention_targets_def List.map_filter_def)
    ultimately show ?thesis using c by (intro exI [of _ s'] exI [of _ "[row]"]) simp
  qed
qed

lemma notify_all_quiet:
  "tape s = [] \<Longrightarrow>
    \<exists>s' new. for_each names (notify_one sv ws ch sender msg sname) s = (Inr (), s') \<and>
      sans_notifications (db s') = sans_notifications (db s) \<and>
      notifications (db s') = notifications (db s) @ new \<and>
      map n_user_id new = mention_targets (db s) ws sender names \<and>
      list_all (\<lambda>n. n_type n = ''mention'') new"
proof (induction names arbitrary: s)
  case Nil
  then show ?case by (auto simp: ret_def mention_targets_def List.map_filter_def)
next
  case (Cons name names)
  obtain s1 new1 where one: "notify_one sv ws ch sender msg sname name s = (Inr (), s1)"
    "tape s1 = []" "sans_notifications (db s1) = sans_notifications (db s)"
    "notifications (db s1) = notifications (db s) @ new1"
    "map n_user_id new1 = mention_targets (db s) ws sender [name]"
    "list_all (\<lambda>n. n_type n = ''mention'') new1"
    using notify_one_quiet [OF Cons.prems] by blast
  obtain s2 new2 where rest: "for_each names (notify_one sv ws ch sender msg sname) s1 = (Inr (), s2)"
    "sans_notifications (db s2) = sans_notifications (db s1)"
    "notifications (db s2) = notifications (db s1) @ new2"
    "map n_user_id new2 = mention_targets (db s1) ws sender names"
    "list_all (\<lambda>n. n_type n = ''mention'') new2"
    using Cons.IH [OF one(2)] by blast
  have "mention_targets (db s1) ws sender names = mention_targets (db s) ws sender names"
    using resolve_cong [OF one(3)] by (simp add: mention_targets_def)
  then have "map n_user_id (new1 @ new2) = mention_targets (db s) ws sender (name # names)"
    using one(5) rest(4) by (simp add: mention_targets_def List.map_filter_def)
  moreover have "for_each (name # names) (notify_one sv ws ch sender msg sname) s = (Inr (), s2)"
    using one(1) rest(1) by (simp add: andthen_def attempt_def)
  ultimately show ?case using one rest
    by (intro exI [of _ s2] exI [of _ "new1 @ new2"]) simp
qed

end

section \<open>Properties\<close>

text \<open>the parser returns each mentioned name once: \<open>w\<close> is in the result exactly when \<open>@w\<close>
occurs in the text with \<open>w\<close> a maximal word.\<close>
theorem ParseMentions_exact:
  "distinct (ParseMentions s) \<and> (\<forall>w. w \<in> set (ParseMentions s) \<longleftrightarrow> mentions s w)"
  by (simp add: ParseMentions_def distinct_dedupe set_dedupe set_find_mentions)

text \<open>C39: in a quiet world a new message notifies, in the order of the text, the members of the
workspace its mentions name (without regard to case), the sender excepted: one notification per
spelling, nobody else, and no other table changes.\<close>
theorem mentions_notify_members:
  assumes "tape s = []"
  shows "\<exists>s' new.
    notifications_notifyMentions notifications_wired ws ch sender msg sname s = (Inr (), s') \<and>
    sans_notifications (db s') = sans_notifications (db s) \<and>
    notifications (db s') = notifications (db s) @ new \<and>
    map n_user_id new = mention_targets (db s) ws sender (ParseMentions (m_content msg)) \<and>
    list_all (\<lambda>n. n_type n = ''mention'') new"
  unfolding notifications_notifyMentions_def by (rule wired_senders.notify_all_quiet [OF assms])

theorem mentions_notify_members_witness:
  "\<exists>s' new.
    notifications_notifyMentions notifications_wired 1 10 1
      \<lparr>m_id = 7, m_channel_id = 10, m_sender_id = 1,
       m_content = ''@bob @Bob: ask @carol, not @alice or @zed'', m_created_at = 0\<rparr>
      ''alice'' sample = (Inr (), s') \<and>
    notifications (db s') = new \<and> map n_user_id new = [2, 2, 3]"
proof -
  have "mention_targets sample_db 1 1 (ParseMentions ''@bob @Bob: ask @carol, not @alice or @zed'') = [2, 2, 3]"
    by code_simp
  moreover have "notifications sample_db = []" by (simp add: sample_db_def empty_db_def)
  ultimately show ?thesis
    using mentions_notify_members [of sample 1 10 1 "\<lparr>m_id = 7, m_channel_id = 10, m_sender_id = 1,
       m_content = ''@bob @Bob: ask @carol, not @alice or @zed'', m_created_at = 0\<rparr>" "''alice''"]
    by (auto simp del: sans_notifications_def)
qed

lemma filter_mark_read:
  "(\<And>n. p n \<Longrightarrow> n_user_id n = uid) \<Longrightarrow>
    filter (\<lambda>n. n_user_id n \<noteq> uid) (update_where p (\<lambda>n. n\<lparr>n_read_at := x\<rparr>) ns) =
    filter (\<lambda>n. n_user_id n \<noteq> uid) ns"
  by (rule filter_update_where_disjoint) simp

lemma forget_mark_read:
  "map (\<lambda>n. n\<lparr>n_read_at := y\<rparr>) (update_where p (\<lambda>n. n\<lparr>n_read_at := x\<rparr>) ns) =
    map (\<lambda>n. n\<lparr>n_read_at := y\<rparr>) ns"
  by (rule map_update_where) simp

text \<open>marking notifications as read never touches another user's notifications, whatever
the statements meet, and only sets \<open>read_at\<close> of the caller's own ones.\<close>
theorem mark_read_is_private:
  "leaves (\<lambda>d. filter (\<lambda>n. n_user_id n \<noteq> uid) (notifications d)) (notifications_MarkRead uid nid) \<and>
   leaves (\<lambda>d. filter (\<lambda>n. n_user_id n \<noteq> uid) (notifications d)) (notifications_MarkAllRead uid) \<and>
   leaves (\<lambda>d. map (\<lambda>n. n\<lparr>n_read_at := None\<rparr>) (notifications d)) (notifications_MarkRead uid nid) \<and>
   leaves (\<lambda>d. map (\<lambda>n. n\<lparr>n_read_at := None\<rparr>) (notifications d)) (notifications_MarkAllRead uid)"
  unfolding notifications_MarkRead_def notifications_MarkAllRead_def
  by (intro conjI read_only leaves_exec)
     (auto simp: MarkNotificationRead_def MarkAllNotificationsRead_def update_one_def
        forget_mark_read split: option.splits intro!: filter_mark_read)

end
