(* ===== verification/Db_Billing.thy ===== *)
theory Db_Billing
  imports Db_Workspaces
begin

text \<open>
  The statements of \<open>internal/db/billing.sql.go\<close> (plans, account subscriptions, usage counters,
  platform settings) and the \<open>apps\<close> statements they are used with. \<open>date_trunc('month', NOW())\<close>
  is \<open>month_of\<close> of the statement's time.
\<close>

definition app_exists :: "db \<Rightarrow> int \<Rightarrow> bool" where
  "app_exists d i = exists_row (\<lambda>a. a_id a = i) (apps d)"

definition plan_exists :: "db \<Rightarrow> string \<Rightarrow> bool" where
  "plan_exists d slug = exists_row (\<lambda>p. pl_slug p = slug) (plans d)"

definition coalesce :: "'a option \<Rightarrow> 'a \<Rightarrow> 'a" where
  "coalesce x y = (case x of Some v \<Rightarrow> v | None \<Rightarrow> y)"

definition opt_too_long :: "nat \<Rightarrow> string option \<Rightarrow> bool" where
  "opt_too_long n x = (case x of Some s \<Rightarrow> n < char_count s | None \<Rightarrow> False)"

section \<open>Apps\<close>

definition GetAppByID :: "int \<Rightarrow> app_row sql" where
  "GetAppByID i = select_one (\<lambda>d. find (\<lambda>a. a_id a = i) (apps d))"

definition GetAppByWorkspaceID :: "int \<Rightarrow> app_row sql" where
  "GetAppByWorkspaceID ws =
     select_one (\<lambda>d. find (\<lambda>a. a_workspace_id a = ws \<or> a_sandbox_workspace_id a = ws) (apps d))"

definition CountAppsByOwner :: "int \<Rightarrow> int sql" where
  "CountAppsByOwner uid = select (\<lambda>d. count_rows (\<lambda>a. a_owner_id a = uid) (apps d))"

section \<open>Plans\<close>

definition GetPlan :: "string \<Rightarrow> plan_row sql" where
  "GetPlan slug = select_one (\<lambda>d. find (\<lambda>p. pl_slug p = slug) (plans d))"

definition GetActivePlan :: "string \<Rightarrow> plan_row sql" where
  "GetActivePlan slug = select_one (\<lambda>d. find (\<lambda>p. pl_slug p = slug \<and> pl_is_active p) (plans d))"

text \<open>\<open>ORDER BY sort_order ASC, price_cents ASC\<close>.\<close>

definition plan_order :: "plan_row list \<Rightarrow> plan_row list" where
  "plan_order ps = order_asc pl_sort_order (order_asc pl_price_cents ps)"

definition GetDefaultPlan :: "plan_row sql" where
  "GetDefaultPlan = select_one (\<lambda>d.
     (case plan_order (filter pl_is_active (plans d)) of [] \<Rightarrow> None | p # _ \<Rightarrow> Some p))"

definition ListPlans :: "plan_row list sql" where
  "ListPlans = select (\<lambda>d. plan_order (filter pl_is_active (plans d)))"

definition ListPlansAdmin :: "plan_row list sql" where
  "ListPlansAdmin = select (\<lambda>d. plan_order (plans d))"

record plan_params =
  pp_slug :: string
  pp_name :: string
  pp_price_cents :: int
  pp_stripe_price_id :: "string option"
  pp_messages_limit :: int
  pp_connections_limit :: int
  pp_retention_days :: int
  pp_webhooks_enabled :: bool
  pp_video_calls_enabled :: bool
  pp_moderation_enabled :: bool
  pp_is_active :: bool
  pp_is_highlighted :: bool
  pp_sort_order :: int
  pp_description :: string
  pp_max_apps :: int
  pp_video_minutes_limit :: int
  pp_max_call_participants :: int

definition CreatePlan :: "plan_params \<Rightarrow> plan_row sql" where
  "CreatePlan a t d =
     (let r = \<lparr>pl_slug = pp_slug a, pl_name = pp_name a, pl_price_cents = pp_price_cents a,
               pl_stripe_price_id = pp_stripe_price_id a, pl_messages_limit = pp_messages_limit a,
               pl_connections_limit = pp_connections_limit a, pl_retention_days = pp_retention_days a,
               pl_webhooks_enabled = pp_webhooks_enabled a,
               pl_video_calls_enabled = pp_video_calls_enabled a,
               pl_moderation_enabled = pp_moderation_enabled a, pl_created_at = t,
               pl_is_active = pp_is_active a, pl_is_highlighted = pp_is_highlighted a,
               pl_sort_order = pp_sort_order a, pl_description = pp_description a,
               pl_updated_at = t, pl_max_apps = pp_max_apps a,
               pl_video_minutes_limit = pp_video_minutes_limit a,
               pl_max_call_participants = pp_max_call_participants a\<rparr>
      in guarded (\<lambda>d. [(32 < char_count (pp_slug a) \<or> 64 < char_count (pp_name a) \<or>
                          opt_too_long 128 (pp_stripe_price_id a), too_long),
                        (plan_exists d (pp_slug a), unique_violation ''plans_pkey'')])
           (\<lambda>t d. (Inr r, d\<lparr>plans := plans d @ [r]\<rparr>)) t d)"

record plan_update =
  pu_name :: "string option"
  pu_price_cents :: "int option"
  pu_stripe_price_id :: "string option"
  pu_messages_limit :: "int option"
  pu_connections_limit :: "int option"
  pu_retention_days :: "int option"
  pu_webhooks_enabled :: "bool option"
  pu_video_calls_enabled :: "bool option"
  pu_moderation_enabled :: "bool option"
  pu_is_active :: "bool option"
  pu_is_highlighted :: "bool option"
  pu_sort_order :: "int option"
  pu_description :: "string option"
  pu_max_apps :: "int option"
  pu_video_minutes_limit :: "int option"
  pu_max_call_participants :: "int option"

definition no_plan_update :: plan_update where
  "no_plan_update =
     \<lparr>pu_name = None, pu_price_cents = None, pu_stripe_price_id = None, pu_messages_limit = None,
      pu_connections_limit = None, pu_retention_days = None, pu_webhooks_enabled = None,
      pu_video_calls_enabled = None, pu_moderation_enabled = None, pu_is_active = None,
      pu_is_highlighted = None, pu_sort_order = None, pu_description = None, pu_max_apps = None,
      pu_video_minutes_limit = None, pu_max_call_participants = None\<rparr>"

definition apply_plan_update :: "plan_update \<Rightarrow> int \<Rightarrow> plan_row \<Rightarrow> plan_row" where
  "apply_plan_update u t p = p
     \<lparr>pl_name := coalesce (pu_name u) (pl_name p),
      pl_price_cents := coalesce (pu_price_cents u) (pl_price_cents p),
      pl_stripe_price_id :=
        (case pu_stripe_price_id u of Some x \<Rightarrow> Some x | None \<Rightarrow> pl_stripe_price_id p),
      pl_messages_limit := coalesce (pu_messages_limit u) (pl_messages_limit p),
      pl_connections_limit := coalesce (pu_connections_limit u) (pl_connections_limit p),
      pl_retention_days := coalesce (pu_retention_days u) (pl_retention_days p),
      pl_webhooks_enabled := coalesce (pu_webhooks_enabled u) (pl_webhooks_enabled p),
      pl_video_calls_enabled := coalesce (pu_video_calls_enabled u) (pl_video_calls_enabled p),
      pl_moderation_enabled := coalesce (pu_moderation_enabled u) (pl_moderation_enabled p),
      pl_is_active := coalesce (pu_is_active u) (pl_is_active p),
      pl_is_highlighted := coalesce (pu_is_highlighted u) (pl_is_highlighted p),
      pl_sort_order := coalesce (pu_sort_order u) (pl_sort_order p),
      pl_description := coalesce (pu_description u) (pl_description p),
      pl_max_apps := coalesce (pu_max_apps u) (pl_max_apps p),
      pl_video_minutes_limit := coalesce (pu_video_minutes_limit u) (pl_video_minutes_limit p),
      pl_max_call_participants := coalesce (pu_max_call_participants u) (pl_max_call_participants p),
      pl_updated_at := t\<rparr>"

definition UpdatePlan :: "string \<Rightarrow> plan_update \<Rightarrow> plan_row sql" where
  "UpdatePlan slug u =
     guarded (\<lambda>d. [(plan_exists d slug \<and>
                    (opt_too_long 64 (pu_name u) \<or> opt_too_long 128 (pu_stripe_price_id u)), too_long)])
       (update_one plans plans_update (\<lambda>p. pl_slug p = slug) (apply_plan_update u))"

text \<open>\<open>user_subscriptions.plan_slug\<close> references \<open>plans\<close>: a plan in use cannot be deleted.\<close>

definition DeletePlan :: "string \<Rightarrow> unit sql" where
  "DeletePlan slug =
     guarded (\<lambda>d. [(plan_exists d slug \<and>
                    exists_row (\<lambda>s. s_plan_slug s = slug) (user_subscriptions d),
                    fk_violation ''user_subscriptions_plan_slug_fkey'')])
       (delete_all plans_update (\<lambda>p. pl_slug p = slug))"

section \<open>Subscriptions\<close>

definition CountSubscriptionsForPlan :: "string \<Rightarrow> int sql" where
  "CountSubscriptionsForPlan slug =
     select (\<lambda>d. count_rows (\<lambda>s. s_plan_slug s = slug) (user_subscriptions d))"

definition AdminCountActiveSubscriptions :: "int sql" where
  "AdminCountActiveSubscriptions =
     select (\<lambda>d. count_rows (\<lambda>s. s_status s \<in> {''active'', ''trialing''}) (user_subscriptions d))"

definition CreateUserSubscription :: "int \<Rightarrow> string \<Rightarrow> string \<Rightarrow> subscription_row sql" where
  "CreateUserSubscription uid slug status =
     insert_into TSubscriptions user_subscriptions_update
       (\<lambda>d. [(32 < char_count slug \<or> 32 < char_count status, too_long),
             (exists_row (\<lambda>s. s_user_id s = uid) (user_subscriptions d),
               unique_violation ''user_subscriptions_user_id_key''),
             (\<not> user_exists d uid, fk_violation ''user_subscriptions_user_id_fkey''),
             (\<not> plan_exists d slug, fk_violation ''user_subscriptions_plan_slug_fkey'')])
       (\<lambda>i t. \<lparr>s_id = i, s_user_id = uid, s_plan_slug = slug, s_status = status,
               s_stripe_customer_id = None, s_stripe_subscription_id = None,
               s_current_period_start = None, s_current_period_end = None,
               s_created_at = t, s_updated_at = t\<rparr>)"

text \<open>The joined row: the subscription and its plan.\<close>

definition plan_of :: "db \<Rightarrow> subscription_row \<Rightarrow> plan_row option" where
  "plan_of d s = find (\<lambda>p. pl_slug p = s_plan_slug s) (plans d)"

definition GetUserSubscription :: "int \<Rightarrow> (subscription_row \<times> plan_row) sql" where
  "GetUserSubscription uid = select_one (\<lambda>d.
     (case find (\<lambda>s. s_user_id s = uid) (user_subscriptions d) of
        None \<Rightarrow> None
      | Some s \<Rightarrow> map_option (\<lambda>p. (s, p)) (plan_of d s)))"

definition GetUserSubscriptionByStripeSubscriptionID :: "string \<Rightarrow> subscription_row sql" where
  "GetUserSubscriptionByStripeSubscriptionID sid =
     select_one (\<lambda>d. find (\<lambda>s. s_stripe_subscription_id s = Some sid) (user_subscriptions d))"

record subscription_update =
  su_plan_slug :: "string option"
  su_status :: "string option"
  su_stripe_customer_id :: "string option"
  su_stripe_subscription_id :: "string option"
  su_current_period_start :: "int option"
  su_current_period_end :: "int option"

definition no_subscription_update :: subscription_update where
  "no_subscription_update =
     \<lparr>su_plan_slug = None, su_status = None, su_stripe_customer_id = None,
      su_stripe_subscription_id = None, su_current_period_start = None,
      su_current_period_end = None\<rparr>"

definition or_else :: "'a option \<Rightarrow> 'a option \<Rightarrow> 'a option" where
  "or_else x y = (case x of Some v \<Rightarrow> Some v | None \<Rightarrow> y)"

definition apply_subscription_update ::
  "subscription_update \<Rightarrow> int \<Rightarrow> subscription_row \<Rightarrow> subscription_row" where
  "apply_subscription_update u t s = s
     \<lparr>s_plan_slug := coalesce (su_plan_slug u) (s_plan_slug s),
      s_status := coalesce (su_status u) (s_status s),
      s_stripe_customer_id := or_else (su_stripe_customer_id u) (s_stripe_customer_id s),
      s_stripe_subscription_id := or_else (su_stripe_subscription_id u) (s_stripe_subscription_id s),
      s_current_period_start := or_else (su_current_period_start u) (s_current_period_start s),
      s_current_period_end := or_else (su_current_period_end u) (s_current_period_end s),
      s_updated_at := t\<rparr>"

definition UpdateUserSubscription :: "int \<Rightarrow> subscription_update \<Rightarrow> subscription_row sql" where
  "UpdateUserSubscription uid u =
     guarded (\<lambda>d. (let hit = exists_row (\<lambda>s. s_user_id s = uid) (user_subscriptions d) in
         [(hit \<and> (opt_too_long 32 (su_plan_slug u) \<or> opt_too_long 32 (su_status u) \<or>
                   opt_too_long 128 (su_stripe_customer_id u) \<or>
                   opt_too_long 128 (su_stripe_subscription_id u)), too_long),
          (hit \<and> (case su_plan_slug u of Some slug \<Rightarrow> \<not> plan_exists d slug | None \<Rightarrow> False),
            fk_violation ''user_subscriptions_plan_slug_fkey'')]))
       (update_one user_subscriptions user_subscriptions_update (\<lambda>s. s_user_id s = uid)
         (apply_subscription_update u))"

definition GetUserStripeCustomerID :: "int \<Rightarrow> string option sql" where
  "GetUserStripeCustomerID uid =
     select_one (\<lambda>d. map_option u_stripe_customer_id (find (\<lambda>u. u_id u = uid) (users d)))"

definition SetUserStripeCustomerID :: "int \<Rightarrow> string \<Rightarrow> unit sql" where
  "SetUserStripeCustomerID uid cid =
     guarded (\<lambda>d. [(exists_row (\<lambda>u. u_id u = uid \<and> u_stripe_customer_id u \<in> {None, Some []}) (users d)
                      \<and> 128 < char_count cid, too_long)])
       (update_all users_update (\<lambda>u. u_id u = uid \<and> u_stripe_customer_id u \<in> {None, Some []})
         (\<lambda>t u. u\<lparr>u_stripe_customer_id := Some cid\<rparr>))"

section \<open>Usage counters\<close>

definition owner_usage :: "(usage_row \<Rightarrow> int) \<Rightarrow> int \<Rightarrow> int \<Rightarrow> db \<Rightarrow> int" where
  "owner_usage f uid m d =
     sum_rows (\<lambda>u. uc_period_month u = m \<and>
                   exists_row (\<lambda>a. a_id a = uc_app_id u \<and> a_owner_id a = uid) (apps d))
       f (usage_counters d)"

definition SumOwnerMessageUsage :: "int \<Rightarrow> int sql" where
  "SumOwnerMessageUsage uid t d = (Inr (owner_usage uc_messages_count uid (month_of t) d), d)"

definition SumOwnerVideoMinutesUsage :: "int \<Rightarrow> int sql" where
  "SumOwnerVideoMinutesUsage uid t d = (Inr (owner_usage uc_video_minutes uid (month_of t) d), d)"

text \<open>
  \<open>INSERT ... ON CONFLICT (app_id, period_month) DO UPDATE\<close>: both branches draw from the sequence.
\<close>

definition upsert_usage :: "int \<Rightarrow> int \<Rightarrow> int \<Rightarrow> (usage_row \<Rightarrow> int) \<Rightarrow> int sql" where
  "upsert_usage app dm dv f t d =
     (let m = month_of t;
          i = nextid d TUsage;
          d1 = d\<lparr>nextid := (nextid d)(TUsage := i + 1)\<rparr>;
          hit = (\<lambda>u. uc_app_id u = app \<and> uc_period_month u = m)
      in case find hit (usage_counters d) of
           Some u \<Rightarrow>
             (let g = (\<lambda>u. u\<lparr>uc_messages_count := uc_messages_count u + dm,
                             uc_video_minutes := uc_video_minutes u + dv, uc_updated_at := t\<rparr>)
              in (Inr (f (g u)), d1\<lparr>usage_counters := update_where hit g (usage_counters d1)\<rparr>))
         | None \<Rightarrow>
             if \<not> app_exists d app then (Inl (fk_violation ''usage_counters_app_id_fkey''), d1)
             else (let u = \<lparr>uc_id = i, uc_app_id = app, uc_period_month = m,
                            uc_messages_count = dm, uc_updated_at = t, uc_video_minutes = dv\<rparr>
                   in (Inr (f u), d1\<lparr>usage_counters := usage_counters d1 @ [u]\<rparr>)))"

definition IncrementAppMessageUsage :: "int \<Rightarrow> int sql" where
  "IncrementAppMessageUsage app = upsert_usage app 1 0 uc_messages_count"

definition IncrementAppVideoMinutes :: "int \<Rightarrow> int \<Rightarrow> int sql" where
  "IncrementAppVideoMinutes app minutes = upsert_usage app 0 minutes uc_video_minutes"

text \<open>Rows of a left join: app id, name, slug, messages and minutes of the month.\<close>

definition ListOwnerAppMessageUsage :: "int \<Rightarrow> (int \<times> string \<times> string \<times> int \<times> int) list sql" where
  "ListOwnerAppMessageUsage uid t d =
     (Inr (map (\<lambda>a.
        (case find (\<lambda>u. uc_app_id u = a_id a \<and> uc_period_month u = month_of t) (usage_counters d) of
           None \<Rightarrow> (a_id a, a_name a, a_slug a, 0, 0)
         | Some u \<Rightarrow> (a_id a, a_name a, a_slug a, uc_messages_count u, uc_video_minutes u)))
        (order_desc a_created_at (filter (\<lambda>a. a_owner_id a = uid) (apps d)))), d)"

section \<open>Platform settings\<close>

definition GetPlatformSetting :: "string \<Rightarrow> string sql" where
  "GetPlatformSetting k =
     select_one (\<lambda>d. map_option ps_value (find (\<lambda>s. ps_key s = k) (platform_settings d)))"

definition UpsertPlatformSetting :: "string \<Rightarrow> string \<Rightarrow> unit sql" where
  "UpsertPlatformSetting k v t d =
     (Inr (),
      if exists_row (\<lambda>s. ps_key s = k) (platform_settings d)
      then d\<lparr>platform_settings := update_where (\<lambda>s. ps_key s = k)
               (\<lambda>s. s\<lparr>ps_value := v, ps_updated_at := t\<rparr>) (platform_settings d)\<rparr>
      else d\<lparr>platform_settings := platform_settings d @
               [\<lparr>ps_key = k, ps_value = v, ps_updated_at = t\<rparr>]\<rparr>)"

end
