(* ===== verification/Billing.thy ===== *)
theory Billing
  imports Db_Billing Sample
begin

text \<open>
  \<open>internal/billing/service.go\<close>: account subscriptions, the quotas of messages, video minutes, apps
  and webhooks that the other services consult, usage metering, checkout and the Stripe webhook.
  The Stripe client is the record \<open>stripe_api\<close> of the calls the service makes.
\<close>

definition statusAllowsUsage :: "string \<Rightarrow> bool" where
  "statusAllowsUsage status \<longleftrightarrow> status = ''active'' \<or> status = ''trialing''"

definition billing_EnsureUserSubscription :: "int \<Rightarrow> unit prog" where
  "billing_EnsureUserSubscription uid =
     attempt (exec (GetUserSubscription uid))
       (\<lambda>e. if e \<noteq> ENoRows then fail e
            else attempt (exec GetDefaultPlan)
                   (\<lambda>e. fail (no_rows_as (EBilling Bil_InvalidPlan) e))
                   (\<lambda>plan. andthen (exec (CreateUserSubscription uid (pl_slug plan) ''active''))
                              (\<lambda>_. ret ())))
       (\<lambda>_. ret ())"

definition billing_OnUserRegistered :: "int \<Rightarrow> unit prog" where
  "billing_OnUserRegistered uid = billing_EnsureUserSubscription uid"

definition billing_AssertCanCreateApp :: "int \<Rightarrow> unit prog" where
  "billing_AssertCanCreateApp uid =
     andthen (billing_EnsureUserSubscription uid) (\<lambda>_.
     andthen (exec (GetUserSubscription uid)) (\<lambda>(sub, plan).
     if \<not> statusAllowsUsage (s_status sub) then fail (EBilling Bil_SubscriptionInactive)
     else if pl_max_apps plan < 0 then ret ()
     else andthen (exec (CountAppsByOwner uid)) (\<lambda>count.
          if count \<ge> pl_max_apps plan then fail (EBilling Bil_AppLimit) else ret ())))"

section \<open>Quotas\<close>

text \<open>
  The sums of usage are aggregates: they always return a row, so \<open>ErrNoRows\<close>, which the code lets
  pass with a count of zero, stands in the branch below as the code has it.
\<close>

definition or_zero :: "int prog \<Rightarrow> (int \<Rightarrow> 'b prog) \<Rightarrow> 'b prog" where
  "or_zero q k = attempt q (\<lambda>e. if e \<noteq> ENoRows then fail e else k 0) k"

definition billing_checkOwnerMessageQuota :: "int \<Rightarrow> unit prog" where
  "billing_checkOwnerMessageQuota owner =
     andthen (billing_EnsureUserSubscription owner) (\<lambda>_.
     andthen (exec (GetUserSubscription owner)) (\<lambda>(sub, plan).
     if \<not> statusAllowsUsage (s_status sub) then fail (EBilling Bil_SubscriptionInactive)
     else or_zero (exec (SumOwnerMessageUsage owner)) (\<lambda>count.
          if pl_messages_limit plan > 0 \<and> count \<ge> pl_messages_limit plan
          then fail (EBilling Bil_MessageLimit) else ret ())))"

definition billing_CheckMessageQuota :: "int \<Rightarrow> unit prog" where
  "billing_CheckMessageQuota app_id =
     attempt (exec (GetAppByID app_id))
       (\<lambda>e. if e = ENoRows then ret () else fail e)
       (\<lambda>app. billing_checkOwnerMessageQuota (a_owner_id app))"

definition billing_CheckMessageQuotaByWorkspace :: "int \<Rightarrow> unit prog" where
  "billing_CheckMessageQuotaByWorkspace ws =
     attempt (exec (GetAppByWorkspaceID ws))
       (\<lambda>e. if e = ENoRows then ret () else fail e)
       (\<lambda>app. if ws = a_sandbox_workspace_id app then ret ()
              else billing_checkOwnerMessageQuota (a_owner_id app))"

definition billing_RecordMessageByAppID :: "int \<Rightarrow> unit prog" where
  "billing_RecordMessageByAppID app_id =
     andthen (exec (IncrementAppMessageUsage app_id)) (\<lambda>_. ret ())"

definition billing_RecordMessageByWorkspaceID :: "int \<Rightarrow> unit prog" where
  "billing_RecordMessageByWorkspaceID ws =
     attempt (exec (GetAppByWorkspaceID ws))
       (\<lambda>e. if e = ENoRows then ret () else fail e)
       (\<lambda>app. if ws = a_sandbox_workspace_id app then ret ()
              else billing_RecordMessageByAppID (a_id app))"

definition billing_CheckCanCreateWebhook :: "int \<Rightarrow> unit prog" where
  "billing_CheckCanCreateWebhook app_id =
     attempt (exec (GetAppByID app_id))
       (\<lambda>e. fail (no_rows_as (EBilling Bil_WebhooksNotAllowed) e)) (\<lambda>app.
     andthen (billing_EnsureUserSubscription (a_owner_id app)) (\<lambda>_.
     attempt (exec (GetUserSubscription (a_owner_id app)))
       (\<lambda>_. fail (EBilling Bil_WebhooksNotAllowed)) (\<lambda>(sub, plan).
     if \<not> statusAllowsUsage (s_status sub) then fail (EBilling Bil_SubscriptionInactive)
     else if \<not> pl_webhooks_enabled plan then fail (EBilling Bil_WebhooksNotAllowed)
     else ret ())))"

definition billing_CheckCanStartVideoCall :: "int \<Rightarrow> unit prog" where
  "billing_CheckCanStartVideoCall ws =
     attempt (exec (GetAppByWorkspaceID ws))
       (\<lambda>e. if e = ENoRows then ret () else fail e) (\<lambda>app.
     if ws = a_sandbox_workspace_id app then ret ()
     else andthen (billing_EnsureUserSubscription (a_owner_id app)) (\<lambda>_.
     attempt (exec (GetUserSubscription (a_owner_id app)))
       (\<lambda>_. fail (EBilling Bil_VideoNotAllowed)) (\<lambda>(sub, plan).
     if \<not> statusAllowsUsage (s_status sub) then fail (EBilling Bil_SubscriptionInactive)
     else if \<not> pl_video_calls_enabled plan then fail (EBilling Bil_VideoNotAllowed)
     else if pl_video_minutes_limit plan > 0 then
       or_zero (exec (SumOwnerVideoMinutesUsage (a_owner_id app))) (\<lambda>used.
         if used \<ge> pl_video_minutes_limit plan then fail (EBilling Bil_VideoMinutesLimit) else ret ())
     else ret ())))"

definition billing_MaxCallParticipantsForWorkspace :: "int \<Rightarrow> int prog" where
  "billing_MaxCallParticipantsForWorkspace ws =
     attempt (exec (GetAppByWorkspaceID ws))
       (\<lambda>e. if e = ENoRows then ret 0 else fail e) (\<lambda>app.
     andthen (billing_EnsureUserSubscription (a_owner_id app)) (\<lambda>_.
     andthen (exec (GetUserSubscription (a_owner_id app))) (\<lambda>(sub, plan).
     ret (pl_max_call_participants plan))))"

definition billing_RecordVideoMinutesByWorkspaceID :: "int \<Rightarrow> int \<Rightarrow> unit prog" where
  "billing_RecordVideoMinutesByWorkspaceID ws minutes =
     (if minutes \<le> 0 then ret ()
      else attempt (exec (GetAppByWorkspaceID ws))
             (\<lambda>e. if e = ENoRows then ret () else fail e)
             (\<lambda>app. if ws = a_sandbox_workspace_id app then ret ()
                    else andthen (exec (IncrementAppVideoMinutes (a_id app) minutes)) (\<lambda>_. ret ())))"

section \<open>The account page\<close>

record account_billing =
  ab_subscription :: "subscription_row \<times> plan_row"
  ab_messages :: int
  ab_video_minutes :: int
  ab_apps_count :: int
  ab_app_usage :: "(int \<times> string \<times> string \<times> int \<times> int) list"

definition billing_GetAccountBilling :: "int \<Rightarrow> account_billing prog" where
  "billing_GetAccountBilling uid =
     andthen (billing_EnsureUserSubscription uid) (\<lambda>_.
     andthen (exec (GetUserSubscription uid)) (\<lambda>sub.
     or_zero (exec (SumOwnerMessageUsage uid)) (\<lambda>msgs.
     or_zero (exec (SumOwnerVideoMinutesUsage uid)) (\<lambda>minutes.
     andthen (exec (CountAppsByOwner uid)) (\<lambda>count.
     andthen (exec (ListOwnerAppMessageUsage uid)) (\<lambda>breakdown.
     ret \<lparr>ab_subscription = sub, ab_messages = msgs, ab_video_minutes = minutes,
          ab_apps_count = count, ab_app_usage = breakdown\<rparr>))))))"

definition billing_AdminUpdateSubscription ::
  "int \<Rightarrow> string option \<Rightarrow> string option \<Rightarrow> account_billing prog" where
  "billing_AdminUpdateSubscription uid plan_slug status =
     (if plan_slug = None \<and> status = None then fail (EBilling Bil_InvalidRequest)
      else andthen (billing_EnsureUserSubscription uid) (\<lambda>_.
           andthen (case plan_slug of
                      None \<Rightarrow> ret None
                    | Some raw \<Rightarrow>
                        attempt (exec (GetPlan (TrimSpace raw)))
                          (\<lambda>e. fail (no_rows_as (EBilling Bil_InvalidPlan) e))
                          (\<lambda>_. ret (Some (TrimSpace raw)))) (\<lambda>slug.
           andthen (exec (UpdateUserSubscription uid
                     (no_subscription_update\<lparr>su_plan_slug := slug,
                        su_status := map_option TrimSpace status\<rparr>))) (\<lambda>_.
           billing_GetAccountBilling uid))))"

section \<open>Stripe\<close>

record billing_config =
  StripeSecretKey :: string
  StripeWebhookSecret :: string
  CheckoutBaseURL :: string

definition billing_Enabled :: "billing_config \<Rightarrow> bool" where
  "billing_Enabled c \<longleftrightarrow> StripeSecretKey c \<noteq> [] \<and> CheckoutBaseURL c \<noteq> []"

record checkout_params =
  cp_customer :: string
  cp_price :: string
  cp_success_url :: string
  cp_cancel_url :: string
  cp_metadata :: "(string \<times> string) list"

record stripe_event =
  ev_type :: string
  ev_raw :: gov

record stripe_subscription =
  ss_id :: string
  ss_status :: string
  ss_metadata :: "(string \<times> string) list"

text \<open>The calls into the Stripe library.\<close>

record stripe_api =
  customer_new :: "string \<Rightarrow> (string \<times> string) list \<Rightarrow> goerr + string"
  checkoutsession_new :: "checkout_params \<Rightarrow> goerr + string"
  webhook_ConstructEvent :: "string \<Rightarrow> string \<Rightarrow> string \<Rightarrow> goerr + stripe_event"
  unmarshal_subscription :: "gov \<Rightarrow> goerr + stripe_subscription"

definition billing_ensureStripeCustomer :: "stripe_api \<Rightarrow> int \<Rightarrow> string \<Rightarrow> string prog" where
  "billing_ensureStripeCustomer api uid email =
     (let create =
        andthen (external (customer_new api email [(''user_id'', FormatInt uid)])) (\<lambda>cid.
        andthen (ignoring (exec (SetUserStripeCustomerID uid cid))) (\<lambda>_.
        ret cid))
      in attempt (exec (GetUserStripeCustomerID uid))
           (\<lambda>_. create)
           (\<lambda>stored. case stored of
               Some c \<Rightarrow> if TrimSpace c \<noteq> [] then ret c else create
             | None \<Rightarrow> create))"

definition checkout_metadata :: "int \<Rightarrow> string \<Rightarrow> (string \<times> string) list" where
  "checkout_metadata uid slug = [(''user_id'', FormatInt uid), (''plan_slug'', slug)]"

definition billing_CreateCheckoutSession ::
  "stripe_api \<Rightarrow> billing_config \<Rightarrow> int \<Rightarrow> string \<Rightarrow> string \<Rightarrow> string prog" where
  "billing_CreateCheckoutSession api cfg uid email raw_slug =
     (if \<not> billing_Enabled cfg then fail (EBilling Bil_StripeNotConfigured)
      else andthen (billing_EnsureUserSubscription uid) (\<lambda>_.
      let slug = TrimSpace raw_slug in
      if slug = [] then fail (EBilling Bil_InvalidPlan)
      else attempt (exec (GetActivePlan slug))
             (\<lambda>e. fail (no_rows_as (EBilling Bil_InvalidPlan) e)) (\<lambda>plan.
      if pl_price_cents plan = 0 then fail (EBilling Bil_InvalidPlan)
      else case pl_stripe_price_id plan of
        None \<Rightarrow> fail (EBilling Bil_PlanStripePriceMissing)
      | Some price \<Rightarrow>
          if TrimSpace price = [] then fail (EBilling Bil_PlanStripePriceMissing)
          else andthen (billing_ensureStripeCustomer api uid email) (\<lambda>cid.
          andthen (external (checkoutsession_new api
             \<lparr>cp_customer = cid, cp_price = price,
              cp_success_url = CheckoutBaseURL cfg @ ''/settings/billing?session_id={CHECKOUT_SESSION_ID}'',
              cp_cancel_url = CheckoutBaseURL cfg @ ''/settings/billing'',
              cp_metadata = checkout_metadata uid slug\<rparr>)) (\<lambda>url.
          andthen (ignoring (exec (UpdateUserSubscription uid
             (no_subscription_update\<lparr>su_plan_slug := Some slug, su_stripe_customer_id := Some cid\<rparr>))))
             (\<lambda>_. ret url))))))"

fun mapStripeStatus :: "string \<Rightarrow> string" where
  "mapStripeStatus status =
     (if status = ''active'' then ''active''
      else if status = ''trialing'' then ''trialing''
      else if status = ''past_due'' then ''past_due''
      else if status = ''canceled'' \<or> status = ''unpaid'' then ''canceled''
      else ''incomplete'')"

text \<open>A missing key of a Go map reads as the empty string.\<close>

definition map_get :: "(string \<times> string) list \<Rightarrow> string \<Rightarrow> string" where
  "map_get m k = (case map_of m k of Some v \<Rightarrow> v | None \<Rightarrow> [])"

definition parseMetadataInt64 :: "(string \<times> string) list \<Rightarrow> string \<Rightarrow> goerr + int" where
  "parseMetadataInt64 metadata k =
     (let raw = map_get metadata k in
      if raw = [] then Inl (EBilling Bil_MissingMetadata)
      else case ParseInt raw of None \<Rightarrow> Inl (EBilling Bil_BadMetadata) | Some n \<Rightarrow> Inr n)"

text \<open>
  \<open>json.Unmarshal\<close> into the fields of a struct: an absent or null field keeps its zero value, a
  value of another type is an error.
\<close>

definition field_string :: "gomap \<Rightarrow> string \<Rightarrow> string option" where
  "field_string m k =
     (case map_of m k of None \<Rightarrow> Some [] | Some VNull \<Rightarrow> Some [] | Some (VStr s) \<Rightarrow> Some s | _ \<Rightarrow> None)"

fun string_map :: "gomap \<Rightarrow> (string \<times> string) list option" where
  "string_map [] = Some []"
| "string_map ((k, VStr s) # m) = map_option (\<lambda>r. (k, s) # r) (string_map m)"
| "string_map ((k, VNull) # m) = map_option (\<lambda>r. (k, []) # r) (string_map m)"
| "string_map ((k, _) # m) = None"

definition field_string_map :: "gomap \<Rightarrow> string \<Rightarrow> (string \<times> string) list option" where
  "field_string_map m k =
     (case map_of m k of None \<Rightarrow> Some [] | Some VNull \<Rightarrow> Some [] | Some (VObj o') \<Rightarrow> string_map o' | _ \<Rightarrow> None)"

record checkout_raw =
  cr_metadata :: "(string \<times> string) list"
  cr_customer :: string
  cr_subscription :: string

fun unmarshal_checkout :: "gov \<Rightarrow> goerr + checkout_raw" where
  "unmarshal_checkout (VObj m) =
     (case (field_string_map m ''metadata'', field_string m ''customer'', field_string m ''subscription'') of
        (Some md, Some c, Some su) \<Rightarrow> Inr \<lparr>cr_metadata = md, cr_customer = c, cr_subscription = su\<rparr>
      | _ \<Rightarrow> Inl (EExternal ''json''))"
| "unmarshal_checkout VNull = Inr \<lparr>cr_metadata = [], cr_customer = [], cr_subscription = []\<rparr>"
| "unmarshal_checkout v = Inl (EExternal ''json'')"

definition nonempty :: "string \<Rightarrow> string option" where
  "nonempty s = (if s = [] then None else Some s)"

definition billing_handleCheckoutCompleted :: "stripe_event \<Rightarrow> unit prog" where
  "billing_handleCheckoutCompleted ev =
     andthen (external (unmarshal_checkout (ev_raw ev))) (\<lambda>raw.
     andthen (external (parseMetadataInt64 (cr_metadata raw) ''user_id'')) (\<lambda>uid.
     andthen (billing_EnsureUserSubscription uid) (\<lambda>_.
     andthen (exec (UpdateUserSubscription uid
       (no_subscription_update\<lparr>su_status := Some ''active'',
          su_plan_slug := nonempty (map_get (cr_metadata raw) ''plan_slug''),
          su_stripe_customer_id := nonempty (cr_customer raw),
          su_stripe_subscription_id := nonempty (cr_subscription raw)\<rparr>))) (\<lambda>_.
     ret ()))))"

definition billing_handleSubscriptionChanged :: "stripe_api \<Rightarrow> stripe_event \<Rightarrow> unit prog" where
  "billing_handleSubscriptionChanged api ev =
     andthen (external (unmarshal_subscription api (ev_raw ev))) (\<lambda>sub.
     if ss_id sub = [] then ret ()
     else attempt (exec (GetUserSubscriptionByStripeSubscriptionID (ss_id sub)))
       (\<lambda>e. if e \<noteq> ENoRows then fail e
            else case parseMetadataInt64 (ss_metadata sub) ''user_id'' of
              Inl _ \<Rightarrow> ret ()
            | Inr uid \<Rightarrow>
                andthen (if map_get (ss_metadata sub) ''plan_slug'' = []
                         then andthen (exec GetDefaultPlan) (\<lambda>p. ret (pl_slug p))
                         else ret (map_get (ss_metadata sub) ''plan_slug'')) (\<lambda>slug.
                andthen (billing_EnsureUserSubscription uid) (\<lambda>_.
                andthen (exec (UpdateUserSubscription uid
                  (no_subscription_update\<lparr>su_plan_slug := Some slug,
                     su_status := Some (mapStripeStatus (ss_status sub)),
                     su_stripe_subscription_id := Some (ss_id sub)\<rparr>))) (\<lambda>_.
                ret ()))))
       (\<lambda>existing.
          let status = (if ev_type ev = ''customer.subscription.deleted'' then ''canceled''
                        else mapStripeStatus (ss_status sub))
          in andthen (exec (UpdateUserSubscription (s_user_id existing)
               (no_subscription_update\<lparr>su_status := Some status,
                  su_plan_slug := nonempty (map_get (ss_metadata sub) ''plan_slug'')\<rparr>))) (\<lambda>_.
             ret ())))"

definition billing_HandleStripeWebhook ::
  "stripe_api \<Rightarrow> billing_config \<Rightarrow> string \<Rightarrow> string \<Rightarrow> unit prog" where
  "billing_HandleStripeWebhook api cfg payload signature =
     (if \<not> billing_Enabled cfg \<or> StripeWebhookSecret cfg = [] then fail (EBilling Bil_StripeNotConfigured)
      else andthen (external (webhook_ConstructEvent api payload signature (StripeWebhookSecret cfg))) (\<lambda>ev.
           if ev_type ev = ''checkout.session.completed'' then billing_handleCheckoutCompleted ev
           else if ev_type ev = ''customer.subscription.updated'' \<or>
                   ev_type ev = ''customer.subscription.deleted''
           then billing_handleSubscriptionChanged api ev
           else ret ()))"

definition billing_AdminGetOverview :: "int prog" where
  "billing_AdminGetOverview = exec AdminCountActiveSubscriptions"

definition billing_UserEmail :: "int \<Rightarrow> string prog" where
  "billing_UserEmail uid =
     attempt (exec (GetUserByID uid)) (\<lambda>e. fail (no_rows_as (EBilling Bil_NotFound) e))
       (\<lambda>u. ret (u_email u))"

end
