(* ===== verification/Billing_Plans.thy ===== *)
theory Billing_Plans
  imports Billing
begin

text \<open>
  The administration part of \<open>internal/billing/service.go\<close>: creating, changing and deleting plans,
  the single highlighted plan, the price display, and the platform settings with the maintenance
  switch.
\<close>

section \<open>Plans\<close>

definition normalizePlanSlug :: "string \<Rightarrow> goerr + string" where
  "normalizePlanSlug raw =
     (let slug = ToLower (TrimSpace raw) in
      if slug = [] \<or> \<not> slug_pattern slug then Inl (EBilling Bil_InvalidSlug) else Inr slug)"

text \<open>\<open>fmt.Sprintf("$%.0f", float64(cents)/100)\<close>: nearest, ties to the even integer.\<close>

definition round_half_even :: "nat \<Rightarrow> nat \<Rightarrow> nat" where
  "round_half_even n m =
     (let q = n div m; r = n mod m in
      if 2 * r < m then q else if 2 * r > m then q + 1 else if even q then q else q + 1)"

definition formatPriceDisplay :: "int \<Rightarrow> string" where
  "formatPriceDisplay cents =
     (if cents = 0 then ''Free''
      else CHR ''$'' # (if cents < 0 then ''-'' else []) @
           format_nat (round_half_even (nat \<bar>cents\<bar>) 100))"

record admin_plan_response =
  apr_plan :: plan_row
  apr_price_display :: string
  apr_subscription_count :: int

definition toAdminPlanResponse :: "plan_row \<Rightarrow> int \<Rightarrow> admin_plan_response" where
  "toAdminPlanResponse p n =
     \<lparr>apr_plan = p, apr_price_display = formatPriceDisplay (pl_price_cents p),
      apr_subscription_count = n\<rparr>"

definition billing_ListPlans :: "plan_row list prog" where
  "billing_ListPlans = exec ListPlans"

fun count_each :: "plan_row list \<Rightarrow> admin_plan_response list prog" where
  "count_each [] = ret []"
| "count_each (p # ps) =
     andthen (exec (CountSubscriptionsForPlan (pl_slug p))) (\<lambda>n.
     andthen (count_each ps) (\<lambda>rest. ret (toAdminPlanResponse p n # rest)))"

definition billing_AdminListPlans :: "admin_plan_response list prog" where
  "billing_AdminListPlans = andthen (exec ListPlansAdmin) count_each"

definition unhighlight :: plan_update where
  "unhighlight = no_plan_update\<lparr>pu_is_highlighted := Some False\<rparr>"

definition billing_clearOtherHighlights :: "string \<Rightarrow> unit prog" where
  "billing_clearOtherHighlights keep =
     andthen (exec ListPlansAdmin) (\<lambda>ps.
     for_each ps (\<lambda>p.
       if pl_slug p = keep \<or> \<not> pl_is_highlighted p then ret ()
       else andthen (exec (UpdatePlan (pl_slug p) unhighlight)) (\<lambda>_. ret ())))"

text \<open>\<open>CreatePlanRequest\<close> has the fields of \<open>CreatePlanParams\<close>; its price id is a string.\<close>

definition billing_AdminCreatePlan :: "plan_params \<Rightarrow> string \<Rightarrow> admin_plan_response prog" where
  "billing_AdminCreatePlan req stripe_price_id =
     (case normalizePlanSlug (pp_slug req) of
        Inl e \<Rightarrow> fail e
      | Inr slug \<Rightarrow>
          let name = TrimSpace (pp_name req) in
          if name = [] then fail (EBilling Bil_InvalidRequest)
          else if pp_price_cents req < 0 \<or> pp_messages_limit req < 0 \<or> pp_connections_limit req < 0 \<or>
                  pp_retention_days req < 0 \<or> pp_max_apps req < -1 \<or>
                  pp_video_minutes_limit req < 0 \<or> pp_max_call_participants req < 0
          then fail (EBilling Bil_InvalidRequest)
          else attempt (exec (GetPlan slug))
            (\<lambda>e. if e \<noteq> ENoRows then fail e
                 else andthen (exec (CreatePlan (req
                        \<lparr>pp_slug := slug, pp_name := name,
                         pp_description := TrimSpace (pp_description req),
                         pp_max_apps := (if pp_max_apps req = 0 then 1 else pp_max_apps req),
                         pp_stripe_price_id :=
                           (if TrimSpace stripe_price_id = [] then None
                            else Some (TrimSpace stripe_price_id))\<rparr>))) (\<lambda>plan.
                      andthen (if pp_is_highlighted req then billing_clearOtherHighlights slug
                               else ret ()) (\<lambda>_.
                      ret (toAdminPlanResponse plan 0))))
            (\<lambda>_. fail (EBilling Bil_SlugTaken)))"

text \<open>The request fields in the order the code checks them; \<open>None\<close> is \<open>ErrInvalidRequest\<close>.\<close>

definition plan_update_of :: "plan_update \<Rightarrow> plan_update option" where
  "plan_update_of req =
     (if (case pu_name req of Some n \<Rightarrow> TrimSpace n = [] | None \<Rightarrow> False) \<or>
         (case pu_price_cents req of Some c \<Rightarrow> c < 0 | None \<Rightarrow> False) \<or>
         (case pu_max_apps req of Some n \<Rightarrow> n < -1 | None \<Rightarrow> False) \<or>
         (case pu_video_minutes_limit req of Some n \<Rightarrow> n < 0 | None \<Rightarrow> False) \<or>
         (case pu_max_call_participants req of Some n \<Rightarrow> n < 0 | None \<Rightarrow> False)
      then None
      else Some (req\<lparr>pu_name := map_option TrimSpace (pu_name req),
                     pu_description := map_option TrimSpace (pu_description req),
                     pu_stripe_price_id := map_option TrimSpace (pu_stripe_price_id req)\<rparr>))"

definition billing_AdminUpdatePlan :: "string \<Rightarrow> plan_update \<Rightarrow> admin_plan_response prog" where
  "billing_AdminUpdatePlan raw_slug req =
     (let slug = TrimSpace raw_slug in
      if slug = [] then fail (EBilling Bil_InvalidRequest)
      else attempt (exec (GetPlan slug))
             (\<lambda>e. fail (no_rows_as (EBilling Bil_NotFound) e)) (\<lambda>_.
           if req = no_plan_update then fail (EBilling Bil_InvalidRequest)
           else case plan_update_of req of
             None \<Rightarrow> fail (EBilling Bil_InvalidRequest)
           | Some u \<Rightarrow>
               andthen (exec (UpdatePlan slug u)) (\<lambda>plan.
               andthen (if pu_is_highlighted req = Some True
                        then andthen (billing_clearOtherHighlights slug) (\<lambda>_. exec (GetPlan slug))
                        else ret plan) (\<lambda>plan.
               andthen (exec (CountSubscriptionsForPlan slug)) (\<lambda>n.
               ret (toAdminPlanResponse plan n))))))"

definition billing_AdminDeletePlan :: "string \<Rightarrow> unit prog" where
  "billing_AdminDeletePlan raw_slug =
     (let slug = TrimSpace raw_slug in
      if slug = [] then fail (EBilling Bil_InvalidRequest)
      else attempt (exec (GetPlan slug))
             (\<lambda>e. fail (no_rows_as (EBilling Bil_NotFound) e)) (\<lambda>_.
           andthen (exec (CountSubscriptionsForPlan slug)) (\<lambda>n.
           if n > 0 then fail (EBilling Bil_PlanInUse)
           else exec (DeletePlan slug))))"

section \<open>Platform settings\<close>

definition ParseBool :: "string \<Rightarrow> bool option" where
  "ParseBool s =
     (if s \<in> {''1'', ''t'', ''T'', ''TRUE'', ''true'', ''True''} then Some True
      else if s \<in> {''0'', ''f'', ''F'', ''FALSE'', ''false'', ''False''} then Some False
      else None)"

definition FormatBool :: "bool \<Rightarrow> string" where
  "FormatBool b = (if b then ''true'' else ''false'')"

definition billing_getBoolSetting :: "string \<Rightarrow> bool prog" where
  "billing_getBoolSetting k =
     attempt (exec (GetPlatformSetting k))
       (\<lambda>e. if e = ENoRows then ret False else fail e)
       (\<lambda>v. ret (case ParseBool v of None \<Rightarrow> False | Some b \<Rightarrow> b))"

text \<open>The message of \<open>GetPlatformStatus\<close>: any error of its lookup leaves it empty.\<close>

definition billing_GetPlatformStatus :: "(bool \<times> string) prog" where
  "billing_GetPlatformStatus =
     andthen (billing_getBoolSetting ''maintenance_mode'') (\<lambda>mode.
     attempt (exec (GetPlatformSetting ''maintenance_message''))
       (\<lambda>_. ret (mode, [])) (\<lambda>msg. ret (mode, msg)))"

definition billing_IsMaintenanceMode :: "(bool \<times> string) prog" where
  "billing_IsMaintenanceMode = billing_GetPlatformStatus"

definition billing_GetPlatformSettings :: "(bool \<times> string) prog" where
  "billing_GetPlatformSettings =
     andthen (billing_getBoolSetting ''maintenance_mode'') (\<lambda>mode.
     attempt (exec (GetPlatformSetting ''maintenance_message''))
       (\<lambda>e. if e = ENoRows then ret (mode, []) else fail e) (\<lambda>msg. ret (mode, msg)))"

definition billing_UpdatePlatformSettings ::
  "bool option \<Rightarrow> string option \<Rightarrow> (bool \<times> string) prog" where
  "billing_UpdatePlatformSettings mode msg =
     (if mode = None \<and> msg = None then fail (EBilling Bil_InvalidRequest)
      else andthen (case mode of
                      None \<Rightarrow> ret ()
                    | Some b \<Rightarrow> exec (UpsertPlatformSetting ''maintenance_mode'' (FormatBool b))) (\<lambda>_.
           andthen (case msg of
                      None \<Rightarrow> ret ()
                    | Some m \<Rightarrow> exec (UpsertPlatformSetting ''maintenance_message'' (TrimSpace m))) (\<lambda>_.
           billing_GetPlatformSettings)))"

section \<open>The invariant of the billing tables\<close>

definition usage_key :: "usage_row \<Rightarrow> int \<times> int" where
  "usage_key u = (uc_app_id u, uc_period_month u)"

text \<open>
  One subscription per user, each to an existing plan; plans are unique by slug and usage counters
  by app and month.
\<close>

definition billing_ok :: "db \<Rightarrow> bool" where
  "billing_ok d \<longleftrightarrow>
     distinct (map s_user_id (user_subscriptions d)) \<and>
     s_plan_slug ` set (user_subscriptions d) \<subseteq> pl_slug ` set (plans d) \<and>
     distinct (map pl_slug (plans d)) \<and> distinct (map usage_key (usage_counters d))"

definition billing_tables :: "db \<Rightarrow> plan_row list \<times> subscription_row list \<times> usage_row list" where
  "billing_tables d = (plans d, user_subscriptions d, usage_counters d)"

lemma billing_ok_cong: "billing_tables d = billing_tables d' \<Longrightarrow> billing_ok d \<Longrightarrow> billing_ok d'"
  by (simp add: billing_tables_def billing_ok_def)

lemma leaves_billing_ok: "leaves billing_tables m \<Longrightarrow> preserves billing_ok m"
  by (erule leaves_imp_preserves) (rule billing_ok_cong)

lemma plan_exists_iff: "plan_exists d slug \<longleftrightarrow> slug \<in> pl_slug ` set (plans d)"
  by (auto simp: plan_exists_def)

text \<open>A read that depends on the time.\<close>

lemma preserves_read: "(\<And>t d. snd (q t d) = d) \<Longrightarrow> preserves I (exec q)"
  by (rule preserves_exec) simp

lemma billing_reads [preserve]:
  "preserves I (exec (GetUserSubscription uid))" "preserves I (exec GetDefaultPlan)"
  "preserves I (exec (GetPlan slug))" "preserves I (exec (GetActivePlan slug))"
  "preserves I (exec ListPlansAdmin)" "preserves I (exec ListPlans)"
  "preserves I (exec (CountSubscriptionsForPlan slug))" "preserves I (exec (CountAppsByOwner uid))"
  "preserves I (exec (GetAppByID i))" "preserves I (exec (GetAppByWorkspaceID ws))"
  "preserves I (exec (SumOwnerMessageUsage uid))" "preserves I (exec (SumOwnerVideoMinutesUsage uid))"
  "preserves I (exec (ListOwnerAppMessageUsage uid))" "preserves I (exec (GetUserStripeCustomerID uid))"
  "preserves I (exec (GetUserSubscriptionByStripeSubscriptionID sid))"
  "preserves I (exec (GetPlatformSetting k))"
  by (rule preserves_read;
      simp add: GetUserSubscription_def GetDefaultPlan_def GetPlan_def GetActivePlan_def
        ListPlansAdmin_def ListPlans_def CountSubscriptionsForPlan_def CountAppsByOwner_def GetAppByID_def
        GetAppByWorkspaceID_def SumOwnerMessageUsage_def SumOwnerVideoMinutesUsage_def
        ListOwnerAppMessageUsage_def GetUserStripeCustomerID_def
        GetUserSubscriptionByStripeSubscriptionID_def GetPlatformSetting_def select_def select_one_def
        split: option.splits)+

lemma CreateUserSubscription_ok [preserve]:
  "preserves billing_ok (exec (CreateUserSubscription uid slug status))"
  by (rule preserves_exec)
     (auto simp: CreateUserSubscription_def insert_into_def Let_def billing_ok_def plan_exists_iff
        split: option.splits if_splits)

lemma UpdateUserSubscription_ok [preserve]:
  "preserves billing_ok (exec (UpdateUserSubscription uid u))"
proof (rule preserves_exec)
  fix t d assume ok: "billing_ok d"
  let ?g = "apply_subscription_update u t"
  let ?rows = "update_where (\<lambda>s. s_user_id s = uid) ?g (user_subscriptions d)"
  have ids: "map s_user_id ?rows = map s_user_id (user_subscriptions d)"
    by (rule map_update_where) (simp add: apply_subscription_update_def)
  have slugs: "s_plan_slug ` set ?rows \<subseteq> pl_slug ` set (plans d)"
    if "case su_plan_slug u of Some slug \<Rightarrow> plan_exists d slug | None \<Rightarrow> True"
    using that ok
    by (auto simp: billing_ok_def set_update_where apply_subscription_update_def coalesce_def
        plan_exists_iff split: option.splits)
  obtain res d' where run: "UpdateUserSubscription uid u t d = (res, d')" by (rule prod.exhaust)
  from run [unfolded UpdateUserSubscription_def] have "billing_ok d'"
  proof (cases rule: guarded_updateE)
    case (updated r)
    then have "case su_plan_slug u of Some slug \<Rightarrow> plan_exists d slug | None \<Rightarrow> True"
      by (auto simp: Let_def split: option.splits if_splits)
    then show ?thesis using updated(4) ok ids slugs by (simp add: billing_ok_def)
  qed (use ok in simp)
  then show "billing_ok (snd (UpdateUserSubscription uid u t d))" by (simp add: run)
qed

lemma apply_plan_update_slug [simp]: "pl_slug (apply_plan_update u t p) = pl_slug p"
  by (simp add: apply_plan_update_def)

lemma UpdatePlan_ok [preserve]: "preserves billing_ok (exec (UpdatePlan slug u))"
proof (rule preserves_exec)
  fix t d assume ok: "billing_ok d"
  have "map pl_slug (update_where (\<lambda>p. pl_slug p = slug) (apply_plan_update u t) (plans d)) =
      map pl_slug (plans d)"
    by (rule map_update_where) simp
  moreover from this have "pl_slug ` set (update_where (\<lambda>p. pl_slug p = slug) (apply_plan_update u t) (plans d)) =
      pl_slug ` set (plans d)" by (metis list.set_map)
  ultimately have ok': "billing_ok (plans_update (update_where (\<lambda>p. pl_slug p = slug) (apply_plan_update u t)) d)"
    using ok by (simp add: billing_ok_def)
  obtain res d' where run: "UpdatePlan slug u t d = (res, d')" by (rule prod.exhaust)
  from run [unfolded UpdatePlan_def] have "billing_ok d'"
  proof (cases rule: guarded_updateE)
    case (updated r)
    then show ?thesis using ok' by simp
  qed (use ok in simp)
  then show "billing_ok (snd (UpdatePlan slug u t d))" by (simp add: run)
qed

lemma CreatePlan_ok [preserve]: "preserves billing_ok (exec (CreatePlan a))"
  by (rule preserves_exec)
     (auto simp: CreatePlan_def guarded_def Let_def billing_ok_def plan_exists_iff
        split: option.splits if_splits)

lemma DeletePlan_ok [preserve]: "preserves billing_ok (exec (DeletePlan slug))"
  by (rule preserves_exec)
     (auto simp: DeletePlan_def guarded_def delete_all_def billing_ok_def plan_exists_iff
        delete_where_def distinct_map_filter image_iff split: option.splits if_splits)

lemma upsert_usage_ok: "billing_ok d \<Longrightarrow> billing_ok (snd (upsert_usage app dm dv f t d))"
proof -
  assume ok: "billing_ok d"
  let ?hit = "\<lambda>u. uc_app_id u = app \<and> uc_period_month u = month_of t"
  let ?g = "\<lambda>u. u\<lparr>uc_messages_count := uc_messages_count u + dm,
      uc_video_minutes := uc_video_minutes u + dv, uc_updated_at := t\<rparr>"
  have "map usage_key (update_where ?hit ?g (usage_counters d)) = map usage_key (usage_counters d)"
    by (rule map_update_where) (simp add: usage_key_def)
  then show ?thesis using ok
    by (auto simp: upsert_usage_def Let_def billing_ok_def usage_key_def find_None_iff
        split: option.splits)
qed

lemma usage_ok [preserve]:
  "preserves billing_ok (exec (IncrementAppMessageUsage app))"
  "preserves billing_ok (exec (IncrementAppVideoMinutes app m))"
  by (rule preserves_exec; simp add: IncrementAppMessageUsage_def IncrementAppVideoMinutes_def
      upsert_usage_ok)+

lemma other_writes_ok [preserve]:
  "preserves billing_ok (exec (SetUserStripeCustomerID uid c))"
  "preserves billing_ok (exec (UpsertPlatformSetting k v))"
  by (rule leaves_billing_ok, rule leaves_exec,
      auto simp: SetUserStripeCustomerID_def guarded_def update_all_def billing_tables_def
        UpsertPlatformSetting_def split: option.splits)+

lemma preserves_or_zero [preserve]:
  "preserves I q \<Longrightarrow> (\<And>n. preserves I (k n)) \<Longrightarrow> preserves I (or_zero q k)"
  unfolding or_zero_def by (intro preserve)

lemma Ensure_ok [preserve]: "preserves billing_ok (billing_EnsureUserSubscription uid)"
  unfolding billing_EnsureUserSubscription_def by (intro preserve)

lemma quota_ok [preserve]:
  "preserves billing_ok (billing_CheckMessageQuotaByWorkspace ws)"
  "preserves billing_ok (billing_CheckMessageQuota app)"
  "preserves billing_ok (billing_RecordMessageByWorkspaceID ws)"
  "preserves billing_ok (billing_RecordMessageByAppID app)"
  "preserves billing_ok (billing_CheckCanStartVideoCall ws)"
  "preserves billing_ok (billing_MaxCallParticipantsForWorkspace ws)"
  "preserves billing_ok (billing_RecordVideoMinutesByWorkspaceID ws m)"
  "preserves billing_ok (billing_CheckCanCreateWebhook app)"
  "preserves billing_ok (billing_AssertCanCreateApp uid)"
  unfolding billing_CheckMessageQuotaByWorkspace_def billing_CheckMessageQuota_def
    billing_checkOwnerMessageQuota_def billing_RecordMessageByWorkspaceID_def
    billing_RecordMessageByAppID_def billing_CheckCanStartVideoCall_def
    billing_MaxCallParticipantsForWorkspace_def billing_RecordVideoMinutesByWorkspaceID_def
    billing_CheckCanCreateWebhook_def billing_AssertCanCreateApp_def
  by (intro preserve)+

lemma account_ok [preserve]: "preserves billing_ok (billing_GetAccountBilling uid)"
  unfolding billing_GetAccountBilling_def by (intro preserve)

lemma admin_subscription_ok [preserve]:
  "preserves billing_ok (billing_AdminUpdateSubscription uid p st)"
  unfolding billing_AdminUpdateSubscription_def by (intro preserve)

lemma customer_ok [preserve]: "preserves billing_ok (billing_ensureStripeCustomer api uid email)"
  unfolding billing_ensureStripeCustomer_def Let_def by (intro preserve)

lemma checkout_ok [preserve]: "preserves billing_ok (billing_CreateCheckoutSession api cfg uid email slug)"
  unfolding billing_CreateCheckoutSession_def Let_def by (intro preserve)

lemma webhook_ok [preserve]: "preserves billing_ok (billing_HandleStripeWebhook api cfg payload sig)"
  unfolding billing_HandleStripeWebhook_def billing_handleCheckoutCompleted_def
    billing_handleSubscriptionChanged_def Let_def
  by (intro preserve)

lemma plans_ok [preserve]:
  "preserves billing_ok (billing_AdminCreatePlan req price)"
  "preserves billing_ok (billing_AdminUpdatePlan slug u)"
  "preserves billing_ok (billing_AdminDeletePlan slug)"
  unfolding billing_AdminCreatePlan_def billing_AdminUpdatePlan_def billing_AdminDeletePlan_def
    billing_clearOtherHighlights_def Let_def
  by (intro preserve)+

section \<open>What metering leaves alone\<close>

text \<open>Everything but the subscriptions and the usage counters.\<close>

definition sans_metering :: "db \<Rightarrow> db" where
  "sans_metering d = d\<lparr>user_subscriptions := [], usage_counters := [],
     nextid := (nextid d)(TSubscriptions := 0, TUsage := 0)\<rparr>"

lemma sans_metering_cong:
  assumes "sans_metering d = sans_metering d'"
  shows "users d = users d'" "workspaces d = workspaces d'"
    "workspace_members d = workspace_members d'" "channels d = channels d'"
    "channel_members d = channel_members d'" "channel_roles d = channel_roles d'"
    "messages d = messages d'" "calls d = calls d'" "call_participants d = call_participants d'"
    "call_recordings d = call_recordings d'" "apps d = apps d'" "plans d = plans d'"
    "tb \<noteq> TSubscriptions \<Longrightarrow> tb \<noteq> TUsage \<Longrightarrow> nextid d tb = nextid d' tb"
  using assms
  by (cases d; cases d'; auto simp: sans_metering_def fun_eq_iff split: if_splits)+

lemma billing_reads_leave [read_only]:
  "leaves f (exec (GetUserSubscription uid))" "leaves f (exec GetDefaultPlan)"
  "leaves f (exec (GetAppByWorkspaceID ws))" "leaves f (exec (GetAppByID i))"
  "leaves f (exec (SumOwnerMessageUsage uid))" "leaves f (exec (SumOwnerVideoMinutesUsage uid))"
  by (simp_all add: leaves_preserves billing_reads)

lemma CreateUserSubscription_leaves [read_only]:
  "leaves sans_metering (exec (CreateUserSubscription uid slug status))"
  by (rule leaves_exec)
     (auto simp: CreateUserSubscription_def insert_into_def Let_def sans_metering_def
        split: option.splits)

lemma upsert_usage_leaves:
  "sans_metering (snd (upsert_usage app dm dv f t d)) = sans_metering d"
  by (auto simp: upsert_usage_def Let_def sans_metering_def split: option.splits)

lemma Increment_leaves [read_only]:
  "leaves sans_metering (exec (IncrementAppMessageUsage app))"
  "leaves sans_metering (exec (IncrementAppVideoMinutes app m))"
  by (rule leaves_exec; simp add: IncrementAppMessageUsage_def IncrementAppVideoMinutes_def
      upsert_usage_leaves)+

lemma leaves_or_zero [read_only]:
  "leaves f q \<Longrightarrow> (\<And>n. leaves f (k n)) \<Longrightarrow> leaves f (or_zero q k)"
  unfolding or_zero_def by (intro read_only)

lemma Ensure_leaves [read_only]: "leaves sans_metering (billing_EnsureUserSubscription uid)"
  unfolding billing_EnsureUserSubscription_def by (intro read_only)

lemma metering_leaves [read_only]:
  "leaves sans_metering (billing_CheckMessageQuotaByWorkspace ws)"
  "leaves sans_metering (billing_RecordMessageByWorkspaceID ws)"
  "leaves sans_metering (billing_CheckCanStartVideoCall ws)"
  "leaves sans_metering (billing_MaxCallParticipantsForWorkspace ws)"
  "leaves sans_metering (billing_RecordVideoMinutesByWorkspaceID ws m)"
  unfolding billing_CheckMessageQuotaByWorkspace_def billing_checkOwnerMessageQuota_def
    billing_RecordMessageByWorkspaceID_def billing_RecordMessageByAppID_def
    billing_CheckCanStartVideoCall_def billing_MaxCallParticipantsForWorkspace_def
    billing_RecordVideoMinutesByWorkspaceID_def
  by (intro read_only)+

lemma keeps_quiet_or_zero [calm]:
  "keeps_quiet q \<Longrightarrow> (\<And>n. keeps_quiet (k n)) \<Longrightarrow> keeps_quiet (or_zero q k)"
  unfolding or_zero_def by (intro calm)

lemma billing_calm [calm]:
  "keeps_quiet (billing_EnsureUserSubscription uid)"
  "keeps_quiet (billing_CheckMessageQuotaByWorkspace ws)"
  "keeps_quiet (billing_RecordMessageByWorkspaceID ws)"
  "keeps_quiet (billing_CheckCanStartVideoCall ws)"
  "keeps_quiet (billing_MaxCallParticipantsForWorkspace ws)"
  "keeps_quiet (billing_RecordVideoMinutesByWorkspaceID ws m)"
  unfolding billing_CheckMessageQuotaByWorkspace_def billing_checkOwnerMessageQuota_def
    billing_RecordMessageByWorkspaceID_def billing_RecordMessageByAppID_def
    billing_CheckCanStartVideoCall_def billing_MaxCallParticipantsForWorkspace_def
    billing_RecordVideoMinutesByWorkspaceID_def billing_EnsureUserSubscription_def
  by (intro calm)+

section \<open>Quotas in a quiet world\<close>

definition sub_of :: "db \<Rightarrow> int \<Rightarrow> (subscription_row \<times> plan_row) option" where
  "sub_of d uid =
     (case find (\<lambda>s. s_user_id s = uid) (user_subscriptions d) of
        None \<Rightarrow> None
      | Some s \<Rightarrow> map_option (\<lambda>p. (s, p)) (plan_of d s))"

definition app_of_workspace :: "db \<Rightarrow> int \<Rightarrow> app_row option" where
  "app_of_workspace d ws =
     find (\<lambda>a. a_workspace_id a = ws \<or> a_sandbox_workspace_id a = ws) (apps d)"

lemma reader_GetUserSubscription [readers]:
  "reader (exec (GetUserSubscription uid))
     (\<lambda>d. case sub_of d uid of None \<Rightarrow> Inl ENoRows | Some x \<Rightarrow> Inr x)"
  unfolding GetUserSubscription_def sub_of_def by (rule readers)

lemma reader_GetAppByWorkspaceID [readers]:
  "reader (exec (GetAppByWorkspaceID ws))
     (\<lambda>d. case app_of_workspace d ws of None \<Rightarrow> Inl ENoRows | Some x \<Rightarrow> Inr x)"
  unfolding GetAppByWorkspaceID_def app_of_workspace_def by (rule readers)

lemma Ensure_present:
  "tape s = [] \<Longrightarrow> sub_of (db s) uid = Some x \<Longrightarrow> billing_EnsureUserSubscription uid s = (Inr (), s)"
  by (simp add: billing_EnsureUserSubscription_def attempt_def
      reader_quiet [OF reader_GetUserSubscription] ret_def)

lemma SumOwnerMessageUsage_quiet:
  "tape s = [] \<Longrightarrow> exec (SumOwnerMessageUsage uid) s =
    (Inr (owner_usage uc_messages_count uid (month_of (now s)) (db s)), s)"
  by (simp add: exec_quiet SumOwnerMessageUsage_def)

text \<open>The verdict of the message quota.\<close>

definition quota_result :: "string \<Rightarrow> int \<Rightarrow> int \<Rightarrow> goerr + unit" where
  "quota_result status limit used =
     (if \<not> statusAllowsUsage status then Inl (EBilling Bil_SubscriptionInactive)
      else if limit > 0 \<and> used \<ge> limit then Inl (EBilling Bil_MessageLimit) else Inr ())"

lemma CheckMessageQuota_quiet:
  assumes "tape s = []" and "app_of_workspace (db s) ws = Some a"
    and "ws \<noteq> a_sandbox_workspace_id a" and "sub_of (db s) (a_owner_id a) = Some (sub, plan)"
  shows "billing_CheckMessageQuotaByWorkspace ws s =
    (quota_result (s_status sub) (pl_messages_limit plan)
       (owner_usage uc_messages_count (a_owner_id a) (month_of (now s)) (db s)), s)"
  using assms
  by (simp add: billing_CheckMessageQuotaByWorkspace_def billing_checkOwnerMessageQuota_def
      andthen_def attempt_def or_zero_def reader_quiet [OF reader_GetAppByWorkspaceID]
      Ensure_present reader_quiet [OF reader_GetUserSubscription] SumOwnerMessageUsage_quiet
      quota_result_def ret_def fail_def)

lemma owner_usage_upsert:
  assumes "billing_ok d" and "a \<in> set (apps d)" and "a_owner_id a = owner" and "month_of t = m"
  shows "owner_usage uc_messages_count owner m (snd (upsert_usage (a_id a) dm dv f t d)) =
    owner_usage uc_messages_count owner m d + dm"
proof -
  let ?hit = "\<lambda>u. uc_app_id u = a_id a \<and> uc_period_month u = m"
  let ?g = "\<lambda>u. u\<lparr>uc_messages_count := uc_messages_count u + dm,
      uc_video_minutes := uc_video_minutes u + dv, uc_updated_at := t\<rparr>"
  let ?q = "\<lambda>u. uc_period_month u = m \<and>
      exists_row (\<lambda>a. a_id a = uc_app_id u \<and> a_owner_id a = owner) (apps d)"
  have app: "app_exists d (a_id a)" "exists_row (\<lambda>x. a_id x = a_id a \<and> a_owner_id x = owner) (apps d)"
    using assms by (auto simp: app_exists_def)
  show ?thesis
  proof (cases "find ?hit (usage_counters d)")
    case None
    then show ?thesis using app assms(4)
      by (simp add: upsert_usage_def Let_def owner_usage_def sum_rows_append)
         (auto simp: sum_rows_def)
  next
    case (Some r)
    then have r: "r \<in> set (usage_counters d)" "usage_key r = (a_id a, m)"
      by (auto simp: usage_key_def dest: find_SomeD)
    have "?hit = (\<lambda>x. usage_key x = usage_key r)" using r(2) by (auto simp: usage_key_def)
    moreover have "sum_rows ?q uc_messages_count (update_where (\<lambda>x. usage_key x = usage_key r) ?g
        (usage_counters d)) = sum_rows ?q uc_messages_count (usage_counters d) +
        (if ?q r then uc_messages_count (?g r) - uc_messages_count r else 0)"
      using assms(1) r(1) by (intro sum_rows_update_key) (auto simp: billing_ok_def)
    moreover have "?q r" using app(2) r(2) by (auto simp: usage_key_def)
    ultimately show ?thesis using Some assms(4)
      by (simp add: upsert_usage_def Let_def owner_usage_def)
  qed
qed

lemma upsert_usage_other:
  "plans (snd (upsert_usage app dm dv f t d)) = plans d"
  "user_subscriptions (snd (upsert_usage app dm dv f t d)) = user_subscriptions d"
  "apps (snd (upsert_usage app dm dv f t d)) = apps d"
  "messages (snd (upsert_usage app dm dv f t d)) = messages d"
  by (simp_all add: upsert_usage_def Let_def split: option.splits)

lemma RecordMessage_quiet:
  assumes "tape s = []" and "app_of_workspace (db s) ws = Some a"
    and "ws \<noteq> a_sandbox_workspace_id a"
  shows "snd (billing_RecordMessageByWorkspaceID ws s) =
    s\<lparr>db := snd (upsert_usage (a_id a) 1 0 uc_messages_count (now s) (db s))\<rparr>"
proof -
  have "exec (GetAppByWorkspaceID ws) s = (Inr a, s)"
    using reader_quiet [OF reader_GetAppByWorkspaceID assms(1)] assms(2) by simp
  moreover have "exec (IncrementAppMessageUsage (a_id a)) s =
      (fst (upsert_usage (a_id a) 1 0 uc_messages_count (now s) (db s)),
       s\<lparr>db := snd (upsert_usage (a_id a) 1 0 uc_messages_count (now s) (db s))\<rparr>)"
    by (simp add: exec_quiet assms(1) IncrementAppMessageUsage_def)
  ultimately show ?thesis using assms(3)
    by (simp add: billing_RecordMessageByWorkspaceID_def billing_RecordMessageByAppID_def attempt_def
        andthen_def ret_def fail_def split: sum.splits)
qed

section \<open>Subscriptions in a quiet world\<close>

definition default_plan :: "db \<Rightarrow> plan_row option" where
  "default_plan d = (case plan_order (filter pl_is_active (plans d)) of [] \<Rightarrow> None | p # _ \<Rightarrow> Some p)"

lemma reader_GetDefaultPlan [readers]:
  "reader (exec GetDefaultPlan) (\<lambda>d. case default_plan d of None \<Rightarrow> Inl ENoRows | Some p \<Rightarrow> Inr p)"
  unfolding GetDefaultPlan_def default_plan_def by (rule readers)

lemma default_plan_in: "default_plan d = Some p \<Longrightarrow> p \<in> set (plans d) \<and> pl_is_active p"
proof -
  assume "default_plan d = Some p"
  then have "p \<in> set (plan_order (filter pl_is_active (plans d)))"
    by (auto simp: default_plan_def split: list.splits)
  then show ?thesis by (auto simp: plan_order_def)
qed

lemma sub_of_None_billing_ok:
  "billing_ok d \<Longrightarrow> sub_of d uid = None \<longleftrightarrow> uid \<notin> s_user_id ` set (user_subscriptions d)"
proof -
  assume ok: "billing_ok d"
  have "plan_of d s \<noteq> None" if "s \<in> set (user_subscriptions d)" for s
    using ok that unfolding billing_ok_def plan_of_def find_None_iff image_subset_iff image_iff
    by metis
  then show ?thesis
    by (auto simp: sub_of_def find_None_iff image_iff split: option.splits dest!: find_SomeD)
      (metis option.distinct(1))
qed

text \<open>
  \<open>EnsureUserSubscription\<close>: an account that has a subscription is left alone; otherwise it gets the
  first active plan in the order of \<open>sort_order\<close> and price.
\<close>

lemma Ensure_creates:
  assumes "tape s = []" and "billing_ok (db s)" and "sub_of (db s) uid = None"
    and "user_exists (db s) uid" and "default_plan (db s) = Some p" and "char_count (pl_slug p) \<le> 32"
  shows "\<exists>s' sub. billing_EnsureUserSubscription uid s = (Inr (), s') \<and> tape s' = [] \<and>
    user_subscriptions (db s') = user_subscriptions (db s) @ [sub] \<and> s_user_id sub = uid \<and>
    s_plan_slug sub = pl_slug p \<and> s_status sub = ''active'' \<and> plans (db s') = plans (db s) \<and>
    usage_counters (db s') = usage_counters (db s)"
proof -
  have q: "exec (GetUserSubscription uid) s = (Inl ENoRows, s)" "exec GetDefaultPlan s = (Inr p, s)"
    using reader_quiet [OF reader_GetUserSubscription assms(1)]
      reader_quiet [OF reader_GetDefaultPlan assms(1)] assms(3,5) by simp_all
  have "uid \<notin> s_user_id ` set (user_subscriptions (db s))"
    using sub_of_None_billing_ok assms(2,3) by blast
  moreover have "plan_exists (db s) (pl_slug p)"
    using default_plan_in [OF assms(5)] by (auto simp: plan_exists_def)
  moreover have "\<not> 32 < char_count ''active''" by (simp add: char_count_def)
  ultimately show ?thesis using q assms(1,4,6)
    by (auto simp: billing_EnsureUserSubscription_def attempt_def andthen_def ret_def
        CreateUserSubscription_def exec_insert_quiet Let_def image_iff)
qed

lemma Ensure_quiet_present:
  assumes "tape s = []" and "billing_ok (db s)" and "user_exists (db s) uid"
    and "default_plan (db s) = Some p" and "char_count (pl_slug p) \<le> 32"
  shows "\<exists>s'. billing_EnsureUserSubscription uid s = (Inr (), s') \<and> tape s' = [] \<and>
    sub_of (db s') uid \<noteq> None \<and> billing_ok (db s')"
proof (cases "sub_of (db s) uid")
  case None
  then obtain sub s' where s': "billing_EnsureUserSubscription uid s = (Inr (), s')" "tape s' = []"
    "user_subscriptions (db s') = user_subscriptions (db s) @ [sub]" "s_user_id sub = uid"
    using Ensure_creates [OF assms(1,2) None assms(3-5)] by blast
  have ok: "billing_ok (db s')" using preserves_run [OF Ensure_ok s'(1)] assms(2) by simp
  moreover have "sub_of (db s') uid \<noteq> None"
    using sub_of_None_billing_ok [OF ok] s'(3,4) by simp
  ultimately show ?thesis using s' by simp
next
  case (Some x)
  then show ?thesis using Ensure_present [OF assms(1) Some] assms by simp
qed

section \<open>The highlighted plan\<close>

definition highlighted :: "db \<Rightarrow> string list" where
  "highlighted d = map pl_slug (filter pl_is_highlighted (plans d))"

text \<open>The loop of \<open>clearOtherHighlights\<close> over a list of plans, in a quiet world.\<close>

lemma unhighlight_update:
  "apply_plan_update unhighlight t = (\<lambda>p. p\<lparr>pl_is_highlighted := False, pl_updated_at := t\<rparr>)"
  "pu_name unhighlight = None" "pu_stripe_price_id unhighlight = None"
  by (simp_all add: fun_eq_iff apply_plan_update_def unhighlight_def no_plan_update_def coalesce_def)

lemma UpdatePlan_unhighlight_quiet:
  assumes "tape s = []" and "plan_exists (db s) slug"
  shows "\<exists>r. exec (UpdatePlan slug unhighlight) s =
    (Inr r, s\<lparr>db := plans_update (update_where (\<lambda>p. pl_slug p = slug)
       (\<lambda>p. p\<lparr>pl_is_highlighted := False, pl_updated_at := now s\<rparr>)) (db s)\<rparr>)"
proof -
  obtain p where "find (\<lambda>p. pl_slug p = slug) (plans (db s)) = Some p"
    using assms(2) by (metis plan_exists_def exists_row_iff find_Some_ex)
  then show ?thesis using assms(1)
    by (simp add: exec_quiet UpdatePlan_def guarded_def update_one_def opt_too_long_def
        unhighlight_update)
qed

definition clear_step :: "string \<Rightarrow> plan_row \<Rightarrow> unit prog" where
  "clear_step keep p =
     (if pl_slug p = keep \<or> \<not> pl_is_highlighted p then ret ()
      else andthen (exec (UpdatePlan (pl_slug p) unhighlight)) (\<lambda>_. ret ()))"

lemma unhighlight_rows:
  "map pl_slug (filter pl_is_highlighted (update_where (\<lambda>q. pl_slug q = sl)
      (\<lambda>p. p\<lparr>pl_is_highlighted := False, pl_updated_at := t\<rparr>) rows)) =
    filter (\<lambda>g. g \<noteq> sl) (map pl_slug (filter pl_is_highlighted rows))"
  by (induction rows) auto

lemma clear_loop_quiet:
  "tape s = [] \<Longrightarrow> pl_slug ` set ps \<subseteq> pl_slug ` set (plans (db s)) \<Longrightarrow>
    \<exists>s'. for_each ps (clear_step keep) s = (Inr (), s') \<and> tape s' = [] \<and>
      map pl_slug (plans (db s')) = map pl_slug (plans (db s)) \<and>
      highlighted (db s') = filter (\<lambda>g. g = keep \<or> g \<notin> pl_slug ` {p \<in> set ps. pl_is_highlighted p})
        (highlighted (db s))"
proof (induction ps arbitrary: s)
  case Nil
  then show ?case by (auto simp: ret_def)
next
  case (Cons p ps)
  show ?case
  proof (cases "pl_slug p = keep \<or> \<not> pl_is_highlighted p")
    case True
    then have one: "clear_step keep p s = (Inr (), s)" by (simp add: clear_step_def ret_def)
    obtain s' where s': "for_each ps (clear_step keep) s = (Inr (), s')" "tape s' = []"
      "map pl_slug (plans (db s')) = map pl_slug (plans (db s))"
      "highlighted (db s') = filter (\<lambda>g. g = keep \<or> g \<notin> pl_slug ` {p \<in> set ps. pl_is_highlighted p})
        (highlighted (db s))"
      using Cons.IH [OF Cons.prems(1)] Cons.prems(2) by auto
    have "filter (\<lambda>g. g = keep \<or> g \<notin> pl_slug ` {p \<in> set ps. pl_is_highlighted p}) (highlighted (db s)) =
      filter (\<lambda>g. g = keep \<or> g \<notin> pl_slug ` {q \<in> set (p # ps). pl_is_highlighted q}) (highlighted (db s))"
      using True by (intro filter_cong) auto
    then show ?thesis using s' one by (simp add: andthen_def attempt_def)
  next
    case False
    have "plan_exists (db s) (pl_slug p)" using Cons.prems(2) by (auto simp: plan_exists_def)
    then obtain r where up: "exec (UpdatePlan (pl_slug p) unhighlight) s =
      (Inr r, s\<lparr>db := plans_update (update_where (\<lambda>q. pl_slug q = pl_slug p)
         (\<lambda>p. p\<lparr>pl_is_highlighted := False, pl_updated_at := now s\<rparr>)) (db s)\<rparr>)"
      using UpdatePlan_unhighlight_quiet [OF Cons.prems(1)] by blast
    define s1 where "s1 = s\<lparr>db := plans_update (update_where (\<lambda>q. pl_slug q = pl_slug p)
         (\<lambda>p. p\<lparr>pl_is_highlighted := False, pl_updated_at := now s\<rparr>)) (db s)\<rparr>"
    have one: "clear_step keep p s = (Inr (), s1)"
      using False up by (simp add: clear_step_def andthen_def attempt_def ret_def s1_def)
    have slugs: "map pl_slug (plans (db s1)) = map pl_slug (plans (db s))"
      by (simp add: s1_def map_update_where)
    have hl: "highlighted (db s1) = filter (\<lambda>g. g \<noteq> pl_slug p) (highlighted (db s))"
      by (simp add: highlighted_def s1_def unhighlight_rows)
    have "pl_slug ` set ps \<subseteq> pl_slug ` set (plans (db s1))"
      using Cons.prems(2) arg_cong [OF slugs, of set] by auto
    then obtain s' where s': "for_each ps (clear_step keep) s1 = (Inr (), s')" "tape s' = []"
      "map pl_slug (plans (db s')) = map pl_slug (plans (db s1))"
      "highlighted (db s') = filter (\<lambda>g. g = keep \<or> g \<notin> pl_slug ` {p \<in> set ps. pl_is_highlighted p})
        (highlighted (db s1))"
      using Cons.IH [of s1] Cons.prems(1) by (auto simp: s1_def)
    have "highlighted (db s') =
      filter (\<lambda>g. g = keep \<or> g \<notin> pl_slug ` {q \<in> set (p # ps). pl_is_highlighted q}) (highlighted (db s))"
      unfolding s'(4) hl filter_filter using False by (intro filter_cong) auto
    then show ?thesis using s' one slugs by (simp add: andthen_def attempt_def)
  qed
qed

lemma clearOtherHighlights_quiet:
  assumes "tape s = []"
  shows "\<exists>s'. billing_clearOtherHighlights keep s = (Inr (), s') \<and> tape s' = [] \<and>
    map pl_slug (plans (db s')) = map pl_slug (plans (db s)) \<and>
    highlighted (db s') = filter (\<lambda>g. g = keep) (highlighted (db s))"
proof -
  define ps where "ps = plan_order (plans (db s))"
  have set: "set ps = set (plans (db s))" by (simp add: ps_def plan_order_def)
  have "exec ListPlansAdmin s = (Inr ps, s)"
    unfolding ListPlansAdmin_def ps_def using reader_quiet [OF reader_select assms] by blast
  moreover have "(\<lambda>p. if pl_slug p = keep \<or> \<not> pl_is_highlighted p then ret ()
       else andthen (exec (UpdatePlan (pl_slug p) unhighlight)) (\<lambda>_. ret ())) = clear_step keep"
    by (simp add: clear_step_def fun_eq_iff)
  ultimately have run: "billing_clearOtherHighlights keep s = for_each ps (clear_step keep) s"
    by (simp add: billing_clearOtherHighlights_def andthen_def attempt_def)
  have "filter (\<lambda>g. g = keep \<or> g \<notin> pl_slug ` {p \<in> set ps. pl_is_highlighted p}) (highlighted (db s)) =
      filter (\<lambda>g. g = keep) (highlighted (db s))"
    by (intro filter_cong) (auto simp: highlighted_def set)
  then show ?thesis using clear_loop_quiet [OF assms, of ps keep] run set by auto
qed

section \<open>Properties\<close>

lemma sample_billing_ok: "billing_ok sample_db"
  by (simp add: billing_ok_def sample_db_def sample_plan_def empty_db_def)


text \<open>in a quiet world every existing account ends up with a subscription, provided some plan
is active, and asking again changes nothing.\<close>
theorem EnsureUserSubscription_total:
  assumes "tape s = []" and "billing_ok (db s)" and "user_exists (db s) uid"
    and "default_plan (db s) = Some p" and "char_count (pl_slug p) \<le> 32"
  shows "\<exists>s'. billing_EnsureUserSubscription uid s = (Inr (), s') \<and> sub_of (db s') uid \<noteq> None \<and>
    billing_EnsureUserSubscription uid s' = (Inr (), s')"
  using Ensure_quiet_present [OF assms] Ensure_present by blast

theorem EnsureUserSubscription_total_witness:
  "\<exists>s'. billing_EnsureUserSubscription 2 sample = (Inr (), s') \<and> sub_of (db s') 2 \<noteq> None \<and>
    billing_EnsureUserSubscription 2 s' = (Inr (), s')"
proof (rule EnsureUserSubscription_total)
  show "default_plan (db sample) = Some sample_plan"
    by (simp add: default_plan_def sample_db_def sample_plan_def plan_order_def order_asc_def)
  have "user_exists sample_db 2" by code_simp
  then show "user_exists (db sample) 2" by simp
  show "char_count (pl_slug sample_plan) \<le> 32" by code_simp
qed (simp_all add: sample_billing_ok)

text \<open>the verdict of the message quota in a quiet world. For a live workspace whose owner has a
subscription, the check changes nothing and passes exactly when the subscription is active or
trialing and the plan is unlimited or the month's messages of all the owner's apps are below its
limit.\<close>
theorem message_quota_exact:
  assumes "tape s = []" and "app_of_workspace (db s) ws = Some a"
    and "ws \<noteq> a_sandbox_workspace_id a" and "sub_of (db s) (a_owner_id a) = Some (sub, plan)"
  shows "snd (billing_CheckMessageQuotaByWorkspace ws s) = s \<and>
    (fst (billing_CheckMessageQuotaByWorkspace ws s) = Inr () \<longleftrightarrow>
       s_status sub \<in> {''active'', ''trialing''} \<and>
       (pl_messages_limit plan \<le> 0 \<or>
        owner_usage uc_messages_count (a_owner_id a) (month_of (now s)) (db s) < pl_messages_limit plan))"
  by (auto simp: CheckMessageQuota_quiet [OF assms] quota_result_def statusAllowsUsage_def)

theorem message_quota_exact_witness:
  "fst (billing_CheckMessageQuotaByWorkspace 1 sample) = Inr ()"
proof -
  obtain a where a: "app_of_workspace sample_db 1 = Some a" "a_sandbox_workspace_id a = 2" "a_owner_id a = 1"
    by (simp add: app_of_workspace_def sample_db_def)
  obtain sub where sub: "sub_of sample_db 1 = Some (sub, sample_plan)" "s_status sub = ''active''"
    by (simp add: sub_of_def plan_of_def sample_db_def sample_plan_def)
  have "owner_usage uc_messages_count 1 (month_of 1000000) sample_db = 0"
    by (simp add: owner_usage_def sample_db_def empty_db_def sum_rows_def)
  then show ?thesis using message_quota_exact [of sample 1 a sub sample_plan] a sub
    by (simp add: sample_plan_def)
qed

text \<open>a plan in use is not deleted. In a quiet world a deletion that
succeeds removed a plan no subscription refers to, and one that fails changed no table.\<close>
theorem AdminDeletePlan_safe:
  assumes "billing_AdminDeletePlan raw s = (r, s')" and "tape s = []"
  shows "(case r of
      Inl e \<Rightarrow> s' = s \<and> (TrimSpace raw = [] \<or> \<not> plan_exists (db s) (TrimSpace raw) \<or>
                 TrimSpace raw \<in> s_plan_slug ` set (user_subscriptions (db s)))
    | Inr _ \<Rightarrow> plan_exists (db s) (TrimSpace raw) \<and> \<not> plan_exists (db s') (TrimSpace raw) \<and>
        TrimSpace raw \<notin> s_plan_slug ` set (user_subscriptions (db s)) \<and>
        user_subscriptions (db s') = user_subscriptions (db s))"
proof -
  let ?slug = "TrimSpace raw"
  have get: "exec (GetPlan ?slug) s =
    (case find (\<lambda>p. pl_slug p = ?slug) (plans (db s)) of None \<Rightarrow> Inl ENoRows | Some p \<Rightarrow> Inr p, s)"
    unfolding GetPlan_def by (rule reader_quiet [OF reader_select_one assms(2)])
  have count: "exec (CountSubscriptionsForPlan ?slug) s =
    (Inr (count_rows (\<lambda>x. s_plan_slug x = ?slug) (user_subscriptions (db s))), s)"
    unfolding CountSubscriptionsForPlan_def by (rule reader_quiet [OF reader_select assms(2)])
  have found: "plan_exists (db s) ?slug \<longleftrightarrow> find (\<lambda>p. pl_slug p = ?slug) (plans (db s)) \<noteq> None"
    by (auto simp: plan_exists_def find_None_iff)
  have used: "count_rows (\<lambda>x. s_plan_slug x = ?slug) (user_subscriptions (db s)) > 0 \<longleftrightarrow>
      ?slug \<in> s_plan_slug ` set (user_subscriptions (db s))"
    by (auto simp: count_rows_pos intro: rev_image_eqI)
  have del: "exec (DeletePlan ?slug) s =
      (Inr (), s\<lparr>db := plans_update (delete_where (\<lambda>p. pl_slug p = ?slug)) (db s)\<rparr>)"
    if unused: "?slug \<notin> s_plan_slug ` set (user_subscriptions (db s))"
  proof -
    have "\<not> (\<exists>x\<in>set (user_subscriptions (db s)). s_plan_slug x = ?slug)" using unused by (metis image_eqI)
    then show ?thesis by (simp add: exec_quiet assms(2) DeletePlan_def guarded_def delete_all_def)
  qed
  show ?thesis using assms(1) get count found used del
    by (auto simp: billing_AdminDeletePlan_def Let_def attempt_def andthen_def fail_def
        plan_exists_def split: if_splits option.splits)
qed

theorem AdminDeletePlan_safe_witness:
  "\<exists>e. billing_AdminDeletePlan '' starter '' sample = (Inl e, sample)"
proof -
  obtain r s' where run: "billing_AdminDeletePlan '' starter '' sample = (r, s')" by (rule prod.exhaust)
  have "TrimSpace '' starter '' \<in> s_plan_slug ` set (user_subscriptions sample_db)" by code_simp
  then show ?thesis using AdminDeletePlan_safe [OF run] run by (cases r) auto
qed

text \<open>at most one plan is highlighted. In a quiet world \<open>clearOtherHighlights\<close>, which both plan
forms run after they highlight a plan, always completes, keeps every plan, and leaves no other plan
highlighted.\<close>
theorem clearOtherHighlights_unique:
  assumes "tape s = []"
  shows "\<exists>s'. billing_clearOtherHighlights keep s = (Inr (), s') \<and>
    map pl_slug (plans (db s')) = map pl_slug (plans (db s)) \<and>
    (\<forall>p\<in>set (plans (db s')). pl_is_highlighted p \<longrightarrow> pl_slug p = keep) \<and>
    (keep \<in> set (highlighted (db s)) \<longrightarrow> keep \<in> set (highlighted (db s')))"
proof -
  obtain s' where s': "billing_clearOtherHighlights keep s = (Inr (), s')"
    "map pl_slug (plans (db s')) = map pl_slug (plans (db s))"
    "highlighted (db s') = filter (\<lambda>g. g = keep) (highlighted (db s))"
    using clearOtherHighlights_quiet [OF assms] by blast
  moreover have "\<forall>p\<in>set (plans (db s')). pl_is_highlighted p \<longrightarrow> pl_slug p = keep"
    using arg_cong [OF s'(3), of set] by (auto simp: highlighted_def)
  ultimately show ?thesis by auto
qed

theorem clearOtherHighlights_unique_witness:
  "\<exists>s'. billing_clearOtherHighlights ''growth'' sample = (Inr (), s') \<and>
    (\<forall>p\<in>set (plans (db s')). \<not> pl_is_highlighted p \<or> pl_slug p = ''growth'')"
  using clearOtherHighlights_unique [of sample "''growth''"] by auto

lemma sub_of_find: "sub_of d uid = Some (sub, p) \<Longrightarrow> find (\<lambda>s. s_user_id s = uid) (user_subscriptions d) = Some sub"
  by (auto simp: sub_of_def split: option.splits)

lemma FormatInt_nonempty: "FormatInt n \<noteq> []"
  by (simp add: FormatInt_def)

lemma parse_checkout_metadata:
  "- (2 ^ 63) \<le> uid \<Longrightarrow> uid < 2 ^ 63 \<Longrightarrow>
    parseMetadataInt64 (checkout_metadata uid slug) ''user_id'' = Inr uid \<and>
    map_get (checkout_metadata uid slug) ''plan_slug'' = slug"
  by (simp add: parseMetadataInt64_def checkout_metadata_def map_get_def FormatInt_nonempty
      ParseInt_FormatInt)

text \<open>the metadata of a checkout come back. When Stripe reports the completed checkout with the
metadata that \<open>CreateCheckoutSession\<close> attached, the handler activates exactly the account it was
started for, on the plan it was started for, and remembers the Stripe ids.\<close>
theorem checkout_roundtrip:
  assumes "tape s = []" and "sub_of (db s) uid = Some (sub, p)" and "plan_exists (db s) slug"
    and "slug \<noteq> []" and "char_count slug \<le> 32" and "- (2 ^ 63) \<le> uid" and "uid < 2 ^ 63"
    and "cust \<noteq> []" and "char_count cust \<le> 128" and "sid \<noteq> []" and "char_count sid \<le> 128"
  shows "\<exists>s'. billing_handleCheckoutCompleted
      \<lparr>ev_type = ''checkout.session.completed'', ev_raw = VObj
         [(''metadata'', VObj (map (\<lambda>(k, v). (k, VStr v)) (checkout_metadata uid slug))),
          (''customer'', VStr cust), (''subscription'', VStr sid)]\<rparr> s = (Inr (), s') \<and>
    user_subscriptions (db s') = update_where (\<lambda>x. s_user_id x = uid)
      (\<lambda>x. x\<lparr>s_plan_slug := slug, s_status := ''active'', s_stripe_customer_id := Some cust,
             s_stripe_subscription_id := Some sid, s_updated_at := now s\<rparr>) (user_subscriptions (db s))"
proof -
  let ?u = "no_subscription_update\<lparr>su_status := Some ''active'', su_plan_slug := Some slug,
      su_stripe_customer_id := Some cust, su_stripe_subscription_id := Some sid\<rparr>"
  have raw: "unmarshal_checkout (VObj
         [(''metadata'', VObj (map (\<lambda>(k, v). (k, VStr v)) (checkout_metadata uid slug))),
          (''customer'', VStr cust), (''subscription'', VStr sid)]) =
      Inr \<lparr>cr_metadata = checkout_metadata uid slug, cr_customer = cust, cr_subscription = sid\<rparr>"
    by (simp add: field_string_map_def field_string_def checkout_metadata_def)
  have applied: "apply_subscription_update ?u t = (\<lambda>x. x\<lparr>s_plan_slug := slug, s_status := ''active'',
      s_stripe_customer_id := Some cust, s_stripe_subscription_id := Some sid, s_updated_at := t\<rparr>)" for t
    by (simp add: fun_eq_iff apply_subscription_update_def no_subscription_update_def coalesce_def or_else_def)
  have active: "char_count ''active'' \<le> 32" by code_simp
  have hit: "find (\<lambda>x. s_user_id x = uid) (user_subscriptions (db s)) = Some sub"
    by (rule sub_of_find [OF assms(2)])
  have "exec (UpdateUserSubscription uid ?u) s =
    (Inr (apply_subscription_update ?u (now s) sub),
     s\<lparr>db := user_subscriptions_update (update_where (\<lambda>x. s_user_id x = uid)
        (apply_subscription_update ?u (now s))) (db s)\<rparr>)"
    using assms active hit
    by (simp add: exec_quiet UpdateUserSubscription_def guarded_def update_one_def Let_def
        opt_too_long_def no_subscription_update_def)
  then show ?thesis
    using raw parse_checkout_metadata [OF assms(6,7)] Ensure_present [OF assms(1,2)] assms(4,8,10)
    by (simp add: billing_handleCheckoutCompleted_def andthen_def attempt_def external_def
        nonempty_def ret_def applied)
qed

theorem checkout_roundtrip_witness:
  "\<exists>s'. billing_handleCheckoutCompleted
      \<lparr>ev_type = ''checkout.session.completed'', ev_raw = VObj
         [(''metadata'', VObj (map (\<lambda>(k, v). (k, VStr v)) (checkout_metadata 1 ''starter''))),
          (''customer'', VStr ''cus_1''), (''subscription'', VStr ''sub_1'')]\<rparr> sample = (Inr (), s') \<and>
    map s_stripe_subscription_id (user_subscriptions (db s')) = [Some ''sub_1'']"
proof -
  obtain sub where sub: "sub_of (db sample) 1 = Some (sub, sample_plan)"
    by (simp add: sub_of_def plan_of_def sample_db_def sample_plan_def)
  have "plan_exists (db sample) ''starter''"
    by (simp add: plan_exists_def sample_db_def sample_plan_def)
  moreover have "char_count ''starter'' \<le> 32" "char_count ''cus_1'' \<le> 128" "char_count ''sub_1'' \<le> 128"
    by code_simp+
  moreover have "map s_user_id (user_subscriptions sample_db) = [1]" by (simp add: sample_db_def)
  then obtain x where "user_subscriptions sample_db = [x]" "s_user_id x = 1" by auto
  ultimately show ?thesis
    using checkout_roundtrip [of sample 1 sub sample_plan "''starter''" "''cus_1''" "''sub_1''"] sub
    by auto
qed

text \<open>the requested plan takes effect before it is paid for. Opening a checkout session for a
priced plan rewrites the plan of the account's active subscription, so the message quota that was
exhausted passes although no payment was reported.\<close>
theorem checkout_grants_plan_unpaid:
  "let api = \<lparr>customer_new = (\<lambda>_ _. Inr ''cus_1''), checkoutsession_new = (\<lambda>_. Inr ''https://pay''),
             webhook_ConstructEvent = (\<lambda>_ _ _. Inl (EExternal ''none'')),
             unmarshal_subscription = (\<lambda>_. Inl (EExternal ''none''))\<rparr>;
       cfg = \<lparr>StripeSecretKey = ''sk'', StripeWebhookSecret = ''wh'', CheckoutBaseURL = ''https://x''\<rparr>;
       growth = sample_plan\<lparr>pl_slug := ''growth'', pl_price_cents := 2500, pl_messages_limit := 250000,
                  pl_stripe_price_id := Some ''price_1''\<rparr>;
       used = \<lparr>uc_id = 1, uc_app_id = 1, uc_period_month = month_of 1000000, uc_messages_count = 2,
               uc_updated_at = 0, uc_video_minutes = 0\<rparr>;
       s0 = sample\<lparr>db := sample_db\<lparr>plans := [sample_plan, growth], usage_counters := [used]\<rparr>\<rparr>;
       (r, s1) = billing_CreateCheckoutSession api cfg 1 ''alice@x.io'' ''growth'' s0
   in fst (billing_CheckMessageQuotaByWorkspace 1 s0) = Inl (EBilling Bil_MessageLimit) \<and>
      r = Inr ''https://pay'' \<and> map s_status (user_subscriptions (db s1)) = [''active''] \<and>
      fst (billing_CheckMessageQuotaByWorkspace 1 s1) = Inr ()"
  by code_simp

end
