(* ===== verification/Calls.thy ===== *)
theory Calls
  imports Db_Calls Channels Notifications Billing_Plans
begin

text \<open>
  \<open>internal/calls/service.go\<close>: starting, joining and leaving calls, call recordings, the validation
  of signals, and the metering of video minutes. The interfaces the service calls (\<open>Broadcaster\<close>,
  \<open>InviteNotifier\<close>, \<open>ChannelAccessChecker\<close>, \<open>CallBilling\<close>) are the fields of \<open>calls_service\<close>; the
  locale \<open>calls_deps\<close> states what the client relies on, and \<open>calls_wired\<close> is the service that
  \<open>main.go\<close> assembles.
\<close>

record call_billing =
  CheckCanStartVideoCall :: "int \<Rightarrow> unit prog"
  MaxCallParticipantsForWorkspace :: "int \<Rightarrow> int prog"
  RecordVideoMinutesByWorkspaceID :: "int \<Rightarrow> int \<Rightarrow> unit prog"

record calls_service =
  ca_broadcast :: "(string \<Rightarrow> int \<Rightarrow> int \<Rightarrow> gomap \<Rightarrow> effect) option"
  ca_invites :: "(int \<Rightarrow> int \<Rightarrow> int \<Rightarrow> int \<Rightarrow> int \<Rightarrow> string \<Rightarrow> unit prog) option"
  ca_access :: "int \<Rightarrow> int \<Rightarrow> int \<Rightarrow> unit prog"
  ca_billing :: "call_billing option"
  ca_maxParticipants :: int

section \<open>Operations\<close>

definition normalizeMode :: "string \<Rightarrow> goerr + string" where
  "normalizeMode mode =
     (if mode = [] \<or> mode = ''voice'' then Inr ''voice''
      else if mode = ''video'' then Inr ''video''
      else Inl (ECalls Calls_InvalidMode))"

definition calls_publish :: "calls_service \<Rightarrow> string \<Rightarrow> call_row \<Rightarrow> int \<Rightarrow> unit prog" where
  "calls_publish sv event c uid =
     (case ca_broadcast sv of
        None \<Rightarrow> ret ()
      | Some publish \<Rightarrow> emit (publish event (c_workspace_id c) (c_channel_id c)
          [(''call_id'', VInt (c_id c)), (''user_id'', VInt uid),
           (''channel_id'', VInt (c_channel_id c)), (''workspace_id'', VInt (c_workspace_id c)),
           (''status'', VStr (c_status c)), (''mode'', VStr (c_mode c))]))"

definition calls_participantLimit :: "calls_service \<Rightarrow> int \<Rightarrow> int prog" where
  "calls_participantLimit sv ws =
     (let limit = ca_maxParticipants sv in
      case ca_billing sv of
        None \<Rightarrow> ret limit
      | Some b \<Rightarrow>
          attempt (MaxCallParticipantsForWorkspace b ws)
            (\<lambda>_. ret limit)
            (\<lambda>plan_limit.
               ret (if plan_limit > 0 \<and> (limit \<le> 0 \<or> plan_limit < limit) then plan_limit else limit)))"

definition calls_assertParticipantCapacity :: "calls_service \<Rightarrow> int \<Rightarrow> int \<Rightarrow> unit prog" where
  "calls_assertParticipantCapacity sv ws count =
     andthen (calls_participantLimit sv ws) (\<lambda>limit.
     if limit > 0 \<and> count \<ge> limit then fail (ECalls Calls_CallFull) else ret ())"

text \<open>
  The billed minutes of a call of \<open>us\<close> microseconds: \<open>int64((secs + 59) / 60)\<close> on a float64 of
  seconds, whose truncation is exact for the durations that occur, and at least 1.
\<close>

definition call_minutes :: "int \<Rightarrow> int" where
  "call_minutes us =
     (let minutes = (us + 59000000) div 60000000 in if minutes < 1 then 1 else minutes)"

definition calls_meterVideoCall :: "calls_service \<Rightarrow> call_row \<Rightarrow> unit prog" where
  "calls_meterVideoCall sv c =
     (case ca_billing sv of
        None \<Rightarrow> ret ()
      | Some b \<Rightarrow>
          if c_mode c \<noteq> ''video'' then ret ()
          else attempt (exec (CountAllCallParticipants (c_id c)))
            (\<lambda>_. ret ())
            (\<lambda>total. if total < 2 then ret ()
               else clock (\<lambda>t.
                 let end = (case c_ended_at c of Some e \<Rightarrow> e | None \<Rightarrow> t);
                     start = c_created_at c
                 in if \<not> start < end then ret ()
                    else ignoring (RecordVideoMinutesByWorkspaceID b (c_workspace_id c)
                                     (call_minutes (end - start))))))"

text \<open>\<open>err != nil && !errors.Is(err, pgx.ErrNoRows)\<close> after \<open>MarkCallParticipantLeft\<close>.\<close>

definition mark_left_or_gone :: "int \<Rightarrow> int \<Rightarrow> unit prog" where
  "mark_left_or_gone call uid =
     attempt (exec (MarkCallParticipantLeft call uid))
       (\<lambda>e. if e \<noteq> ENoRows then fail e else ret ()) (\<lambda>_. ret ())"

definition calls_clearStaleSoloCall :: "calls_service \<Rightarrow> call_row \<Rightarrow> int \<Rightarrow> bool prog" where
  "calls_clearStaleSoloCall sv c uid =
     andthen (exec (ListActiveCallParticipants (c_id c))) (\<lambda>ps.
     if length ps \<noteq> 1 \<or> p_user_id (hd ps) \<noteq> uid then ret False
     else andthen (mark_left_or_gone (c_id c) uid) (\<lambda>_.
          andthen (exec (UpdateCallStatus (c_id c) ''ended'')) (\<lambda>ended.
          andthen (calls_meterVideoCall sv ended) (\<lambda>_.
          andthen (calls_publish sv ''call.end'' ended uid) (\<lambda>_.
          ret True)))))"

definition calls_notifyChannelMembers :: "calls_service \<Rightarrow> call_row \<Rightarrow> int \<Rightarrow> unit prog" where
  "calls_notifyChannelMembers sv c initiator_id =
     (case ca_invites sv of
        None \<Rightarrow> ret ()
      | Some invite \<Rightarrow>
          attempt (exec (GetUserByID initiator_id)) (\<lambda>_. ret ()) (\<lambda>initiator.
          attempt (exec (ListChannelMemberUserIDs (c_channel_id c))) (\<lambda>_. ret ()) (\<lambda>uids.
          for_each uids (\<lambda>target.
            if target = initiator_id then ret ()
            else ignoring (invite (c_workspace_id c) (c_channel_id c) (c_id c) initiator_id target
                             (u_username initiator))))))"

definition calls_InitiateCall :: "calls_service \<Rightarrow> int \<Rightarrow> int \<Rightarrow> int \<Rightarrow> string \<Rightarrow> call_row prog" where
  "calls_InitiateCall sv ws ch uid raw_mode =
     (case normalizeMode raw_mode of
        Inl e \<Rightarrow> fail e
      | Inr mode \<Rightarrow>
          andthen (ca_access sv ws ch uid) (\<lambda>_.
          andthen (case ca_billing sv of
                     Some b \<Rightarrow> if mode = ''video'' then CheckCanStartVideoCall b ws else ret ()
                   | None \<Rightarrow> ret ()) (\<lambda>_.
          andthen (calls_assertParticipantCapacity sv ws 0) (\<lambda>_.
          andthen (attempt (exec (GetActiveCallByChannel ch))
                     (\<lambda>e. if e \<noteq> ENoRows then fail e else ret ())
                     (\<lambda>existing.
                        andthen (calls_clearStaleSoloCall sv existing uid) (\<lambda>cleared.
                        if \<not> cleared then fail (ECalls Calls_CallAlreadyActive) else ret ()))) (\<lambda>_.
          andthen (exec (CreateCall ch ws uid ''ringing'' mode)) (\<lambda>c.
          andthen (exec (AddCallParticipant (c_id c) uid)) (\<lambda>_.
          andthen (calls_publish sv ''call.join'' c uid) (\<lambda>_.
          andthen (calls_notifyChannelMembers sv c uid) (\<lambda>_.
          ret c)))))))))"

text \<open>The part of \<open>JoinCall\<close> for a user who is not in the call yet.\<close>

definition calls_add_participant :: "calls_service \<Rightarrow> call_row \<Rightarrow> int \<Rightarrow> unit prog" where
  "calls_add_participant sv c uid =
     andthen (exec (CountActiveCallParticipants (c_id c))) (\<lambda>count.
     andthen (calls_assertParticipantCapacity sv (c_workspace_id c) count) (\<lambda>_.
     andthen (case ca_billing sv of
                Some b \<Rightarrow> if c_mode c = ''video'' then CheckCanStartVideoCall b (c_workspace_id c)
                          else ret ()
              | None \<Rightarrow> ret ()) (\<lambda>_.
     andthen (exec (AddCallParticipant (c_id c) uid)) (\<lambda>_. ret ()))))"

definition calls_JoinCall :: "calls_service \<Rightarrow> int \<Rightarrow> int \<Rightarrow> call_row prog" where
  "calls_JoinCall sv call_id uid =
     attempt (exec (GetCallByID call_id))
       (\<lambda>e. fail (no_rows_as (ECalls Calls_NotFound) e)) (\<lambda>c.
     if c_status c = ''ended'' then fail (ECalls Calls_CallEnded)
     else andthen (ca_access sv (c_workspace_id c) (c_channel_id c) uid) (\<lambda>_.
          andthen (attempt (exec (GetActiveCallParticipant call_id uid))
                     (\<lambda>e. if e = ENoRows then calls_add_participant sv c uid else fail e)
                     (\<lambda>_. ret ())) (\<lambda>_.
          andthen (exec (CountActiveCallParticipants call_id)) (\<lambda>count.
          andthen (if c_status c = ''ringing'' \<and> count \<ge> 2
                   then exec (UpdateCallStatus call_id ''active'') else ret c) (\<lambda>c.
          andthen (calls_publish sv ''call.join'' c uid) (\<lambda>_.
          ret c))))))"

text \<open>Marking the last participant, in the loop of \<open>LeaveCall\<close>.\<close>

definition leave_remaining :: "calls_service \<Rightarrow> call_row \<Rightarrow> participant_row \<Rightarrow> unit prog" where
  "leave_remaining sv c p =
     andthen (mark_left_or_gone (c_id c) (p_user_id p)) (\<lambda>_.
     calls_publish sv ''call.leave'' c (p_user_id p))"

definition calls_LeaveCall :: "calls_service \<Rightarrow> int \<Rightarrow> int \<Rightarrow> call_row prog" where
  "calls_LeaveCall sv call_id uid =
     attempt (exec (GetCallByID call_id))
       (\<lambda>e. fail (no_rows_as (ECalls Calls_NotFound) e)) (\<lambda>c.
     if c_status c = ''ended'' then ret c
     else attempt (exec (GetActiveCallParticipant call_id uid))
            (\<lambda>e. fail (no_rows_as (ECalls Calls_NotParticipant) e)) (\<lambda>_.
          attempt (exec (MarkCallParticipantLeft call_id uid))
            (\<lambda>e. fail (no_rows_as (ECalls Calls_NotParticipant) e)) (\<lambda>_.
          andthen (calls_publish sv ''call.leave'' c uid) (\<lambda>_.
          andthen (exec (CountActiveCallParticipants call_id)) (\<lambda>count.
          if count \<le> 1 then
            andthen (if count = 1 then
                       andthen (exec (ListActiveCallParticipants call_id)) (\<lambda>remaining.
                       for_each remaining (leave_remaining sv c))
                     else ret ()) (\<lambda>_.
            andthen (exec (UpdateCallStatus call_id ''ended'')) (\<lambda>c.
            andthen (calls_meterVideoCall sv c) (\<lambda>_.
            andthen (calls_publish sv ''call.end'' c uid) (\<lambda>_.
            ret c))))
          else ret c)))))"

record signal_context =
  sc_call :: int
  sc_workspace :: int
  sc_channel :: int
  sc_user :: int
  sc_mode :: string

definition calls_ValidateSignal :: "int \<Rightarrow> int \<Rightarrow> signal_context prog" where
  "calls_ValidateSignal call_id uid =
     attempt (exec (GetCallByID call_id))
       (\<lambda>e. fail (no_rows_as (ECalls Calls_NotFound) e)) (\<lambda>c.
     if c_status c = ''ended'' then fail (ECalls Calls_CallEnded)
     else attempt (exec (GetActiveCallParticipant call_id uid))
            (\<lambda>e. fail (no_rows_as (ECalls Calls_NotParticipant) e)) (\<lambda>_.
          ret \<lparr>sc_call = c_id c, sc_workspace = c_workspace_id c, sc_channel = c_channel_id c,
               sc_user = uid, sc_mode = c_mode c\<rparr>))"

definition calls_StartRecording :: "int \<Rightarrow> int \<Rightarrow> gomap \<Rightarrow> recording_row prog" where
  "calls_StartRecording call_id uid metadata =
     andthen (calls_ValidateSignal call_id uid) (\<lambda>_.
     attempt (exec (GetActiveCallRecording call_id))
       (\<lambda>e. if e \<noteq> ENoRows then fail e else exec (CreateCallRecording call_id uid metadata))
       (\<lambda>_. fail (ECalls Calls_RecordingActive)))"

definition calls_StopRecording :: "int \<Rightarrow> int \<Rightarrow> int \<Rightarrow> recording_row prog" where
  "calls_StopRecording call_id uid recording_id =
     andthen (calls_ValidateSignal call_id uid) (\<lambda>_.
     attempt (exec (EndCallRecording recording_id call_id))
       (\<lambda>e. fail (no_rows_as (ECalls Calls_RecordingNotFound) e)) ret)"

definition calls_wired :: "int \<Rightarrow> calls_service" where
  "calls_wired max_participants =
     \<lparr>ca_broadcast = Some Publish,
      ca_invites = Some (notifications_NotifyCallInvite notifications_wired),
      ca_access = channels_AssertChannelMember,
      ca_billing = Some \<lparr>CheckCanStartVideoCall = billing_CheckCanStartVideoCall,
                         MaxCallParticipantsForWorkspace = billing_MaxCallParticipantsForWorkspace,
                         RecordVideoMinutesByWorkspaceID = billing_RecordVideoMinutesByWorkspaceID\<rparr>,
      ca_maxParticipants = max_participants\<rparr>"

end
