(* ===== verification/Triples.thy ===== *)
theory Triples
  imports World
begin

text \<open>
  Assertions about the database along a run, whatever the statements meet:
  \<open>triple P m Q E\<close> says that from a database with \<open>P\<close> the program \<open>m\<close> ends with \<open>Q x\<close> when it
  returns \<open>x\<close>, and with \<open>E e\<close> when it returns the error \<open>e\<close>. The proofs about calls and the
  administrative services chain such triples statement by statement.
\<close>

definition triple ::
  "(db \<Rightarrow> bool) \<Rightarrow> 'a prog \<Rightarrow> ('a \<Rightarrow> db \<Rightarrow> bool) \<Rightarrow> (goerr \<Rightarrow> db \<Rightarrow> bool) \<Rightarrow> bool"
where
  "triple P m Q E \<longleftrightarrow>
     (\<forall>s. P (db s) \<longrightarrow> (case m s of (Inr x, s') \<Rightarrow> Q x (db s') | (Inl e, s') \<Rightarrow> E e (db s')))"

lemma tripleI:
  assumes "\<And>s x s'. P (db s) \<Longrightarrow> m s = (Inr x, s') \<Longrightarrow> Q x (db s')"
    and "\<And>s e s'. P (db s) \<Longrightarrow> m s = (Inl e, s') \<Longrightarrow> E e (db s')"
  shows "triple P m Q E"
  using assms unfolding triple_def by (auto split: prod.splits sum.splits)

lemma triple_Inr: "triple P m Q E \<Longrightarrow> m s = (Inr x, s') \<Longrightarrow> P (db s) \<Longrightarrow> Q x (db s')"
  unfolding triple_def by (drule spec [of _ s]) simp

lemma triple_Inl: "triple P m Q E \<Longrightarrow> m s = (Inl e, s') \<Longrightarrow> P (db s) \<Longrightarrow> E e (db s')"
  unfolding triple_def by (drule spec [of _ s]) simp

lemma triple_weaken:
  assumes "triple P m Q E" and "\<And>d. P' d \<Longrightarrow> P d" and "\<And>x d. Q x d \<Longrightarrow> Q' x d"
    and "\<And>e d. E e d \<Longrightarrow> E' e d"
  shows "triple P' m Q' E'"
  using assms by (intro tripleI) (blast dest: triple_Inr triple_Inl)+

lemma triple_conj:
  "triple P m Q E \<Longrightarrow> triple P' m Q' E' \<Longrightarrow>
    triple (\<lambda>d. P d \<and> P' d) m (\<lambda>x d. Q x d \<and> Q' x d) (\<lambda>e d. E e d \<and> E' e d)"
  by (rule tripleI) (blast dest: triple_Inr triple_Inl)+

lemma triple_ret: "(\<And>d. P d \<Longrightarrow> Q x d) \<Longrightarrow> triple P (ret x) Q E"
  by (simp add: triple_def ret_def)

lemma triple_fail: "(\<And>d. P d \<Longrightarrow> E e d) \<Longrightarrow> triple P (fail e) Q E"
  by (simp add: triple_def fail_def)

lemma triple_attempt:
  assumes "triple P q R F" and "\<And>e. triple (F e) (h e) Q E" and "\<And>x. triple (R x) (k x) Q E"
  shows "triple P (attempt q h k) Q E"
proof (rule tripleI)
  fix s x s' assume "P (db s)" and "attempt q h k s = (Inr x, s')"
  then show "Q x (db s')"
    unfolding attempt_eq using assms by (meson triple_Inl triple_Inr)
next
  fix s e s' assume "P (db s)" and "attempt q h k s = (Inl e, s')"
  then show "E e (db s')"
    unfolding attempt_eq using assms by (meson triple_Inl triple_Inr)
qed

lemma triple_andthen:
  "triple P q R E \<Longrightarrow> (\<And>x. triple (R x) (k x) Q E) \<Longrightarrow> triple P (andthen q k) Q E"
  unfolding andthen_def by (rule triple_attempt) (auto intro: triple_fail)

lemma triple_ignoring:
  "triple P q (\<lambda>_. Q ()) (\<lambda>_. Q ()) \<Longrightarrow> triple P (ignoring q) Q E"
  unfolding ignoring_def by (rule triple_attempt) (auto intro: triple_ret)

lemma triple_clock: "(\<And>t. triple P (k t) Q E) \<Longrightarrow> triple P (clock k) Q E"
  by (simp add: triple_def)

lemma triple_if:
  "(b \<Longrightarrow> triple P p Q E) \<Longrightarrow> (\<not> b \<Longrightarrow> triple P q Q E) \<Longrightarrow> triple P (if b then p else q) Q E"
  by simp

lemma triple_option:
  "(v = None \<Longrightarrow> triple P p Q E) \<Longrightarrow> (\<And>x. v = Some x \<Longrightarrow> triple P (q x) Q E) \<Longrightarrow>
    triple P (case v of None \<Rightarrow> p | Some x \<Rightarrow> q x) Q E"
  by (cases v) auto

lemma triple_sum:
  "(\<And>e. v = Inl e \<Longrightarrow> triple P (p e) Q E) \<Longrightarrow> (\<And>x. v = Inr x \<Longrightarrow> triple P (q x) Q E) \<Longrightarrow>
    triple P (case v of Inl e \<Rightarrow> p e | Inr x \<Rightarrow> q x) Q E"
  by (cases v) auto

text \<open>A loop: the assertion moves along the list.\<close>

lemma triple_for_each:
  assumes "\<And>x ys. triple (P (x # ys)) (f x) (\<lambda>_. P ys) E"
  shows "triple (P xs) (for_each xs f) (\<lambda>_. P []) E"
  by (induction xs) (auto intro: triple_ret triple_andthen assms)

lemma triple_reader:
  "reader q f \<Longrightarrow>
    triple P q (\<lambda>x d. P d \<and> f d = Inr x) (\<lambda>e d. P d \<and> (f d = Inl e \<or> e = EConn))"
  by (rule tripleI) (fastforce dest: readerD)+

lemma triple_preserves: "preserves P m \<Longrightarrow> triple P m (\<lambda>_. P) (\<lambda>_. P)"
  by (rule tripleI) (auto dest: preserves_run)

lemma triple_leaves:
  "leaves g m \<Longrightarrow> (\<And>d d'. g d = g d' \<Longrightarrow> P d \<Longrightarrow> P d') \<Longrightarrow> triple P m (\<lambda>_. P) (\<lambda>_. P)"
  by (rule triple_preserves) (rule leaves_imp_preserves)

lemma triple_imp_preserves:
  assumes "triple P m (\<lambda>_. P) (\<lambda>_. P)"
  shows "preserves P m"
  unfolding preserves_def
proof (intro allI impI)
  fix s :: world assume P: "P (db s)"
  obtain r s' where run: "m s = (r, s')" by (cases "m s") auto
  show "P (db (snd (m s)))"
    using triple_Inl [OF assms] triple_Inr [OF assms] run P by (cases r) auto
qed

text \<open>One statement: what it does when it runs, and what holds if its reply is lost.\<close>

lemma triple_exec:
  assumes "\<And>t d x d'. P d \<Longrightarrow> q t d = (Inr x, d') \<Longrightarrow> Q x d' \<and> E EConn d'"
    and "\<And>t d e d'. P d \<Longrightarrow> q t d = (Inl e, d') \<Longrightarrow> E e d' \<and> E EConn d'"
    and "\<And>d. P d \<Longrightarrow> E EConn d"
  shows "triple P (exec q) Q E"
proof (rule tripleI)
  fix s x s' assume P: "P (db s)" and run: "exec q s = (Inr x, s')"
  show "Q x (db s')" using assms(1) [OF P] exec_Inr [OF run] by blast
next
  fix s e s' assume P: "P (db s)" and run: "exec q s = (Inl e, s')"
  from run show "E e (db s')"
  proof (cases rule: exec_runE)
    case same
    then show ?thesis using P assms(3) by simp
  next
    case (ran t)
    obtain v d' where q: "q t (db s) = (v, d')" by (cases "q t (db s)") auto
    show ?thesis
      using assms(1,2) [OF P] q ran by (cases v) fastforce+
  qed
qed

lemma triple_emit: "triple P (emit e) (\<lambda>_. P) E"
  by (simp add: triple_def emit_def)

lemma triple_pre: "(\<And>d. P d \<Longrightarrow> R d) \<Longrightarrow> triple R m Q E \<Longrightarrow> triple P m Q E"
  by (blast intro: triple_weaken)

text \<open>A hypothesis about a value that does not depend on the database.\<close>

lemma triple_learn:
  assumes "\<And>d. P d \<Longrightarrow> b" and "b \<Longrightarrow> triple P m Q E"
  shows "triple P m Q E"
  using assms unfolding triple_def by (cases b) auto

lemma triple_fact: "(b \<Longrightarrow> triple P m Q E) \<Longrightarrow> triple (\<lambda>d. P d \<and> b) m Q E"
  by (simp add: triple_def)

end
