(* ===== verification/Call_Lifecycle.thy ===== *)
theory Call_Lifecycle
  imports Calls Triples
begin

text \<open>
  The life cycle of calls: the invariant of the call tables that every operation of
  \<open>internal/calls/service.go\<close> keeps whatever its statements meet, and what the operations do in a
  quiet world. The operations run one after another; requests that interleave are not modelled.
\<close>

section \<open>The invariant\<close>

text \<open>The users who sit in a call, and the part of the database that calls live in.\<close>

definition seated :: "db \<Rightarrow> int \<Rightarrow> int set" where
  "seated d call = p_user_id ` {p \<in> set (call_participants d). active_in call p}"

definition live_call :: "db \<Rightarrow> int \<Rightarrow> bool" where
  "live_call d call \<longleftrightarrow> (\<exists>c\<in>set (calls d). c_id c = call \<and> live c)"

definition channel_free :: "int \<Rightarrow> db \<Rightarrow> bool" where
  "channel_free ch d \<longleftrightarrow> (\<forall>c\<in>set (calls d). live c \<longrightarrow> c_channel_id c \<noteq> ch)"

definition call_tables :: "db \<Rightarrow> call_row list \<times> participant_row list \<times> recording_row list \<times> int" where
  "call_tables d = (calls d, call_participants d, call_recordings d, nextid d TCalls)"

definition call_rows_ok :: "call_row list \<Rightarrow> int \<Rightarrow> bool" where
  "call_rows_ok cs n \<longleftrightarrow>
     distinct (map c_id cs) \<and> distinct (map c_channel_id (filter live cs)) \<and>
     (\<forall>c\<in>set cs. c_id c < n \<and> c_status c \<in> {''ringing'', ''active'', ''ended''} \<and>
        (c_ended_at c = None \<longleftrightarrow> live c))"

definition seats_ok :: "int \<Rightarrow> call_row list \<Rightarrow> participant_row list \<Rightarrow> bool" where
  "seats_ok limit cs ps \<longleftrightarrow>
     distinct (map (\<lambda>p. (p_call_id p, p_user_id p)) (filter (\<lambda>p. p_left_at p = None) ps)) \<and>
     (\<forall>p\<in>set ps. p_left_at p = None \<longrightarrow> (\<exists>c\<in>set cs. c_id c = p_call_id p \<and> live c)) \<and>
     (0 < limit \<longrightarrow> (\<forall>call. count_rows (active_in call) ps \<le> limit))"

definition recordings_ok :: "recording_row list \<Rightarrow> bool" where
  "recordings_ok rs \<longleftrightarrow> distinct (map r_call_id (filter (\<lambda>r. r_ended_at r = None) rs))"

definition calls_ok :: "int \<Rightarrow> db \<Rightarrow> bool" where
  "calls_ok limit d \<longleftrightarrow>
     call_rows_ok (calls d) (nextid d TCalls) \<and> seats_ok limit (calls d) (call_participants d) \<and>
     recordings_ok (call_recordings d)"

lemma live_not_ended: "live c \<Longrightarrow> c_status c \<noteq> ''ended''"
  by (auto simp: live_def)

lemma call_tables_cong:
  assumes "call_tables d = call_tables d'"
  shows "calls_ok n d = calls_ok n d'" "seated d = seated d'" "live_call d = live_call d'"
    "calls d = calls d'" "call_participants d = call_participants d'"
    "channel_free ch d = channel_free ch d'"
  using assms by (auto simp: call_tables_def calls_ok_def seated_def live_call_def channel_free_def fun_eq_iff)

lemma seated_iff: "uid \<in> seated d call \<longleftrightarrow>
    (\<exists>p\<in>set (call_participants d). active_in call p \<and> p_user_id p = uid)"
  by (auto simp: seated_def)

lemma seated_empty: "seated d call = {} \<longleftrightarrow> count_rows (active_in call) (call_participants d) = 0"
  by (auto simp: seated_def count_rows_zero)

text \<open>A call that is not ended is live, and a fetched row is the row of its key.\<close>

lemma not_ended_live:
  "calls_ok n d \<Longrightarrow> c \<in> set (calls d) \<Longrightarrow> c_status c \<noteq> ''ended'' \<Longrightarrow> live c"
  by (auto simp: calls_ok_def call_rows_ok_def live_def)

lemma distinct_map_update_where:
  "distinct (map k (filter q rows)) \<Longrightarrow> (\<And>r. p r \<Longrightarrow> k (g r) = k r) \<Longrightarrow>
    (\<And>r. p r \<Longrightarrow> q (g r) \<Longrightarrow> q r) \<Longrightarrow> distinct (map k (filter q (update_where p g rows)))"
proof (induction rows)
  case (Cons a rows)
  have fresh: "k a \<notin> k ` set (filter q (update_where p g rows))" if a: "q a"
  proof
    assume "k a \<in> k ` set (filter q (update_where p g rows))"
    then obtain r0 where r0: "r0 \<in> set rows" and "q (if p r0 then g r0 else r0)"
        and "k a = k (if p r0 then g r0 else r0)"
      by (auto simp: set_update_where)
    then have "q r0" "k a = k r0" using Cons.prems(2,3) by (auto split: if_splits)
    then show False using r0 a Cons.prems(1) by (auto simp: image_iff)
  qed
  have step: "distinct (map k (filter q (update_where p g rows)))"
    using Cons by (cases "q a") auto
  show ?case using fresh step Cons.prems(2,3) by (cases "p a") auto
qed simp

lemma update_where_member: "r \<in> set rows \<Longrightarrow> (if p r then g r else r) \<in> set (update_where p g rows)"
  by (simp add: set_update_where)

lemma count_update_where_le:
  "(\<And>r. p r \<Longrightarrow> q (g r) \<Longrightarrow> q r) \<Longrightarrow> count_rows q (update_where p g rows) \<le> count_rows q rows"
  by (induction rows) (auto simp: count_rows_Cons)

section \<open>The statements\<close>

text \<open>A lost or refused statement is covered by the assertion for \<open>EConn\<close>.\<close>

lemma CreateCall_triple:
  "triple (\<lambda>d. calls_ok n d \<and> channel_free ch d)
     (exec (CreateCall ch ws uid ''ringing'' mode))
     (\<lambda>c d. calls_ok n d \<and> live_call d (c_id c) \<and> seated d (c_id c) = {})
     (\<lambda>_. calls_ok n)"
proof (rule triple_exec)
  fix t d c d'
  assume pre: "calls_ok n d \<and> channel_free ch d"
    and run: "CreateCall ch ws uid ''ringing'' mode t d = (Inr c, d')"
  from run have c: "c = \<lparr>c_id = nextid d TCalls, c_channel_id = ch, c_workspace_id = ws,
        c_initiator_id = uid, c_status = ''ringing'', c_created_at = t, c_ended_at = None, c_mode = mode\<rparr>"
    and d': "calls d' = calls d @ [c]" "call_participants d' = call_participants d"
      "call_recordings d' = call_recordings d" "nextid d' TCalls = nextid d TCalls + 1"
    by (auto simp: CreateCall_def insert_into_def Let_def split: option.splits)
  have lc: "live c" by (simp add: c live_def)
  have rows: "call_rows_ok (calls d') (nextid d' TCalls)"
    using pre by (fastforce simp: channel_free_def call_rows_ok_def calls_ok_def d' c live_def)
  have seats: "seats_ok n (calls d') (call_participants d')"
    using pre by (auto simp: seats_ok_def calls_ok_def d')
  have fresh: "\<forall>p\<in>set (call_participants d). \<not> active_in (c_id c) p"
    using pre by (fastforce simp: calls_ok_def call_rows_ok_def seats_ok_def active_in_def c)
  show "(calls_ok n d' \<and> live_call d' (c_id c) \<and> seated d' (c_id c) = {}) \<and> calls_ok n d'"
    using rows seats pre lc fresh by (auto simp: calls_ok_def live_call_def d' seated_def)
next
  fix t d e d'
  assume "calls_ok n d \<and> channel_free ch d"
    and "CreateCall ch ws uid ''ringing'' mode t d = (Inl e, d')"
  then show "calls_ok n d' \<and> calls_ok n d'"
    unfolding CreateCall_def by (auto dest!: insert_error simp: calls_ok_def call_rows_ok_def less_imp_le)
qed simp

lemma AddCallParticipant_triple:
  "triple (\<lambda>d. calls_ok n d \<and> live_call d call \<and>
        (0 < n \<longrightarrow> count_rows (active_in call) (call_participants d) < n))
     (exec (AddCallParticipant call uid)) (\<lambda>_. calls_ok n) (\<lambda>_. calls_ok n)"
proof (rule triple_exec)
  fix t d p d'
  assume pre: "calls_ok n d \<and> live_call d call \<and>
      (0 < n \<longrightarrow> count_rows (active_in call) (call_participants d) < n)"
    and run: "AddCallParticipant call uid t d = (Inr p, d')"
  from run have p: "p_call_id p = call" "p_user_id p = uid" "p_left_at p = None"
    and new: "\<forall>p\<in>set (call_participants d). \<not> (active_in call p \<and> p_user_id p = uid)"
    and d': "calls d' = calls d" "call_participants d' = call_participants d @ [p]"
      "call_recordings d' = call_recordings d" "nextid d' TCalls = nextid d TCalls"
    by (auto simp: AddCallParticipant_def insert_into_def Let_def split: option.splits if_splits)
  have count: "count_rows (active_in i) (call_participants d') \<le> n" if "0 < n" for i
    using that pre by (auto simp: d' count_rows_append count_rows_Cons active_in_def p calls_ok_def seats_ok_def)
  have "seats_ok n (calls d') (call_participants d')"
    using pre new count
    by (auto simp: seats_ok_def calls_ok_def d' p live_call_def active_in_def image_iff)
  then show "calls_ok n d' \<and> calls_ok n d'" using pre by (simp add: calls_ok_def d')
next
  fix t d e d'
  assume "calls_ok n d \<and> live_call d call \<and>
      (0 < n \<longrightarrow> count_rows (active_in call) (call_participants d) < n)"
    and "AddCallParticipant call uid t d = (Inl e, d')"
  then show "calls_ok n d' \<and> calls_ok n d'"
    unfolding AddCallParticipant_def by (auto dest!: insert_error simp: calls_ok_def)
qed simp

text \<open>Leaving: the row of the user is closed, and nobody else's.\<close>

lemma seats_ok_leave:
  assumes "seats_ok n cs ps"
  shows "seats_ok n cs (update_where (\<lambda>p. active_in call p \<and> p_user_id p = uid)
    (\<lambda>p. p\<lparr>p_left_at := Some t\<rparr>) ps)" (is "seats_ok n cs ?ps")
proof -
  have "distinct (map (\<lambda>p. (p_call_id p, p_user_id p)) (filter (\<lambda>p. p_left_at p = None) ?ps))"
    using assms unfolding seats_ok_def by (intro distinct_map_update_where) auto
  moreover have "count_rows (active_in i) ?ps \<le> count_rows (active_in i) ps" for i
    by (rule count_update_where_le) (simp add: active_in_def)
  then have "0 < n \<longrightarrow> (\<forall>i. count_rows (active_in i) ?ps \<le> n)"
    using assms unfolding seats_ok_def by (meson order_trans)
  moreover have "\<forall>p\<in>set ?ps. p_left_at p = None \<longrightarrow> (\<exists>c\<in>set cs. c_id c = p_call_id p \<and> live c)"
    using assms unfolding seats_ok_def by (auto simp: set_update_where)
  ultimately show ?thesis unfolding seats_ok_def by blast
qed

lemma MarkCallParticipantLeft_triple:
  "triple (\<lambda>d. calls_ok n d \<and> seated d call \<subseteq> insert uid rest)
     (exec (MarkCallParticipantLeft call uid))
     (\<lambda>_ d. calls_ok n d \<and> seated d call \<subseteq> rest)
     (\<lambda>e d. calls_ok n d \<and> (e = ENoRows \<longrightarrow> seated d call \<subseteq> rest))"
proof (rule triple_exec)
  fix t d p d'
  assume pre: "calls_ok n d \<and> seated d call \<subseteq> insert uid rest"
    and run: "MarkCallParticipantLeft call uid t d = (Inr p, d')"
  then have d': "d' = call_participants_update (update_where (\<lambda>p. active_in call p \<and> p_user_id p = uid)
      (\<lambda>p. p\<lparr>p_left_at := Some t\<rparr>)) d"
    by (auto simp: MarkCallParticipantLeft_def update_one_def split: option.splits)
  have ok: "calls_ok n d'" using pre seats_ok_leave by (simp add: calls_ok_def d')
  have "v \<in> seated d call - {uid}" if v: "v \<in> seated d' call" for v
  proof -
    obtain p1 where p1: "p1 \<in> set (call_participants d')" "active_in call p1" "p_user_id p1 = v"
      using v by (auto simp: seated_def)
    then obtain p0 where p0: "p0 \<in> set (call_participants d)"
        and p: "p1 = (if active_in call p0 \<and> p_user_id p0 = uid then p0\<lparr>p_left_at := Some t\<rparr> else p0)"
      unfolding d' set_update_where by (auto simp: set_update_where)
    have "\<not> (active_in call p0 \<and> p_user_id p0 = uid)" using p p1(2) by (auto simp: active_in_def)
    then have "p1 = p0" "p_user_id p0 \<noteq> uid" using p p1(2) by (auto simp: active_in_def)
    then show ?thesis using p0 p1 by (auto simp: seated_def)
  qed
  then show "(calls_ok n d' \<and> seated d' call \<subseteq> rest) \<and> calls_ok n d' \<and>
      (EConn = ENoRows \<longrightarrow> seated d' call \<subseteq> rest)"
    using ok pre by auto
next
  fix t d e d'
  assume pre: "calls_ok n d \<and> seated d call \<subseteq> insert uid rest"
    and "MarkCallParticipantLeft call uid t d = (Inl e, d')"
  then have "d' = d" "\<forall>p\<in>set (call_participants d). \<not> (active_in call p \<and> p_user_id p = uid)"
    by (auto simp: MarkCallParticipantLeft_def update_one_def find_None_iff split: option.splits)
  then show "(calls_ok n d' \<and> (e = ENoRows \<longrightarrow> seated d' call \<subseteq> rest)) \<and>
      calls_ok n d' \<and> (EConn = ENoRows \<longrightarrow> seated d' call \<subseteq> rest)"
    using pre by (auto simp: seated_def)
qed simp

lemma mark_left_or_gone_triple:
  "triple (\<lambda>d. calls_ok n d \<and> seated d call \<subseteq> insert uid rest) (mark_left_or_gone call uid)
     (\<lambda>_ d. calls_ok n d \<and> seated d call \<subseteq> rest) (\<lambda>_. calls_ok n)"
  unfolding mark_left_or_gone_def
  by (rule triple_attempt [OF MarkCallParticipantLeft_triple])
     (auto intro!: triple_fail triple_ret triple_if)

text \<open>Changing the status of a live call: it stays live, or it ends with nobody in it.\<close>

definition set_status :: "int \<Rightarrow> string \<Rightarrow> int \<Rightarrow> call_row list \<Rightarrow> call_row list" where
  "set_status i status t = update_where (\<lambda>c. c_id c = i)
     (\<lambda>c. c\<lparr>c_status := status, c_ended_at := (if status = ''ended'' then Some t else c_ended_at c)\<rparr>)"

lemma UpdateCallStatus_run:
  assumes "UpdateCallStatus i status t d = (r, d')"
  shows "d' = d \<or> d' = calls_update (set_status i status t) d"
  using assms
  by (auto simp: UpdateCallStatus_def guarded_def update_one_def set_status_def split: option.splits if_splits)

lemma call_rows_ok_status:
  assumes "call_rows_ok cs n" and "status = ''ended'' \<or> status = ''active'' \<and> (\<exists>c\<in>set cs. c_id c = i \<and> live c)"
  shows "call_rows_ok (set_status i status t cs) n"
proof -
  have same: "live c" if "c \<in> set cs" "c_id c = i" "status = ''active''" for c
    using assms that distinct_map_unique [of c_id cs] unfolding call_rows_ok_def by force
  have ids: "map c_id (set_status i status t cs) = map c_id cs"
    unfolding set_status_def by (rule map_update_where) simp
  have live_eq: "filter live (set_status i ''active'' t cs) = set_status i ''active'' t (filter live cs)"
    if "status = ''active''"
    using same that unfolding set_status_def update_where_def
    by (induction cs) (auto simp: live_def)
  have "distinct (map c_channel_id (filter live (set_status i status t cs)))"
  proof (cases "status = ''ended''")
    case True
    show ?thesis unfolding set_status_def True
      by (rule distinct_map_update_where) (use assms in \<open>auto simp: call_rows_ok_def live_def\<close>)
  next
    case False
    then have "status = ''active''" using assms(2) by simp
    moreover have "map c_channel_id (set_status i ''active'' t xs) = map c_channel_id xs" for xs
      unfolding set_status_def by (rule map_update_where) simp
    ultimately show ?thesis using live_eq assms(1) by (simp add: call_rows_ok_def)
  qed
  moreover have "\<forall>c\<in>set (set_status i status t cs). c_id c < n \<and>
      c_status c \<in> {''ringing'', ''active'', ''ended''} \<and> (c_ended_at c = None \<longleftrightarrow> live c)"
    using assms same by (auto simp: set_status_def set_update_where call_rows_ok_def live_def)
  ultimately show ?thesis using assms(1) by (simp add: call_rows_ok_def ids)
qed

lemma seats_ok_status:
  assumes "seats_ok n cs ps" and "status = ''active'' \<or> (\<forall>p\<in>set ps. \<not> active_in i p)"
  shows "seats_ok n (set_status i status t cs) ps"
proof -
  have "\<exists>c\<in>set (set_status i status t cs). c_id c = p_call_id p \<and> live c"
    if p: "p \<in> set ps" "p_left_at p = None" for p
  proof -
    obtain c where c: "c \<in> set cs" "c_id c = p_call_id p" "live c"
      using assms(1) p unfolding seats_ok_def by blast
    show ?thesis
    proof (cases "c_id c = i")
      case True
      then have "status = ''active''" using assms(2) p c by (auto simp: active_in_def)
      moreover have "c\<lparr>c_status := status, c_ended_at := (if status = ''ended'' then Some t else c_ended_at c)\<rparr>
          \<in> set (set_status i status t cs)"
        using update_where_member [OF c(1), of "\<lambda>c. c_id c = i"] True unfolding set_status_def by fastforce
      ultimately show ?thesis using c by (intro bexI) (auto simp: live_def)
    next
      case False
      then have "c \<in> set (set_status i status t cs)"
        using update_where_member [OF c(1), of "\<lambda>c. c_id c = i"] unfolding set_status_def by fastforce
      then show ?thesis using c by blast
    qed
  qed
  then show ?thesis using assms(1) by (auto simp: seats_ok_def)
qed

lemma UpdateCallStatus_triple:
  assumes "status = ''ended'' \<and> (\<forall>d. P d \<longrightarrow> seated d i = {}) \<or>
      status = ''active'' \<and> (\<forall>d. P d \<longrightarrow> live_call d i)"
    and "\<And>d. P d \<Longrightarrow> calls_ok n d"
  shows "triple P (exec (UpdateCallStatus i status)) (\<lambda>_. calls_ok n) (\<lambda>_. calls_ok n)"
proof -
  have "calls_ok n d'" if P: "P d" and run: "UpdateCallStatus i status t d = (r, d')" for t d d' r
  proof -
    have "seats_ok n (set_status i status t (calls d)) (call_participants d)"
      using assms P by (intro seats_ok_status) (auto simp: calls_ok_def seated_def)
    moreover have "call_rows_ok (set_status i status t (calls d)) (nextid d TCalls)"
      using assms P by (intro call_rows_ok_status) (auto simp: calls_ok_def live_call_def)
    ultimately show ?thesis
      using UpdateCallStatus_run [OF run] assms(2) [OF P] by (auto simp: calls_ok_def)
  qed
  then show ?thesis using assms(2) by (intro triple_exec) blast+
qed

lemma CreateCallRecording_preserves: "preserves (calls_ok n) (exec (CreateCallRecording call uid md))"
proof (rule preserves_exec)
  fix t d assume ok: "calls_ok n d"
  obtain r d' where run: "CreateCallRecording call uid md t d = (r, d')" by (cases "CreateCallRecording call uid md t d")
  have "calls_ok n d'"
  proof (cases r)
    case (Inl e)
    then show ?thesis using run ok unfolding CreateCallRecording_def
      by (auto dest!: insert_error simp: calls_ok_def)
  next
    case (Inr row)
    then show ?thesis using run ok
      by (auto simp: CreateCallRecording_def insert_into_def Let_def calls_ok_def recordings_ok_def
          image_iff split: option.splits if_splits)
  qed
  then show "calls_ok n (snd (CreateCallRecording call uid md t d))" by (simp add: run)
qed

lemma EndCallRecording_preserves: "preserves (calls_ok n) (exec (EndCallRecording i call))"
proof (rule preserves_exec)
  fix t d assume "calls_ok n d"
  then show "calls_ok n (snd (EndCallRecording i call t d))"
    by (auto simp: EndCallRecording_def update_one_def calls_ok_def recordings_ok_def
        intro!: distinct_map_update_where split: option.splits)
qed

section \<open>Reads\<close>

lemma call_readers [readers]:
  "reader (exec (GetCallByID i))
     (\<lambda>d. case find (\<lambda>c. c_id c = i) (calls d) of None \<Rightarrow> Inl ENoRows | Some c \<Rightarrow> Inr c)"
  "reader (exec (GetActiveCallParticipant call uid))
     (\<lambda>d. case find (\<lambda>p. active_in call p \<and> p_user_id p = uid) (call_participants d) of
            None \<Rightarrow> Inl ENoRows | Some p \<Rightarrow> Inr p)"
  "reader (exec (CountActiveCallParticipants call))
     (\<lambda>d. Inr (count_rows (active_in call) (call_participants d)))"
  "reader (exec (CountAllCallParticipants call))
     (\<lambda>d. Inr (count_rows (\<lambda>p. p_call_id p = call) (call_participants d)))"
  "reader (exec (ListActiveCallParticipants call))
     (\<lambda>d. Inr (order_asc p_joined_at (filter (active_in call) (call_participants d))))"
  unfolding GetCallByID_def GetActiveCallParticipant_def CountActiveCallParticipants_def
    CountAllCallParticipants_def ListActiveCallParticipants_def
  by (rule readers)+

lemma reader_GetActiveCallByChannel [readers]:
  "reader (exec (GetActiveCallByChannel ch))
     (\<lambda>d. case (case order_desc c_created_at (filter (\<lambda>c. c_channel_id c = ch \<and> live c) (calls d)) of
               [] \<Rightarrow> None | c # _ \<Rightarrow> Some c) of None \<Rightarrow> Inl ENoRows | Some c \<Rightarrow> Inr c)"
  unfolding GetActiveCallByChannel_def by (rule readers)

lemma reader_GetActiveCallRecording [readers]:
  "reader (exec (GetActiveCallRecording call))
     (\<lambda>d. case (case order_desc r_started_at
                 (filter (\<lambda>r. r_call_id r = call \<and> r_ended_at r = None) (call_recordings d)) of
               [] \<Rightarrow> None | r # _ \<Rightarrow> Some r) of None \<Rightarrow> Inl ENoRows | Some r \<Rightarrow> Inr r)"
  unfolding GetActiveCallRecording_def by (rule readers)

lemma set_order_Nil [simp]: "order_desc k rows = [] \<longleftrightarrow> rows = []"
  by (metis set_order(2) set_empty)

text \<open>What the lookups of a live call tell about the database.\<close>

lemma GetCallByID_triple:
  "triple (calls_ok n) (exec (GetCallByID i))
     (\<lambda>c d. calls_ok n d \<and> c \<in> set (calls d) \<and> c_id c = i) (\<lambda>_. calls_ok n)"
  by (rule triple_weaken [OF triple_reader [OF call_readers(1)]])
     (auto split: option.splits dest: find_SomeD)

lemma GetActiveCallByChannel_triple:
  "triple (calls_ok n) (exec (GetActiveCallByChannel ch))
     (\<lambda>c d. calls_ok n d \<and> c \<in> set (calls d) \<and> c_channel_id c = ch \<and> live c)
     (\<lambda>e d. calls_ok n d \<and> (e = ENoRows \<longrightarrow> channel_free ch d))"
proof (rule triple_weaken [OF triple_reader [OF reader_GetActiveCallByChannel]])
  fix c and d :: db
  let ?rows = "order_desc c_created_at (filter (\<lambda>c. c_channel_id c = ch \<and> live c) (calls d))"
  assume "calls_ok n d \<and> (case (case ?rows of [] \<Rightarrow> None | c # _ \<Rightarrow> Some c) of
      None \<Rightarrow> Inl ENoRows | Some c \<Rightarrow> Inr c) = Inr c"
  then have "c \<in> set ?rows" "calls_ok n d" by (cases ?rows; simp del: set_order)+
  then show "calls_ok n d \<and> c \<in> set (calls d) \<and> c_channel_id c = ch \<and> live c" by simp
next
  fix e and d :: db
  let ?rows = "order_desc c_created_at (filter (\<lambda>c. c_channel_id c = ch \<and> live c) (calls d))"
  assume "calls_ok n d \<and> ((case (case ?rows of [] \<Rightarrow> None | c # _ \<Rightarrow> Some c) of
      None \<Rightarrow> Inl ENoRows | Some c \<Rightarrow> Inr c) = Inl e \<or> e = EConn)"
  then show "calls_ok n d \<and> (e = ENoRows \<longrightarrow> channel_free ch d)"
    by (cases "?rows") (auto simp: filter_empty_conv channel_free_def)
qed simp

section \<open>The interfaces\<close>

text \<open>
  What the service relies on: access checks, billing and invitations never write the call tables.
\<close>

locale calls_deps =
  fixes sv :: calls_service
  assumes access_leaves: "leaves call_tables (ca_access sv ws ch uid)"
    and check_leaves: "ca_billing sv = Some b \<Longrightarrow> leaves call_tables (CheckCanStartVideoCall b ws)"
    and limit_leaves: "ca_billing sv = Some b \<Longrightarrow> leaves call_tables (MaxCallParticipantsForWorkspace b ws)"
    and record_leaves: "ca_billing sv = Some b \<Longrightarrow> leaves call_tables (RecordVideoMinutesByWorkspaceID b ws m)"
    and invite_leaves: "ca_invites sv = Some f \<Longrightarrow> leaves call_tables (f ws ch call initiator target name)"
begin

lemma publish_leaves: "leaves g (calls_publish sv event c uid)"
  unfolding calls_publish_def by (cases "ca_broadcast sv") (auto intro: read_only)

lemma video_check_leaves:
  "leaves call_tables (case ca_billing sv of
     Some b \<Rightarrow> if mode = ''video'' then CheckCanStartVideoCall b ws else ret () | None \<Rightarrow> ret ())"
  by (cases "ca_billing sv") (auto intro: read_only check_leaves)

lemma participantLimit_leaves: "leaves call_tables (calls_participantLimit sv ws)"
  unfolding calls_participantLimit_def Let_def
  by (cases "ca_billing sv") (auto intro!: read_only limit_leaves)

lemma capacity_leaves: "leaves call_tables (calls_assertParticipantCapacity sv ws count)"
  unfolding calls_assertParticipantCapacity_def by (intro read_only participantLimit_leaves)

lemma meter_leaves: "leaves call_tables (calls_meterVideoCall sv c)"
proof (cases "ca_billing sv")
  case (Some b)
  then show ?thesis
    unfolding calls_meterVideoCall_def Let_def
    by (auto intro!: read_only reader_leaves [OF call_readers(4)] record_leaves)
qed (simp add: calls_meterVideoCall_def leaves_ret)

lemma notify_leaves: "leaves call_tables (calls_notifyChannelMembers sv c uid)"
proof (cases "ca_invites sv")
  case (Some f)
  then show ?thesis
    unfolding calls_notifyChannelMembers_def GetUserByID_def ListChannelMemberUserIDs_def
    by (simp only: option.case) (intro leaves_attempt leaves_select_one leaves_select leaves_ret
        leaves_for_each leaves_if leaves_ignoring invite_leaves [OF Some])
qed (simp add: calls_notifyChannelMembers_def leaves_ret)

text \<open>A limit of the service bounds every limit it computes.\<close>

lemma participantLimit_bound:
  assumes run: "calls_participantLimit sv ws s = (Inr limit, s')" and pos: "0 < ca_maxParticipants sv"
  shows "0 < limit \<and> limit \<le> ca_maxParticipants sv"
proof (cases "ca_billing sv")
  case None
  then show ?thesis using run pos by (simp add: calls_participantLimit_def)
next
  case (Some b)
  then have "attempt (MaxCallParticipantsForWorkspace b ws) (\<lambda>_. ret (ca_maxParticipants sv))
      (\<lambda>m. ret (if m > 0 \<and> (ca_maxParticipants sv \<le> 0 \<or> m < ca_maxParticipants sv) then m
        else ca_maxParticipants sv)) s = (Inr limit, s')"
    using run by (simp add: calls_participantLimit_def Let_def)
  then show ?thesis unfolding attempt_eq ret_eq using pos by (elim disjE exE conjE) (simp_all split: if_splits)
qed

lemma capacity_triple:
  assumes "\<And>d d'. call_tables d = call_tables d' \<Longrightarrow> P d \<Longrightarrow> P d'"
  shows "triple P (calls_assertParticipantCapacity sv ws count)
     (\<lambda>_ d. P d \<and> (0 < ca_maxParticipants sv \<longrightarrow> count < ca_maxParticipants sv)) (\<lambda>_. P)"
proof (rule tripleI)
  fix s x s'
  assume pre: "P (db s)" and run: "calls_assertParticipantCapacity sv ws count s = (Inr x, s')"
  obtain limit s1 where limit: "calls_participantLimit sv ws s = (Inr limit, s1)"
      and rest: "(if limit > 0 \<and> count \<ge> limit then fail (ECalls Calls_CallFull) else ret ()) s1 = (Inr x, s')"
    using run unfolding calls_assertParticipantCapacity_def andthen_Inr by blast
  have "0 < ca_maxParticipants sv \<longrightarrow> count < ca_maxParticipants sv"
    using participantLimit_bound [OF limit] rest by (auto split: if_splits)
  moreover have "P (db s')"
    using leaves_run [OF capacity_leaves run] pre assms [of "db s" "db s'"] by simp
  ultimately show "P (db s') \<and> (0 < ca_maxParticipants sv \<longrightarrow> count < ca_maxParticipants sv)" by blast
next
  fix s e s'
  assume "P (db s)" and run: "calls_assertParticipantCapacity sv ws count s = (Inl e, s')"
  then show "P (db s')"
    using leaves_run [OF capacity_leaves run] assms [of "db s" "db s'"] by simp
qed

abbreviation ok :: "db \<Rightarrow> bool" where
  "ok \<equiv> calls_ok (ca_maxParticipants sv)"

lemma ok_cong: "call_tables d = call_tables d' \<Longrightarrow> ok d \<Longrightarrow> ok d'"
  using call_tables_cong(1) by blast

lemma free_cong: "call_tables d = call_tables d' \<Longrightarrow> ok d \<and> channel_free ch d \<Longrightarrow> ok d' \<and> channel_free ch d'"
  using call_tables_cong(1,6) by blast

lemma keeps_tables: "leaves call_tables m \<Longrightarrow> triple ok m (\<lambda>_. ok) (\<lambda>_. ok)"
  by (rule triple_leaves) (auto intro: ok_cong)

text \<open>Ending the call of a channel frees the channel.\<close>

lemma end_call_triple:
  "triple (\<lambda>d. (ok d \<and> seated d i = {}) \<and> (\<forall>c\<in>set (calls d). live c \<and> c_channel_id c = ch \<longrightarrow> c_id c = i))
     (exec (UpdateCallStatus i ''ended''))
     (\<lambda>_ d. ok d \<and> channel_free ch d) (\<lambda>_. ok)"
proof -
  have 1: "triple (\<lambda>d. ok d \<and> seated d i = {}) (exec (UpdateCallStatus i ''ended'')) (\<lambda>_. ok) (\<lambda>_. ok)"
    by (rule UpdateCallStatus_triple) auto
  have 2: "triple (\<lambda>d. \<forall>c\<in>set (calls d). live c \<and> c_channel_id c = ch \<longrightarrow> c_id c = i)
      (exec (UpdateCallStatus i ''ended''))
      (\<lambda>_. channel_free ch) (\<lambda>_ _. True)"
    by (rule triple_exec)
       (auto simp: UpdateCallStatus_def guarded_def update_one_def set_update_where live_def channel_free_def
          split: option.splits if_splits)
  show ?thesis by (rule triple_weaken [OF triple_conj [OF 1 2]]) auto
qed

lemma solo_seat:
  assumes "length (order_asc k (filter (active_in call) ps)) = 1"
    and "p_user_id (hd (order_asc k (filter (active_in call) ps))) = uid" and "call_participants d = ps"
  shows "seated d call \<subseteq> {uid}"
proof -
  obtain p where p: "order_asc k (filter (active_in call) ps) = [p]" using assms(1) by (auto simp: length_Suc_conv)
  then have "set (filter (active_in call) ps) = {p}" by (metis set_order(1) list.set(1) list.set(2))
  then show ?thesis using assms(2,3) p by (auto simp: seated_def)
qed

lemma clearStaleSoloCall_triple:
  "triple (\<lambda>d. ok d \<and> c \<in> set (calls d) \<and> c_channel_id c = ch \<and> live c) (calls_clearStaleSoloCall sv c uid)
     (\<lambda>cleared d. ok d \<and> (cleared \<longrightarrow> channel_free ch d)) (\<lambda>_. ok)"
proof -
  define only where "only d \<longleftrightarrow> (\<forall>c'\<in>set (calls d). live c' \<and> c_channel_id c' = ch \<longrightarrow> c_id c' = c_id c)" for d :: db
  have only: "only d" if "ok d" "c \<in> set (calls d)" "c_channel_id c = ch" "live c" for d
  proof -
    have "distinct (map c_channel_id (filter live (calls d)))"
      using that(1) by (simp add: calls_ok_def call_rows_ok_def)
    then show ?thesis
      unfolding only_def using distinct_map_unique [of c_channel_id "filter live (calls d)" c] that by fastforce
  qed
  have mark: "triple (\<lambda>d. (ok d \<and> seated d (c_id c) \<subseteq> insert uid {}) \<and> only d) (mark_left_or_gone (c_id c) uid)
      (\<lambda>_ d. (ok d \<and> seated d (c_id c) \<subseteq> {}) \<and> only d) (\<lambda>_ d. ok d \<and> only d)"
  proof (rule triple_conj [OF mark_left_or_gone_triple triple_leaves])
    show "leaves calls (mark_left_or_gone (c_id c) uid)"
      unfolding mark_left_or_gone_def
      by (intro read_only leaves_exec)
         (simp add: MarkCallParticipantLeft_def update_one_def split: option.splits)
  qed (simp add: only_def)
  have ending: "triple (\<lambda>d. ok d \<and> channel_free ch d)
      (andthen (calls_meterVideoCall sv ended) (\<lambda>_. andthen (calls_publish sv ''call.end'' ended uid) (\<lambda>_. ret True)))
      (\<lambda>cleared d. ok d \<and> (cleared \<longrightarrow> channel_free ch d)) (\<lambda>_. ok)" for ended
    by (rule triple_weaken [OF triple_leaves [OF _ free_cong]])
       (auto intro!: read_only meter_leaves publish_leaves)
  have chain: "triple (\<lambda>d. (ok d \<and> seated d (c_id c) \<subseteq> insert uid {}) \<and> only d)
        (andthen (mark_left_or_gone (c_id c) uid) (\<lambda>_.
              andthen (exec (UpdateCallStatus (c_id c) ''ended'')) (\<lambda>ended.
              andthen (calls_meterVideoCall sv ended) (\<lambda>_.
              andthen (calls_publish sv ''call.end'' ended uid) (\<lambda>_. ret True)))))
        (\<lambda>cleared d. ok d \<and> (cleared \<longrightarrow> channel_free ch d)) (\<lambda>_. ok)"
  proof (rule triple_andthen)
    show "triple (\<lambda>d. (ok d \<and> seated d (c_id c) \<subseteq> insert uid {}) \<and> only d) (mark_left_or_gone (c_id c) uid)
        (\<lambda>_ d. (ok d \<and> seated d (c_id c) = {}) \<and>
           (\<forall>c'\<in>set (calls d). live c' \<and> c_channel_id c' = ch \<longrightarrow> c_id c' = c_id c)) (\<lambda>_. ok)"
      by (rule triple_weaken [OF mark]) (simp_all add: only_def)
  qed (rule triple_andthen [OF end_call_triple ending])
  have listing: "triple (\<lambda>d. ok d \<and> c \<in> set (calls d) \<and> c_channel_id c = ch \<and> live c)
      (exec (ListActiveCallParticipants (c_id c)))
      (\<lambda>ps d. ok d \<and> c \<in> set (calls d) \<and> c_channel_id c = ch \<and> live c \<and>
        ps = order_asc p_joined_at (filter (active_in (c_id c)) (call_participants d))) (\<lambda>_. ok)"
    by (rule triple_weaken [OF triple_reader [OF call_readers(5),
          where P = "\<lambda>d. ok d \<and> c \<in> set (calls d) \<and> c_channel_id c = ch \<and> live c"]]) auto
  show ?thesis
    unfolding calls_clearStaleSoloCall_def
  proof (rule triple_andthen [OF listing])
    fix ps
    let ?listed = "\<lambda>d. ok d \<and> c \<in> set (calls d) \<and> c_channel_id c = ch \<and> live c \<and>
        ps = order_asc p_joined_at (filter (active_in (c_id c)) (call_participants d))"
    show "triple ?listed
        (if length ps \<noteq> 1 \<or> p_user_id (hd ps) \<noteq> uid then ret False
         else andthen (mark_left_or_gone (c_id c) uid) (\<lambda>_.
              andthen (exec (UpdateCallStatus (c_id c) ''ended'')) (\<lambda>ended.
              andthen (calls_meterVideoCall sv ended) (\<lambda>_.
              andthen (calls_publish sv ''call.end'' ended uid) (\<lambda>_. ret True)))))
        (\<lambda>cleared d. ok d \<and> (cleared \<longrightarrow> channel_free ch d)) (\<lambda>_. ok)"
    proof (rule triple_if)
      assume "\<not> (length ps \<noteq> 1 \<or> p_user_id (hd ps) \<noteq> uid)"
      then have "(ok d \<and> seated d (c_id c) \<subseteq> insert uid {}) \<and> only d" if "?listed d" for d
        using that solo_seat [of p_joined_at "c_id c" "call_participants d" uid d] only by auto
      then show "triple ?listed (andthen (mark_left_or_gone (c_id c) uid) (\<lambda>_.
              andthen (exec (UpdateCallStatus (c_id c) ''ended'')) (\<lambda>ended.
              andthen (calls_meterVideoCall sv ended) (\<lambda>_.
              andthen (calls_publish sv ''call.end'' ended uid) (\<lambda>_. ret True)))))
        (\<lambda>cleared d. ok d \<and> (cleared \<longrightarrow> channel_free ch d)) (\<lambda>_. ok)"
        by (intro triple_pre [OF _ chain]) simp
    qed (rule triple_ret, simp)
  qed
qed

text \<open>Every operation keeps the invariant.\<close>

lemma free_step_triple:
  "triple ok (attempt (exec (GetActiveCallByChannel ch))
     (\<lambda>e. if e \<noteq> ENoRows then fail e else ret ())
     (\<lambda>existing. andthen (calls_clearStaleSoloCall sv existing uid) (\<lambda>cleared.
        if \<not> cleared then fail (ECalls Calls_CallAlreadyActive) else ret ())))
   (\<lambda>_ d. ok d \<and> channel_free ch d) (\<lambda>_. ok)"
proof (rule triple_attempt [OF GetActiveCallByChannel_triple])
  fix e
  show "triple (\<lambda>d. ok d \<and> (e = ENoRows \<longrightarrow> channel_free ch d))
      (if e \<noteq> ENoRows then fail e else ret ()) (\<lambda>_ d. ok d \<and> channel_free ch d) (\<lambda>_. ok)"
    by (auto intro!: triple_fail triple_ret)
next
  fix c
  show "triple (\<lambda>d. ok d \<and> c \<in> set (calls d) \<and> c_channel_id c = ch \<and> live c)
      (andthen (calls_clearStaleSoloCall sv c uid) (\<lambda>cleared.
        if \<not> cleared then fail (ECalls Calls_CallAlreadyActive) else ret ()))
      (\<lambda>_ d. ok d \<and> channel_free ch d) (\<lambda>_. ok)"
    by (rule triple_andthen [OF clearStaleSoloCall_triple]) (auto intro!: triple_fail triple_ret)
qed

lemma start_call_triple:
  "triple (\<lambda>d. ok d \<and> channel_free ch d)
     (andthen (exec (CreateCall ch ws uid ''ringing'' mode)) (\<lambda>c.
      andthen (exec (AddCallParticipant (c_id c) uid)) (\<lambda>_.
      andthen (calls_publish sv ''call.join'' c uid) (\<lambda>_.
      andthen (calls_notifyChannelMembers sv c uid) (\<lambda>_. ret c)))))
     (\<lambda>_. ok) (\<lambda>_. ok)"
proof (rule triple_andthen [OF CreateCall_triple])
  fix c :: call_row
  have add: "triple (\<lambda>d. ok d \<and> live_call d (c_id c) \<and> seated d (c_id c) = {})
      (exec (AddCallParticipant (c_id c) uid)) (\<lambda>_. ok) (\<lambda>_. ok)"
    by (rule triple_pre [OF _ AddCallParticipant_triple]) (simp add: seated_empty)
  show "triple (\<lambda>d. ok d \<and> live_call d (c_id c) \<and> seated d (c_id c) = {})
      (andthen (exec (AddCallParticipant (c_id c) uid)) (\<lambda>_.
       andthen (calls_publish sv ''call.join'' c uid) (\<lambda>_.
       andthen (calls_notifyChannelMembers sv c uid) (\<lambda>_. ret c)))) (\<lambda>_. ok) (\<lambda>_. ok)"
    by (rule triple_andthen [OF add])
       (intro keeps_tables leaves_andthen leaves_ret publish_leaves notify_leaves)
qed

lemma InitiateCall_ok: "preserves ok (calls_InitiateCall sv ws ch uid mode)"
proof -
  have body: "triple ok (andthen (ca_access sv ws ch uid) (\<lambda>_.
      andthen (case ca_billing sv of
                 Some b \<Rightarrow> if m = ''video'' then CheckCanStartVideoCall b ws else ret ()
               | None \<Rightarrow> ret ()) (\<lambda>_.
      andthen (calls_assertParticipantCapacity sv ws 0) (\<lambda>_.
      andthen (attempt (exec (GetActiveCallByChannel ch))
                 (\<lambda>e. if e \<noteq> ENoRows then fail e else ret ())
                 (\<lambda>existing. andthen (calls_clearStaleSoloCall sv existing uid) (\<lambda>cleared.
                    if \<not> cleared then fail (ECalls Calls_CallAlreadyActive) else ret ()))) (\<lambda>_.
      andthen (exec (CreateCall ch ws uid ''ringing'' m)) (\<lambda>c.
      andthen (exec (AddCallParticipant (c_id c) uid)) (\<lambda>_.
      andthen (calls_publish sv ''call.join'' c uid) (\<lambda>_.
      andthen (calls_notifyChannelMembers sv c uid) (\<lambda>_. ret c))))))))) (\<lambda>_. ok) (\<lambda>_. ok)" for m
    by (rule triple_andthen [OF keeps_tables [OF access_leaves]]
        triple_andthen [OF keeps_tables [OF video_check_leaves]]
        triple_andthen [OF keeps_tables [OF capacity_leaves]]
        triple_andthen [OF free_step_triple] start_call_triple)+
  show ?thesis
    unfolding calls_InitiateCall_def
    by (intro triple_imp_preserves triple_sum body triple_fail)
qed

lemma add_participant_triple:
  assumes "live c"
  shows "triple (\<lambda>d. ok d \<and> c \<in> set (calls d)) (calls_add_participant sv c uid) (\<lambda>_. ok) (\<lambda>_. ok)"
proof -
  define room where "room n d \<longleftrightarrow> ok d \<and> c \<in> set (calls d) \<and>
      n = count_rows (active_in (c_id c)) (call_participants d)" for n and d :: db
  have count: "triple (\<lambda>d. ok d \<and> c \<in> set (calls d)) (exec (CountActiveCallParticipants (c_id c)))
      room (\<lambda>_. ok)"
    by (rule triple_weaken [OF triple_reader [OF call_readers(3),
          where P = "\<lambda>d. ok d \<and> c \<in> set (calls d)"]]) (auto simp: room_def)
  have room_cong: "call_tables d = call_tables d' \<Longrightarrow> room n d \<Longrightarrow> room n d'" for n and d d' :: db
    unfolding room_def using call_tables_cong [of d d'] by simp
  define fits where "fits n d \<longleftrightarrow> room n d \<and> (0 < ca_maxParticipants sv \<longrightarrow> n < ca_maxParticipants sv)"
    for n and d :: db
  have fits_cong: "call_tables d = call_tables d' \<Longrightarrow> fits n d \<Longrightarrow> fits n d'" for n and d d' :: db
    unfolding fits_def using room_cong by blast
  have capacity: "triple (room n) (calls_assertParticipantCapacity sv (c_workspace_id c) n) (\<lambda>_. fits n) (\<lambda>_. ok)" for n
    by (rule triple_weaken, rule capacity_triple, erule (1) room_cong) (auto simp: fits_def room_def)
  have check: "triple (fits n) (case ca_billing sv of
      Some b \<Rightarrow> if c_mode c = ''video'' then CheckCanStartVideoCall b (c_workspace_id c) else ret ()
    | None \<Rightarrow> ret ()) (\<lambda>_. fits n) (\<lambda>_. ok)" for n
    by (rule triple_weaken, rule triple_leaves [OF video_check_leaves], erule (1) fits_cong)
       (auto simp: fits_def room_def)
  have add: "triple (fits n) (exec (AddCallParticipant (c_id c) uid)) (\<lambda>_. ok) (\<lambda>_. ok)" for n
    by (rule triple_pre [OF _ AddCallParticipant_triple])
       (use assms in \<open>auto simp: fits_def room_def live_call_def\<close>)
  show ?thesis
    unfolding calls_add_participant_def
    by (rule triple_andthen [OF count] triple_andthen [OF capacity]
        triple_andthen [OF check] triple_andthen [OF add])+ (simp add: triple_ret)
qed

lemma fetched_triple:
  "triple ok (exec (GetCallByID i)) (\<lambda>c d. ok d \<and> c \<in> set (calls d) \<and> c_id c = i) (\<lambda>_. ok)"
  by (rule GetCallByID_triple)

lemma fetched_cong:
  "call_tables d = call_tables d' \<Longrightarrow> ok d \<and> c \<in> set (calls d) \<Longrightarrow> ok d' \<and> c \<in> set (calls d')"
  using call_tables_cong [of d d'] by simp

lemma keeps_fetched:
  "leaves call_tables m \<Longrightarrow> triple (\<lambda>d. ok d \<and> c \<in> set (calls d)) m (\<lambda>_ d. ok d \<and> c \<in> set (calls d)) (\<lambda>_ d. ok d \<and> c \<in> set (calls d))"
  by (rule triple_leaves) (auto intro: fetched_cong dest: fetched_cong)

lemma keeps_live:
  assumes "leaves call_tables m"
  shows "triple (\<lambda>d. ok d \<and> live_call d i) m (\<lambda>_ d. ok d \<and> live_call d i) (\<lambda>_. ok)"
proof (rule triple_weaken)
  show "triple (\<lambda>d. ok d \<and> live_call d i) m (\<lambda>_ d. ok d \<and> live_call d i) (\<lambda>_ d. ok d \<and> live_call d i)"
    by (rule triple_leaves [OF assms]) (auto dest: call_tables_cong)
qed auto

lemma activate_triple:
  assumes "c_id c = i" and "live c"
  shows "triple (\<lambda>d. ok d \<and> live_call d i)
     (andthen (if c_status c = ''ringing'' \<and> count \<ge> 2 then exec (UpdateCallStatus i ''active'') else ret c) (\<lambda>c.
      andthen (calls_publish sv ''call.join'' c uid) (\<lambda>_. ret c))) (\<lambda>_. ok) (\<lambda>_. ok)"
proof (rule triple_andthen)
  show "triple (\<lambda>d. ok d \<and> live_call d i)
      (if c_status c = ''ringing'' \<and> count \<ge> 2 then exec (UpdateCallStatus i ''active'') else ret c)
      (\<lambda>_. ok) (\<lambda>_. ok)"
    by (intro triple_if UpdateCallStatus_triple triple_ret) auto
qed (intro keeps_tables leaves_andthen leaves_ret publish_leaves)

lemma seat_step_triple:
  assumes "live c"
  shows "triple (\<lambda>d. ok d \<and> c \<in> set (calls d))
     (attempt (exec (GetActiveCallParticipant i uid))
        (\<lambda>e. if e = ENoRows then calls_add_participant sv c uid else fail e) (\<lambda>_. ret ()))
     (\<lambda>_ d. ok d \<and> live_call d (c_id c)) (\<lambda>_. ok)"
proof (rule triple_attempt)
  show "triple (\<lambda>d. ok d \<and> c \<in> set (calls d)) (exec (GetActiveCallParticipant i uid))
      (\<lambda>_ d. ok d \<and> c \<in> set (calls d)) (\<lambda>_ d. ok d \<and> c \<in> set (calls d))"
    by (intro keeps_fetched reader_leaves [OF call_readers(2)])
next
  fix e
  have "triple (\<lambda>d. ok d \<and> c \<in> set (calls d)) (calls_add_participant sv c uid)
      (\<lambda>_ d. ok d \<and> live_call d (c_id c)) (\<lambda>_. ok)"
  proof (rule triple_weaken [OF triple_conj [OF add_participant_triple [OF assms]
        triple_preserves [where P = "\<lambda>d. live_call d (c_id c)"]]])
    have "leaves calls (exec (AddCallParticipant (c_id c) uid))"
      by (rule leaves_exec)
         (simp add: AddCallParticipant_def insert_into_def Let_def split: option.splits)
    then have "leaves calls (calls_add_participant sv c uid)"
      unfolding calls_add_participant_def
      by (intro read_only reader_leaves [OF call_readers(3)]
          leaves_fun [OF capacity_leaves call_tables_cong(4)] leaves_fun [OF video_check_leaves call_tables_cong(4)])
    then show "preserves (\<lambda>d. live_call d (c_id c)) (calls_add_participant sv c uid)"
      by (rule leaves_imp_preserves) (simp add: live_call_def)
  qed (use assms in \<open>auto simp: live_call_def\<close>)
  then show "triple (\<lambda>d. ok d \<and> c \<in> set (calls d))
      (if e = ENoRows then calls_add_participant sv c uid else fail e)
      (\<lambda>_ d. ok d \<and> live_call d (c_id c)) (\<lambda>_. ok)"
    by (auto intro: triple_fail)
qed (use assms in \<open>auto intro!: triple_ret simp: live_call_def\<close>)

lemma JoinCall_ok: "preserves ok (calls_JoinCall sv i uid)"
  unfolding calls_JoinCall_def
proof (rule triple_imp_preserves, rule triple_attempt [OF fetched_triple], goal_cases)
  case (1 e)
  show ?case by (rule triple_fail)
next
  case (2 c)
  let ?fetched = "\<lambda>d. ok d \<and> c \<in> set (calls d) \<and> c_id c = i"
  have access: "triple ?fetched (ca_access sv (c_workspace_id c) (c_channel_id c) uid)
      (\<lambda>_ d. ok d \<and> c \<in> set (calls d)) (\<lambda>_. ok)"
    by (rule triple_weaken, rule keeps_fetched [OF access_leaves]) auto
  have count: "triple (\<lambda>d. ok d \<and> live_call d (c_id c)) (exec (CountActiveCallParticipants i))
      (\<lambda>_ d. ok d \<and> live_call d (c_id c)) (\<lambda>_. ok)"
    by (rule keeps_live [OF reader_leaves [OF call_readers(3)]])
  show ?case
  proof (rule triple_if, rule triple_fail, simp, rule triple_learn [where b = "live c \<and> c_id c = i"], goal_cases)
    case (1 d)
    then show ?case by (auto intro: not_ended_live)
  next
    case 2
    then have lc: "live c" and i: "c_id c = i" by simp_all
    show ?case
      by (rule triple_andthen [OF access], rule triple_andthen [OF seat_step_triple [OF lc]],
          rule triple_andthen [OF count], unfold i, rule activate_triple [OF i lc])
  qed
qed

lemma seats_cong:
  "call_tables d = call_tables d' \<Longrightarrow> ok d \<and> seated d i \<subseteq> U \<Longrightarrow> ok d' \<and> seated d' i \<subseteq> U"
  using call_tables_cong [of d d'] by simp

lemma leave_remaining_triple:
  "triple (\<lambda>d. ok d \<and> seated d (c_id c) \<subseteq> set (map p_user_id (p # ps))) (leave_remaining sv c p)
     (\<lambda>_ d. ok d \<and> seated d (c_id c) \<subseteq> set (map p_user_id ps)) (\<lambda>_. ok)"
  unfolding leave_remaining_def
proof (rule triple_andthen)
  show "triple (\<lambda>d. ok d \<and> seated d (c_id c) \<subseteq> set (map p_user_id (p # ps)))
      (mark_left_or_gone (c_id c) (p_user_id p))
      (\<lambda>_ d. ok d \<and> seated d (c_id c) \<subseteq> set (map p_user_id ps)) (\<lambda>_. ok)"
    by (rule triple_pre [OF _ mark_left_or_gone_triple]) auto
next
  show "triple (\<lambda>d. ok d \<and> seated d (c_id c) \<subseteq> set (map p_user_id ps))
      (calls_publish sv ''call.leave'' c (p_user_id p))
      (\<lambda>_ d. ok d \<and> seated d (c_id c) \<subseteq> set (map p_user_id ps)) (\<lambda>_. ok)"
  proof (rule triple_weaken)
    show "triple (\<lambda>d. ok d \<and> seated d (c_id c) \<subseteq> set (map p_user_id ps))
        (calls_publish sv ''call.leave'' c (p_user_id p))
        (\<lambda>_ d. ok d \<and> seated d (c_id c) \<subseteq> set (map p_user_id ps))
        (\<lambda>_ d. ok d \<and> seated d (c_id c) \<subseteq> set (map p_user_id ps))"
      by (rule triple_leaves [OF publish_leaves]) (erule (1) seats_cong)
  qed auto
qed

lemma empty_call_triple:
  assumes "c_id c = i"
  shows "triple (\<lambda>d. ok d \<and> count = count_rows (active_in i) (call_participants d) \<and> count \<le> 1)
     (if count = 1 then andthen (exec (ListActiveCallParticipants i)) (\<lambda>remaining.
        for_each remaining (leave_remaining sv c)) else ret ())
     (\<lambda>_ d. ok d \<and> seated d i = {}) (\<lambda>_. ok)"
proof (rule triple_if)
  have listing: "triple ok (exec (ListActiveCallParticipants i))
      (\<lambda>ps d. ok d \<and> seated d i \<subseteq> set (map p_user_id ps)) (\<lambda>_. ok)"
    by (rule triple_weaken, rule triple_reader [OF call_readers(5)]) (auto simp: seated_def)
  have loop: "triple (\<lambda>d. ok d \<and> seated d i \<subseteq> set (map p_user_id ps)) (for_each ps (leave_remaining sv c))
      (\<lambda>_ d. ok d \<and> seated d i = {}) (\<lambda>_. ok)" for ps
    by (rule triple_weaken,
        rule triple_for_each [where P = "\<lambda>ps d. ok d \<and> seated d (c_id c) \<subseteq> set (map p_user_id ps)"],
        rule leave_remaining_triple) (auto simp: assms)
  show "triple (\<lambda>d. ok d \<and> count = count_rows (active_in i) (call_participants d) \<and> count \<le> 1)
     (andthen (exec (ListActiveCallParticipants i)) (\<lambda>remaining. for_each remaining (leave_remaining sv c)))
     (\<lambda>_ d. ok d \<and> seated d i = {}) (\<lambda>_. ok)"
    by (rule triple_andthen [OF triple_pre [OF _ listing] loop]) simp
next
  assume "count \<noteq> 1"
  then have "count = 0" if "count = count_rows (active_in i) (call_participants d)" "count \<le> 1" for d :: db
    using that count_rows_nonneg [of "active_in i" "call_participants d"] by linarith
  then show "triple (\<lambda>d. ok d \<and> count = count_rows (active_in i) (call_participants d) \<and> count \<le> 1)
      (ret ()) (\<lambda>_ d. ok d \<and> seated d i = {}) (\<lambda>_. ok)"
    by (intro triple_ret) (auto simp: seated_empty)
qed

lemma finish_call_triple:
  "triple (\<lambda>d. ok d \<and> seated d i = {})
     (andthen (exec (UpdateCallStatus i ''ended'')) (\<lambda>c.
      andthen (calls_meterVideoCall sv c) (\<lambda>_.
      andthen (calls_publish sv ''call.end'' c uid) (\<lambda>_. ret c)))) (\<lambda>_. ok) (\<lambda>_. ok)"
proof (rule triple_andthen)
  show "triple (\<lambda>d. ok d \<and> seated d i = {}) (exec (UpdateCallStatus i ''ended'')) (\<lambda>_. ok) (\<lambda>_. ok)"
    by (rule UpdateCallStatus_triple) auto
qed (intro keeps_tables leaves_andthen leaves_ret meter_leaves publish_leaves)

lemma LeaveCall_ok: "preserves ok (calls_LeaveCall sv i uid)"
  unfolding calls_LeaveCall_def
proof (rule triple_imp_preserves, rule triple_attempt [OF fetched_triple], goal_cases)
  case (1 e)
  show ?case by (rule triple_fail)
next
  case (2 c)
  have read: "triple ok (exec (GetActiveCallParticipant i uid)) (\<lambda>_. ok) (\<lambda>_. ok)"
    by (rule keeps_tables [OF reader_leaves [OF call_readers(2)]])
  have mark: "triple ok (exec (MarkCallParticipantLeft i uid)) (\<lambda>_. ok) (\<lambda>_. ok)"
    by (rule triple_weaken, rule MarkCallParticipantLeft_triple [where rest = UNIV]) auto
  have count: "triple ok (exec (CountActiveCallParticipants i))
      (\<lambda>n d. ok d \<and> n = count_rows (active_in i) (call_participants d)) (\<lambda>_. ok)"
    by (rule triple_weaken, rule triple_reader [OF call_readers(3)]) auto
  have tail: "triple (\<lambda>d. ok d \<and> n = count_rows (active_in i) (call_participants d))
      (if n \<le> 1 then
            andthen (if n = 1 then
                       andthen (exec (ListActiveCallParticipants i)) (\<lambda>remaining.
                       for_each remaining (leave_remaining sv c))
                     else ret ()) (\<lambda>_.
            andthen (exec (UpdateCallStatus i ''ended'')) (\<lambda>c.
            andthen (calls_meterVideoCall sv c) (\<lambda>_.
            andthen (calls_publish sv ''call.end'' c uid) (\<lambda>_. ret c))))
       else ret c) (\<lambda>_. ok) (\<lambda>_. ok)" if "c_id c = i" for n
    by (intro triple_if triple_andthen [OF triple_pre [OF _ empty_call_triple [OF that]] finish_call_triple] triple_ret)
       auto
  show ?case
  proof (rule triple_learn [where b = "c_id c = i"], goal_cases)
    case (1 d)
    then show ?case by simp
  next
    case i: 2
    show ?case
      by (rule triple_pre [where R = ok], simp)
       (rule tail [OF i] triple_if triple_ret triple_attempt [OF read] triple_attempt [OF mark] triple_fail
          triple_andthen [OF keeps_tables [OF publish_leaves]] triple_andthen [OF count] | assumption)+
  qed
qed

end

end
