(* ===== verification/Call_Properties.thy ===== *)
theory Call_Properties
  imports Call_Lifecycle
begin

text \<open>
  The calls service as \<open>main.go\<close> wires it: the contract of its interfaces holds for the services it
  is given, and the properties of calls rest on that interpretation.
\<close>

interpretation wired_calls: calls_deps "calls_wired n" for n
proof
  show "leaves call_tables (ca_access (calls_wired n) ws ch uid)" for ws ch uid
    by (simp add: calls_wired_def reader_leaves [OF reader_AssertChannelMember])
next
  fix b ws m
  have same: "sans_metering d = sans_metering d' \<Longrightarrow> call_tables d = call_tables d'" for d d'
    by (simp add: call_tables_def sans_metering_cong [of d d'])
  assume b: "ca_billing (calls_wired n) = Some b"
  show "leaves call_tables (CheckCanStartVideoCall b ws)"
    using b by (auto simp: calls_wired_def intro: leaves_fun [OF metering_leaves(3) same])
  show "leaves call_tables (MaxCallParticipantsForWorkspace b ws)"
    using b by (auto simp: calls_wired_def intro: leaves_fun [OF metering_leaves(4) same])
  show "leaves call_tables (RecordVideoMinutesByWorkspaceID b ws m)"
    using b by (auto simp: calls_wired_def intro: leaves_fun [OF metering_leaves(5) same])
next
  fix f ws ch call initiator target name
  have same: "sans_notifications d = sans_notifications d' \<Longrightarrow> call_tables d = call_tables d'" for d d'
    by (simp add: call_tables_def sans_notifications_cong [of d d'])
  assume "ca_invites (calls_wired n) = Some f"
  then show "leaves call_tables (f ws ch call initiator target name)"
    by (auto simp: calls_wired_def intro: leaves_fun [OF wired_senders.NotifyCallInvite_leaves same])
qed

lemma wired_max [simp]: "ca_maxParticipants (calls_wired n) = n"
  by (simp add: calls_wired_def)

section \<open>Recordings\<close>

lemma reader_ValidateSignal [readers]:
  "reader (calls_ValidateSignal call uid)
     (\<lambda>d. case find (\<lambda>c. c_id c = call) (calls d) of
            None \<Rightarrow> Inl (ECalls Calls_NotFound)
          | Some c \<Rightarrow>
              if c_status c = ''ended'' then Inl (ECalls Calls_CallEnded)
              else if uid \<notin> seated d call then Inl (ECalls Calls_NotParticipant)
              else Inr \<lparr>sc_call = c_id c, sc_workspace = c_workspace_id c, sc_channel = c_channel_id c,
                        sc_user = uid, sc_mode = c_mode c\<rparr>)"
proof -
  have none: "uid \<notin> seated d call \<longleftrightarrow>
      find (\<lambda>p. active_in call p \<and> p_user_id p = uid) (call_participants d) = None" for d
    by (auto simp: seated_iff find_None_iff)
  show ?thesis
    unfolding calls_ValidateSignal_def none
    by (rule reader_cong, (rule readers | simp add: no_rows_as_def)+)
       (auto simp: no_rows_as_def split: option.splits)
qed

lemma StartRecording_ok: "preserves (calls_ok n) (calls_StartRecording call uid md)"
  unfolding calls_StartRecording_def
  by (intro preserve CreateCallRecording_preserves reader_preserves [OF reader_ValidateSignal]
      reader_preserves [OF reader_GetActiveCallRecording])

lemma StopRecording_ok: "preserves (calls_ok n) (calls_StopRecording call uid i)"
  unfolding calls_StopRecording_def
  by (intro preserve EndCallRecording_preserves reader_preserves [OF reader_ValidateSignal])

section \<open>Leaving in a quiet world\<close>

lemma distinct_seats:
  assumes "distinct (map (\<lambda>p. (p_call_id p, p_user_id p)) (filter (\<lambda>p. p_left_at p = None) ps))"
  shows "distinct (map p_user_id (filter (active_in i) ps))"
proof -
  let ?act = "filter (\<lambda>p. p_left_at p = None) ps"
  have eq: "filter (active_in i) ps = filter (\<lambda>p. p_call_id p = i) ?act"
    by (auto simp: active_in_def intro: filter_cong)
  have dist: "distinct ?act" and inj: "inj_on (\<lambda>p. (p_call_id p, p_user_id p)) (set ?act)"
    using assms by (simp_all add: distinct_map)
  have "distinct (filter (active_in i) ps)" unfolding eq using dist by (rule distinct_filter)
  moreover have "inj_on p_user_id (set (filter (active_in i) ps))"
    using inj by (auto simp: inj_on_def active_in_def)
  ultimately show ?thesis by (simp add: distinct_map)
qed

lemma count_seated:
  assumes "calls_ok n d"
  shows "count_rows (active_in i) (call_participants d) = int (card (seated d i))"
proof -
  have "distinct (map p_user_id (filter (active_in i) (call_participants d)))"
    using assms by (intro distinct_seats) (simp add: calls_ok_def seats_ok_def)
  then have "card (set (map p_user_id (filter (active_in i) (call_participants d)))) =
      length (filter (active_in i) (call_participants d))"
    by (metis distinct_card length_map)
  then show ?thesis by (simp add: count_rows_def seated_def)
qed

definition with_left :: "int \<Rightarrow> int \<Rightarrow> int \<Rightarrow> db \<Rightarrow> db" where
  "with_left call uid t = call_participants_update (update_where (\<lambda>p. active_in call p \<and> p_user_id p = uid)
     (\<lambda>p. p\<lparr>p_left_at := Some t\<rparr>))"

lemma with_left_tables [simp]: "calls (with_left call uid t d) = calls d"
  by (simp add: with_left_def)

lemma with_left_ok: "calls_ok n d \<Longrightarrow> calls_ok n (with_left call uid t d)"
  by (simp add: calls_ok_def with_left_def seats_ok_leave)

lemma with_left_seated: "seated (with_left call uid t d) call = seated d call - {uid}"
proof -
  have "active_in call p \<and> p_user_id p = uid \<Longrightarrow> \<not> active_in call (p\<lparr>p_left_at := Some t\<rparr>)" for p
    by (simp add: active_in_def)
  then show ?thesis
    unfolding seated_def with_left_def by (auto simp: set_update_where image_iff)
qed

lemma MarkCallParticipantLeft_quiet:
  "tape s = [] \<Longrightarrow> uid \<in> seated (db s) call \<Longrightarrow>
    \<exists>p. exec (MarkCallParticipantLeft call uid) s = (Inr p, s\<lparr>db := with_left call uid (now s) (db s)\<rparr>)"
  by (cases "find (\<lambda>p. active_in call p \<and> p_user_id p = uid) (call_participants (db s))")
     (auto simp: MarkCallParticipantLeft_def exec_update_one_quiet with_left_def seated_iff find_None_iff)

lemma mark_left_or_gone_quiet:
  assumes "tape s = []"
  shows "mark_left_or_gone call uid s = (Inr (), s\<lparr>db := with_left call uid (now s) (db s)\<rparr>)"
proof (cases "uid \<in> seated (db s) call")
  case True
  then obtain p where "exec (MarkCallParticipantLeft call uid) s =
      (Inr p, s\<lparr>db := with_left call uid (now s) (db s)\<rparr>)"
    using MarkCallParticipantLeft_quiet [OF assms] by blast
  then show ?thesis by (simp add: mark_left_or_gone_def attempt_def ret_def)
next
  case False
  then have "find (\<lambda>p. active_in call p \<and> p_user_id p = uid) (call_participants (db s)) = None"
    by (auto simp: seated_iff find_None_iff)
  moreover have "with_left call uid (now s) (db s) = db s"
  proof -
    have "update_where (\<lambda>p. active_in call p \<and> p_user_id p = uid) (\<lambda>p. p\<lparr>p_left_at := Some (now s)\<rparr>)
        (call_participants (db s)) = call_participants (db s)"
      using False by (intro update_where_none) (auto simp: seated_iff)
    then show ?thesis by (cases "db s") (simp add: with_left_def)
  qed
  ultimately show ?thesis
    using assms by (simp add: mark_left_or_gone_def attempt_def ret_def MarkCallParticipantLeft_def
        exec_update_one_quiet)
qed

lemma find_call:
  assumes "calls_ok n d" and "c \<in> set (calls d)"
  shows "find (\<lambda>x. c_id x = c_id c) (calls d) = Some c"
  by (rule find_distinct_key) (use assms in \<open>auto simp: calls_ok_def call_rows_ok_def\<close>)

lemma UpdateCallStatus_quiet:
  assumes "tape s = []" and "c \<in> set (calls (db s))" and "calls_ok n (db s)"
  shows "exec (UpdateCallStatus (c_id c) ''ended'') s =
    (Inr (c\<lparr>c_status := ''ended'', c_ended_at := Some (now s)\<rparr>),
     s\<lparr>db := calls_update (set_status (c_id c) ''ended'' (now s)) (db s)\<rparr>)"
  using assms find_call [OF assms(3,2)]
  by (simp add: UpdateCallStatus_def exec_quiet guarded_def update_one_def set_status_def)

text \<open>The tail of \<open>LeaveCall\<close>: with at most one user left, everybody is out and the call ends.\<close>

lemma billing_part_total:
  "never_fails (calls_meterVideoCall (calls_wired n) c)" "keeps_quiet (calls_meterVideoCall (calls_wired n) c)"
  "never_fails (calls_publish (calls_wired n) event c uid)" "keeps_quiet (calls_publish (calls_wired n) event c uid)"
  unfolding calls_meterVideoCall_def calls_publish_def calls_wired_def CountAllCallParticipants_def
  by (auto simp: Let_def intro!: total calm)

lemma publish_quiet:
  "\<exists>s'. calls_publish (calls_wired n) event c uid s = (Inr (), s') \<and> db s' = db s \<and> tape s' = tape s \<and> now s' = now s"
  by (simp add: calls_publish_def calls_wired_def emit_def)

lemma empty_out_quiet:
  assumes "tape s = []" and ok: "calls_ok n (db s)"
    and count: "count_rows (active_in (c_id c)) (call_participants (db s)) \<le> 1"
  shows "\<exists>s'. (if count_rows (active_in (c_id c)) (call_participants (db s)) = 1
      then andthen (exec (ListActiveCallParticipants (c_id c))) (\<lambda>remaining.
           for_each remaining (leave_remaining (calls_wired n) c)) else ret ()) s = (Inr (), s') \<and>
    tape s' = [] \<and> now s' = now s \<and> calls (db s') = calls (db s) \<and> seated (db s') (c_id c) = {} \<and>
    calls_ok n (db s')"
proof (cases "count_rows (active_in (c_id c)) (call_participants (db s)) = 1")
  case True
  let ?ps = "order_asc p_joined_at (filter (active_in (c_id c)) (call_participants (db s)))"
  have "length ?ps = 1" using True by (simp add: count_rows_def order_asc_def)
  then obtain p where ps: "?ps = [p]" by (auto simp: length_Suc_conv)
  obtain s1 where s1: "s1 = s\<lparr>db := with_left (c_id c) (p_user_id p) (now s) (db s)\<rparr>" by simp
  obtain s2 where s2: "calls_publish (calls_wired n) ''call.leave'' c (p_user_id p) s1 = (Inr (), s2)"
      "db s2 = db s1" "tape s2 = tape s1" "now s2 = now s1"
    using publish_quiet by blast
  have "seated (db s) (c_id c) \<subseteq> {p_user_id p}"
    using wired_calls.solo_seat [of p_joined_at "c_id c" "call_participants (db s)" "p_user_id p" "db s"] ps by simp
  then have "seated (db s1) (c_id c) = {}" by (auto simp: s1 with_left_seated)
  moreover have "exec (ListActiveCallParticipants (c_id c)) s = (Inr ?ps, s)"
    using reader_quiet [OF call_readers(5) assms(1)] by simp
  ultimately show ?thesis
    using True ps s2 mark_left_or_gone_quiet [OF assms(1), of "c_id c" "p_user_id p"] with_left_ok [OF ok] assms(1)
    by (simp add: andthen_def attempt_def leave_remaining_def s1 ret_def)
next
  case False
  then have "count_rows (active_in (c_id c)) (call_participants (db s)) = 0"
    using count count_rows_nonneg [of "active_in (c_id c)" "call_participants (db s)"] by linarith
  then show ?thesis using False assms by (simp add: ret_def seated_empty)
qed

lemma end_quiet:
  assumes "tape s = []" and "calls_ok n (db s)" and "c \<in> set (calls (db s))" and "seated (db s) (c_id c) = {}"
  shows "\<exists>c' s'. andthen (exec (UpdateCallStatus (c_id c) ''ended'')) (\<lambda>c.
      andthen (calls_meterVideoCall (calls_wired n) c) (\<lambda>_.
      andthen (calls_publish (calls_wired n) ''call.end'' c uid) (\<lambda>_. ret c))) s = (Inr c', s') \<and>
    c_status c' = ''ended'' \<and> tape s' = [] \<and> now s' = now s \<and> calls_ok n (db s') \<and>
    seated (db s') (c_id c) = {} \<and> \<not> live_call (db s') (c_id c)"
proof -
  define c' where "c' = c\<lparr>c_status := ''ended'', c_ended_at := Some (now s)\<rparr>"
  define s1 where "s1 = s\<lparr>db := calls_update (set_status (c_id c) ''ended'' (now s)) (db s)\<rparr>"
  have run1: "exec (UpdateCallStatus (c_id c) ''ended'') s = (Inr c', s1)"
    using UpdateCallStatus_quiet [OF assms(1,3,2)] by (simp add: c'_def s1_def)
  obtain s2 where run2: "calls_meterVideoCall (calls_wired n) c' s1 = (Inr (), s2)"
    using billing_part_total(1) [of n c', unfolded never_fails_def, rule_format, of s1] by auto
  have t2: "tape s2 = [] \<and> now s2 = now s"
    using keeps_quiet_run [OF billing_part_total(2) run2] assms(1) by (simp add: s1_def)
  have tables: "call_tables (db s2) = call_tables (db s1)"
    using leaves_run [OF wired_calls.meter_leaves run2] .
  obtain s3 where run3: "calls_publish (calls_wired n) ''call.end'' c' uid s2 = (Inr (), s3)"
      "db s3 = db s2" "tape s3 = tape s2" "now s3 = now s2" using publish_quiet by blast
  have run: "andthen (exec (UpdateCallStatus (c_id c) ''ended'')) (\<lambda>c.
      andthen (calls_meterVideoCall (calls_wired n) c) (\<lambda>_.
      andthen (calls_publish (calls_wired n) ''call.end'' c uid) (\<lambda>_. ret c))) s = (Inr c', s3)"
    using run1 run2 run3 by (simp add: andthen_def attempt_def ret_def)
  have ok: "calls_ok n (db s3)"
    using triple_Inr [OF wired_calls.finish_call_triple, unfolded wired_max, OF run] assms by simp
  have "seated (db s1) (c_id c) = {}" using assms(4) by (simp add: s1_def seated_def)
  moreover have "\<not> live_call (db s1) (c_id c)"
    by (auto simp: live_call_def s1_def set_status_def set_update_where live_def)
  ultimately show ?thesis
    using run ok t2 run3 call_tables_cong [OF tables] by (auto simp: c'_def)
qed

text \<open>What \<open>LeaveCall\<close> does for a user who sits in a live call.\<close>

lemma LeaveCall_quiet:
  assumes quiet: "tape s = []" and ok: "calls_ok n (db s)" and c: "c \<in> set (calls (db s))" and live: "live c"
    and seat: "uid \<in> seated (db s) (c_id c)"
  shows "\<exists>c' s'. calls_LeaveCall (calls_wired n) (c_id c) uid s = (Inr c', s') \<and> tape s' = [] \<and>
    calls_ok n (db s') \<and>
    (if card (seated (db s) (c_id c)) \<le> 2
     then c_status c' = ''ended'' \<and> \<not> live_call (db s') (c_id c) \<and> seated (db s') (c_id c) = {}
     else c' = c \<and> c \<in> set (calls (db s')) \<and> seated (db s') (c_id c) = seated (db s) (c_id c) - {uid})"
proof -
  let ?i = "c_id c"
  define s1 where "s1 = s\<lparr>db := with_left ?i uid (now s) (db s)\<rparr>"
  have get: "exec (GetCallByID ?i) s = (Inr c, s)"
    using reader_quiet [OF call_readers(1) quiet] find_call [OF ok c] by simp
  obtain p0 where "find (\<lambda>p. active_in ?i p \<and> p_user_id p = uid) (call_participants (db s)) = Some p0"
    using seat unfolding seated_iff by (auto dest: find_Some_ex [where p = "\<lambda>p. active_in ?i p \<and> p_user_id p = uid"])
  then have part: "exec (GetActiveCallParticipant ?i uid) s = (Inr p0, s)"
    using reader_quiet [OF call_readers(2) quiet] by simp
  obtain p where mark: "exec (MarkCallParticipantLeft ?i uid) s = (Inr p, s1)"
    using MarkCallParticipantLeft_quiet [OF quiet seat] by (auto simp: s1_def)
  obtain s2 where pub: "calls_publish (calls_wired n) ''call.leave'' c uid s1 = (Inr (), s2)"
      "db s2 = db s1" "tape s2 = tape s1" "now s2 = now s1" using publish_quiet by blast
  have q2: "tape s2 = []" and ok2: "calls_ok n (db s2)" and c2: "c \<in> set (calls (db s2))"
    using pub quiet with_left_ok [OF ok] c by (simp_all add: s1_def)
  have seats2: "seated (db s2) ?i = seated (db s) ?i - {uid}" by (simp add: pub s1_def with_left_seated)
  let ?count = "count_rows (active_in ?i) (call_participants (db s2))"
  have fin: "finite (seated (db s) ?i)" by (simp add: seated_def)
  have count: "?count \<le> 1 \<longleftrightarrow> card (seated (db s) ?i) \<le> 2"
  proof -
    have "card (seated (db s2) ?i) = card (seated (db s) ?i) - 1"
      unfolding seats2 using card_Diff_singleton [OF seat] by simp
    moreover have "0 < card (seated (db s) ?i)" using fin seat card_gt_0_iff by blast
    ultimately show ?thesis unfolding count_seated [OF ok2] by linarith
  qed
  have cnt: "exec (CountActiveCallParticipants ?i) s2 = (Inr ?count, s2)"
    using reader_quiet [OF call_readers(3) q2] by simp
  note steps = get part mark pub(1) cnt
  show ?thesis
  proof (cases "?count \<le> 1")
    case True
    obtain s3 where s3: "(if ?count = 1
        then andthen (exec (ListActiveCallParticipants ?i)) (\<lambda>remaining.
             for_each remaining (leave_remaining (calls_wired n) c)) else ret ()) s2 = (Inr (), s3)"
        "tape s3 = []" "calls (db s3) = calls (db s2)" "seated (db s3) ?i = {}" "calls_ok n (db s3)"
      using empty_out_quiet [OF q2 ok2 True] by blast
    obtain c' s4 where s4: "andthen (exec (UpdateCallStatus ?i ''ended'')) (\<lambda>c.
        andthen (calls_meterVideoCall (calls_wired n) c) (\<lambda>_.
        andthen (calls_publish (calls_wired n) ''call.end'' c uid) (\<lambda>_. ret c))) s3 = (Inr c', s4)"
        "c_status c' = ''ended''" "tape s4 = []" "calls_ok n (db s4)" "seated (db s4) ?i = {}"
        "\<not> live_call (db s4) ?i"
      using end_quiet [OF s3(2,5) _ s3(4)] c2 s3(3) by metis
    have "calls_LeaveCall (calls_wired n) ?i uid s = (Inr c', s4)"
      unfolding calls_LeaveCall_def attempt_def [of "exec (GetCallByID ?i)"]
      using steps True s3(1) s4(1) live_not_ended [OF live]
      by (simp add: andthen_def attempt_def)
    then show ?thesis using s4 count True by auto
  next
    case False
    have "calls_LeaveCall (calls_wired n) ?i uid s = (Inr c, s2)"
      unfolding calls_LeaveCall_def
      using steps False live_not_ended [OF live] by (simp add: andthen_def attempt_def ret_def)
    then show ?thesis using q2 ok2 c2 seats2 count False by auto
  qed
qed

text \<open>One step of any user: who leaves is out, and a call nobody is left in has ended.\<close>

definition occupied :: "db \<Rightarrow> int \<Rightarrow> bool" where
  "occupied d i \<longleftrightarrow> (live_call d i \<longrightarrow> seated d i \<noteq> {})"

lemma seated_live: "calls_ok n d \<Longrightarrow> uid \<in> seated d i \<Longrightarrow> live_call d i"
  by (fastforce simp: calls_ok_def seats_ok_def seated_def active_in_def live_call_def)

lemma LeaveCall_step:
  assumes quiet: "tape s = []" and ok: "calls_ok n (db s)" and occ: "occupied (db s) i"
  shows "\<exists>r s'. calls_LeaveCall (calls_wired n) i u s = (r, s') \<and> tape s' = [] \<and> calls_ok n (db s') \<and>
    occupied (db s') i \<and> seated (db s') i \<subseteq> seated (db s) i - {u}"
proof (cases "u \<in> seated (db s) i")
  case True
  then obtain c where c: "c \<in> set (calls (db s))" "c_id c = i" "live c"
    using seated_live [OF ok True] unfolding live_call_def by blast
  obtain c' s' where run: "calls_LeaveCall (calls_wired n) i u s = (Inr c', s')" "tape s' = []" "calls_ok n (db s')"
      and post: "if card (seated (db s) i) \<le> 2
        then c_status c' = ''ended'' \<and> \<not> live_call (db s') i \<and> seated (db s') i = {}
        else c' = c \<and> c \<in> set (calls (db s')) \<and> seated (db s') i = seated (db s) i - {u}"
    using LeaveCall_quiet [OF quiet ok c(1,3)] True unfolding c(2) by blast
  have "seated (db s) i - {u} \<noteq> {}" if "\<not> card (seated (db s) i) \<le> 2"
  proof
    assume "seated (db s) i - {u} = {}"
    then have "seated (db s) i \<subseteq> {u}" by blast
    then have "card (seated (db s) i) \<le> 1" using card_mono [of "{u}"] by fastforce
    then show False using that by simp
  qed
  then have "occupied (db s') i" "seated (db s') i \<subseteq> seated (db s) i - {u}"
    using post by (auto simp: occupied_def split: if_splits)
  then show ?thesis using run by blast
next
  case False
  have part: "exec (GetActiveCallParticipant i u) s = (Inl ENoRows, s)"
  proof -
    have "find (\<lambda>p. active_in i p \<and> p_user_id p = u) (call_participants (db s)) = None"
      using False unfolding seated_iff find_None_iff by blast
    then show ?thesis using reader_quiet [OF call_readers(2) quiet, of i u] by simp
  qed
  have "snd (calls_LeaveCall (calls_wired n) i u s) = s"
  proof (cases "find (\<lambda>c. c_id c = i) (calls (db s))")
    case None
    then have "exec (GetCallByID i) s = (Inl ENoRows, s)" using reader_quiet [OF call_readers(1) quiet] by simp
    then show ?thesis by (simp add: calls_LeaveCall_def attempt_def fail_def)
  next
    case (Some c)
    then have "exec (GetCallByID i) s = (Inr c, s)" using reader_quiet [OF call_readers(1) quiet] by simp
    then show ?thesis using part by (simp add: calls_LeaveCall_def attempt_def fail_def ret_def)
  qed
  then have "calls_LeaveCall (calls_wired n) i u s = (fst (calls_LeaveCall (calls_wired n) i u s), s)"
    by (metis prod.collapse)
  then show ?thesis using quiet ok occ False by (intro exI conjI) (assumption | simp)+
qed

lemma leave_all_quiet:
  assumes "tape s = []" and "calls_ok n (db s)" and "occupied (db s) i"
  shows "\<exists>s'. for_each us (\<lambda>u. ignoring (calls_LeaveCall (calls_wired n) i u)) s = (Inr (), s') \<and>
    occupied (db s') i \<and> seated (db s') i \<subseteq> seated (db s) i - set us"
  using assms
proof (induction us arbitrary: s)
  case Nil
  then show ?case by (auto simp: ret_def)
next
  case (Cons u us)
  obtain r s1 where s1: "calls_LeaveCall (calls_wired n) i u s = (r, s1)" "tape s1 = []" "calls_ok n (db s1)"
      "occupied (db s1) i" "seated (db s1) i \<subseteq> seated (db s) i - {u}"
    using LeaveCall_step [OF Cons.prems] by blast
  obtain s2 where s2: "for_each us (\<lambda>u. ignoring (calls_LeaveCall (calls_wired n) i u)) s1 = (Inr (), s2)"
      "occupied (db s2) i" "seated (db s2) i \<subseteq> seated (db s1) i - set us"
    using Cons.IH [OF s1(2-4)] by blast
  show ?case
  proof (intro exI conjI)
    show "for_each (u # us) (\<lambda>u. ignoring (calls_LeaveCall (calls_wired n) i u)) s = (Inr (), s2)"
      using s1(1) s2(1) by (simp add: andthen_ignoring)
  qed (use s1 s2 in auto)
qed

section \<open>Properties\<close>

definition sample_call :: call_row where
  "sample_call = \<lparr>c_id = 50, c_channel_id = 10, c_workspace_id = 1, c_initiator_id = 1,
     c_status = ''active'', c_created_at = 0, c_ended_at = None, c_mode = ''video''\<rparr>"

definition sample_in_call :: world where
  "sample_in_call = sample\<lparr>db := sample_db\<lparr>calls := [sample_call], call_participants :=
     [\<lparr>p_id = 1, p_call_id = 50, p_user_id = 1, p_joined_at = 0, p_left_at = None\<rparr>,
      \<lparr>p_id = 2, p_call_id = 50, p_user_id = 2, p_joined_at = 5, p_left_at = None\<rparr>]\<rparr>\<rparr>"

lemma sample_in_call_facts:
  "tape sample_in_call = []" "calls_ok 8 (db sample_in_call)" "sample_call \<in> set (calls (db sample_in_call))"
  "live sample_call" "c_id sample_call = 50" "seated (db sample_in_call) 50 = {1, 2}" "live_call (db sample_in_call) 50"
proof -
  have "count_rows (active_in i) (call_participants (db sample_in_call)) \<le> 8" for i
    by (simp add: sample_in_call_def count_rows_def active_in_def)
  then show "calls_ok 8 (db sample_in_call)"
    by (simp add: calls_ok_def call_rows_ok_def seats_ok_def recordings_ok_def sample_in_call_def
        sample_call_def sample_db_def empty_db_def live_def)
  have "seated (db sample_in_call) 50 = p_user_id ` set (filter (active_in 50) (call_participants (db sample_in_call)))"
    by (simp add: seated_def)
  then show "seated (db sample_in_call) 50 = {1, 2}" by (simp add: sample_in_call_def active_in_def)
qed (auto simp: sample_in_call_def sample_call_def live_def live_call_def)

text \<open>C9: the call tables stay consistent. Whatever the statements meet, starting, joining and
leaving calls and starting and stopping recordings keep: call ids unique, at most one live call per
channel, a status that agrees with the end time, at most one seat per user and call, no seat in a
call that has ended, no more seats than the limit of the service, and at most one running recording
per call.\<close>

theorem calls_invariant:
  "preserves (calls_ok n) (calls_InitiateCall (calls_wired n) ws ch uid mode) \<and>
   preserves (calls_ok n) (calls_JoinCall (calls_wired n) call uid) \<and>
   preserves (calls_ok n) (calls_LeaveCall (calls_wired n) call uid) \<and>
   preserves (calls_ok n) (calls_StartRecording call uid md) \<and>
   preserves (calls_ok n) (calls_StopRecording call uid rec)"
  using wired_calls.InitiateCall_ok [of n] wired_calls.JoinCall_ok [of n] wired_calls.LeaveCall_ok [of n]
    StartRecording_ok StopRecording_ok by simp

text \<open>leaving a call. In a quiet world a user who sits in a live call always leaves it; when at
most one other user was there the call ends and nobody stays in it, and otherwise the call goes on
unchanged with exactly the others.\<close>

theorem LeaveCall_exact:
  assumes "tape s = []" and "calls_ok n (db s)" and "c \<in> set (calls (db s))" and "live c"
    and "uid \<in> seated (db s) (c_id c)"
  shows "\<exists>c' s'. calls_LeaveCall (calls_wired n) (c_id c) uid s = (Inr c', s') \<and> tape s' = [] \<and>
    calls_ok n (db s') \<and>
    (if card (seated (db s) (c_id c)) \<le> 2
     then c_status c' = ''ended'' \<and> \<not> live_call (db s') (c_id c) \<and> seated (db s') (c_id c) = {}
     else c' = c \<and> c \<in> set (calls (db s')) \<and> seated (db s') (c_id c) = seated (db s) (c_id c) - {uid})"
  by (rule LeaveCall_quiet [OF assms])

theorem LeaveCall_exact_witness:
  "\<exists>c' s'. calls_LeaveCall (calls_wired 8) 50 2 sample_in_call = (Inr c', s') \<and>
     c_status c' = ''ended'' \<and> seated (db s') 50 = {}"
  using LeaveCall_exact [of sample_in_call 8 sample_call 2] sample_in_call_facts by auto

text \<open>C35: a call ends when its users leave. In a quiet world, once everybody who sits in an occupied
call has left it, in any order and whoever else tries to, the call is no longer live and nobody sits in
it.\<close>

theorem leaving_ends_the_call:
  assumes "tape s = []" and "calls_ok n (db s)" and "seated (db s) i \<noteq> {}" and "seated (db s) i \<subseteq> set us"
  shows "\<exists>s'. for_each us (\<lambda>u. ignoring (calls_LeaveCall (calls_wired n) i u)) s = (Inr (), s') \<and>
    \<not> live_call (db s') i \<and> seated (db s') i = {}"
proof -
  have "occupied (db s) i" using assms(3) by (simp add: occupied_def)
  then obtain s' where s': "for_each us (\<lambda>u. ignoring (calls_LeaveCall (calls_wired n) i u)) s = (Inr (), s')"
      "occupied (db s') i" "seated (db s') i \<subseteq> seated (db s) i - set us"
    using leave_all_quiet [OF assms(1,2)] by blast
  then have "seated (db s') i = {}" using assms(4) by blast
  then show ?thesis using s' by (auto simp: occupied_def)
qed

theorem leaving_ends_the_call_witness:
  "\<exists>s'. for_each [2, 3, 1] (\<lambda>u. ignoring (calls_LeaveCall (calls_wired 8) 50 u)) sample_in_call = (Inr (), s') \<and>
     \<not> live_call (db s') 50 \<and> seated (db s') 50 = {}"
  by (rule leaving_ends_the_call [of sample_in_call 8 50 "[2, 3, 1]"]) (auto simp: sample_in_call_facts)

text \<open>the minutes billed for a video call of \<open>us\<close> microseconds. They are at least one, they
exceed the duration by less than a minute, and they may fall short of it by at most a second: a
call of one minute and half a second is billed one minute, where the comment in the code promises
the ceiling.\<close>

theorem call_minutes_bounds:
  assumes "0 < us"
  shows "1 \<le> call_minutes us \<and> 60000000 * (call_minutes us - 1) < us \<and>
    us \<le> 60000000 * call_minutes us + 1000000"
proof -
  define q where "q = (us + 59000000) div 60000000"
  have "us + 59000000 = 60000000 * q + (us + 59000000) mod 60000000"
    unfolding q_def by (rule mult_div_mod_eq [symmetric])
  moreover have "0 \<le> (us + 59000000) mod 60000000" "(us + 59000000) mod 60000000 < 60000000" by simp_all
  ultimately have "60000000 * q \<le> us + 59000000" "us + 59000000 < 60000000 * q + 60000000" by linarith+
  then show ?thesis using assms by (auto simp: call_minutes_def Let_def q_def [symmetric])
qed

theorem call_minutes_bounds_witness:
  "call_minutes 60500000 = 1 \<and> 60000000 * (call_minutes 60500000 - 1) < 60500000"
  using call_minutes_bounds [of 60500000] by (simp add: call_minutes_def)

text \<open>a failed start can block a channel. When the statement that seats the caller of a new
call is refused, the caller gets an error, but the call stays behind, live and empty: neither the
caller nor anybody else can start a call in the channel, and the caller cannot leave it.\<close>

theorem InitiateCall_strands:
  "let (r, s1) = calls_InitiateCall (calls_wired 8) 1 10 1 ''voice''
         (sample\<lparr>tape := replicate 8 (Done, 0) @ [(Refused, 0)]\<rparr>);
       c = hd (calls (db s1))
   in r = Inl EConn \<and> live c \<and> c_channel_id c = 10 \<and> call_participants (db s1) = [] \<and>
      fst (calls_InitiateCall (calls_wired 8) 1 10 1 ''voice'' s1) = Inl (ECalls Calls_CallAlreadyActive) \<and>
      fst (calls_InitiateCall (calls_wired 8) 1 10 2 ''voice'' s1) = Inl (ECalls Calls_CallAlreadyActive) \<and>
      fst (calls_LeaveCall (calls_wired 8) (c_id c) 1 s1) = Inl (ECalls Calls_NotParticipant)"
  by code_simp

end
