(* ===== verification/Presence.thy ===== *)
theory Presence
  imports Db_Workspaces "HOL-Library.Multiset"
begin

text \<open>
  \<open>internal/presence\<close>: who is connected. \<open>store.go\<close> declares the interface of a presence store, which
  \<open>Presence_Memory\<close> and \<open>Presence_Redis\<close> implement; \<open>service.go\<close> uses it and tells the hub when a user comes
  online or goes offline. The locale \<open>presence_model\<close> is the contract of a store: it represents a
  multiset of open connections (user, workspace, channel).
\<close>

section \<open>Types\<close>

record user_presence =
  up_user_id :: int
  up_status :: string
  up_connection_count :: int
  up_last_seen :: "int option"  \<comment> \<open>None is Go's zero time\<close>

record connect_result =
  BecameOnline :: bool
  ConnectCount :: int

record disconnect_result =
  BecameOffline :: bool
  DisconnectCount :: int

definition ValidStatus :: "string \<Rightarrow> bool" where
  "ValidStatus status \<longleftrightarrow> status \<in> {''online'', ''away'', ''offline''}"

text \<open>The \<open>Store\<close> interface: each operation gets the time at which it runs.\<close>

record 's presence_store =
  ps_Connect :: "int \<Rightarrow> int \<Rightarrow> int \<Rightarrow> int \<Rightarrow> 's \<Rightarrow> (goerr + connect_result) \<times> 's"
  ps_Disconnect :: "int \<Rightarrow> int \<Rightarrow> int \<Rightarrow> int \<Rightarrow> 's \<Rightarrow> (goerr + disconnect_result) \<times> 's"
  ps_Touch :: "int \<Rightarrow> int \<Rightarrow> 's \<Rightarrow> (goerr + unit) \<times> 's"
  ps_SetStatus :: "int \<Rightarrow> int \<Rightarrow> string \<Rightarrow> 's \<Rightarrow> (goerr + user_presence) \<times> 's"
  ps_Get :: "int \<Rightarrow> int \<Rightarrow> 's \<Rightarrow> (goerr + user_presence) \<times> 's"
  ps_ListOnline :: "int \<Rightarrow> 's \<Rightarrow> (goerr + user_presence list) \<times> 's"
  ps_ListWorkspaceOnlineUserIDs :: "int \<Rightarrow> int \<Rightarrow> 's \<Rightarrow> (goerr + int list) \<times> 's"
  ps_ActiveChannels :: "int \<Rightarrow> int \<Rightarrow> 's \<Rightarrow> (goerr + (int \<times> int) list) \<times> 's"

section \<open>The service\<close>

text \<open>
  The state of the service is that of its store and the events it handed to the hub
  (\<open>presence_bridge.go\<close>); \<open>bc\<close> tells whether a broadcaster is set.
\<close>

definition presence_Connect ::
  "'s presence_store \<Rightarrow> bool \<Rightarrow> int \<Rightarrow> int \<Rightarrow> int \<Rightarrow> int \<Rightarrow> 's \<times> effect list \<Rightarrow> (goerr + unit) \<times> 's \<times> effect list"
where
  "presence_Connect S bc t uid ws ch st =
     (case ps_Connect S t uid ws ch (fst st) of
        (Inl e, st') \<Rightarrow> (Inl e, st', snd st)
      | (Inr r, st') \<Rightarrow>
          (Inr (), st', if BecameOnline r \<and> bc
             then snd st @ [Publish ''presence.online'' ws ch [(''user_id'', VInt uid)]] else snd st))"

definition presence_Disconnect ::
  "'s presence_store \<Rightarrow> bool \<Rightarrow> int \<Rightarrow> int \<Rightarrow> int \<Rightarrow> int \<Rightarrow> 's \<times> effect list \<Rightarrow> (goerr + unit) \<times> 's \<times> effect list"
where
  "presence_Disconnect S bc t uid ws ch st =
     (case ps_Disconnect S t uid ws ch (fst st) of
        (Inl e, st') \<Rightarrow> (Inl e, st', snd st)
      | (Inr r, st') \<Rightarrow>
          (Inr (), st', if BecameOffline r \<and> bc
             then snd st @ [Publish ''presence.offline'' ws ch [(''user_id'', VInt uid)]] else snd st))"

definition presence_Touch ::
  "'s presence_store \<Rightarrow> int \<Rightarrow> int \<Rightarrow> 's \<times> effect list \<Rightarrow> (goerr + unit) \<times> 's \<times> effect list" where
  "presence_Touch S t uid st = (case ps_Touch S t uid (fst st) of (r, st') \<Rightarrow> (r, st', snd st))"

definition last_seen_value :: "int option \<Rightarrow> gov" where
  "last_seen_value ls = (case ls of None \<Rightarrow> VStr ''0001-01-01T00:00:00Z'' | Some t \<Rightarrow> VTime t)"

definition status_event :: "int \<Rightarrow> user_presence \<Rightarrow> int \<times> int \<Rightarrow> effect" where
  "status_event uid p ref =
     Publish ''presence.status'' (fst ref) (snd ref)
       [(''user_id'', VInt uid), (''status'', VStr (up_status p)),
        (''last_seen'', last_seen_value (up_last_seen p))]"

text \<open>An error of \<open>ActiveChannels\<close> is returned although the status is set.\<close>

definition presence_UpdateStatus ::
  "'s presence_store \<Rightarrow> bool \<Rightarrow> int \<Rightarrow> int \<Rightarrow> string \<Rightarrow> 's \<times> effect list \<Rightarrow>
    (goerr + user_presence) \<times> 's \<times> effect list"
where
  "presence_UpdateStatus S bc t uid status st =
     (if \<not> ValidStatus status then (Inl (EPresence Pres_InvalidStatus), st)
      else case ps_SetStatus S t uid status (fst st) of
        (Inl e, st1) \<Rightarrow> (Inl e, st1, snd st)
      | (Inr p, st1) \<Rightarrow>
          if \<not> bc then (Inr p, st1, snd st)
          else case ps_ActiveChannels S t uid st1 of
            (Inl e, st2) \<Rightarrow> (Inl e, st2, snd st)
          | (Inr refs, st2) \<Rightarrow> (Inr p, st2, snd st @ map (status_event uid p) refs))"

text \<open>The loop of \<open>ListWorkspacePresence\<close>: users whose lookup fails or who have no connection are skipped.\<close>

fun get_connected ::
  "'s presence_store \<Rightarrow> int \<Rightarrow> int list \<Rightarrow> 's \<Rightarrow> user_presence list \<times> 's" where
  "get_connected S t [] st = ([], st)"
| "get_connected S t (uid # uids) st =
     (case ps_Get S t uid st of (r, st1) \<Rightarrow>
      case get_connected S t uids st1 of (ps, st2) \<Rightarrow>
        (case r of Inl e \<Rightarrow> ps | Inr p \<Rightarrow> if up_connection_count p > 0 then p # ps else ps, st2))"

definition presence_ListWorkspacePresence ::
  "'s presence_store \<Rightarrow> int \<Rightarrow> int \<Rightarrow> int \<Rightarrow> world \<Rightarrow> 's \<Rightarrow> (goerr + user_presence list) \<times> world \<times> 's"
where
  "presence_ListWorkspacePresence S t ws requester s st =
     (case exec (IsWorkspaceMember ws requester) s of
        (Inl e, s1) \<Rightarrow> (Inl e, s1, st)
      | (Inr is_member, s1) \<Rightarrow>
          if \<not> is_member then (Inl (EPresence Pres_NotWorkspaceMember), s1, st)
          else case ps_ListWorkspaceOnlineUserIDs S t ws st of
            (Inl e, st1) \<Rightarrow> (Inl e, s1, st1)
          | (Inr uids, st1) \<Rightarrow> (case get_connected S t uids st1 of (ps, st2) \<Rightarrow> (Inr ps, s1, st2)))"

section \<open>The contract of a store\<close>

type_synonym connection = "int \<times> int \<times> int"

text \<open>The number of open connections of a user.\<close>

definition conns_of :: "int \<Rightarrow> connection multiset \<Rightarrow> nat" where
  "conns_of uid M = size (filter_mset (\<lambda>c. fst c = uid) M)"

lemma conns_of_add [simp]:
  "conns_of uid (add_mset c M) = (if fst c = uid then Suc (conns_of uid M) else conns_of uid M)"
  by (simp add: conns_of_def)

lemma conns_of_empty [simp]: "conns_of uid {#} = 0"
  by (simp add: conns_of_def)

lemma conns_of_remove:
  "c \<in># M \<Longrightarrow> conns_of uid (M - {#c#}) = (if fst c = uid then conns_of uid M - 1 else conns_of uid M)"
  by (auto simp: conns_of_def size_Diff_singleton)

lemma conns_of_pos: "0 < conns_of uid M \<longleftrightarrow> (\<exists>ws ch. (uid, ws, ch) \<in># M)"
proof
  assume "0 < conns_of uid M"
  then have "filter_mset (\<lambda>c. fst c = uid) M \<noteq> {#}" unfolding conns_of_def nonempty_has_size .
  then obtain c where "c \<in># filter_mset (\<lambda>c. fst c = uid) M" by (rule multiset_nonemptyE)
  then show "\<exists>ws ch. (uid, ws, ch) \<in># M" by (cases c) auto
next
  assume "\<exists>ws ch. (uid, ws, ch) \<in># M"
  then obtain ws ch where "(uid, ws, ch) \<in># filter_mset (\<lambda>c. fst c = uid) M" by auto
  then have "filter_mset (\<lambda>c. fst c = uid) M \<noteq> {#}" by auto
  then show "0 < conns_of uid M" unfolding conns_of_def nonempty_has_size .
qed

text \<open>
  \<open>rel st M\<close>: the store represents the connections \<open>M\<close>; \<open>fresh t st\<close>: nothing it holds has expired at
  time \<open>t\<close>; \<open>fits c\<close>: the identifiers of a connection are of a range that the store can hold. The laws speak of
  calls that succeed.
\<close>

locale presence_model =
  fixes S :: "'s presence_store"
    and rel :: "'s \<Rightarrow> connection multiset \<Rightarrow> bool"
    and fresh :: "int \<Rightarrow> 's \<Rightarrow> bool"
    and fits :: "connection \<Rightarrow> bool"
  assumes Connect: "rel st M \<Longrightarrow> fresh t st \<Longrightarrow> fits (uid, ws, ch) \<Longrightarrow> ps_Connect S t uid ws ch st = (Inr r, st') \<Longrightarrow>
      rel st' (add_mset (uid, ws, ch) M) \<and> (BecameOnline r \<longleftrightarrow> conns_of uid M = 0)"
    and Disconnect: "rel st M \<Longrightarrow> fresh t st \<Longrightarrow> (uid, ws, ch) \<in># M \<Longrightarrow>
      ps_Disconnect S t uid ws ch st = (Inr gone, st') \<Longrightarrow>
      rel st' (M - {#(uid, ws, ch)#}) \<and> (BecameOffline gone \<longleftrightarrow> conns_of uid M = 1)"
    and Touch: "rel st M \<Longrightarrow> fresh t st \<Longrightarrow> ps_Touch S t uid st = (Inr u, st') \<Longrightarrow> rel st' M"
    and SetStatus: "rel st M \<Longrightarrow> fresh t st \<Longrightarrow> ps_SetStatus S t uid status st = (Inr p, st') \<Longrightarrow>
      rel st' M \<and> fresh t st'"
    and ActiveChannels: "rel st M \<Longrightarrow> fresh t st \<Longrightarrow> ps_ActiveChannels S t uid st = (Inr refs, st') \<Longrightarrow>
      rel st' M \<and> set refs = {(ws, ch). (uid, ws, ch) \<in># M}"
    and Get: "rel st M \<Longrightarrow> fresh t st \<Longrightarrow> ps_Get S t uid st = (Inr p, st') \<Longrightarrow>
      rel st' M \<and> fresh t st' \<and> up_user_id p = uid \<and> up_connection_count p = int (conns_of uid M) \<and>
      (conns_of uid M = 0 \<longrightarrow> up_status p = ''offline'')"
    and ListOnline: "rel st M \<Longrightarrow> fresh t st \<Longrightarrow> ps_ListOnline S t st = (Inr ps, st') \<Longrightarrow>
      rel st' M \<and> up_user_id ` set ps = {uid. 0 < conns_of uid M}"
    and ListWorkspace: "rel st M \<Longrightarrow> fresh t st \<Longrightarrow>
      ps_ListWorkspaceOnlineUserIDs S t ws st = (Inr uids, st') \<Longrightarrow>
      rel st' M \<and> fresh t st' \<and> set uids = {uid. \<exists>ch. (uid, ws, ch) \<in># M}"

begin

text \<open>The service over the store: it keeps track of the connections, and it announces a user exactly
when the first connection opens and the last one closes.\<close>

lemma Connect_tracks:
  assumes "rel (fst st) M" and "fresh t (fst st)" and "fits (uid, ws, ch)"
    and "presence_Connect S bc t uid ws ch st = (Inr u, st')"
  shows "rel (fst st') (add_mset (uid, ws, ch) M) \<and>
    snd st' = (if conns_of uid M = 0 \<and> bc
      then snd st @ [Publish ''presence.online'' ws ch [(''user_id'', VInt uid)]] else snd st)"
proof (cases "ps_Connect S t uid ws ch (fst st)")
  case (Pair r st1)
  then show ?thesis using assms Connect [of "fst st" M t uid ws ch]
    by (cases r) (auto simp: presence_Connect_def)
qed

lemma Disconnect_tracks:
  assumes "rel (fst st) M" and "fresh t (fst st)" and "(uid, ws, ch) \<in># M"
    and "presence_Disconnect S bc t uid ws ch st = (Inr u, st')"
  shows "rel (fst st') (M - {#(uid, ws, ch)#}) \<and>
    snd st' = (if conns_of uid M = 1 \<and> bc
      then snd st @ [Publish ''presence.offline'' ws ch [(''user_id'', VInt uid)]] else snd st)"
proof (cases "ps_Disconnect S t uid ws ch (fst st)")
  case (Pair r st1)
  then show ?thesis using assms Disconnect [of "fst st" M t uid ws ch]
    by (cases r) (auto simp: presence_Disconnect_def)
qed

lemma Touch_tracks:
  assumes "rel (fst st) M" and "fresh t (fst st)" and "presence_Touch S t uid st = (Inr u, st')"
  shows "rel (fst st') M \<and> snd st' = snd st"
  using assms Touch [of "fst st" M t uid] by (auto simp: presence_Touch_def split: prod.splits)

lemma UpdateStatus_tracks:
  assumes "rel (fst st) M" and "fresh t (fst st)" and "presence_UpdateStatus S bc t uid status st = (Inr p, st')"
  shows "rel (fst st') M \<and> (\<exists>refs. snd st' = snd st @ map (status_event uid p) refs \<and>
    (bc \<longrightarrow> set refs = {(ws, ch). (uid, ws, ch) \<in># M}) \<and> (\<not> bc \<longrightarrow> refs = []))"
proof -
  have valid: "ValidStatus status" using assms(3) by (auto simp: presence_UpdateStatus_def split: if_splits)
  obtain r st1 where set: "ps_SetStatus S t uid status (fst st) = (r, st1)" by fastforce
  obtain p1 where r: "r = Inr p1"
    using assms(3) valid set by (cases r) (auto simp: presence_UpdateStatus_def)
  note rel1 = SetStatus [OF assms(1,2) set [unfolded r]]
  obtain r2 st2 where act: "ps_ActiveChannels S t uid st1 = (r2, st2)" by fastforce
  show ?thesis
  proof (cases bc)
    case True
    then obtain refs where "r2 = Inr refs" "p = p1" "st' = (st2, snd st @ map (status_event uid p1) refs)"
      using assms(3) valid set r act by (cases r2) (auto simp: presence_UpdateStatus_def)
    then show ?thesis using ActiveChannels [of st1 M t uid refs st2] rel1 act True by auto
  next
    case False
    then show ?thesis using assms(3) valid set r rel1 by (auto simp: presence_UpdateStatus_def)
  qed
qed

lemma get_connected_exact:
  assumes "rel st M" and "fresh t st" and "get_connected S t uids st = (ps, st')"
    and "\<And>uid st st' e. ps_Get S t uid st \<noteq> (Inl e, st')"
  shows "up_user_id ` set ps = {uid \<in> set uids. 0 < conns_of uid M}"
  using assms(1-3)
proof (induction uids arbitrary: st ps)
  case (Cons uid uids)
  obtain r st1 where get: "ps_Get S t uid st = (r, st1)" by fastforce
  then obtain p where r: "r = Inr p" using assms(4) by (cases r) auto
  note law = Get [OF Cons.prems(1,2) get [unfolded r]]
  obtain ps2 st2 where rest: "get_connected S t uids st1 = (ps2, st2)" by fastforce
  have ih: "up_user_id ` set ps2 = {uid \<in> set uids. 0 < conns_of uid M}"
    using Cons.IH [of st1 ps2] Cons.prems law rest get r by (auto split: prod.splits)
  have "ps = (if 0 < conns_of uid M then p # ps2 else ps2)"
    using Cons.prems(3) get r rest law by simp
  then have "up_user_id ` set ps = (if 0 < conns_of uid M then insert uid (up_user_id ` set ps2) else up_user_id ` set ps2)"
    using law by simp
  then show ?case unfolding ih by auto
qed simp

end

section \<open>Histories\<close>

datatype pevent =
    PConnect int int int | PDisconnect int int int | PTouch int | PStatus int string

fun pevent_step ::
  "'s presence_store \<Rightarrow> int \<times> pevent \<Rightarrow> 's \<times> effect list \<Rightarrow> bool \<times> 's \<times> effect list"
where
  "pevent_step S (t, PConnect uid ws ch) st =
     (case presence_Connect S True t uid ws ch st of (r, st') \<Rightarrow> (isl r, st'))"
| "pevent_step S (t, PDisconnect uid ws ch) st =
     (case presence_Disconnect S True t uid ws ch st of (r, st') \<Rightarrow> (isl r, st'))"
| "pevent_step S (t, PTouch uid) st = (case presence_Touch S t uid st of (r, st') \<Rightarrow> (isl r, st'))"
| "pevent_step S (t, PStatus uid status) st =
     (case presence_UpdateStatus S True t uid status st of (r, st') \<Rightarrow> (isl r \<and> ValidStatus status, st'))"

text \<open>A run stops at a store error; \<open>None\<close> when it does.\<close>

fun presence_run ::
  "'s presence_store \<Rightarrow> (int \<times> pevent) list \<Rightarrow> 's \<times> effect list \<Rightarrow> ('s \<times> effect list) option" where
  "presence_run S [] st = Some st"
| "presence_run S (ev # evs) st =
     (case pevent_step S ev st of (failed, st') \<Rightarrow> if failed then None else presence_run S evs st')"

text \<open>The connections after a history in which only open connections are closed.\<close>

fun open_after :: "connection multiset \<Rightarrow> (int \<times> pevent) list \<Rightarrow> connection multiset option" where
  "open_after M [] = Some M"
| "open_after M ((t, PConnect uid ws ch) # evs) = open_after (add_mset (uid, ws, ch) M) evs"
| "open_after M ((t, PDisconnect uid ws ch) # evs) =
     (if (uid, ws, ch) \<in># M then open_after (M - {#(uid, ws, ch)#}) evs else None)"
| "open_after M (_ # evs) = open_after M evs"

text \<open>The announcements about a user, in order: \<open>True\<close> for online, \<open>False\<close> for offline.\<close>

fun announcement :: "int \<Rightarrow> effect \<Rightarrow> bool list" where
  "announcement uid (Publish ev ws ch pl) =
     (if pl = [(''user_id'', VInt uid)] \<and> ev = ''presence.online'' then [True]
      else if pl = [(''user_id'', VInt uid)] \<and> ev = ''presence.offline'' then [False] else [])"
| "announcement uid _ = []"

definition announcements :: "int \<Rightarrow> effect list \<Rightarrow> bool list" where
  "announcements uid out = concat (map (announcement uid) out)"

fun alternating :: "bool \<Rightarrow> bool list \<Rightarrow> bool" where
  "alternating b [] = True"
| "alternating b (x # xs) = (x = b \<and> alternating (\<not> b) xs)"

text \<open>A user is announced online first and then in turns, ending with what is the case.\<close>

definition announced :: "connection multiset \<Rightarrow> effect list \<Rightarrow> bool" where
  "announced M out \<longleftrightarrow> (\<forall>uid. alternating True (announcements uid out) \<and>
     (odd (length (announcements uid out)) \<longleftrightarrow> 0 < conns_of uid M))"

lemma alternating_snoc: "alternating b (xs @ [x]) \<longleftrightarrow> alternating b xs \<and> x = (if odd (length xs) then \<not> b else b)"
  by (induction xs arbitrary: b) auto

lemma announcements_append [simp]: "announcements uid (xs @ ys) = announcements uid xs @ announcements uid ys"
  by (simp add: announcements_def)

lemma announcements_Nil [simp]: "announcements uid [] = []"
  by (simp add: announcements_def)

lemma announcements_status [simp]: "announcements uid (map (status_event v p) refs) = []"
  by (induction refs) (auto simp: announcements_def status_event_def)

lemma announcements_single [simp]:
  "announcements uid [Publish ''presence.online'' ws ch [(''user_id'', VInt v)]] = (if v = uid then [True] else [])"
  "announcements uid [Publish ''presence.offline'' ws ch [(''user_id'', VInt v)]] = (if v = uid then [False] else [])"
  by (simp_all add: announcements_def)

context presence_model
begin

text \<open>One event of a history that the store survives.\<close>

lemma step_tracks:
  assumes "rel (fst st) M" and "fresh t (fst st)" and "pevent_step S (t, ev) st = (False, st')"
    and "open_after M [(t, ev)] = Some M'" and "announced M (snd st)"
    and "\<And>uid ws ch. ev = PConnect uid ws ch \<Longrightarrow> fits (uid, ws, ch)"
  shows "rel (fst st') M' \<and> announced M' (snd st')"
proof (cases ev)
  case (PConnect uid ws ch)
  obtain u where run: "presence_Connect S True t uid ws ch st = (Inr u, st')"
    using assms(3) by (cases "presence_Connect S True t uid ws ch st"; cases "fst (presence_Connect S True t uid ws ch st)")
      (simp_all add: PConnect)
  have M': "M' = add_mset (uid, ws, ch) M" using assms(4) by (simp add: PConnect)
  note after = Connect_tracks [OF assms(1,2,6) run, OF PConnect]
  have "announced M' (snd st')"
    unfolding announced_def
  proof
    fix v
    have before: "alternating True (announcements v (snd st))"
      "odd (length (announcements v (snd st))) \<longleftrightarrow> 0 < conns_of v M"
      using assms(5) unfolding announced_def by blast+
    show "alternating True (announcements v (snd st')) \<and>
        (odd (length (announcements v (snd st'))) \<longleftrightarrow> 0 < conns_of v M')"
      using before unfolding after [THEN conjunct2] M'
      by (cases "v = uid") (auto simp: alternating_snoc)
  qed
  then show ?thesis using after M' by simp
next
  case (PDisconnect uid ws ch)
  obtain u where run: "presence_Disconnect S True t uid ws ch st = (Inr u, st')"
    using assms(3) by (cases "presence_Disconnect S True t uid ws ch st"; cases "fst (presence_Disconnect S True t uid ws ch st)")
      (simp_all add: PDisconnect)
  have mem: "(uid, ws, ch) \<in># M" "M' = M - {#(uid, ws, ch)#}"
    using assms(4) by (simp_all add: PDisconnect split: if_splits)
  have run: "rel (fst st') (M - {#(uid, ws, ch)#})"
    "snd st' = (if conns_of uid M = 1
       then snd st @ [Publish ''presence.offline'' ws ch [(''user_id'', VInt uid)]] else snd st)"
    using Disconnect_tracks [OF assms(1,2) mem(1) run] by simp_all
  have pos: "0 < conns_of uid M" using mem(1) conns_of_pos by blast
  have "announced M' (snd st')"
    unfolding announced_def
  proof
    fix v
    have before: "alternating True (announcements v (snd st))"
      "odd (length (announcements v (snd st))) \<longleftrightarrow> 0 < conns_of v M"
      using assms(5) unfolding announced_def by blast+
    have after: "conns_of v M' = (if v = uid then conns_of uid M - 1 else conns_of v M)"
      using conns_of_remove [OF mem(1), of v] by (simp add: mem(2))
    show "alternating True (announcements v (snd st')) \<and>
        (odd (length (announcements v (snd st'))) \<longleftrightarrow> 0 < conns_of v M')"
      using before pos unfolding after run(2) by (cases "v = uid") (auto simp: alternating_snoc)
  qed
  then show ?thesis using run(1) mem(2) by simp
next
  case (PTouch uid)
  obtain r where "presence_Touch S t uid st = (r, st')" "\<not> isl r"
    using assms(3) by (auto simp: PTouch split: prod.splits)
  then show ?thesis using Touch_tracks [OF assms(1,2), of uid _ st'] assms(4,5) by (cases r) (auto simp: PTouch)
next
  case (PStatus uid status)
  obtain r where "presence_UpdateStatus S True t uid status st = (r, st')" "\<not> isl r \<or> \<not> ValidStatus status"
    using assms(3) by (auto simp: PStatus split: prod.splits)
  then show ?thesis
  proof (cases "ValidStatus status")
    case True
    with \<open>\<not> isl r \<or> \<not> ValidStatus status\<close> obtain p where "r = Inr p" by (cases r) auto
    then obtain refs where "rel (fst st') M" "snd st' = snd st @ map (status_event uid p) refs"
      using UpdateStatus_tracks [OF assms(1,2)] \<open>presence_UpdateStatus S True t uid status st = (r, st')\<close> by blast
    then show ?thesis using assms(4,5) by (auto simp: PStatus announced_def)
  next
    case False
    then show ?thesis using assms(1,4,5) \<open>presence_UpdateStatus S True t uid status st = (r, st')\<close>
      by (auto simp: presence_UpdateStatus_def PStatus)
  qed
qed

lemma run_tracks:
  assumes "rel (fst st) M" and "presence_run S evs st = Some st'" and "open_after M evs = Some M'"
    and "announced M (snd st)"
    and "\<And>t ev st M. (t, ev) \<in> set evs \<Longrightarrow> rel st M \<Longrightarrow> fresh t st"
    and "\<And>t uid ws ch. (t, PConnect uid ws ch) \<in> set evs \<Longrightarrow> fits (uid, ws, ch)"
  shows "rel (fst st') M' \<and> announced M' (snd st')"
  using assms
proof (induction evs arbitrary: st M)
  case (Cons e evs)
  obtain t ev where e: "e = (t, ev)" by (cases e)
  obtain st1 where st1: "pevent_step S (t, ev) st = (False, st1)" "presence_run S evs st1 = Some st'"
    using Cons.prems(2) e by (auto split: prod.splits if_splits)
  obtain M1 where M1: "open_after M [(t, ev)] = Some M1" "open_after M1 evs = Some M'"
    using Cons.prems(3) e by (cases ev) (auto split: if_splits)
  have "fresh t (fst st)" using Cons.prems(1,5) e by auto
  moreover have "\<And>uid ws ch. ev = PConnect uid ws ch \<Longrightarrow> fits (uid, ws, ch)" using Cons.prems(6) e by auto
  ultimately have "rel (fst st1) M1 \<and> announced M1 (snd st1)"
    using step_tracks [OF Cons.prems(1) _ st1(1) M1(1) Cons.prems(4)] by blast
  then show ?case
  proof (intro Cons.IH [of st1 M1] st1(2) M1(2), goal_cases)
    case (3 t ev st M)
    then show ?case using Cons.prems(5) [of t ev] by simp
  next
    case (4 t uid ws ch)
    then show ?case using Cons.prems(6) [of t uid ws ch] by simp
  qed auto
qed simp

end

end
