(* ===== verification/Realtime_Events.thy ===== *)
theory Realtime_Events
  imports Presence "HOL-Library.Word"
begin

text \<open>
  \<open>internal/realtime\<close>, the pure part: the event envelope, the readers of event payloads, the names of the
  pub/sub topics, the memory sequencer and the configuration; and \<open>internal/httperr\<close>, which decides what an
  error message may show.
\<close>

section \<open>Events\<close>

record event =
  evt_type :: string
  evt_workspace :: int
  evt_channel :: int
  evt_id :: string
  evt_sequence :: int
  evt_time :: int
  evt_payload :: gov

text \<open>\<open>eventCounter\<close> is an \<open>atomic.Uint64\<close>; the result is the new counter and the identifier.\<close>

definition newEventID :: "int \<Rightarrow> 64 word \<Rightarrow> 64 word \<times> string" where
  "newEventID nanos counter =
     (counter + 1, FormatInt nanos @ ''-'' @ format_nat (unat (counter + 1)))"

definition NewOutboundEvent :: "int \<Rightarrow> 64 word \<Rightarrow> string \<Rightarrow> int \<Rightarrow> int \<Rightarrow> gov \<Rightarrow> 64 word \<times> event" where
  "NewOutboundEvent nanos counter ty ws ch payload =
     (case newEventID nanos counter of (counter, eid) \<Rightarrow>
        (counter, \<lparr>evt_type = ty, evt_workspace = ws, evt_channel = ch, evt_id = eid, evt_sequence = 0,
                   evt_time = nanos, evt_payload = payload\<rparr>))"

definition isCallSignal :: "string \<Rightarrow> bool" where
  "isCallSignal t \<longleftrightarrow> t \<in> {''call.offer'', ''call.answer'', ''call.ice''}"

definition isCallMediaEvent :: "string \<Rightarrow> bool" where
  "isCallMediaEvent t \<longleftrightarrow> t \<in> {''call.video.on'', ''call.video.off'', ''call.screen.start'',
     ''call.screen.stop'', ''call.speaker.changed'', ''call.recording.start'', ''call.recording.stop'',
     ''call.preferences''}"

definition isCallRecordingEvent :: "string \<Rightarrow> bool" where
  "isCallRecordingEvent t \<longleftrightarrow> t \<in> {''call.recording.start'', ''call.recording.stop''}"

text \<open>
  \<open>int64(f)\<close> on a float64 \<open>m * 2 ^ e\<close> truncates; outside the range of an \<open>int64\<close> Go leaves the result
  to the implementation, which is the parameter \<open>out\<close>.
\<close>

definition float_to_int64 :: "(int \<Rightarrow> int \<Rightarrow> int) \<Rightarrow> int \<Rightarrow> int \<Rightarrow> int" where
  "float_to_int64 out m e =
     (let n = (if 0 \<le> e then m * 2 ^ nat e else sgn m * (\<bar>m\<bar> div 2 ^ nat (- e)))
      in if - (2 ^ 63) \<le> n \<and> n < 2 ^ 63 then n else out m e)"

definition payloadInt64 :: "(int \<Rightarrow> int \<Rightarrow> int) \<Rightarrow> gov \<Rightarrow> string \<Rightarrow> int" where
  "payloadInt64 out payload key =
     (case payload of
        VObj kvs \<Rightarrow>
          (case map_of kvs key of
             Some (VFloat m e) \<Rightarrow> float_to_int64 out m e
           | Some (VInt n) \<Rightarrow> n
           | _ \<Rightarrow> 0)
      | _ \<Rightarrow> 0)"

text \<open>Writing a key of a Go map.\<close>

definition put_key :: "string \<Rightarrow> gov \<Rightarrow> gomap \<Rightarrow> gomap" where
  "put_key k v m = (k, v) # filter (\<lambda>(k', _). k' \<noteq> k) m"

definition withFromUser :: "gov \<Rightarrow> int \<Rightarrow> gomap" where
  "withFromUser payload uid =
     (case payload of
        VObj kvs \<Rightarrow> put_key ''from_user_id'' (VInt uid) kvs
      | _ \<Rightarrow> [(''from_user_id'', VInt uid)])"

definition payloadMap :: "gov \<Rightarrow> gomap \<times> bool" where
  "payloadMap payload =
     (case payload of
        VObj kvs \<Rightarrow> (filter (\<lambda>(k, _). k \<notin> {''call_id'', ''recording_id'', ''to_user_id''}) kvs, True)
      | _ \<Rightarrow> ([], False))"

definition parseMessageContent :: "gov \<Rightarrow> string option" where
  "parseMessageContent payload =
     (case payload of
        VObj kvs \<Rightarrow> (case map_of kvs ''content'' of Some (VStr s) \<Rightarrow> Some s | _ \<Rightarrow> None)
      | _ \<Rightarrow> None)"

lemma map_of_put_key: "map_of (put_key k v m) k' = (if k' = k then Some v else map_of m k')"
  by (induction m) (auto simp: put_key_def)

lemma from_user_is_set [simp]: "payloadInt64 out (VObj (withFromUser payload uid)) ''from_user_id'' = uid"
  by (simp add: payloadInt64_def withFromUser_def map_of_put_key split: gov.split)

lemma from_user_keeps [simp]:
  "key \<noteq> ''from_user_id'' \<Longrightarrow>
    payloadInt64 out (VObj (withFromUser payload uid)) key = payloadInt64 out payload key"
  by (simp add: payloadInt64_def withFromUser_def map_of_put_key split: gov.split)

section \<open>Topics\<close>

definition ChannelTopic :: "int \<Rightarrow> int \<Rightarrow> string" where
  "ChannelTopic ws ch = ''workspace:'' @ FormatInt ws @ '':channel:'' @ FormatInt ch"

definition UserTopic :: "int \<Rightarrow> string" where
  "UserTopic uid = ''user:'' @ FormatInt uid @ '':notifications''"

definition parseUserTopic :: "string \<Rightarrow> int option" where
  "parseUserTopic topic =
     (if \<not> has_prefix ''user:'' topic \<or> \<not> has_suffix '':notifications'' topic then None
      else (case split_on CHR '':'' topic of [_, uid, _] \<Rightarrow> ParseInt uid | _ \<Rightarrow> None))"

lemma UserTopic_split: "split_on CHR '':'' (UserTopic uid) = [''user'', FormatInt uid, ''notifications'']"
proof -
  have "split_on CHR '':'' (FormatInt uid @ '':notifications'') = [FormatInt uid, ''notifications'']"
    using split_on_append [OF FormatInt_no_colon, of uid "''notifications''"] by simp
  then show ?thesis by (simp add: UserTopic_def)
qed

lemma parse_UserTopic:
  assumes "- (2 ^ 63) \<le> uid" and "uid < 2 ^ 63"
  shows "parseUserTopic (UserTopic uid) = Some uid"
proof -
  have "has_prefix ''user:'' (UserTopic uid)" by (simp add: UserTopic_def)
  moreover have "has_suffix '':notifications'' (UserTopic uid)"
    unfolding has_suffix_def has_prefix_iff UserTopic_def by simp
  ultimately show ?thesis
    using ParseInt_FormatInt [OF assms] by (simp add: parseUserTopic_def UserTopic_split)
qed

lemma parse_ChannelTopic: "parseUserTopic (ChannelTopic ws ch) = None"
  by (simp add: parseUserTopic_def ChannelTopic_def)

lemma ChannelTopic_inject: "ChannelTopic ws ch = ChannelTopic ws' ch' \<longleftrightarrow> ws = ws' \<and> ch = ch'"
proof
  assume "ChannelTopic ws ch = ChannelTopic ws' ch'"
  then have eq: "FormatInt ws @ CHR '':'' # ''channel:'' @ FormatInt ch =
      FormatInt ws' @ CHR '':'' # ''channel:'' @ FormatInt ch'"
    by (simp add: ChannelTopic_def)
  from arg_cong [OF eq, of "split_first CHR '':''"]
  show "ws = ws' \<and> ch = ch'"
    by (simp add: split_first_append FormatInt_no_colon FormatInt_inject)
qed simp

lemma UserTopic_inject: "UserTopic u = UserTopic v \<longleftrightarrow> u = v"
  using UserTopic_split by (metis FormatInt_inject list.inject)

lemma topics_disjoint [simp]: "ChannelTopic ws ch \<noteq> UserTopic u"
  by (simp add: ChannelTopic_def UserTopic_def)

section \<open>Sequences\<close>

definition memseq_Next :: "(int \<Rightarrow> int) \<Rightarrow> int \<Rightarrow> int \<times> (int \<Rightarrow> int)" where
  "memseq_Next seq ch = (seq ch + 1, seq(ch := seq ch + 1))"

section \<open>Configuration\<close>

definition parseOrigins :: "string \<Rightarrow> string list" where
  "parseOrigins raw =
     (let raw = TrimSpace raw in
      if raw = [] \<or> raw = ''*'' then []
      else filter (\<lambda>s. s \<noteq> []) (map TrimSpace (split_on CHR '','' raw)))"

definition envInt :: "string \<Rightarrow> int \<Rightarrow> int" where
  "envInt raw fallback =
     (let raw = TrimSpace raw in
      if raw = [] then fallback
      else (case ParseInt raw of None \<Rightarrow> fallback | Some n \<Rightarrow> if n \<le> 0 then fallback else n))"

record ws_config =
  AllowedOrigins :: "string list"
  MaxConnectionsPerUser :: int
  MaxConnectionsPerIP :: int

definition ws_LoadConfig :: "(string \<Rightarrow> string) \<Rightarrow> ws_config" where
  "ws_LoadConfig getenv =
     \<lparr>AllowedOrigins = parseOrigins (getenv ''WS_ALLOWED_ORIGINS''),
      MaxConnectionsPerUser = envInt (getenv ''WS_MAX_CONNECTIONS_PER_USER'') 5,
      MaxConnectionsPerIP = envInt (getenv ''WS_MAX_CONNECTIONS_PER_IP'') 20\<rparr>"

section \<open>Error messages\<close>

definition InternalMessage :: string where
  "InternalMessage = ''Something went wrong. Please try again later.''"

definition sensitiveSubstrings :: "string list" where
  "sensitiveSubstrings =
     [''failed to connect'', ''database='', ''hostname resolving'', ''lookup '', '':53:'',
      ''server misbehaving'', ''connection refused'', ''dial tcp'', ''pq:'', ''pgx'', ''postgres'', ''sql:'',
      ''redis'', ''aws '', ''s3://'', ''access denied for user'', ''password authentication failed'',
      ''no such host'', ''certificate'', ''tls:'', ''stack trace'', ''.go:'', ''/internal/'', ''user='']"

definition IsSensitive :: "string \<Rightarrow> bool" where
  "IsSensitive message =
     (let lower = ToLower (TrimSpace message) in
      lower \<noteq> [] \<and> list_ex (\<lambda>needle. contains_sub needle lower) sensitiveSubstrings)"

definition Sanitize :: "string \<Rightarrow> string" where
  "Sanitize message = (if IsSensitive message then InternalMessage else message)"

text \<open>\<open>ClientMessage\<close>: \<open>text\<close> gives the message of a sentinel, \<open>known\<close> lists those that may be shown.\<close>

definition ClientMessage :: "(goerr \<Rightarrow> string) \<Rightarrow> goerr option \<Rightarrow> goerr list \<Rightarrow> string" where
  "ClientMessage text err known =
     (case err of None \<Rightarrow> InternalMessage
      | Some e \<Rightarrow> if e \<in> set known then Sanitize (text e) else InternalMessage)"

lemma InternalMessage_safe: "\<not> IsSensitive InternalMessage"
  by code_simp

lemma Sanitize_safe: "\<not> IsSensitive (Sanitize message)"
  by (simp add: Sanitize_def InternalMessage_safe)

lemma Sanitize_idem: "Sanitize (Sanitize message) = Sanitize message"
  by (simp add: Sanitize_def InternalMessage_safe)

lemma ClientMessage_safe: "\<not> IsSensitive (ClientMessage text err known)"
  by (simp add: ClientMessage_def InternalMessage_safe Sanitize_safe split: option.split)

end
