(* ===== verification/Realtime_Hub.thy ===== *)
theory Realtime_Hub
  imports Realtime_Events "HOL-Library.AList"
begin

text \<open>
  \<open>internal/realtime/hub.go\<close>: the hub of a node. The state holds the hub's maps and channels and the
  goroutines that wait on them; a label names what happens next (the hub loop takes a case of its \<open>select\<close>,
  a goroutine runs, a socket closes), so every interleaving is a sequence of labels. The handlers of
  the loop and \<open>Shutdown\<close> are one step each, except that the loop's sends to the clients of a channel
  are separate steps. A send on a closed channel, which panics in Go, sets \<open>h_panicked\<close>.
\<close>

section \<open>State\<close>

record client =
  cl_id :: nat  \<comment> \<open>the pointer\<close>
  cl_userID :: int
  cl_workspaceID :: int
  cl_channelID :: int
  cl_remoteIP :: string

text \<open>The channel \<open>send\<close> of a client.\<close>

record send_chan =
  q_buffer :: "event list"
  q_closed :: bool

datatype broker = NoBroker | LocalBroker | RemoteBroker

datatype broker_op =
    EnsureSubscribed int int | MaybeUnsubscribe int int
  | EnsureUserSubscribed int | MaybeUnsubscribeUser int | BrokerPublish event

record hub =
  h_cfg :: ws_config
  h_broker :: broker
  h_presence :: bool
  h_sequencer :: "(int \<Rightarrow> int) option"
  h_counter :: "64 word"
  h_channels :: "(int \<times> client list) list"
  h_userConnections :: "int \<rightharpoonup> int"
  h_ipConnections :: "string \<rightharpoonup> int"
  h_broadcast :: "event list"
  h_done :: bool
  h_stopped :: bool                           \<comment> \<open>the loop has returned\<close>
  h_sends :: "client \<Rightarrow> send_chan"
  h_accepted :: "client list"                 \<comment> \<open>every client made so far\<close>
  h_registering :: "client list"              \<comment> \<open>handlers waiting to send on \<open>register\<close>\<close>
  h_unregistering :: "client list"            \<comment> \<open>goroutines waiting to send on \<open>unregister\<close>\<close>
  h_enqueueing :: "event list"                \<comment> \<open>goroutines of \<open>enqueueBroadcast\<close>\<close>
  h_delivering :: "(client \<times> event) list"     \<comment> \<open>the sends left of the loop's \<open>deliver\<close>\<close>
  h_notifying :: "(client \<times> event) list"      \<comment> \<open>the sends left of calls of \<open>notifyUserLocal\<close>\<close>
  h_reading :: "client list"                  \<comment> \<open>clients whose \<open>readPump\<close> runs\<close>
  h_told :: "(int \<times> pevent) list"             \<comment> \<open>the calls of the presence tracker\<close>
  h_broker_log :: "broker_op list"
  h_panicked :: bool

definition broadcastBufferSize :: nat where "broadcastBufferSize = 256"

definition clientSendBuffer :: nat where "clientSendBuffer = 16"

definition NewHub :: "ws_config \<Rightarrow> broker \<Rightarrow> bool \<Rightarrow> bool \<Rightarrow> hub" where
  "NewHub cfg br presence sequencer =
     \<lparr>h_cfg = cfg, h_broker = br, h_presence = presence,
      h_sequencer = (if sequencer then Some (\<lambda>_. 0) else None), h_counter = 0,
      h_channels = [], h_userConnections = Map.empty, h_ipConnections = Map.empty, h_broadcast = [],
      h_done = False, h_stopped = False, h_sends = (\<lambda>_. \<lparr>q_buffer = [], q_closed = False\<rparr>), h_accepted = [],
      h_registering = [], h_unregistering = [], h_enqueueing = [], h_delivering = [], h_notifying = [],
      h_reading = [], h_told = [], h_broker_log = [], h_panicked = False\<rparr>"

definition channel_clients :: "hub \<Rightarrow> int \<Rightarrow> client list" where
  "channel_clients h ch = (case map_of (h_channels h) ch of Some cs \<Rightarrow> cs | None \<Rightarrow> [])"

definition registered :: "hub \<Rightarrow> client list" where
  "registered h = concat (map snd (h_channels h))"

text \<open>Reading a counter of a Go map.\<close>

definition counter_get :: "('a \<rightharpoonup> int) \<Rightarrow> 'a \<Rightarrow> int" where
  "counter_get m k = (case m k of Some n \<Rightarrow> n | None \<Rightarrow> 0)"

section \<open>Operations\<close>

definition hub_CanConnect :: "hub \<Rightarrow> int \<Rightarrow> string \<Rightarrow> bool" where
  "hub_CanConnect h uid ip =
     (if MaxConnectionsPerUser (h_cfg h) > 0 \<and>
         counter_get (h_userConnections h) uid \<ge> MaxConnectionsPerUser (h_cfg h) then False
      else if MaxConnectionsPerIP (h_cfg h) > 0 \<and>
         counter_get (h_ipConnections h) ip \<ge> MaxConnectionsPerIP (h_cfg h) then False
      else True)"

definition broker_call :: "broker_op \<Rightarrow> hub \<Rightarrow> hub" where
  "broker_call b h = (if h_broker h = NoBroker then h else h\<lparr>h_broker_log := h_broker_log h @ [b]\<rparr>)"

definition presence_call :: "int \<Rightarrow> pevent \<Rightarrow> hub \<Rightarrow> hub" where
  "presence_call t ev h = (if h_presence h then h\<lparr>h_told := h_told h @ [(t, ev)]\<rparr> else h)"

definition hub_enqueueBroadcast :: "event \<Rightarrow> hub \<Rightarrow> hub" where
  "hub_enqueueBroadcast ev h = h\<lparr>h_enqueueing := h_enqueueing h @ [ev]\<rparr>"

definition broker_publish :: "event \<Rightarrow> hub \<Rightarrow> hub" where
  "broker_publish ev h =
     (case h_broker h of RemoteBroker \<Rightarrow> broker_call (BrokerPublish ev) h | _ \<Rightarrow> hub_enqueueBroadcast ev h)"

definition hub_Publish :: "int \<Rightarrow> event \<Rightarrow> hub \<Rightarrow> hub" where
  "hub_Publish nanos ev h =
     (let (counter, ev) =
            (if evt_id ev = [] then
               NewOutboundEvent nanos (h_counter h) (evt_type ev) (evt_workspace ev) (evt_channel ev) (evt_payload ev)
             else (h_counter h, ev));
          h = h\<lparr>h_counter := counter\<rparr>
      in case h_sequencer h of
           None \<Rightarrow> broker_publish ev h
         | Some seq \<Rightarrow>
             if evt_sequence ev = 0 \<and> evt_channel ev > 0 then
               (case memseq_Next seq (evt_channel ev) of (n, seq) \<Rightarrow>
                  broker_publish (ev\<lparr>evt_sequence := n\<rparr>) (h\<lparr>h_sequencer := Some seq\<rparr>))
             else broker_publish ev h)"

definition close_send :: "client \<Rightarrow> hub \<Rightarrow> hub" where
  "close_send c h =
     (if q_closed (h_sends h c) then h\<lparr>h_panicked := True\<rparr>
      else h\<lparr>h_sends := (h_sends h)(c := (h_sends h c)\<lparr>q_closed := True\<rparr>)\<rparr>)"

definition hub_handleRegister :: "int \<Rightarrow> client \<Rightarrow> hub \<Rightarrow> hub" where
  "hub_handleRegister t c h =
     (let cs = channel_clients h (cl_channelID c);
          n = counter_get (h_userConnections h) (cl_userID c) + 1;
          h = h\<lparr>h_channels := AList.update (cl_channelID c) (List.insert c cs) (h_channels h),
                h_userConnections := (h_userConnections h)(cl_userID c \<mapsto> n),
                h_ipConnections := (h_ipConnections h)(cl_remoteIP c \<mapsto>
                  counter_get (h_ipConnections h) (cl_remoteIP c) + 1)\<rparr>;
          h = (if cs = [] then broker_call (EnsureSubscribed (cl_workspaceID c) (cl_channelID c)) h else h);
          h = (if n = 1 then broker_call (EnsureUserSubscribed (cl_userID c)) h else h)
      in presence_call t (PConnect (cl_userID c) (cl_workspaceID c) (cl_channelID c)) h)"

definition decrement :: "('a \<rightharpoonup> int) \<Rightarrow> 'a \<Rightarrow> 'a \<rightharpoonup> int" where
  "decrement m k = (if counter_get m k - 1 \<le> 0 then m(k := None) else m(k \<mapsto> counter_get m k - 1))"

definition hub_handleUnregister :: "int \<Rightarrow> client \<Rightarrow> hub \<Rightarrow> hub" where
  "hub_handleUnregister t c h =
     (let cs = channel_clients h (cl_channelID c) in
      if c \<notin> set cs then h
      else
        let last_user = counter_get (h_userConnections h) (cl_userID c) - 1 \<le> 0;
            h = h\<lparr>h_channels := AList.update (cl_channelID c) (removeAll c cs) (h_channels h),
                  h_userConnections := decrement (h_userConnections h) (cl_userID c),
                  h_ipConnections := decrement (h_ipConnections h) (cl_remoteIP c)\<rparr>;
            h = (if removeAll c cs = [] then broker_call (MaybeUnsubscribe (cl_workspaceID c) (cl_channelID c)) h
                 else h);
            h = (if last_user then broker_call (MaybeUnsubscribeUser (cl_userID c)) h else h);
            h = close_send c h
        in presence_call t (PDisconnect (cl_userID c) (cl_workspaceID c) (cl_channelID c)) h)"

text \<open>Whether \<open>deliverCallSignal\<close> sends to the client.\<close>

definition signal_reaches :: "(int \<Rightarrow> int \<Rightarrow> int) \<Rightarrow> event \<Rightarrow> client \<Rightarrow> bool" where
  "signal_reaches out ev c =
     (let to_user = payloadInt64 out (evt_payload ev) ''to_user_id'';
          from_user = payloadInt64 out (evt_payload ev) ''from_user_id''
      in if to_user \<noteq> 0 \<and> cl_userID c \<noteq> to_user then False
         else if to_user = 0 \<and> from_user \<noteq> 0 \<and> cl_userID c = from_user then False
         else True)"

text \<open>The clients \<open>deliver\<close> sends an event to.\<close>

definition hub_deliver :: "(int \<Rightarrow> int \<Rightarrow> int) \<Rightarrow> event \<Rightarrow> hub \<Rightarrow> client list" where
  "hub_deliver out ev h =
     (let targets = channel_clients h (evt_channel ev) in
      if isCallSignal (evt_type ev) then filter (signal_reaches out ev) targets else targets)"

definition hub_sendToClient :: "client \<Rightarrow> event \<Rightarrow> hub \<Rightarrow> hub" where
  "hub_sendToClient c ev h =
     (let q = h_sends h c in
      if q_closed q then h\<lparr>h_panicked := True\<rparr>
      else if length (q_buffer q) < clientSendBuffer
        then h\<lparr>h_sends := (h_sends h)(c := q\<lparr>q_buffer := q_buffer q @ [ev]\<rparr>)\<rparr>
      else h\<lparr>h_unregistering := h_unregistering h @ [c]\<rparr>)"

text \<open>The clients that \<open>notifyUserLocal\<close> collects under the lock.\<close>

definition hub_notifyUserLocal :: "int \<Rightarrow> hub \<Rightarrow> client list" where
  "hub_notifyUserLocal uid h = filter (\<lambda>c. cl_userID c = uid) (registered h)"

text \<open>The reply of a client's \<open>readPump\<close>; it is dropped when the buffer is full.\<close>

definition client_sendClientError :: "int \<Rightarrow> client \<Rightarrow> string \<Rightarrow> hub \<Rightarrow> hub" where
  "client_sendClientError nanos c message h =
     (case NewOutboundEvent nanos (h_counter h) ''error'' (cl_workspaceID c) (cl_channelID c)
             (VObj [(''message'', VStr (Sanitize message))]) of (counter, ev) \<Rightarrow>
      let h = h\<lparr>h_counter := counter\<rparr>; q = h_sends h c in
      if q_closed q then h\<lparr>h_panicked := True\<rparr>
      else if length (q_buffer q) < clientSendBuffer
        then h\<lparr>h_sends := (h_sends h)(c := q\<lparr>q_buffer := q_buffer q @ [ev]\<rparr>)\<rparr>
      else h)"

fun shutdown_clients :: "int \<Rightarrow> client list \<Rightarrow> hub \<Rightarrow> hub" where
  "shutdown_clients t [] h = h"
| "shutdown_clients t (c # cs) h =
     shutdown_clients t cs (close_send c
       (presence_call t (PDisconnect (cl_userID c) (cl_workspaceID c) (cl_channelID c)) h))"

definition hub_Shutdown :: "int \<Rightarrow> hub \<Rightarrow> hub" where
  "hub_Shutdown t h =
     (if h_done h then h
      else (shutdown_clients t (registered h) (h\<lparr>h_done := True\<rparr>))\<lparr>h_channels := []\<rparr>)"

definition hub_touchPresence :: "int \<Rightarrow> int \<Rightarrow> hub \<Rightarrow> hub" where
  "hub_touchPresence t uid h = presence_call t (PTouch uid) h"

section \<open>Steps\<close>

datatype label =
    Accept client                 \<comment> \<open>\<open>HandleWebSocket\<close> passes \<open>CanConnect\<close> and upgrades\<close>
  | Register int client | Unregister int client | DeliverNext | SendNext | LoopStop
  | PublishEvent int event | Enqueue nat bool
  | NotifyUser int event | NotifySend nat
  | WriteNext client | Ping int client | ReadError int client string | ReadExit client
  | ShutdownHub int

definition loop_ready :: "hub \<Rightarrow> bool" where
  "loop_ready h \<longleftrightarrow> \<not> h_stopped h \<and> h_delivering h = []"

definition drop_nth :: "nat \<Rightarrow> 'a list \<Rightarrow> 'a list" where
  "drop_nth i xs = take i xs @ drop (Suc i) xs"

text \<open>One step; \<open>None\<close> when the label cannot happen. In \<open>Enqueue i keep\<close> the flag is the choice of \<open>select\<close>
between a buffer with room and a closed \<open>done\<close>.\<close>

fun hub_do :: "(int \<Rightarrow> int \<Rightarrow> int) \<Rightarrow> label \<Rightarrow> hub \<Rightarrow> hub option" where
  "hub_do out (Accept c) h =
     (if hub_CanConnect h (cl_userID c) (cl_remoteIP c) \<and> c \<notin> set (h_accepted h)
      then Some (h\<lparr>h_accepted := c # h_accepted h, h_registering := c # h_registering h\<rparr>) else None)"
| "hub_do out (Register t c) h =
     (if loop_ready h \<and> c \<in> set (h_registering h)
      then Some ((hub_handleRegister t c h)\<lparr>h_registering := removeAll c (h_registering h),
                                            h_reading := c # h_reading h\<rparr>) else None)"
| "hub_do out (Unregister t c) h =
     (if loop_ready h \<and> c \<in> set (h_unregistering h)
      then Some ((hub_handleUnregister t c h)\<lparr>h_unregistering := remove1 c (h_unregistering h)\<rparr>) else None)"
| "hub_do out DeliverNext h =
     (if loop_ready h then
        (case h_broadcast h of
           [] \<Rightarrow> None
         | ev # evs \<Rightarrow> Some (h\<lparr>h_broadcast := evs, h_delivering := map (\<lambda>c. (c, ev)) (hub_deliver out ev h)\<rparr>))
      else None)"
| "hub_do out SendNext h =
     (case h_delivering h of
        [] \<Rightarrow> None
      | (c, ev) # rest \<Rightarrow> Some (hub_sendToClient c ev (h\<lparr>h_delivering := rest\<rparr>)))"
| "hub_do out LoopStop h = (if loop_ready h \<and> h_done h then Some (h\<lparr>h_stopped := True\<rparr>) else None)"
| "hub_do out (PublishEvent nanos ev) h = Some (hub_Publish nanos ev h)"
| "hub_do out (Enqueue i keep) h =
     (if i < length (h_enqueueing h) then
        (let h' = h\<lparr>h_enqueueing := drop_nth i (h_enqueueing h)\<rparr> in
         Some (if length (h_broadcast h) < broadcastBufferSize \<and> (keep \<or> \<not> h_done h)
               then h'\<lparr>h_broadcast := h_broadcast h @ [h_enqueueing h ! i]\<rparr> else h'))
      else None)"
| "hub_do out (NotifyUser uid ev) h =
     Some (h\<lparr>h_notifying := h_notifying h @ map (\<lambda>c. (c, ev)) (hub_notifyUserLocal uid h)\<rparr>)"
| "hub_do out (NotifySend i) h =
     (if i < length (h_notifying h)
      then Some (hub_sendToClient (fst (h_notifying h ! i)) (snd (h_notifying h ! i))
             (h\<lparr>h_notifying := drop_nth i (h_notifying h)\<rparr>)) else None)"
| "hub_do out (WriteNext c) h =
     (case q_buffer (h_sends h c) of
        [] \<Rightarrow> None
      | ev # evs \<Rightarrow> Some (h\<lparr>h_sends := (h_sends h)(c := (h_sends h c)\<lparr>q_buffer := evs\<rparr>)\<rparr>))"
| "hub_do out (Ping t c) h =
     (if c \<in> set (h_reading h) then Some (hub_touchPresence t (cl_userID c) h) else None)"
| "hub_do out (ReadError nanos c message) h =
     (if c \<in> set (h_reading h) then Some (client_sendClientError nanos c message h) else None)"
| "hub_do out (ReadExit c) h =
     (if c \<in> set (h_reading h)
      then Some (h\<lparr>h_reading := remove1 c (h_reading h), h_unregistering := h_unregistering h @ [c]\<rparr>) else None)"
| "hub_do out (ShutdownHub t) h = Some (hub_Shutdown t h)"

text \<open>A process that panicked makes no step.\<close>

definition hub_next :: "(int \<Rightarrow> int \<Rightarrow> int) \<Rightarrow> label \<Rightarrow> hub \<Rightarrow> hub option" where
  "hub_next out l h = (if h_panicked h then None else hub_do out l h)"

fun hub_run :: "(int \<Rightarrow> int \<Rightarrow> int) \<Rightarrow> label list \<Rightarrow> hub \<Rightarrow> hub option" where
  "hub_run out [] h = Some h"
| "hub_run out (l # ls) h = (case hub_next out l h of None \<Rightarrow> None | Some h' \<Rightarrow> hub_run out ls h')"

text \<open>The states a new hub reaches by labels that \<open>P\<close> allows.\<close>

inductive hub_reaches ::
  "(int \<Rightarrow> int \<Rightarrow> int) \<Rightarrow> (label \<Rightarrow> hub \<Rightarrow> bool) \<Rightarrow> hub \<Rightarrow> hub \<Rightarrow> bool" for out P h0 where
  hub_start: "hub_reaches out P h0 h0"
| hub_more: "hub_reaches out P h0 h \<Longrightarrow> P l h \<Longrightarrow> hub_next out l h = Some h' \<Longrightarrow> hub_reaches out P h0 h'"

end
