(* ===== verification/Presence_Memory.thy ===== *)
theory Presence_Memory
  imports Presence "HOL-Library.AList"
begin

text \<open>
  \<open>internal/presence/memory_store.go\<close>: the store of a single node. A Go map is an association list with
  distinct keys (its order stands for the unspecified order of \<open>range\<close>), a set
  \<open>map[int64]struct{}\<close> the list of its elements. The mutex makes every operation one step. The store
  is shown to represent the open connections, so that the contract of \<open>Presence\<close> holds.
\<close>

section \<open>The store\<close>

record memory_user =
  mu_status :: string
  mu_connectionCount :: int
  mu_lastSeen :: "int option"
  mu_channels :: "(int \<times> (int \<times> int) list) list"

record memory_store =
  ms_users :: "(int \<times> memory_user) list"
  ms_globalOnline :: "int list"
  ms_wsOnline :: "(int \<times> int list) list"

definition NewMemoryStore :: memory_store where
  "NewMemoryStore = \<lparr>ms_users = [], ms_globalOnline = [], ms_wsOnline = []\<rparr>"

text \<open>\<open>ensureUser\<close>: the user's entry, created offline when it is missing; the caller stores it back.\<close>

definition memstore_ensureUser :: "memory_store \<Rightarrow> int \<Rightarrow> memory_user" where
  "memstore_ensureUser st uid =
     (case map_of (ms_users st) uid of
        Some u \<Rightarrow> u
      | None \<Rightarrow> \<lparr>mu_status = ''offline'', mu_connectionCount = 0, mu_lastSeen = None, mu_channels = []\<rparr>)"

definition ws_channels :: "memory_user \<Rightarrow> int \<Rightarrow> (int \<times> int) list" where
  "ws_channels u ws = (case map_of (mu_channels u) ws of Some chs \<Rightarrow> chs | None \<Rightarrow> [])"

definition chan_count :: "(int \<times> int) list \<Rightarrow> int \<Rightarrow> int" where
  "chan_count chs ch = (case map_of chs ch of Some n \<Rightarrow> n | None \<Rightarrow> 0)"

definition ws_users :: "memory_store \<Rightarrow> int \<Rightarrow> int list" where
  "ws_users st ws = (case map_of (ms_wsOnline st) ws of Some us \<Rightarrow> us | None \<Rightarrow> [])"

definition memstore_markWorkspaceOnline :: "int \<Rightarrow> int \<Rightarrow> memory_store \<Rightarrow> memory_store" where
  "memstore_markWorkspaceOnline ws uid st =
     st\<lparr>ms_wsOnline := AList.update ws (List.insert uid (ws_users st ws)) (ms_wsOnline st)\<rparr>"

definition memstore_unmarkWorkspaceOnline :: "int \<Rightarrow> int \<Rightarrow> memory_user \<Rightarrow> memory_store \<Rightarrow> memory_store" where
  "memstore_unmarkWorkspaceOnline ws uid u st =
     (if ws_channels u ws \<noteq> [] then st
      else case map_of (ms_wsOnline st) ws of
        None \<Rightarrow> st
      | Some us \<Rightarrow> st\<lparr>ms_wsOnline := AList.update ws (removeAll uid us) (ms_wsOnline st)\<rparr>)"

definition memstore_toPresence :: "int \<Rightarrow> memory_user \<Rightarrow> user_presence" where
  "memstore_toPresence uid u =
     \<lparr>up_user_id = uid, up_status = (if mu_connectionCount u = 0 then ''offline'' else mu_status u),
      up_connection_count = mu_connectionCount u, up_last_seen = mu_lastSeen u\<rparr>"

text \<open>The part of \<open>Connect\<close> on the user's entry.\<close>

definition open_channel :: "int \<Rightarrow> int \<Rightarrow> int \<Rightarrow> memory_user \<Rightarrow> memory_user" where
  "open_channel t ws ch u =
     u\<lparr>mu_connectionCount := mu_connectionCount u + 1, mu_lastSeen := Some t,
       mu_status := (if mu_status u = [] \<or> mu_status u = ''offline'' then ''online'' else mu_status u),
       mu_channels := AList.update ws (AList.update ch (chan_count (ws_channels u ws) ch + 1) (ws_channels u ws))
         (mu_channels u)\<rparr>"

definition memstore_Connect ::
  "int \<Rightarrow> int \<Rightarrow> int \<Rightarrow> int \<Rightarrow> memory_store \<Rightarrow> (goerr + connect_result) \<times> memory_store" where
  "memstore_Connect t uid ws ch st =
     (let u = open_channel t ws ch (memstore_ensureUser st uid);
          st = st\<lparr>ms_users := AList.update uid u (ms_users st),
                  ms_globalOnline := (if mu_connectionCount u = 1 then List.insert uid (ms_globalOnline st)
                                      else ms_globalOnline st)\<rparr>
      in (Inr \<lparr>BecameOnline = mu_connectionCount u = 1, ConnectCount = mu_connectionCount u\<rparr>,
          memstore_markWorkspaceOnline ws uid st))"

text \<open>The part of \<open>Disconnect\<close> on the user's channels.\<close>

definition close_channel :: "int \<Rightarrow> int \<Rightarrow> memory_user \<Rightarrow> memory_user" where
  "close_channel ws ch u =
     (case map_of (mu_channels u) ws of
        None \<Rightarrow> u
      | Some chs \<Rightarrow>
          let n = chan_count chs ch - 1;
              chs = (if n \<le> 0 then AList.delete ch chs else AList.update ch n chs)
          in u\<lparr>mu_channels := (if chs = [] then AList.delete ws (mu_channels u)
                               else AList.update ws chs (mu_channels u))\<rparr>)"

definition memstore_Disconnect ::
  "int \<Rightarrow> int \<Rightarrow> int \<Rightarrow> int \<Rightarrow> memory_store \<Rightarrow> (goerr + disconnect_result) \<times> memory_store" where
  "memstore_Disconnect t uid ws ch st =
     (case map_of (ms_users st) uid of
        None \<Rightarrow> (Inr \<lparr>BecameOffline = False, DisconnectCount = 0\<rparr>, st)
      | Some u \<Rightarrow>
          let n = (if mu_connectionCount u - 1 < 0 then 0 else mu_connectionCount u - 1);
              u = close_channel ws ch (u\<lparr>mu_connectionCount := n, mu_lastSeen := Some t\<rparr>);
              st = memstore_unmarkWorkspaceOnline ws uid u st;
              u = (if n = 0 then u\<lparr>mu_status := ''offline''\<rparr> else u);
              st = (if n = 0 then st\<lparr>ms_globalOnline := removeAll uid (ms_globalOnline st)\<rparr> else st)
          in (Inr \<lparr>BecameOffline = n = 0, DisconnectCount = n\<rparr>,
              st\<lparr>ms_users := AList.update uid u (ms_users st)\<rparr>))"

definition memstore_Touch :: "int \<Rightarrow> int \<Rightarrow> memory_store \<Rightarrow> (goerr + unit) \<times> memory_store" where
  "memstore_Touch t uid st =
     (case map_of (ms_users st) uid of
        None \<Rightarrow> (Inr (), st)
      | Some u \<Rightarrow> (Inr (), st\<lparr>ms_users := AList.update uid (u\<lparr>mu_lastSeen := Some t\<rparr>) (ms_users st)\<rparr>))"

definition memstore_SetStatus ::
  "int \<Rightarrow> int \<Rightarrow> string \<Rightarrow> memory_store \<Rightarrow> (goerr + user_presence) \<times> memory_store" where
  "memstore_SetStatus t uid status st =
     (let u = memstore_ensureUser st uid;
          status = (if mu_connectionCount u > 0 \<and> status = ''offline'' then ''away'' else status);
          u = u\<lparr>mu_status := status, mu_lastSeen := Some t\<rparr>
      in (Inr (memstore_toPresence uid u), st\<lparr>ms_users := AList.update uid u (ms_users st)\<rparr>))"

definition memstore_Get :: "int \<Rightarrow> int \<Rightarrow> memory_store \<Rightarrow> (goerr + user_presence) \<times> memory_store" where
  "memstore_Get t uid st =
     (case map_of (ms_users st) uid of
        None \<Rightarrow> (Inr \<lparr>up_user_id = uid, up_status = ''offline'', up_connection_count = 0, up_last_seen = None\<rparr>, st)
      | Some u \<Rightarrow> (Inr (memstore_toPresence uid u), st))"

definition memstore_ListOnline :: "int \<Rightarrow> memory_store \<Rightarrow> (goerr + user_presence list) \<times> memory_store" where
  "memstore_ListOnline t st =
     (Inr (List.map_filter (\<lambda>uid. map_option (memstore_toPresence uid) (map_of (ms_users st) uid))
             (ms_globalOnline st)), st)"

definition memstore_ListWorkspaceOnlineUserIDs :: "int \<Rightarrow> int \<Rightarrow> memory_store \<Rightarrow> (goerr + int list) \<times> memory_store" where
  "memstore_ListWorkspaceOnlineUserIDs t ws st = (Inr (ws_users st ws), st)"

definition memstore_ActiveChannels :: "int \<Rightarrow> int \<Rightarrow> memory_store \<Rightarrow> (goerr + (int \<times> int) list) \<times> memory_store" where
  "memstore_ActiveChannels t uid st =
     (case map_of (ms_users st) uid of
        None \<Rightarrow> (Inr [], st)
      | Some u \<Rightarrow>
          (Inr (concat (map (\<lambda>(ws, chs). map (\<lambda>(ch, n). (ws, ch)) (filter (\<lambda>(ch, n). n > 0) chs))
                  (mu_channels u))), st))"

definition memory_presence :: "memory_store presence_store" where
  "memory_presence =
     \<lparr>ps_Connect = memstore_Connect, ps_Disconnect = memstore_Disconnect, ps_Touch = memstore_Touch,
      ps_SetStatus = memstore_SetStatus, ps_Get = memstore_Get, ps_ListOnline = memstore_ListOnline,
      ps_ListWorkspaceOnlineUserIDs = memstore_ListWorkspaceOnlineUserIDs,
      ps_ActiveChannels = memstore_ActiveChannels\<rparr>"

section \<open>What the store represents\<close>

definition user_channels :: "memory_user \<Rightarrow> int \<Rightarrow> int \<Rightarrow> int" where
  "user_channels u ws ch = chan_count (ws_channels u ws) ch"

text \<open>Association lists with distinct keys, without zero counts or empty inner maps.\<close>

definition channels_wf :: "memory_user \<Rightarrow> bool" where
  "channels_wf u \<longleftrightarrow> distinct (map fst (mu_channels u)) \<and>
     (\<forall>ws chs. map_of (mu_channels u) ws = Some chs \<longrightarrow>
        chs \<noteq> [] \<and> distinct (map fst chs) \<and> (\<forall>ch n. map_of chs ch = Some n \<longrightarrow> 0 < n))"

definition user_rel :: "int \<Rightarrow> memory_user \<Rightarrow> connection multiset \<Rightarrow> bool" where
  "user_rel uid u M \<longleftrightarrow> mu_connectionCount u = int (conns_of uid M) \<and> channels_wf u \<and>
     (\<forall>ws ch. user_channels u ws ch = int (count M (uid, ws, ch)))"

definition memory_rel :: "memory_store \<Rightarrow> connection multiset \<Rightarrow> bool" where
  "memory_rel st M \<longleftrightarrow> distinct (map fst (ms_users st)) \<and>
     (\<forall>uid. user_rel uid (memstore_ensureUser st uid) M) \<and>
     set (ms_globalOnline st) = {uid. 0 < conns_of uid M} \<and>
     (\<forall>ws. set (ws_users st ws) = {uid. \<exists>ch. (uid, ws, ch) \<in># M})"

declare map_of_eq_Some_iff [simp del] Some_eq_map_of_iff [simp del]

lemma map_of_update: "map_of (AList.update k v al) = (map_of al)(k \<mapsto> v)"
  by (simp add: update_conv')

lemma map_of_delete: "map_of (AList.delete k al) = (map_of al)(k := None)"
  by (rule delete_conv')

lemma empty_rel: "memory_rel NewMemoryStore {#}"
  by (simp add: memory_rel_def NewMemoryStore_def user_rel_def memstore_ensureUser_def channels_wf_def
      user_channels_def ws_channels_def chan_count_def ws_users_def)

lemma update_nonempty [simp]: "AList.update k v al \<noteq> []"
  by (cases al) auto

lemma some_entry: "al \<noteq> [] \<Longrightarrow> \<exists>k v. map_of al k = Some v"
  by (cases al) auto

lemma ws_channels_nonempty:
  "channels_wf u \<Longrightarrow> ws_channels u ws \<noteq> [] \<longleftrightarrow> (\<exists>ch. 0 < user_channels u ws ch)"
proof (cases "map_of (mu_channels u) ws")
  case (Some chs)
  assume "channels_wf u"
  then have "chs \<noteq> []" and "\<forall>ch n. map_of chs ch = Some n \<longrightarrow> 0 < n"
    using Some by (auto simp: channels_wf_def)
  moreover obtain k v where "map_of chs k = Some v" using some_entry \<open>chs \<noteq> []\<close> by blast
  ultimately have "0 < chan_count chs k" by (simp add: chan_count_def)
  then show ?thesis using Some \<open>chs \<noteq> []\<close> by (auto simp: ws_channels_def user_channels_def)
qed (simp add: ws_channels_def user_channels_def chan_count_def)

text \<open>Opening and closing one connection of a user.\<close>

lemma open_channel_counts:
  "user_channels (open_channel t ws ch u) w c = user_channels u w c + (if w = ws \<and> c = ch then 1 else 0)"
  by (simp add: user_channels_def ws_channels_def chan_count_def open_channel_def map_of_update)

lemma ws_channels_wf:
  "channels_wf u \<Longrightarrow> distinct (map fst (ws_channels u ws)) \<and> (\<forall>ch n. map_of (ws_channels u ws) ch = Some n \<longrightarrow> 0 < n)"
  by (auto simp: channels_wf_def ws_channels_def split: option.splits)

lemma chan_count_nonneg: "channels_wf u \<Longrightarrow> 0 \<le> chan_count (ws_channels u ws) ch"
  using ws_channels_wf [of u ws] by (auto simp: chan_count_def split: option.splits dest: less_imp_le)

lemma open_channel_wf: "channels_wf u \<Longrightarrow> channels_wf (open_channel t ws ch u)"
  using ws_channels_wf [of u ws] chan_count_nonneg [of u ws ch]
  unfolding channels_wf_def open_channel_def
  by (auto simp: map_of_update distinct_update split: if_splits)

lemma close_channel_counts:
  assumes "channels_wf u" and "0 < user_channels u ws ch"
  shows "user_channels (close_channel ws ch u) w c = user_channels u w c - (if w = ws \<and> c = ch then 1 else 0)"
proof -
  obtain chs where chs: "map_of (mu_channels u) ws = Some chs" and n: "0 < chan_count chs ch"
    using assms(2) by (auto simp: user_channels_def ws_channels_def chan_count_def split: option.splits)
  have "chan_count (if chan_count chs ch - 1 \<le> 0 then AList.delete ch chs
      else AList.update ch (chan_count chs ch - 1) chs) c = chan_count chs c - (if c = ch then 1 else 0)"
    using n by (auto simp: chan_count_def map_of_update map_of_delete split: option.splits)
  then show ?thesis
    using chs by (auto simp: user_channels_def ws_channels_def close_channel_def Let_def map_of_update
        map_of_delete chan_count_def)
qed

lemma close_channel_wf:
  assumes "channels_wf u"
  shows "channels_wf (close_channel ws ch u)"
proof (cases "map_of (mu_channels u) ws")
  case None
  then show ?thesis using assms by (simp add: close_channel_def)
next
  case (Some chs)
  define new where "new = (if chan_count chs ch - 1 \<le> 0 then AList.delete ch chs
    else AList.update ch (chan_count chs ch - 1) chs)"
  have "distinct (map fst chs)" "\<forall>c n. map_of chs c = Some n \<longrightarrow> 0 < n"
    using assms Some by (auto simp: channels_wf_def)
  then have new: "distinct (map fst new)" "\<forall>c n. map_of new c = Some n \<longrightarrow> 0 < n"
    by (auto simp: new_def map_of_update map_of_delete distinct_update distinct_delete split: if_splits)
  have "mu_channels (close_channel ws ch u) =
      (if new = [] then AList.delete ws (mu_channels u) else AList.update ws new (mu_channels u))"
    by (simp add: close_channel_def Some Let_def new_def)
  then show ?thesis
    using assms new unfolding channels_wf_def
    by (auto simp: map_of_update map_of_delete distinct_update distinct_delete split: if_splits)
qed

lemma close_channel_fields [simp]:
  "mu_connectionCount (close_channel ws ch u) = mu_connectionCount u"
  "mu_status (close_channel ws ch u) = mu_status u"
  by (simp_all add: close_channel_def Let_def split: option.splits)

text \<open>A user's relation depends on the channels and the count only, and on that user's connections.\<close>

lemma user_rel_cong:
  assumes "user_rel uid u M" and "mu_channels u' = mu_channels u" and "mu_connectionCount u' = mu_connectionCount u"
  shows "user_rel uid u' M"
  using assms by (simp add: user_rel_def channels_wf_def user_channels_def ws_channels_def)

lemma user_rel_other:
  assumes "user_rel v u M" and "fst c \<noteq> v"
  shows "user_rel v u (add_mset c M)" "c \<in># M \<Longrightarrow> user_rel v u (M - {#c#})"
  using assms by (auto simp: user_rel_def conns_of_remove)

lemma ensureUser_update:
  "memstore_ensureUser (st\<lparr>ms_users := AList.update uid u (ms_users st)\<rparr>) v =
    (if v = uid then u else memstore_ensureUser st v)"
  by (simp add: memstore_ensureUser_def map_of_update)

lemma ensureUser_cong: "ms_users st = ms_users st' \<Longrightarrow> memstore_ensureUser st = memstore_ensureUser st'"
  by (simp add: memstore_ensureUser_def fun_eq_iff)

section \<open>The laws\<close>

lemma rel_user: "memory_rel st M \<Longrightarrow> user_rel uid (memstore_ensureUser st uid) M"
  by (simp add: memory_rel_def)

lemma rel_stored: "memory_rel st M \<Longrightarrow> map_of (ms_users st) uid = Some u \<Longrightarrow> user_rel uid u M"
  using rel_user [of st M uid] by (simp add: memstore_ensureUser_def)

lemma rel_missing: "memory_rel st M \<Longrightarrow> map_of (ms_users st) uid = None \<Longrightarrow> conns_of uid M = 0"
  using rel_user [of st M uid] by (simp add: memstore_ensureUser_def user_rel_def)

lemma rel_has_user:
  assumes "memory_rel st M" and "(uid, ws, ch) \<in># M"
  shows "\<exists>u. map_of (ms_users st) uid = Some u"
proof (rule ccontr)
  assume "\<nexists>u. map_of (ms_users st) uid = Some u"
  then have "conns_of uid M = 0" using rel_missing [OF assms(1)] by blast
  moreover have "0 < conns_of uid M" using assms(2) conns_of_pos by blast
  ultimately show False by simp
qed

text \<open>Storing a user's entry that keeps its channels and its count keeps the relation.\<close>

lemma rel_same_user:
  assumes "memory_rel st M" and "user_rel uid u M"
  shows "memory_rel (st\<lparr>ms_users := AList.update uid u (ms_users st)\<rparr>) M"
  using assms
  by (simp add: memory_rel_def ensureUser_update distinct_update ws_users_def)

lemma Connect_law:
  assumes rel: "memory_rel st M" and run: "memstore_Connect t uid ws ch st = (Inr r, st')"
  shows "memory_rel st' (add_mset (uid, ws, ch) M) \<and> (BecameOnline r \<longleftrightarrow> conns_of uid M = 0)"
proof -
  define u where "u = memstore_ensureUser st uid"
  define u1 where "u1 = open_channel t ws ch u"
  have ur: "user_rel uid u M" using rel_user [OF rel] by (simp add: u_def)
  have count: "mu_connectionCount u = int (conns_of uid M)" using ur by (simp add: user_rel_def)
  have count1: "mu_connectionCount u1 = mu_connectionCount u + 1" by (simp add: u1_def open_channel_def)
  have st': "st' = memstore_markWorkspaceOnline ws uid (st\<lparr>ms_users := AList.update uid u1 (ms_users st),
      ms_globalOnline := (if mu_connectionCount u = 0 then List.insert uid (ms_globalOnline st)
        else ms_globalOnline st)\<rparr>)"
    and r: "BecameOnline r \<longleftrightarrow> mu_connectionCount u = 0"
    using run by (simp_all add: memstore_Connect_def Let_def u_def [symmetric] u1_def [symmetric] count1, auto)
  have u1: "user_rel uid u1 (add_mset (uid, ws, ch) M)"
    using ur open_channel_wf [of u t ws ch] open_channel_counts [of t ws ch u] count count1
    by (auto simp: user_rel_def u1_def)
  have "ms_users st' = AList.update uid u1 (ms_users st)" by (simp add: st' memstore_markWorkspaceOnline_def)
  then have users: "memstore_ensureUser st' v = (if v = uid then u1 else memstore_ensureUser st v)" for v
    by (simp add: memstore_ensureUser_def map_of_update)
  have all: "user_rel v (memstore_ensureUser st' v) (add_mset (uid, ws, ch) M)" for v
    using u1 user_rel_other(1) [OF rel_user [OF rel], of "(uid, ws, ch)" v] by (simp add: users)
  have global: "set (ms_globalOnline st') = {v. 0 < conns_of v (add_mset (uid, ws, ch) M)}"
    using rel count by (auto simp: st' memstore_markWorkspaceOnline_def memory_rel_def)
  have wss: "set (ws_users st' w) = {v. \<exists>c. (v, w, c) \<in># add_mset (uid, ws, ch) M}" for w
    using rel by (auto simp: st' memstore_markWorkspaceOnline_def ws_users_def map_of_update memory_rel_def)
  have "distinct (map fst (ms_users st'))"
    using rel by (simp add: st' memstore_markWorkspaceOnline_def distinct_update memory_rel_def)
  then show ?thesis using all global wss r count by (simp add: memory_rel_def)
qed

lemma Disconnect_law:
  assumes rel: "memory_rel st M" and mem: "(uid, ws, ch) \<in># M"
    and run: "memstore_Disconnect t uid ws ch st = (Inr r, st')"
  shows "memory_rel st' (M - {#(uid, ws, ch)#}) \<and> (BecameOffline r \<longleftrightarrow> conns_of uid M = 1)"
proof -
  obtain u where u: "map_of (ms_users st) uid = Some u" using rel_has_user [OF rel mem] by blast
  let ?M = "M - {#(uid, ws, ch)#}"
  have ur: "user_rel uid u M" using rel_stored [OF rel u] .
  have pos: "0 < conns_of uid M" using mem conns_of_pos by blast
  define n where "n = mu_connectionCount u - 1"
  have n: "n = int (conns_of uid ?M)" "\<not> n < 0"
    using ur pos conns_of_remove [OF mem, of uid] by (auto simp: n_def user_rel_def)
  define u1 where "u1 = close_channel ws ch (u\<lparr>mu_connectionCount := n, mu_lastSeen := Some t\<rparr>)"
  define u2 where "u2 = (if n = 0 then u1\<lparr>mu_status := ''offline''\<rparr> else u1)"
  define st1 where "st1 = memstore_unmarkWorkspaceOnline ws uid u1 st"
  have r: "BecameOffline r \<longleftrightarrow> n = 0"
    and st': "st' = (if n = 0 then st1\<lparr>ms_globalOnline := removeAll uid (ms_globalOnline st1)\<rparr> else st1)
      \<lparr>ms_users := AList.update uid u2 (ms_users st1)\<rparr>"
    using run u n(2) by (auto simp: memstore_Disconnect_def Let_def u1_def u2_def st1_def n_def)
  define u0 where "u0 = u\<lparr>mu_connectionCount := n, mu_lastSeen := Some t\<rparr>"
  have u0: "channels_wf u0" "user_channels u0 w c = int (count M (uid, w, c))" for w c
    using ur by (simp_all add: u0_def user_rel_def channels_wf_def user_channels_def ws_channels_def)
  have u1: "channels_wf u1" "user_channels u1 w c = int (count ?M (uid, w, c))" for w c
    using close_channel_wf [OF u0(1)] close_channel_counts [OF u0(1), of ws ch w c] u0(2) mem
    by (auto simp: u1_def u0_def [symmetric])
  have ur2: "user_rel uid u2 ?M"
  proof (rule user_rel_cong)
    show "user_rel uid u1 ?M" using u1 n(1) by (simp add: user_rel_def u1_def)
  qed (simp_all add: u2_def)
  have users1: "ms_users st1 = ms_users st" "ms_globalOnline st1 = ms_globalOnline st"
    by (simp_all add: st1_def memstore_unmarkWorkspaceOnline_def split: option.splits)
  have "ms_users st' = AList.update uid u2 (ms_users st)" by (simp add: st' users1)
  then have users: "memstore_ensureUser st' v = (if v = uid then u2 else memstore_ensureUser st v)" for v
    by (simp add: memstore_ensureUser_def map_of_update)
  have all: "user_rel v (memstore_ensureUser st' v) ?M" for v
    using ur2 user_rel_other(2) [OF rel_user [OF rel] _ mem, of v] by (simp add: users)
  have global: "set (ms_globalOnline st') = {v. 0 < conns_of v ?M}"
    using rel n(1) pos unfolding memory_rel_def st' by (auto simp: users1 conns_of_remove [OF mem])
  have left: "ws_channels u1 ws \<noteq> [] \<longleftrightarrow> (\<exists>c. (uid, ws, c) \<in># ?M)"
    unfolding ws_channels_nonempty [OF u1(1)] u1(2) by (auto simp: count_greater_zero_iff simp del: count_diff)
  have other: "(\<exists>c. (v, w, c) \<in># ?M) \<longleftrightarrow> (\<exists>c. (v, w, c) \<in># M)" if "v \<noteq> uid \<or> w \<noteq> ws" for v w
    using that by (auto simp: in_diff_count dest: in_diffD)
  have wss1: "set (ws_users st w) = {v. \<exists>c. (v, w, c) \<in># M}" for w using rel by (simp add: memory_rel_def)
  have "set (ws_users st1 w) = {v. \<exists>c. (v, w, c) \<in># ?M}" for w
  proof (cases "w = ws \<and> ws_channels u1 ws = []")
    case True
    then have "set (ws_users st1 w) = set (ws_users st w) - {uid}"
      by (auto simp: st1_def memstore_unmarkWorkspaceOnline_def ws_users_def map_of_update split: option.splits)
    moreover have "(uid, ws, c) \<notin># ?M" for c using left True by blast
    ultimately show ?thesis unfolding wss1 using other True by (auto 0 4 dest: in_diffD)
  next
    case False
    then have "ws_users st1 w = ws_users st w"
      by (auto simp: st1_def memstore_unmarkWorkspaceOnline_def ws_users_def map_of_update split: option.splits)
    moreover have "(\<exists>c. (v, w, c) \<in># ?M) \<longleftrightarrow> (\<exists>c. (v, w, c) \<in># M)" for v
      using False left other [of v w] mem by (cases "v = uid \<and> w = ws") auto
    ultimately show ?thesis using wss1 [of w] by simp
  qed
  then have wss: "set (ws_users st' w) = {v. \<exists>c. (v, w, c) \<in># ?M}" for w
    by (simp add: st' ws_users_def)
  have "distinct (map fst (ms_users st'))" using rel by (simp add: st' users1 distinct_update memory_rel_def)
  moreover have "n = 0 \<longleftrightarrow> conns_of uid M = 1"
    using n(1) conns_of_remove [OF mem, of uid] pos by auto
  ultimately show ?thesis using all global wss r by (simp add: memory_rel_def)
qed

lemma Touch_law: "memory_rel st M \<Longrightarrow> memstore_Touch t uid st = (Inr u, st') \<Longrightarrow> memory_rel st' M"
  by (cases "map_of (ms_users st) uid")
    (auto simp: memstore_Touch_def intro!: rel_same_user intro: user_rel_cong [OF rel_stored])

lemma SetStatus_law:
  assumes "memory_rel st M" and "memstore_SetStatus t uid status st = (Inr p, st')"
  shows "memory_rel st' M"
proof -
  obtain u where "st' = st\<lparr>ms_users := AList.update uid u (ms_users st)\<rparr>"
    "mu_channels u = mu_channels (memstore_ensureUser st uid)"
    "mu_connectionCount u = mu_connectionCount (memstore_ensureUser st uid)"
    using assms(2) by (auto simp: memstore_SetStatus_def Let_def)
  then show ?thesis using rel_same_user [OF assms(1)] user_rel_cong [OF rel_user [OF assms(1)]] by blast
qed

lemma Get_law:
  assumes "memory_rel st M" and "memstore_Get t uid st = (Inr p, st')"
  shows "st' = st \<and> up_user_id p = uid \<and> up_connection_count p = int (conns_of uid M) \<and>
    (conns_of uid M = 0 \<longrightarrow> up_status p = ''offline'')"
  using assms rel_stored [OF assms(1), of uid] rel_missing [OF assms(1), of uid]
  by (auto simp: memstore_Get_def memstore_toPresence_def user_rel_def split: option.splits)

lemma ListOnline_law:
  assumes "memory_rel st M" and "memstore_ListOnline t st = (Inr ps, st')"
  shows "st' = st \<and> up_user_id ` set ps = {uid. 0 < conns_of uid M}"
proof -
  have online: "set (ms_globalOnline st) = {uid. 0 < conns_of uid M}" using assms(1) by (simp add: memory_rel_def)
  have "\<exists>u. map_of (ms_users st) uid = Some u" if "0 < conns_of uid M" for uid
    using rel_missing [OF assms(1), of uid] that by (cases "map_of (ms_users st) uid") auto
  then have known: "\<exists>u. map_of (ms_users st) uid = Some u" if "uid \<in> set (ms_globalOnline st)" for uid
    using that online by blast
  have "map up_user_id (List.map_filter (\<lambda>uid. map_option (memstore_toPresence uid) (map_of (ms_users st) uid)) uids)
      = uids" if "set uids \<subseteq> set (ms_globalOnline st)" for uids
    using that
  proof (induction uids)
    case (Cons uid uids)
    obtain u where "map_of (ms_users st) uid = Some u" using known [of uid] Cons.prems by auto
    then show ?case using Cons by (simp add: map_filter_simps memstore_toPresence_def)
  qed (simp add: map_filter_simps)
  from this [of "ms_globalOnline st"] have "map up_user_id ps = ms_globalOnline st"
    using assms(2) by (auto simp: memstore_ListOnline_def)
  then have "up_user_id ` set ps = set (ms_globalOnline st)"
    by (metis set_map)
  then show ?thesis using assms(2) online by (simp add: memstore_ListOnline_def)
qed

lemma ActiveChannels_law:
  assumes rel: "memory_rel st M" and run: "memstore_ActiveChannels t uid st = (Inr refs, st')"
  shows "st' = st \<and> set refs = {(ws, ch). (uid, ws, ch) \<in># M}"
proof (cases "map_of (ms_users st) uid")
  case None
  then have "conns_of uid M = 0" using rel_missing [OF rel] by blast
  then have "(uid, ws, ch) \<notin># M" for ws ch using conns_of_pos [of uid M] by auto
  then show ?thesis using run None by (simp add: memstore_ActiveChannels_def)
next
  case (Some u)
  have u: "user_rel uid u M" using rel_stored [OF rel Some] .
  have dist: "distinct (map fst (mu_channels u))"
    and inner: "\<And>ws chs. map_of (mu_channels u) ws = Some chs \<Longrightarrow> distinct (map fst chs)"
    using u by (auto simp: user_rel_def channels_wf_def)
  have count: "user_channels u ws ch = int (count M (uid, ws, ch))" for ws ch
    using u by (simp add: user_rel_def)
  have "(ws, ch) \<in> set refs \<longleftrightarrow> (uid, ws, ch) \<in># M" for ws ch
  proof -
    have "(ws, ch) \<in> set refs \<longleftrightarrow> (\<exists>chs n. (ws, chs) \<in> set (mu_channels u) \<and> (ch, n) \<in> set chs \<and> 0 < n)"
      using run Some by (fastforce simp: memstore_ActiveChannels_def)
    also have "\<dots> \<longleftrightarrow> (\<exists>chs n. map_of (mu_channels u) ws = Some chs \<and> map_of chs ch = Some n \<and> 0 < n)"
      using inner map_of_eq_Some_iff [OF dist] map_of_eq_Some_iff by metis
    also have "\<dots> \<longleftrightarrow> 0 < user_channels u ws ch"
      by (auto simp: user_channels_def ws_channels_def chan_count_def split: option.splits)
    finally show ?thesis by (simp add: count)
  qed
  then show ?thesis using run Some by (auto simp: memstore_ActiveChannels_def)
qed

lemma ListWorkspace_law:
  "memory_rel st M \<Longrightarrow> memstore_ListWorkspaceOnlineUserIDs t ws st = (Inr uids, st') \<Longrightarrow>
    st' = st \<and> set uids = {uid. \<exists>ch. (uid, ws, ch) \<in># M}"
  by (auto simp: memstore_ListWorkspaceOnlineUserIDs_def memory_rel_def)

interpretation memory_model: presence_model memory_presence memory_rel "\<lambda>_ _. True" "\<lambda>_. True"
proof (unfold_locales, goal_cases)
  case (1 st M t uid ws ch r st')
  then show ?case using Connect_law by (simp add: memory_presence_def)
next
  case (2 st M t uid ws ch r st')
  then show ?case using Disconnect_law by (simp add: memory_presence_def)
next
  case (3 st M t uid u st')
  then show ?case using Touch_law by (simp add: memory_presence_def)
next
  case (4 st M t uid status p st')
  then show ?case using SetStatus_law by (simp add: memory_presence_def)
next
  case (5 st M t uid refs st')
  then show ?case using ActiveChannels_law [of st M t uid refs st'] by (simp add: memory_presence_def)
next
  case (6 st M t uid p st')
  then show ?case using Get_law [of st M t uid p st'] by (simp add: memory_presence_def)
next
  case (7 st M t ps st')
  then show ?case using ListOnline_law [of st M t ps st'] by (simp add: memory_presence_def)
next
  case (8 st M t ws uids st')
  then show ?case using ListWorkspace_law [of st M t ws uids st'] by (simp add: memory_presence_def)
qed

section \<open>Properties\<close>

text \<open>The memory store never fails, so a history runs to its end.\<close>

lemma memory_step_total: "\<exists>st'. pevent_step memory_presence e st = (False, st')"
proof -
  obtain t ev where e: "e = (t, ev)" by (cases e)
  show ?thesis unfolding e
    by (cases ev; cases "map_of (ms_users (fst st)) (case ev of PDisconnect u _ _ \<Rightarrow> u | PTouch u \<Rightarrow> u | _ \<Rightarrow> 0)")
      (auto simp: presence_Connect_def presence_Disconnect_def presence_Touch_def presence_UpdateStatus_def
        memory_presence_def memstore_Connect_def memstore_Disconnect_def memstore_Touch_def memstore_SetStatus_def
        memstore_ActiveChannels_def Let_def split: option.splits)
qed

lemma memory_run_total: "\<exists>st'. presence_run memory_presence evs st = Some st'"
proof (induction evs arbitrary: st)
  case (Cons e evs)
  then show ?case using memory_step_total [of e st] by auto
qed simp

text \<open>C13: After any sequence of connects, disconnects of open connections, touches and status changes on a fresh
  memory store, run through the presence service, the store answers as the multiset of open connections does:
  \<open>ListOnline\<close> gives the users with an open connection, \<open>ListWorkspaceOnlineUserIDs\<close> those with one in the
  workspace, \<open>ActiveChannels\<close> a user's workspace and channel pairs, \<open>Get\<close> the number of connections (and status offline
  without one); and the hub was told of each user online and offline in strict alternation, the last announcement
  matching whether the user has a connection.\<close>

theorem memory_presence_tracks_connections:
  assumes "open_after {#} evs = Some M"
  shows "\<exists>st out. presence_run memory_presence evs (NewMemoryStore, []) = Some (st, out) \<and> announced M out \<and>
    (\<exists>ps. memstore_ListOnline t st = (Inr ps, st) \<and> up_user_id ` set ps = {uid. 0 < conns_of uid M}) \<and>
    (\<forall>ws. \<exists>uids. memstore_ListWorkspaceOnlineUserIDs t ws st = (Inr uids, st) \<and>
       set uids = {uid. \<exists>ch. (uid, ws, ch) \<in># M}) \<and>
    (\<forall>uid. (\<exists>refs. memstore_ActiveChannels t uid st = (Inr refs, st) \<and>
         set refs = {(ws, ch). (uid, ws, ch) \<in># M}) \<and>
       (\<exists>p. memstore_Get t uid st = (Inr p, st) \<and> up_connection_count p = int (conns_of uid M) \<and>
         (conns_of uid M = 0 \<longrightarrow> up_status p = ''offline'')))"
proof -
  obtain st out where run: "presence_run memory_presence evs (NewMemoryStore, []) = Some (st, out)"
    using memory_run_total [of evs "(NewMemoryStore, [])"] by auto
  have after: "memory_rel st M \<and> announced M out"
    using memory_model.run_tracks [OF _ run assms] empty_rel by (simp add: announced_def)
  have "\<exists>ps. memstore_ListOnline t st = (Inr ps, st)" "\<exists>uids. memstore_ListWorkspaceOnlineUserIDs t ws st = (Inr uids, st)"
    "\<exists>refs. memstore_ActiveChannels t uid st = (Inr refs, st)" "\<exists>p. memstore_Get t uid st = (Inr p, st)" for ws uid
    by (auto simp: memstore_ListOnline_def memstore_ListWorkspaceOnlineUserIDs_def memstore_ActiveChannels_def
        memstore_Get_def split: option.split)
  then show ?thesis using run after ListOnline_law [of st M] ListWorkspace_law [of st M]
      ActiveChannels_law [of st M] Get_law [of st M] by meson
qed

theorem memory_presence_tracks_connections_witness:
  "\<exists>st out. presence_run memory_presence
      [(1, PConnect 7 1 10), (2, PConnect 7 1 10), (3, PConnect 8 2 20), (4, PDisconnect 7 1 10), (5, PDisconnect 8 2 20)]
      (NewMemoryStore, []) = Some (st, out) \<and> announced {#(7, 1, 10)#} out"
  using memory_presence_tracks_connections [of "[(1, PConnect 7 1 10), (2, PConnect 7 1 10), (3, PConnect 8 2 20),
    (4, PDisconnect 7 1 10), (5, PDisconnect 8 2 20)]" "{#(7, 1, 10)#}" 6]
  by simp blast

end
