(* ===== verification/Realtime_Hub_Inv.thy ===== *)
theory Realtime_Hub_Inv
  imports Realtime_Hub Presence_Memory
begin

text \<open>
  The invariant of the hub: the maps agree with the registered clients, the channel of a registered client is
  open, and the presence tracker has been told of exactly the registered clients. With it: which steps can
  panic, who receives an event, the connection limits, and the presence store of a node behind its hub.
\<close>

section \<open>Clients of the channels\<close>

definition connection_of :: "client \<Rightarrow> connection" where
  "connection_of c = (cl_userID c, cl_workspaceID c, cl_channelID c)"

definition count_by :: "('c \<Rightarrow> 'k) \<Rightarrow> 'k \<Rightarrow> 'c multiset \<Rightarrow> nat" where
  "count_by f k M = size (filter_mset (\<lambda>c. f c = k) M)"

definition counts_ok :: "('c \<Rightarrow> 'k) \<Rightarrow> ('k \<rightharpoonup> int) \<Rightarrow> 'c multiset \<Rightarrow> bool" where
  "counts_ok f m M \<longleftrightarrow> (\<forall>k. m k = (if count_by f k M = 0 then None else Some (int (count_by f k M))))"

lemma count_by_add [simp]: "count_by f k (add_mset c M) = (if f c = k then Suc (count_by f k M) else count_by f k M)"
  by (simp add: count_by_def)

lemma count_by_empty [simp]: "count_by f k {#} = 0"
  by (simp add: count_by_def)

lemma counts_ok_empty [simp]: "counts_ok f Map.empty {#}"
  by (simp add: counts_ok_def)

lemma counts_ok_get: "counts_ok f m M \<Longrightarrow> counter_get m k = int (count_by f k M)"
  by (simp add: counts_ok_def counter_get_def)

lemma counts_ok_increment:
  "counts_ok f m M \<Longrightarrow> counts_ok f (m(f c \<mapsto> counter_get m (f c) + 1)) (add_mset c M)"
  by (simp add: counts_ok_get) (simp add: counts_ok_def)

lemma counts_ok_decrement: "counts_ok f m (add_mset c M) \<Longrightarrow> counts_ok f (decrement m (f c)) M"
  by (simp add: decrement_def counts_ok_get) (auto simp: counts_ok_def)

lemma mset_update:
  assumes "distinct (map fst al)"
  shows "mset (concat (map snd (AList.update k v al))) + mset (case map_of al k of None \<Rightarrow> [] | Some w \<Rightarrow> w) =
    mset (concat (map snd al)) + mset v"
  using assms
proof (induction al)
  case (Cons p al)
  obtain j w where p: "p = (j, w)" by (cases p)
  show ?case
  proof (cases "j = k")
    case True
    then show ?thesis by (simp add: p add_ac)
  next
    case False
    have "mset (concat (map snd (AList.update k v al))) + mset (case map_of al k of None \<Rightarrow> [] | Some w \<Rightarrow> w) =
        mset (concat (map snd al)) + mset v" using Cons by simp
    then show ?thesis using False by (simp add: p add_ac)
  qed
qed simp

definition channels_ok :: "(int \<times> client list) list \<Rightarrow> bool" where
  "channels_ok al \<longleftrightarrow> distinct (map fst al) \<and>
     (\<forall>ch cs. map_of al ch = Some cs \<longrightarrow> distinct cs \<and> (\<forall>c\<in>set cs. cl_channelID c = ch))"

lemma in_registered:
  assumes "channels_ok (h_channels h)"
  shows "c \<in> set (registered h) \<longleftrightarrow> c \<in> set (channel_clients h (cl_channelID c))"
proof
  assume "c \<in> set (registered h)"
  then obtain ch cs where "(ch, cs) \<in> set (h_channels h)" "c \<in> set cs" by (auto simp: registered_def)
  then show "c \<in> set (channel_clients h (cl_channelID c))"
    using assms map_of_eq_Some_iff [of "h_channels h" ch cs] by (auto simp: channels_ok_def channel_clients_def)
next
  assume "c \<in> set (channel_clients h (cl_channelID c))"
  then obtain cs where "map_of (h_channels h) (cl_channelID c) = Some cs" "c \<in> set cs"
    by (cases "map_of (h_channels h) (cl_channelID c)") (auto simp: channel_clients_def)
  then show "c \<in> set (registered h)" by (force simp: registered_def dest: map_of_SomeD)
qed

lemma in_channel:
  "channels_ok (h_channels h) \<Longrightarrow> c \<in> set (channel_clients h ch) \<longleftrightarrow> c \<in> set (registered h) \<and> cl_channelID c = ch"
  using in_registered [of h c] by (auto simp: channels_ok_def channel_clients_def split: option.splits)

lemma distinct_channel: "channels_ok (h_channels h) \<Longrightarrow> distinct (channel_clients h ch)"
  by (auto simp: channels_ok_def channel_clients_def split: option.splits)

lemma channels_ok_update:
  "channels_ok al \<Longrightarrow> distinct cs \<Longrightarrow> \<forall>c\<in>set cs. cl_channelID c = ch \<Longrightarrow> channels_ok (AList.update ch cs al)"
  by (auto simp: channels_ok_def map_of_update distinct_update)

lemma register_mset:
  assumes "channels_ok (h_channels h)" and "c \<notin> set (registered h)"
  shows "mset (concat (map snd (AList.update (cl_channelID c)
      (List.insert c (channel_clients h (cl_channelID c))) (h_channels h)))) = add_mset c (mset (registered h))"
proof -
  let ?cs = "channel_clients h (cl_channelID c)"
  have "c \<notin> set ?cs" using assms in_channel by blast
  then have new: "mset (List.insert c ?cs) = add_mset c (mset ?cs)" by (simp add: List.insert_def)
  have "distinct (map fst (h_channels h))" using assms(1) by (simp add: channels_ok_def)
  from mset_update [OF this, of "cl_channelID c" "List.insert c ?cs"]
  show ?thesis unfolding new
    by (cases "map_of (h_channels h) (cl_channelID c)") (simp_all add: channel_clients_def registered_def)
qed

lemma unregister_mset:
  assumes "channels_ok (h_channels h)" and "c \<in> set (channel_clients h (cl_channelID c))"
  shows "add_mset c (mset (concat (map snd (AList.update (cl_channelID c)
      (removeAll c (channel_clients h (cl_channelID c))) (h_channels h))))) = mset (registered h)"
proof -
  let ?cs = "channel_clients h (cl_channelID c)"
  have new: "mset ?cs = add_mset c (mset (removeAll c ?cs))"
    using assms(2) distinct_channel [OF assms(1)] by (simp add: distinct_remove1_removeAll [symmetric])
  obtain w where w: "map_of (h_channels h) (cl_channelID c) = Some w" "w = ?cs"
    using assms(2) by (cases "map_of (h_channels h) (cl_channelID c)") (auto simp: channel_clients_def)
  have "distinct (map fst (h_channels h))" using assms(1) by (simp add: channels_ok_def)
  from mset_update [OF this, of "cl_channelID c" "removeAll c ?cs"]
  show ?thesis using new w by (simp add: registered_def)
qed

section \<open>The invariant\<close>

lemma open_after_append:
  "open_after M (xs @ ys) = (case open_after M xs of None \<Rightarrow> None | Some M' \<Rightarrow> open_after M' ys)"
  by (induction M xs rule: open_after.induct) auto

definition hub_ok :: "hub \<Rightarrow> bool" where
  "hub_ok h \<longleftrightarrow> channels_ok (h_channels h) \<and>
     set (registered h) \<subseteq> set (h_accepted h) - set (h_registering h) \<and> set (h_registering h) \<subseteq> set (h_accepted h) \<and>
     (\<forall>c. q_closed (h_sends h c) \<longrightarrow> c \<in> set (h_accepted h) - set (h_registering h) - set (registered h)) \<and>
     (\<not> h_done h \<longrightarrow> counts_ok cl_userID (h_userConnections h) (mset (registered h)) \<and>
        counts_ok cl_remoteIP (h_ipConnections h) (mset (registered h)) \<and>
        fst ` set (h_delivering h) \<subseteq> set (registered h)) \<and>
     (h_presence h \<longrightarrow> open_after {#} (h_told h) = Some (image_mset connection_of (mset (registered h))))"

lemma hub_okI:
  assumes "channels_ok (h_channels h)" and "set (registered h) \<subseteq> set (h_accepted h) - set (h_registering h)"
    and "set (h_registering h) \<subseteq> set (h_accepted h)"
    and "\<And>c. q_closed (h_sends h c) \<Longrightarrow> c \<in> set (h_accepted h) - set (h_registering h) - set (registered h)"
    and "\<not> h_done h \<Longrightarrow> counts_ok cl_userID (h_userConnections h) (mset (registered h)) \<and>
      counts_ok cl_remoteIP (h_ipConnections h) (mset (registered h))"
    and "\<not> h_done h \<Longrightarrow> fst ` set (h_delivering h) \<subseteq> set (registered h)"
    and "h_presence h \<Longrightarrow> open_after {#} (h_told h) = Some (image_mset connection_of (mset (registered h)))"
  shows "hub_ok h"
  using assms unfolding hub_ok_def by blast

lemma hub_okD:
  assumes "hub_ok h"
  shows "channels_ok (h_channels h)" "set (registered h) \<subseteq> set (h_accepted h) - set (h_registering h)"
    "set (h_registering h) \<subseteq> set (h_accepted h)"
    "q_closed (h_sends h c) \<Longrightarrow> c \<in> set (h_accepted h) - set (h_registering h) - set (registered h)"
    "\<not> h_done h \<Longrightarrow> counts_ok cl_userID (h_userConnections h) (mset (registered h))"
    "\<not> h_done h \<Longrightarrow> counts_ok cl_remoteIP (h_ipConnections h) (mset (registered h))"
    "\<not> h_done h \<Longrightarrow> fst ` set (h_delivering h) \<subseteq> set (registered h)"
    "h_presence h \<Longrightarrow> open_after {#} (h_told h) = Some (image_mset connection_of (mset (registered h)))"
  using assms unfolding hub_ok_def by blast+

text \<open>The fields the invariant reads.\<close>

lemma registered_cong: "h_channels h' = h_channels h \<Longrightarrow> registered h' = registered h"
  by (simp add: registered_def)

lemma hub_ok_cong:
  assumes "hub_ok h"
    and "h_channels h' = h_channels h" "h_accepted h' = h_accepted h" "h_registering h' = h_registering h"
    and "h_done h' = h_done h" "h_userConnections h' = h_userConnections h" "h_ipConnections h' = h_ipConnections h"
    and "h_presence h' = h_presence h" "h_told h' = h_told h"
    and "set (h_delivering h') \<subseteq> set (h_delivering h)"
    and "\<And>c. q_closed (h_sends h' c) = q_closed (h_sends h c)"
  shows "hub_ok h'"
  using assms(1,10) unfolding hub_ok_def assms(2-9) assms(11) registered_cong [OF assms(2)] by blast

lemma hub_ok_start: "hub_ok (NewHub cfg br presence sequencer)"
  by (simp add: hub_ok_def NewHub_def channels_ok_def registered_def)

text \<open>What the handlers of the loop do to the fields.\<close>

lemma broker_call_fields [simp]:
  "h_channels (broker_call b h) = h_channels h" "h_userConnections (broker_call b h) = h_userConnections h"
  "h_ipConnections (broker_call b h) = h_ipConnections h" "h_done (broker_call b h) = h_done h"
  "h_sends (broker_call b h) = h_sends h" "h_accepted (broker_call b h) = h_accepted h"
  "h_registering (broker_call b h) = h_registering h" "h_delivering (broker_call b h) = h_delivering h"
  "h_told (broker_call b h) = h_told h" "h_presence (broker_call b h) = h_presence h"
  "h_panicked (broker_call b h) = h_panicked h"
  by (simp_all add: broker_call_def)

lemma presence_call_fields [simp]:
  "h_channels (presence_call t ev h) = h_channels h" "h_userConnections (presence_call t ev h) = h_userConnections h"
  "h_ipConnections (presence_call t ev h) = h_ipConnections h" "h_done (presence_call t ev h) = h_done h"
  "h_sends (presence_call t ev h) = h_sends h" "h_accepted (presence_call t ev h) = h_accepted h"
  "h_registering (presence_call t ev h) = h_registering h" "h_delivering (presence_call t ev h) = h_delivering h"
  "h_told (presence_call t ev h) = (if h_presence h then h_told h @ [(t, ev)] else h_told h)"
  "h_presence (presence_call t ev h) = h_presence h" "h_panicked (presence_call t ev h) = h_panicked h"
  by (simp_all add: presence_call_def)

lemma close_send_fields [simp]:
  "h_channels (close_send c h) = h_channels h" "h_userConnections (close_send c h) = h_userConnections h"
  "h_ipConnections (close_send c h) = h_ipConnections h" "h_done (close_send c h) = h_done h"
  "h_accepted (close_send c h) = h_accepted h" "h_registering (close_send c h) = h_registering h"
  "h_delivering (close_send c h) = h_delivering h" "h_told (close_send c h) = h_told h"
  "h_presence (close_send c h) = h_presence h"
  "q_closed (h_sends (close_send c h) d) \<longleftrightarrow> d = c \<or> q_closed (h_sends h d)"
  "h_panicked (close_send c h) \<longleftrightarrow> h_panicked h \<or> q_closed (h_sends h c)"
  by (auto simp: close_send_def)

lemma sendToClient_fields [simp]:
  "h_channels (hub_sendToClient c ev h) = h_channels h"
  "h_userConnections (hub_sendToClient c ev h) = h_userConnections h"
  "h_ipConnections (hub_sendToClient c ev h) = h_ipConnections h" "h_done (hub_sendToClient c ev h) = h_done h"
  "h_accepted (hub_sendToClient c ev h) = h_accepted h" "h_registering (hub_sendToClient c ev h) = h_registering h"
  "h_delivering (hub_sendToClient c ev h) = h_delivering h" "h_told (hub_sendToClient c ev h) = h_told h"
  "h_presence (hub_sendToClient c ev h) = h_presence h"
  "q_closed (h_sends (hub_sendToClient c ev h) d) = q_closed (h_sends h d)"
  "h_panicked (hub_sendToClient c ev h) \<longleftrightarrow> h_panicked h \<or> q_closed (h_sends h c)"
  by (auto simp: hub_sendToClient_def Let_def)

lemma clientError_fields [simp]:
  "h_channels (client_sendClientError t c m h) = h_channels h"
  "h_userConnections (client_sendClientError t c m h) = h_userConnections h"
  "h_ipConnections (client_sendClientError t c m h) = h_ipConnections h"
  "h_done (client_sendClientError t c m h) = h_done h"
  "h_accepted (client_sendClientError t c m h) = h_accepted h"
  "h_registering (client_sendClientError t c m h) = h_registering h"
  "h_delivering (client_sendClientError t c m h) = h_delivering h"
  "h_told (client_sendClientError t c m h) = h_told h" "h_presence (client_sendClientError t c m h) = h_presence h"
  "q_closed (h_sends (client_sendClientError t c m h) d) = q_closed (h_sends h d)"
  "h_panicked (client_sendClientError t c m h) \<longleftrightarrow> h_panicked h \<or> q_closed (h_sends h c)"
  by (auto simp: client_sendClientError_def Let_def split: prod.split)

lemma publish_fields [simp]:
  "h_channels (hub_Publish t ev h) = h_channels h" "h_userConnections (hub_Publish t ev h) = h_userConnections h"
  "h_ipConnections (hub_Publish t ev h) = h_ipConnections h" "h_done (hub_Publish t ev h) = h_done h"
  "h_accepted (hub_Publish t ev h) = h_accepted h" "h_registering (hub_Publish t ev h) = h_registering h"
  "h_delivering (hub_Publish t ev h) = h_delivering h" "h_told (hub_Publish t ev h) = h_told h"
  "h_presence (hub_Publish t ev h) = h_presence h" "h_sends (hub_Publish t ev h) = h_sends h"
  "h_panicked (hub_Publish t ev h) = h_panicked h"
  by (simp_all add: hub_Publish_def broker_publish_def hub_enqueueBroadcast_def Let_def
      split: prod.split option.split broker.split)

lemma handleRegister_fields [simp]:
  "h_channels (hub_handleRegister t c h) = AList.update (cl_channelID c)
     (List.insert c (channel_clients h (cl_channelID c))) (h_channels h)"
  "h_userConnections (hub_handleRegister t c h) =
     (h_userConnections h)(cl_userID c \<mapsto> counter_get (h_userConnections h) (cl_userID c) + 1)"
  "h_ipConnections (hub_handleRegister t c h) =
     (h_ipConnections h)(cl_remoteIP c \<mapsto> counter_get (h_ipConnections h) (cl_remoteIP c) + 1)"
  "h_done (hub_handleRegister t c h) = h_done h" "h_accepted (hub_handleRegister t c h) = h_accepted h"
  "h_sends (hub_handleRegister t c h) = h_sends h" "h_delivering (hub_handleRegister t c h) = h_delivering h"
  "h_registering (hub_handleRegister t c h) = h_registering h"
  "h_presence (hub_handleRegister t c h) = h_presence h" "h_panicked (hub_handleRegister t c h) = h_panicked h"
  "h_told (hub_handleRegister t c h) = (if h_presence h
     then h_told h @ [(t, PConnect (cl_userID c) (cl_workspaceID c) (cl_channelID c))] else h_told h)"
  by (simp_all add: hub_handleRegister_def Let_def)

lemma handleUnregister_gone: "c \<notin> set (channel_clients h (cl_channelID c)) \<Longrightarrow> hub_handleUnregister t c h = h"
  by (simp add: hub_handleUnregister_def Let_def)

lemma handleUnregister_fields:
  fixes t :: int and d :: client
  assumes "c \<in> set (channel_clients h (cl_channelID c))"
  defines "h' \<equiv> hub_handleUnregister t c h"
  shows "h_channels h' = AList.update (cl_channelID c) (removeAll c (channel_clients h (cl_channelID c))) (h_channels h)"
    "h_userConnections h' = decrement (h_userConnections h) (cl_userID c)"
    "h_ipConnections h' = decrement (h_ipConnections h) (cl_remoteIP c)"
    "h_done h' = h_done h" "h_accepted h' = h_accepted h" "h_delivering h' = h_delivering h"
    "h_registering h' = h_registering h" "h_presence h' = h_presence h"
    "q_closed (h_sends h' d) \<longleftrightarrow> d = c \<or> q_closed (h_sends h d)"
    "h_panicked h' \<longleftrightarrow> h_panicked h \<or> q_closed (h_sends h c)"
    "h_told h' = (if h_presence h
       then h_told h @ [(t, PDisconnect (cl_userID c) (cl_workspaceID c) (cl_channelID c))] else h_told h)"
  using assms(1) by (simp_all add: h'_def hub_handleUnregister_def Let_def)

section \<open>Every step keeps it\<close>

lemma ok_register:
  assumes ok: "hub_ok h" and c: "c \<in> set (h_registering h)"
  shows "hub_ok ((hub_handleRegister t c h)\<lparr>h_registering := removeAll c (h_registering h), h_reading := cs\<rparr>)"
proof -
  let ?h = "(hub_handleRegister t c h)\<lparr>h_registering := removeAll c (h_registering h), h_reading := cs\<rparr>"
  note d = hub_okD [OF ok]
  have new: "c \<notin> set (registered h)" using d(2) c by blast
  have reg: "mset (registered ?h) = add_mset c (mset (registered h))"
    using register_mset [OF d(1) new] by (simp add: registered_def)
  then have set: "set (registered ?h) = insert c (set (registered h))"
    by (metis set_mset_add_mset_insert set_mset_mset)
  show ?thesis
  proof (rule hub_okI)
    have "channels_ok (AList.update (cl_channelID c) (List.insert c (channel_clients h (cl_channelID c))) (h_channels h))"
      by (rule channels_ok_update [OF d(1)]) (simp_all add: in_channel [OF d(1)] distinct_channel [OF d(1)])
    then show "channels_ok (h_channels ?h)" by simp
    show "set (registered ?h) \<subseteq> set (h_accepted ?h) - set (h_registering ?h)"
      using d(2,3) c unfolding set by auto
    show "d \<in> set (h_accepted ?h) - set (h_registering ?h) - set (registered ?h)" if "q_closed (h_sends ?h d)" for d
      using d(4) [of d] that c unfolding set by auto
    show "h_presence ?h \<Longrightarrow> open_after {#} (h_told ?h) = Some (image_mset connection_of (mset (registered ?h)))"
      using d(8) unfolding reg by (simp add: open_after_append connection_of_def)
    show "\<not> h_done ?h \<Longrightarrow> fst ` set (h_delivering ?h) \<subseteq> set (registered ?h)"
      using d(7) unfolding set by auto
  qed (use d(3,5,6) in \<open>auto simp: reg counts_ok_increment\<close>)
qed

lemma ok_unregister:
  assumes ok: "hub_ok h" and idle: "h_delivering h = []"
  shows "hub_ok ((hub_handleUnregister t c h)\<lparr>h_unregistering := cs\<rparr>)"
proof (cases "c \<in> set (channel_clients h (cl_channelID c))")
  case False
  then show ?thesis using ok by (auto simp: handleUnregister_gone intro: hub_ok_cong)
next
  case True
  let ?h = "(hub_handleUnregister t c h)\<lparr>h_unregistering := cs\<rparr>"
  note f = handleUnregister_fields [OF True, of t]
  note d = hub_okD [OF ok]
  have reg: "mset (registered h) = add_mset c (mset (registered ?h))"
    using unregister_mset [OF d(1) True] by (simp add: registered_def f)
  have set: "set (registered h) = insert c (set (registered ?h))"
    by (metis reg set_mset_add_mset_insert set_mset_mset)
  have "channels_ok (AList.update (cl_channelID c) (removeAll c (channel_clients h (cl_channelID c))) (h_channels h))"
    by (rule channels_ok_update [OF d(1)]) (simp_all add: in_channel [OF d(1)] distinct_channel [OF d(1)] distinct_removeAll)
  then have ch: "channels_ok (h_channels ?h)" by (simp add: f)
  have gone: "c \<notin> set (registered ?h)"
    using in_registered [OF ch, of c] by (simp add: channel_clients_def f map_of_update)
  show ?thesis
  proof (rule hub_okI [OF ch])
    show "set (registered ?h) \<subseteq> set (h_accepted ?h) - set (h_registering ?h)"
      using d(2) unfolding set by (auto simp: f)
    show "e \<in> set (h_accepted ?h) - set (h_registering ?h) - set (registered ?h)" if "q_closed (h_sends ?h e)" for e
      using d(2) d(4) [of e] that gone unfolding set by (auto simp: f)
    show "h_presence ?h \<Longrightarrow> open_after {#} (h_told ?h) = Some (image_mset connection_of (mset (registered ?h)))"
      using d(8) unfolding reg by (simp add: open_after_append connection_of_def f)
    show "\<not> h_done ?h \<Longrightarrow> counts_ok cl_userID (h_userConnections ?h) (mset (registered ?h)) \<and>
        counts_ok cl_remoteIP (h_ipConnections ?h) (mset (registered ?h))"
      using d(5,6) unfolding reg by (simp add: f counts_ok_decrement)
  qed (use d(3) idle in \<open>simp_all add: f\<close>)
qed

lemma shutdown_fields [simp]:
  "h_accepted (shutdown_clients t cs h) = h_accepted h" "h_registering (shutdown_clients t cs h) = h_registering h"
  "h_done (shutdown_clients t cs h) = h_done h" "h_presence (shutdown_clients t cs h) = h_presence h"
  "q_closed (h_sends (shutdown_clients t cs h) d) \<longleftrightarrow> d \<in> set cs \<or> q_closed (h_sends h d)"
  by (induction cs arbitrary: h) auto

lemma shutdown_told:
  "h_presence h \<Longrightarrow> open_after {#} (h_told h) = Some (image_mset connection_of (mset cs) + M) \<Longrightarrow>
    open_after {#} (h_told (shutdown_clients t cs h)) = Some M"
  by (induction cs arbitrary: h) (auto simp: open_after_append connection_of_def)

lemma shutdown_panics:
  "distinct cs \<Longrightarrow> \<forall>c\<in>set cs. \<not> q_closed (h_sends h c) \<Longrightarrow>
    h_panicked (shutdown_clients t cs h) = h_panicked h"
proof (induction cs arbitrary: h)
  case (Cons c cs)
  let ?h = "close_send c (presence_call t (PDisconnect (cl_userID c) (cl_workspaceID c) (cl_channelID c)) h)"
  have "\<forall>d\<in>set cs. \<not> q_closed (h_sends ?h d)" using Cons.prems by auto
  then show ?case using Cons.IH [of ?h] Cons.prems by simp
qed simp

lemma distinct_registered: "channels_ok al \<Longrightarrow> distinct (concat (map snd al))"
proof (induction al)
  case (Cons p al)
  obtain ch cs where p: "p = (ch, cs)" by (cases p)
  have ok: "channels_ok al" using Cons.prems p by (auto simp: channels_ok_def split: if_splits)
  have "map_of (p # al) ch = Some cs" by (simp add: p)
  then have cs: "distinct cs" "\<forall>c\<in>set cs. cl_channelID c = ch" and fresh: "ch \<notin> fst ` set al"
    using Cons.prems unfolding channels_ok_def by (blast, blast, simp add: p)
  have "c \<notin> set cs" if mem: "(k, ds) \<in> set al" "c \<in> set ds" for k ds c
  proof -
    have "map_of al k = Some ds" using ok mem(1) map_of_eq_Some_iff by (fastforce simp: channels_ok_def)
    then have "cl_channelID c = k" using ok mem(2) by (auto simp: channels_ok_def)
    then show ?thesis using cs(2) fresh mem(1) by force
  qed
  then show ?case using Cons.IH [OF ok] cs p by force
qed simp

lemma ok_shutdown:
  assumes ok: "hub_ok h"
  shows "hub_ok (hub_Shutdown t h)"
proof (cases "h_done h")
  case True
  then show ?thesis using ok by (simp add: hub_Shutdown_def)
next
  case False
  have "h_presence h \<Longrightarrow> open_after {#} (h_told (shutdown_clients t (registered h) (h\<lparr>h_done := True\<rparr>))) = Some {#}"
    using ok by (intro shutdown_told) (simp_all add: hub_ok_def)
  then show ?thesis
    using hub_okD(2-4) [OF ok] False
    by (intro hub_okI) (auto simp: hub_Shutdown_def registered_def channels_ok_def)
qed

lemma deliver_registered: "channels_ok (h_channels h) \<Longrightarrow> set (hub_deliver out ev h) \<subseteq> set (registered h)"
  using in_channel by (auto simp: hub_deliver_def Let_def split: if_splits)

lemma hub_ok_step:
  assumes ok: "hub_ok h" and step: "hub_do out l h = Some h'"
  shows "hub_ok h'"
proof (cases l)
  case (Accept c)
  then have h': "h' = h\<lparr>h_accepted := c # h_accepted h, h_registering := c # h_registering h\<rparr>"
    and c: "c \<notin> set (h_accepted h)" using step by (auto split: if_splits)
  show ?thesis using ok c by (auto simp: h' hub_ok_def registered_def)
next
  case (Register t c)
  then show ?thesis using step ok_register [OF ok] by (auto split: if_splits)
next
  case (Unregister t c)
  then show ?thesis using step ok_unregister [OF ok] by (auto simp: loop_ready_def split: if_splits)
next
  case DeliverNext
  then obtain ev evs where "h' = h\<lparr>h_broadcast := evs, h_delivering := map (\<lambda>c. (c, ev)) (hub_deliver out ev h)\<rparr>"
    using step by (auto split: if_splits list.splits)
  then show ?thesis using ok deliver_registered [of h out ev] by (auto simp: hub_ok_def registered_def)
next
  case SendNext
  then obtain c ev rest where "h_delivering h = (c, ev) # rest" "h' = hub_sendToClient c ev (h\<lparr>h_delivering := rest\<rparr>)"
    using step by (auto split: list.splits)
  then show ?thesis by (auto intro!: hub_ok_cong [OF ok])
next
  case (Ping t c)
  have "hub_ok (presence_call t (PTouch (cl_userID c)) h)"
    using hub_okD [OF ok] by (intro hub_okI) (auto simp: registered_def open_after_append)
  then show ?thesis using step Ping by (auto simp: hub_touchPresence_def split: if_splits)
next
  case (ShutdownHub t)
  then show ?thesis using step ok_shutdown [OF ok, of t] by simp
qed (use step in \<open>auto intro!: hub_ok_cong [OF ok] simp: Let_def hub_touchPresence_def split: if_splits list.splits\<close>)

lemma hub_reaches_ok:
  assumes "hub_reaches out P (NewHub cfg br presence sequencer) h"
  shows "hub_ok h"
  using assms
  by (induction rule: hub_reaches.induct) (auto simp: hub_ok_start hub_next_def split: if_splits dest: hub_ok_step)

section \<open>Panics\<close>

text \<open>A step that panics is a send to a client whose channel the hub has closed: a reply of a reader, a send of
\<open>notifyUserLocal\<close>, or a send of the loop after \<open>Shutdown\<close>.\<close>

definition may_panic :: "label \<Rightarrow> hub \<Rightarrow> bool" where
  "may_panic l h \<longleftrightarrow>
     (case l of
        ReadError nanos c m \<Rightarrow> c \<in> set (h_reading h) \<and> q_closed (h_sends h c)
      | NotifySend i \<Rightarrow> i < length (h_notifying h) \<and> q_closed (h_sends h (fst (h_notifying h ! i)))
      | SendNext \<Rightarrow> h_done h \<and> h_delivering h \<noteq> [] \<and> q_closed (h_sends h (fst (hd (h_delivering h))))
      | _ \<Rightarrow> False)"

lemma panic_step:
  assumes ok: "hub_ok h" and calm: "\<not> h_panicked h" and step: "hub_do out l h = Some h'"
  shows "h_panicked h' \<longleftrightarrow> may_panic l h"
proof (cases l)
  case (Unregister t c)
  have "\<not> h_panicked (hub_handleUnregister t c h)"
  proof (cases "c \<in> set (channel_clients h (cl_channelID c))")
    case True
    then have "\<not> q_closed (h_sends h c)"
      using hub_okD(1) [OF ok] hub_okD(4) [OF ok, of c] in_registered by blast
    then show ?thesis using calm by (simp add: handleUnregister_fields(10) [OF True])
  qed (simp add: handleUnregister_gone calm)
  then show ?thesis using step Unregister by (auto simp: may_panic_def split: if_splits)
next
  case SendNext
  then obtain c ev rest where d: "h_delivering h = (c, ev) # rest" "h' = hub_sendToClient c ev (h\<lparr>h_delivering := rest\<rparr>)"
    using step by (auto split: list.splits)
  have "h_panicked h' \<longleftrightarrow> q_closed (h_sends h c)" using calm by (simp add: d)
  moreover have "h_done h" if "q_closed (h_sends h c)"
    using hub_okD(4,7) [OF ok] that d(1) by fastforce
  ultimately show ?thesis using SendNext d(1) by (auto simp: may_panic_def)
next
  case (ShutdownHub t)
  have "\<not> h_panicked (hub_Shutdown t h)"
  proof -
    have "\<forall>c\<in>set (registered h). \<not> q_closed (h_sends h c)" using hub_okD(4) [OF ok] by blast
    moreover have "distinct (registered h)"
      using distinct_registered [OF hub_okD(1) [OF ok]] by (simp add: registered_def)
    ultimately show ?thesis using shutdown_panics [of "registered h" "h\<lparr>h_done := True\<rparr>" t] calm
      by (simp add: hub_Shutdown_def)
  qed
  then show ?thesis using step ShutdownHub by (auto simp: may_panic_def)
qed (use step calm in \<open>auto simp: may_panic_def Let_def hub_touchPresence_def split: if_splits list.splits\<close>)

end
