(* ===== verification/Realtime_Properties.thy ===== *)
theory Realtime_Properties
  imports Realtime_Hub_Inv
begin

text \<open>
  The properties of the hub: what can panic, what the presence store holds behind it, the connection limits,
  who gets an event, and the sequence numbers of a channel.
\<close>

section \<open>Helpers\<close>

definition sample_cfg :: ws_config where
  "sample_cfg = \<lparr>AllowedOrigins = [], MaxConnectionsPerUser = 1, MaxConnectionsPerIP = 20\<rparr>"

definition sample_client :: "nat \<Rightarrow> int \<Rightarrow> client" where
  "sample_client n uid = \<lparr>cl_id = n, cl_userID = uid, cl_workspaceID = 1, cl_channelID = 10, cl_remoteIP = ''::1''\<rparr>"

definition sample_event :: "string \<Rightarrow> gov \<Rightarrow> event" where
  "sample_event ty payload = \<lparr>evt_type = ty, evt_workspace = 1, evt_channel = 10, evt_id = ''1-1'', evt_sequence = 0,
     evt_time = 0, evt_payload = payload\<rparr>"

lemma hub_reaches_run:
  "hub_run out ls h = Some h' \<Longrightarrow> hub_reaches out P h0 h \<Longrightarrow> (\<And>l h. l \<in> set ls \<Longrightarrow> P l h) \<Longrightarrow> hub_reaches out P h0 h'"
proof (induction ls arbitrary: h)
  case (Cons l ls)
  obtain h1 where h1: "hub_next out l h = Some h1" "hub_run out ls h1 = Some h'"
    using Cons.prems(1) by (auto split: option.splits)
  have "hub_reaches out P h0 h1" using hub_more [OF Cons.prems(2) _ h1(1)] Cons.prems(3) by simp
  then show ?case using Cons.IH [OF h1(2)] Cons.prems(3) by simp
qed simp

section \<open>Panics\<close>

text \<open>C8: In every state the hub reaches, by any interleaving of its goroutines, a step makes the process panic exactly
  when it sends on a channel the hub has closed, and that can only be an error reply of a client's reader, a
  send of a user notification, or a send of the hub loop after \<open>Shutdown\<close>: registering, unregistering,
  shutting down and delivering before shutdown never close a channel twice or send on a closed one.\<close>

theorem hub_panics_only_by:
  assumes "hub_reaches out (\<lambda>_ _. True) (NewHub cfg br presence sequencer) h" and "hub_next out l h = Some h'"
  shows "h_panicked h' \<longleftrightarrow> may_panic l h"
  using assms(2) panic_step [OF hub_reaches_ok [OF assms(1)]] by (auto simp: hub_next_def split: if_splits)

definition overflow_run :: "label list" where
  "overflow_run =
     (let c = sample_client 0 7 in
      [Accept c, Register 0 c] @ replicate 16 (ReadError 0 c ''invalid message payload'') @
      [PublishEvent 0 (sample_event ''typing.start'' VNull), Enqueue 0 True, DeliverNext, SendNext, Unregister 0 c])"

text \<open>A client that sends seventeen malformed messages without reading can take the node down: its buffer is full
  after sixteen error replies, the next broadcast makes the hub unregister it and close its channel, and the reply to
  the seventeenth message, from the reader that still runs, is a send on the closed channel.\<close>

theorem error_reply_panics:
  "\<exists>h h'. hub_run (\<lambda>_ _. 0) overflow_run (NewHub sample_cfg LocalBroker True True) = Some h \<and>
     \<not> h_done h \<and> \<not> h_panicked h \<and>
     hub_next (\<lambda>_ _. 0) (ReadError 0 (sample_client 0 7) ''invalid message payload'') h = Some h' \<and> h_panicked h'"
proof -
  have "case hub_run (\<lambda>_ _. 0) overflow_run (NewHub sample_cfg LocalBroker True True) of
      None \<Rightarrow> False
    | Some h \<Rightarrow> \<not> h_done h \<and> \<not> h_panicked h \<and>
        (case hub_next (\<lambda>_ _. 0) (ReadError 0 (sample_client 0 7) ''invalid message payload'') h of
           None \<Rightarrow> False | Some h' \<Rightarrow> h_panicked h')"
    by code_simp
  then show ?thesis by (auto split: option.splits)
qed

theorem hub_panics_only_by_witness:
  "\<exists>h h'. hub_run (\<lambda>_ _. 0) [Accept (sample_client 0 7), Register 0 (sample_client 0 7)]
      (NewHub sample_cfg LocalBroker True True) = Some h \<and>
    hub_next (\<lambda>_ _. 0) (ReadExit (sample_client 0 7)) h = Some h' \<and>
    (h_panicked h' \<longleftrightarrow> may_panic (ReadExit (sample_client 0 7)) h)"
proof -
  let ?ls = "[Accept (sample_client 0 7), Register 0 (sample_client 0 7)]"
  let ?h0 = "NewHub sample_cfg LocalBroker True True"
  have "case hub_run (\<lambda>_ _. 0) ?ls ?h0 of None \<Rightarrow> False
    | Some h \<Rightarrow> hub_next (\<lambda>_ _. 0) (ReadExit (sample_client 0 7)) h \<noteq> None"
    by code_simp
  then obtain h h' where h: "hub_run (\<lambda>_ _. 0) ?ls ?h0 = Some h"
    "hub_next (\<lambda>_ _. 0) (ReadExit (sample_client 0 7)) h = Some h'"
    by (auto split: option.splits)
  have "hub_reaches (\<lambda>_ _. 0) (\<lambda>_ _. True) ?h0 h" by (rule hub_reaches_run [OF h(1) hub_start]) simp
  from hub_panics_only_by [OF this h(2)] show ?thesis using h by blast
qed

section \<open>Presence behind the hub\<close>

lemma conns_of_registered: "conns_of uid (image_mset connection_of M) = count_by cl_userID uid M"
  by (induction M) (simp_all add: connection_of_def)

lemma count_by_pos: "0 < count_by f k M \<longleftrightarrow> (\<exists>c\<in>#M. f c = k)"
  by (induction M) auto



section \<open>Connection limits\<close>

text \<open>The clients that are connected or about to be.\<close>

definition known_clients :: "hub \<Rightarrow> client multiset" where
  "known_clients h = mset (registered h) + mset (h_registering h)"

lemma known_cong:
  "h_channels h' = h_channels h \<Longrightarrow> h_registering h' = h_registering h \<Longrightarrow> known_clients h' = known_clients h"
  by (simp add: known_clients_def registered_def)

lemma known_step:
  assumes ok: "hub_ok h" and dist: "distinct (h_registering h)" and step: "hub_do out l h = Some h'"
  shows "distinct (h_registering h') \<and>
    (known_clients h' \<subseteq># known_clients h \<or> (\<exists>c. l = Accept c \<and> known_clients h' = add_mset c (known_clients h)))"
proof (cases l)
  case (Accept c)
  then have h': "h' = h\<lparr>h_accepted := c # h_accepted h, h_registering := c # h_registering h\<rparr>"
    and c: "c \<notin> set (h_accepted h)" using step by (auto split: if_splits)
  then show ?thesis using dist hub_okD(3) [OF ok] Accept
    by (auto simp: known_clients_def registered_def)
next
  case (Register t c)
  then have c: "c \<in> set (h_registering h)" and h': "h' = (hub_handleRegister t c h)
      \<lparr>h_registering := removeAll c (h_registering h), h_reading := c # h_reading h\<rparr>"
    using step by (auto split: if_splits)
  have "c \<notin> set (registered h)" using hub_okD(2) [OF ok] c by blast
  then have "mset (registered h') = add_mset c (mset (registered h))"
    using register_mset [OF hub_okD(1) [OF ok]] by (simp add: h' registered_def)
  moreover have "mset (h_registering h) = add_mset c (mset (removeAll c (h_registering h)))"
    using c dist by (simp add: distinct_remove1_removeAll [symmetric])
  ultimately show ?thesis using dist by (simp add: known_clients_def h' distinct_removeAll)
next
  case (Unregister t c)
  then have h': "h' = (hub_handleUnregister t c h)\<lparr>h_unregistering := remove1 c (h_unregistering h)\<rparr>"
    using step by (auto split: if_splits)
  show ?thesis
  proof (cases "c \<in> set (channel_clients h (cl_channelID c))")
    case True
    have "add_mset c (mset (registered h')) = mset (registered h)"
      using unregister_mset [OF hub_okD(1) [OF ok] True] by (simp add: h' registered_def handleUnregister_fields(1) [OF True])
    then have "mset (registered h') \<subseteq># mset (registered h)" by (metis subset_mset.order_refl mset_subset_eq_insertD subset_mset.less_imp_le)
    then show ?thesis using dist by (simp add: known_clients_def h' handleUnregister_fields(7) [OF True])
  next
    case False
    then show ?thesis using dist by (simp add: h' handleUnregister_gone known_clients_def registered_def)
  qed
next
  case (ShutdownHub t)
  then show ?thesis using step dist by (auto simp: hub_Shutdown_def known_clients_def registered_def)
next
  case SendNext
  then obtain c ev rest where "h' = hub_sendToClient c ev (h\<lparr>h_delivering := rest\<rparr>)"
    using step by (auto split: list.splits)
  then show ?thesis using dist by (simp add: known_clients_def registered_def)
qed (use step dist in \<open>auto simp: Let_def hub_touchPresence_def known_clients_def registered_def
    split: if_splits list.splits\<close>)

lemma count_by_mono: "M \<subseteq># N \<Longrightarrow> count_by f k M \<le> count_by f k N"
  by (simp add: count_by_def size_mset_mono multiset_filter_mono)

text \<open>Connections that are checked one at a time, before shutdown.\<close>

definition one_at_a_time :: "label \<Rightarrow> hub \<Rightarrow> bool" where
  "one_at_a_time l h \<longleftrightarrow>
     (case l of Accept c \<Rightarrow> h_registering h = [] | ShutdownHub t \<Rightarrow> False | _ \<Rightarrow> True)"

lemma shutdown_cfg: "h_cfg (shutdown_clients t cs h) = h_cfg h"
  by (induction cs arbitrary: h) (simp_all add: close_send_def presence_call_def)

lemma step_cfg: "hub_do out l h = Some h' \<Longrightarrow> h_cfg h' = h_cfg h"
  by (cases l) (auto simp: hub_handleRegister_def hub_handleUnregister_def broker_call_def presence_call_def
      close_send_def hub_sendToClient_def client_sendClientError_def hub_Publish_def broker_publish_def
      hub_enqueueBroadcast_def hub_touchPresence_def hub_Shutdown_def shutdown_cfg Let_def
      split: if_splits list.splits prod.splits option.splits broker.splits)

lemma step_done: "hub_do out l h = Some h' \<Longrightarrow> (\<forall>t. l \<noteq> ShutdownHub t) \<Longrightarrow> h_done h' = h_done h"
  by (cases l) (auto simp: hub_handleUnregister_def hub_touchPresence_def Let_def split: if_splits list.splits)

lemma CanConnect_counts:
  assumes ok: "hub_ok h" and run: "\<not> h_done h" and can: "hub_CanConnect h uid ip"
  shows "0 < MaxConnectionsPerUser (h_cfg h) \<Longrightarrow>
      int (count_by cl_userID uid (mset (registered h))) < MaxConnectionsPerUser (h_cfg h)"
    and "0 < MaxConnectionsPerIP (h_cfg h) \<Longrightarrow>
      int (count_by cl_remoteIP ip (mset (registered h))) < MaxConnectionsPerIP (h_cfg h)"
  using can counts_ok_get [OF hub_okD(5) [OF ok run], of uid] counts_ok_get [OF hub_okD(6) [OF ok run], of ip]
  by (auto simp: hub_CanConnect_def split: if_splits)

definition within_limits :: "ws_config \<Rightarrow> hub \<Rightarrow> bool" where
  "within_limits cfg h \<longleftrightarrow> hub_ok h \<and> \<not> h_done h \<and> h_cfg h = cfg \<and> distinct (h_registering h) \<and>
     (\<forall>uid. 0 < MaxConnectionsPerUser cfg \<longrightarrow> int (count_by cl_userID uid (known_clients h)) \<le> MaxConnectionsPerUser cfg) \<and>
     (\<forall>ip. 0 < MaxConnectionsPerIP cfg \<longrightarrow> int (count_by cl_remoteIP ip (known_clients h)) \<le> MaxConnectionsPerIP cfg)"

lemma limits_step:
  assumes inv: "within_limits cfg h" and only: "one_at_a_time l h" and step: "hub_do out l h = Some h'"
  shows "within_limits cfg h'"
proof -
  have ok: "hub_ok h" and run: "\<not> h_done h" and cfg: "h_cfg h = cfg" and dist: "distinct (h_registering h)"
    using inv by (simp_all add: within_limits_def)
  have "\<forall>t. l \<noteq> ShutdownHub t" using only by (auto simp: one_at_a_time_def)
  then have same: "h_done h' = h_done h" "h_cfg h' = h_cfg h" using step_done step_cfg step by blast+
  note known = known_step [OF ok dist step]
  have "(0 < MaxConnectionsPerUser cfg \<longrightarrow> int (count_by cl_userID uid (known_clients h')) \<le> MaxConnectionsPerUser cfg) \<and>
      (0 < MaxConnectionsPerIP cfg \<longrightarrow> int (count_by cl_remoteIP ip (known_clients h')) \<le> MaxConnectionsPerIP cfg)" for uid ip
  proof (cases "known_clients h' \<subseteq># known_clients h")
    case True
    then show ?thesis using inv count_by_mono [OF True, of cl_userID uid] count_by_mono [OF True, of cl_remoteIP ip]
      unfolding within_limits_def by (meson of_nat_mono order_trans)
  next
    case False
    then obtain c where c: "l = Accept c" "known_clients h' = add_mset c (known_clients h)" using known by blast
    then have "known_clients h = mset (registered h)" and can: "hub_CanConnect h (cl_userID c) (cl_remoteIP c)"
      using only step by (auto simp: one_at_a_time_def known_clients_def split: if_splits)
    moreover have "int (count_by cl_userID uid (known_clients h)) \<le> MaxConnectionsPerUser cfg"
      if "0 < MaxConnectionsPerUser cfg" using inv that by (simp add: within_limits_def)
    moreover have "int (count_by cl_remoteIP ip (known_clients h)) \<le> MaxConnectionsPerIP cfg"
      if "0 < MaxConnectionsPerIP cfg" using inv that by (simp add: within_limits_def)
    ultimately show ?thesis using CanConnect_counts [OF ok run can] c(2) cfg by auto
  qed
  then show ?thesis using hub_ok_step [OF ok step] same run cfg known by (simp add: within_limits_def)
qed

text \<open>C37: Connection limits: as long as each upgrade is checked when no earlier one is still waiting to be registered,
  no user has more registered clients than \<open>MaxConnectionsPerUser\<close> and no address more than
  \<open>MaxConnectionsPerIP\<close> (a limit that is not positive does not apply).\<close>

theorem connection_limits_hold:
  assumes "hub_reaches out one_at_a_time (NewHub cfg br presence sequencer) h"
  shows "(MaxConnectionsPerUser cfg \<le> 0 \<or>
      int (length (filter (\<lambda>c. cl_userID c = uid) (registered h))) \<le> MaxConnectionsPerUser cfg) \<and>
    (MaxConnectionsPerIP cfg \<le> 0 \<or>
      int (length (filter (\<lambda>c. cl_remoteIP c = ip) (registered h))) \<le> MaxConnectionsPerIP cfg)"
proof -
  have inv: "within_limits cfg h"
    using assms
  proof (induction rule: hub_reaches.induct)
    case hub_start
    show ?case by (simp add: within_limits_def hub_ok_start) (simp add: NewHub_def known_clients_def registered_def)
  next
    case (hub_more h l h')
    then show ?case using limits_step by (auto simp: hub_next_def split: if_splits)
  qed
  have user: "int (length (filter (\<lambda>c. cl_userID c = uid) (registered h))) \<le> int (count_by cl_userID uid (known_clients h))"
    by (simp add: known_clients_def count_by_def flip: mset_filter)
  have ip: "int (length (filter (\<lambda>c. cl_remoteIP c = ip) (registered h))) \<le> int (count_by cl_remoteIP ip (known_clients h))"
    by (simp add: known_clients_def count_by_def flip: mset_filter)
  show ?thesis using inv user ip unfolding within_limits_def by (meson not_le order_trans)
qed

theorem connection_limits_hold_witness:
  "\<exists>h. hub_run (\<lambda>_ _. 0) [Accept (sample_client 0 7), Register 0 (sample_client 0 7)]
      (NewHub sample_cfg LocalBroker True True) = Some h \<and>
    length (filter (\<lambda>c. cl_userID c = 7) (registered h)) \<le> 1"
proof -
  let ?ls = "[Accept (sample_client 0 7), Register 0 (sample_client 0 7)]"
  let ?h0 = "NewHub sample_cfg LocalBroker True True"
  have "case hub_next (\<lambda>_ _. 0) (Accept (sample_client 0 7)) ?h0 of None \<Rightarrow> False
    | Some h1 \<Rightarrow> hub_next (\<lambda>_ _. 0) (Register 0 (sample_client 0 7)) h1 \<noteq> None"
    by code_simp
  then obtain h1 h where h: "hub_next (\<lambda>_ _. 0) (Accept (sample_client 0 7)) ?h0 = Some h1"
    "hub_next (\<lambda>_ _. 0) (Register 0 (sample_client 0 7)) h1 = Some h"
    by (auto split: option.splits)
  have "hub_reaches (\<lambda>_ _. 0) one_at_a_time ?h0 h1"
    by (rule hub_more [OF hub_start _ h(1)]) (simp add: one_at_a_time_def NewHub_def)
  then have "hub_reaches (\<lambda>_ _. 0) one_at_a_time ?h0 h"
    by (rule hub_more [OF _ _ h(2)]) (simp add: one_at_a_time_def)
  from connection_limits_hold [OF this, of 7 "''::1''"] show ?thesis using h by (simp add: sample_cfg_def)
qed

text \<open>The check and the registration are separate, so two upgrades checked before either is registered both pass: a
  user with a limit of one connection holds two.\<close>

theorem connection_limit_race:
  "\<exists>h. hub_run (\<lambda>_ _. 0) [Accept (sample_client 0 7), Accept (sample_client 1 7), Register 0 (sample_client 0 7),
      Register 0 (sample_client 1 7)] (NewHub sample_cfg LocalBroker True True) = Some h \<and>
    MaxConnectionsPerUser sample_cfg = 1 \<and> h_userConnections h 7 = Some 2"
proof -
  have "case hub_run (\<lambda>_ _. 0) [Accept (sample_client 0 7), Accept (sample_client 1 7), Register 0 (sample_client 0 7),
      Register 0 (sample_client 1 7)] (NewHub sample_cfg LocalBroker True True) of
      None \<Rightarrow> False | Some h \<Rightarrow> MaxConnectionsPerUser sample_cfg = 1 \<and> h_userConnections h 7 = Some 2"
    by code_simp
  then show ?thesis by (auto split: option.splits)
qed

section \<open>Delivery\<close>

definition has_room :: "hub \<Rightarrow> client \<Rightarrow> bool" where
  "has_room h c \<longleftrightarrow> length (q_buffer (h_sends h c)) < clientSendBuffer"

text \<open>The hub after an event was sent to the clients \<open>cs\<close>.\<close>

definition delivered :: "event \<Rightarrow> client list \<Rightarrow> hub \<Rightarrow> hub" where
  "delivered ev cs h = h\<lparr>h_delivering := [],
     h_sends := (\<lambda>c. if c \<in> set cs \<and> has_room h c
       then (h_sends h c)\<lparr>q_buffer := q_buffer (h_sends h c) @ [ev]\<rparr> else h_sends h c),
     h_unregistering := h_unregistering h @ filter (\<lambda>c. \<not> has_room h c) cs\<rparr>"

lemma send_all_clients:
  "h_delivering h = map (\<lambda>c. (c, ev)) cs \<Longrightarrow> distinct cs \<Longrightarrow> \<forall>c\<in>set cs. \<not> q_closed (h_sends h c) \<Longrightarrow>
    \<not> h_panicked h \<Longrightarrow> hub_run out (replicate (length cs) SendNext) h = Some (delivered ev cs h)"
proof (induction cs arbitrary: h)
  case Nil
  then show ?case by (simp add: delivered_def)
next
  case (Cons c cs)
  let ?h = "hub_sendToClient c ev (h\<lparr>h_delivering := map (\<lambda>c. (c, ev)) cs\<rparr>)"
  have same: "h_sends ?h d = h_sends h d" if "d \<noteq> c" for d
    using that by (simp add: hub_sendToClient_def Let_def)
  have room: "has_room ?h d = has_room h d" if "d \<in> set cs" for d
  proof -
    have "d \<noteq> c" using that Cons.prems(2) by auto
    then show ?thesis by (simp add: has_room_def same [OF \<open>d \<noteq> c\<close>])
  qed
  have "hub_run out (replicate (length cs) SendNext) ?h = Some (delivered ev cs ?h)"
    using Cons.prems by (intro Cons.IH) auto
  moreover have "delivered ev cs ?h = delivered ev (c # cs) h"
  proof -
    have "filter (\<lambda>c. \<not> has_room ?h c) cs = filter (\<lambda>c. \<not> has_room h c) cs"
      using room by (intro filter_cong) auto
    moreover have "(\<lambda>d. if d \<in> set cs \<and> has_room ?h d then (h_sends ?h d)\<lparr>q_buffer := q_buffer (h_sends ?h d) @ [ev]\<rparr>
        else h_sends ?h d) = (\<lambda>d. if d \<in> set (c # cs) \<and> has_room h d
        then (h_sends h d)\<lparr>q_buffer := q_buffer (h_sends h d) @ [ev]\<rparr> else h_sends h d)"
    proof
      fix d
      show "(if d \<in> set cs \<and> has_room ?h d then (h_sends ?h d)\<lparr>q_buffer := q_buffer (h_sends ?h d) @ [ev]\<rparr>
        else h_sends ?h d) = (if d \<in> set (c # cs) \<and> has_room h d
        then (h_sends h d)\<lparr>q_buffer := q_buffer (h_sends h d) @ [ev]\<rparr> else h_sends h d)"
      proof (cases "d = c")
        case True
        then show ?thesis using Cons.prems(2,3) by (auto simp: hub_sendToClient_def has_room_def Let_def)
      next
        case False
        then show ?thesis using room [of d] by (auto simp: same [OF False])
      qed
    qed
    moreover have "h_unregistering ?h = h_unregistering h @ (if has_room h c then [] else [c])"
      using Cons.prems(3) by (simp add: hub_sendToClient_def has_room_def Let_def)
    moreover have "?h\<lparr>h_delivering := [], h_sends := f, h_unregistering := u\<rparr> =
        h\<lparr>h_delivering := [], h_sends := f, h_unregistering := u\<rparr>" for f u
      using Cons.prems(3) by (simp add: hub_sendToClient_def Let_def)
    ultimately show ?thesis unfolding delivered_def by simp
  qed
  ultimately show ?case using Cons.prems by (simp add: hub_next_def)
qed


definition offer_run :: "label list" where
  "offer_run = [Accept (sample_client 0 7), Register 0 (sample_client 0 7), Accept (sample_client 1 8),
     Register 0 (sample_client 1 8), PublishEvent 0 (sample_event ''call.offer''
       (VObj [(''from_user_id'', VInt 7), (''to_user_id'', VFloat 8 0)])), Enqueue 0 True]"


section \<open>Sequence numbers\<close>

fun publish_all :: "(int \<times> event) list \<Rightarrow> hub \<Rightarrow> hub" where
  "publish_all [] h = h"
| "publish_all ((nanos, ev) # evs) h = publish_all evs (hub_Publish nanos ev h)"

lemma publish_sequenced:
  assumes "h_sequencer h = Some seq" and "h_broker h \<noteq> RemoteBroker" and "evt_sequence ev = 0"
  shows "\<exists>e. h_enqueueing (hub_Publish nanos ev h) = h_enqueueing h @ [e] \<and>
    evt_type e = evt_type ev \<and> evt_channel e = evt_channel ev \<and> evt_payload e = evt_payload ev \<and>
    evt_sequence e = (if evt_channel ev > 0 then seq (evt_channel ev) + 1 else 0) \<and>
    h_sequencer (hub_Publish nanos ev h) =
      Some (if evt_channel ev > 0 then seq(evt_channel ev := seq (evt_channel ev) + 1) else seq) \<and>
    h_broker (hub_Publish nanos ev h) = h_broker h"
  using assms
  by (cases "h_broker h") (auto simp: hub_Publish_def NewOutboundEvent_def newEventID_def memseq_Next_def
      broker_publish_def hub_enqueueBroadcast_def Let_def split: prod.split)

lemma publish_all_sequences:
  assumes "h_sequencer h = Some seq" and "h_broker h \<noteq> RemoteBroker" and "\<forall>(t, e)\<in>set evs. evt_sequence e = 0"
    and "0 < ch"
  shows "\<exists>es. h_enqueueing (publish_all evs h) = h_enqueueing h @ es \<and>
    map (\<lambda>e. (evt_type e, evt_channel e, evt_payload e)) es = map (\<lambda>(t, e). (evt_type e, evt_channel e, evt_payload e)) evs \<and>
    map evt_sequence (filter (\<lambda>e. evt_channel e = ch) es) =
      map (\<lambda>i. seq ch + 1 + int i) [0..<length (filter (\<lambda>(t, e). evt_channel e = ch) evs)]"
  using assms(1-3)
proof (induction evs arbitrary: h seq)
  case (Cons te evs)
  obtain t ev where te: "te = (t, ev)" by (cases te)
  let ?h = "hub_Publish t ev h" and ?seq = "if evt_channel ev > 0 then seq(evt_channel ev := seq (evt_channel ev) + 1) else seq"
  obtain e where e: "h_enqueueing ?h = h_enqueueing h @ [e]" "evt_type e = evt_type ev" "evt_channel e = evt_channel ev"
    "evt_payload e = evt_payload ev" "evt_sequence e = (if evt_channel ev > 0 then seq (evt_channel ev) + 1 else 0)"
    "h_sequencer ?h = Some ?seq" "h_broker ?h = h_broker h"
    using publish_sequenced [OF Cons.prems(1,2)] Cons.prems(3) te by force
  obtain es where es: "h_enqueueing (publish_all evs ?h) = h_enqueueing ?h @ es"
    "map (\<lambda>e. (evt_type e, evt_channel e, evt_payload e)) es = map (\<lambda>(t, e). (evt_type e, evt_channel e, evt_payload e)) evs"
    "map evt_sequence (filter (\<lambda>e. evt_channel e = ch) es) =
      map (\<lambda>i. ?seq ch + 1 + int i) [0..<length (filter (\<lambda>(t, e). evt_channel e = ch) evs)]"
    using Cons.IH [OF e(6)] Cons.prems(2,3) e(7) te by auto
  have "map (\<lambda>i. seq ch + 1 + int i) [0..<Suc n] = (seq ch + 1) # map (\<lambda>i. seq ch + 1 + 1 + int i) [0..<n]" for n
    by (simp add: map_upt_Suc add.assoc del: upt_Suc)
  then show ?case using e es assms(4) te
    by (intro exI [of _ "e # es"]) (simp del: upt_Suc)
qed simp



text \<open>Each publish starts a goroutine that queues the event, so two events may be queued in the other order.\<close>

theorem broadcasts_can_reorder:
  "\<exists>h. hub_run (\<lambda>_ _. 0) [PublishEvent 0 (sample_event ''message.new'' VNull),
      PublishEvent 1 (sample_event ''message.new'' VNull), Enqueue 1 True, Enqueue 0 True]
      (NewHub sample_cfg LocalBroker True True) = Some h \<and> map evt_sequence (h_broadcast h) = [2, 1]"
proof -
  have "case hub_run (\<lambda>_ _. 0) [PublishEvent 0 (sample_event ''message.new'' VNull),
      PublishEvent 1 (sample_event ''message.new'' VNull), Enqueue 1 True, Enqueue 0 True]
      (NewHub sample_cfg LocalBroker True True) of None \<Rightarrow> False | Some h \<Rightarrow> map evt_sequence (h_broadcast h) = [2, 1]"
    by code_simp
  then show ?thesis by (auto split: option.splits)
qed

end
