(* ===== verification/Realtime_Broker.thy ===== *)
theory Realtime_Broker
  imports Realtime_Properties
begin

text \<open>
  \<open>internal/realtime/redis_broker.go\<close>: the reference counts of subscribed topics and what is done with a message
  that arrives. The connection to Redis is the list of topics subscribed on it; whether a SUBSCRIBE or UNSUBSCRIBE
  succeeds is given with each call.
\<close>

record redis_broker =
  rb_subs :: "string \<rightharpoonup> int"
  rb_topics :: "string list"

definition NewRedisBroker :: redis_broker where
  "NewRedisBroker = \<lparr>rb_subs = Map.empty, rb_topics = []\<rparr>"

text \<open>\<open>EnsureSubscribed\<close> and \<open>EnsureUserSubscribed\<close>, which differ in the topic.\<close>

definition rb_ensure :: "string \<Rightarrow> bool \<Rightarrow> redis_broker \<Rightarrow> redis_broker" where
  "rb_ensure topic ok b =
     (let n = counter_get (rb_subs b) topic + 1;
          b = b\<lparr>rb_subs := (rb_subs b)(topic \<mapsto> n)\<rparr>
      in if n = 1 then
           if ok then b\<lparr>rb_topics := List.insert topic (rb_topics b)\<rparr>
           else if n - 1 = 0 then b\<lparr>rb_subs := (rb_subs b)(topic := None)\<rparr>
           else b\<lparr>rb_subs := (rb_subs b)(topic \<mapsto> n - 1)\<rparr>
         else b)"

text \<open>\<open>MaybeUnsubscribe\<close> and \<open>MaybeUnsubscribeUser\<close>.\<close>

definition rb_maybe :: "string \<Rightarrow> bool \<Rightarrow> redis_broker \<Rightarrow> redis_broker" where
  "rb_maybe topic ok b =
     (case rb_subs b topic of
        None \<Rightarrow> b
      | Some k \<Rightarrow>
          if k - 1 > 0 then b\<lparr>rb_subs := (rb_subs b)(topic \<mapsto> k - 1)\<rparr>
          else b\<lparr>rb_subs := (rb_subs b)(topic := None),
                 rb_topics := (if ok then removeAll topic (rb_topics b) else rb_topics b)\<rparr>)"

fun rb_call :: "broker_op \<times> bool \<Rightarrow> redis_broker \<Rightarrow> redis_broker" where
  "rb_call (EnsureSubscribed ws ch, ok) b = rb_ensure (ChannelTopic ws ch) ok b"
| "rb_call (MaybeUnsubscribe ws ch, ok) b = rb_maybe (ChannelTopic ws ch) ok b"
| "rb_call (EnsureUserSubscribed uid, ok) b = rb_ensure (UserTopic uid) ok b"
| "rb_call (MaybeUnsubscribeUser uid, ok) b = rb_maybe (UserTopic uid) ok b"
| "rb_call (BrokerPublish ev, ok) b = b"

definition rb_calls :: "broker_op list \<Rightarrow> redis_broker \<Rightarrow> redis_broker" where
  "rb_calls bs b = fold (\<lambda>c. rb_call (c, True)) bs b"

text \<open>\<open>reconnect\<close>: \<open>topics\<close> is the order in which \<open>range\<close> visits the map.\<close>

definition rb_reconnect :: "string list \<Rightarrow> redis_broker \<Rightarrow> redis_broker" where
  "rb_reconnect topics b = b\<lparr>rb_topics := filter (\<lambda>t. counter_get (rb_subs b) t > 0) topics\<rparr>"

text \<open>The body of \<open>readLoop\<close>, for a message whose payload decodes to an event: the goroutine collects a user's
clients or starts a broadcast.\<close>

definition rb_receive :: "string \<Rightarrow> event \<Rightarrow> hub \<Rightarrow> hub" where
  "rb_receive topic ev h =
     (case parseUserTopic topic of
        Some uid \<Rightarrow> h\<lparr>h_notifying := h_notifying h @ map (\<lambda>c. (c, ev)) (hub_notifyUserLocal uid h)\<rparr>
      | None \<Rightarrow> hub_enqueueBroadcast ev h)"

section \<open>Subscriptions follow the clients\<close>

definition wanted_topics :: "client set \<Rightarrow> string set" where
  "wanted_topics C = (\<lambda>c. ChannelTopic (cl_workspaceID c) (cl_channelID c)) ` C \<union> (\<lambda>c. UserTopic (cl_userID c)) ` C"

definition subscribed :: "redis_broker \<Rightarrow> string set \<Rightarrow> bool" where
  "subscribed b W \<longleftrightarrow> set (rb_topics b) = W \<and> (\<forall>t. rb_subs b t = (if t \<in> W then Some 1 else None))"

lemma ensure_new: "subscribed b W \<Longrightarrow> t \<notin> W \<Longrightarrow> subscribed (rb_ensure t True b) (insert t W)"
  by (auto simp: subscribed_def rb_ensure_def counter_get_def Let_def)

lemma maybe_last: "subscribed b W \<Longrightarrow> t \<in> W \<Longrightarrow> subscribed (rb_maybe t True b) (W - {t})"
  by (auto simp: subscribed_def rb_maybe_def)

text \<open>Every client of a channel names the workspace the channel is in, as \<open>HandleWebSocket\<close> has checked.\<close>

definition placed :: "(int \<Rightarrow> int) \<Rightarrow> label \<Rightarrow> hub \<Rightarrow> bool" where
  "placed ws_of l h \<longleftrightarrow> (case l of Accept c \<Rightarrow> cl_workspaceID c = ws_of (cl_channelID c) | ShutdownHub t \<Rightarrow> False | _ \<Rightarrow> True)"

definition topics_ok :: "(int \<Rightarrow> int) \<Rightarrow> hub \<Rightarrow> bool" where
  "topics_ok ws_of h \<longleftrightarrow> hub_ok h \<and> \<not> h_done h \<and> h_broker h = RemoteBroker \<and>
     (\<forall>c\<in>set (h_accepted h). cl_workspaceID c = ws_of (cl_channelID c)) \<and>
     subscribed (rb_calls (h_broker_log h) NewRedisBroker) (wanted_topics (set (registered h)))"

lemma register_log:
  "h_broker_log (hub_handleRegister t c h) = h_broker_log h @
     (if h_broker h \<noteq> NoBroker \<and> channel_clients h (cl_channelID c) = []
      then [EnsureSubscribed (cl_workspaceID c) (cl_channelID c)] else []) @
     (if h_broker h \<noteq> NoBroker \<and> counter_get (h_userConnections h) (cl_userID c) = 0
      then [EnsureUserSubscribed (cl_userID c)] else [])"
  by (simp add: hub_handleRegister_def broker_call_def presence_call_def Let_def)

lemma unregister_log:
  assumes "c \<in> set (channel_clients h (cl_channelID c))"
  shows "h_broker_log (hub_handleUnregister t c h) = h_broker_log h @
     (if h_broker h \<noteq> NoBroker \<and> removeAll c (channel_clients h (cl_channelID c)) = []
      then [MaybeUnsubscribe (cl_workspaceID c) (cl_channelID c)] else []) @
     (if h_broker h \<noteq> NoBroker \<and> counter_get (h_userConnections h) (cl_userID c) - 1 \<le> 0
      then [MaybeUnsubscribeUser (cl_userID c)] else [])"
  using assms by (simp add: hub_handleUnregister_def broker_call_def presence_call_def close_send_def Let_def)

lemma step_broker: "hub_do out l h = Some h' \<Longrightarrow> (\<forall>t. l \<noteq> ShutdownHub t) \<Longrightarrow> h_broker h' = h_broker h"
  by (cases l) (auto simp: hub_handleRegister_def hub_handleUnregister_def broker_call_def presence_call_def
      close_send_def hub_sendToClient_def client_sendClientError_def hub_Publish_def broker_publish_def
      hub_enqueueBroadcast_def hub_touchPresence_def Let_def
      split: if_splits list.splits prod.splits option.splits broker.splits)

lemma rb_calls_append [simp]: "rb_calls (xs @ ys) b = rb_calls ys (rb_calls xs b)"
  by (simp add: rb_calls_def)

lemma rb_calls_simps [simp]: "rb_calls [] b = b" "rb_calls (c # cs) b = rb_calls cs (rb_call (c, True) b)"
  by (simp_all add: rb_calls_def)

lemma user_registered:
  assumes "hub_ok h" and "\<not> h_done h"
  shows "counter_get (h_userConnections h) uid = 0 \<longleftrightarrow> uid \<notin> cl_userID ` set (registered h)"
proof -
  have "counter_get (h_userConnections h) uid = int (count_by cl_userID uid (mset (registered h)))"
    using counts_ok_get [OF hub_okD(5) [OF assms]] .
  moreover have "0 < count_by cl_userID uid (mset (registered h)) \<longleftrightarrow> uid \<in> cl_userID ` set (registered h)"
    unfolding count_by_pos by auto
  ultimately show ?thesis by (metis neq0_conv of_nat_eq_0_iff)
qed

text \<open>Adding a client whose channel or user may be new.\<close>

lemma wanted_insert:
  "wanted_topics (insert c C) =
    insert (UserTopic (cl_userID c)) (insert (ChannelTopic (cl_workspaceID c) (cl_channelID c)) (wanted_topics C))"
  by (auto simp: wanted_topics_def)

lemma channel_wanted: "ChannelTopic ws ch \<in> wanted_topics C \<longleftrightarrow> (\<exists>c\<in>C. cl_workspaceID c = ws \<and> cl_channelID c = ch)"
  by (auto simp: wanted_topics_def ChannelTopic_inject)

lemma user_wanted: "UserTopic uid \<in> wanted_topics C \<longleftrightarrow> uid \<in> cl_userID ` C"
  by (auto simp: wanted_topics_def UserTopic_inject topics_disjoint [symmetric] simp del: topics_disjoint)

lemma topics_register:
  assumes inv: "topics_ok ws_of h" and c: "c \<in> set (h_registering h)"
  shows "subscribed (rb_calls (h_broker_log (hub_handleRegister t c h)) NewRedisBroker)
    (wanted_topics (insert c (set (registered h))))"
proof -
  let ?R = "set (registered h)" and ?b = "rb_calls (h_broker_log h) NewRedisBroker"
  let ?ch = "ChannelTopic (cl_workspaceID c) (cl_channelID c)" and ?u = "UserTopic (cl_userID c)"
  have ok: "hub_ok h" and run: "\<not> h_done h" and br: "h_broker h = RemoteBroker"
    and ws: "\<forall>c\<in>set (h_accepted h). cl_workspaceID c = ws_of (cl_channelID c)"
    and sub: "subscribed ?b (wanted_topics ?R)"
    using inv by (simp_all add: topics_ok_def)
  have acc: "?R \<subseteq> set (h_accepted h)" "c \<in> set (h_accepted h)" using hub_okD(2,3) [OF ok] c by auto
  have "set (channel_clients h (cl_channelID c)) = {d \<in> ?R. cl_channelID d = cl_channelID c}"
    using in_channel [OF hub_okD(1) [OF ok]] by auto
  then have "channel_clients h (cl_channelID c) = [] \<longleftrightarrow> {d \<in> ?R. cl_channelID d = cl_channelID c} = {}"
    by (metis set_empty)
  also have "\<dots> \<longleftrightarrow> (\<forall>d\<in>?R. cl_channelID d \<noteq> cl_channelID c)" by auto
  also have "\<dots> \<longleftrightarrow> ?ch \<notin> wanted_topics ?R" using acc ws unfolding channel_wanted by fastforce
  finally have first: "channel_clients h (cl_channelID c) = [] \<longleftrightarrow> ?ch \<notin> wanted_topics ?R" .
  define b1 where "b1 = (if channel_clients h (cl_channelID c) = [] then rb_ensure ?ch True ?b else ?b)"
  have b1: "subscribed b1 (insert ?ch (wanted_topics ?R))"
    using ensure_new [OF sub] sub first by (auto simp: b1_def insert_absorb)
  have user: "counter_get (h_userConnections h) (cl_userID c) = 0 \<longleftrightarrow> ?u \<notin> insert ?ch (wanted_topics ?R)"
    using user_registered [OF ok run] user_wanted topics_disjoint by (metis insert_iff)
  have "rb_calls (h_broker_log (hub_handleRegister t c h)) NewRedisBroker =
      (if counter_get (h_userConnections h) (cl_userID c) = 0 then rb_ensure ?u True b1 else b1)"
    by (simp add: register_log br b1_def)
  then show ?thesis using ensure_new [OF b1] b1 user unfolding wanted_insert by (auto simp: insert_absorb)
qed

lemma topics_unregister:
  assumes inv: "topics_ok ws_of h" and c: "c \<in> set (channel_clients h (cl_channelID c))"
    and R: "set (registered h) = insert c R" "c \<notin> R"
  shows "subscribed (rb_calls (h_broker_log (hub_handleUnregister t c h)) NewRedisBroker) (wanted_topics R)"
proof -
  let ?b = "rb_calls (h_broker_log h) NewRedisBroker" and ?cs = "channel_clients h (cl_channelID c)"
  let ?ch = "ChannelTopic (cl_workspaceID c) (cl_channelID c)" and ?u = "UserTopic (cl_userID c)"
  have ok: "hub_ok h" and run: "\<not> h_done h" and br: "h_broker h = RemoteBroker"
    and ws: "\<forall>c\<in>set (h_accepted h). cl_workspaceID c = ws_of (cl_channelID c)"
    and sub: "subscribed ?b (wanted_topics (insert c R))"
    using inv R by (simp_all add: topics_ok_def)
  have acc: "R \<subseteq> set (h_accepted h)" "c \<in> set (h_accepted h)" using hub_okD(2) [OF ok] R by auto
  have "removeAll c ?cs = [] \<longleftrightarrow> (\<forall>d\<in>R. cl_channelID d \<noteq> cl_channelID c)"
  proof -
    have "removeAll c ?cs = [] \<longleftrightarrow> set ?cs - {c} = {}" by (metis set_empty set_removeAll)
    also have "\<dots> \<longleftrightarrow> (\<forall>d\<in>R. cl_channelID d \<noteq> cl_channelID c)"
      using in_channel [OF hub_okD(1) [OF ok], of _ "cl_channelID c"] R by auto
    finally show ?thesis .
  qed
  also have "\<dots> \<longleftrightarrow> ?ch \<notin> wanted_topics R" using acc ws unfolding channel_wanted by fastforce
  finally have last: "removeAll c ?cs = [] \<longleftrightarrow> ?ch \<notin> wanted_topics R" .
  define b1 where "b1 = (if removeAll c ?cs = [] then rb_maybe ?ch True ?b else ?b)"
  have b1: "subscribed b1 (insert ?u (wanted_topics R))"
  proof (cases "removeAll c ?cs = []")
    case True
    then have "?ch \<notin> insert ?u (wanted_topics R)" using last by simp
    then show ?thesis using maybe_last [OF sub, of ?ch] True
      by (simp add: b1_def wanted_insert insert_commute [of ?u ?ch])
  next
    case False
    then show ?thesis using sub last by (simp add: b1_def wanted_insert insert_absorb)
  qed
  have "counter_get (h_userConnections h) (cl_userID c) = int (count_by cl_userID (cl_userID c) (mset (registered h)))"
    using counts_ok_get [OF hub_okD(5) [OF ok run]] .
  moreover have dist: "distinct (registered h)"
    using distinct_registered [OF hub_okD(1) [OF ok]] by (simp add: registered_def)
  have "mset (registered h) = add_mset c (mset (removeAll c (registered h)))"
    using dist R(1) by (simp add: distinct_remove1_removeAll [symmetric])
  moreover have "set (removeAll c (registered h)) = R" using R by auto
  ultimately have n: "counter_get (h_userConnections h) (cl_userID c) - 1 =
      int (count_by cl_userID (cl_userID c) (mset (removeAll c (registered h))))"
    and R': "set_mset (mset (removeAll c (registered h))) = R" by simp_all
  have user: "counter_get (h_userConnections h) (cl_userID c) - 1 \<le> 0 \<longleftrightarrow> ?u \<notin> wanted_topics R"
    using count_by_pos [of cl_userID "cl_userID c" "mset (removeAll c (registered h))"]
    unfolding n R' user_wanted by (auto simp: image_iff)
  have "rb_calls (h_broker_log (hub_handleUnregister t c h)) NewRedisBroker =
      (if counter_get (h_userConnections h) (cl_userID c) - 1 \<le> 0 then rb_maybe ?u True b1 else b1)"
    by (simp add: unregister_log [OF c] br b1_def)
  then show ?thesis using maybe_last [OF b1, of ?u] b1 user by (auto simp: insert_absorb)
qed

lemma other_step:
  assumes "hub_do out l h = Some h'" and "\<forall>t c. l \<noteq> Register t c" and "\<forall>t c. l \<noteq> Unregister t c"
    and "\<forall>t. l \<noteq> ShutdownHub t"
  shows "rb_calls (h_broker_log h') b = rb_calls (h_broker_log h) b \<and> h_channels h' = h_channels h \<and>
    (\<forall>c\<in>set (h_accepted h'). c \<in> set (h_accepted h) \<or> l = Accept c)"
  using assms
  by (cases l) (auto simp: broker_call_def presence_call_def hub_sendToClient_def client_sendClientError_def
      hub_Publish_def broker_publish_def hub_enqueueBroadcast_def hub_touchPresence_def Let_def
      split: if_splits list.splits prod.splits option.splits broker.splits)

lemma topics_step:
  assumes inv: "topics_ok ws_of h" and only: "placed ws_of l h" and step: "hub_do out l h = Some h'"
  shows "topics_ok ws_of h'"
proof -
  have ok: "hub_ok h" and ws: "\<forall>c\<in>set (h_accepted h). cl_workspaceID c = ws_of (cl_channelID c)"
    using inv by (simp_all add: topics_ok_def)
  have live: "\<forall>t. l \<noteq> ShutdownHub t" using only by (auto simp: placed_def)
  note same = step_done [OF step live] step_broker [OF step live] hub_ok_step [OF ok step]
  have "(\<forall>c\<in>set (h_accepted h'). cl_workspaceID c = ws_of (cl_channelID c)) \<and>
      subscribed (rb_calls (h_broker_log h') NewRedisBroker) (wanted_topics (set (registered h')))"
  proof (cases "\<exists>t c. l = Register t c \<or> l = Unregister t c")
    case False
    note other = other_step [OF step _ _ live, of NewRedisBroker]
    have "rb_calls (h_broker_log h') NewRedisBroker = rb_calls (h_broker_log h) NewRedisBroker"
      "registered h' = registered h" "\<forall>c\<in>set (h_accepted h'). c \<in> set (h_accepted h) \<or> l = Accept c"
      using other False by (auto simp: registered_def)
    then show ?thesis using inv only by (auto simp: topics_ok_def placed_def)
  next
    case True
    then obtain t c where "l = Register t c \<or> l = Unregister t c" by blast
    then show ?thesis
    proof
      assume l: "l = Register t c"
      then have c: "c \<in> set (h_registering h)" and h': "h' = (hub_handleRegister t c h)
          \<lparr>h_registering := removeAll c (h_registering h), h_reading := c # h_reading h\<rparr>"
        using step by (auto split: if_splits)
      have "c \<notin> set (registered h)" using hub_okD(2) [OF ok] c by blast
      then have "mset (registered h') = add_mset c (mset (registered h))"
        using register_mset [OF hub_okD(1) [OF ok]] by (simp add: h' registered_def)
      then have "set (registered h') = insert c (set (registered h))"
        by (metis set_mset_add_mset_insert set_mset_mset)
      then show ?thesis using topics_register [OF inv c] ws by (simp add: h')
    next
      assume l: "l = Unregister t c"
      then have h': "h' = (hub_handleUnregister t c h)\<lparr>h_unregistering := remove1 c (h_unregistering h)\<rparr>"
        using step by (auto split: if_splits)
      show ?thesis
      proof (cases "c \<in> set (channel_clients h (cl_channelID c))")
        case True
        have reg: "mset (registered h) = add_mset c (mset (registered h'))"
          using unregister_mset [OF hub_okD(1) [OF ok] True]
          by (simp add: h' registered_def handleUnregister_fields(1) [OF True])
        have "distinct (registered h)"
          using distinct_registered [OF hub_okD(1) [OF ok]] by (simp add: registered_def)
        then have "distinct (c # registered h')"
          using mset_eq_imp_distinct_iff [of "registered h" "c # registered h'"] reg by simp
        moreover have "set (registered h) = insert c (set (registered h'))"
          by (metis reg set_mset_add_mset_insert set_mset_mset)
        ultimately have "set (registered h) = insert c (set (registered h'))" "c \<notin> set (registered h')" by simp_all
        then show ?thesis using topics_unregister [OF inv True] ws
          by (simp add: h' handleUnregister_fields(5) [OF True])
      next
        case False
        then show ?thesis using inv by (simp add: h' handleUnregister_gone topics_ok_def registered_def)
      qed
    qed
  qed
  then show ?thesis using same inv by (simp add: topics_ok_def)
qed

text \<open>C19: A node over Redis subscribes to what it needs and no more: in every state the hub reaches before shutdown, when every
  SUBSCRIBE and UNSUBSCRIBE succeeds and each client names the workspace of its channel, the topics subscribed are exactly those of the
  channels and of the users that have a registered client here, each counted once; a lost connection that
  \<open>reconnect\<close> replaces subscribes to the same topics; and the topics of channels and users never coincide.\<close>

theorem subscriptions_exact:
  assumes "hub_reaches out (placed ws_of) (NewHub cfg RemoteBroker presence sequencer) h"
  shows "set (rb_topics (rb_calls (h_broker_log h) NewRedisBroker)) =
      {ChannelTopic (cl_workspaceID c) (cl_channelID c) | c. c \<in> set (registered h)} \<union>
      {UserTopic (cl_userID c) | c. c \<in> set (registered h)} \<and>
    dom (rb_subs (rb_calls (h_broker_log h) NewRedisBroker)) = set (rb_topics (rb_calls (h_broker_log h) NewRedisBroker)) \<and>
    ran (rb_subs (rb_calls (h_broker_log h) NewRedisBroker)) \<subseteq> {1} \<and>
    (set ts = dom (rb_subs (rb_calls (h_broker_log h) NewRedisBroker)) \<longrightarrow>
      set (rb_topics (rb_reconnect ts (rb_calls (h_broker_log h) NewRedisBroker))) =
      set (rb_topics (rb_calls (h_broker_log h) NewRedisBroker)))"
proof -
  have "topics_ok ws_of h"
    using assms
  proof (induction rule: hub_reaches.induct)
    case hub_start
    show ?case by (simp add: topics_ok_def hub_ok_start)
      (simp add: NewHub_def registered_def subscribed_def wanted_topics_def NewRedisBroker_def)
  next
    case (hub_more h l h')
    then show ?case using topics_step by (auto simp: hub_next_def split: if_splits)
  qed
  then have sub: "subscribed (rb_calls (h_broker_log h) NewRedisBroker) (wanted_topics (set (registered h)))"
    by (simp add: topics_ok_def)
  then have "dom (rb_subs (rb_calls (h_broker_log h) NewRedisBroker)) = wanted_topics (set (registered h))"
    "ran (rb_subs (rb_calls (h_broker_log h) NewRedisBroker)) \<subseteq> {1}"
    by (auto simp: subscribed_def ran_def split: if_splits)
  moreover have "set (rb_topics (rb_reconnect ts b)) = dom (rb_subs b)"
    if "set ts = dom (rb_subs b)" "ran (rb_subs b) \<subseteq> {1}" for b
    using that by (auto simp: rb_reconnect_def counter_get_def ran_def dom_def)
  ultimately show ?thesis using sub by (auto simp: subscribed_def wanted_topics_def)
qed

theorem subscriptions_exact_witness:
  "\<exists>h. hub_run (\<lambda>_ _. 0) [Accept (sample_client 0 7), Register 0 (sample_client 0 7)]
      (NewHub sample_cfg RemoteBroker True True) = Some h \<and>
    set (rb_topics (rb_calls (h_broker_log h) NewRedisBroker)) = {ChannelTopic 1 10, UserTopic 7}"
proof -
  let ?h0 = "NewHub sample_cfg RemoteBroker True True"
  have "case hub_run (\<lambda>_ _. 0) [Accept (sample_client 0 7), Register 0 (sample_client 0 7)] ?h0 of None \<Rightarrow> False
    | Some h \<Rightarrow> registered h = [sample_client 0 7]"
    by code_simp
  then obtain h where h: "hub_run (\<lambda>_ _. 0) [Accept (sample_client 0 7), Register 0 (sample_client 0 7)] ?h0 = Some h"
    "registered h = [sample_client 0 7]"
    by (auto split: option.splits)
  obtain h1 where h1: "hub_next (\<lambda>_ _. 0) (Accept (sample_client 0 7)) ?h0 = Some h1"
    "hub_next (\<lambda>_ _. 0) (Register 0 (sample_client 0 7)) h1 = Some h"
    using h(1) by (auto split: option.splits)
  have "hub_reaches (\<lambda>_ _. 0) (placed (\<lambda>_. 1)) ?h0 h1"
    by (rule hub_more [OF hub_start _ h1(1)]) (simp add: placed_def sample_client_def)
  then have "hub_reaches (\<lambda>_ _. 0) (placed (\<lambda>_. 1)) ?h0 h"
    by (rule hub_more [OF _ _ h1(2)]) (simp add: placed_def)
  from subscriptions_exact [OF this, of "[]"] show ?thesis using h by (auto simp: sample_client_def)
qed

text \<open>A SUBSCRIBE that fails is forgotten, and the next client of the channel does not try again.\<close>

theorem failed_subscribe_is_not_retried:
  "rb_subs (rb_ensure (ChannelTopic ws ch) False NewRedisBroker) (ChannelTopic ws ch) = None \<and>
   (\<exists>h. hub_run (\<lambda>_ _. 0) [Accept (sample_client 0 7), Register 0 (sample_client 0 7), Accept (sample_client 1 8),
        Register 0 (sample_client 1 8)] (NewHub sample_cfg RemoteBroker True True) = Some h \<and>
      h_broker_log h = [EnsureSubscribed 1 10, EnsureUserSubscribed 7, EnsureUserSubscribed 8])"
proof
  have "case hub_run (\<lambda>_ _. 0) [Accept (sample_client 0 7), Register 0 (sample_client 0 7), Accept (sample_client 1 8),
        Register 0 (sample_client 1 8)] (NewHub sample_cfg RemoteBroker True True) of None \<Rightarrow> False
      | Some h \<Rightarrow> h_broker_log h = [EnsureSubscribed 1 10, EnsureUserSubscribed 7, EnsureUserSubscribed 8]"
    by code_simp
  then show "\<exists>h. hub_run (\<lambda>_ _. 0) [Accept (sample_client 0 7), Register 0 (sample_client 0 7), Accept (sample_client 1 8),
        Register 0 (sample_client 1 8)] (NewHub sample_cfg RemoteBroker True True) = Some h \<and>
      h_broker_log h = [EnsureSubscribed 1 10, EnsureUserSubscribed 7, EnsureUserSubscribed 8]"
    by (auto split: option.splits)
qed (simp add: rb_ensure_def NewRedisBroker_def counter_get_def)

end
