(* ===== verification/Db_Apps.thy ===== *)
theory Db_Apps
  imports Db_Billing
begin

text \<open>
  The statements of \<open>internal/db/apps.sql.go\<close>: apps, API keys, app users, webhooks, idempotency keys and the sandbox,
  with the constraints of migrations 10 and 15 to 18. Rows that other tables delete by cascade stay.
\<close>

section \<open>Apps\<close>

definition CreateApp :: "string \<Rightarrow> string \<Rightarrow> int \<Rightarrow> int \<Rightarrow> int \<Rightarrow> app_row sql" where
  "CreateApp name slug ws sandbox_ws owner =
     insert_into TApps apps_update
       (\<lambda>d. [(exists_row (\<lambda>a. a_slug a = slug) (apps d), unique_violation ''apps_slug_key''),
             (exists_row (\<lambda>a. a_workspace_id a = ws) (apps d), unique_violation ''apps_workspace_id_key''),
             (exists_row (\<lambda>a. a_sandbox_workspace_id a = sandbox_ws) (apps d),
               unique_violation ''idx_apps_sandbox_workspace_id''),
             (\<not> workspace_exists d ws, fk_violation ''apps_workspace_id_fkey''),
             (\<not> workspace_exists d sandbox_ws, fk_violation ''apps_sandbox_workspace_id_fkey''),
             (\<not> user_exists d owner, fk_violation ''apps_owner_id_fkey'')])
       (\<lambda>i t. \<lparr>a_id = i, a_name = name, a_slug = slug, a_workspace_id = ws, a_owner_id = owner, a_created_at = t,
               a_allowed_origins = [], a_sandbox_workspace_id = sandbox_ws\<rparr>)"

definition GetAppBySlug :: "string \<Rightarrow> app_row sql" where
  "GetAppBySlug slug = select_one (\<lambda>d. find (\<lambda>a. a_slug a = slug) (apps d))"

definition ListAppsByOwner :: "int \<Rightarrow> app_row list sql" where
  "ListAppsByOwner owner = select (\<lambda>d. order_desc a_created_at (filter (\<lambda>a. a_owner_id a = owner) (apps d)))"

definition ListAppOriginEntries :: "(int \<times> int \<times> int \<times> string list) list sql" where
  "ListAppOriginEntries = select (\<lambda>d.
     map (\<lambda>a. (a_id a, a_workspace_id a, a_sandbox_workspace_id a, a_allowed_origins a)) (apps d))"

definition UpdateAppAllowedOrigins :: "int \<Rightarrow> string list \<Rightarrow> app_row sql" where
  "UpdateAppAllowedOrigins i origins =
     update_one apps apps_update (\<lambda>a. a_id a = i) (\<lambda>t a. a\<lparr>a_allowed_origins := origins\<rparr>)"

section \<open>API keys\<close>

definition CreateAPIKey ::
  "int \<Rightarrow> string \<Rightarrow> string \<Rightarrow> string \<Rightarrow> bool \<Rightarrow> int option \<Rightarrow> api_key_row sql" where
  "CreateAPIKey app name prefix hash sandbox expires =
     insert_into TApiKeys api_keys_update
       (\<lambda>d. [(exists_row (\<lambda>k. k_key_prefix k = prefix \<and> k_revoked_at k = None) (api_keys d),
               unique_violation ''idx_api_keys_prefix_active''),
             (\<not> app_exists d app, fk_violation ''api_keys_app_id_fkey'')])
       (\<lambda>i t. \<lparr>k_id = i, k_app_id = app, k_name = name, k_key_prefix = prefix, k_key_hash = hash,
               k_is_sandbox = sandbox, k_created_at = t, k_revoked_at = None, k_last_used_at = None,
               k_expires_at = expires\<rparr>)"

definition GetAPIKeyByPrefix :: "string \<Rightarrow> api_key_row sql" where
  "GetAPIKeyByPrefix prefix = select_one (\<lambda>d.
     find (\<lambda>k. k_key_prefix k = prefix \<and> k_revoked_at k = None) (api_keys d))"

definition ListAPIKeysByApp :: "int \<Rightarrow> api_key_row list sql" where
  "ListAPIKeysByApp app = select (\<lambda>d. order_desc k_created_at (filter (\<lambda>k. k_app_id k = app) (api_keys d)))"

definition RevokeAPIKey :: "int \<Rightarrow> int \<Rightarrow> api_key_row sql" where
  "RevokeAPIKey i app =
     update_one api_keys api_keys_update
       (\<lambda>k. k_id k = i \<and> k_app_id k = app \<and> k_revoked_at k = None) (\<lambda>t k. k\<lparr>k_revoked_at := Some t\<rparr>)"

definition TouchAPIKeyLastUsed :: "int \<Rightarrow> unit sql" where
  "TouchAPIKeyLastUsed i = update_all api_keys_update (\<lambda>k. k_id k = i) (\<lambda>t k. k\<lparr>k_last_used_at := Some t\<rparr>)"

section \<open>App users\<close>

definition CreateAppUser :: "int \<Rightarrow> int \<Rightarrow> string \<Rightarrow> string \<Rightarrow> app_user_row sql" where
  "CreateAppUser app uid ext env =
     insert_into TAppUsers app_users_update
       (\<lambda>d. [(exists_row (\<lambda>u. au_app_id u = app \<and> au_external_id u = ext \<and> au_environment u = env) (app_users d),
               unique_violation ''app_users_app_id_external_id_environment_key''),
             (exists_row (\<lambda>u. au_app_id u = app \<and> au_user_id u = uid \<and> au_environment u = env) (app_users d),
               unique_violation ''app_users_app_id_user_id_environment_key''),
             (\<not> app_exists d app, fk_violation ''app_users_app_id_fkey''),
             (\<not> user_exists d uid, fk_violation ''app_users_user_id_fkey'')])
       (\<lambda>i t. \<lparr>au_id = i, au_app_id = app, au_user_id = uid, au_external_id = ext, au_created_at = t,
               au_environment = env\<rparr>)"

definition GetAppUserByExternalID :: "int \<Rightarrow> string \<Rightarrow> string \<Rightarrow> app_user_row sql" where
  "GetAppUserByExternalID app ext env = select_one (\<lambda>d.
     find (\<lambda>u. au_app_id u = app \<and> au_external_id u = ext \<and> au_environment u = env) (app_users d))"

definition GetAppUserByUserID :: "int \<Rightarrow> int \<Rightarrow> string \<Rightarrow> app_user_row sql" where
  "GetAppUserByUserID app uid env = select_one (\<lambda>d.
     find (\<lambda>u. au_app_id u = app \<and> au_user_id u = uid \<and> au_environment u = env) (app_users d))"

section \<open>Webhooks and idempotency keys\<close>

definition CreateWebhook :: "int \<Rightarrow> string \<Rightarrow> string list \<Rightarrow> string \<Rightarrow> webhook_row sql" where
  "CreateWebhook app url events secret =
     insert_into TWebhooks webhooks_update
       (\<lambda>d. [(\<not> app_exists d app, fk_violation ''webhooks_app_id_fkey'')])
       (\<lambda>i t. \<lparr>wh_id = i, wh_app_id = app, wh_url = url, wh_events = events, wh_secret = secret,
               wh_disabled_at = None, wh_created_at = t\<rparr>)"

definition ListWebhooksByApp :: "int \<Rightarrow> webhook_row list sql" where
  "ListWebhooksByApp app = select (\<lambda>d.
     order_desc wh_created_at (filter (\<lambda>w. wh_app_id w = app \<and> wh_disabled_at w = None) (webhooks d)))"

definition DisableWebhook :: "int \<Rightarrow> int \<Rightarrow> int sql" where
  "DisableWebhook i app t d =
     (let p = (\<lambda>w. wh_id w = i \<and> wh_app_id w = app \<and> wh_disabled_at w = None) in
      (Inr (count_rows p (webhooks d)),
       d\<lparr>webhooks := update_where p (\<lambda>w. w\<lparr>wh_disabled_at := Some t\<rparr>) (webhooks d)\<rparr>))"

text \<open>The column \<open>response_body\<close> is JSON; the body is kept as its text.\<close>

definition CreateIdempotencyKey :: "int \<Rightarrow> string \<Rightarrow> string \<Rightarrow> int \<Rightarrow> string \<Rightarrow> idempotency_row sql" where
  "CreateIdempotencyKey app key endpoint status body =
     insert_into TIdempotency idempotency_keys_update
       (\<lambda>d. [(exists_row (\<lambda>r. ik_app_id r = app \<and> ik_key r = key) (idempotency_keys d),
               unique_violation ''idempotency_keys_app_id_idempotency_key_key''),
             (\<not> app_exists d app, fk_violation ''idempotency_keys_app_id_fkey'')])
       (\<lambda>i t. \<lparr>ik_id = i, ik_app_id = app, ik_key = key, ik_endpoint = endpoint, ik_status_code = status,
               ik_response_body = body, ik_created_at = t\<rparr>)"

definition GetIdempotencyKey :: "int \<Rightarrow> string \<Rightarrow> idempotency_row sql" where
  "GetIdempotencyKey app key = select_one (\<lambda>d.
     find (\<lambda>r. ik_app_id r = app \<and> ik_key r = key) (idempotency_keys d))"

section \<open>The sandbox\<close>

definition CountSandboxAppUsers :: "int \<Rightarrow> int sql" where
  "CountSandboxAppUsers app = select (\<lambda>d.
     count_rows (\<lambda>u. au_app_id u = app \<and> au_environment u = ''sandbox'') (app_users d))"

definition CountSandboxWorkspaceChannels :: "int \<Rightarrow> int sql" where
  "CountSandboxWorkspaceChannels ws = select (\<lambda>d. count_rows (\<lambda>c. ch_workspace_id c = ws) (channels d))"

definition CountWorkspaceMessages :: "int \<Rightarrow> int sql" where
  "CountWorkspaceMessages ws = select (\<lambda>d.
     int (length [m. m \<leftarrow> messages d, c \<leftarrow> channels d, ch_id c = m_channel_id m \<and> ch_workspace_id c = ws]))"

text \<open>A channel of the sandbox workspace of some app.\<close>

definition in_sandbox :: "db \<Rightarrow> channel_row \<Rightarrow> bool" where
  "in_sandbox d c \<longleftrightarrow> exists_row (\<lambda>a. a_sandbox_workspace_id a = ch_workspace_id c) (apps d)"

definition DeleteExpiredSandboxMessages :: "int \<Rightarrow> int sql" where
  "DeleteExpiredSandboxMessages cutoff t d =
     (let p = (\<lambda>m. exists_row (\<lambda>c. ch_id c = m_channel_id m \<and> in_sandbox d c) (channels d) \<and> m_created_at m < cutoff) in
      (Inr (count_rows p (messages d)), d\<lparr>messages := delete_where p (messages d)\<rparr>))"

definition DeleteExpiredEmptySandboxChannels :: "int \<Rightarrow> int sql" where
  "DeleteExpiredEmptySandboxChannels cutoff t d =
     (let p = (\<lambda>c. in_sandbox d c \<and> ch_created_at c < cutoff \<and>
                 \<not> exists_row (\<lambda>m. m_channel_id m = ch_id c) (messages d)) in
      (Inr (count_rows p (channels d)), d\<lparr>channels := delete_where p (channels d)\<rparr>))"

end
