(* ===== verification/Api_Keys.thy ===== *)
theory Api_Keys
  imports Db_Apps "HOL-Library.Word"
begin

text \<open>
  \<open>internal/apps/keys.go\<close> and \<open>env.go\<close>: API keys, their lookup prefix and hash, and the two environments of an
  app; and \<open>internal/sandbox\<close>: the limits of the sandbox and the job that empties it. The bytes of
  \<open>crypto/rand\<close> and the SHA-256 function are parameters.
\<close>

section \<open>Encodings\<close>

definition b64_char :: "int \<Rightarrow> char" where
  "b64_char n =
     (if n < 26 then char_of (65 + n)
      else if n < 52 then char_of (71 + n)
      else if n < 62 then char_of (n - 4)
      else if n = 62 then CHR ''-'' else CHR ''_'')"

definition b64_group :: "int \<Rightarrow> int \<Rightarrow> int \<Rightarrow> string" where
  "b64_group a b c =
     (let n = a * 65536 + b * 256 + c
      in [b64_char (n div 262144), b64_char (n div 4096 mod 64), b64_char (n div 64 mod 64), b64_char (n mod 64)])"

text \<open>\<open>base64.RawURLEncoding.EncodeToString\<close>: the last group is cut to the bits it has.\<close>

fun b64url :: "8 word list \<Rightarrow> string" where
  "b64url [] = []"
| "b64url [a] = take 2 (b64_group (uint a) 0 0)"
| "b64url [a, b] = take 3 (b64_group (uint a) (uint b) 0)"
| "b64url (a # b # c # rest) = b64_group (uint a) (uint b) (uint c) @ b64url rest"

definition hex_char :: "int \<Rightarrow> char" where
  "hex_char n = (if n < 10 then char_of (48 + n) else char_of (87 + n))"

definition hex_encode :: "8 word list \<Rightarrow> string" where
  "hex_encode bs = concat (map (\<lambda>b. [hex_char (uint b div 16), hex_char (uint b mod 16)]) bs)"

lemma of_char_b64:
  "0 \<le> n \<Longrightarrow> n < 64 \<Longrightarrow> of_char (b64_char n) =
    (if n < 26 then 65 + n else if n < 52 then 71 + n else if n < 62 then n - 4 else if n = 62 then 45 else 95)"
  by (simp add: b64_char_def of_char_of)

lemma b64_char_inject:
  assumes "0 \<le> m" "m < 64" and "0 \<le> n" "n < 64" and "b64_char m = b64_char n"
  shows "m = n"
proof -
  have "(of_char (b64_char m) :: int) = of_char (b64_char n)" using assms(5) by simp
  then show ?thesis
    unfolding of_char_b64 [OF assms(1,2)] of_char_b64 [OF assms(3,4)] using assms(1-4) by (simp split: if_splits)
qed

lemma length_b64_group [simp]: "length (b64_group a b c) = 4"
  by (simp add: b64_group_def Let_def)

lemma length_b64url: "length (b64url bs) = (4 * length bs + 2) div 3"
  by (induction bs rule: b64url.induct) auto

lemma byte_bounds: "0 \<le> uint (a :: 8 word) \<and> uint a < 256"
proof -
  have "uint a < 2 ^ LENGTH(8)" by (rule unsigned_less)
  then show ?thesis by simp
qed

lemma b64_group_inject:
  assumes "b64_group a b c = b64_group a' b' c'"
    and "0 \<le> a \<and> a < 256" "0 \<le> b \<and> b < 256" "0 \<le> c \<and> c < 256"
    and "0 \<le> a' \<and> a' < 256" "0 \<le> b' \<and> b' < 256" "0 \<le> c' \<and> c' < 256"
  shows "a = a' \<and> b = b' \<and> c = c'"
proof -
  define n where "n = a * 65536 + b * 256 + c"
  define n' where "n' = a' * 65536 + b' * 256 + c'"
  have bound: "0 \<le> n" "n < 16777216" "0 \<le> n'" "n' < 16777216" using assms(2-) by (auto simp: n_def n'_def)
  have "b64_char (n div 262144) = b64_char (n' div 262144)" "b64_char (n div 4096 mod 64) = b64_char (n' div 4096 mod 64)"
    "b64_char (n div 64 mod 64) = b64_char (n' div 64 mod 64)" "b64_char (n mod 64) = b64_char (n' mod 64)"
    using assms(1) by (auto simp: b64_group_def Let_def n_def n'_def)
  then have "n div 262144 = n' div 262144" "n div 4096 mod 64 = n' div 4096 mod 64"
    "n div 64 mod 64 = n' div 64 mod 64" "n mod 64 = n' mod 64"
    using bound by (auto intro!: b64_char_inject)
  moreover have split: "k = 262144 * (k div 262144) + 4096 * (k div 4096 mod 64) + 64 * (k div 64 mod 64) + k mod 64"
    for k :: int
  proof -
    have "k div 64 div 64 = k div 4096" "k div 4096 div 64 = k div 262144" by (simp_all flip: zdiv_zmult2_eq)
    then show ?thesis
      using mult_div_mod_eq [of 64 k] mult_div_mod_eq [of 64 "k div 64"] mult_div_mod_eq [of 64 "k div 4096"] by linarith
  qed
  ultimately have "n = n'" using split [of n] split [of n'] by simp
  then have "n div 65536 = n' div 65536" "n div 256 mod 256 = n' div 256 mod 256" "n mod 256 = n' mod 256" by simp_all
  moreover have "x div 65536 = i \<and> x div 256 mod 256 = j \<and> x mod 256 = k"
    if x: "x = i * 65536 + j * 256 + k" and jk: "0 \<le> j" "j < 256" "0 \<le> k" "k < 256" for x i j k :: int
  proof -
    have x: "x = k + 256 * (256 * i + j)" using x by simp
    have "x mod 256 = k mod 256" unfolding x by (rule mod_mult_self2)
    moreover have "x div 256 = 256 * i + j + k div 256" unfolding x by (rule div_mult_self2) simp
    ultimately have "x div 256 = 256 * i + j" "x mod 256 = k" using jk by simp_all
    moreover have "(256 * i + j) div 256 = i" "(256 * i + j) mod 256 = j" using jk by simp_all
    moreover have "x div 65536 = x div 256 div 256" by (simp flip: zdiv_zmult2_eq)
    ultimately show ?thesis by simp
  qed
  ultimately show ?thesis using n_def n'_def assms(2-) by metis
qed

lemma b64url_inject: "length bs = length bs' \<Longrightarrow> b64url bs = b64url bs' \<Longrightarrow> bs = bs'"
proof (induction bs arbitrary: bs' rule: b64url.induct)
  case 1
  then show ?case by simp
next
  case (2 a)
  then obtain a' where bs': "bs' = [a']" by (cases bs') auto
  have "b64_group (uint a) 0 0 = b64_group (uint a') 0 0"
    using 2 bs' by (auto simp: b64_group_def Let_def)
  from b64_group_inject [OF this] show ?case using byte_bounds [of a] byte_bounds [of a'] bs'
    by (simp add: word_uint_eq_iff)
next
  case (3 a b)
  then obtain a' b' where bs': "bs' = [a', b']" by (cases bs' rule: b64url.cases) auto
  have "b64_group (uint a) (uint b) 0 = b64_group (uint a') (uint b') 0"
    using 3 bs' by (auto simp: b64_group_def Let_def)
  from b64_group_inject [OF this] show ?case
    using byte_bounds [of a] byte_bounds [of a'] byte_bounds [of b] byte_bounds [of b'] bs' by (simp add: word_uint_eq_iff)
next
  case (4 a b c rest)
  then obtain a' b' c' rest' where bs': "bs' = a' # b' # c' # rest'" by (cases bs' rule: b64url.cases) auto
  have *: "b64_group (uint a) (uint b) (uint c) @ b64url rest = b64_group (uint a') (uint b') (uint c') @ b64url rest'"
    using 4(3) bs' by simp
  then have g: "b64_group (uint a) (uint b) (uint c) = b64_group (uint a') (uint b') (uint c')" and r: "b64url rest = b64url rest'"
    by (auto simp: append_eq_append_conv)
  have "rest = rest'" using 4(1) [OF _ r] 4(2) bs' by simp
  moreover have "uint a = uint a' \<and> uint b = uint b' \<and> uint c = uint c'"
    by (rule b64_group_inject [OF g]) (simp_all add: byte_bounds)
  ultimately show ?case using bs' by (simp add: word_uint_eq_iff)
qed

section \<open>API keys\<close>

definition livePrefix :: string where "livePrefix = ''bx_live_''"
definition testPrefix :: string where "testPrefix = ''bx_test_''"
definition prefixLen :: nat where "prefixLen = 16"

definition HashAPIKey :: "(string \<Rightarrow> 8 word list) \<Rightarrow> string \<Rightarrow> string" where
  "HashAPIKey sha256 key = hex_encode (sha256 key)"

definition IsAPIKeyToken :: "string \<Rightarrow> bool" where
  "IsAPIKeyToken token \<longleftrightarrow> has_prefix livePrefix token \<or> has_prefix testPrefix token"

definition LookupPrefix :: "string \<Rightarrow> string" where
  "LookupPrefix key = (if length key < prefixLen then key else take prefixLen key)"

text \<open>The result of \<open>rand.Read\<close> on a buffer of \<open>secretBytes\<close> bytes, or its error, is given.\<close>

definition GenerateAPIKey ::
  "(string \<Rightarrow> 8 word list) \<Rightarrow> goerr + 8 word list \<Rightarrow> bool \<Rightarrow> goerr + string \<times> string \<times> string" where
  "GenerateAPIKey sha256 random sandbox =
     (case random of
        Inl e \<Rightarrow> Inl e
      | Inr secret \<Rightarrow>
          (let plain = (if sandbox then testPrefix else livePrefix) @ b64url secret in
           if length plain < prefixLen then Inl (EExternal ''generated api key too short'')
           else Inr (plain, take prefixLen plain, HashAPIKey sha256 plain)))"

lemma GenerateAPIKey_shape:
  assumes "GenerateAPIKey sha256 (Inr secret) sandbox = Inr (plain, prefix, hash)"
  shows "IsAPIKeyToken plain \<and> LookupPrefix plain = prefix \<and> hash = HashAPIKey sha256 plain \<and> length prefix = prefixLen"
  using assms
  by (auto simp: GenerateAPIKey_def Let_def IsAPIKeyToken_def LookupPrefix_def has_prefix_iff prefixLen_def
      split: if_splits)

lemma GenerateAPIKey_total:
  "length secret = 24 \<Longrightarrow> \<exists>k. GenerateAPIKey sha256 (Inr secret) sandbox = Inr k"
  by (simp add: GenerateAPIKey_def Let_def length_b64url livePrefix_def testPrefix_def prefixLen_def)

section \<open>Environments\<close>

definition EnvironmentFromSandbox :: "bool \<Rightarrow> string" where
  "EnvironmentFromSandbox sandbox = (if sandbox then ''sandbox'' else ''live'')"

definition WorkspaceForSandbox :: "app_row \<Rightarrow> bool \<Rightarrow> int" where
  "WorkspaceForSandbox app sandbox = (if sandbox then a_sandbox_workspace_id app else a_workspace_id app)"

definition WorkspaceForEnvironment :: "app_row \<Rightarrow> string \<Rightarrow> int" where
  "WorkspaceForEnvironment app env = WorkspaceForSandbox app (env = ''sandbox'')"

definition IsLiveWorkspace :: "app_row \<Rightarrow> int \<Rightarrow> bool" where
  "IsLiveWorkspace app ws \<longleftrightarrow> ws = a_workspace_id app"

definition EffectiveApp :: "app_row \<Rightarrow> bool \<Rightarrow> app_row" where
  "EffectiveApp app sandbox = app\<lparr>a_workspace_id := WorkspaceForSandbox app sandbox\<rparr>"

section \<open>The sandbox\<close>

text \<open>Durations are the nanoseconds of \<open>time.Duration\<close>, an \<open>int64\<close> whose products wrap around.\<close>

definition wrap_int64 :: "int \<Rightarrow> int" where
  "wrap_int64 n = (n + 2 ^ 63) mod 2 ^ 64 - 2 ^ 63"

record sandbox_config =
  MaxUsers :: int
  MaxChannels :: int
  MaxMessages :: int
  APIKeyTTL :: int
  DataTTL :: int
  CleanupInterval :: int

definition sandbox_envInt :: "(string \<Rightarrow> string) \<Rightarrow> string \<Rightarrow> int \<Rightarrow> int" where
  "sandbox_envInt getenv key fallback =
     (let raw = TrimSpace (getenv key) in
      if raw = [] then fallback
      else case ParseInt raw of None \<Rightarrow> fallback | Some v \<Rightarrow> if v < 0 then fallback else v)"

definition sandbox_days :: "(string \<Rightarrow> string) \<Rightarrow> string \<Rightarrow> int \<Rightarrow> int" where
  "sandbox_days getenv key fallback =
     (let v = sandbox_envInt getenv key fallback in
      if v \<le> 0 then 0 else wrap_int64 (wrap_int64 (v * 24) * 3600000000000))"

definition sandbox_hours :: "(string \<Rightarrow> string) \<Rightarrow> string \<Rightarrow> int \<Rightarrow> int" where
  "sandbox_hours getenv key fallback =
     (let v = sandbox_envInt getenv key fallback in
      if v \<le> 0 then 0 else wrap_int64 (v * 3600000000000))"

definition sandbox_LoadConfig :: "(string \<Rightarrow> string) \<Rightarrow> sandbox_config" where
  "sandbox_LoadConfig getenv =
     \<lparr>MaxUsers = sandbox_envInt getenv ''SANDBOX_MAX_USERS'' 100,
      MaxChannels = sandbox_envInt getenv ''SANDBOX_MAX_CHANNELS'' 20,
      MaxMessages = sandbox_envInt getenv ''SANDBOX_MAX_MESSAGES'' 1000,
      APIKeyTTL = sandbox_days getenv ''SANDBOX_API_KEY_TTL_DAYS'' 90,
      DataTTL = sandbox_days getenv ''SANDBOX_DATA_TTL_DAYS'' 30,
      CleanupInterval = sandbox_hours getenv ''SANDBOX_CLEANUP_INTERVAL_HOURS'' 24\<rparr>"

text \<open>\<open>t.Add(d)\<close> on the microseconds that PostgreSQL keeps of a time.\<close>

definition add_duration :: "int \<Rightarrow> int \<Rightarrow> int" where
  "add_duration t d = t + d div 1000"

definition cleaner_RunOnce :: "sandbox_config \<Rightarrow> unit prog" where
  "cleaner_RunOnce cfg =
     (if DataTTL cfg \<le> 0 then ret ()
      else clock (\<lambda>t.
        let cutoff = add_duration t (- DataTTL cfg) in
        andthen (exec (DeleteExpiredSandboxMessages cutoff)) (\<lambda>_.
        andthen (exec (DeleteExpiredEmptySandboxChannels cutoff)) (\<lambda>_. ret ()))))"

text \<open>\<open>Start\<close> runs the job at once and then at each tick until the context is done.\<close>

definition cleaner_Start :: "sandbox_config \<Rightarrow> nat \<Rightarrow> unit prog" where
  "cleaner_Start cfg ticks =
     (if DataTTL cfg \<le> 0 \<or> CleanupInterval cfg \<le> 0 then ret ()
      else for_each (replicate (Suc ticks) ()) (\<lambda>_. ignoring (cleaner_RunOnce cfg)))"

text \<open>What the job may remove, as of a cutoff.\<close>

definition sandbox_message :: "db \<Rightarrow> message_row \<Rightarrow> bool" where
  "sandbox_message d m \<longleftrightarrow> (\<exists>c\<in>set (channels d). ch_id c = m_channel_id m \<and> in_sandbox d c)"

definition other_tables :: "db \<Rightarrow> db" where
  "other_tables d = d\<lparr>messages := [], channels := []\<rparr>"

definition purge_messages :: "int \<Rightarrow> db \<Rightarrow> db" where
  "purge_messages cutoff d = d\<lparr>messages := filter (\<lambda>m. \<not> (sandbox_message d m \<and> m_created_at m < cutoff)) (messages d)\<rparr>"

definition purge_channels :: "int \<Rightarrow> db \<Rightarrow> db" where
  "purge_channels cutoff d = d\<lparr>channels := filter (\<lambda>c. \<not> (in_sandbox d c \<and> ch_created_at c < cutoff \<and>
     (\<forall>m\<in>set (messages d). m_channel_id m \<noteq> ch_id c))) (channels d)\<rparr>"

lemma DeleteExpired_run:
  "\<exists>n. DeleteExpiredSandboxMessages cutoff t d = (Inr n, purge_messages cutoff d)"
  "\<exists>n. DeleteExpiredEmptySandboxChannels cutoff t d = (Inr n, purge_channels cutoff d)"
  by (simp_all add: DeleteExpiredSandboxMessages_def DeleteExpiredEmptySandboxChannels_def Let_def delete_where_def
      purge_messages_def purge_channels_def sandbox_message_def)

lemma exec_total_cases:
  assumes "\<And>t d. \<exists>n. q t d = (Inr n, f d)" and "exec q s = (r, s')"
  shows "(\<exists>n. r = Inr n \<and> db s' = f (db s)) \<or> (\<exists>e. r = Inl e \<and> db s' \<in> {db s, f (db s)})"
  using assms(2)
proof (cases rule: exec_runE)
  case (ran t)
  then show ?thesis using assms(1) [of t "db s"] exec_Inr assms(2) by (cases r) (fastforce dest: exec_Inr)+
qed auto

lemma RunOnce_states:
  assumes "cleaner_RunOnce cfg s = (r, s')" and "0 < DataTTL cfg"
  defines "cutoff \<equiv> add_duration (now s) (- DataTTL cfg)"
  shows "db s' \<in> {db s, purge_messages cutoff (db s), purge_channels cutoff (purge_messages cutoff (db s))} \<and>
    (r = Inr () \<longrightarrow> db s' = purge_channels cutoff (purge_messages cutoff (db s)))"
proof -
  let ?m = "exec (DeleteExpiredSandboxMessages cutoff)" and ?c = "exec (DeleteExpiredEmptySandboxChannels cutoff)"
  have run: "andthen ?m (\<lambda>_. andthen ?c (\<lambda>_. ret ())) s = (r, s')"
    using assms(1,2) by (simp add: cleaner_RunOnce_def Let_def cutoff_def)
  note m = exec_total_cases [OF DeleteExpired_run(1) [of cutoff]] and c = exec_total_cases [OF DeleteExpired_run(2) [of cutoff]]
  show ?thesis using run by (fastforce simp: andthen_eq dest!: m c)
qed


lemma slug_match_alnum: "list_all is_alnum_lower s \<Longrightarrow> b \<or> s \<noteq> [] \<Longrightarrow> slug_match b s"
  by (induction b s rule: slug_match.induct) auto

lemma digit_char_alnum: "d < 10 \<Longrightarrow> is_alnum_lower (digit_char d)"
  by (simp add: is_alnum_lower_def digit_char_of)

lemma slug_pattern_digits: "slug_pattern (format_nat n)"
  unfolding slug_pattern_def
  by (rule slug_match_alnum) (auto simp: list_all_iff dest!: format_nat_digits intro: digit_char_alnum)

lemma sandbox_days_of:
  assumes "0 \<le> v" and "v < 2 ^ 63"
  shows "sandbox_days (\<lambda>_. FormatInt v) key fallback = wrap_int64 (wrap_int64 (v * 24) * 3600000000000)"
proof -
  have "TrimSpace (FormatInt v) = FormatInt v"
    using assms by (intro TrimSpace_slug) (simp add: FormatInt_def slug_pattern_digits)
  moreover have "FormatInt v \<noteq> []" using assms by (simp add: FormatInt_def)
  ultimately show ?thesis
    using assms by (auto simp: sandbox_days_def sandbox_envInt_def ParseInt_FormatInt wrap_int64_def Let_def)
qed

text \<open>The times to live are as configured up to 106751 days; beyond that the product of \<open>time.Duration\<close> wraps
  around, so a longer time can mean a short one: 106752 days come out negative, which switches the cleanup off and
  makes the keys eternal, and 213504 days as less than half an hour.\<close>

theorem sandbox_ttl_wraps:
  "(0 \<le> v \<and> v \<le> 106751 \<longrightarrow> sandbox_days (\<lambda>_. FormatInt v) key fallback = v * 86400 * 10 ^ 9) \<and>
   sandbox_days (\<lambda>_. FormatInt 106752) key fallback < 0 \<and>
   0 < sandbox_days (\<lambda>_. FormatInt 213504) key fallback \<and>
   sandbox_days (\<lambda>_. FormatInt 213504) key fallback < 1800 * 10 ^ 9"
proof -
  have "wrap_int64 (wrap_int64 (v * 24) * 3600000000000) = v * 86400 * 10 ^ 9" if "0 \<le> v" "v \<le> 106751"
    using that by (simp add: wrap_int64_def)
  moreover have "wrap_int64 (wrap_int64 (106752 * 24) * 3600000000000) < 0"
    "0 < wrap_int64 (wrap_int64 (213504 * 24) * 3600000000000)"
    "wrap_int64 (wrap_int64 (213504 * 24) * 3600000000000) < 1800 * 10 ^ 9"
    by (simp_all add: wrap_int64_def)
  ultimately show ?thesis by (simp add: sandbox_days_of)
qed

theorem sandbox_ttl_wraps_witness: "sandbox_days (\<lambda>_. FormatInt 30) ''SANDBOX_DATA_TTL_DAYS'' 1 = 2592000 * 10 ^ 9"
  using sandbox_ttl_wraps [of 30 "''SANDBOX_DATA_TTL_DAYS''" 1] by simp

definition sample_sandbox :: sandbox_config where
  "sample_sandbox = sandbox_LoadConfig (\<lambda>_. [])"


end
