(* ===== verification/Presence_Redis.thy ===== *)
theory Presence_Redis
  imports Presence Api_Keys "HOL-Library.AList"
begin

text \<open>
  \<open>internal/presence/redis_store.go\<close> and \<open>keys.go\<close>: the store that several nodes share. Redis is a map from keys to
  values with the time at which they expire; a command takes the time and the map. A Lua script and a pipeline are one
  step of Redis, and one round trip of the client, which may fail before or after Redis has run it; a
  command on a value of another type ends a script and, other than in Redis, a pipeline. Numbers in a hash
  are kept as \<open>VInt\<close>, times as \<open>VTime\<close>, both stand for their text. Times are nanoseconds.
\<close>

section \<open>Redis\<close>

datatype redis_value = RInt int | RHash gomap | RSet "string list"

type_synonym redis_keys = "string \<rightharpoonup> redis_value \<times> int option"

type_synonym 'a redis_cmd = "int \<Rightarrow> redis_keys \<Rightarrow> (goerr + 'a) \<times> redis_keys"

definition redis_ret :: "'a \<Rightarrow> 'a redis_cmd" where
  "redis_ret x t m = (Inr x, m)"

definition redis_then :: "'a redis_cmd \<Rightarrow> ('a \<Rightarrow> 'b redis_cmd) \<Rightarrow> 'b redis_cmd" where
  "redis_then p f t m = (case p t m of (Inl e, m') \<Rightarrow> (Inl e, m') | (Inr x, m') \<Rightarrow> f x t m')"

definition wrong_type :: goerr where
  "wrong_type = EExternal ''WRONGTYPE''"

text \<open>The entry of a key that has not expired.\<close>

definition redis_live :: "int \<Rightarrow> redis_keys \<Rightarrow> string \<Rightarrow> (redis_value \<times> int option) option" where
  "redis_live t m k = (case m k of Some (v, Some d) \<Rightarrow> if d < t then None else Some (v, Some d) | e \<Rightarrow> e)"

definition redis_INCRBY :: "string \<Rightarrow> int \<Rightarrow> int redis_cmd" where
  "redis_INCRBY k n t m =
     (case redis_live t m k of
        None \<Rightarrow> (Inr n, m(k \<mapsto> (RInt n, None)))
      | Some (RInt v, d) \<Rightarrow> (Inr (v + n), m(k \<mapsto> (RInt (v + n), d)))
      | Some _ \<Rightarrow> (Inl wrong_type, m))"

definition redis_DEL :: "string \<Rightarrow> unit redis_cmd" where
  "redis_DEL k t m = (Inr (), m(k := None))"

text \<open>A time to live that is not positive deletes the key.\<close>

definition redis_EXPIRE :: "string \<Rightarrow> int \<Rightarrow> unit redis_cmd" where
  "redis_EXPIRE k secs t m =
     (Inr (), case redis_live t m k of
        None \<Rightarrow> m
      | Some (v, d) \<Rightarrow> if secs \<le> 0 then m(k := None) else m(k \<mapsto> (v, Some (t + secs * 1000000000))))"

definition redis_SADD :: "string \<Rightarrow> string \<Rightarrow> unit redis_cmd" where
  "redis_SADD k x t m =
     (case redis_live t m k of
        None \<Rightarrow> (Inr (), m(k \<mapsto> (RSet [x], None)))
      | Some (RSet xs, d) \<Rightarrow> (Inr (), m(k \<mapsto> (RSet (List.insert x xs), d)))
      | Some _ \<Rightarrow> (Inl wrong_type, m))"

text \<open>A set that becomes empty is removed.\<close>

definition redis_SREM :: "string \<Rightarrow> string \<Rightarrow> unit redis_cmd" where
  "redis_SREM k x t m =
     (case redis_live t m k of
        None \<Rightarrow> (Inr (), m)
      | Some (RSet xs, d) \<Rightarrow>
          (Inr (), if removeAll x xs = [] then m(k := None) else m(k \<mapsto> (RSet (removeAll x xs), d)))
      | Some _ \<Rightarrow> (Inl wrong_type, m))"

definition redis_SMEMBERS :: "string \<Rightarrow> string list redis_cmd" where
  "redis_SMEMBERS k t m =
     (case redis_live t m k of
        None \<Rightarrow> (Inr [], m)
      | Some (RSet xs, d) \<Rightarrow> (Inr xs, m)
      | Some _ \<Rightarrow> (Inl wrong_type, m))"

definition redis_HGETALL :: "string \<Rightarrow> gomap redis_cmd" where
  "redis_HGETALL k t m =
     (case redis_live t m k of
        None \<Rightarrow> (Inr [], m)
      | Some (RHash h, d) \<Rightarrow> (Inr h, m)
      | Some _ \<Rightarrow> (Inl wrong_type, m))"

definition redis_HGET :: "string \<Rightarrow> string \<Rightarrow> gov option redis_cmd" where
  "redis_HGET k f = redis_then (redis_HGETALL k) (\<lambda>h. redis_ret (map_of h f))"

definition redis_HSET :: "string \<Rightarrow> string \<Rightarrow> gov \<Rightarrow> unit redis_cmd" where
  "redis_HSET k f v t m =
     (case redis_live t m k of
        None \<Rightarrow> (Inr (), m(k \<mapsto> (RHash [(f, v)], None)))
      | Some (RHash h, d) \<Rightarrow> (Inr (), m(k \<mapsto> (RHash (AList.update f v h), d)))
      | Some _ \<Rightarrow> (Inl wrong_type, m))"

definition redis_HINCRBY :: "string \<Rightarrow> string \<Rightarrow> int \<Rightarrow> int redis_cmd" where
  "redis_HINCRBY k f n =
     redis_then (redis_HGET k f) (\<lambda>v.
     case v of
       None \<Rightarrow> redis_then (redis_HSET k f (VInt n)) (\<lambda>_. redis_ret n)
     | Some (VInt i) \<Rightarrow> redis_then (redis_HSET k f (VInt (i + n))) (\<lambda>_. redis_ret (i + n))
     | Some _ \<Rightarrow> (\<lambda>t m. (Inl (EExternal ''ERR hash value is not an integer''), m)))"

section \<open>Keys\<close>

definition presence_LoadConfig :: "(string \<Rightarrow> string) \<Rightarrow> int" where
  "presence_LoadConfig getenv =
     (let raw = TrimSpace (getenv ''PRESENCE_TTL_SECONDS'');
          seconds = (if raw = [] then 120
                     else case ParseInt raw of None \<Rightarrow> 120 | Some v \<Rightarrow> if v > 0 then v else 120)
      in wrap_int64 (seconds * 1000000000))"

definition userKey :: "int \<Rightarrow> string" where
  "userKey uid = ''presence:'' @ FormatInt uid"

definition globalOnlineKey :: string where
  "globalOnlineKey = ''presence:online''"

definition workspaceOnlineKey :: "int \<Rightarrow> string" where
  "workspaceOnlineKey ws = ''presence:workspace:'' @ FormatInt ws @ '':online''"

definition workspaceConnKey :: "int \<Rightarrow> int \<Rightarrow> string" where
  "workspaceConnKey uid ws = ''presence:ws:'' @ FormatInt uid @ '':'' @ FormatInt ws"

definition channelConnKey :: "int \<Rightarrow> int \<Rightarrow> int \<Rightarrow> string" where
  "channelConnKey uid ws ch = ''presence:ch:'' @ FormatInt uid @ '':'' @ FormatInt ws @ '':'' @ FormatInt ch"

definition activeChannelsKey :: "int \<Rightarrow> string" where
  "activeChannelsKey uid = ''presence:user:'' @ FormatInt uid @ '':channels''"

definition channelRef :: "int \<Rightarrow> int \<Rightarrow> string" where
  "channelRef ws ch = FormatInt ws @ '':'' @ FormatInt ch"

definition parseChannelRef :: "string \<Rightarrow> (int \<times> int) option" where
  "parseChannelRef raw =
     (case split_first CHR '':'' raw of
        None \<Rightarrow> None
      | Some (a, b) \<Rightarrow>
          (case ParseInt a of
             None \<Rightarrow> None
           | Some ws \<Rightarrow> (case ParseInt b of None \<Rightarrow> None | Some ch \<Rightarrow> Some (ws, ch))))"

section \<open>The store\<close>

text \<open>Both scripts count a workspace and a channel alike: the key of the count and the set of what is counted.\<close>

definition script_open :: "string \<Rightarrow> string \<Rightarrow> string \<Rightarrow> int \<Rightarrow> unit redis_cmd" where
  "script_open count_key set_key member ttl =
     redis_then (redis_INCRBY count_key 1) (\<lambda>count.
     redis_then (redis_EXPIRE count_key ttl) (\<lambda>_.
     redis_then (if count = 1 then redis_SADD set_key member else redis_ret ()) (\<lambda>_.
     redis_EXPIRE set_key ttl)))"

definition script_close :: "string \<Rightarrow> string \<Rightarrow> string \<Rightarrow> unit redis_cmd" where
  "script_close count_key set_key member =
     redis_then (redis_INCRBY count_key (- 1)) (\<lambda>count.
     if count \<le> 0
     then redis_then (redis_DEL count_key) (\<lambda>_. redis_SREM set_key member)
     else redis_ret ())"

definition script_online :: "string \<Rightarrow> string \<Rightarrow> string \<Rightarrow> int \<Rightarrow> int \<Rightarrow> (int \<times> bool) redis_cmd" where
  "script_online global_key global_online_key user_id stamp ttl =
     redis_then (redis_HINCRBY global_key ''connection_count'' 1) (\<lambda>global_count.
     redis_then (redis_HSET global_key ''last_seen'' (VTime stamp)) (\<lambda>_.
     redis_then (redis_EXPIRE global_key ttl) (\<lambda>_.
     redis_then (if global_count = 1
                 then redis_then (redis_HSET global_key ''status'' (VStr ''online'')) (\<lambda>_.
                      redis_SADD global_online_key user_id)
                 else redis_ret ()) (\<lambda>_.
     redis_then (redis_EXPIRE global_online_key ttl) (\<lambda>_.
     redis_ret (global_count, global_count = 1))))))"

definition script_offline :: "string \<Rightarrow> string \<Rightarrow> string \<Rightarrow> int \<Rightarrow> int \<Rightarrow> (int \<times> bool) redis_cmd" where
  "script_offline global_key global_online_key user_id stamp ttl =
     redis_then (redis_HINCRBY global_key ''connection_count'' (- 1)) (\<lambda>global_count.
     redis_then (redis_HSET global_key ''last_seen'' (VTime stamp)) (\<lambda>_.
     redis_then (if global_count < 0
                 then redis_then (redis_HSET global_key ''connection_count'' (VInt 0)) (\<lambda>_. redis_ret 0)
                 else redis_ret global_count) (\<lambda>global_count.
     redis_then (if global_count \<le> 0
                 then redis_then (redis_HSET global_key ''status'' (VStr ''offline'')) (\<lambda>_.
                      redis_then (redis_HSET global_key ''connection_count'' (VInt 0)) (\<lambda>_.
                      redis_SREM global_online_key user_id))
                 else redis_ret ()) (\<lambda>_.
     redis_then (redis_EXPIRE global_key ttl) (\<lambda>_.
     redis_ret (global_count, global_count \<le> 0))))))"

definition connectScript :: "int \<Rightarrow> int \<Rightarrow> int \<Rightarrow> int \<Rightarrow> int \<Rightarrow> (int \<times> bool) redis_cmd" where
  "connectScript uid ws ch stamp ttl =
     redis_then (script_open (workspaceConnKey uid ws) (workspaceOnlineKey ws) (FormatInt uid) ttl) (\<lambda>_.
     redis_then (script_open (channelConnKey uid ws ch) (activeChannelsKey uid) (channelRef ws ch) ttl) (\<lambda>_.
     script_online (userKey uid) globalOnlineKey (FormatInt uid) stamp ttl))"

definition disconnectScript :: "int \<Rightarrow> int \<Rightarrow> int \<Rightarrow> int \<Rightarrow> int \<Rightarrow> (int \<times> bool) redis_cmd" where
  "disconnectScript uid ws ch stamp ttl =
     redis_then (script_close (workspaceConnKey uid ws) (workspaceOnlineKey ws) (FormatInt uid)) (\<lambda>_.
     redis_then (script_close (channelConnKey uid ws ch) (activeChannelsKey uid) (channelRef ws ch)) (\<lambda>_.
     script_offline (userKey uid) globalOnlineKey (FormatInt uid) stamp ttl))"

record redis_store =
  rs_keys :: redis_keys
  rs_ttl :: int
  rs_fates :: "fate list"

definition NewRedisStore :: "int \<Rightarrow> redis_store" where
  "NewRedisStore ttl = \<lparr>rs_keys = Map.empty, rs_ttl = ttl, rs_fates = []\<rparr>"

text \<open>One round trip.\<close>

definition redis_call :: "'a redis_cmd \<Rightarrow> int \<Rightarrow> redis_store \<Rightarrow> (goerr + 'a) \<times> redis_store" where
  "redis_call p t st =
     (case p t (rs_keys st) of (r, m) \<Rightarrow>
      case rs_fates st of
        [] \<Rightarrow> (r, st\<lparr>rs_keys := m\<rparr>)
      | Done # fs \<Rightarrow> (r, st\<lparr>rs_keys := m, rs_fates := fs\<rparr>)
      | Refused # fs \<Rightarrow> (Inl EConn, st\<lparr>rs_fates := fs\<rparr>)
      | Lost # fs \<Rightarrow> (Inl EConn, st\<lparr>rs_keys := m, rs_fates := fs\<rparr>))"

text \<open>\<open>int(s.cfg.TTL.Seconds())\<close>, for whole seconds.\<close>

definition ttl_seconds :: "int \<Rightarrow> int" where
  "ttl_seconds ttl = (if ttl < 0 then - ((- ttl) div 1000000000) else ttl div 1000000000)"

definition redstore_Connect ::
  "int \<Rightarrow> int \<Rightarrow> int \<Rightarrow> int \<Rightarrow> redis_store \<Rightarrow> (goerr + connect_result) \<times> redis_store" where
  "redstore_Connect t uid ws ch st =
     (case redis_call (connectScript uid ws ch t (ttl_seconds (rs_ttl st))) t st of
        (Inl e, st) \<Rightarrow> (Inl e, st)
      | (Inr (n, online), st) \<Rightarrow> (Inr \<lparr>BecameOnline = online, ConnectCount = n\<rparr>, st))"

definition redstore_Disconnect ::
  "int \<Rightarrow> int \<Rightarrow> int \<Rightarrow> int \<Rightarrow> redis_store \<Rightarrow> (goerr + disconnect_result) \<times> redis_store" where
  "redstore_Disconnect t uid ws ch st =
     (case redis_call (disconnectScript uid ws ch t (ttl_seconds (rs_ttl st))) t st of
        (Inl e, st) \<Rightarrow> (Inl e, st)
      | (Inr (n, offline), st) \<Rightarrow> (Inr \<lparr>BecameOffline = offline, DisconnectCount = max n 0\<rparr>, st))"

definition redstore_Touch :: "int \<Rightarrow> int \<Rightarrow> redis_store \<Rightarrow> (goerr + unit) \<times> redis_store" where
  "redstore_Touch t uid st =
     (let ttl = ttl_seconds (rs_ttl st) in
      redis_call
        (redis_then (redis_HSET (userKey uid) ''last_seen'' (VTime t)) (\<lambda>_.
         redis_then (redis_EXPIRE (userKey uid) ttl) (\<lambda>_.
         redis_then (redis_EXPIRE globalOnlineKey ttl) (\<lambda>_.
         redis_EXPIRE (activeChannelsKey uid) ttl)))) t st)"

definition hash_count :: "gov option \<Rightarrow> int" where
  "hash_count v = (case v of Some (VInt n) \<Rightarrow> n | _ \<Rightarrow> 0)"

definition is_count :: "gov option \<Rightarrow> bool" where
  "is_count v = (case v of None \<Rightarrow> True | Some (VInt n) \<Rightarrow> True | _ \<Rightarrow> False)"

definition redstore_Get :: "int \<Rightarrow> int \<Rightarrow> redis_store \<Rightarrow> (goerr + user_presence) \<times> redis_store" where
  "redstore_Get t uid st =
     (case redis_call (redis_HGETALL (userKey uid)) t st of
        (Inl e, st) \<Rightarrow> (Inl e, st)
      | (Inr h, st) \<Rightarrow>
          if h = []
          then (Inr \<lparr>up_user_id = uid, up_status = ''offline'', up_connection_count = 0, up_last_seen = None\<rparr>, st)
          else let count = hash_count (map_of h ''connection_count'');
                   status = (case map_of h ''status'' of Some (VStr s) \<Rightarrow> s | _ \<Rightarrow> []);
                   status = (if count \<le> 0 then ''offline'' else status)
               in (Inr \<lparr>up_user_id = uid, up_status = status, up_connection_count = count,
                        up_last_seen = (case map_of h ''last_seen'' of Some (VTime s) \<Rightarrow> Some s | _ \<Rightarrow> None)\<rparr>, st))"

definition redstore_SetStatus :: "int \<Rightarrow> int \<Rightarrow> string \<Rightarrow> redis_store \<Rightarrow> (goerr + user_presence) \<times> redis_store" where
  "redstore_SetStatus t uid status st =
     (case redis_call (redis_HGET (userKey uid) ''connection_count'') t st of
        (Inl e, st) \<Rightarrow> (Inl e, st)
      | (Inr v, st) \<Rightarrow>
          if \<not> is_count v then (Inl (EExternal ''strconv.ParseInt''), st)
          else
          let status = (if hash_count v > 0 \<and> status = ''offline'' then ''away'' else status) in
          (case redis_call
                  (redis_then (redis_HSET (userKey uid) ''status'' (VStr status)) (\<lambda>_.
                   redis_then (redis_HSET (userKey uid) ''last_seen'' (VTime t)) (\<lambda>_.
                   redis_EXPIRE (userKey uid) (ttl_seconds (rs_ttl st))))) t st of
             (Inl e, st) \<Rightarrow> (Inl e, st)
           | (Inr u, st) \<Rightarrow> redstore_Get t uid st))"

text \<open>The loop of \<open>ListOnline\<close>: entries that do not parse and lookups that fail are skipped.\<close>

fun redstore_collect :: "int \<Rightarrow> string list \<Rightarrow> redis_store \<Rightarrow> user_presence list \<times> redis_store" where
  "redstore_collect t [] st = ([], st)"
| "redstore_collect t (raw # raws) st =
     (case ParseInt raw of
        None \<Rightarrow> redstore_collect t raws st
      | Some uid \<Rightarrow>
          (case redstore_Get t uid st of
             (Inl e, st) \<Rightarrow> redstore_collect t raws st
           | (Inr p, st) \<Rightarrow>
               (case redstore_collect t raws st of
                  (ps, st) \<Rightarrow> (if up_connection_count p > 0 then p # ps else ps, st))))"

definition redstore_ListOnline :: "int \<Rightarrow> redis_store \<Rightarrow> (goerr + user_presence list) \<times> redis_store" where
  "redstore_ListOnline t st =
     (case redis_call (redis_SMEMBERS globalOnlineKey) t st of
        (Inl e, st) \<Rightarrow> (Inl e, st)
      | (Inr raws, st) \<Rightarrow> (case redstore_collect t raws st of (ps, st) \<Rightarrow> (Inr ps, st)))"

definition redstore_ListWorkspaceOnlineUserIDs :: "int \<Rightarrow> int \<Rightarrow> redis_store \<Rightarrow> (goerr + int list) \<times> redis_store" where
  "redstore_ListWorkspaceOnlineUserIDs t ws st =
     (case redis_call (redis_SMEMBERS (workspaceOnlineKey ws)) t st of
        (Inl e, st) \<Rightarrow> (Inl e, st)
      | (Inr raws, st) \<Rightarrow> (Inr (List.map_filter ParseInt raws), st))"

definition redstore_ActiveChannels :: "int \<Rightarrow> int \<Rightarrow> redis_store \<Rightarrow> (goerr + (int \<times> int) list) \<times> redis_store" where
  "redstore_ActiveChannels t uid st =
     (case redis_call (redis_SMEMBERS (activeChannelsKey uid)) t st of
        (Inl e, st) \<Rightarrow> (Inl e, st)
      | (Inr raws, st) \<Rightarrow> (Inr (List.map_filter parseChannelRef raws), st))"

definition redis_presence :: "redis_store presence_store" where
  "redis_presence =
     \<lparr>ps_Connect = redstore_Connect, ps_Disconnect = redstore_Disconnect, ps_Touch = redstore_Touch,
      ps_SetStatus = redstore_SetStatus, ps_Get = redstore_Get, ps_ListOnline = redstore_ListOnline,
      ps_ListWorkspaceOnlineUserIDs = redstore_ListWorkspaceOnlineUserIDs,
      ps_ActiveChannels = redstore_ActiveChannels\<rparr>"

section \<open>Keys of different things differ\<close>

lemma split_colon:
  "split_on CHR '':'' (FormatInt n @ CHR '':'' # s) = FormatInt n # split_on CHR '':'' s"
  "split_on CHR '':'' (FormatInt n) = [FormatInt n]"
  by (simp_all add: split_on_append split_on_no_sep FormatInt_no_colon)

lemma FormatInt_not_online: "FormatInt n \<noteq> ''online''"
proof
  assume "FormatInt n = ''online''"
  then have "CHR ''o'' \<in> set (format_nat (nat \<bar>n\<bar>))" by (auto simp: FormatInt_def split: if_splits)
  then obtain d where "d < 10" "CHR ''o'' = digit_char d" using format_nat_digits by blast
  then have "(of_char CHR ''o'' :: nat) = 48 + d" using digit_char_of [of d] by simp
  then show False using \<open>d < 10\<close> by simp
qed

lemma key_splits:
  "split_on CHR '':'' (userKey u) = [''presence'', FormatInt u]"
  "split_on CHR '':'' globalOnlineKey = [''presence'', ''online'']"
  "split_on CHR '':'' (workspaceOnlineKey w) = [''presence'', ''workspace'', FormatInt w, ''online'']"
  "split_on CHR '':'' (workspaceConnKey u w) = [''presence'', ''ws'', FormatInt u, FormatInt w]"
  "split_on CHR '':'' (channelConnKey u w c) = [''presence'', ''ch'', FormatInt u, FormatInt w, FormatInt c]"
  "split_on CHR '':'' (activeChannelsKey u) = [''presence'', ''user'', FormatInt u, ''channels'']"
  by (simp_all add: userKey_def globalOnlineKey_def workspaceOnlineKey_def workspaceConnKey_def channelConnKey_def
      activeChannelsKey_def split_colon)

lemma key_neq: "split_on CHR '':'' k \<noteq> split_on CHR '':'' k' \<Longrightarrow> k \<noteq> k' \<and> k' \<noteq> k"
  by auto

lemma keys_differ [simp]:
  "userKey u \<noteq> globalOnlineKey" "globalOnlineKey \<noteq> userKey u"
  "userKey u \<noteq> workspaceOnlineKey w" "workspaceOnlineKey w \<noteq> userKey u"
  "userKey u \<noteq> workspaceConnKey v w" "workspaceConnKey v w \<noteq> userKey u"
  "userKey u \<noteq> channelConnKey v w c" "channelConnKey v w c \<noteq> userKey u"
  "userKey u \<noteq> activeChannelsKey v" "activeChannelsKey v \<noteq> userKey u"
  "globalOnlineKey \<noteq> workspaceOnlineKey w" "workspaceOnlineKey w \<noteq> globalOnlineKey"
  "globalOnlineKey \<noteq> workspaceConnKey v w" "workspaceConnKey v w \<noteq> globalOnlineKey"
  "globalOnlineKey \<noteq> channelConnKey v w c" "channelConnKey v w c \<noteq> globalOnlineKey"
  "globalOnlineKey \<noteq> activeChannelsKey v" "activeChannelsKey v \<noteq> globalOnlineKey"
  "workspaceOnlineKey x \<noteq> workspaceConnKey v w" "workspaceConnKey v w \<noteq> workspaceOnlineKey x"
  "workspaceOnlineKey x \<noteq> channelConnKey v w c" "channelConnKey v w c \<noteq> workspaceOnlineKey x"
  "workspaceOnlineKey x \<noteq> activeChannelsKey v" "activeChannelsKey v \<noteq> workspaceOnlineKey x"
  "workspaceConnKey u x \<noteq> channelConnKey v w c" "channelConnKey v w c \<noteq> workspaceConnKey u x"
  "workspaceConnKey u x \<noteq> activeChannelsKey v" "activeChannelsKey v \<noteq> workspaceConnKey u x"
  "channelConnKey v w c \<noteq> activeChannelsKey u" "activeChannelsKey u \<noteq> channelConnKey v w c"
  by (auto dest!: arg_cong [where f = "split_on CHR '':''"]
      simp: key_splits FormatInt_not_online FormatInt_not_online [THEN not_sym])

lemma keys_inject [simp]:
  "userKey u = userKey v \<longleftrightarrow> u = v"
  "workspaceOnlineKey w = workspaceOnlineKey x \<longleftrightarrow> w = x"
  "workspaceConnKey u w = workspaceConnKey v x \<longleftrightarrow> u = v \<and> w = x"
  "channelConnKey u w c = channelConnKey v x d \<longleftrightarrow> u = v \<and> w = x \<and> c = d"
  "activeChannelsKey u = activeChannelsKey v \<longleftrightarrow> u = v"
  by (auto dest!: arg_cong [where f = "split_on CHR '':''"] simp: key_splits FormatInt_inject)

lemma channelRef_inject [simp]: "channelRef w c = channelRef x d \<longleftrightarrow> w = x \<and> c = d"
  by (auto dest!: arg_cong [where f = "split_on CHR '':''"] simp: channelRef_def split_colon FormatInt_inject)

definition in_int64 :: "int \<Rightarrow> bool" where
  "in_int64 n \<longleftrightarrow> - (2 ^ 63) \<le> n \<and> n < 2 ^ 63"

lemma parseChannelRef_channelRef: "in_int64 w \<Longrightarrow> in_int64 c \<Longrightarrow> parseChannelRef (channelRef w c) = Some (w, c)"
  by (simp add: parseChannelRef_def channelRef_def split_first_append FormatInt_no_colon ParseInt_FormatInt in_int64_def)

section \<open>Entries\<close>

text \<open>Every key expires, and none before \<open>D\<close>.\<close>

definition until :: "int \<Rightarrow> redis_keys \<Rightarrow> bool" where
  "until D m \<longleftrightarrow> (\<forall>k v d. m k = Some (v, d) \<longrightarrow> (\<exists>x. d = Some x \<and> D \<le> x))"

definition counter_is :: "(redis_value \<times> int option) option \<Rightarrow> nat \<Rightarrow> bool" where
  "counter_is e n \<longleftrightarrow> map_option fst e = (if n = 0 then None else Some (RInt (int n)))"

definition members_are :: "(redis_value \<times> int option) option \<Rightarrow> string set \<Rightarrow> bool" where
  "members_are e X \<longleftrightarrow>
     (case e of None \<Rightarrow> X = {} | Some (RSet xs, d) \<Rightarrow> xs \<noteq> [] \<and> set xs = X | Some _ \<Rightarrow> False)"

definition hash_is :: "(redis_value \<times> int option) option \<Rightarrow> nat \<Rightarrow> bool" where
  "hash_is e n \<longleftrightarrow>
     (case e of None \<Rightarrow> n = 0
      | Some (RHash h, d) \<Rightarrow> h \<noteq> [] \<and>
          (case map_of h ''connection_count'' of None \<Rightarrow> n = 0 | Some v \<Rightarrow> v = VInt (int n))
      | Some _ \<Rightarrow> False)"

lemma live_upd:
  "redis_live t (m(k := e)) j =
     (if j = k then (case e of Some (v, Some d) \<Rightarrow> if d < t then None else e | _ \<Rightarrow> e) else redis_live t m j)"
  by (auto simp: redis_live_def split: option.splits)

lemma live_until: "until D m \<Longrightarrow> t \<le> D \<Longrightarrow> redis_live t m k = m k"
  by (fastforce simp: redis_live_def until_def split: option.splits)

lemma until_upd: "until D m \<Longrightarrow> (\<And>v d. e = Some (v, d) \<Longrightarrow> \<exists>x. d = Some x \<and> D \<le> x) \<Longrightarrow> until D (m(k := e))"
  by (auto simp: until_def)

lemma members_none [simp]: "members_are None X \<longleftrightarrow> X = {}"
  by (simp add: members_are_def)

lemma members_some: "members_are e X \<Longrightarrow> x \<in> X \<Longrightarrow> \<exists>xs d. e = Some (RSet xs, d) \<and> X = set xs"
  by (auto simp: members_are_def split: option.splits redis_value.splits)

lemma members_cases: "members_are e X \<Longrightarrow> e = None \<and> X = {} \<or> (\<exists>xs d. e = Some (RSet xs, d) \<and> X = set xs \<and> xs \<noteq> [])"
  by (auto simp: members_are_def split: option.splits redis_value.splits)

lemmas redis_defs = redis_then_def redis_ret_def redis_INCRBY_def redis_DEL_def redis_EXPIRE_def redis_SADD_def
  redis_SREM_def redis_HGETALL_def redis_HGET_def redis_HSET_def redis_HINCRBY_def redis_SMEMBERS_def live_upd

lemma script_open_law:
  assumes m: "until D m" and t: "t \<le> D" "D \<le> t + ttl * 1000000000" "0 < ttl"
    and k: "counter_is (m k) n" and s: "members_are (m s) X" and x: "0 < n \<Longrightarrow> x \<in> X" and "k \<noteq> s"
  shows "\<exists>m'. script_open k s x ttl t m = (Inr (), m') \<and> until D m' \<and> counter_is (m' k) (Suc n) \<and>
    members_are (m' s) (insert x X) \<and> (\<forall>j. j \<noteq> k \<longrightarrow> j \<noteq> s \<longrightarrow> m' j = m j)"
proof -
  let ?e = "Some (t + ttl * 1000000000)"
  note live = live_until [OF m t(1)]
  obtain xs d where sx: "m s = None \<and> X = {} \<or> m s = Some (RSet xs, d) \<and> X = set xs"
    using members_cases [OF s] by blast
  have d: "m s = None \<or> (\<exists>y. d = Some y \<and> t \<le> y)" using sx m t(1) by (fastforce simp: until_def)
  define ys where "ys = (if m s = None then [x] else if n = 0 then List.insert x xs else xs)"
  have ys: "set ys = insert x X" "ys \<noteq> []" using sx x by (auto simp: ys_def List.insert_def)
  have "script_open k s x ttl t m = (Inr (), m(k \<mapsto> (RInt (int n + 1), ?e), s \<mapsto> (RSet ys, ?e)))"
  proof (cases "n = 0")
    case True
    then have "m k = None" using k by (simp add: counter_is_def)
    then show ?thesis using sx d True t(3) \<open>k \<noteq> s\<close> by (auto simp: script_open_def redis_defs live ys_def fun_upd_twist)
  next
    case False
    then obtain dk where mk: "m k = Some (RInt (int n), dk)" using k by (cases "m k") (auto simp: counter_is_def)
    then obtain y where y: "dk = Some y" "t \<le> y" using m t(1) by (fastforce simp: until_def)
    have ms: "m s = Some (RSet xs, d)" using sx x False by auto
    then obtain z where z: "d = Some z" "t \<le> z" using d by auto
    show ?thesis
      using False t(3) \<open>k \<noteq> s\<close> y z by (auto simp: script_open_def redis_defs live mk ms ys_def)
  qed
  moreover have "until D (m(k \<mapsto> (RInt (int n + 1), ?e), s \<mapsto> (RSet ys, ?e)))"
    using t(2) by (intro until_upd m) auto
  ultimately show ?thesis using ys \<open>k \<noteq> s\<close> by (auto simp: counter_is_def members_are_def)
qed

lemma script_close_law:
  assumes m: "until D m" and t: "t \<le> D"
    and k: "counter_is (m k) (Suc n)" and s: "members_are (m s) X" and x: "x \<in> X" and "k \<noteq> s"
  shows "\<exists>m'. script_close k s x t m = (Inr (), m') \<and> until D m' \<and> counter_is (m' k) n \<and>
    members_are (m' s) (if n = 0 then X - {x} else X) \<and> (\<forall>j. j \<noteq> k \<longrightarrow> j \<noteq> s \<longrightarrow> m' j = m j)"
proof -
  obtain xs d where sx: "m s = Some (RSet xs, d)" "X = set xs" "xs \<noteq> []"
    using members_cases [OF s] x by auto
  obtain dk where kx: "m k = Some (RInt (int (Suc n)), dk)"
    using k by (cases "m k") (auto simp: counter_is_def)
  have live: "redis_live t m k = m k" "redis_live t m s = m s" by (simp_all add: live_until [OF m t])
  define ms where "ms = (if removeAll x xs = [] then None else Some (RSet (removeAll x xs), d))"
  define m' where "m' = (if n = 0 then m(k := None, s := ms) else m(k \<mapsto> (RInt (int n), dk)))"
  have "script_close k s x t m = (Inr (), m')"
    using \<open>k \<noteq> s\<close> by (auto simp: script_close_def redis_defs live sx kx m'_def ms_def)
  moreover have "until D m'"
    using m sx kx unfolding m'_def ms_def by (auto intro!: until_upd simp: until_def)
  moreover have "counter_is (m' k) n" using \<open>k \<noteq> s\<close> by (simp add: m'_def counter_is_def)
  moreover have "members_are (m' s) (if n = 0 then X - {x} else X)"
    using \<open>k \<noteq> s\<close> sx s set_removeAll [of x xs]
    by (auto simp: m'_def ms_def members_are_def simp flip: set_empty split: if_splits)
  ultimately show ?thesis by (auto simp: m'_def)
qed

lemma hash_some [simp]:
  "hash_is (Some (RHash h, d)) n \<longleftrightarrow> h \<noteq> [] \<and>
     (map_of h ''connection_count'' = None \<and> n = 0 \<or> map_of h ''connection_count'' = Some (VInt (int n)))"
  by (cases "map_of h ''connection_count''") (simp_all add: hash_is_def)

lemma hash_cases:
  assumes "hash_is e n"
  obtains (none) "e = None" "n = 0"
    | (hash) h d where "e = Some (RHash h, d)" "h \<noteq> []"
        "map_of h ''connection_count'' = None \<and> n = 0 \<or> map_of h ''connection_count'' = Some (VInt (int n))"
proof (cases e)
  case None
  then show ?thesis using assms none by (simp add: hash_is_def)
next
  case (Some a)
  obtain v d where a: "a = (v, d)" by (cases a)
  show ?thesis
  proof (cases v)
    case (RHash h)
    then show ?thesis using assms hash [of h d] unfolding Some a by simp
  qed (use assms in \<open>simp_all add: hash_is_def Some a\<close>)
qed

text \<open>The steps on a user's hash.\<close>

lemma hash_incr:
  assumes "redis_live t m g = m g" and "hash_is (m g) n" and "int n + i = int n'"
  shows "\<exists>h. redis_HINCRBY g ''connection_count'' i t m = (Inr (int n'), m(g \<mapsto> (RHash h, case m g of None \<Rightarrow> None | Some (_, d) \<Rightarrow> d))) \<and>
    h \<noteq> [] \<and> map_of h ''connection_count'' = Some (VInt (int n'))"
  using assms(2)
proof (cases rule: hash_cases)
  case none
  then show ?thesis using assms(1,3) by (auto simp: redis_defs)
next
  case (hash h d)
  then show ?thesis using assms(1,3) by (auto simp: redis_defs update_conv' AList.update_nonempty)
qed

lemma script_online_law:
  assumes m: "until D m" and t: "t \<le> D" "D \<le> t + ttl * 1000000000" "0 < ttl"
    and g: "hash_is (m g) n" and o: "members_are (m o') X" and x: "0 < n \<Longrightarrow> x \<in> X" and "g \<noteq> o'"
  shows "\<exists>m'. script_online g o' x stamp ttl t m = (Inr (int (Suc n), n = 0), m') \<and> until D m' \<and>
    hash_is (m' g) (Suc n) \<and> members_are (m' o') (insert x X) \<and> (\<forall>j. j \<noteq> g \<longrightarrow> j \<noteq> o' \<longrightarrow> m' j = m j)"
proof -
  let ?e = "Some (t + ttl * 1000000000)"
  note live = live_until [OF m t(1)]
  obtain h where h: "redis_HINCRBY g ''connection_count'' 1 t m =
      (Inr (int (Suc n)), m(g \<mapsto> (RHash h, case m g of None \<Rightarrow> None | Some (_, d) \<Rightarrow> d)))"
    "h \<noteq> []" "map_of h ''connection_count'' = Some (VInt (int (Suc n)))"
    using hash_incr [OF live g, of 1 "Suc n"] by auto
  define d where "d = (case m g of None \<Rightarrow> None | Some (_, d) \<Rightarrow> d)"
  have d: "d = None \<or> (\<exists>y. d = Some y \<and> t \<le> y)"
    using m t(1) by (fastforce simp: d_def until_def split: option.splits)
  define h2 where "h2 = AList.update ''last_seen'' (VTime stamp) h"
  define h3 where "h3 = (if n = 0 then AList.update ''status'' (VStr ''online'') h2 else h2)"
  have h3: "h3 \<noteq> []" "map_of h3 ''connection_count'' = Some (VInt (int (Suc n)))"
    using h(2,3) by (auto simp: h3_def h2_def update_conv' AList.update_nonempty)
  obtain xs dx where ox: "m o' = None \<and> X = {} \<or> m o' = Some (RSet xs, dx) \<and> X = set xs"
    using members_cases [OF o] by blast
  have dx: "m o' = None \<or> (\<exists>y. dx = Some y \<and> t \<le> y)" using ox m t(1) by (fastforce simp: until_def)
  define ys where "ys = (if m o' = None then [x] else if n = 0 then List.insert x xs else xs)"
  have ys: "set ys = insert x X" "ys \<noteq> []" using ox x o by (auto simp: ys_def List.insert_def members_are_def)
  define m' where "m' = m(g \<mapsto> (RHash h3, ?e), o' \<mapsto> (RSet ys, ?e))"
  have "script_online g o' x stamp ttl t m = (Inr (int (Suc n), n = 0), m')"
  proof (cases "n = 0")
    case True
    then show ?thesis using h(1) d ox dx t(3) \<open>g \<noteq> o'\<close> unfolding d_def [symmetric] script_online_def m'_def
      by (auto simp: redis_then_def redis_HSET_def redis_EXPIRE_def redis_SADD_def redis_ret_def live_upd live
          h2_def h3_def ys_def fun_upd_twist)
  next
    case False
    then have "m o' = Some (RSet xs, dx)" using ox x by auto
    then show ?thesis using h(1) d dx False t(3) \<open>g \<noteq> o'\<close> unfolding d_def [symmetric] script_online_def m'_def
      by (auto simp: redis_then_def redis_HSET_def redis_EXPIRE_def redis_ret_def live_upd live h2_def h3_def ys_def)
  qed
  moreover have "until D m'" using t(2) unfolding m'_def by (intro until_upd m) auto
  ultimately show ?thesis using ys h3 \<open>g \<noteq> o'\<close> by (auto simp: m'_def members_are_def)
qed

lemma script_offline_law:
  assumes m: "until D m" and t: "t \<le> D" "D \<le> t + ttl * 1000000000" "0 < ttl"
    and g: "hash_is (m g) (Suc n)" and o: "members_are (m o') X" and x: "x \<in> X" and "g \<noteq> o'"
  shows "\<exists>m'. script_offline g o' x stamp ttl t m = (Inr (int n, n = 0), m') \<and> until D m' \<and>
    hash_is (m' g) n \<and> members_are (m' o') (if n = 0 then X - {x} else X) \<and> (\<forall>j. j \<noteq> g \<longrightarrow> j \<noteq> o' \<longrightarrow> m' j = m j)"
proof -
  let ?e = "Some (t + ttl * 1000000000)"
  note live = live_until [OF m t(1)]
  obtain h where h: "redis_HINCRBY g ''connection_count'' (- 1) t m =
      (Inr (int n), m(g \<mapsto> (RHash h, case m g of None \<Rightarrow> None | Some (_, d) \<Rightarrow> d)))"
    "h \<noteq> []" "map_of h ''connection_count'' = Some (VInt (int n))"
    using hash_incr [OF live g, of "- 1" n] by auto
  define d where "d = (case m g of None \<Rightarrow> None | Some (_, d) \<Rightarrow> d)"
  have d: "d = None \<or> (\<exists>y. d = Some y \<and> t \<le> y)"
    using m t(1) by (fastforce simp: d_def until_def split: option.splits)
  define h2 where "h2 = AList.update ''last_seen'' (VTime stamp) h"
  define h3 where "h3 = (if n = 0 then AList.update ''connection_count'' (VInt 0)
    (AList.update ''status'' (VStr ''offline'') h2) else h2)"
  have h3: "h3 \<noteq> []" "map_of h3 ''connection_count'' = Some (VInt (int n))"
    using h(2,3) by (auto simp: h3_def h2_def update_conv' AList.update_nonempty)
  obtain xs dx where ox: "m o' = Some (RSet xs, dx)" "X = set xs" "xs \<noteq> []"
    using members_cases [OF o] x by auto
  define ms where "ms = (if removeAll x xs = [] then None else Some (RSet (removeAll x xs), dx))"
  define m' where "m' = (if n = 0 then m(g \<mapsto> (RHash h3, ?e), o' := ms) else m(g \<mapsto> (RHash h3, ?e)))"
  have "script_offline g o' x stamp ttl t m = (Inr (int n, n = 0), m')"
    using h(1) d ox t(3) \<open>g \<noteq> o'\<close> unfolding d_def [symmetric] script_offline_def m'_def
    by (auto simp: redis_then_def redis_HSET_def redis_EXPIRE_def redis_SREM_def redis_ret_def live_upd live
        h2_def h3_def ms_def fun_upd_twist)
  moreover have "until D m'"
    using m t(2) ox unfolding m'_def ms_def by (auto intro!: until_upd simp: until_def)
  moreover have "members_are (m' o') (if n = 0 then X - {x} else X)"
    using \<open>g \<noteq> o'\<close> ox o set_removeAll [of x xs]
    by (auto simp: m'_def ms_def members_are_def simp flip: set_empty split: if_splits)
  ultimately show ?thesis using h3 \<open>g \<noteq> o'\<close> by (auto simp: m'_def)
qed

section \<open>The store represents the open connections\<close>

definition ws_conns :: "int \<Rightarrow> int \<Rightarrow> connection multiset \<Rightarrow> nat" where
  "ws_conns u w M = size (filter_mset (\<lambda>c. fst c = u \<and> fst (snd c) = w) M)"

definition redis_holds :: "redis_keys \<Rightarrow> connection multiset \<Rightarrow> bool" where
  "redis_holds m M \<longleftrightarrow>
     (\<forall>u. hash_is (m (userKey u)) (conns_of u M)) \<and>
     (\<forall>u w. counter_is (m (workspaceConnKey u w)) (ws_conns u w M)) \<and>
     (\<forall>u w c. counter_is (m (channelConnKey u w c)) (count M (u, w, c))) \<and>
     (\<forall>w. members_are (m (workspaceOnlineKey w)) (FormatInt ` {u. \<exists>c. (u, w, c) \<in># M})) \<and>
     members_are (m globalOnlineKey) (FormatInt ` {u. 0 < conns_of u M}) \<and>
     (\<forall>u. members_are (m (activeChannelsKey u)) ((\<lambda>(w, c). channelRef w c) ` {(w, c). (u, w, c) \<in># M}))"

definition fits64 :: "connection \<Rightarrow> bool" where
  "fits64 c \<longleftrightarrow> in_int64 (fst c) \<and> in_int64 (fst (snd c)) \<and> in_int64 (snd (snd c))"

text \<open>
  Every key lasts until \<open>D\<close>, and every operation runs at most one time to live before \<open>D\<close>, so that what it renews
  lasts as long.
\<close>

definition redis_rel :: "int \<Rightarrow> int \<Rightarrow> redis_store \<Rightarrow> connection multiset \<Rightarrow> bool" where
  "redis_rel ttl D st M \<longleftrightarrow>
     rs_ttl st = ttl \<and> 0 < ttl_seconds ttl \<and> rs_fates st = [] \<and> until D (rs_keys st) \<and>
     (\<forall>c \<in># M. fits64 c) \<and> redis_holds (rs_keys st) M"

definition redis_fresh :: "int \<Rightarrow> int \<Rightarrow> int \<Rightarrow> redis_store \<Rightarrow> bool" where
  "redis_fresh ttl D t st \<longleftrightarrow> t \<le> D \<and> D \<le> t + ttl_seconds ttl * 1000000000"

lemma ws_conns_add [simp]:
  "ws_conns u w (add_mset c M) = (if fst c = u \<and> fst (snd c) = w then Suc (ws_conns u w M) else ws_conns u w M)"
  by (simp add: ws_conns_def)

lemma ws_conns_pos: "0 < ws_conns u w M \<longleftrightarrow> (\<exists>c. (u, w, c) \<in># M)"
proof
  assume "0 < ws_conns u w M"
  then have "filter_mset (\<lambda>c. fst c = u \<and> fst (snd c) = w) M \<noteq> {#}" unfolding ws_conns_def nonempty_has_size .
  then obtain c where "c \<in># filter_mset (\<lambda>c. fst c = u \<and> fst (snd c) = w) M" by (rule multiset_nonemptyE)
  then show "\<exists>c. (u, w, c) \<in># M" by (cases c) auto
next
  assume "\<exists>c. (u, w, c) \<in># M"
  then obtain c where "(u, w, c) \<in># filter_mset (\<lambda>c. fst c = u \<and> fst (snd c) = w) M" by auto
  then have "filter_mset (\<lambda>c. fst c = u \<and> fst (snd c) = w) M \<noteq> {#}" by auto
  then show "0 < ws_conns u w M" unfolding ws_conns_def nonempty_has_size .
qed

lemma FormatInt_inj: "inj_on FormatInt A"
  by (simp add: inj_on_def FormatInt_inject)

lemma channelRef_inj: "inj_on (\<lambda>(w, c). channelRef w c) A"
  by (auto simp: inj_on_def)

lemma redis_holds_frame:
  assumes "redis_holds m M"
    and "hash_is (m' (userKey u)) (conns_of u M')"
    and "counter_is (m' (workspaceConnKey u w)) (ws_conns u w M')"
    and "counter_is (m' (channelConnKey u w c)) (count M' (u, w, c))"
    and "members_are (m' (workspaceOnlineKey w)) (FormatInt ` {u. \<exists>c. (u, w, c) \<in># M'})"
    and "members_are (m' globalOnlineKey) (FormatInt ` {u. 0 < conns_of u M'})"
    and "members_are (m' (activeChannelsKey u)) ((\<lambda>(w, c). channelRef w c) ` {(w, c). (u, w, c) \<in># M'})"
    and other: "\<And>k. k \<notin> {userKey u, workspaceConnKey u w, channelConnKey u w c, workspaceOnlineKey w, globalOnlineKey,
      activeChannelsKey u} \<Longrightarrow> m' k = m k"
    and same: "\<And>v x d. (v, x, d) \<noteq> (u, w, c) \<Longrightarrow> count M' (v, x, d) = count M (v, x, d)"
  shows "redis_holds m' M'"
proof -
  have mem: "(v, x, d) \<in># M' \<longleftrightarrow> (v, x, d) \<in># M" if "(v, x, d) \<noteq> (u, w, c)" for v x d
    using same [OF that] by (simp flip: count_greater_zero_iff)
  have conns: "conns_of v M' = conns_of v M" if "v \<noteq> u" for v
  proof -
    have "filter_mset (\<lambda>c. fst c = v) M' = filter_mset (\<lambda>c. fst c = v) M"
      by (rule multiset_eqI) (use same that in \<open>auto simp: count_filter_mset\<close>)
    then show ?thesis by (simp add: conns_of_def)
  qed
  have wss: "ws_conns v x M' = ws_conns v x M" if "v \<noteq> u \<or> x \<noteq> w" for v x
  proof -
    have "filter_mset (\<lambda>c. fst c = v \<and> fst (snd c) = x) M' = filter_mset (\<lambda>c. fst c = v \<and> fst (snd c) = x) M"
      by (rule multiset_eqI) (use same that in \<open>auto simp: count_filter_mset\<close>)
    then show ?thesis by (simp add: ws_conns_def)
  qed
  have "hash_is (m' (userKey v)) (conns_of v M')" for v
    using assms(1,2) other [of "userKey v"] conns [of v] by (cases "v = u") (auto simp: redis_holds_def)
  moreover have "counter_is (m' (workspaceConnKey v x)) (ws_conns v x M')" for v x
    using assms(1,3) other [of "workspaceConnKey v x"] wss [of v x]
    by (cases "v = u \<and> x = w") (auto simp: redis_holds_def)
  moreover have "counter_is (m' (channelConnKey v x d)) (count M' (v, x, d))" for v x d
    using assms(1,4) other [of "channelConnKey v x d"] same [of v x d]
    by (cases "v = u \<and> x = w \<and> d = c") (auto simp: redis_holds_def)
  moreover have "members_are (m' (workspaceOnlineKey x)) (FormatInt ` {u. \<exists>c. (u, x, c) \<in># M'})" for x
    using assms(1,5) other [of "workspaceOnlineKey x"] mem [of _ x]
    by (cases "x = w") (auto simp: redis_holds_def)
  moreover have "members_are (m' (activeChannelsKey v)) ((\<lambda>(w, c). channelRef w c) ` {(w, c). (v, w, c) \<in># M'})" for v
    using assms(1,7) other [of "activeChannelsKey v"] mem [of v]
    by (cases "v = u") (auto simp: redis_holds_def)
  ultimately show ?thesis using assms(6) by (simp add: redis_holds_def)
qed

lemma connectScript_law:
  assumes m: "until D m" and t: "t \<le> D" "D \<le> t + ttl * 1000000000" "0 < ttl" and holds: "redis_holds m M"
  shows "\<exists>m'. connectScript u w c stamp ttl t m = (Inr (int (Suc (conns_of u M)), conns_of u M = 0), m') \<and>
    until D m' \<and> redis_holds m' (add_mset (u, w, c) M)"
proof -
  let ?W = "FormatInt ` {u. \<exists>c. (u, w, c) \<in># M}" and ?C = "(\<lambda>(w, c). channelRef w c) ` {(w, c). (u, w, c) \<in># M}"
  let ?O = "FormatInt ` {u. 0 < conns_of u M}"
  have w: "counter_is (m (workspaceConnKey u w)) (ws_conns u w M)" "members_are (m (workspaceOnlineKey w)) ?W"
    "0 < ws_conns u w M \<Longrightarrow> FormatInt u \<in> ?W" using holds by (auto simp: redis_holds_def ws_conns_pos)
  obtain m1 where m1: "script_open (workspaceConnKey u w) (workspaceOnlineKey w) (FormatInt u) ttl t m = (Inr (), m1)"
    "until D m1" "counter_is (m1 (workspaceConnKey u w)) (Suc (ws_conns u w M))"
    "members_are (m1 (workspaceOnlineKey w)) (insert (FormatInt u) ?W)"
    "\<And>j. j \<noteq> workspaceConnKey u w \<Longrightarrow> j \<noteq> workspaceOnlineKey w \<Longrightarrow> m1 j = m j"
    using script_open_law [OF m t w] by auto
  have c: "counter_is (m1 (channelConnKey u w c)) (count M (u, w, c))" "members_are (m1 (activeChannelsKey u)) ?C"
    "0 < count M (u, w, c) \<Longrightarrow> channelRef w c \<in> ?C"
    using holds by (auto simp: redis_holds_def m1(5) image_iff)
  obtain m2 where m2: "script_open (channelConnKey u w c) (activeChannelsKey u) (channelRef w c) ttl t m1 = (Inr (), m2)"
    "until D m2" "counter_is (m2 (channelConnKey u w c)) (Suc (count M (u, w, c)))"
    "members_are (m2 (activeChannelsKey u)) (insert (channelRef w c) ?C)"
    "\<And>j. j \<noteq> channelConnKey u w c \<Longrightarrow> j \<noteq> activeChannelsKey u \<Longrightarrow> m2 j = m1 j"
    using script_open_law [OF m1(2) t c] by auto
  have o: "hash_is (m2 (userKey u)) (conns_of u M)" "members_are (m2 globalOnlineKey) ?O"
    "0 < conns_of u M \<Longrightarrow> FormatInt u \<in> ?O"
    using holds by (auto simp: redis_holds_def m1(5) m2(5))
  obtain m3 where m3: "script_online (userKey u) globalOnlineKey (FormatInt u) stamp ttl t m2 =
      (Inr (int (Suc (conns_of u M)), conns_of u M = 0), m3)"
    "until D m3" "hash_is (m3 (userKey u)) (Suc (conns_of u M))"
    "members_are (m3 globalOnlineKey) (insert (FormatInt u) ?O)"
    "\<And>j. j \<noteq> userKey u \<Longrightarrow> j \<noteq> globalOnlineKey \<Longrightarrow> m3 j = m2 j"
    using script_online_law [OF m2(2) t o, of stamp] by auto
  have "connectScript u w c stamp ttl t m = (Inr (int (Suc (conns_of u M)), conns_of u M = 0), m3)"
    by (simp add: connectScript_def redis_then_def m1(1) m2(1) m3(1))
  moreover have "redis_holds m3 (add_mset (u, w, c) M)"
  proof (rule redis_holds_frame [OF holds, where u = u and w = w and c = c])
    have "insert (FormatInt u) ?W = FormatInt ` {v. \<exists>d. (v, w, d) \<in># add_mset (u, w, c) M}" by auto
    then show "members_are (m3 (workspaceOnlineKey w)) (FormatInt ` {v. \<exists>d. (v, w, d) \<in># add_mset (u, w, c) M})"
      using m1(4) by (simp add: m2(5) m3(5))
    have "insert (FormatInt u) ?O = FormatInt ` {v. 0 < conns_of v (add_mset (u, w, c) M)}" by auto
    then show "members_are (m3 globalOnlineKey) (FormatInt ` {v. 0 < conns_of v (add_mset (u, w, c) M)})"
      using m3(4) by simp
    have "insert (channelRef w c) ?C = (\<lambda>(w, c). channelRef w c) ` {(x, d). (u, x, d) \<in># add_mset (u, w, c) M}" by auto
    then show "members_are (m3 (activeChannelsKey u)) ((\<lambda>(w, c). channelRef w c) ` {(x, d). (u, x, d) \<in># add_mset (u, w, c) M})"
      using m2(4) by (simp add: m3(5))
  qed (use m1(3) m2(3) m3(3) in \<open>auto simp: m1(5) m2(5) m3(5)\<close>)
  ultimately show ?thesis using m3(2) by blast
qed

lemma disconnectScript_law:
  assumes m: "until D m" and t: "t \<le> D" "D \<le> t + ttl * 1000000000" "0 < ttl" and holds: "redis_holds m M"
    and mem: "(u, w, c) \<in># M"
  shows "\<exists>m'. disconnectScript u w c stamp ttl t m = (Inr (int (conns_of u M - 1), conns_of u M = 1), m') \<and>
    until D m' \<and> redis_holds m' (M - {#(u, w, c)#})"
proof -
  define N where "N = M - {#(u, w, c)#}"
  have M: "M = add_mset (u, w, c) N" using mem by (simp add: N_def)
  have cnt: "ws_conns u w M = Suc (ws_conns u w N)" "count M (u, w, c) = Suc (count N (u, w, c))"
    "conns_of u M = Suc (conns_of u N)" by (simp_all add: M)
  have pos: "0 < conns_of u M" by (simp add: cnt)
  let ?W = "FormatInt ` {v. \<exists>d. (v, w, d) \<in># M}" and ?C = "(\<lambda>(w, c). channelRef w c) ` {(x, d). (u, x, d) \<in># M}"
  let ?O = "FormatInt ` {v. 0 < conns_of v M}"
  have w: "counter_is (m (workspaceConnKey u w)) (Suc (ws_conns u w N))" "members_are (m (workspaceOnlineKey w)) ?W"
    "FormatInt u \<in> ?W" using holds mem by (auto simp: redis_holds_def simp flip: cnt)
  obtain m1 where m1: "script_close (workspaceConnKey u w) (workspaceOnlineKey w) (FormatInt u) t m = (Inr (), m1)"
    "until D m1" "counter_is (m1 (workspaceConnKey u w)) (ws_conns u w N)"
    "members_are (m1 (workspaceOnlineKey w)) (if ws_conns u w N = 0 then ?W - {FormatInt u} else ?W)"
    "\<And>j. j \<noteq> workspaceConnKey u w \<Longrightarrow> j \<noteq> workspaceOnlineKey w \<Longrightarrow> m1 j = m j"
    using script_close_law [OF m t(1) w] by auto
  have c: "counter_is (m1 (channelConnKey u w c)) (Suc (count N (u, w, c)))" "members_are (m1 (activeChannelsKey u)) ?C"
    "channelRef w c \<in> ?C"
    using holds mem by (auto simp: redis_holds_def m1(5) image_iff simp flip: cnt)
  obtain m2 where m2: "script_close (channelConnKey u w c) (activeChannelsKey u) (channelRef w c) t m1 = (Inr (), m2)"
    "until D m2" "counter_is (m2 (channelConnKey u w c)) (count N (u, w, c))"
    "members_are (m2 (activeChannelsKey u)) (if count N (u, w, c) = 0 then ?C - {channelRef w c} else ?C)"
    "\<And>j. j \<noteq> channelConnKey u w c \<Longrightarrow> j \<noteq> activeChannelsKey u \<Longrightarrow> m2 j = m1 j"
    using script_close_law [OF m1(2) t(1) c] by auto
  have o: "hash_is (m2 (userKey u)) (Suc (conns_of u N))" "members_are (m2 globalOnlineKey) ?O" "FormatInt u \<in> ?O"
    using holds pos by (auto simp: redis_holds_def m1(5) m2(5) simp flip: cnt)
  obtain m3 where m3: "script_offline (userKey u) globalOnlineKey (FormatInt u) stamp ttl t m2 =
      (Inr (int (conns_of u N), conns_of u N = 0), m3)"
    "until D m3" "hash_is (m3 (userKey u)) (conns_of u N)"
    "members_are (m3 globalOnlineKey) (if conns_of u N = 0 then ?O - {FormatInt u} else ?O)"
    "\<And>j. j \<noteq> userKey u \<Longrightarrow> j \<noteq> globalOnlineKey \<Longrightarrow> m3 j = m2 j"
    using script_offline_law [OF m2(2) t o, of stamp] by auto
  have "disconnectScript u w c stamp ttl t m = (Inr (int (conns_of u M - 1), conns_of u M = 1), m3)"
    by (simp add: disconnectScript_def redis_then_def m1(1) m2(1) m3(1) cnt)
  moreover have "redis_holds m3 N"
  proof (rule redis_holds_frame [OF holds, where u = u and w = w and c = c])
    have "(if ws_conns u w N = 0 then ?W - {FormatInt u} else ?W) = FormatInt ` {v. \<exists>d. (v, w, d) \<in># N}"
      using ws_conns_pos [of u w N] by (auto simp: M FormatInt_inject)
    then show "members_are (m3 (workspaceOnlineKey w)) (FormatInt ` {v. \<exists>d. (v, w, d) \<in># N})"
      using m1(4) by (simp add: m2(5) m3(5))
    have "(if conns_of u N = 0 then ?O - {FormatInt u} else ?O) = FormatInt ` {v. 0 < conns_of v N}"
      by (auto simp: M FormatInt_inject)
    then show "members_are (m3 globalOnlineKey) (FormatInt ` {v. 0 < conns_of v N})" using m3(4) by simp
    have "(if count N (u, w, c) = 0 then ?C - {channelRef w c} else ?C) =
        (\<lambda>(w, c). channelRef w c) ` {(x, d). (u, x, d) \<in># N}"
      by (auto simp: M image_iff simp flip: count_greater_zero_iff)
    then show "members_are (m3 (activeChannelsKey u)) ((\<lambda>(w, c). channelRef w c) ` {(x, d). (u, x, d) \<in># N})"
      using m2(4) by (simp add: m3(5))
  qed (use m1(3) m2(3) m3(3) in \<open>auto simp: m1(5) m2(5) m3(5) M\<close>)
  ultimately show ?thesis using m3(2) by (auto simp: N_def)
qed

lemma redis_rel_keys: "redis_rel ttl D st M \<Longrightarrow> st' = st\<lparr>rs_keys := m\<rparr> \<Longrightarrow> until D m \<Longrightarrow> redis_holds m M \<Longrightarrow> redis_rel ttl D st' M"
  by (simp add: redis_rel_def)

lemma quiet_call:
  "rs_fates st = [] \<Longrightarrow> redis_call p t st = (fst (p t (rs_keys st)), st\<lparr>rs_keys := snd (p t (rs_keys st))\<rparr>)"
  by (simp add: redis_call_def split: prod.splits)

lemma redstore_Connect_law:
  assumes rel: "redis_rel ttl D st M" and fresh: "redis_fresh ttl D t st" and "fits64 (u, w, c)"
  shows "\<exists>r st'. redstore_Connect t u w c st = (Inr r, st') \<and> redis_rel ttl D st' (add_mset (u, w, c) M) \<and>
    (BecameOnline r \<longleftrightarrow> conns_of u M = 0)"
proof -
  obtain m where m: "connectScript u w c t (ttl_seconds ttl) t (rs_keys st) =
      (Inr (int (Suc (conns_of u M)), conns_of u M = 0), m)" "until D m" "redis_holds m (add_mset (u, w, c) M)"
    using connectScript_law [of D "rs_keys st" t "ttl_seconds ttl" M u w c t] rel fresh
    unfolding redis_rel_def redis_fresh_def by auto
  then show ?thesis using rel \<open>fits64 (u, w, c)\<close>
    by (auto simp: redstore_Connect_def redis_rel_def quiet_call)
qed

lemma redstore_Disconnect_law:
  assumes rel: "redis_rel ttl D st M" and fresh: "redis_fresh ttl D t st" and mem: "(u, w, c) \<in># M"
  shows "\<exists>r st'. redstore_Disconnect t u w c st = (Inr r, st') \<and> redis_rel ttl D st' (M - {#(u, w, c)#}) \<and>
    (BecameOffline r \<longleftrightarrow> conns_of u M = 1)"
proof -
  obtain m where m: "disconnectScript u w c t (ttl_seconds ttl) t (rs_keys st) =
      (Inr (int (conns_of u M - 1), conns_of u M = 1), m)" "until D m" "redis_holds m (M - {#(u, w, c)#})"
    using disconnectScript_law [of D "rs_keys st" t "ttl_seconds ttl" M u w c t] rel fresh mem
    unfolding redis_rel_def redis_fresh_def by auto
  then show ?thesis using rel
    by (auto simp: redstore_Disconnect_def redis_rel_def quiet_call dest: in_diffD)
qed

text \<open>A field of a hash other than the count, and a deadline, may change.\<close>

lemma same_value:
  assumes "map_option fst e = map_option fst e'"
  shows "hash_is e n \<longleftrightarrow> hash_is e' n" and "members_are e X \<longleftrightarrow> members_are e' X" and "counter_is e n \<longleftrightarrow> counter_is e' n"
  using assms by (cases e; cases e'; force simp: hash_is_def members_are_def counter_is_def)+

lemma holds_same:
  assumes "redis_holds m M"
    and "\<And>k. k \<noteq> userKey u \<Longrightarrow> map_option fst (m' k) = map_option fst (m k)"
    and "hash_is (m' (userKey u)) (conns_of u M)"
  shows "redis_holds m' M"
proof -
  have hash: "hash_is (m' (userKey v)) (conns_of v M)" for v
    using assms(1,3) same_value(1) [OF assms(2) [of "userKey v"]] by (cases "v = u") (auto simp: redis_holds_def)
  show ?thesis using assms(1) hash by (simp add: redis_holds_def same_value(2,3) [OF assms(2)])
qed

lemma expire_same:
  assumes "until D m" and "t \<le> D" "D \<le> t + secs * 1000000000" "0 < secs"
  shows "\<exists>m'. redis_EXPIRE k secs t m = (Inr (), m') \<and> until D m' \<and> (\<forall>j. map_option fst (m' j) = map_option fst (m j))"
proof (cases "m k")
  case None
  then show ?thesis using assms(1) live_until [OF assms(1,2), of k] by (simp add: redis_EXPIRE_def)
next
  case (Some e)
  obtain v d where "e = (v, d)" by (cases e)
  then show ?thesis using Some assms live_until [OF assms(1,2), of k]
    by (auto simp: redis_EXPIRE_def intro!: until_upd)
qed

lemma hset_same:
  assumes m: "until D m" and t: "t \<le> D" "D \<le> t + secs * 1000000000" "0 < secs"
    and h: "hash_is (m k) n" and f: "f \<noteq> ''connection_count''"
  shows "\<exists>m'. redis_then (redis_HSET k f v) (\<lambda>_. redis_EXPIRE k secs) t m = (Inr (), m') \<and> until D m' \<and>
    hash_is (m' k) n \<and> (\<forall>j. j \<noteq> k \<longrightarrow> m' j = m j)"
  using h
proof (cases rule: hash_cases)
  case none
  then show ?thesis using m t f live_until [OF m t(1), of k]
    by (auto simp: redis_defs intro!: until_upd)
next
  case (hash h d)
  obtain y where "d = Some y" "t \<le> y" using hash(1) m t(1) by (fastforce simp: until_def)
  then show ?thesis using hash m t f live_until [OF m t(1), of k]
    by (auto simp: redis_defs update_conv' AList.update_nonempty intro!: until_upd)
qed

lemma redstore_Touch_law:
  assumes rel: "redis_rel ttl D st M" and fresh: "redis_fresh ttl D t st"
  shows "\<exists>st'. redstore_Touch t u st = (Inr (), st') \<and> redis_rel ttl D st' M"
proof -
  let ?s = "ttl_seconds ttl"
  have t: "t \<le> D" "D \<le> t + ?s * 1000000000" "0 < ?s" and m: "until D (rs_keys st)" and holds: "redis_holds (rs_keys st) M"
    and ttl: "rs_ttl st = ttl" "rs_fates st = []"
    using rel fresh by (simp_all add: redis_rel_def redis_fresh_def)
  have h: "hash_is (rs_keys st (userKey u)) (conns_of u M)" using holds by (simp add: redis_holds_def)
  obtain m1 where m1: "redis_then (redis_HSET (userKey u) ''last_seen'' (VTime t)) (\<lambda>_. redis_EXPIRE (userKey u) ?s)
      t (rs_keys st) = (Inr (), m1)" "until D m1" "hash_is (m1 (userKey u)) (conns_of u M)"
    "\<forall>j. j \<noteq> userKey u \<longrightarrow> m1 j = rs_keys st j" using hset_same [OF m t h, of "''last_seen''" "VTime t"] by auto
  obtain m2 where m2: "redis_EXPIRE globalOnlineKey ?s t m1 = (Inr (), m2)" "until D m2"
    "\<forall>j. map_option fst (m2 j) = map_option fst (m1 j)" using expire_same [OF m1(2) t] by metis
  obtain m3 where m3: "redis_EXPIRE (activeChannelsKey u) ?s t m2 = (Inr (), m3)" "until D m3"
    "\<forall>j. map_option fst (m3 j) = map_option fst (m2 j)" using expire_same [OF m2(2) t] by metis
  have "redis_then (redis_HSET (userKey u) ''last_seen'' (VTime t)) (\<lambda>_.
      redis_then (redis_EXPIRE (userKey u) ?s) (\<lambda>_.
      redis_then (redis_EXPIRE globalOnlineKey ?s) (\<lambda>_. redis_EXPIRE (activeChannelsKey u) ?s))) t (rs_keys st) =
      (Inr (), m3)"
    using m1(1) m2(1) m3(1) by (auto simp: redis_then_def split: prod.splits sum.splits)
  then have "redstore_Touch t u st = (Inr (), st\<lparr>rs_keys := m3\<rparr>)" by (simp add: redstore_Touch_def quiet_call ttl)
  moreover have "hash_is (m3 (userKey u)) (conns_of u M)"
  proof -
    have "map_option fst (m3 (userKey u)) = map_option fst (m1 (userKey u))" using m2(3) m3(3) by simp
    then show ?thesis using m1(3) same_value(1) by blast
  qed
  moreover have "redis_holds m3 M"
    using holds_same [OF holds, of u m3] m1(4) m2(3) m3(3) calculation(2) by simp
  ultimately show ?thesis using redis_rel_keys [OF rel _ m3(2)] by blast
qed

lemma redstore_Get_law:
  assumes rel: "redis_rel ttl D st M" and fresh: "redis_fresh ttl D t st"
  shows "\<exists>p. redstore_Get t u st = (Inr p, st) \<and> up_user_id p = u \<and> up_connection_count p = int (conns_of u M) \<and>
    (conns_of u M = 0 \<longrightarrow> up_status p = ''offline'')"
proof -
  have t: "t \<le> D" and m: "until D (rs_keys st)" and holds: "redis_holds (rs_keys st) M" and q: "rs_fates st = []"
    using rel fresh by (simp_all add: redis_rel_def redis_fresh_def)
  have "hash_is (rs_keys st (userKey u)) (conns_of u M)" using holds by (simp add: redis_holds_def)
  then show ?thesis
    using live_until [OF m t, of "userKey u"]
    by (cases rule: hash_cases) (auto simp: redstore_Get_def quiet_call q redis_HGETALL_def hash_count_def)
qed

lemma redstore_SetStatus_law:
  assumes rel: "redis_rel ttl D st M" and fresh: "redis_fresh ttl D t st"
  shows "\<exists>p st'. redstore_SetStatus t u status st = (Inr p, st') \<and> redis_rel ttl D st' M"
proof -
  let ?s = "ttl_seconds ttl"
  have t: "t \<le> D" "D \<le> t + ?s * 1000000000" "0 < ?s" and m: "until D (rs_keys st)" and holds: "redis_holds (rs_keys st) M"
    and ttl: "rs_ttl st = ttl" "rs_fates st = []"
    using rel fresh by (simp_all add: redis_rel_def redis_fresh_def)
  have h: "hash_is (rs_keys st (userKey u)) (conns_of u M)" using holds by (simp add: redis_holds_def)
  obtain v where v: "redis_HGET (userKey u) ''connection_count'' t (rs_keys st) = (Inr v, rs_keys st)" "is_count v"
    using h live_until [OF m t(1), of "userKey u"]
    by (cases rule: hash_cases) (auto simp: redis_defs is_count_def)
  define status' where "status' = (if hash_count v > 0 \<and> status = ''offline'' then ''away'' else status)"
  have "\<exists>m1. redis_then (redis_HSET (userKey u) ''status'' (VStr status')) (\<lambda>_.
      redis_then (redis_HSET (userKey u) ''last_seen'' (VTime t)) (\<lambda>_. redis_EXPIRE (userKey u) ?s)) t (rs_keys st)
      = (Inr (), m1) \<and> until D m1 \<and> hash_is (m1 (userKey u)) (conns_of u M) \<and> (\<forall>j. j \<noteq> userKey u \<longrightarrow> m1 j = rs_keys st j)"
    using h
  proof (cases rule: hash_cases)
    case none
    then show ?thesis using m t live_until [OF m t(1), of "userKey u"] by (auto simp: redis_defs intro!: until_upd)
  next
    case (hash h d)
    obtain y where "d = Some y" "t \<le> y" using hash(1) m t(1) by (fastforce simp: until_def)
    then show ?thesis using hash m t live_until [OF m t(1), of "userKey u"]
      by (auto simp: redis_defs update_conv' AList.update_nonempty intro!: until_upd)
  qed
  then obtain m1 where m1: "redis_then (redis_HSET (userKey u) ''status'' (VStr status')) (\<lambda>_.
      redis_then (redis_HSET (userKey u) ''last_seen'' (VTime t)) (\<lambda>_. redis_EXPIRE (userKey u) ?s)) t (rs_keys st)
      = (Inr (), m1)" "until D m1" "hash_is (m1 (userKey u)) (conns_of u M)" "\<forall>j. j \<noteq> userKey u \<longrightarrow> m1 j = rs_keys st j"
    by blast
  have rel1: "redis_rel ttl D (st\<lparr>rs_keys := m1\<rparr>) M"
    using redis_rel_keys [OF rel refl m1(2)] holds_same [OF holds, of u m1] m1(3,4) by simp
  have fresh1: "redis_fresh ttl D t (st\<lparr>rs_keys := m1\<rparr>)" using fresh by (simp add: redis_fresh_def)
  have "redstore_SetStatus t u status st = redstore_Get t u (st\<lparr>rs_keys := m1\<rparr>)"
    using v m1(1) by (simp add: redstore_SetStatus_def quiet_call ttl Let_def flip: status'_def)
  then show ?thesis using redstore_Get_law [OF rel1 fresh1, of u] rel1 by metis
qed

lemma members_live:
  assumes "until D m" and "t \<le> D" and "members_are (m k) X"
  shows "\<exists>xs. redis_SMEMBERS k t m = (Inr xs, m) \<and> set xs = X"
  using members_cases [OF assms(3)] live_until [OF assms(1,2), of k] by (auto simp: redis_SMEMBERS_def)

lemma collect_exact:
  assumes rel: "redis_rel ttl D st M" and fresh: "redis_fresh ttl D t st"
    and raws: "set raws \<subseteq> FormatInt ` {u. in_int64 u \<and> 0 < conns_of u M}"
  shows "\<exists>ps. redstore_collect t raws st = (ps, st) \<and> map (FormatInt \<circ> up_user_id) ps = raws"
  using raws
proof (induction raws)
  case (Cons raw raws)
  then obtain u where u: "raw = FormatInt u" "in_int64 u" "0 < conns_of u M" by auto
  obtain p where p: "redstore_Get t u st = (Inr p, st)" "up_user_id p = u" "up_connection_count p = int (conns_of u M)"
    using redstore_Get_law [OF rel fresh, of u] by blast
  obtain ps where "redstore_collect t raws st = (ps, st)" "map (FormatInt \<circ> up_user_id) ps = raws"
    using Cons by auto
  then show ?case using u p by (auto simp: ParseInt_FormatInt in_int64_def)
qed simp

lemma rel_in_int64: "redis_rel ttl D st M \<Longrightarrow> (u, w, c) \<in># M \<Longrightarrow> in_int64 u \<and> in_int64 w \<and> in_int64 c"
  by (auto simp: redis_rel_def fits64_def)

lemma redstore_ListOnline_law:
  assumes rel: "redis_rel ttl D st M" and fresh: "redis_fresh ttl D t st"
  shows "\<exists>ps. redstore_ListOnline t st = (Inr ps, st) \<and> up_user_id ` set ps = {u. 0 < conns_of u M}"
proof -
  have "members_are (rs_keys st globalOnlineKey) (FormatInt ` {u. 0 < conns_of u M})" "until D (rs_keys st)" "t \<le> D"
    and q: "rs_fates st = []"
    using rel fresh by (auto simp: redis_rel_def redis_fresh_def redis_holds_def)
  then obtain xs where xs: "redis_SMEMBERS globalOnlineKey t (rs_keys st) = (Inr xs, rs_keys st)"
    "set xs = FormatInt ` {u. 0 < conns_of u M}" using members_live by blast
  have "in_int64 u" if "0 < conns_of u M" for u using that rel_in_int64 [OF rel] conns_of_pos by blast
  then have "set xs \<subseteq> FormatInt ` {u. in_int64 u \<and> 0 < conns_of u M}" using xs(2) by auto
  then obtain ps where ps: "redstore_collect t xs st = (ps, st)" "map (FormatInt \<circ> up_user_id) ps = xs"
    using collect_exact [OF rel fresh] by blast
  have "FormatInt ` (up_user_id ` set ps) = FormatInt ` {u. 0 < conns_of u M}"
    using arg_cong [OF ps(2), of set] xs(2) by (simp add: image_comp)
  then have "up_user_id ` set ps = {u. 0 < conns_of u M}" using FormatInt_inj by (simp add: inj_image_eq_iff)
  then show ?thesis using xs(1) ps(1) by (simp add: redstore_ListOnline_def quiet_call q)
qed

lemma map_filter_image:
  assumes "set xs = f ` A" and "\<And>a. a \<in> A \<Longrightarrow> g (f a) = Some a"
  shows "set (List.map_filter g xs) = A"
proof -
  have "set (List.map_filter g xs) = {y. \<exists>x \<in> set xs. g x = Some y}"
    by (force simp: List.map_filter_def)
  then show ?thesis using assms by auto
qed

lemma redstore_ListWorkspace_law:
  assumes rel: "redis_rel ttl D st M" and fresh: "redis_fresh ttl D t st"
  shows "\<exists>uids. redstore_ListWorkspaceOnlineUserIDs t w st = (Inr uids, st) \<and> set uids = {u. \<exists>c. (u, w, c) \<in># M}"
proof -
  have "members_are (rs_keys st (workspaceOnlineKey w)) (FormatInt ` {u. \<exists>c. (u, w, c) \<in># M})" "until D (rs_keys st)"
    "t \<le> D" and q: "rs_fates st = []"
    using rel fresh by (auto simp: redis_rel_def redis_fresh_def redis_holds_def)
  then obtain xs where xs: "redis_SMEMBERS (workspaceOnlineKey w) t (rs_keys st) = (Inr xs, rs_keys st)"
    "set xs = FormatInt ` {u. \<exists>c. (u, w, c) \<in># M}" using members_live by blast
  have "set (List.map_filter ParseInt xs) = {u. \<exists>c. (u, w, c) \<in># M}"
    by (rule map_filter_image [OF xs(2)]) (use rel_in_int64 [OF rel] in \<open>auto simp: ParseInt_FormatInt in_int64_def\<close>)
  then show ?thesis using xs(1) by (simp add: redstore_ListWorkspaceOnlineUserIDs_def quiet_call q)
qed

lemma redstore_ActiveChannels_law:
  assumes rel: "redis_rel ttl D st M" and fresh: "redis_fresh ttl D t st"
  shows "\<exists>refs. redstore_ActiveChannels t u st = (Inr refs, st) \<and> set refs = {(w, c). (u, w, c) \<in># M}"
proof -
  have "members_are (rs_keys st (activeChannelsKey u)) ((\<lambda>(w, c). channelRef w c) ` {(w, c). (u, w, c) \<in># M})"
    "until D (rs_keys st)" "t \<le> D" and q: "rs_fates st = []"
    using rel fresh by (auto simp: redis_rel_def redis_fresh_def redis_holds_def)
  then obtain xs where xs: "redis_SMEMBERS (activeChannelsKey u) t (rs_keys st) = (Inr xs, rs_keys st)"
    "set xs = (\<lambda>(w, c). channelRef w c) ` {(w, c). (u, w, c) \<in># M}" using members_live by blast
  have "set (List.map_filter parseChannelRef xs) = {(w, c). (u, w, c) \<in># M}"
    by (rule map_filter_image [OF xs(2)]) (use rel_in_int64 [OF rel] in \<open>auto simp: parseChannelRef_channelRef\<close>)
  then show ?thesis using xs(1) by (simp add: redstore_ActiveChannels_def quiet_call q)
qed

interpretation redis_model: presence_model redis_presence "redis_rel ttl D" "redis_fresh ttl D" fits64 for ttl D
proof (unfold_locales, goal_cases)
  case (1 st M t uid ws ch r st')
  then show ?case using redstore_Connect_law [of ttl D st M t uid ws ch] by (auto simp: redis_presence_def)
next
  case (2 st M t uid ws ch r st')
  then show ?case using redstore_Disconnect_law [of ttl D st M t uid ws ch] by (auto simp: redis_presence_def)
next
  case (3 st M t uid u st')
  then show ?case using redstore_Touch_law [of ttl D st M t uid] by (auto simp: redis_presence_def)
next
  case (4 st M t uid status p st')
  then show ?case using redstore_SetStatus_law [of ttl D st M t uid status]
    by (auto simp: redis_presence_def redis_fresh_def)
next
  case (5 st M t uid refs st')
  then show ?case using redstore_ActiveChannels_law [of ttl D st M t uid] by (auto simp: redis_presence_def)
next
  case (6 st M t uid p st')
  then show ?case using redstore_Get_law [of ttl D st M t uid] by (auto simp: redis_presence_def)
next
  case (7 st M t ps st')
  then show ?case using redstore_ListOnline_law [of ttl D st M t] by (auto simp: redis_presence_def)
next
  case (8 st M t ws uids st')
  then show ?case using redstore_ListWorkspace_law [of ttl D st M t ws] by (auto simp: redis_presence_def)
qed

section \<open>Properties\<close>

lemma redis_step_total:
  assumes rel: "redis_rel ttl D (fst st) M" and fresh: "redis_fresh ttl D t (fst st)"
    and "open_after M [(t, ev)] = Some M'" and "\<And>u w c. ev = PConnect u w c \<Longrightarrow> fits64 (u, w, c)"
  shows "\<exists>st'. pevent_step redis_presence (t, ev) st = (False, st')"
proof (cases ev)
  case (PConnect u w c)
  then show ?thesis using redstore_Connect_law [OF rel fresh assms(4)]
    by (fastforce simp: presence_Connect_def redis_presence_def)
next
  case (PDisconnect u w c)
  then have "(u, w, c) \<in># M" using assms(3) by (simp split: if_splits)
  then show ?thesis using redstore_Disconnect_law [OF rel fresh] PDisconnect
    by (fastforce simp: presence_Disconnect_def redis_presence_def)
next
  case (PTouch u)
  then show ?thesis using redstore_Touch_law [OF rel fresh, of u] by (auto simp: presence_Touch_def redis_presence_def)
next
  case (PStatus u status)
  obtain p st1 where s: "redstore_SetStatus t u status (fst st) = (Inr p, st1)" "redis_rel ttl D st1 M"
    using redstore_SetStatus_law [OF rel fresh] by blast
  have "redis_fresh ttl D t st1" using fresh by (simp add: redis_fresh_def)
  then obtain refs where "redstore_ActiveChannels t u st1 = (Inr refs, st1)"
    using redstore_ActiveChannels_law [OF s(2)] by blast
  then show ?thesis using s(1) by (simp add: PStatus presence_UpdateStatus_def redis_presence_def)
qed

lemma redis_run:
  assumes "redis_rel ttl D (fst st) M" and "announced M (snd st)" and "open_after M evs = Some M'"
    and "\<forall>(t, ev) \<in> set evs. t \<le> D \<and> D \<le> t + ttl_seconds ttl * 1000000000"
    and "\<forall>(t, ev) \<in> set evs. \<forall>u w c. ev = PConnect u w c \<longrightarrow> fits64 (u, w, c)"
  shows "\<exists>st'. presence_run redis_presence evs st = Some st' \<and> redis_rel ttl D (fst st') M' \<and> announced M' (snd st')"
  using assms
proof (induction evs arbitrary: st M)
  case (Cons e evs)
  obtain t ev where e: "e = (t, ev)" by (cases e)
  obtain M1 where M1: "open_after M [(t, ev)] = Some M1" "open_after M1 evs = Some M'"
    using Cons.prems(3) e by (cases ev) (auto split: if_splits)
  have fresh: "redis_fresh ttl D t (fst st)" using Cons.prems(4) e by (simp add: redis_fresh_def)
  have fit: "\<And>u w c. ev = PConnect u w c \<Longrightarrow> fits64 (u, w, c)" using Cons.prems(5) e by simp
  obtain st1 where st1: "pevent_step redis_presence (t, ev) st = (False, st1)"
    using redis_step_total [OF Cons.prems(1) fresh M1(1) fit] by blast
  have "redis_rel ttl D (fst st1) M1 \<and> announced M1 (snd st1)"
    using redis_model.step_tracks [OF Cons.prems(1) fresh st1 M1(1) Cons.prems(2) fit] by blast
  then show ?case using Cons.IH [of st1 M1] st1 M1(2) Cons.prems(4,5) e by auto
qed simp

lemma empty_redis: "0 < ttl_seconds ttl \<Longrightarrow> redis_rel ttl D (NewRedisStore ttl) {#}"
  by (simp add: redis_rel_def NewRedisStore_def until_def redis_holds_def hash_is_def counter_is_def ws_conns_def)

text \<open>C14: As long as no more than one time to live has passed since a history of connects, disconnects of open
  connections, touches and status changes began on an empty Redis, the Redis store answers, through the presence service,
  as the multiset of open connections does, which is what the memory store answers: the users online, the users of
  a workspace, the active channels and the number of connections of a user are those of the open connections, and the hub
  was told of each user online and offline in strict alternation.\<close>

theorem redis_presence_tracks_connections:
  assumes "open_after {#} evs = Some M" and "0 < ttl_seconds ttl"
    and "\<forall>(t, ev) \<in> set evs. t0 \<le> t \<and> t \<le> t0 + ttl_seconds ttl * 1000000000"
    and "\<forall>(t, ev) \<in> set evs. \<forall>u w c. ev = PConnect u w c \<longrightarrow> fits64 (u, w, c)"
    and "t0 \<le> t" and "t \<le> t0 + ttl_seconds ttl * 1000000000"
  shows "\<exists>st out. presence_run redis_presence evs (NewRedisStore ttl, []) = Some (st, out) \<and> announced M out \<and>
    (\<exists>ps. redstore_ListOnline t st = (Inr ps, st) \<and> up_user_id ` set ps = {uid. 0 < conns_of uid M}) \<and>
    (\<forall>ws. \<exists>uids. redstore_ListWorkspaceOnlineUserIDs t ws st = (Inr uids, st) \<and>
       set uids = {uid. \<exists>ch. (uid, ws, ch) \<in># M}) \<and>
    (\<forall>uid. (\<exists>refs. redstore_ActiveChannels t uid st = (Inr refs, st) \<and> set refs = {(ws, ch). (uid, ws, ch) \<in># M}) \<and>
       (\<exists>p. redstore_Get t uid st = (Inr p, st) \<and> up_connection_count p = int (conns_of uid M) \<and>
         (conns_of uid M = 0 \<longrightarrow> up_status p = ''offline'')))"
proof -
  let ?D = "t0 + ttl_seconds ttl * 1000000000"
  have "\<forall>(t, ev) \<in> set evs. t \<le> ?D \<and> ?D \<le> t + ttl_seconds ttl * 1000000000" using assms(3) by auto
  then obtain st out where run: "presence_run redis_presence evs (NewRedisStore ttl, []) = Some (st, out)"
    and rel: "redis_rel ttl ?D st M" and "announced M out"
    using redis_run [of ttl ?D "(NewRedisStore ttl, [])" "{#}" evs M] empty_redis [OF assms(2)] assms(1,4)
    by (auto simp: announced_def)
  moreover have "redis_fresh ttl ?D t st" using assms(5,6) by (simp add: redis_fresh_def)
  note laws = redstore_ListOnline_law [OF rel this] redstore_ListWorkspace_law [OF rel this]
    redstore_ActiveChannels_law [OF rel this] redstore_Get_law [OF rel this]
  ultimately show ?thesis using laws by meson
qed

theorem redis_presence_tracks_connections_witness:
  "\<exists>st out. presence_run redis_presence
      [(1, PConnect 7 1 10), (2, PConnect 7 1 10), (3, PConnect 8 2 20), (4, PDisconnect 7 1 10), (5, PDisconnect 8 2 20)]
      (NewRedisStore 120000000000, []) = Some (st, out) \<and> announced {#(7, 1, 10)#} out"
  using redis_presence_tracks_connections [of "[(1, PConnect 7 1 10), (2, PConnect 7 1 10), (3, PConnect 8 2 20),
    (4, PDisconnect 7 1 10), (5, PDisconnect 8 2 20)]" "{#(7, 1, 10)#}" 120000000000 0 6]
  by (simp add: ttl_seconds_def fits64_def in_int64_def) blast

text \<open>C32: A heartbeat renews a user's hash, the set of users online and the user's channels, but not the set of users of
  a workspace, and it does not renew the counts of connections: one time to live after a user has connected the presence of the
  workspace has lost the user, although the connection is open, heartbeats arrive, and the user is still listed online with one connection.\<close>

theorem redis_presence_forgets:
  assumes ttl: "0 < ttl_seconds ttl" and fits: "fits64 (u, w, c)"
    and beat: "t0 \<le> t1" "t1 \<le> t0 + ttl_seconds ttl * 1000000000"
    and t: "t0 + ttl_seconds ttl * 1000000000 < t" "t \<le> t1 + ttl_seconds ttl * 1000000000"
  shows "\<exists>st p. presence_run redis_presence [(t0, PConnect u w c), (t1, PTouch u)] (NewRedisStore ttl, []) =
      Some (st, [Publish ''presence.online'' w c [(''user_id'', VInt u)]]) \<and>
    redstore_ListWorkspaceOnlineUserIDs t w st = (Inr [], st) \<and>
    redstore_ListOnline t st = (Inr [p], st) \<and> up_user_id p = u \<and> up_connection_count p = 1 \<and>
    redstore_ActiveChannels t u st = (Inr [(w, c)], st)"
proof -
  let ?T = "ttl_seconds ttl * 1000000000"
  define h where "h = [(''connection_count'', VInt 1), (''last_seen'', VTime t0), (''status'', VStr ''online'')]"
  define m0 where "m0 = Map.empty(workspaceConnKey u w \<mapsto> (RInt 1, Some (t0 + ?T)),
    workspaceOnlineKey w \<mapsto> (RSet [FormatInt u], Some (t0 + ?T)),
    channelConnKey u w c \<mapsto> (RInt 1, Some (t0 + ?T)),
    activeChannelsKey u \<mapsto> (RSet [channelRef w c], Some (t0 + ?T)),
    userKey u \<mapsto> (RHash h, Some (t0 + ?T)),
    globalOnlineKey \<mapsto> (RSet [FormatInt u], Some (t0 + ?T)))"
  define h1 where "h1 = [(''connection_count'', VInt 1), (''last_seen'', VTime t1), (''status'', VStr ''online'')]"
  define m1 where "m1 = m0(userKey u \<mapsto> (RHash h1, Some (t1 + ?T)),
    globalOnlineKey \<mapsto> (RSet [FormatInt u], Some (t1 + ?T)),
    activeChannelsKey u \<mapsto> (RSet [channelRef w c], Some (t1 + ?T)))"
  have "connectScript u w c t0 (ttl_seconds ttl) t0 Map.empty = (Inr (1, True), m0)"
    using ttl by (auto simp: connectScript_def script_open_def script_online_def redis_defs redis_live_def m0_def h_def fun_upd_twist)
  then have con: "redstore_Connect t0 u w c (NewRedisStore ttl) =
      (Inr \<lparr>BecameOnline = True, ConnectCount = 1\<rparr>, (NewRedisStore ttl)\<lparr>rs_keys := m0\<rparr>)"
    by (simp add: redstore_Connect_def quiet_call NewRedisStore_def)
  have "redstore_Touch t1 u ((NewRedisStore ttl)\<lparr>rs_keys := m0\<rparr>) = (Inr (), (NewRedisStore ttl)\<lparr>rs_keys := m1\<rparr>)"
    using ttl beat by (auto simp: redstore_Touch_def quiet_call NewRedisStore_def redis_defs redis_live_def m0_def m1_def Let_def
        h_def h1_def)
  moreover have "redstore_ListWorkspaceOnlineUserIDs t w ((NewRedisStore ttl)\<lparr>rs_keys := m1\<rparr>) =
      (Inr [], (NewRedisStore ttl)\<lparr>rs_keys := m1\<rparr>)"
    using t by (auto simp: redstore_ListWorkspaceOnlineUserIDs_def quiet_call NewRedisStore_def redis_SMEMBERS_def
        redis_live_def m0_def m1_def map_filter_simps)
  moreover have "redstore_Get t u ((NewRedisStore ttl)\<lparr>rs_keys := m1\<rparr>) =
      (Inr \<lparr>up_user_id = u, up_status = ''online'', up_connection_count = 1, up_last_seen = Some t1\<rparr>,
       (NewRedisStore ttl)\<lparr>rs_keys := m1\<rparr>)"
    using t by (auto simp: redstore_Get_def quiet_call NewRedisStore_def redis_HGETALL_def redis_live_def m0_def m1_def
        h1_def hash_count_def)
  moreover have "redis_SMEMBERS globalOnlineKey t m1 = (Inr [FormatInt u], m1)"
    "redis_SMEMBERS (activeChannelsKey u) t m1 = (Inr [channelRef w c], m1)"
    using t by (auto simp: redis_SMEMBERS_def redis_live_def m0_def m1_def)
  ultimately show ?thesis using con fits parseChannelRef_channelRef [of w c] ParseInt_FormatInt [of u]
    by (auto simp: presence_Connect_def presence_Touch_def redis_presence_def redstore_ListOnline_def quiet_call
        NewRedisStore_def redstore_ActiveChannels_def map_filter_simps fits64_def in_int64_def)
qed

theorem redis_presence_forgets_witness:
  "\<exists>st p. presence_run redis_presence [(0, PConnect 7 1 10), (60000000000, PTouch 7)] (NewRedisStore 120000000000, []) =
      Some (st, [Publish ''presence.online'' 1 10 [(''user_id'', VInt 7)]]) \<and>
    redstore_ListWorkspaceOnlineUserIDs 121000000000 1 st = (Inr [], st) \<and>
    redstore_ListOnline 121000000000 st = (Inr [p], st)"
  using redis_presence_forgets [of 120000000000 7 1 10 0 60000000000 121000000000]
  by (simp add: ttl_seconds_def fits64_def in_int64_def) blast

end
