(* ===== verification/Origins.thy ===== *)
theory Origins
  imports Db_Apps Sample
begin

text \<open>
  \<open>internal/origins\<close>: which browser origins may call the API. \<open>url.Parse\<close>, \<open>url.ParseQuery\<close>,
  \<open>netip.ParseAddr\<close> and the validation of tokens are parameters; \<open>Hostname\<close> is a field of the parsed URL. The
  zero \<open>time.Time\<close> is \<open>None\<close>, and so is a nil map. The order of the keys of a Go map is the order in which they
  were entered.
\<close>

record go_url =
  url_Scheme :: string
  url_Host :: string
  url_Hostname :: string
  url_User :: bool
  url_Path :: string
  url_RawQuery :: string
  url_Fragment :: string

record url_lib =
  url_Parse :: "string \<Rightarrow> go_url option"
  netip_IsLoopback :: "string \<Rightarrow> bool option"   \<comment> \<open>\<open>None\<close>: not an address\<close>

section \<open>Origins\<close>

definition Normalize :: "string \<Rightarrow> string" where
  "Normalize origin = trim_char_right CHR ''/'' (TrimSpace origin)"

definition ParseList :: "string \<Rightarrow> string list" where
  "ParseList raw =
     (let raw = TrimSpace raw in
      if raw = [] \<or> raw = ''*'' then []
      else filter (\<lambda>origin. origin \<noteq> []) (map (\<lambda>part. Normalize (TrimSpace part)) (split_on CHR '','' raw)))"

definition TrimSuffix :: "string \<Rightarrow> string \<Rightarrow> string" where
  "TrimSuffix s suffix = (if has_suffix suffix s then take (length s - length suffix) s else s)"

definition isSecurePublicOrigin :: "url_lib \<Rightarrow> go_url \<Rightarrow> bool" where
  "isSecurePublicOrigin lib parsed =
     (let host = TrimSuffix (ToLower (url_Hostname parsed)) ''.'' in
      if host = [] then False
      else if host = ''localhost'' then True
      else case netip_IsLoopback lib host of
             Some loopback \<Rightarrow> loopback
           | None \<Rightarrow> if url_Scheme parsed \<noteq> ''https'' then False else True)"

definition origins_Validate :: "url_lib \<Rightarrow> string \<Rightarrow> goerr option" where
  "origins_Validate lib raw =
     (let origin = Normalize raw in
      if origin = [] then Some (EOrigins Org_OriginRequired)
      else case url_Parse lib origin of
        None \<Rightarrow> Some (EOrigins Org_InvalidOrigin)
      | Some u \<Rightarrow>
          if url_Scheme u \<noteq> ''http'' \<and> url_Scheme u \<noteq> ''https'' then Some (EOrigins Org_InvalidOrigin)
          else if url_Host u = [] then Some (EOrigins Org_InvalidOrigin)
          else if url_User u then Some (EOrigins Org_InvalidOrigin)
          else if url_Path u \<noteq> [] \<and> url_Path u \<noteq> ''/'' then Some (EOrigins Org_InvalidOrigin)
          else if url_RawQuery u \<noteq> [] \<or> url_Fragment u \<noteq> [] then Some (EOrigins Org_InvalidOrigin)
          else if \<not> isSecurePublicOrigin lib u then Some (EOrigins Org_InvalidOrigin)
          else None)"

definition maxOriginsPerApp :: nat where "maxOriginsPerApp = 20"

fun normalize_items :: "url_lib \<Rightarrow> string list \<Rightarrow> string list \<Rightarrow> goerr + string list" where
  "normalize_items lib [] out = Inr out"
| "normalize_items lib (item # items) out =
     (let normalized = Normalize item in
      case origins_Validate lib normalized of
        Some e \<Rightarrow> Inl e
      | None \<Rightarrow> if normalized \<in> set out then normalize_items lib items out
                else normalize_items lib items (out @ [normalized]))"

definition NormalizeList :: "url_lib \<Rightarrow> string list \<Rightarrow> goerr + string list" where
  "NormalizeList lib items =
     (if length items > maxOriginsPerApp then Inl (EOrigins Org_TooManyOrigins) else normalize_items lib items [])"

section \<open>The checker\<close>

record hints =
  hint_AppID :: int
  hint_WorkspaceID :: int
  hint_Preflight :: bool

record snapshot =
  byApp :: "(int \<rightharpoonup> string list) option"
  byWorkspace :: "int \<rightharpoonup> string list"
  union_origins :: "string list"

record checker =
  ck_platform :: "string list"
  ck_cache :: snapshot
  ck_loadedAt :: "int option"

definition cacheTTL :: int where "cacheTTL = 60000000"

definition loadPlatformOrigins :: "(string \<Rightarrow> string) \<Rightarrow> string list" where
  "loadPlatformOrigins getenv =
     remdups (ParseList (getenv ''CORS_ALLOWED_ORIGINS'') @ ParseList (getenv ''WS_ALLOWED_ORIGINS''))"

definition NewChecker :: "(string \<Rightarrow> string) \<Rightarrow> checker" where
  "NewChecker getenv =
     \<lparr>ck_platform = loadPlatformOrigins getenv,
      ck_cache = \<lparr>byApp = None, byWorkspace = Map.empty, union_origins = []\<rparr>, ck_loadedAt = None\<rparr>"

definition origins_Invalidate :: "checker \<Rightarrow> checker" where
  "origins_Invalidate c = c\<lparr>ck_loadedAt := None\<rparr>"

definition normalizeStored :: "string list \<Rightarrow> string list" where
  "normalizeStored origins = filter (\<lambda>origin. origin \<noteq> []) (map Normalize origins)"

definition add_entry :: "snapshot \<Rightarrow> int \<times> int \<times> int \<times> string list \<Rightarrow> snapshot" where
  "add_entry snap row =
     (case row of (i, ws, sandbox_ws, allowed) \<Rightarrow>
       let origins = normalizeStored allowed;
           ws_map = (byWorkspace snap)(ws \<mapsto> origins)
       in \<lparr>byApp = map_option (\<lambda>m. m(i \<mapsto> origins)) (byApp snap),
           byWorkspace = (if sandbox_ws > 0 then ws_map(sandbox_ws \<mapsto> origins) else ws_map),
           union_origins = union_origins snap @ filter (\<lambda>x. x \<notin> set (union_origins snap)) (remdups origins)\<rparr>)"

definition snapshot_of :: "(int \<times> int \<times> int \<times> string list) list \<Rightarrow> snapshot" where
  "snapshot_of rows =
     foldl add_entry \<lparr>byApp = Some Map.empty, byWorkspace = Map.empty, union_origins = []\<rparr> rows"

definition ck_fresh :: "checker \<Rightarrow> int \<Rightarrow> bool" where
  "ck_fresh c t \<longleftrightarrow>
     (case ck_loadedAt c of None \<Rightarrow> False | Some t0 \<Rightarrow> t - t0 < cacheTTL) \<and> byApp (ck_cache c) \<noteq> None"

text \<open>The checker is a state of its own beside the world; a failed reload answers from the old cache.\<close>

definition origins_snapshot :: "checker \<Rightarrow> world \<Rightarrow> snapshot \<times> checker \<times> world" where
  "origins_snapshot c s =
     (if ck_fresh c (now s) then (ck_cache c, c, s)
      else case exec ListAppOriginEntries s of
             (Inl e, s') \<Rightarrow> (ck_cache c, c, s')
           | (Inr rows, s') \<Rightarrow>
               (snapshot_of rows, c\<lparr>ck_cache := snapshot_of rows, ck_loadedAt := Some (now s')\<rparr>, s'))"

definition listed :: "string list option \<Rightarrow> string \<Rightarrow> bool" where
  "listed origins origin = (case origins of None \<Rightarrow> False | Some xs \<Rightarrow> origin \<in> set xs)"

definition origins_IsAllowed :: "checker \<Rightarrow> string \<Rightarrow> hints \<Rightarrow> world \<Rightarrow> bool \<times> checker \<times> world" where
  "origins_IsAllowed c raw h s =
     (let origin = Normalize raw in
      if origin = [] then (True, c, s)
      else if origin \<in> set (ck_platform c) then (True, c, s)
      else case origins_snapshot c s of (snap, c', s') \<Rightarrow>
        if hint_AppID h > 0
        then (listed (Option.bind (byApp snap) (\<lambda>m. m (hint_AppID h))) origin, c', s')
        else if hint_WorkspaceID h > 0 then (listed (byWorkspace snap (hint_WorkspaceID h)) origin, c', s')
        else if hint_Preflight h then (origin \<in> set (union_origins snap), c', s')
        else (False, c', s'))"

section \<open>Hints of a request\<close>

fun path_hint :: "string list \<Rightarrow> int" where
  "path_hint (a # b # rest) =
     (if a = ''workspaces'' then (case ParseInt b of Some i \<Rightarrow> i | None \<Rightarrow> path_hint (b # rest))
      else path_hint (b # rest))"
| "path_hint _ = 0"

definition workspaceIDFromPath :: "string \<Rightarrow> int" where
  "workspaceIDFromPath path = path_hint (split_on CHR ''/'' (trim_char CHR ''/'' path))"

text \<open>The parameter is \<open>values.Get("workspace_id")\<close> of the parsed query, \<open>None\<close> when it does not parse.\<close>

definition workspaceIDFromQuery :: "(string \<Rightarrow> string option) \<Rightarrow> string \<Rightarrow> int" where
  "workspaceIDFromQuery get query =
     (case get query of
        None \<Rightarrow> 0
      | Some v \<Rightarrow> (let raw = TrimSpace v in
                   if raw = [] then 0 else (case ParseInt raw of None \<Rightarrow> 0 | Some i \<Rightarrow> i)))"

definition HintsFromRequest :: "(string \<Rightarrow> string option) \<Rightarrow> string \<Rightarrow> string \<Rightarrow> string \<Rightarrow> int \<Rightarrow> hints" where
  "HintsFromRequest get method path query app =
     (let from_path = workspaceIDFromPath path in
      \<lparr>hint_AppID = app,
       hint_WorkspaceID = (if from_path > 0 then from_path else workspaceIDFromQuery get query),
       hint_Preflight = method = ''OPTIONS''\<rparr>)"

text \<open>The parameter is the \<open>app_id\<close> of a token that \<open>jwt.ValidateToken\<close> accepts.\<close>

definition AppIDFromToken :: "(string \<Rightarrow> int option) \<Rightarrow> string \<Rightarrow> string \<Rightarrow> int" where
  "AppIDFromToken claims_app authHeader queryToken =
     (let query = TrimSpace queryToken;
          token = (if query \<noteq> [] then query
                   else if has_prefix ''Bearer '' authHeader then TrimSpace (drop 7 authHeader) else [])
      in if token = [] then 0 else (case claims_app token of None \<Rightarrow> 0 | Some i \<Rightarrow> i))"

section \<open>The reference decision\<close>

definition allows :: "app_row \<Rightarrow> string \<Rightarrow> bool" where
  "allows a origin \<longleftrightarrow> origin \<in> Normalize ` set (a_allowed_origins a)"

definition origin_permitted :: "string list \<Rightarrow> db \<Rightarrow> string \<Rightarrow> hints \<Rightarrow> bool" where
  "origin_permitted platform d origin h \<longleftrightarrow>
     origin = [] \<or> origin \<in> set platform \<or>
     (if hint_AppID h > 0 then \<exists>a\<in>set (apps d). a_id a = hint_AppID h \<and> allows a origin
      else if hint_WorkspaceID h > 0
        then \<exists>a\<in>set (apps d). hint_WorkspaceID h \<in> {a_workspace_id a, a_sandbox_workspace_id a} \<and> allows a origin
      else hint_Preflight h \<and> (\<exists>a\<in>set (apps d). allows a origin))"

text \<open>Apps have their own identifiers and share no workspace.\<close>

definition apps_distinct :: "db \<Rightarrow> bool" where
  "apps_distinct d \<longleftrightarrow>
     distinct (map a_id (apps d)) \<and> distinct (concat (map (\<lambda>a. [a_workspace_id a, a_sandbox_workspace_id a]) (apps d)))"

definition entry_of :: "app_row \<Rightarrow> int \<times> int \<times> int \<times> string list" where
  "entry_of a = (a_id a, a_workspace_id a, a_sandbox_workspace_id a, a_allowed_origins a)"

lemma set_normalizeStored: "set (normalizeStored xs) = Normalize ` set xs - {[]}"
  by (auto simp: normalizeStored_def)

lemma snapshot_of_snoc: "snapshot_of (rows @ [r]) = add_entry (snapshot_of rows) r"
  by (simp add: snapshot_of_def)

lemma byApp_of:
  "distinct (map a_id as) \<Longrightarrow> \<exists>m. byApp (snapshot_of (map entry_of as)) = Some m \<and>
    (\<forall>i origin. origin \<noteq> [] \<longrightarrow> (listed (m i) origin \<longleftrightarrow> (\<exists>a\<in>set as. a_id a = i \<and> allows a origin)))"
proof (induction as rule: rev_induct)
  case Nil
  then show ?case by (simp add: snapshot_of_def listed_def)
next
  case (snoc a as)
  then obtain m where m: "byApp (snapshot_of (map entry_of as)) = Some m"
    "\<And>i origin. origin \<noteq> [] \<Longrightarrow> listed (m i) origin \<longleftrightarrow> (\<exists>a\<in>set as. a_id a = i \<and> allows a origin)"
    by auto
  have "byApp (snapshot_of (map entry_of (as @ [a]))) = Some (m(a_id a \<mapsto> normalizeStored (a_allowed_origins a)))"
    using m(1) by (simp add: snapshot_of_snoc add_entry_def entry_of_def Let_def)
  moreover have "\<forall>b\<in>set as. a_id b \<noteq> a_id a" using snoc.prems by (auto simp: image_iff)
  ultimately show ?case using m(2) by (auto simp: listed_def allows_def set_normalizeStored)
qed

lemma byWorkspace_of:
  "distinct (concat (map (\<lambda>a. [a_workspace_id a, a_sandbox_workspace_id a]) as)) \<Longrightarrow> 0 < w \<Longrightarrow> origin \<noteq> [] \<Longrightarrow>
    listed (byWorkspace (snapshot_of (map entry_of as)) w) origin \<longleftrightarrow>
    (\<exists>a\<in>set as. w \<in> {a_workspace_id a, a_sandbox_workspace_id a} \<and> allows a origin)"
proof (induction as rule: rev_induct)
  case Nil
  then show ?case by (simp add: snapshot_of_def listed_def)
next
  case (snoc a as)
  have "\<forall>b\<in>set as. {a_workspace_id b, a_sandbox_workspace_id b} \<inter> {a_workspace_id a, a_sandbox_workspace_id a} = {}"
    using snoc.prems(1) by (auto simp: image_iff)
  then show ?case using snoc
    by (auto simp: snapshot_of_snoc add_entry_def entry_of_def Let_def listed_def allows_def set_normalizeStored)
qed

lemma union_of: "origin \<noteq> [] \<Longrightarrow>
    origin \<in> set (union_origins (snapshot_of (map entry_of as))) \<longleftrightarrow> (\<exists>a\<in>set as. allows a origin)"
proof (induction as rule: rev_induct)
  case Nil
  then show ?case by (simp add: snapshot_of_def)
next
  case (snoc a as)
  then show ?case
    by (auto simp: snapshot_of_snoc add_entry_def entry_of_def Let_def allows_def set_normalizeStored)
qed

text \<open>C27: \<open>IsAllowed\<close> on a checker whose cache was invalidated decides exactly as the tables say: an origin is allowed
  when it is absent, on the list of the platform, or on the list of the app the request names, by its token or by
  a live or sandbox workspace in its path; a preflight that names neither may come from the list of any app, and
  every other request is refused.\<close>

theorem IsAllowed_matches_tables:
  assumes "apps_distinct (db s)" and "tape s = []" and "ck_loadedAt c = None"
  shows "fst (origins_IsAllowed c raw h s) \<longleftrightarrow> origin_permitted (ck_platform c) (db s) (Normalize raw) h"
proof -
  have rows: "exec ListAppOriginEntries s = (Inr (map entry_of (apps (db s))), s)"
    using assms(2) by (simp add: exec_quiet ListAppOriginEntries_def select_def entry_of_def)
  have snap: "fst (origins_snapshot c s) = snapshot_of (map entry_of (apps (db s)))"
    using assms(3) rows by (simp add: origins_snapshot_def ck_fresh_def)
  obtain m where m: "byApp (snapshot_of (map entry_of (apps (db s)))) = Some m"
    "\<And>i origin. origin \<noteq> [] \<Longrightarrow> listed (m i) origin \<longleftrightarrow> (\<exists>a\<in>set (apps (db s)). a_id a = i \<and> allows a origin)"
    using byApp_of assms(1) unfolding apps_distinct_def by blast
  have ws: "distinct (concat (map (\<lambda>a. [a_workspace_id a, a_sandbox_workspace_id a]) (apps (db s))))"
    using assms(1) unfolding apps_distinct_def by blast
  show ?thesis
    using snap m byWorkspace_of [OF ws] union_of
    by (auto simp: origins_IsAllowed_def origin_permitted_def Let_def split: prod.splits)
qed

text \<open>What an accepted list of origins is.\<close>

definition secure_origin :: "url_lib \<Rightarrow> string \<Rightarrow> bool" where
  "secure_origin lib origin \<longleftrightarrow>
     (\<exists>u. url_Parse lib origin = Some u \<and> url_Scheme u \<in> {''http'', ''https''} \<and> \<not> url_User u \<and>
        url_Path u \<in> {[], ''/''} \<and> url_RawQuery u = [] \<and> url_Fragment u = [] \<and>
        (let host = TrimSuffix (ToLower (url_Hostname u)) ''.'' in
         host \<noteq> [] \<and> (host = ''localhost'' \<or> netip_IsLoopback lib host = Some True \<or>
           (netip_IsLoopback lib host = None \<and> url_Scheme u = ''https''))))"

lemma trim_char_right_idem: "trim_char_right c (trim_char_right c s) = trim_char_right c s"
  by (simp add: trim_char_right_def dropWhile_idem)

lemma Validate_secure: "origins_Validate lib o' = None \<Longrightarrow> Normalize o' \<noteq> [] \<and> secure_origin lib (Normalize o')"
  by (auto simp: origins_Validate_def secure_origin_def isSecurePublicOrigin_def Let_def
      split: option.splits if_splits)

lemma normalize_items_spec:
  "normalize_items lib items out = Inr res \<Longrightarrow> distinct out \<Longrightarrow>
    distinct res \<and> set res = set out \<union> Normalize ` set items \<and>
    length res \<le> length out + length items \<and>
    (\<forall>i\<in>set items. origins_Validate lib (Normalize i) = None)"
proof (induction lib items out rule: normalize_items.induct)
  case (2 lib item items out)
  then show ?case
    by (cases "origins_Validate lib (Normalize item)") (fastforce simp: Let_def split: if_splits)+
qed auto

lemma IsAllowed_sample: "apps_distinct sample_db"
  by (simp add: apps_distinct_def sample_db_def)

theorem IsAllowed_matches_tables_witness:
  "\<not> fst (origins_IsAllowed (NewChecker (\<lambda>_. [])) ''https://evil.io'' \<lparr>hint_AppID = 1, hint_WorkspaceID = 0, hint_Preflight = False\<rparr> sample)"
proof -
  let ?c = "NewChecker (\<lambda>_. [])"
  let ?h = "\<lparr>hint_AppID = 1, hint_WorkspaceID = 0, hint_Preflight = False\<rparr>"
  have "Normalize ''https://evil.io'' \<noteq> []" "ck_platform ?c = []" "ck_loadedAt ?c = None" by code_simp+
  then show ?thesis
    using IsAllowed_matches_tables [of sample ?c "''https://evil.io''" ?h] IsAllowed_sample
    by (simp add: origin_permitted_def allows_def sample_db_def)
qed

end
