(* ===== verification/Apps.thy ===== *)
theory Apps
  imports Api_Keys Origins Billing_Plans
begin

text \<open>
  \<open>internal/apps/service.go\<close>: apps with their two workspaces, API keys, webhooks and allowed origins; and
  \<open>internal/webhooks\<close>, which hands the events of an app to its webhooks. The billing hook may be nil. Random bytes
  are an argument of the operations that draw them, SHA-256 of those that hash. \<open>UpdateAllowedOrigins\<close> also acts on
  the origin checker, which is a state of its own.
\<close>

record apps_billing =
  AssertCanCreateApp :: "int \<Rightarrow> unit prog"
  CheckCanCreateWebhook :: "int \<Rightarrow> unit prog"

record apps_service =
  ap_billing :: "apps_billing option"
  ap_sandbox :: sandbox_config

text \<open>The service as \<open>main.go\<close> wires it.\<close>

definition apps_wired :: "sandbox_config \<Rightarrow> apps_service" where
  "apps_wired cfg =
     \<lparr>ap_billing = Some \<lparr>AssertCanCreateApp = billing_AssertCanCreateApp,
                         CheckCanCreateWebhook = billing_CheckCanCreateWebhook\<rparr>,
      ap_sandbox = cfg\<rparr>"

record key_response =
  kr_id :: int
  kr_app_id :: int
  kr_name :: string
  kr_key_prefix :: string
  kr_is_sandbox :: bool
  kr_created_at :: int
  kr_revoked_at :: "int option"
  kr_last_used :: "int option"
  kr_expires_at :: "int option"

definition apps_toAPIKeyResponse :: "api_key_row \<Rightarrow> key_response" where
  "apps_toAPIKeyResponse k =
     \<lparr>kr_id = k_id k, kr_app_id = k_app_id k, kr_name = k_name k, kr_key_prefix = k_key_prefix k,
      kr_is_sandbox = k_is_sandbox k, kr_created_at = k_created_at k, kr_revoked_at = k_revoked_at k,
      kr_last_used = k_last_used_at k, kr_expires_at = k_expires_at k\<rparr>"

record webhook_response =
  whr_id :: int
  whr_app_id :: int
  whr_url :: string
  whr_events :: "string list"
  whr_created_at :: int

definition apps_toWebhookResponse :: "webhook_row \<Rightarrow> webhook_response" where
  "apps_toWebhookResponse w =
     \<lparr>whr_id = wh_id w, whr_app_id = wh_app_id w, whr_url = wh_url w, whr_events = wh_events w,
      whr_created_at = wh_created_at w\<rparr>"

section \<open>Apps\<close>

definition apps_normalizeSlug :: "string \<Rightarrow> string \<Rightarrow> goerr + string" where
  "apps_normalizeSlug raw name =
     (let slug = TrimSpace raw;
          slug = (if slug = [] then spaces_to_dashes (ToLower name) else slug);
          slug = ToLower slug
      in if \<not> slug_pattern slug then Inl (EApps Apps_InvalidSlug) else Inr slug)"

definition apps_assertAppOwner :: "int \<Rightarrow> int \<Rightarrow> app_row prog" where
  "apps_assertAppOwner app_id owner =
     attempt (exec (GetAppByID app_id)) (\<lambda>e. fail (no_rows_as (EApps Apps_NotFound) e)) (\<lambda>app.
     if a_owner_id app \<noteq> owner then fail (EApps Apps_Forbidden) else ret app)"

definition apps_CreateApp :: "apps_service \<Rightarrow> int \<Rightarrow> string \<Rightarrow> string \<Rightarrow> app_row prog" where
  "apps_CreateApp sv owner raw_name raw_slug =
     (let name = TrimSpace raw_name in
      if name = [] then fail (EApps Apps_NameRequired)
      else case apps_normalizeSlug raw_slug name of
        Inl e \<Rightarrow> fail e
      | Inr slug \<Rightarrow>
          attempt (exec (GetAppBySlug slug))
            (\<lambda>e. if e \<noteq> ENoRows then fail e
                 else andthen (case ap_billing sv of None \<Rightarrow> ret () | Some b \<Rightarrow> AssertCanCreateApp b owner) (\<lambda>_.
                      andthen (exec (CreateWorkspace (name @ '' App'') (''app-'' @ slug) owner)) (\<lambda>w.
                      andthen (exec (CreateWorkspace (name @ '' Sandbox'') (''app-'' @ slug @ ''-sandbox'') owner)) (\<lambda>sw.
                      andthen (exec (AddWorkspaceMember (w_id w) owner ''owner'')) (\<lambda>_.
                      andthen (exec (AddWorkspaceMember (w_id sw) owner ''owner'')) (\<lambda>_.
                      exec (CreateApp name slug (w_id w) (w_id sw) owner)))))))
            (\<lambda>_. fail (EApps Apps_SlugTaken)))"

definition apps_ListApps :: "int \<Rightarrow> app_row list prog" where
  "apps_ListApps owner = exec (ListAppsByOwner owner)"

definition apps_GetApp :: "int \<Rightarrow> app_row prog" where
  "apps_GetApp app_id = attempt (exec (GetAppByID app_id)) (\<lambda>e. fail (no_rows_as (EApps Apps_NotFound) e)) ret"

definition apps_GetAppForOwner :: "int \<Rightarrow> int \<Rightarrow> app_row prog" where
  "apps_GetAppForOwner app_id owner = apps_assertAppOwner app_id owner"

definition apps_set_origins :: "url_lib \<Rightarrow> int \<Rightarrow> int \<Rightarrow> string list \<Rightarrow> app_row prog" where
  "apps_set_origins lib app_id owner allowed =
     andthen (apps_assertAppOwner app_id owner) (\<lambda>_.
     case NormalizeList lib allowed of
       Inl e \<Rightarrow> fail (if e = EOrigins Org_InvalidOrigin then EApps Apps_InvalidOrigin
                      else if e = EOrigins Org_TooManyOrigins then EApps Apps_TooManyOrigins else e)
     | Inr normalized \<Rightarrow>
         attempt (exec (UpdateAppAllowedOrigins app_id normalized)) (\<lambda>e. fail (no_rows_as (EApps Apps_NotFound) e)) ret)"

text \<open>The checker is nil until \<open>SetOriginChecker\<close>.\<close>

definition apps_UpdateAllowedOrigins ::
  "url_lib \<Rightarrow> int \<Rightarrow> int \<Rightarrow> string list \<Rightarrow> checker option \<Rightarrow> world \<Rightarrow> (goerr + app_row) \<times> checker option \<times> world"
where
  "apps_UpdateAllowedOrigins lib app_id owner allowed chk s =
     (case apps_set_origins lib app_id owner allowed s of
        (Inl e, s') \<Rightarrow> (Inl e, chk, s')
      | (Inr app, s') \<Rightarrow> (Inr app, map_option origins_Invalidate chk, s'))"

section \<open>API keys\<close>

definition apps_CreateAPIKey ::
  "apps_service \<Rightarrow> (string \<Rightarrow> 8 word list) \<Rightarrow> goerr + 8 word list \<Rightarrow> int \<Rightarrow> int \<Rightarrow> string \<Rightarrow> bool \<Rightarrow> (key_response \<times> string) prog"
where
  "apps_CreateAPIKey sv sha256 random app_id owner raw_name sandbox =
     andthen (apps_assertAppOwner app_id owner) (\<lambda>app.
     let name = (if TrimSpace raw_name = [] then ''default'' else TrimSpace raw_name) in
     case GenerateAPIKey sha256 random sandbox of
       Inl e \<Rightarrow> fail e
     | Inr (plain, prefix, hash) \<Rightarrow>
         clock (\<lambda>t.
         let expires = (if sandbox \<and> APIKeyTTL (ap_sandbox sv) > 0
                        then Some (add_duration t (APIKeyTTL (ap_sandbox sv))) else None) in
         andthen (exec (CreateAPIKey (a_id app) name prefix hash sandbox expires)) (\<lambda>key.
         ret (apps_toAPIKeyResponse key, plain))))"

definition apps_ListAPIKeys :: "int \<Rightarrow> int \<Rightarrow> key_response list prog" where
  "apps_ListAPIKeys app_id owner =
     andthen (apps_assertAppOwner app_id owner) (\<lambda>_.
     andthen (exec (ListAPIKeysByApp app_id)) (\<lambda>rows. ret (map apps_toAPIKeyResponse rows)))"

definition apps_RevokeAPIKey :: "int \<Rightarrow> int \<Rightarrow> int \<Rightarrow> unit prog" where
  "apps_RevokeAPIKey app_id key_id owner =
     andthen (apps_assertAppOwner app_id owner) (\<lambda>_.
     attempt (exec (RevokeAPIKey key_id app_id)) (\<lambda>e. fail (no_rows_as (EApps Apps_KeyNotFound) e)) (\<lambda>_. ret ()))"

definition apps_AuthenticateAPIKey :: "(string \<Rightarrow> 8 word list) \<Rightarrow> string \<Rightarrow> (app_row \<times> api_key_row) prog" where
  "apps_AuthenticateAPIKey sha256 plain =
     (if \<not> IsAPIKeyToken plain then fail (EApps Apps_InvalidKey)
      else attempt (exec (GetAPIKeyByPrefix (LookupPrefix plain)))
        (\<lambda>e. fail (no_rows_as (EApps Apps_InvalidKey) e)) (\<lambda>key.
      if k_key_hash key \<noteq> HashAPIKey sha256 plain then fail (EApps Apps_InvalidKey)
      else clock (\<lambda>t.
        if k_is_sandbox key \<and> (case k_expires_at key of None \<Rightarrow> False | Some x \<Rightarrow> \<not> t < x)
        then fail (EApps Apps_InvalidKey)
        else attempt (exec (GetAppByID (k_app_id key))) (\<lambda>_. fail (EApps Apps_InvalidKey)) (\<lambda>app.
             andthen (ignoring (exec (TouchAPIKeyLastUsed (k_id key)))) (\<lambda>_.
             ret (app, key))))))"

section \<open>Webhooks\<close>

definition randomSecret :: "goerr + 8 word list \<Rightarrow> goerr + string" where
  "randomSecret random = (case random of Inl e \<Rightarrow> Inl e | Inr b \<Rightarrow> Inr (b64url b))"

definition apps_CreateWebhook ::
  "apps_service \<Rightarrow> goerr + 8 word list \<Rightarrow> int \<Rightarrow> int \<Rightarrow> string \<Rightarrow> string list \<Rightarrow> (webhook_response \<times> string) prog"
where
  "apps_CreateWebhook sv random app_id owner raw_url events =
     andthen (apps_assertAppOwner app_id owner) (\<lambda>app.
     let url = TrimSpace raw_url in
     if url = [] then fail (EApps Apps_WebhookURLRequired)
     else andthen (case ap_billing sv of None \<Rightarrow> ret () | Some b \<Rightarrow> CheckCanCreateWebhook b (a_id app)) (\<lambda>_.
          let events = (if events = [] then [''message.created'', ''user.provisioned'', ''channel.created'']
                        else events) in
          case randomSecret random of
            Inl e \<Rightarrow> fail e
          | Inr secret \<Rightarrow>
              andthen (exec (CreateWebhook (a_id app) url events secret)) (\<lambda>w.
              ret (apps_toWebhookResponse w, secret))))"

definition apps_ListWebhooks :: "int \<Rightarrow> int \<Rightarrow> webhook_response list prog" where
  "apps_ListWebhooks app_id owner =
     andthen (apps_assertAppOwner app_id owner) (\<lambda>_.
     andthen (exec (ListWebhooksByApp app_id)) (\<lambda>rows. ret (map apps_toWebhookResponse rows)))"

definition apps_DisableWebhook :: "int \<Rightarrow> int \<Rightarrow> int \<Rightarrow> unit prog" where
  "apps_DisableWebhook app_id webhook_id owner =
     andthen (apps_assertAppOwner app_id owner) (\<lambda>_.
     andthen (exec (DisableWebhook webhook_id app_id)) (\<lambda>rows.
     if rows = 0 then fail (EApps Apps_WebhookNotFound) else ret ()))"

text \<open>\<open>internal/webhooks\<close>: the deliveries run in goroutines and are effects here; their errors are only logged.\<close>

definition hookSubscribed :: "string list \<Rightarrow> string \<Rightarrow> bool" where
  "hookSubscribed events event \<longleftrightarrow> events = [] \<or> event \<in> set events"

definition webhooks_Dispatch :: "int \<Rightarrow> string \<Rightarrow> gomap \<Rightarrow> unit prog" where
  "webhooks_Dispatch app_id event payload =
     attempt (exec (ListWebhooksByApp app_id)) (\<lambda>_. ret ()) (\<lambda>hooks.
     for_each (filter (\<lambda>hook. hookSubscribed (wh_events hook) event) hooks) (\<lambda>hook. emit (Webhook hook event payload)))"

section \<open>Ownership\<close>

definition owns_app :: "db \<Rightarrow> int \<Rightarrow> int \<Rightarrow> bool" where
  "owns_app d app_id owner \<longleftrightarrow> (\<exists>a\<in>set (apps d). a_id a = app_id \<and> a_owner_id a = owner)"

definition app_by_id :: "db \<Rightarrow> int \<Rightarrow> app_row option" where
  "app_by_id d i = find (\<lambda>a. a_id a = i) (apps d)"

lemma app_by_id_SomeD: "app_by_id d i = Some a \<Longrightarrow> a \<in> set (apps d) \<and> a_id a = i"
  unfolding app_by_id_def by (drule find_SomeD) simp

definition owner_check :: "int \<Rightarrow> int \<Rightarrow> db \<Rightarrow> goerr + app_row" where
  "owner_check app_id owner d =
     (case app_by_id d app_id of
        None \<Rightarrow> Inl (EApps Apps_NotFound)
      | Some a \<Rightarrow> if a_owner_id a \<noteq> owner then Inl (EApps Apps_Forbidden) else Inr a)"

lemma reader_GetAppByID [readers]:
  "reader (exec (GetAppByID i)) (\<lambda>d. case app_by_id d i of None \<Rightarrow> Inl ENoRows | Some a \<Rightarrow> Inr a)"
  unfolding GetAppByID_def app_by_id_def by (rule reader_select_one)

lemma reader_assertAppOwner [readers]: "reader (apps_assertAppOwner app_id owner) (owner_check app_id owner)"
  unfolding apps_assertAppOwner_def
  by (rule reader_cong, (rule readers | simp add: no_rows_as_def)+)
    (auto simp: owner_check_def no_rows_as_def split: option.splits)

lemma owner_check_Inr: "owner_check app_id owner d = Inr a \<Longrightarrow> app_by_id d app_id = Some a \<and> a_owner_id a = owner"
  by (auto simp: owner_check_def split: option.splits if_splits)

lemma owner_check_owns: "owner_check app_id owner d = Inr a \<Longrightarrow> owns_app d app_id owner"
  by (auto simp: owns_app_def dest!: owner_check_Inr app_by_id_SomeD)

text \<open>An operation that first checks the owner changes nothing for anybody else.\<close>

definition owner_gated :: "int \<Rightarrow> int \<Rightarrow> 'a prog \<Rightarrow> bool" where
  "owner_gated app_id owner m \<longleftrightarrow>
     (\<forall>s r s'. m s = (r, s') \<longrightarrow> \<not> owns_app (db s) app_id owner \<longrightarrow> db s' = db s \<and> outbox s' = outbox s \<and> (\<exists>e. r = Inl e))"

lemma owner_gated_assert: "owner_gated app_id owner (andthen (apps_assertAppOwner app_id owner) k)"
  unfolding owner_gated_def
proof (intro allI impI)
  fix s r s' assume run: "andthen (apps_assertAppOwner app_id owner) k s = (r, s')" and no: "\<not> owns_app (db s) app_id owner"
  show "db s' = db s \<and> outbox s' = outbox s \<and> (\<exists>e. r = Inl e)"
    using run reader_assertAppOwner
  proof (cases rule: andthen_readerE)
    case (got x s1)
    then show ?thesis using no owner_check_owns by blast
  qed simp
qed

definition other_keys :: "int \<Rightarrow> db \<Rightarrow> api_key_row list" where
  "other_keys app_id d = filter (\<lambda>k. k_app_id k \<noteq> app_id) (api_keys d)"

definition other_webhooks :: "int \<Rightarrow> db \<Rightarrow> webhook_row list" where
  "other_webhooks app_id d = filter (\<lambda>w. wh_app_id w \<noteq> app_id) (webhooks d)"

definition other_apps :: "int \<Rightarrow> db \<Rightarrow> app_row list" where
  "other_apps app_id d = filter (\<lambda>a. a_id a \<noteq> app_id) (apps d)"

definition foreign_rows :: "int \<Rightarrow> db \<Rightarrow> app_row list \<times> api_key_row list \<times> webhook_row list" where
  "foreign_rows app_id d = (other_apps app_id d, other_keys app_id d, other_webhooks app_id d)"

lemma foreign_rows_statements:
  "foreign_rows app_id (snd (CreateAPIKey app_id name prefix hash sandbox expires t d)) = foreign_rows app_id d"
  "foreign_rows app_id (snd (RevokeAPIKey key_id app_id t d)) = foreign_rows app_id d"
  "foreign_rows app_id (snd (CreateWebhook app_id url events secret t d)) = foreign_rows app_id d"
  "foreign_rows app_id (snd (DisableWebhook hook_id app_id t d)) = foreign_rows app_id d"
  "foreign_rows app_id (snd (UpdateAppAllowedOrigins app_id origins t d)) = foreign_rows app_id d"
  by (auto simp: foreign_rows_def other_keys_def other_webhooks_def other_apps_def CreateAPIKey_def RevokeAPIKey_def
      CreateWebhook_def DisableWebhook_def UpdateAppAllowedOrigins_def insert_into_def update_one_def Let_def
      split: option.splits intro!: filter_update_where_disjoint)

lemma sans_metering_sel:
  "apps (sans_metering d) = apps d" "api_keys (sans_metering d) = api_keys d" "webhooks (sans_metering d) = webhooks d"
  by (simp_all add: sans_metering_def)

lemma foreign_sans_metering: "sans_metering d = sans_metering d' \<Longrightarrow> foreign_rows i d = foreign_rows i d'"
  unfolding foreign_rows_def other_keys_def other_webhooks_def other_apps_def by (metis sans_metering_sel)

lemma apps_billing_leaves [read_only]:
  "leaves sans_metering (billing_CheckCanCreateWebhook i)" "leaves sans_metering (billing_AssertCanCreateApp uid)"
  unfolding billing_CheckCanCreateWebhook_def billing_AssertCanCreateApp_def CountAppsByOwner_def
  by (intro read_only)+

lemma owned_leaves:
  assumes "\<And>a. a_id a = app_id \<Longrightarrow> leaves f (k a)"
  shows "leaves f (andthen (apps_assertAppOwner app_id owner) k)"
  unfolding leaves_def
proof
  fix s
  obtain r s' where run: "andthen (apps_assertAppOwner app_id owner) k s = (r, s')" by (rule prod.exhaust)
  from run reader_assertAppOwner show "f (db (snd (andthen (apps_assertAppOwner app_id owner) k s))) = f (db s)"
  proof (cases rule: andthen_readerE)
    case (error e)
    then show ?thesis using run by simp
  next
    case (got x s1)
    then have "a_id x = app_id" using owner_check_Inr app_by_id_SomeD by blast
    then show ?thesis using leaves_run [OF assms got(2)] got(3) run by simp
  qed
qed

lemma foreign_exec [read_only]:
  "leaves (foreign_rows app_id) (exec (CreateAPIKey app_id name prefix hash sandbox expires))"
  "leaves (foreign_rows app_id) (exec (RevokeAPIKey key_id app_id))"
  "leaves (foreign_rows app_id) (exec (CreateWebhook app_id url events secret))"
  "leaves (foreign_rows app_id) (exec (DisableWebhook hook_id app_id))"
  "leaves (foreign_rows app_id) (exec (UpdateAppAllowedOrigins app_id origins))"
  by (rule leaves_exec, simp add: foreign_rows_statements)+

definition manages_only :: "int \<Rightarrow> int \<Rightarrow> 'a prog \<Rightarrow> bool" where
  "manages_only app_id owner m \<longleftrightarrow> owner_gated app_id owner m \<and> leaves (foreign_rows app_id) m"

lemma manages_onlyI:
  "(\<And>a. a_id a = app_id \<Longrightarrow> leaves (foreign_rows app_id) (k a)) \<Longrightarrow>
    manages_only app_id owner (andthen (apps_assertAppOwner app_id owner) k)"
  by (simp add: manages_only_def owner_gated_assert owned_leaves)


section \<open>Keys that authenticate\<close>

definition active_key :: "db \<Rightarrow> string \<Rightarrow> api_key_row option" where
  "active_key d prefix = find (\<lambda>k. k_key_prefix k = prefix \<and> k_revoked_at k = None) (api_keys d)"

lemma active_key_SomeD: "active_key d p = Some k \<Longrightarrow> k \<in> set (api_keys d) \<and> k_key_prefix k = p \<and> k_revoked_at k = None"
  unfolding active_key_def by (drule find_SomeD) simp

lemma reader_GetAPIKeyByPrefix [readers]:
  "reader (exec (GetAPIKeyByPrefix p)) (\<lambda>d. case active_key d p of None \<Rightarrow> Inl ENoRows | Some k \<Rightarrow> Inr k)"
  unfolding GetAPIKeyByPrefix_def active_key_def by (rule reader_select_one)

definition key_expired :: "int \<Rightarrow> api_key_row \<Rightarrow> bool" where
  "key_expired t k \<longleftrightarrow> k_is_sandbox k \<and> (case k_expires_at k of None \<Rightarrow> False | Some x \<Rightarrow> \<not> t < x)"

text \<open>What \<open>AuthenticateAPIKey\<close> answers in a quiet world.\<close>

definition auth_result :: "(string \<Rightarrow> 8 word list) \<Rightarrow> string \<Rightarrow> int \<Rightarrow> db \<Rightarrow> (app_row \<times> api_key_row) option" where
  "auth_result sha256 plain t d =
     (if IsAPIKeyToken plain
      then Option.bind (active_key d (LookupPrefix plain)) (\<lambda>k.
             if k_key_hash k = HashAPIKey sha256 plain \<and> \<not> key_expired t k
             then map_option (\<lambda>a. (a, k)) (app_by_id d (k_app_id k)) else None)
      else None)"

definition touch_key :: "int \<Rightarrow> int \<Rightarrow> db \<Rightarrow> db" where
  "touch_key i t d = d\<lparr>api_keys := update_where (\<lambda>k. k_id k = i) (\<lambda>k. k\<lparr>k_last_used_at := Some t\<rparr>) (api_keys d)\<rparr>"

lemma Authenticate_quiet:
  assumes "tape s = []"
  shows "apps_AuthenticateAPIKey sha256 plain s =
    (case auth_result sha256 plain (now s) (db s) of
       None \<Rightarrow> (Inl (EApps Apps_InvalidKey), s)
     | Some (a, k) \<Rightarrow> (Inr (a, k), s\<lparr>db := touch_key (k_id k) (now s) (db s)\<rparr>))"
proof -
  have touch: "ignoring (exec (TouchAPIKeyLastUsed i)) s = (Inr (), s\<lparr>db := touch_key i (now s) (db s)\<rparr>)" for i
    using assms by (simp add: ignoring_eq exec_quiet TouchAPIKeyLastUsed_def update_all_def touch_key_def)
  show ?thesis
    using reader_quiet [OF reader_GetAPIKeyByPrefix assms] reader_quiet [OF reader_GetAppByID assms] touch
    by (auto simp: apps_AuthenticateAPIKey_def auth_result_def key_expired_def attempt_def andthen_def fail_def ret_def
        no_rows_as_def split: option.splits)
qed


definition sample_secret :: "8 word list" where
  "sample_secret = replicate 24 7"

definition sample_sha :: "string \<Rightarrow> 8 word list" where
  "sample_sha = (\<lambda>k. [1, 2])"

definition sample_apps :: apps_service where
  "sample_apps = apps_wired (sandbox_LoadConfig (\<lambda>_. []))"


text \<open>The unique indexes on keys.\<close>

definition keys_ok :: "db \<Rightarrow> bool" where
  "keys_ok d \<longleftrightarrow> distinct (map k_id (api_keys d)) \<and>
     (\<forall>k\<in>set (api_keys d). \<forall>k'\<in>set (api_keys d).
        k_revoked_at k = None \<and> k_revoked_at k' = None \<and> k_key_prefix k = k_key_prefix k' \<longrightarrow> k = k')"

lemma RevokeAPIKey_effect:
  assumes "exec (RevokeAPIKey key_id i) s = (Inr row, s1)" and "k \<in> set (api_keys (db s))" and "k_id k = key_id"
    and "keys_ok (db s)" and "k_revoked_at k = None"
  shows "active_key (db s1) (k_key_prefix k) = None"
proof -
  let ?hit = "\<lambda>k. k_id k = key_id \<and> k_app_id k = i \<and> k_revoked_at k = None"
  from exec_Inr [OF assms(1)] obtain k0 where k0: "find ?hit (api_keys (db s)) = Some k0"
    and d: "db s1 = api_keys_update (update_where ?hit (\<lambda>k. k\<lparr>k_revoked_at := Some (now s1)\<rparr>)) (db s)"
    by (auto simp: RevokeAPIKey_def update_one_def split: option.splits)
  have upd: "api_keys (db s1) = update_where ?hit (\<lambda>k. k\<lparr>k_revoked_at := Some (now s1)\<rparr>) (api_keys (db s))"
    unfolding d by simp
  have "k0 = k" using find_SomeD [OF k0] assms(2-4) by (auto simp: keys_ok_def dest: distinct_map_unique)
  then have app: "k_app_id k = i" using find_SomeD [OF k0] by simp
  show ?thesis unfolding active_key_def find_None_iff
  proof
    assume "\<exists>x. x \<in> set (api_keys (db s1)) \<and> k_key_prefix x = k_key_prefix k \<and> k_revoked_at x = None"
    then obtain x where x: "x \<in> set (api_keys (db s))" "\<not> ?hit x" "k_key_prefix x = k_key_prefix k" "k_revoked_at x = None"
      unfolding upd set_update_where by (auto split: if_splits)
    then have "x = k" using assms(2,4,5) unfolding keys_ok_def by blast
    then show False using x(2) app assms(3,5) by simp
  qed
qed

text \<open>C24: A revoked key is dead. Once the owner has revoked a key, whatever its statements met, its secret is refused
  from then on, at any time, as long as the table of keys is what the revocation left.\<close>

theorem revoked_key_rejected:
  assumes "apps_RevokeAPIKey i key_id owner s = (Inr (), s1)" and "keys_ok (db s)"
    and "k \<in> set (api_keys (db s))" and "k_id k = key_id" and "k_revoked_at k = None"
    and "LookupPrefix plain = k_key_prefix k"
    and "tape s2 = []" and "api_keys (db s2) = api_keys (db s1)"
  shows "apps_AuthenticateAPIKey sha256 plain s2 = (Inl (EApps Apps_InvalidKey), s2)"
proof -
  from assms(1) obtain a sa row where "db sa = db s" and "exec (RevokeAPIKey key_id i) sa = (Inr row, s1)"
    unfolding apps_RevokeAPIKey_def using reader_assertAppOwner
    by (cases rule: andthen_readerE) (auto simp: attempt_eq)
  then have "active_key (db s1) (k_key_prefix k) = None" using RevokeAPIKey_effect assms(2-5) by simp
  then have "auth_result sha256 plain (now s2) (db s2) = None"
    using assms(6,8) by (simp add: auth_result_def active_key_def)
  then show ?thesis using Authenticate_quiet [OF assms(7)] by simp
qed

definition sample_key :: api_key_row where
  "sample_key = \<lparr>k_id = 7, k_app_id = 1, k_name = ''ci'', k_key_prefix = ''bx_live_AAECAwQF'', k_key_hash = [],
     k_is_sandbox = False, k_created_at = 0, k_revoked_at = None, k_last_used_at = None, k_expires_at = None\<rparr>"

theorem revoked_key_rejected_witness:
  "\<exists>s1. apps_RevokeAPIKey 1 7 1 (sample\<lparr>db := sample_db\<lparr>api_keys := [sample_key]\<rparr>\<rparr>) = (Inr (), s1) \<and>
    apps_AuthenticateAPIKey sample_sha ''bx_live_AAECAwQFBgcICQ'' (world_of (db s1) 9) =
      (Inl (EApps Apps_InvalidKey), world_of (db s1) 9)"
proof -
  let ?s = "sample\<lparr>db := sample_db\<lparr>api_keys := [sample_key]\<rparr>\<rparr>"
  have "case apps_RevokeAPIKey 1 7 1 ?s of (Inr u, s1) \<Rightarrow> True | _ \<Rightarrow> False" by code_simp
  then obtain s1 where run: "apps_RevokeAPIKey 1 7 1 ?s = (Inr (), s1)" by (auto split: prod.splits sum.splits)
  have "keys_ok (db ?s)" "sample_key \<in> set (api_keys (db ?s))" "k_id sample_key = 7" "k_revoked_at sample_key = None"
    by (simp_all add: keys_ok_def sample_key_def)
  moreover have "LookupPrefix ''bx_live_AAECAwQFBgcICQ'' = k_key_prefix sample_key" by code_simp
  ultimately show ?thesis using revoked_key_rejected [OF run] run by (simp add: world_of_def)
qed

section \<open>Creating apps\<close>

lemma char_count_append: "char_count (a @ b) = char_count a + char_count b"
  by (simp add: char_count_def)

lemma suffix_counts: "char_count '' App'' = 4" "char_count '' Sandbox'' = 8" "char_count ''app-'' = 4" "char_count ''-sandbox'' = 8"
  by (simp_all add: char_count_def)

definition free_slug :: "db \<Rightarrow> string \<Rightarrow> bool" where
  "free_slug d slug \<longleftrightarrow> (\<forall>w\<in>set (workspaces d). w_slug w \<noteq> slug)"

lemma CreateWorkspace_quiet:
  assumes "tape s = []" and "char_count name \<le> 255" "char_count slug \<le> 255" and "free_slug (db s) slug" and "user_exists (db s) owner"
  shows "\<exists>w s'. exec (CreateWorkspace name slug owner) s = (Inr w, s') \<and> tape s' = [] \<and> w_slug w = slug \<and>
    workspaces (db s') = workspaces (db s) @ [w] \<and> users (db s') = users (db s) \<and> workspace_members (db s') = workspace_members (db s) \<and> apps (db s') = apps (db s)"
  using assms by (simp add: exec_quiet CreateWorkspace_def insert_into_def Let_def free_slug_def)

lemma normalized_slug_stable:
  assumes "apps_normalizeSlug raw name = Inr slug"
  shows "apps_normalizeSlug slug other = Inr slug"
proof -
  have p: "slug_pattern slug" using assms by (auto simp: apps_normalizeSlug_def Let_def split: if_splits)
  then have "ToLower slug = slug" unfolding slug_pattern_def slug_match_iff by (intro ToLower_slug) blast
  then show ?thesis using p TrimSpace_slug [OF p] slug_pattern_nonempty [OF p]
    by (simp add: apps_normalizeSlug_def Let_def)
qed

lemma GetAppBySlug_free:
  "tape s = [] \<Longrightarrow> find (\<lambda>a. a_slug a = slug) (apps (db s)) = None \<Longrightarrow> exec (GetAppBySlug slug) s = (Inl ENoRows, s)"
  by (simp add: exec_quiet GetAppBySlug_def select_one_def)

text \<open>A name of 248 to 251 characters strands a workspace without any fault: the name of the live workspace still
  fits its column, the name of the sandbox workspace, four characters longer, does not, so \<open>CreateApp\<close> fails after its
  first insert; the workspace stays without members and the slug cannot be used again, not even with a shorter name.\<close>

theorem CreateApp_strands:
  assumes "tape s = []" and "248 \<le> char_count (TrimSpace name)" and "char_count (TrimSpace name) \<le> 251"
    and "apps_normalizeSlug raw (TrimSpace name) = Inr slug" and "char_count slug \<le> 240"
    and "free_slug (db s) (''app-'' @ slug)" and "user_exists (db s) owner"
    and "find (\<lambda>a. a_slug a = slug) (apps (db s)) = None"
  shows "\<exists>w s'. apps_CreateApp \<lparr>ap_billing = None, ap_sandbox = cfg\<rparr> owner name raw s = (Inl too_long, s') \<and>
    workspaces (db s') = workspaces (db s) @ [w] \<and> w_slug w = ''app-'' @ slug \<and>
    workspace_members (db s') = workspace_members (db s) \<and>
    (\<exists>s''. apps_CreateApp \<lparr>ap_billing = None, ap_sandbox = cfg\<rparr> owner ''retry'' slug s' =
      (Inl (unique_violation ''workspaces_slug_key''), s''))"
proof -
  let ?sv = "\<lparr>ap_billing = None, ap_sandbox = cfg\<rparr>" and ?n = "TrimSpace name"
  have name: "?n \<noteq> []" using assms(2) by (auto simp: char_count_def)
  obtain w s' where w: "exec (CreateWorkspace (?n @ '' App'') (''app-'' @ slug) owner) s = (Inr w, s')" "tape s' = []"
    "w_slug w = ''app-'' @ slug" "workspaces (db s') = workspaces (db s) @ [w]"
    "workspace_members (db s') = workspace_members (db s)" "apps (db s') = apps (db s)"
    using CreateWorkspace_quiet [OF assms(1) _ _ assms(6,7), of "?n @ '' App''"] assms(3,5)
    by (auto simp: char_count_append suffix_counts simp del: append.simps)
  have long: "255 < char_count (?n @ '' Sandbox'')"
    using assms(2) by (simp add: char_count_append suffix_counts del: append.simps)
  then have "exec (CreateWorkspace (?n @ '' Sandbox'') (''app-'' @ slug @ ''-sandbox'') owner) s' =
      (Inl too_long, s'\<lparr>db := (db s')\<lparr>nextid := (nextid (db s'))(TWorkspaces := nextid (db s') TWorkspaces + 1)\<rparr>\<rparr>)"
    (is "_ = (_, ?s2)")
    using w(2) by (simp add: exec_quiet CreateWorkspace_def insert_into_def Let_def del: append.simps)
  then have run: "apps_CreateApp ?sv owner name raw s = (Inl too_long, ?s2)"
    using name assms(4) GetAppBySlug_free [OF assms(1,8)] w(1)
    by (simp add: apps_CreateApp_def Let_def attempt_def andthen_def ret_def fail_def del: append.simps)
  have free: "exec (GetAppBySlug slug) ?s2 = (Inl ENoRows, ?s2)" using GetAppBySlug_free assms(8) w(2,6) by simp
  have short: "char_count (''retry'' @ '' App'') \<le> 255" "char_count (''app-'' @ slug) \<le> 255" "TrimSpace ''retry'' = ''retry''"
    using assms(5) by (auto simp: char_count_append suffix_counts char_count_def) code_simp
  have "fst (exec (CreateWorkspace (''retry'' @ '' App'') (''app-'' @ slug) owner) ?s2) = Inl (unique_violation ''workspaces_slug_key'')"
    using w(2,3,4) short by (auto simp: exec_quiet CreateWorkspace_def insert_into_def Let_def simp del: append.simps)
  then obtain s3 where "exec (CreateWorkspace (''retry'' @ '' App'') (''app-'' @ slug) owner) ?s2 = (Inl (unique_violation ''workspaces_slug_key''), s3)"
    by (metis prod.collapse)
  then have "apps_CreateApp ?sv owner ''retry'' slug ?s2 = (Inl (unique_violation ''workspaces_slug_key''), s3)"
    using normalized_slug_stable [OF assms(4)] free short(3)
    by (simp add: apps_CreateApp_def Let_def attempt_def andthen_def ret_def fail_def del: append.simps)
  then show ?thesis using run w by auto
qed

theorem CreateApp_strands_witness:
  "\<exists>s'. apps_CreateApp \<lparr>ap_billing = None, ap_sandbox = sample_sandbox\<rparr> 1 (replicate 250 CHR ''x'') ''fresh'' sample = (Inl too_long, s') \<and>
    length (workspaces (db s')) = 3"
proof -
  have "TrimSpace (replicate 250 CHR ''x'') = replicate 250 CHR ''x''"
    by (rule TrimSpace_slug) (simp add: slug_pattern_def slug_match_alnum list_all_iff is_alnum_lower_def)
  moreover have "char_count (replicate 250 CHR ''x'') = 250" by (simp add: char_count_def)
  moreover have "apps_normalizeSlug ''fresh'' (replicate 250 CHR ''x'') = Inr ''fresh''"
    by (rule normalized_slug_stable [of "''fresh''" "''a''"]) code_simp
  moreover have "char_count ''fresh'' \<le> 240" "free_slug sample_db (''app-'' @ ''fresh'')" "user_exists sample_db 1"
    "find (\<lambda>a. a_slug a = ''fresh'') (apps sample_db) = None"
    by (simp_all add: char_count_def free_slug_def sample_db_def user_exists_def sample_user_def)
  ultimately obtain w s' where run: "apps_CreateApp \<lparr>ap_billing = None, ap_sandbox = sample_sandbox\<rparr> 1 (replicate 250 CHR ''x'') ''fresh'' sample = (Inl too_long, s')"
    and ws: "workspaces (db s') = workspaces sample_db @ [w]"
    using CreateApp_strands [of sample "replicate 250 CHR ''x''" "''fresh''" "''fresh''" 1 sample_sandbox] by auto
  have "length (workspaces (db s')) = 3" unfolding ws by (simp add: sample_db_def)
  then show ?thesis using run by blast
qed

section \<open>Origins of an app\<close>

lemma set_origins_effect:
  assumes "apps_set_origins lib i owner allowed s = (Inr app, s')"
  shows "\<exists>normalized. NormalizeList lib allowed = Inr normalized \<and> owns_app (db s) i owner \<and>
    a_id app = i \<and> a_allowed_origins app = normalized \<and>
    apps (db s') = update_where (\<lambda>a. a_id a = i) (\<lambda>a. a\<lparr>a_allowed_origins := normalized\<rparr>) (apps (db s)) \<and> app \<in> set (apps (db s'))"
proof -
  from assms obtain a sa where a: "owner_check i owner (db s) = Inr a" and sa: "db sa = db s"
    and rest: "(case NormalizeList lib allowed of
       Inl e \<Rightarrow> fail (if e = EOrigins Org_InvalidOrigin then EApps Apps_InvalidOrigin
                      else if e = EOrigins Org_TooManyOrigins then EApps Apps_TooManyOrigins else e)
     | Inr normalized \<Rightarrow>
         attempt (exec (UpdateAppAllowedOrigins i normalized)) (\<lambda>e. fail (no_rows_as (EApps Apps_NotFound) e)) ret) sa =
       (Inr app, s')"
    unfolding apps_set_origins_def using reader_assertAppOwner by (cases rule: andthen_readerE) auto
  then obtain normalized where n: "NormalizeList lib allowed = Inr normalized"
    and upd: "exec (UpdateAppAllowedOrigins i normalized) sa = (Inr app, s')"
    by (auto simp: attempt_eq split: sum.splits)
  from exec_Inr [OF upd] obtain r where r: "find (\<lambda>a. a_id a = i) (apps (db s)) = Some r" "app = r\<lparr>a_allowed_origins := normalized\<rparr>"
    and d: "db s' = apps_update (update_where (\<lambda>a. a_id a = i) (\<lambda>a. a\<lparr>a_allowed_origins := normalized\<rparr>)) (db s)"
    by (auto simp: UpdateAppAllowedOrigins_def update_one_def sa split: option.splits)
  have "app \<in> set (apps (db s'))" "a_id app = i" using find_SomeD [OF r(1)] r(2) by (auto simp: d set_update_where image_iff)
  then show ?thesis using n owner_check_owns [OF a] r(2) by (simp add: d)
qed

text \<open>Setting the origins of an app takes effect at once on this node. When the owner's list is accepted, it holds
  at most twenty origins, none twice, each over HTTPS or on the local machine; and from then on the checker, whose
  cache the update dropped, lets a page act for the app exactly when its origin is on that list or on the platform's.\<close>

theorem allowed_origins_take_effect:
  assumes "apps_UpdateAllowedOrigins lib i owner allowed (Some c) s = (Inr app, Some c', s')"
    and "apps_distinct (db s)" and "tape s' = []" and "0 < i"
  shows "length (a_allowed_origins app) \<le> maxOriginsPerApp \<and> distinct (a_allowed_origins app) \<and>
    (\<forall>origin\<in>Normalize ` set (a_allowed_origins app). secure_origin lib origin) \<and>
    (fst (origins_IsAllowed c' raw \<lparr>hint_AppID = i, hint_WorkspaceID = w, hint_Preflight = p\<rparr> s') \<longleftrightarrow>
     Normalize raw = [] \<or> Normalize raw \<in> set (ck_platform c) \<or> Normalize raw \<in> Normalize ` Normalize ` set allowed)"
proof -
  let ?h = "\<lparr>hint_AppID = i, hint_WorkspaceID = w, hint_Preflight = p\<rparr>"
  have run: "apps_set_origins lib i owner allowed s = (Inr app, s')" and c': "c' = origins_Invalidate c"
    using assms(1) by (auto simp: apps_UpdateAllowedOrigins_def split: prod.splits sum.splits)
  obtain normalized where n: "NormalizeList lib allowed = Inr normalized" and app: "a_id app = i" "a_allowed_origins app = normalized"
    and tab: "apps (db s') = update_where (\<lambda>a. a_id a = i) (\<lambda>a. a\<lparr>a_allowed_origins := normalized\<rparr>) (apps (db s))"
    and member: "app \<in> set (apps (db s'))"
    using set_origins_effect [OF run] by blast
  have spec: "distinct normalized" "set normalized = Normalize ` set allowed" "length normalized \<le> maxOriginsPerApp"
    "\<forall>x\<in>set allowed. origins_Validate lib (Normalize x) = None"
    using n normalize_items_spec [of lib allowed "[]" normalized] by (auto simp: NormalizeList_def split: if_splits)
  have same: "map f (apps (db s')) = map f (apps (db s))" if "\<And>a o'. f (a\<lparr>a_allowed_origins := o'\<rparr>) = f a" for f :: "app_row \<Rightarrow> 'x"
    using that by (simp add: tab update_where_def)
  have dist: "apps_distinct (db s')"
    using assms(2) same [of a_id] same [of "\<lambda>a. [a_workspace_id a, a_sandbox_workspace_id a]"] by (simp add: apps_distinct_def)
  then have "(\<exists>a\<in>set (apps (db s')). a_id a = i \<and> allows a o') \<longleftrightarrow> allows app o'" for o'
    using member app(1) unfolding apps_distinct_def by (blast dest: distinct_map_unique)
  then have "fst (origins_IsAllowed c' raw ?h s') \<longleftrightarrow>
      Normalize raw = [] \<or> Normalize raw \<in> set (ck_platform c) \<or> allows app (Normalize raw)"
    using IsAllowed_matches_tables [OF dist assms(3), of c' raw ?h] assms(4)
    by (simp add: c' origins_Invalidate_def origin_permitted_def)
  then show ?thesis using spec app Validate_secure by (auto simp: allows_def)
qed

definition sample_urls :: url_lib where
  "sample_urls =
     \<lparr>url_Parse = (\<lambda>o'. if o' = ''https://a.io'' then
        Some \<lparr>url_Scheme = ''https'', url_Host = ''a.io'', url_Hostname = ''a.io'', url_User = False, url_Path = [],
              url_RawQuery = [], url_Fragment = []\<rparr> else None),
      netip_IsLoopback = (\<lambda>_. None)\<rparr>"

theorem allowed_origins_take_effect_witness:
  "\<exists>app c' s'. apps_UpdateAllowedOrigins sample_urls 1 1 [''https://a.io/''] (Some (NewChecker (\<lambda>_. []))) sample = (Inr app, Some c', s') \<and>
    fst (origins_IsAllowed c' ''https://a.io'' \<lparr>hint_AppID = 1, hint_WorkspaceID = 0, hint_Preflight = False\<rparr> s')"
proof -
  let ?c = "NewChecker (\<lambda>_. [])"
  let ?run = "apps_UpdateAllowedOrigins sample_urls 1 1 [''https://a.io/''] (Some ?c) sample"
  have "case ?run of (Inr app, Some c', s') \<Rightarrow> tape s' = [] | _ \<Rightarrow> False" by code_simp
  then obtain app c' s' where run: "?run = (Inr app, Some c', s')" and q: "tape s' = []"
    by (auto split: prod.splits sum.splits option.splits)
  have "Normalize ''https://a.io'' \<in> Normalize ` Normalize ` set [''https://a.io/'']" by code_simp
  then show ?thesis
    using allowed_origins_take_effect [OF run _ q, of "''https://a.io''" 0 False] IsAllowed_sample run by auto
qed


end
