(* ===== verification/Db_Admin.thy ===== *)
theory Db_Admin
  imports Db_Apps
begin

text \<open>
  The statements of \<open>internal/db/platformadmin.sql.go\<close> and \<open>audit.sql.go\<close>: the views and changes of platform
  administrators and the audit log. \<open>ILIKE\<close> compares after \<open>ToLower\<close>, with \<open>%\<close>, \<open>_\<close> and the escape character.
\<close>

section \<open>Counts\<close>

definition AdminCountUsers :: "int sql" where
  "AdminCountUsers = select (\<lambda>d. int (length (users d)))"

definition AdminCountWorkspaces :: "int sql" where
  "AdminCountWorkspaces = select (\<lambda>d. int (length (workspaces d)))"

definition AdminCountApps :: "int sql" where
  "AdminCountApps = select (\<lambda>d. int (length (apps d)))"

definition CountUserWorkspaces :: "int \<Rightarrow> int sql" where
  "CountUserWorkspaces uid = select (\<lambda>d. count_rows (\<lambda>m. wm_user_id m = uid) (workspace_members d))"

definition CountUserApps :: "int \<Rightarrow> int sql" where
  "CountUserApps uid = select (\<lambda>d. count_rows (\<lambda>a. a_owner_id a = uid) (apps d))"

definition CountWorkspaceMembers :: "int \<Rightarrow> int sql" where
  "CountWorkspaceMembers ws = select (\<lambda>d. count_rows (\<lambda>m. wm_workspace_id m = ws) (workspace_members d))"

definition CountWorkspaceChannels :: "int \<Rightarrow> int sql" where
  "CountWorkspaceChannels ws = select (\<lambda>d. count_rows (\<lambda>c. ch_workspace_id c = ws) (channels d))"

section \<open>Users\<close>

text \<open>\<open>LIMIT\<close> and \<open>OFFSET\<close> must not be negative.\<close>

definition paged :: "int \<Rightarrow> int \<Rightarrow> (db \<Rightarrow> 'r list) \<Rightarrow> 'r list sql" where
  "paged limit offset rows =
     guarded (\<lambda>d. [(limit < 0, EPg ''2201W'' []), (offset < 0, EPg ''2201X'' [])])
       (select (\<lambda>d. page limit offset (rows d)))"

definition ListUsersAdmin :: "int \<Rightarrow> int \<Rightarrow> user_row list sql" where
  "ListUsersAdmin limit offset = paged limit offset (\<lambda>d. order_desc u_created_at (users d))"

fun like_match :: "string \<Rightarrow> string \<Rightarrow> bool" where
  "like_match [] s \<longleftrightarrow> s = []"
| "like_match (p # ps) [] \<longleftrightarrow> p = CHR ''%'' \<and> like_match ps []"
| "like_match (p # ps) (c # cs) \<longleftrightarrow>
     (if p = CHR ''%'' then like_match ps (c # cs) \<or> like_match (p # ps) cs
      else if p = CHR ''_'' then like_match ps cs
      else if p = CHR 0x5C then (case ps of [] \<Rightarrow> False | q # qs \<Rightarrow> q = c \<and> like_match qs cs)
      else p = c \<and> like_match ps cs)"

definition ilike :: "string \<Rightarrow> string \<Rightarrow> bool" where
  "ilike s pattern \<longleftrightarrow> like_match (ToLower pattern) (ToLower s)"

definition SearchUsersAdmin :: "string \<Rightarrow> int \<Rightarrow> int \<Rightarrow> user_row list sql" where
  "SearchUsersAdmin search limit offset = paged limit offset (\<lambda>d. order_desc u_created_at
     (filter (\<lambda>u. ilike (u_email u) (''%'' @ search @ ''%'') \<or> ilike (u_username u) (''%'' @ search @ ''%'')) (users d)))"

definition GetUserAdmin :: "int \<Rightarrow> user_row sql" where
  "GetUserAdmin i = select_one (\<lambda>d. find (\<lambda>u. u_id u = i) (users d))"

definition UpdateUserPlatformRole :: "int \<Rightarrow> string \<Rightarrow> user_row sql" where
  "UpdateUserPlatformRole i role =
     guarded (\<lambda>d. [(user_exists d i \<and> role \<notin> {''user'', ''support'', ''admin''},
                    check_violation ''users_platform_role_check'')])
       (update_one users users_update (\<lambda>u. u_id u = i) (\<lambda>t u. u\<lparr>u_platform_role := role\<rparr>))"

definition SuspendUser :: "int \<Rightarrow> user_row sql" where
  "SuspendUser i =
     update_one users users_update (\<lambda>u. u_id u = i)
       (\<lambda>t u. u\<lparr>u_suspended_at := Some t, u_tokens_invalidated_at := Some t\<rparr>)"

definition UnsuspendUser :: "int \<Rightarrow> user_row sql" where
  "UnsuspendUser i = update_one users users_update (\<lambda>u. u_id u = i) (\<lambda>t u. u\<lparr>u_suspended_at := None\<rparr>)"

definition PromoteUserToAdminByEmail :: "string \<Rightarrow> user_row sql" where
  "PromoteUserToAdminByEmail email =
     update_one users users_update
       (\<lambda>u. ToLower (u_email u) = ToLower email \<and> u_platform_role u \<noteq> ''admin'')
       (\<lambda>t u. u\<lparr>u_platform_role := ''admin''\<rparr>)"

section \<open>Workspaces and apps\<close>

definition ListWorkspacesAdmin :: "int \<Rightarrow> int \<Rightarrow> workspace_row list sql" where
  "ListWorkspacesAdmin limit offset = paged limit offset (\<lambda>d. order_desc w_created_at (workspaces d))"

definition GetWorkspaceAdmin :: "int \<Rightarrow> workspace_row sql" where
  "GetWorkspaceAdmin i = select_one (\<lambda>d. find (\<lambda>w. w_id w = i) (workspaces d))"

text \<open>An app with the e-mail address of its owner.\<close>

definition apps_with_owner :: "db \<Rightarrow> (app_row \<times> string) list" where
  "apps_with_owner d = [(a, u_email u). a \<leftarrow> order_desc a_created_at (apps d), u \<leftarrow> users d, u_id u = a_owner_id a]"

definition ListAppsAdmin :: "int \<Rightarrow> int \<Rightarrow> (app_row \<times> string) list sql" where
  "ListAppsAdmin limit offset = paged limit offset apps_with_owner"

definition GetAppAdmin :: "int \<Rightarrow> (app_row \<times> string) sql" where
  "GetAppAdmin i = select_one (\<lambda>d. find (\<lambda>(a, email). a_id a = i) (apps_with_owner d))"

section \<open>Audit log\<close>

definition audit_username :: "db \<Rightarrow> audit_row \<Rightarrow> string option" where
  "audit_username d l =
     (case al_user_id l of
        None \<Rightarrow> None
      | Some uid \<Rightarrow> map_option u_username (find (\<lambda>u. u_id u = uid) (users d)))"

definition ListAuditLogsAdmin :: "int \<Rightarrow> int \<Rightarrow> (audit_row \<times> string option) list sql" where
  "ListAuditLogsAdmin limit offset = paged limit offset (\<lambda>d.
     map (\<lambda>l. (l, audit_username d l)) (order_desc al_created_at (audit_logs d)))"

definition ListAuditLogsAdminFiltered ::
  "int option \<Rightarrow> string option \<Rightarrow> int \<Rightarrow> int \<Rightarrow> (audit_row \<times> string option) list sql" where
  "ListAuditLogsAdminFiltered uid action limit offset = paged limit offset (\<lambda>d.
     map (\<lambda>l. (l, audit_username d l)) (order_desc al_created_at
       (filter (\<lambda>l. (uid = None \<or> al_user_id l = uid) \<and> (coalesce action [] = [] \<or> Some (al_action l) = action))
         (audit_logs d))))"

definition CreateAuditLog ::
  "int option \<Rightarrow> int option \<Rightarrow> string \<Rightarrow> string \<Rightarrow> string \<Rightarrow> string option \<Rightarrow> int option \<Rightarrow> audit_row sql" where
  "CreateAuditLog uid app action meth path ip status =
     insert_into TAudit audit_logs_update
       (\<lambda>d. [((case uid of None \<Rightarrow> False | Some u \<Rightarrow> \<not> user_exists d u), fk_violation ''audit_logs_user_id_fkey''),
             ((case app of None \<Rightarrow> False | Some a \<Rightarrow> \<not> app_exists d a), fk_violation ''audit_logs_app_id_fkey'')])
       (\<lambda>i t. \<lparr>al_id = i, al_user_id = uid, al_app_id = app, al_action = action, al_method = meth, al_path = path,
               al_ip_address = ip, al_status_code = status, al_created_at = t\<rparr>)"

end
