(* ===== verification/Accounts.thy ===== *)
theory Accounts
  imports Api_Keys Db_Admin Billing_Plans Sample
begin

text \<open>
  \<open>pkg/jwt\<close>, \<open>internal/auth\<close> and \<open>internal/users\<close>: access tokens, registration, login, refresh and the profile of a
  user; and \<open>internal/platformadmin/bootstrap.go\<close> with \<open>roles.go\<close>, which the handlers of \<open>auth\<close> and \<open>users\<close> run.
  Signing and parsing of JSON web tokens, bcrypt and the identifiers of \<open>uuid\<close> are parameters.
\<close>

section \<open>Tokens\<close>

record claims =
  jc_UserID :: int
  jc_AppID :: int
  jc_KeyEnv :: string
  jc_ID :: string
  jc_ExpiresAt :: "int option"
  jc_IssuedAt :: "int option"

text \<open>
  The library with the secret of the process: \<open>jwt_parse\<close> gives the claims of a token whose signature is right, whether
  it has expired or not.
\<close>

record jwt_lib =
  jwt_sign :: "claims \<Rightarrow> goerr + string"
  jwt_parse :: "string \<Rightarrow> claims option"

record crypto =
  bcrypt_hash :: "string \<Rightarrow> goerr + string"
  bcrypt_matches :: "string \<Rightarrow> string \<Rightarrow> bool"   \<comment> \<open>hash, password\<close>

definition hours_env :: "(string \<Rightarrow> string) \<Rightarrow> string \<Rightarrow> int \<Rightarrow> int" where
  "hours_env getenv key default_hours =
     (let raw = TrimSpace (getenv key) in
      if raw = [] then default_hours * 3600000000000
      else case ParseInt raw of
             None \<Rightarrow> default_hours * 3600000000000
           | Some h \<Rightarrow> if h \<le> 0 then default_hours * 3600000000000 else wrap_int64 (h * 3600000000000))"

definition accessTokenTTL :: "(string \<Rightarrow> string) \<Rightarrow> int" where
  "accessTokenTTL getenv = hours_env getenv ''JWT_ACCESS_TTL_HOURS'' 24"

definition refreshGracePeriod :: "(string \<Rightarrow> string) \<Rightarrow> int" where
  "refreshGracePeriod getenv = hours_env getenv ''JWT_REFRESH_GRACE_HOURS'' (7 * 24)"

text \<open>\<open>jwtlib.NewNumericDate\<close> keeps whole seconds.\<close>

definition numeric_date :: "int \<Rightarrow> int" where
  "numeric_date t = t div 1000000 * 1000000"

definition GenerateSessionToken ::
  "jwt_lib \<Rightarrow> (string \<Rightarrow> string) \<Rightarrow> string \<Rightarrow> int \<Rightarrow> int \<Rightarrow> int \<Rightarrow> bool \<Rightarrow> goerr + string" where
  "GenerateSessionToken lib getenv uuid t uid app sandbox =
     jwt_sign lib \<lparr>jc_UserID = uid, jc_AppID = app,
       jc_KeyEnv = (if app > 0 then if sandbox then ''sandbox'' else ''live'' else []),
       jc_ID = uuid, jc_ExpiresAt = Some (numeric_date (add_duration t (accessTokenTTL getenv))),
       jc_IssuedAt = Some (numeric_date t)\<rparr>"

definition GenerateToken :: "jwt_lib \<Rightarrow> (string \<Rightarrow> string) \<Rightarrow> string \<Rightarrow> int \<Rightarrow> int \<Rightarrow> goerr + string" where
  "GenerateToken lib getenv uuid t uid = GenerateSessionToken lib getenv uuid t uid 0 False"

definition parseClaims :: "jwt_lib \<Rightarrow> string \<Rightarrow> goerr + claims" where
  "parseClaims lib token = (case jwt_parse lib token of None \<Rightarrow> Inl (EAuth Auth_TokenInvalid) | Some c \<Rightarrow> Inr c)"

definition KeyEnv :: "jwt_lib \<Rightarrow> string \<Rightarrow> string" where
  "KeyEnv lib token =
     (case parseClaims lib token of
        Inl e \<Rightarrow> []
      | Inr c \<Rightarrow> if jc_AppID c = 0 then [] else if jc_KeyEnv c = [] then ''live'' else jc_KeyEnv c)"

definition TokenExpiry :: "jwt_lib \<Rightarrow> string \<Rightarrow> int option" where
  "TokenExpiry lib token = (case parseClaims lib token of Inl e \<Rightarrow> None | Inr c \<Rightarrow> jc_ExpiresAt c)"

definition TokenID :: "jwt_lib \<Rightarrow> string \<Rightarrow> goerr + string" where
  "TokenID lib token = map_sum id jc_ID (parseClaims lib token)"

definition ValidateToken :: "jwt_lib \<Rightarrow> int \<Rightarrow> string \<Rightarrow> goerr + claims" where
  "ValidateToken lib t token =
     (case parseClaims lib token of
        Inl e \<Rightarrow> Inl e
      | Inr c \<Rightarrow> if (case jc_ExpiresAt c of None \<Rightarrow> False | Some x \<Rightarrow> x < t) then Inl (EAuth Auth_TokenExpired) else Inr c)"

definition ValidateTokenForRefresh :: "jwt_lib \<Rightarrow> (string \<Rightarrow> string) \<Rightarrow> int \<Rightarrow> string \<Rightarrow> goerr + claims" where
  "ValidateTokenForRefresh lib getenv t token =
     (case parseClaims lib token of
        Inl e \<Rightarrow> Inl e
      | Inr c \<Rightarrow>
          (case jc_ExpiresAt c of
             None \<Rightarrow> Inr c
           | Some x \<Rightarrow> if t - x \<le> 0 then Inr c
                       else if (t - x) * 1000 > refreshGracePeriod getenv then Inl (EAuth Auth_TokenInvalid) else Inr c))"

section \<open>Platform roles and bootstrap administrators\<close>

definition RoleRank :: "string \<Rightarrow> int" where
  "RoleRank role =
     (if role = ''admin'' then 3 else if role = ''support'' then 2 else if role = ''user'' then 1 else 0)"

definition IsValidRole :: "string \<Rightarrow> bool" where
  "IsValidRole role \<longleftrightarrow> RoleRank role > 0"

definition CanAccess :: "string \<Rightarrow> bool" where
  "CanAccess role \<longleftrightarrow> RoleRank role \<ge> RoleRank ''support''"

definition CanWrite :: "string \<Rightarrow> bool" where
  "CanWrite role \<longleftrightarrow> role = ''admin''"

definition AdminEmailsFromEnv :: "(string \<Rightarrow> string) \<Rightarrow> string list" where
  "AdminEmailsFromEnv getenv =
     (let raw = TrimSpace (getenv ''PLATFORM_ADMIN_EMAILS'') in
      if raw = [] then []
      else filter (\<lambda>email. email \<noteq> []) (map (\<lambda>part. ToLower (TrimSpace part)) (split_on CHR '','' raw)))"

definition IsBootstrapAdminEmail :: "(string \<Rightarrow> string) \<Rightarrow> string \<Rightarrow> bool" where
  "IsBootstrapAdminEmail getenv email =
     (let target = ToLower (TrimSpace email) in
      if target = [] then False else target \<in> set (AdminEmailsFromEnv getenv))"

definition admin_SyncBootstrapAdmin :: "(string \<Rightarrow> string) \<Rightarrow> string \<Rightarrow> unit prog" where
  "admin_SyncBootstrapAdmin getenv email =
     (if \<not> IsBootstrapAdminEmail getenv email then ret ()
      else attempt (exec (PromoteUserToAdminByEmail email)) (\<lambda>e. if e = ENoRows then ret () else fail e) (\<lambda>_. ret ()))"

definition admin_SyncBootstrapAdminsFromEnv :: "(string \<Rightarrow> string) \<Rightarrow> unit prog" where
  "admin_SyncBootstrapAdminsFromEnv getenv =
     for_each (AdminEmailsFromEnv getenv) (\<lambda>email. ignoring (admin_SyncBootstrapAdmin getenv email))"

section \<open>The auth service\<close>

definition auth_Register :: "crypto \<Rightarrow> string \<Rightarrow> string \<Rightarrow> string \<Rightarrow> user_row prog" where
  "auth_Register cr email username password =
     attempt (exec (GetUserByEmail email))
       (\<lambda>e. if e \<noteq> ENoRows then fail (EAuth Auth_RegistrationFailed)
            else case bcrypt_hash cr password of
                   Inl _ \<Rightarrow> fail (EAuth Auth_RegistrationFailed)
                 | Inr hash \<Rightarrow>
                     attempt (exec (CreateUser email username hash)) (\<lambda>_. fail (EAuth Auth_RegistrationFailed)) ret)
       (\<lambda>_. fail (EAuth Auth_EmailExists))"

definition auth_Login ::
  "crypto \<Rightarrow> jwt_lib \<Rightarrow> (string \<Rightarrow> string) \<Rightarrow> string \<Rightarrow> string \<Rightarrow> string \<Rightarrow> string prog" where
  "auth_Login cr lib getenv uuid email password =
     attempt (exec (GetUserByEmail email)) (\<lambda>_. fail (EAuth Auth_InvalidCredentials)) (\<lambda>user.
     if \<not> bcrypt_matches cr (u_password_hash user) password then fail (EAuth Auth_InvalidCredentials)
     else clock (\<lambda>t.
       case GenerateToken lib getenv uuid t (u_id user) of
         Inl _ \<Rightarrow> fail (EAuth Auth_InvalidCredentials)
       | Inr token \<Rightarrow> ret token))"

definition invalidated :: "claims \<Rightarrow> auth_state \<Rightarrow> bool" where
  "invalidated c st \<longleftrightarrow>
     (case as_tokens_invalidated_at st of
        None \<Rightarrow> False
      | Some since \<Rightarrow> (case jc_IssuedAt c of None \<Rightarrow> False | Some issued \<Rightarrow> issued < since))"

definition auth_ValidateAccessToken :: "jwt_lib \<Rightarrow> string \<Rightarrow> (int \<times> int \<times> string) prog" where
  "auth_ValidateAccessToken lib token =
     clock (\<lambda>t. case ValidateToken lib t token of
       Inl e \<Rightarrow> fail e
     | Inr c \<Rightarrow>
         andthen (if jc_ID c \<noteq> []
                  then andthen (exec (IsTokenRevoked (jc_ID c))) (\<lambda>revoked.
                       if revoked then fail (EAuth Auth_TokenRevoked) else ret ())
                  else ret ()) (\<lambda>_.
         andthen (exec (GetUserAuthState (jc_UserID c))) (\<lambda>st.
         if as_suspended_at st \<noteq> None then fail (EAuth Auth_AccountSuspended)
         else if invalidated c st then fail (EAuth Auth_TokenRevoked)
         else ret (jc_UserID c, jc_AppID c,
                   if jc_AppID c > 0 \<and> jc_KeyEnv c = [] then ''live'' else jc_KeyEnv c))))"

definition auth_Refresh :: "jwt_lib \<Rightarrow> (string \<Rightarrow> string) \<Rightarrow> string \<Rightarrow> string \<Rightarrow> string prog" where
  "auth_Refresh lib getenv uuid token =
     clock (\<lambda>t. case ValidateTokenForRefresh lib getenv t token of
       Inl _ \<Rightarrow> fail (EAuth Auth_InvalidToken)
     | Inr c \<Rightarrow>
         andthen (if jc_ID c \<noteq> []
                  then attempt (exec (IsTokenRevoked (jc_ID c))) (\<lambda>_. fail (EAuth Auth_InvalidToken)) (\<lambda>revoked.
                       if revoked then fail (EAuth Auth_InvalidToken) else ret ())
                  else ret ()) (\<lambda>_.
         attempt (exec (GetUserAuthState (jc_UserID c))) (\<lambda>_. fail (EAuth Auth_InvalidToken)) (\<lambda>st.
         if as_suspended_at st \<noteq> None then fail (EAuth Auth_AccountSuspended)
         else if invalidated c st then fail (EAuth Auth_InvalidToken)
         else clock (\<lambda>t.
           case GenerateSessionToken lib getenv uuid t (jc_UserID c) (jc_AppID c) (jc_KeyEnv c = ''sandbox'') of
             Inl _ \<Rightarrow> fail (EAuth Auth_InvalidToken)
           | Inr new \<Rightarrow>
               andthen (if jc_ID c \<noteq> []
                        then clock (\<lambda>t. ignoring (exec (RevokeToken (jc_ID c) (jc_UserID c)
                               (case jc_ExpiresAt c of None \<Rightarrow> t + 86400000000 | Some x \<Rightarrow> x))))
                        else ret ()) (\<lambda>_.
               ret new)))))"

section \<open>The handlers of \<open>auth\<close>\<close>

text \<open>
  \<open>Register\<close> and \<open>Login\<close> of \<open>handler.go\<close> after the body is decoded, as \<open>main.go\<close> wires them: the errors of the
  bootstrap and of billing are dropped.
\<close>

definition auth_handle_Register ::
  "(string \<Rightarrow> string) \<Rightarrow> crypto \<Rightarrow> string \<Rightarrow> string \<Rightarrow> string \<Rightarrow> (int \<times> string \<times> string) prog" where
  "auth_handle_Register getenv cr email username password =
     andthen (auth_Register cr email username password) (\<lambda>user.
     andthen (ignoring (admin_SyncBootstrapAdmin getenv (u_email user))) (\<lambda>_.
     andthen (ignoring (billing_OnUserRegistered (u_id user))) (\<lambda>_.
     ret (u_id user, u_email user, u_username user))))"

definition auth_handle_Login ::
  "(string \<Rightarrow> string) \<Rightarrow> crypto \<Rightarrow> jwt_lib \<Rightarrow> string \<Rightarrow> string \<Rightarrow> string \<Rightarrow> string prog" where
  "auth_handle_Login getenv cr lib uuid email password =
     andthen (auth_Login cr lib getenv uuid email password) (\<lambda>token.
     andthen (ignoring (admin_SyncBootstrapAdmin getenv email)) (\<lambda>_. ret token))"

section \<open>The users service\<close>

definition users_GetProfile :: "int \<Rightarrow> user_row prog" where
  "users_GetProfile uid = attempt (exec (GetUserByID uid)) (\<lambda>e. fail (no_rows_as (EUsers Usr_NotFound) e)) ret"

definition users_UpdateProfile :: "int \<Rightarrow> string \<Rightarrow> user_row prog" where
  "users_UpdateProfile uid raw =
     (let username = TrimSpace raw;
          update = attempt (exec (UpdateUserProfile uid username)) (\<lambda>e. fail (no_rows_as (EUsers Usr_NotFound) e)) ret
      in if username = [] then fail (EUsers Usr_UsernameRequired)
         else attempt (exec (GetUserByUsername username)) (\<lambda>e. if e \<noteq> ENoRows then fail e else update) (\<lambda>existing.
              if u_id existing \<noteq> uid then fail (EUsers Usr_UsernameTaken) else update))"

definition users_ChangePassword :: "crypto \<Rightarrow> int \<Rightarrow> string \<Rightarrow> string \<Rightarrow> unit prog" where
  "users_ChangePassword cr uid raw_current raw_new =
     (let current = TrimSpace raw_current; new = TrimSpace raw_new in
      if current = [] \<or> new = [] then fail (EUsers Usr_PasswordRequired)
      else if length new < 8 then fail (EUsers Usr_PasswordTooShort)
      else attempt (exec (GetUserByID uid)) (\<lambda>e. fail (no_rows_as (EUsers Usr_NotFound) e)) (\<lambda>user.
           if \<not> bcrypt_matches cr (u_password_hash user) current then fail (EUsers Usr_InvalidPassword)
           else case bcrypt_hash cr new of
                  Inl e \<Rightarrow> fail e
                | Inr hash \<Rightarrow> exec (UpdateUserPassword uid hash)))"

text \<open>\<open>GET /api/users/me\<close>.\<close>

definition users_handle_GetMe :: "(string \<Rightarrow> string) \<Rightarrow> int \<Rightarrow> user_row prog" where
  "users_handle_GetMe getenv uid =
     andthen (attempt (users_GetProfile uid) (\<lambda>_. ret ())
                (\<lambda>profile. ignoring (admin_SyncBootstrapAdmin getenv (u_email profile)))) (\<lambda>_.
     users_GetProfile uid)"

section \<open>What a token gives access to\<close>

text \<open>Documented behaviour of the libraries: a signed token parses to its claims, a hash matches its password.\<close>

definition jwt_law :: "jwt_lib \<Rightarrow> bool" where
  "jwt_law lib \<longleftrightarrow> (\<forall>c token. jwt_sign lib c = Inr token \<longrightarrow> jwt_parse lib token = Some c)"

definition bcrypt_law :: "crypto \<Rightarrow> bool" where
  "bcrypt_law cr \<longleftrightarrow> (\<forall>p hash. bcrypt_hash cr p = Inr hash \<longrightarrow> bcrypt_matches cr hash p)"

definition user_by_id :: "db \<Rightarrow> int \<Rightarrow> user_row option" where
  "user_by_id d i = find (\<lambda>u. u_id u = i) (users d)"

lemma reader_GetUserByID [readers]:
  "reader (exec (GetUserByID i)) (\<lambda>d. case user_by_id d i of None \<Rightarrow> Inl ENoRows | Some u \<Rightarrow> Inr u)"
  unfolding GetUserByID_def user_by_id_def by (rule reader_select_one)

definition state_of_user :: "user_row \<Rightarrow> auth_state" where
  "state_of_user u = \<lparr>as_id = u_id u, as_email = u_email u, as_platform_role = u_platform_role u,
     as_suspended_at = u_suspended_at u, as_tokens_invalidated_at = u_tokens_invalidated_at u\<rparr>"

lemma reader_GetUserAuthState [readers]:
  "reader (exec (GetUserAuthState i)) (\<lambda>d. case user_by_id d i of None \<Rightarrow> Inl ENoRows | Some u \<Rightarrow> Inr (state_of_user u))"
  unfolding GetUserAuthState_def user_by_id_def
  by (rule reader_cong, rule reader_select_one) (auto simp: state_of_user_def split: option.splits)

definition token_revoked :: "db \<Rightarrow> string \<Rightarrow> bool" where
  "token_revoked d jti \<longleftrightarrow> (\<exists>r\<in>set (revoked_tokens d). rt_jti r = jti)"

lemma reader_IsTokenRevoked [readers]: "reader (exec (IsTokenRevoked jti)) (\<lambda>d. Inr (token_revoked d jti))"
  unfolding IsTokenRevoked_def token_revoked_def by (rule reader_cong, rule reader_select) simp

text \<open>What \<open>ValidateAccessToken\<close> answers, as a function of the tables.\<close>

definition token_result :: "claims \<Rightarrow> db \<Rightarrow> goerr + int \<times> int \<times> string" where
  "token_result c d =
     (if jc_ID c \<noteq> [] \<and> token_revoked d (jc_ID c) then Inl (EAuth Auth_TokenRevoked)
      else case user_by_id d (jc_UserID c) of
             None \<Rightarrow> Inl ENoRows
           | Some u \<Rightarrow>
               if u_suspended_at u \<noteq> None then Inl (EAuth Auth_AccountSuspended)
               else if invalidated c (state_of_user u) then Inl (EAuth Auth_TokenRevoked)
               else Inr (jc_UserID c, jc_AppID c, if jc_AppID c > 0 \<and> jc_KeyEnv c = [] then ''live'' else jc_KeyEnv c))"

lemma ValidateAccessToken_eq:
  assumes "ValidateToken lib (now s) token = Inr c"
  shows "\<exists>q. reader q (token_result c) \<and> auth_ValidateAccessToken lib token s = q s"
proof -
  let ?q = "andthen (if jc_ID c \<noteq> []
                  then andthen (exec (IsTokenRevoked (jc_ID c))) (\<lambda>revoked.
                       if revoked then fail (EAuth Auth_TokenRevoked) else ret ())
                  else ret ()) (\<lambda>_.
         andthen (exec (GetUserAuthState (jc_UserID c))) (\<lambda>st.
         if as_suspended_at st \<noteq> None then fail (EAuth Auth_AccountSuspended)
         else if invalidated c st then fail (EAuth Auth_TokenRevoked)
         else ret (jc_UserID c, jc_AppID c,
                   if jc_AppID c > 0 \<and> jc_KeyEnv c = [] then ''live'' else jc_KeyEnv c)))"
  have "reader ?q (token_result c)"
    by (rule reader_cong, (rule readers)+)
      (auto simp: token_result_def state_of_user_def split: option.splits)
  then show ?thesis using assms by (auto simp: auth_ValidateAccessToken_def)
qed

lemma Validate_quiet:
  assumes "tape s = []"
  shows "auth_ValidateAccessToken lib token s =
    (case ValidateToken lib (now s) token of Inl e \<Rightarrow> (Inl e, s) | Inr c \<Rightarrow> (token_result c (db s), s))"
proof (cases "ValidateToken lib (now s) token")
  case (Inr c)
  then show ?thesis using ValidateAccessToken_eq [OF Inr] reader_quiet [OF _ assms] by auto
qed (simp add: auth_ValidateAccessToken_def fail_def)

lemma session_token_opens:
  assumes "jwt_law lib" and "GenerateSessionToken lib getenv uuid t uid app sandbox = Inr token" and "0 \<le> app"
    and "tape s = []" and "now s \<le> numeric_date (add_duration t (accessTokenTTL getenv))"
    and "user_by_id (db s) uid = Some u" and "u_suspended_at u = None" and "\<not> token_revoked (db s) uuid"
    and "\<forall>x. u_tokens_invalidated_at u = Some x \<longrightarrow> x \<le> numeric_date t"
  shows "auth_ValidateAccessToken lib token s =
    (Inr (uid, app, if app > 0 then EnvironmentFromSandbox sandbox else []), s)"
proof -
  let ?c = "\<lparr>jc_UserID = uid, jc_AppID = app,
       jc_KeyEnv = (if app > 0 then if sandbox then ''sandbox'' else ''live'' else []),
       jc_ID = uuid, jc_ExpiresAt = Some (numeric_date (add_duration t (accessTokenTTL getenv))),
       jc_IssuedAt = Some (numeric_date t)\<rparr>"
  have "jwt_parse lib token = Some ?c" using assms(1,2) by (auto simp: jwt_law_def GenerateSessionToken_def)
  then have "ValidateToken lib (now s) token = Inr ?c" using assms(5) by (simp add: ValidateToken_def parseClaims_def)
  then show ?thesis using assms
    by (auto simp: Validate_quiet token_result_def invalidated_def state_of_user_def EnvironmentFromSandbox_def
        split: option.splits)
qed

text \<open>C20: A session token opens exactly the session it was made for. A token that \<open>GenerateSessionToken\<close> signed is
  accepted by \<open>ValidateAccessToken\<close>, until it expires, with the user, the app and the environment it was made for, as
  long as the user exists and is not suspended, the token was not revoked, and no invalidation came after the second in
  which it was issued.\<close>

theorem session_roundtrip:
  assumes "jwt_law lib" and "GenerateSessionToken lib getenv uuid t uid app sandbox = Inr token" and "0 \<le> app"
    and "tape s = []" and "now s \<le> numeric_date (add_duration t (accessTokenTTL getenv))"
    and "user_by_id (db s) uid = Some u" and "u_suspended_at u = None" and "\<not> token_revoked (db s) uuid"
    and "\<forall>x. u_tokens_invalidated_at u = Some x \<longrightarrow> x \<le> numeric_date t"
  shows "auth_ValidateAccessToken lib token s =
    (Inr (uid, app, if app > 0 then EnvironmentFromSandbox sandbox else []), s)"
  using assms by (rule session_token_opens)

definition burn_token :: "claims \<Rightarrow> world \<Rightarrow> world" where
  "burn_token c s =
     (if jc_ID c = [] then s
      else s\<lparr>db := snd (RevokeToken (jc_ID c) (jc_UserID c)
             (case jc_ExpiresAt c of None \<Rightarrow> now s + 86400000000 | Some x \<Rightarrow> x) (now s) (db s))\<rparr>)"

lemma Refresh_quiet:
  assumes "tape s = []"
  shows "auth_Refresh lib getenv uuid token s =
    (case ValidateTokenForRefresh lib getenv (now s) token of
       Inl _ \<Rightarrow> (Inl (EAuth Auth_InvalidToken), s)
     | Inr c \<Rightarrow>
         (case token_result c (db s) of
            Inl e \<Rightarrow> (Inl (if e = EAuth Auth_AccountSuspended then e else EAuth Auth_InvalidToken), s)
          | Inr _ \<Rightarrow>
              (case GenerateSessionToken lib getenv uuid (now s) (jc_UserID c) (jc_AppID c) (jc_KeyEnv c = ''sandbox'') of
                 Inl _ \<Rightarrow> (Inl (EAuth Auth_InvalidToken), s)
               | Inr new \<Rightarrow> (Inr new, burn_token c s))))"
proof (cases "ValidateTokenForRefresh lib getenv (now s) token")
  case (Inl e)
  then show ?thesis by (simp add: auth_Refresh_def fail_def)
next
  case (Inr c)
  have state: "as_suspended_at (state_of_user u) = u_suspended_at u" for u by (simp add: state_of_user_def)
  have burn: "ignoring (exec (RevokeToken j u x)) s = (Inr (), s\<lparr>db := snd (RevokeToken j u x (now s) (db s))\<rparr>)" for j u x
    using assms by (simp add: ignoring_eq exec_quiet)
  show ?thesis
    using reader_quiet [OF reader_IsTokenRevoked assms] reader_quiet [OF reader_GetUserAuthState assms] burn Inr state
    by (auto simp: auth_Refresh_def token_result_def burn_token_def attempt_def andthen_def fail_def ret_def
        split: option.splits sum.splits)
qed

lemma RevokeToken_burns:
  "user_by_id d uid \<noteq> None \<Longrightarrow> token_revoked (snd (RevokeToken jti uid x t d)) jti"
  by (auto simp: RevokeToken_def token_revoked_def user_by_id_def user_exists_def find_None_iff)


lemma find_map: "find p (map f xs) = map_option f (find (\<lambda>x. p (f x)) xs)"
  by (induction xs) auto

text \<open>All that the judgement of a token depends on.\<close>

definition auth_view :: "db \<Rightarrow> revoked_token_row list \<times> auth_state list" where
  "auth_view d = (revoked_tokens d, map state_of_user (users d))"

lemma user_by_id_view:
  "map_option state_of_user (user_by_id d i) = find (\<lambda>st. as_id st = i) (snd (auth_view d))"
  unfolding user_by_id_def auth_view_def snd_conv find_map by (simp add: state_of_user_def)

lemma token_result_alt:
  "token_result c d =
    (if jc_ID c \<noteq> [] \<and> (\<exists>r\<in>set (fst (auth_view d)). rt_jti r = jc_ID c) then Inl (EAuth Auth_TokenRevoked)
     else case map_option state_of_user (user_by_id d (jc_UserID c)) of
            None \<Rightarrow> Inl ENoRows
          | Some st \<Rightarrow>
              if as_suspended_at st \<noteq> None then Inl (EAuth Auth_AccountSuspended)
              else if invalidated c st then Inl (EAuth Auth_TokenRevoked)
              else Inr (jc_UserID c, jc_AppID c, if jc_AppID c > 0 \<and> jc_KeyEnv c = [] then ''live'' else jc_KeyEnv c))"
proof -
  have "as_suspended_at (state_of_user u) = u_suspended_at u" for u by (simp add: state_of_user_def)
  then show ?thesis
    by (cases "user_by_id d (jc_UserID c)") (simp_all add: token_result_def auth_view_def token_revoked_def)
qed

lemma token_result_view: "auth_view d = auth_view d' \<Longrightarrow> token_result c d = token_result c d'"
  unfolding token_result_alt user_by_id_view by simp

lemma UpdateUserPassword_view [read_only]: "leaves auth_view (exec (UpdateUserPassword uid hash))"
  by (rule leaves_exec) (simp add: UpdateUserPassword_def update_all_def auth_view_def update_where_def state_of_user_def)

lemma GetUserByID_view [read_only]: "leaves f (exec (GetUserByID i))"
  by (rule reader_leaves [OF reader_GetUserByID])

text \<open>A changed password ends no session: after \<open>ChangePassword\<close> every token is judged exactly as before, whoever
  holds it, and can be refreshed without end.\<close>

theorem password_change_keeps_sessions:
  assumes "users_ChangePassword cr uid current new s = (r, s')"
  shows "token_result c (db s') = token_result c (db s)"
proof (rule token_result_view)
  have "leaves auth_view (users_ChangePassword cr uid current new)"
    unfolding users_ChangePassword_def Let_def by (intro read_only)
  then show "auth_view (db s') = auth_view (db s)" using assms by (rule leaves_run)
qed

text \<open>C40: An address that differs in case from a bootstrap administrator's makes an administrator. Addresses are unique
  as written, but bootstrap addresses are compared, and promoted, ignoring case and surrounding blanks, and nothing
  checks that the address belongs to who registers it; so whoever registers such a variant is an administrator with a
  password of their own choice.\<close>

theorem registration_makes_admin:
  assumes "tape s = []" and "IsBootstrapAdminEmail getenv email"
    and "\<forall>u\<in>set (users (db s)). u_email u \<noteq> email \<and> u_username u \<noteq> username"
    and "bcrypt_hash cr password = Inr hash"
  shows "\<exists>uid s' u. auth_handle_Register getenv cr email username password s = (Inr (uid, email, username), s') \<and>
    u \<in> set (users (db s')) \<and> u_id u = uid \<and> u_email u = email \<and> u_password_hash u = hash \<and>
    u_platform_role u = ''admin'' \<and> CanWrite (u_platform_role u)"
proof -
  let ?u0 = "\<lparr>u_id = nextid (db s) TUsers, u_email = email, u_username = username, u_password_hash = hash,
     u_created_at = now s, u_platform_role = ''user'', u_suspended_at = None, u_tokens_invalidated_at = None,
     u_stripe_customer_id = None\<rparr>"
  let ?hit = "\<lambda>u. ToLower (u_email u) = ToLower email \<and> u_platform_role u \<noteq> ''admin''"
  let ?adm = "\<lambda>u. u\<lparr>u_platform_role := ''admin''\<rparr>"
  let ?s1 = "s\<lparr>db := (db s)\<lparr>nextid := (nextid (db s))(TUsers := nextid (db s) TUsers + 1), users := users (db s) @ [?u0]\<rparr>\<rparr>"
  have none: "find (\<lambda>u. u_email u = email) (users (db s)) = None"
    using assms(3) by (auto simp: find_None_iff)
  have reg: "auth_Register cr email username password s = (Inr ?u0, ?s1)"
    using assms(1,3,4) none
    by (auto simp: auth_Register_def attempt_def exec_quiet GetUserByEmail_def select_one_def CreateUser_def
        insert_into_def Let_def ret_def)
  obtain x where "find ?hit (users (db ?s1)) = Some x" using find_Some_ex [of ?u0 "users (db ?s1)" ?hit] by auto
  then have promote: "ignoring (admin_SyncBootstrapAdmin getenv email) ?s1 =
      (Inr (), ?s1\<lparr>db := (db ?s1)\<lparr>users := update_where ?hit ?adm (users (db ?s1))\<rparr>\<rparr>)" (is "_ = (_, ?s2)")
    using assms(1,2)
    by (simp add: ignoring_eq admin_SyncBootstrapAdmin_def attempt_def exec_quiet PromoteUserToAdminByEmail_def
        update_one_def ret_def)
  obtain r s3 where bill: "ignoring (billing_OnUserRegistered (u_id ?u0)) ?s2 = (r, s3)" by (rule prod.exhaust)
  then have r: "r = Inr ()" by (simp add: ignoring_eq)
  have "leaves sans_metering (ignoring (billing_OnUserRegistered (u_id ?u0)))"
    unfolding billing_OnUserRegistered_def by (intro read_only)
  then have "sans_metering (db s3) = sans_metering (db ?s2)" using bill by (rule leaves_run)
  then have "users (db s3) = users (db ?s2)" by (rule sans_metering_cong(1))
  then have "?adm ?u0 \<in> set (users (db s3))" by (simp add: update_where_def)
  moreover have "auth_handle_Register getenv cr email username password s =
      (Inr (u_id ?u0, email, username), s3)"
    unfolding auth_handle_Register_def
    using reg promote bill r by (simp add: andthen_def attempt_def ret_def)
  ultimately show ?thesis
    by (intro exI [of _ "u_id ?u0"] exI [of _ s3] exI [of _ "?adm ?u0"]) (simp add: CanWrite_def)
qed

section \<open>Samples\<close>

text \<open>A signer that knows the tokens of a table.\<close>

definition table_jwt :: "(string \<times> claims) list \<Rightarrow> jwt_lib" where
  "table_jwt tbl =
     \<lparr>jwt_sign = (\<lambda>c. case find (\<lambda>(token, c'). c' = c) tbl of
        None \<Rightarrow> Inl (EExternal ''unknown'') | Some (token, _) \<Rightarrow> Inr token),
      jwt_parse = map_of tbl\<rparr>"

lemma table_jwt_law: "distinct (map fst tbl) \<Longrightarrow> jwt_law (table_jwt tbl)"
  by (auto simp: jwt_law_def table_jwt_def split: option.splits dest!: find_SomeD intro: map_of_is_SomeI)

definition sample_crypto :: crypto where
  "sample_crypto = \<lparr>bcrypt_hash = (\<lambda>p. Inr (''h:'' @ p)), bcrypt_matches = (\<lambda>h p. h = ''h:'' @ p)\<rparr>"

definition sample_claims :: "int \<Rightarrow> int \<Rightarrow> string \<Rightarrow> string \<Rightarrow> claims" where
  "sample_claims uid app env jti =
     \<lparr>jc_UserID = uid, jc_AppID = app, jc_KeyEnv = env, jc_ID = jti, jc_ExpiresAt = Some 86401000000,
      jc_IssuedAt = Some 1000000\<rparr>"

definition sample_jwt :: jwt_lib where
  "sample_jwt = table_jwt [(''t1'', sample_claims 1 1 ''sandbox'' ''j1''), (''t2'', sample_claims 1 1 ''sandbox'' ''j2'')]"

lemma sample_jwt_law: "jwt_law sample_jwt"
  unfolding sample_jwt_def by (rule table_jwt_law) simp

lemma sample_user_alice: "user_by_id sample_db 1 = Some (sample_user 1 ''alice'')" "revoked_tokens sample_db = []"
  by (simp_all add: user_by_id_def sample_db_def sample_user_def empty_db_def)

theorem session_roundtrip_witness:
  "auth_ValidateAccessToken sample_jwt ''t1'' sample = (Inr (1, 1, ''sandbox''), sample)"
proof -
  have "GenerateSessionToken sample_jwt (\<lambda>_. []) ''j1'' 1000000 1 1 True = Inr ''t1''"
    "now sample \<le> numeric_date (add_duration 1000000 (accessTokenTTL (\<lambda>_. [])))" by code_simp+
  then show ?thesis
    using session_roundtrip [OF sample_jwt_law, of "\<lambda>_. []" "''j1''" 1000000 1 1 True "''t1''" sample] sample_user_alice
    by (simp add: token_revoked_def sample_user_def EnvironmentFromSandbox_def)
qed


theorem password_change_keeps_sessions_witness:
  "\<exists>s'. users_ChangePassword sample_crypto 1 ''old'' ''new-password''
      (sample\<lparr>db := sample_db\<lparr>users := [(sample_user 1 ''alice'')\<lparr>u_password_hash := ''h:old''\<rparr>]\<rparr>\<rparr>) = (Inr (), s') \<and>
    map u_password_hash (users (db s')) = [''h:new-password''] \<and>
    token_result (sample_claims 1 0 [] ''j1'') (db s') = Inr (1, 0, [])"
proof -
  let ?s = "sample\<lparr>db := sample_db\<lparr>users := [(sample_user 1 ''alice'')\<lparr>u_password_hash := ''h:old''\<rparr>]\<rparr>\<rparr>"
  let ?run = "users_ChangePassword sample_crypto 1 ''old'' ''new-password'' ?s"
  have "case ?run of (Inr u, s') \<Rightarrow> map u_password_hash (users (db s')) = [''h:new-password''] | _ \<Rightarrow> False" by code_simp
  then obtain s' where run: "?run = (Inr (), s')" and h: "map u_password_hash (users (db s')) = [''h:new-password'']"
    by (auto split: prod.splits sum.splits)
  have "token_result (sample_claims 1 0 [] ''j1'') (db ?s) = Inr (1, 0, [])" by code_simp
  then show ?thesis using password_change_keeps_sessions [OF run, of "sample_claims 1 0 [] ''j1''"] run h by auto
qed

theorem registration_makes_admin_witness:
  "\<exists>uid s' u. auth_handle_Register (\<lambda>k. if k = ''PLATFORM_ADMIN_EMAILS'' then ''alice@x.io'' else []) sample_crypto
      ''Alice@x.io'' ''mallory'' ''secret'' sample = (Inr (uid, ''Alice@x.io'', ''mallory''), s') \<and>
    u \<in> set (users (db s')) \<and> u_id u = uid \<and> u_platform_role u = ''admin''"
proof -
  let ?env = "\<lambda>k. if k = ''PLATFORM_ADMIN_EMAILS'' then ''alice@x.io'' else []"
  have "IsBootstrapAdminEmail ?env ''Alice@x.io''" by code_simp
  moreover have "\<forall>u\<in>set (users (db sample)). u_email u \<noteq> ''Alice@x.io'' \<and> u_username u \<noteq> ''mallory''"
    by (simp add: sample_db_def sample_user_def)
  moreover have "bcrypt_hash sample_crypto ''secret'' = Inr ''h:secret''" by (simp add: sample_crypto_def)
  ultimately show ?thesis using registration_makes_admin [of sample ?env "''Alice@x.io''" "''mallory''"] by fastforce
qed

end
