(* ===== verification/Attachments.thy ===== *)
theory Attachments
  imports Db_Workspaces Sample
begin

text \<open>
  \<open>internal/attachments\<close>: upload URLs, attaching uploaded objects to messages, listing and opening
  them, and the statements of \<open>internal/db/attachments.sql.go\<close>. The object store (S3), the virus
  scanner and the generated UUIDs are arguments; \<open>main.go\<close> wires a scanner that accepts everything.
\<close>

section \<open>Statements\<close>

definition CreateAttachment ::
  "int \<Rightarrow> int \<Rightarrow> string \<Rightarrow> string \<Rightarrow> string \<Rightarrow> int \<Rightarrow> attachment_row sql" where
  "CreateAttachment msg uploader key name mime sz =
     insert_into TAttachments attachments_update
       (\<lambda>d. [(exists_row (\<lambda>a. at_object_key a = key) (attachments d),
               unique_violation ''attachments_object_key_key''),
             (\<not> exists_row (\<lambda>m. m_id m = msg) (messages d), fk_violation ''attachments_message_id_fkey''),
             (\<not> user_exists d uploader, fk_violation ''attachments_uploader_id_fkey'')])
       (\<lambda>i t. \<lparr>at_id = i, at_message_id = msg, at_uploader_id = uploader, at_object_key = key,
               at_file_name = name, at_mime_type = mime, at_size_bytes = sz, at_created_at = t\<rparr>)"

definition ListAttachmentsByMessage :: "int \<Rightarrow> attachment_row list sql" where
  "ListAttachmentsByMessage msg =
     select (\<lambda>d. order_asc at_created_at (filter (\<lambda>a. at_message_id a = msg) (attachments d)))"

definition GetAttachmentByID :: "int \<Rightarrow> attachment_row sql" where
  "GetAttachmentByID i = select_one (\<lambda>d. find (\<lambda>a. at_id a = i) (attachments d))"

definition GetMessageInChannel :: "int \<Rightarrow> int \<Rightarrow> int \<Rightarrow> message_row sql" where
  "GetMessageInChannel i ch ws = select_one (\<lambda>d.
     find (\<lambda>m. m_id m = i \<and> m_channel_id m = ch \<and>
               exists_row (\<lambda>c. ch_id c = m_channel_id m \<and> ch_workspace_id c = ws) (channels d))
       (messages d))"

section \<open>Validation and object keys\<close>

definition allowedMIMETypes :: "string list" where
  "allowedMIMETypes =
     [''image/jpeg'', ''image/png'', ''image/gif'', ''image/webp'', ''application/pdf'',
      ''text/plain'', ''text/markdown'', ''application/json'', ''application/zip'',
      ''application/msword'',
      ''application/vnd.openxmlformats-officedocument.wordprocessingml.document'',
      ''application/vnd.ms-excel'',
      ''application/vnd.openxmlformats-officedocument.spreadsheetml.sheet'']"

definition validateUpload :: "string \<Rightarrow> string \<Rightarrow> int \<Rightarrow> int \<Rightarrow> goerr option" where
  "validateUpload file_name mime sz max_bytes =
     (if TrimSpace file_name = [] then Some (EAttachments Att_InvalidFile)
      else if sz \<le> 0 then Some (EAttachments Att_InvalidFile)
      else if sz > max_bytes then Some (EAttachments Att_FileTooLarge)
      else let normalized = ToLower (TrimSpace mime) in
        if normalized = [] then Some (EAttachments Att_MimeNotAllowed)
        else if normalized \<notin> set allowedMIMETypes then Some (EAttachments Att_MimeNotAllowed)
        else None)"

text \<open>\<open>path.Base\<close>: the last element after trailing slashes.\<close>

definition path_base :: "string \<Rightarrow> string" where
  "path_base p =
     (if p = [] then ''.''
      else let q = trim_char_right CHR ''/'' p;
               b = rev (takeWhile (\<lambda>c. c \<noteq> CHR ''/'') (rev q))
           in if b = [] then ''/'' else b)"

definition is_safe_char :: "char \<Rightarrow> bool" where
  "is_safe_char c =
     (let n = (of_char c :: nat)
      in (97 \<le> n \<and> n \<le> 122) \<or> (65 \<le> n \<and> n \<le> 90) \<or> (48 \<le> n \<and> n \<le> 57) \<or>
         c = CHR ''.'' \<or> c = CHR ''_'' \<or> c = CHR ''-'')"

text \<open>\<open>[^a-zA-Z0-9._-]+\<close> replaced by one underscore. The flag says that the current run of unsafe
characters has its underscore already.\<close>

fun replace_unsafe :: "bool \<Rightarrow> string \<Rightarrow> string" where
  "replace_unsafe in_run [] = []"
| "replace_unsafe in_run (c # cs) =
     (if is_safe_char c then c # replace_unsafe False cs
      else if in_run then replace_unsafe True cs else CHR ''_'' # replace_unsafe True cs)"

definition upload_prefix :: "int \<Rightarrow> string" where
  "upload_prefix uid = ''uploads/'' @ FormatInt uid @ ''/''"

definition buildObjectKey :: "string \<Rightarrow> int \<Rightarrow> string \<Rightarrow> string" where
  "buildObjectKey uuid uid file_name =
     (let safe = replace_unsafe False (path_base file_name);
          safe = (if safe = [] then ''file'' else safe)
      in upload_prefix uid @ uuid @ ''/'' @ safe)"

section \<open>The service\<close>

record object_store =
  PresignPut :: "string \<Rightarrow> string \<Rightarrow> int \<Rightarrow> goerr + (string \<times> int)"
  HeadObject :: "string \<Rightarrow> goerr + (int \<times> string)"
  GetObject :: "string \<Rightarrow> goerr + (string \<times> int \<times> string)"  \<comment> \<open>body, size, content type\<close>

record attachments_service =
  at_store :: "object_store option"
  at_scan :: "string \<Rightarrow> goerr + unit"
  at_access :: "int \<Rightarrow> int \<Rightarrow> int \<Rightarrow> unit prog"
  at_maxBytes :: int

record attachment_input =
  ai_object_key :: string
  ai_file_name :: string
  ai_mime_type :: string
  ai_size_bytes :: int

definition noop_scan :: "string \<Rightarrow> goerr + unit" where
  "noop_scan key = Inr ()"

definition attachments_CreateUploadURL ::
  "attachments_service \<Rightarrow> string \<Rightarrow> int \<Rightarrow> string \<Rightarrow> string \<Rightarrow> int \<Rightarrow> (string \<times> string \<times> int) prog" where
  "attachments_CreateUploadURL sv uuid uid file_name mime sz =
     (case at_store sv of
        None \<Rightarrow> fail (EAttachments Att_StorageUnavailable)
      | Some store \<Rightarrow>
          (case validateUpload file_name mime sz (at_maxBytes sv) of
             Some e \<Rightarrow> fail e
           | None \<Rightarrow>
               let key = buildObjectKey uuid uid file_name in
               andthen (external (PresignPut store key mime sz)) (\<lambda>(url, expires).
               ret (key, url, expires))))"

definition attachments_createAttachment ::
  "attachments_service \<Rightarrow> int \<Rightarrow> int \<Rightarrow> attachment_input \<Rightarrow> attachment_row prog" where
  "attachments_createAttachment sv msg uid inp =
     (case at_store sv of
        None \<Rightarrow> fail (EAttachments Att_StorageUnavailable)
      | Some store \<Rightarrow>
          (case validateUpload (ai_file_name inp) (ai_mime_type inp) (ai_size_bytes inp)
                  (at_maxBytes sv) of
             Some e \<Rightarrow> fail e
           | None \<Rightarrow>
               if \<not> has_prefix (upload_prefix uid) (ai_object_key inp)
               then fail (EAttachments Att_ObjectKeyMismatch)
               else attempt (external (HeadObject store (ai_object_key inp)))
                 (\<lambda>_. fail (EAttachments Att_ObjectNotFound)) (\<lambda>(sz, content_type).
               if sz \<noteq> ai_size_bytes inp then fail (EAttachments Att_InvalidFile)
               else let mime = (if content_type \<noteq> [] \<and> ToLower content_type \<noteq> ToLower (ai_mime_type inp)
                                then content_type else ai_mime_type inp) in
                    andthen (external (at_scan sv (ai_object_key inp))) (\<lambda>_.
                    exec (CreateAttachment msg uid (ai_object_key inp) (ai_file_name inp) mime
                            (ai_size_bytes inp))))))"

definition contentURL :: "int \<Rightarrow> int \<Rightarrow> int \<Rightarrow> int \<Rightarrow> string" where
  "contentURL ws ch msg att =
     ''/api/workspaces/'' @ FormatInt ws @ ''/channels/'' @ FormatInt ch @ ''/messages/'' @
     FormatInt msg @ ''/attachments/'' @ FormatInt att @ ''/content''"

definition messageUpdatedPayload ::
  "int \<Rightarrow> int \<Rightarrow> message_row \<Rightarrow> attachment_row list \<Rightarrow> gomap" where
  "messageUpdatedPayload ws ch m rows =
     [(''id'', VInt (m_id m)), (''channel_id'', VInt (m_channel_id m)),
      (''sender_id'', VInt (m_sender_id m)), (''content'', VStr (m_content m)),
      (''created_at'', VTime (m_created_at m)),
      (''attachments'', VList (map (\<lambda>a. VObj
         [(''id'', VInt (at_id a)), (''file_name'', VStr (at_file_name a)),
          (''mime_type'', VStr (at_mime_type a)), (''size_bytes'', VInt (at_size_bytes a)),
          (''url'', VStr (contentURL ws ch (at_message_id a) (at_id a))),
          (''created_at'', VTime (at_created_at a))]) rows))]"

text \<open>The loop over the inputs: it stops at the first error, and keeps what it created.\<close>

fun create_all ::
  "attachments_service \<Rightarrow> int \<Rightarrow> int \<Rightarrow> attachment_input list \<Rightarrow> attachment_row list prog" where
  "create_all sv msg uid [] = ret []"
| "create_all sv msg uid (i # inputs) =
     andthen (attachments_createAttachment sv msg uid i) (\<lambda>a.
     andthen (create_all sv msg uid inputs) (\<lambda>rest. ret (a # rest)))"

definition attachments_AttachToMessage ::
  "attachments_service \<Rightarrow> int \<Rightarrow> int \<Rightarrow> int \<Rightarrow> int \<Rightarrow> attachment_input list \<Rightarrow> attachment_row list prog" where
  "attachments_AttachToMessage sv ws ch msg uid inputs =
     (if inputs = [] then fail (EAttachments Att_InvalidFile)
      else andthen (at_access sv ws ch uid) (\<lambda>_.
           attempt (exec (GetMessageInChannel msg ch ws))
             (\<lambda>_. fail (EAttachments Att_NotFound)) (\<lambda>m.
           if m_sender_id m \<noteq> uid then fail (EAttachments Att_Forbidden)
           else andthen (create_all sv msg uid inputs) (\<lambda>created.
                andthen (hub_publish ''message.updated'' ws ch (messageUpdatedPayload ws ch m created))
                  (\<lambda>_. ret created)))))"

definition attachments_AttachOnMessageCreate ::
  "attachments_service \<Rightarrow> int \<Rightarrow> int \<Rightarrow> message_row \<Rightarrow> int \<Rightarrow> attachment_input list \<Rightarrow> unit prog" where
  "attachments_AttachOnMessageCreate sv ws ch m uid inputs =
     (if inputs = [] then ret ()
      else andthen (create_all sv (m_id m) uid inputs) (\<lambda>created.
           if created \<noteq> [] then
             hub_publish ''message.updated'' ws ch (messageUpdatedPayload ws ch m created)
           else ret ()))"

definition attachments_ListByMessage ::
  "attachments_service \<Rightarrow> int \<Rightarrow> int \<Rightarrow> int \<Rightarrow> int \<Rightarrow> attachment_row list prog" where
  "attachments_ListByMessage sv ws ch msg uid =
     andthen (at_access sv ws ch uid) (\<lambda>_.
     attempt (exec (GetMessageInChannel msg ch ws))
       (\<lambda>_. fail (EAttachments Att_NotFound)) (\<lambda>_.
     exec (ListAttachmentsByMessage msg)))"

text \<open>Body, file name, type and size of an opened attachment.\<close>

definition attachments_OpenContent ::
  "attachments_service \<Rightarrow> int \<Rightarrow> int \<Rightarrow> int \<Rightarrow> int \<Rightarrow> int \<Rightarrow> (string \<times> string \<times> string \<times> int) prog" where
  "attachments_OpenContent sv ws ch msg att uid =
     (case at_store sv of
        None \<Rightarrow> fail (EAttachments Att_StorageUnavailable)
      | Some store \<Rightarrow>
          andthen (at_access sv ws ch uid) (\<lambda>_.
          attempt (exec (GetMessageInChannel msg ch ws))
            (\<lambda>_. fail (EAttachments Att_NotFound)) (\<lambda>_.
          attempt (exec (GetAttachmentByID att))
            (\<lambda>_. fail (EAttachments Att_NotFound)) (\<lambda>row.
          if at_message_id row \<noteq> msg then fail (EAttachments Att_NotFound)
          else attempt (external (GetObject store (at_object_key row)))
            (\<lambda>_. fail (EAttachments Att_ObjectNotFound)) (\<lambda>(body, sz, content_type).
          ret (body, at_file_name row,
               (if content_type \<noteq> [] then content_type else at_mime_type row),
               (if sz > 0 then sz else at_size_bytes row)))))))"

section \<open>Properties\<close>

lemma upload_prefix_unique:
  assumes "has_prefix (upload_prefix u) k" and "has_prefix (upload_prefix v) k"
  shows "u = v"
proof -
  obtain s t where "upload_prefix u @ s = upload_prefix v @ t"
    using assms by (auto simp: has_prefix_iff)
  then have eq: "FormatInt u @ CHR ''/'' # s = FormatInt v @ CHR ''/'' # t"
    by (simp add: upload_prefix_def)
  have "takeWhile (\<lambda>c. c \<noteq> CHR ''/'') (FormatInt w @ CHR ''/'' # r) = FormatInt w" for w r
    using FormatInt_no_slash [of w] by (subst takeWhile_append2) auto
  then have "FormatInt u = FormatInt v" using eq by metis
  then show ?thesis by (simp add: FormatInt_inject)
qed

lemma safe_slash [simp]: "\<not> is_safe_char (CHR ''/'')" "is_safe_char (CHR ''_'')"
  by (simp_all add: is_safe_char_def)

lemma replace_unsafe_safe: "list_all is_safe_char (replace_unsafe b s)"
  by (induction b s rule: replace_unsafe.induct) auto

lemma replace_unsafe_nonempty: "s \<noteq> [] \<Longrightarrow> replace_unsafe False s \<noteq> []"
  by (cases s) auto

lemma path_base_nonempty: "path_base p \<noteq> []"
  by (simp add: path_base_def Let_def)

text \<open>object keys belong to one user. The key of an upload URL lies under the prefix of the user
who asked for it, its file part is not empty and has only safe characters (no slash), and a key lies
under the prefix of at most one user, so nobody can attach another user's upload.\<close>
theorem object_keys_belong_to_one_user:
  "(\<exists>name. buildObjectKey uuid uid file = upload_prefix uid @ uuid @ ''/'' @ name \<and> name \<noteq> [] \<and>
      list_all is_safe_char name \<and> CHR ''/'' \<notin> set name) \<and>
   (has_prefix (upload_prefix u) k \<and> has_prefix (upload_prefix v) k \<longrightarrow> u = v)"
proof -
  let ?n = "replace_unsafe False (path_base file)"
  have "?n \<noteq> []" by (rule replace_unsafe_nonempty [OF path_base_nonempty])
  moreover have "list_all is_safe_char ?n" by (rule replace_unsafe_safe)
  moreover from this have "CHR ''/'' \<notin> set ?n" by (auto simp: list_all_iff)
  ultimately show ?thesis using upload_prefix_unique by (auto simp: buildObjectKey_def Let_def)
qed

theorem object_keys_belong_to_one_user_witness:
  "has_prefix (upload_prefix 1) ''uploads/1/x/cat.png'' \<and> \<not> has_prefix (upload_prefix 12) ''uploads/1/x/cat.png''"
proof -
  have p: "has_prefix (upload_prefix 1) ''uploads/1/x/cat.png''" by code_simp
  then show ?thesis
    using object_keys_belong_to_one_user [of u 1 f 1 "''uploads/1/x/cat.png''" 12 for u f] by auto
qed

text \<open>C36: what a stored attachment satisfies, whatever the statements meet: its key is under the
uploader's prefix, its size is positive, at most the maximum and the size of the object in the
store, the declared type is allowed, and the scanner accepted the object.\<close>
theorem createAttachment_checks:
  assumes "attachments_createAttachment sv msg uid inp s = (Inr a, s')"
  shows "\<exists>store ct. at_store sv = Some store \<and> HeadObject store (at_object_key a) = Inr (at_size_bytes a, ct) \<and>
    at_uploader_id a = uid \<and> at_message_id a = msg \<and> has_prefix (upload_prefix uid) (at_object_key a) \<and>
    0 < at_size_bytes a \<and> at_size_bytes a \<le> at_maxBytes sv \<and>
    ToLower (TrimSpace (ai_mime_type inp)) \<in> set allowedMIMETypes \<and>
    at_scan sv (at_object_key a) = Inr () \<and>
    (at_mime_type a = ai_mime_type inp \<or> at_mime_type a = ct) \<and>
    attachments (db s') = attachments (db s) @ [a]"
proof -
  obtain store where st: "at_store sv = Some store"
    using assms by (auto simp: attachments_createAttachment_def split: option.splits)
  have valid: "validateUpload (ai_file_name inp) (ai_mime_type inp) (ai_size_bytes inp) (at_maxBytes sv) = None"
    using assms st by (auto simp: attachments_createAttachment_def split: option.splits)
  have pre: "has_prefix (upload_prefix uid) (ai_object_key inp)"
    using assms st valid by (auto simp: attachments_createAttachment_def split: if_splits)
  obtain n ct where head: "HeadObject store (ai_object_key inp) = Inr (n, ct)"
    using assms st valid pre
    by (auto simp: attachments_createAttachment_def attempt_eq external_def)
  have n: "n = ai_size_bytes inp" and scan: "at_scan sv (ai_object_key inp) = Inr ()"
    using assms st valid pre head
    by (auto simp: attachments_createAttachment_def attempt_eq andthen_eq external_def Let_def
        split: if_splits)
  define mime where "mime = (if ct \<noteq> [] \<and> ToLower ct \<noteq> ToLower (ai_mime_type inp) then ct else ai_mime_type inp)"
  have "exec (CreateAttachment msg uid (ai_object_key inp) (ai_file_name inp) mime (ai_size_bytes inp)) s =
      (Inr a, s')"
    using assms st valid pre head n scan
    by (simp add: attachments_createAttachment_def attempt_def andthen_def external_def Let_def mime_def)
  from exec_insert_Inr [OF this [unfolded CreateAttachment_def]]
  have a: "attachments (db s') = attachments (db s) @ [a] \<and> at_object_key a = ai_object_key inp \<and>
      at_size_bytes a = ai_size_bytes inp \<and> at_mime_type a = mime \<and> at_uploader_id a = uid \<and>
      at_message_id a = msg"
    by simp
  then show ?thesis using st valid pre head n scan
    by (auto simp: validateUpload_def Let_def mime_def split: if_splits)
qed

definition sample_store :: "string \<Rightarrow> object_store" where
  "sample_store ct =
     \<lparr>PresignPut = (\<lambda>k c n. Inr (''https://s3'', 60)), HeadObject = (\<lambda>k. Inr (10, ct)),
      GetObject = (\<lambda>k. Inr (''body'', 10, ct))\<rparr>"

definition sample_attachments :: "string \<Rightarrow> attachments_service" where
  "sample_attachments ct =
     \<lparr>at_store = Some (sample_store ct), at_scan = noop_scan, at_access = (\<lambda>_ _ _. ret ()),
      at_maxBytes = 1000\<rparr>"

definition sample_message :: world where
  "sample_message = sample\<lparr>db := sample_db\<lparr>messages :=
     [\<lparr>m_id = 5, m_channel_id = 10, m_sender_id = 1, m_content = ''hi'', m_created_at = 0\<rparr>]\<rparr>\<rparr>"

theorem createAttachment_checks_witness:
  "\<exists>a s'. attachments_createAttachment (sample_attachments ''image/png'') 5 1
      \<lparr>ai_object_key = ''uploads/1/u/cat.png'', ai_file_name = ''cat.png'',
       ai_mime_type = ''image/png'', ai_size_bytes = 10\<rparr> sample_message = (Inr a, s') \<and>
    has_prefix (upload_prefix 1) (at_object_key a)"
proof -
  let ?run = "attachments_createAttachment (sample_attachments ''image/png'') 5 1
      \<lparr>ai_object_key = ''uploads/1/u/cat.png'', ai_file_name = ''cat.png'',
       ai_mime_type = ''image/png'', ai_size_bytes = 10\<rparr> sample_message"
  have "case ?run of (Inr a, s') \<Rightarrow> True | _ \<Rightarrow> False" by code_simp
  then obtain a s' where "?run = (Inr a, s')" by (auto split: prod.splits sum.splits)
  then show ?thesis using createAttachment_checks by blast
qed

text \<open>the allow list covers the declared type only. When the store reports another content type,
that type replaces the declared one after the check, so an attachment of a type that is not allowed
is stored.\<close>
theorem stored_type_bypasses_allow_list:
  "let (r, s') = attachments_createAttachment (sample_attachments ''text/html'') 5 1
      \<lparr>ai_object_key = ''uploads/1/u/cat.png'', ai_file_name = ''cat.png'',
       ai_mime_type = ''image/png'', ai_size_bytes = 10\<rparr> sample_message
   in map at_mime_type (attachments (db s')) = [''text/html''] \<and>
      validateUpload ''cat.png'' ''text/html'' 10 1000 = Some (EAttachments Att_MimeNotAllowed)"
  by code_simp

end
