(* ===== verification/Chat.thy ===== *)
theory Chat
  imports Channels Notifications Billing_Plans Attachments
begin

text \<open>
  \<open>internal/chat/service.go\<close>: sending and listing messages. The interfaces the service calls
  (\<open>Notifier\<close>, \<open>AttachmentAttacher\<close>, \<open>MessageBilling\<close>, \<open>MessageBroadcaster\<close>) are the fields of
  \<open>chat_service\<close>, each of which may be nil; the locale \<open>chat_deps\<close> states what the client relies
  on, and \<open>chat_wired\<close> is the service that \<open>main.go\<close> assembles.
\<close>

record message_billing =
  CheckMessageQuotaByWorkspace :: "int \<Rightarrow> unit prog"
  RecordMessageByWorkspaceID :: "int \<Rightarrow> unit prog"

record chat_service =
  cs_notifier :: "(int \<Rightarrow> int \<Rightarrow> int \<Rightarrow> message_row \<Rightarrow> int option \<Rightarrow> string \<Rightarrow> unit prog) option"
  cs_attacher :: "(int \<Rightarrow> int \<Rightarrow> message_row \<Rightarrow> int \<Rightarrow> attachment_input list \<Rightarrow> unit prog) option"
  cs_billing :: "message_billing option"
  cs_broadcaster :: "(int \<Rightarrow> int \<Rightarrow> message_row \<Rightarrow> effect) option"

definition MaxMessageLength :: nat where
  "MaxMessageLength = 4000"

definition normalizeContent :: "string \<Rightarrow> bool \<Rightarrow> goerr + string" where
  "normalizeContent raw allow_empty =
     (let content = TrimSpace raw in
      if content = [] \<and> \<not> allow_empty then Inl (EChat Chat_EmptyContent)
      else if length content > MaxMessageLength then Inl (EChat Chat_MessageTooLong)
      else Inr content)"

definition chat_assertChannelAccess :: "int \<Rightarrow> int \<Rightarrow> int \<Rightarrow> unit prog" where
  "chat_assertChannelAccess ws ch uid =
     andthen (exec (IsWorkspaceMember ws uid)) (\<lambda>is_ws_member.
     if \<not> is_ws_member then fail (EChat Chat_NotWorkspaceMember)
     else attempt (exec (GetChannelInWorkspace ch ws))
            (\<lambda>e. fail (no_rows_as (EChat Chat_ChannelNotFound) e)) (\<lambda>_.
     andthen (exec (IsChannelMember ch uid)) (\<lambda>is_member.
     if \<not> is_member then fail (EChat Chat_NotMember) else ret ())))"

definition chat_saveMessage :: "int \<Rightarrow> int \<Rightarrow> string \<Rightarrow> message_row prog" where
  "chat_saveMessage ch sender content = exec (CreateMessage ch sender content)"

text \<open>The checks before the message is saved.\<close>

definition chat_precheck :: "chat_service \<Rightarrow> int \<Rightarrow> int \<Rightarrow> int \<Rightarrow> unit prog" where
  "chat_precheck sv ws ch sender =
     andthen (chat_assertChannelAccess ws ch sender) (\<lambda>_.
     attempt (exec (GetChannelInWorkspace ch ws))
       (\<lambda>e. fail (no_rows_as (EChat Chat_ChannelNotFound) e)) (\<lambda>c.
     attempt (authz_Can ws sender ActionSendMessage (MessageOptions ch (ch_is_read_only c)))
       (\<lambda>e. fail (mapAuthzError (EChat Chat_Forbidden) e)) (\<lambda>_.
     case cs_billing sv of
       None \<Rightarrow> ret ()
     | Some b \<Rightarrow> CheckMessageQuotaByWorkspace b ws)))"

text \<open>The steps after the message is saved; none of them can fail the request.\<close>

definition chat_after_save ::
  "chat_service \<Rightarrow> int \<Rightarrow> int \<Rightarrow> int \<Rightarrow> message_row \<Rightarrow> int option \<Rightarrow> attachment_input list \<Rightarrow> unit prog"
where
  "chat_after_save sv ws ch sender m reply_to atts =
     andthen (case cs_billing sv of
                None \<Rightarrow> ret () | Some b \<Rightarrow> ignoring (RecordMessageByWorkspaceID b ws)) (\<lambda>_.
     andthen (case cs_broadcaster sv of None \<Rightarrow> ret () | Some publish \<Rightarrow> emit (publish ws ch m)) (\<lambda>_.
     andthen (case cs_notifier sv of
                None \<Rightarrow> ret ()
              | Some notify \<Rightarrow>
                  attempt (exec (GetUserByID sender)) (\<lambda>_. ret ())
                    (\<lambda>u. ignoring (notify ws ch sender m reply_to (u_username u)))) (\<lambda>_.
     case cs_attacher sv of
       None \<Rightarrow> ret ()
     | Some attach \<Rightarrow> if atts \<noteq> [] then ignoring (attach ws ch m sender atts) else ret ())))"

definition chat_SendMessage ::
  "chat_service \<Rightarrow> int \<Rightarrow> int \<Rightarrow> int \<Rightarrow> string \<Rightarrow> int option \<Rightarrow> attachment_input list \<Rightarrow> message_row prog"
where
  "chat_SendMessage sv ws ch sender content reply_to atts =
     (case normalizeContent content (atts \<noteq> []) of
        Inl e \<Rightarrow> fail e
      | Inr normalized \<Rightarrow>
          andthen (chat_precheck sv ws ch sender) (\<lambda>_.
          andthen (chat_saveMessage ch sender normalized) (\<lambda>m.
          andthen (chat_after_save sv ws ch sender m reply_to atts) (\<lambda>_.
          ret m))))"

definition chat_ListMessages ::
  "int \<Rightarrow> int \<Rightarrow> int \<Rightarrow> int \<Rightarrow> int \<Rightarrow> (message_row \<times> string) list prog" where
  "chat_ListMessages ws ch uid limit offset =
     andthen (chat_assertChannelAccess ws ch uid) (\<lambda>_.
     exec (GetChannelMessages ch (clamp_page 50 100 limit) (if offset < 0 then 0 else offset)))"

definition MessageNewPayload :: "message_row \<Rightarrow> gomap" where
  "MessageNewPayload m =
     [(''id'', VInt (m_id m)), (''sender_id'', VInt (m_sender_id m)),
      (''content'', VStr (m_content m)), (''created_at'', VTime (m_created_at m))]"

definition PublishMessageNew :: "int \<Rightarrow> int \<Rightarrow> message_row \<Rightarrow> effect" where
  "PublishMessageNew ws ch m = Publish ''message.new'' ws ch (MessageNewPayload m)"

definition attachments_wired :: "object_store option \<Rightarrow> int \<Rightarrow> attachments_service" where
  "attachments_wired store max_bytes =
     \<lparr>at_store = store, at_scan = noop_scan, at_access = chat_assertChannelAccess,
      at_maxBytes = max_bytes\<rparr>"

definition chat_wired :: "object_store option \<Rightarrow> int \<Rightarrow> chat_service" where
  "chat_wired store max_bytes =
     \<lparr>cs_notifier = Some (notifications_HandleMessageCreated notifications_wired),
      cs_attacher = Some (attachments_AttachOnMessageCreate (attachments_wired store max_bytes)),
      cs_billing = Some \<lparr>CheckMessageQuotaByWorkspace = billing_CheckMessageQuotaByWorkspace,
                         RecordMessageByWorkspaceID = billing_RecordMessageByWorkspaceID\<rparr>,
      cs_broadcaster = Some PublishMessageNew\<rparr>"

section \<open>Reads\<close>

definition chat_access_result :: "db \<Rightarrow> int \<Rightarrow> int \<Rightarrow> int \<Rightarrow> goerr + unit" where
  "chat_access_result d ws ch uid =
     (if \<not> in_workspace d ws uid then Inl (EChat Chat_NotWorkspaceMember)
      else if channel_of d ws ch = None then Inl (EChat Chat_ChannelNotFound)
      else if \<not> in_channel d ch uid then Inl (EChat Chat_NotMember) else Inr ())"

lemma reader_chat_access [readers]:
  "reader (chat_assertChannelAccess ws ch uid) (\<lambda>d. chat_access_result d ws ch uid)"
  unfolding chat_assertChannelAccess_def
  by (rule reader_cong, (rule readers | simp add: no_rows_as_def)+)
     (auto simp: chat_access_result_def no_rows_as_def split: option.splits)

text \<open>Who may post, as a fact of the database.\<close>

definition may_post :: "db \<Rightarrow> int \<Rightarrow> int \<Rightarrow> int \<Rightarrow> bool" where
  "may_post d ws ch uid \<longleftrightarrow>
     in_workspace d ws uid \<and> in_channel d ch uid \<and>
     (\<exists>c role. channel_of d ws ch = Some c \<and> role_of d ws uid = Some role \<and>
        (ch_is_read_only c \<longrightarrow>
           role \<in> {RoleOwner, RoleAdmin, RoleModerator} \<or> channel_role_of d ch uid = Some RoleModerator))"

lemma send_allowed:
  "can_result d ws uid ActionSendMessage (MessageOptions ch ro) = Inr () \<longleftrightarrow>
    (\<exists>role. role_of d ws uid = Some role \<and>
       (ro \<longrightarrow> role \<in> {RoleOwner, RoleAdmin, RoleModerator} \<or> channel_role_of d ch uid = Some RoleModerator))"
  by (cases "role_of d ws uid"; cases ro; cases "channel_role_of d ch uid")
     (simp_all add: can_result_def effective_options_def MessageOptions_def)

section \<open>The interfaces\<close>

locale chat_deps =
  fixes sv :: chat_service
  assumes notifier_leaves:
      "cs_notifier sv = Some n \<Longrightarrow> leaves sans_notifications (n ws ch sender m reply_to name)"
    and attacher_leaves: "cs_attacher sv = Some a \<Longrightarrow>
      leaves (\<lambda>d. d\<lparr>attachments := [], nextid := (nextid d)(TAttachments := 0)\<rparr>) (a ws ch m uid atts)"
    and check_leaves:
      "cs_billing sv = Some b \<Longrightarrow> leaves (\<lambda>d. (messages d, channels d, channel_members d, workspace_members d))
         (CheckMessageQuotaByWorkspace b ws)"
    and record_leaves: "cs_billing sv = Some b \<Longrightarrow> leaves messages (RecordMessageByWorkspaceID b ws)"
begin

lemma notify_step_leaves:
  "leaves messages (case cs_notifier sv of
     None \<Rightarrow> ret ()
   | Some notify \<Rightarrow> attempt (exec (GetUserByID sender)) (\<lambda>_. ret ())
       (\<lambda>u. ignoring (notify ws ch sender m reply_to (u_username u))))"
proof (cases "cs_notifier sv")
  case (Some n)
  have "leaves messages (n ws ch sender m reply_to name)" for name
    by (rule leaves_fun [OF notifier_leaves [OF Some]], erule sans_notifications_cong(7))
  then show ?thesis
    unfolding Some option.case GetUserByID_def
    by (intro leaves_attempt leaves_select_one leaves_ret leaves_ignoring)
qed (simp add: leaves_ret)

lemma attach_step_leaves:
  "leaves messages (case cs_attacher sv of
     None \<Rightarrow> ret ()
   | Some attach \<Rightarrow> if atts \<noteq> [] then ignoring (attach ws ch m sender atts) else ret ())"
proof (cases "cs_attacher sv")
  case (Some a)
  have "leaves messages (a ws ch m sender atts)"
  proof (rule leaves_fun [OF attacher_leaves [OF Some]])
    fix d d' :: db
    assume "d\<lparr>attachments := [], nextid := (nextid d)(TAttachments := 0)\<rparr> =
        d'\<lparr>attachments := [], nextid := (nextid d')(TAttachments := 0)\<rparr>"
    then show "messages d = messages d'" by (cases d; cases d') simp
  qed
  then show ?thesis by (simp add: Some leaves_ret leaves_ignoring)
qed (simp add: leaves_ret)

lemma record_step_leaves:
  "leaves messages (case cs_billing sv of
     None \<Rightarrow> ret () | Some b \<Rightarrow> ignoring (RecordMessageByWorkspaceID b ws))"
  by (cases "cs_billing sv") (simp_all add: leaves_ret leaves_ignoring record_leaves)

lemma publish_step_leaves:
  "leaves f (case cs_broadcaster sv of None \<Rightarrow> ret () | Some publish \<Rightarrow> emit (publish ws ch m))"
  by (cases "cs_broadcaster sv") (simp_all add: leaves_ret leaves_emit)

lemma after_save_leaves: "leaves messages (chat_after_save sv ws ch sender m reply_to atts)"
  unfolding chat_after_save_def
  by (intro leaves_andthen record_step_leaves publish_step_leaves notify_step_leaves attach_step_leaves)

lemma quota_step_leaves:
  "leaves messages (case cs_billing sv of None \<Rightarrow> ret () | Some b \<Rightarrow> CheckMessageQuotaByWorkspace b ws)"
proof (cases "cs_billing sv")
  case (Some b)
  have "leaves messages (CheckMessageQuotaByWorkspace b ws)"
    by (rule leaves_fun [OF check_leaves [OF Some]]) simp
  then show ?thesis by (simp add: Some)
qed (simp add: leaves_ret)

lemma precheck_leaves: "leaves messages (chat_precheck sv ws ch sender)"
  unfolding chat_precheck_def GetChannelInWorkspace_def
  by (intro leaves_andthen leaves_attempt leaves_fail leaves_select_one quota_step_leaves
      reader_leaves [OF reader_chat_access] reader_leaves [OF reader_Can])

lemma precheck_success:
  assumes "chat_precheck sv ws ch sender s = (Inr (), s1)"
  shows "may_post (db s) ws ch sender"
  using assms reader_chat_access unfolding chat_precheck_def
proof (cases rule: andthen_readerE)
  case (got x s2)
  note access = this
  from got(2) reader_GetChannelInWorkspace show ?thesis
  proof (cases rule: attempt_readerE)
    case (got c s3)
    note chan = this
    from got(2) reader_Can show ?thesis
    proof (cases rule: attempt_readerE)
      case (got y s4)
      then have "can_result (db s) ws sender ActionSendMessage (MessageOptions ch (ch_is_read_only c)) = Inr ()"
        using access(3) chan(3) by simp
      moreover have "channel_of (db s) ws ch = Some c"
        using chan(1) access(3) by (auto split: option.splits)
      ultimately show ?thesis
        using access(1) unfolding may_post_def send_allowed chat_access_result_def
        by (auto split: if_splits)
    qed simp
  qed simp
qed simp

lemma after_save_total: "never_fails (chat_after_save sv ws ch sender m reply_to atts)"
  unfolding chat_after_save_def by (intro total)

lemma SendMessage_posts:
  assumes "chat_SendMessage sv ws ch sender content reply_to atts s = (Inr m, s')"
  shows "may_post (db s) ws ch sender \<and> messages (db s') = messages (db s) @ [m] \<and>
    m_channel_id m = ch \<and> m_sender_id m = sender \<and> m_content m = TrimSpace content \<and>
    length (m_content m) \<le> MaxMessageLength \<and> (m_content m = [] \<longrightarrow> atts \<noteq> [])"
proof -
  obtain c where c: "normalizeContent content (atts \<noteq> []) = Inr c"
    using assms by (auto simp: chat_SendMessage_def split: sum.splits)
  then have cc: "c = TrimSpace content" "length c \<le> MaxMessageLength" "c = [] \<longrightarrow> atts \<noteq> []"
    by (auto simp: normalizeContent_def Let_def split: if_splits)
  obtain s1 s2 s3 where pre: "chat_precheck sv ws ch sender s = (Inr (), s1)"
    and save: "exec (CreateMessage ch sender c) s1 = (Inr m, s2)"
    and after: "chat_after_save sv ws ch sender m reply_to atts s2 = (Inr (), s3)" and s': "s' = s3"
    using assms c by (auto simp: chat_SendMessage_def chat_saveMessage_def andthen_Inr)
  have "messages (db s2) = messages (db s1) @ [m] \<and> m_channel_id m = ch \<and> m_sender_id m = sender \<and>
      m_content m = c"
    using exec_insert_Inr [OF save [unfolded CreateMessage_def]] by simp
  then show ?thesis
    using precheck_success [OF pre] leaves_run [OF precheck_leaves pre]
      leaves_run [OF after_save_leaves after] s' cc by simp
qed

lemma SendMessage_error:
  assumes "chat_SendMessage sv ws ch sender content reply_to atts s = (Inl e, s')" and "e \<noteq> EConn"
  shows "messages (db s') = messages (db s)"
proof (cases "normalizeContent content (atts \<noteq> [])")
  case (Inl e')
  then show ?thesis using assms by (simp add: chat_SendMessage_def)
next
  case (Inr c)
  obtain v s1 where pre: "chat_precheck sv ws ch sender s = (v, s1)" by (rule prod.exhaust)
  have same: "messages (db s1) = messages (db s)" by (rule leaves_run [OF precheck_leaves pre])
  obtain v2 s2 where save: "exec (CreateMessage ch sender c) s1 = (v2, s2)" by (rule prod.exhaust)
  show ?thesis
  proof (cases v)
    case (Inl e')
    then show ?thesis using assms(1) pre \<open>normalizeContent _ _ = Inr c\<close> same
      by (auto simp: chat_SendMessage_def andthen_def attempt_def)
  next
    case r: (Inr u)
    show ?thesis
    proof (cases v2)
      case (Inl e')
      then have "e' = e" "s' = s2"
        using assms(1) pre r save \<open>normalizeContent _ _ = Inr c\<close>
        by (auto simp: chat_SendMessage_def andthen_def attempt_def chat_saveMessage_def)
      then have "CreateMessage ch sender c (now s2) (db s1) = (Inl e, db s2)"
        using exec_error [of "CreateMessage ch sender c" s1 e s2] save Inl assms(2) by simp
      then have "messages (db s2) = messages (db s1)"
        unfolding CreateMessage_def by (drule_tac insert_error) simp
      then show ?thesis using same \<open>s' = s2\<close> by simp
    next
      case (Inr m)
      obtain s3 where "chat_after_save sv ws ch sender m reply_to atts s2 = (Inr (), s3)"
        using after_save_total [of ws ch sender m reply_to atts] by (auto simp: never_fails_def)
      then show ?thesis using assms(1) pre r save Inr \<open>normalizeContent _ _ = Inr c\<close>
        by (simp add: chat_SendMessage_def andthen_def attempt_def chat_saveMessage_def ret_def)
    qed
  qed
qed

end

section \<open>The wired service\<close>

definition sans_attachments :: "db \<Rightarrow> db" where
  "sans_attachments d = d\<lparr>attachments := [], nextid := (nextid d)(TAttachments := 0)\<rparr>"

lemma createAttachment_leaves: "leaves sans_attachments (attachments_createAttachment sv msg uid inp)"
  unfolding attachments_createAttachment_def Let_def
  by (intro read_only, rule leaves_exec)
     (auto simp: CreateAttachment_def insert_into_def Let_def sans_attachments_def split: option.splits)

lemma create_all_leaves: "leaves sans_attachments (create_all sv msg uid inputs)"
  by (induction inputs) (auto intro!: leaves_ret leaves_andthen createAttachment_leaves)

lemma AttachOnMessageCreate_leaves:
  "leaves sans_attachments (attachments_AttachOnMessageCreate sv ws ch m uid inputs)"
  unfolding attachments_AttachOnMessageCreate_def by (intro read_only create_all_leaves)

interpretation wired_chat: chat_deps "chat_wired store max_bytes"
proof unfold_locales
  fix n ws ch sender m reply_to name
  assume "cs_notifier (chat_wired store max_bytes) = Some n"
  then show "leaves sans_notifications (n ws ch sender m reply_to name)"
    by (auto simp: chat_wired_def intro: wired_senders.HandleMessageCreated_leaves)
next
  fix a ws ch m uid atts
  assume "cs_attacher (chat_wired store max_bytes) = Some a"
  then show "leaves (\<lambda>d. d\<lparr>attachments := [], nextid := (nextid d)(TAttachments := 0)\<rparr>) (a ws ch m uid atts)"
    using AttachOnMessageCreate_leaves [unfolded sans_attachments_def] by (auto simp: chat_wired_def)
next
  fix b ws
  assume "cs_billing (chat_wired store max_bytes) = Some b"
  then show "leaves (\<lambda>d. (messages d, channels d, channel_members d, workspace_members d))
      (CheckMessageQuotaByWorkspace b ws)"
    by (auto simp: chat_wired_def intro!: leaves_fun [OF metering_leaves(1)] dest: sans_metering_cong)
next
  fix b ws
  assume "cs_billing (chat_wired store max_bytes) = Some b"
  then show "leaves messages (RecordMessageByWorkspaceID b ws)"
    by (auto simp: chat_wired_def intro!: leaves_fun [OF metering_leaves(2)] dest: sans_metering_cong)
qed

section \<open>Metering of a stream of messages\<close>

text \<open>The tables the quota depends on.\<close>

definition quota_view ::
  "db \<Rightarrow> app_row list \<times> plan_row list \<times> subscription_row list \<times> usage_row list" where
  "quota_view d = (apps d, plans d, user_subscriptions d, usage_counters d)"

lemma quota_view_cong:
  "sans_notifications d = sans_notifications d' \<Longrightarrow> quota_view d = quota_view d'"
  "sans_attachments d = sans_attachments d' \<Longrightarrow> quota_view d = quota_view d'"
  by (cases d; cases d'; simp add: sans_notifications_def sans_attachments_def quota_view_def)+

lemma CreateMessage_leaves: "leaves quota_view (exec (CreateMessage ch sender content))"
  by (rule leaves_exec)
     (auto simp: CreateMessage_def insert_into_def Let_def quota_view_def split: option.splits)

lemma create_all_calm [calm]: "keeps_quiet (create_all sv msg uid inputs)"
  by (induction inputs)
     (auto simp: attachments_createAttachment_def Let_def intro!: calm split: option.splits)

lemma attach_calm [calm]: "keeps_quiet (attachments_AttachOnMessageCreate sv ws ch m uid inputs)"
  unfolding attachments_AttachOnMessageCreate_def by (intro calm)

lemma chat_calm [calm]:
  "keeps_quiet (chat_after_save (chat_wired store mb) ws ch sender m reply_to atts)"
  by (simp add: chat_after_save_def chat_wired_def, intro calm conjI impI)

text \<open>The quota part of the database while messages are sent in a workspace.\<close>

definition metered :: "world \<Rightarrow> int \<Rightarrow> app_row \<Rightarrow> subscription_row \<Rightarrow> plan_row \<Rightarrow> bool" where
  "metered s ws a sub plan \<longleftrightarrow>
     tape s = [] \<and> billing_ok (db s) \<and> app_of_workspace (db s) ws = Some a \<and>
     ws \<noteq> a_sandbox_workspace_id a \<and> sub_of (db s) (a_owner_id a) = Some (sub, plan)"

definition month_usage :: "world \<Rightarrow> app_row \<Rightarrow> int" where
  "month_usage s a = owner_usage uc_messages_count (a_owner_id a) (month_of (now s)) (db s)"

lemma plan_of_cong: "plans d = plans d' \<Longrightarrow> plan_of d = plan_of d'"
  by (simp add: plan_of_def fun_eq_iff)

lemma sub_of_cong:
  "plans d = plans d' \<Longrightarrow> user_subscriptions d = user_subscriptions d' \<Longrightarrow> sub_of d = sub_of d'"
  using plan_of_cong [of d d'] by (simp add: sub_of_def fun_eq_iff split: option.split)

lemma quota_view_determines:
  assumes "quota_view d = quota_view d'"
  shows "billing_ok d = billing_ok d'" "app_of_workspace d = app_of_workspace d'" "sub_of d = sub_of d'"
    "owner_usage f uid m d = owner_usage f uid m d'"
  using assms sub_of_cong [of d d']
  by (auto simp: quota_view_def billing_ok_def app_of_workspace_def owner_usage_def fun_eq_iff)

lemma metered_cong:
  assumes "metered s ws a sub plan" and "quota_view (db s') = quota_view (db s)" and "tape s' = []"
    and "now s' = now s"
  shows "metered s' ws a sub plan" "month_usage s' a = month_usage s a"
  using assms quota_view_determines [OF assms(2)] by (simp_all add: metered_def month_usage_def)

lemma precheck_metered:
  assumes "metered s ws a sub plan"
  shows "\<exists>v. chat_precheck (chat_wired store mb) ws ch sender s = (v, s) \<and>
    (v = Inr () \<longrightarrow> quota_result (s_status sub) (pl_messages_limit plan) (month_usage s a) = Inr ())"
proof -
  have q: "tape s = []" using assms by (simp add: metered_def)
  have check: "billing_CheckMessageQuotaByWorkspace ws s =
      (quota_result (s_status sub) (pl_messages_limit plan) (month_usage s a), s)"
    using CheckMessageQuota_quiet assms by (simp add: metered_def month_usage_def)
  show ?thesis
    by (auto simp: chat_precheck_def andthen_def attempt_def chat_wired_def check fail_def
        reader_quiet [OF reader_chat_access q] reader_quiet [OF reader_GetChannelInWorkspace q]
        reader_quiet [OF reader_Can q] split: sum.splits option.splits)
qed

lemma record_metered:
  assumes "metered s ws a sub plan" and "a \<in> set (apps (db s))"
  shows "metered (snd (billing_RecordMessageByWorkspaceID ws s)) ws a sub plan"
    and "month_usage (snd (billing_RecordMessageByWorkspaceID ws s)) a = month_usage s a + 1"
proof -
  have h: "tape s = []" "app_of_workspace (db s) ws = Some a" "ws \<noteq> a_sandbox_workspace_id a"
    "billing_ok (db s)" "sub_of (db s) (a_owner_id a) = Some (sub, plan)"
    using assms(1) by (simp_all add: metered_def)
  note r = RecordMessage_quiet [OF h(1-3)]
  show "month_usage (snd (billing_RecordMessageByWorkspaceID ws s)) a = month_usage s a + 1"
    using owner_usage_upsert [OF h(4) assms(2) refl, of "now s" "month_of (now s)"]
    by (simp add: r month_usage_def)
  show "metered (snd (billing_RecordMessageByWorkspaceID ws s)) ws a sub plan"
    using h upsert_usage_ok [OF h(4)]
      sub_of_cong [of "snd (upsert_usage (a_id a) 1 0 uc_messages_count (now s) (db s))" "db s"]
    by (simp add: r metered_def app_of_workspace_def upsert_usage_other)
qed

lemma after_save_metered:
  assumes "metered s ws a sub plan" and "a \<in> set (apps (db s))"
    and "chat_after_save (chat_wired store mb) ws ch sender m reply_to atts s = (r, s')"
  shows "metered s' ws a sub plan \<and> month_usage s' a = month_usage s a + 1"
proof -
  define rest where "rest = andthen (emit (PublishMessageNew ws ch m)) (\<lambda>_.
     andthen (attempt (exec (GetUserByID sender)) (\<lambda>_. ret ())
        (\<lambda>u. ignoring (notifications_HandleMessageCreated notifications_wired ws ch sender m reply_to
           (u_username u)))) (\<lambda>_.
     if atts \<noteq> []
     then ignoring (attachments_AttachOnMessageCreate (attachments_wired store mb) ws ch m sender atts)
     else ret ()))"
  obtain v s1 where rec: "billing_RecordMessageByWorkspaceID ws s = (v, s1)" by (rule prod.exhaust)
  have s1: "metered s1 ws a sub plan" "month_usage s1 a = month_usage s a + 1"
    using record_metered [OF assms(1,2)] rec by simp_all
  have "chat_after_save (chat_wired store mb) ws ch sender m reply_to atts s = rest s1"
    by (simp add: chat_after_save_def chat_wired_def andthen_ignoring rec rest_def)
  then have run: "rest s1 = (r, s')" using assms(3) by simp
  have lv: "leaves quota_view rest"
    unfolding rest_def GetUserByID_def
    by (intro leaves_andthen leaves_emit leaves_attempt leaves_select_one leaves_ret leaves_ignoring
        leaves_if leaves_fun [OF wired_senders.HandleMessageCreated_leaves quota_view_cong(1)]
        leaves_fun [OF AttachOnMessageCreate_leaves quota_view_cong(2)])
  have kq: "keeps_quiet rest" unfolding rest_def by (intro calm)
  have "tape s1 = []" using s1(1) by (simp add: metered_def)
  then show ?thesis
    using leaves_run [OF lv run] keeps_quiet_run [OF kq run] s1 metered_cong [OF s1(1), of s']
    by simp
qed

lemma SendMessage_metered:
  assumes "metered s ws a sub plan" and "a \<in> set (apps (db s))"
    and "chat_SendMessage (chat_wired store mb) ws ch sender content reply_to atts s = (r, s')"
  shows "metered s' ws a sub plan \<and> a \<in> set (apps (db s')) \<and>
    (case r of
       Inl _ \<Rightarrow> month_usage s' a = month_usage s a
     | Inr _ \<Rightarrow> month_usage s' a = month_usage s a + 1 \<and>
         quota_result (s_status sub) (pl_messages_limit plan) (month_usage s a) = Inr ())"
proof (cases "normalizeContent content (atts \<noteq> [])")
  case (Inl e)
  then show ?thesis using assms by (auto simp: chat_SendMessage_def)
next
  case (Inr c)
  obtain v where pre: "chat_precheck (chat_wired store mb) ws ch sender s = (v, s)"
    and quota: "v = Inr () \<longrightarrow> quota_result (s_status sub) (pl_messages_limit plan) (month_usage s a) = Inr ()"
    using precheck_metered [OF assms(1)] by blast
  show ?thesis
  proof (cases v)
    case (Inl e)
    then show ?thesis using assms pre \<open>normalizeContent _ _ = Inr c\<close>
      by (auto simp: chat_SendMessage_def andthen_def attempt_def)
  next
    case v: (Inr u)
    obtain w s1 where save: "exec (CreateMessage ch sender c) s = (w, s1)" by (rule prod.exhaust)
    have q1: "quota_view (db s1) = quota_view (db s)"
      by (rule leaves_run [OF CreateMessage_leaves save])
    have t1: "tape s1 = [] \<and> now s1 = now s"
      using keeps_quiet_run [OF keeps_quiet_exec save] assms(1) by (simp add: metered_def)
    have m1: "metered s1 ws a sub plan" "month_usage s1 a = month_usage s a"
      using metered_cong [OF assms(1) q1] t1 by simp_all
    have a1: "a \<in> set (apps (db s1))" using q1 assms(2) by (simp add: quota_view_def)
    show ?thesis
    proof (cases w)
      case (Inl e)
      then show ?thesis using assms(3) pre v save \<open>normalizeContent _ _ = Inr c\<close> m1 a1
        by (auto simp: chat_SendMessage_def andthen_def attempt_def chat_saveMessage_def)
    next
      case (Inr m)
      obtain x s2 where after: "chat_after_save (chat_wired store mb) ws ch sender m reply_to atts s1 = (x, s2)"
        by (rule prod.exhaust)
      obtain y where "x = Inr y"
        using wired_chat.after_save_total [of store mb ws ch sender m reply_to atts] after
        by (metis never_fails_run)
      then have "r = Inr m" "s' = s2"
        using assms(3) pre v save \<open>normalizeContent _ _ = Inr c\<close> Inr after
        by (auto simp: chat_SendMessage_def andthen_def attempt_def chat_saveMessage_def ret_def)
      then show ?thesis
        using after_save_metered [OF m1(1) a1 after] m1(2) quota v
        by (auto simp: metered_def app_of_workspace_def dest: find_SomeD)
    qed
  qed
qed

text \<open>A batch of requests to one workspace, and the number that succeeded.\<close>

record send_request =
  sr_channel :: int
  sr_sender :: int
  sr_content :: string
  sr_reply :: "int option"
  sr_attachments :: "attachment_input list"

fun send_all :: "chat_service \<Rightarrow> int \<Rightarrow> send_request list \<Rightarrow> int prog" where
  "send_all sv ws [] = ret 0"
| "send_all sv ws (q # qs) =
     attempt (chat_SendMessage sv ws (sr_channel q) (sr_sender q) (sr_content q) (sr_reply q)
               (sr_attachments q))
       (\<lambda>_. send_all sv ws qs)
       (\<lambda>_. andthen (send_all sv ws qs) (\<lambda>n. ret (n + 1)))"

lemma send_all_metered:
  "metered s ws a sub plan \<Longrightarrow> a \<in> set (apps (db s)) \<Longrightarrow>
    \<exists>n s'. send_all (chat_wired store mb) ws qs s = (Inr n, s') \<and> 0 \<le> n \<and>
      month_usage s' a = month_usage s a + n \<and>
      (0 < pl_messages_limit plan \<and> month_usage s a \<le> pl_messages_limit plan \<longrightarrow>
         month_usage s' a \<le> pl_messages_limit plan) \<and>
      (\<not> statusAllowsUsage (s_status sub) \<longrightarrow> n = 0)"
proof (induction qs arbitrary: s)
  case Nil
  then show ?case by (auto simp: ret_def)
next
  case (Cons q qs)
  obtain r s1 where run: "chat_SendMessage (chat_wired store mb) ws (sr_channel q) (sr_sender q)
      (sr_content q) (sr_reply q) (sr_attachments q) s = (r, s1)" by (rule prod.exhaust)
  note one = SendMessage_metered [OF Cons.prems run]
  then obtain n s2 where rest: "send_all (chat_wired store mb) ws qs s1 = (Inr n, s2)" "0 \<le> n"
    "month_usage s2 a = month_usage s1 a + n"
    "0 < pl_messages_limit plan \<and> month_usage s1 a \<le> pl_messages_limit plan \<longrightarrow>
       month_usage s2 a \<le> pl_messages_limit plan"
    "\<not> statusAllowsUsage (s_status sub) \<longrightarrow> n = 0"
    using Cons.IH [of s1] by blast
  show ?case
  proof (cases r)
    case (Inl e)
    then show ?thesis using run rest one by (auto simp: attempt_def)
  next
    case (Inr m)
    then have "send_all (chat_wired store mb) ws (q # qs) s = (Inr (n + 1), s2)"
      using run rest(1) by (simp add: attempt_def andthen_def ret_def)
    then show ?thesis using rest one Inr
      by (auto simp: quota_result_def split: if_splits)
  qed
qed

section \<open>Properties\<close>

text \<open>C1: what a successful \<open>SendMessage\<close> implies, whatever its statements met: the sender may post
in the channel (member of the workspace and of the channel, and in a read-only channel at least
moderator, there or in the workspace), and exactly one message was stored, in that channel, from
that sender, with the trimmed content, which is not too long and only empty when files come with
it.\<close>
theorem SendMessage_success:
  assumes "chat_SendMessage (chat_wired store mb) ws ch sender content reply_to atts s = (Inr m, s')"
  shows "may_post (db s) ws ch sender \<and> messages (db s') = messages (db s) @ [m] \<and>
    m_channel_id m = ch \<and> m_sender_id m = sender \<and> m_content m = TrimSpace content \<and>
    length (m_content m) \<le> MaxMessageLength \<and> (m_content m = [] \<longrightarrow> atts \<noteq> [])"
  by (rule wired_chat.SendMessage_posts [OF assms])

theorem SendMessage_success_witness:
  "\<exists>m s'. chat_SendMessage (chat_wired None 0) 1 10 2 '' hello @carol '' None [] sample = (Inr m, s') \<and>
    messages (db s') = messages sample_db @ [m] \<and> m_content m = ''hello @carol''"
proof -
  let ?run = "chat_SendMessage (chat_wired None 0) 1 10 2 '' hello @carol '' None [] sample"
  have "case ?run of (Inr m, s') \<Rightarrow> True | _ \<Rightarrow> False" by code_simp
  then obtain m s' where "?run = (Inr m, s')" by (auto split: prod.splits sum.splits)
  moreover have "TrimSpace '' hello @carol '' = ''hello @carol''" by code_simp
  ultimately show ?thesis using SendMessage_success by (metis sample_quiet(3))
qed

text \<open>C2: a refused \<open>SendMessage\<close> stores nothing. Whatever error it returns, the table of messages is
unchanged, unless the connection failed (a lost reply to the insert leaves the message stored).\<close>
theorem SendMessage_error_stores_nothing:
  assumes "chat_SendMessage (chat_wired store mb) ws ch sender content reply_to atts s = (Inl e, s')"
    and "e \<noteq> EConn"
  shows "messages (db s') = messages (db s)"
  by (rule wired_chat.SendMessage_error [OF assms])

theorem SendMessage_error_stores_nothing_witness:
  "\<exists>s'. chat_SendMessage (chat_wired None 0) 1 11 3 ''hi'' None [] sample = (Inl (EChat Chat_Forbidden), s') \<and>
    messages (db s') = messages sample_db"
proof -
  let ?run = "chat_SendMessage (chat_wired None 0) 1 11 3 ''hi'' None [] sample"
  have "fst ?run = Inl (EChat Chat_Forbidden)" by code_simp
  then obtain s' where "?run = (Inl (EChat Chat_Forbidden), s')" by (metis prod.collapse)
  then show ?thesis
    using SendMessage_error_stores_nothing [of None 0 1 11 3 "''hi''" None "[]" sample
        "EChat Chat_Forbidden" s'] by simp
qed

text \<open>C12: the message quota holds over any stream of requests. In a quiet world, sending any list of
messages to a live workspace meters exactly the successful ones to the owner's account, never lets
the month's count pass the plan's limit, and sends nothing while the subscription is inactive.\<close>
theorem quota_holds_over_streams:
  assumes "metered s ws a sub plan" and "a \<in> set (apps (db s))"
  shows "\<exists>n s'. send_all (chat_wired store mb) ws qs s = (Inr n, s') \<and> 0 \<le> n \<and>
    month_usage s' a = month_usage s a + n \<and>
    (0 < pl_messages_limit plan \<and> month_usage s a \<le> pl_messages_limit plan \<longrightarrow>
       month_usage s' a \<le> pl_messages_limit plan) \<and>
    (\<not> statusAllowsUsage (s_status sub) \<longrightarrow> n = 0)"
  by (rule send_all_metered [OF assms])

theorem quota_holds_over_streams_witness:
  "\<exists>n s'. send_all (chat_wired None 0) 1
      (replicate 5 \<lparr>sr_channel = 10, sr_sender = 1, sr_content = ''hi'', sr_reply = None, sr_attachments = []\<rparr>)
      sample = (Inr n, s') \<and> n \<le> 2"
proof -
  obtain a where a: "app_of_workspace sample_db 1 = Some a" "a_sandbox_workspace_id a = 2" "a_owner_id a = 1"
      "a \<in> set (apps sample_db)"
    by (simp add: app_of_workspace_def sample_db_def)
  obtain sub where sub: "sub_of sample_db 1 = Some (sub, sample_plan)"
    by (simp add: sub_of_def plan_of_def sample_db_def sample_plan_def)
  have "metered sample 1 a sub sample_plan"
    using a sub sample_billing_ok by (simp add: metered_def)
  moreover have "month_usage sample a = 0"
    using a by (simp add: month_usage_def owner_usage_def sample_db_def empty_db_def sum_rows_def)
  moreover have "pl_messages_limit sample_plan = 2" by (simp add: sample_plan_def)
  ultimately show ?thesis
    using quota_holds_over_streams [of sample 1 a sub sample_plan None 0] a(4) by fastforce
qed

text \<open>history is for members and bounded. A successful \<open>ListMessages\<close> was asked by a member of the
workspace and the channel, changes nothing, and returns at most 100 messages, all of that channel.\<close>
theorem ListMessages_bounded:
  assumes "chat_ListMessages ws ch uid limit offset s = (Inr rows, s')"
  shows "in_workspace (db s) ws uid \<and> in_channel (db s) ch uid \<and> channel_of (db s) ws ch \<noteq> None \<and>
    db s' = db s \<and> length rows \<le> 100 \<and> (\<forall>(m, name)\<in>set rows. m_channel_id m = ch)"
  using assms reader_chat_access unfolding chat_ListMessages_def
proof (cases rule: andthen_readerE)
  case (got x s1)
  define found where "found =
      [(m, u_username u). m \<leftarrow> messages (db s), u \<leftarrow> users (db s), m_sender_id m = u_id u \<and> m_channel_id m = ch]"
  have rows: "rows = page (clamp_page 50 100 limit) (if offset < 0 then 0 else offset)
      (order_asc (\<lambda>(m, name). m_created_at m) found)"
    and same: "db s' = db s"
    using exec_select_Inr [OF got(2) [unfolded GetChannelMessages_def]] got(3) by (simp_all add: found_def)
  have len: "length rows \<le> nat (clamp_page 50 100 limit)" unfolding rows by (rule length_page)
  have "set rows \<subseteq> set found" unfolding rows using page_subset by fastforce
  moreover have "\<forall>(m, name)\<in>set found. m_channel_id m = ch" by (auto simp: found_def)
  ultimately have sub: "\<forall>(m, name)\<in>set rows. m_channel_id m = ch" by blast
  have "clamp_page 50 100 limit \<le> 100" by (simp add: clamp_page_def Let_def)
  then have "length rows \<le> 100" using len by linarith
  then show ?thesis using got(1) sub same by (auto simp: chat_access_result_def split: if_splits)
qed simp

theorem ListMessages_bounded_witness:
  "\<exists>rows s'. chat_ListMessages 1 10 2 500 0 sample_message = (Inr rows, s') \<and> length rows = 1 \<and>
    in_channel (db sample_message) 10 2"
proof -
  let ?run = "chat_ListMessages 1 10 2 500 0 sample_message"
  have "case ?run of (Inr rows, s') \<Rightarrow> length rows = 1 | _ \<Rightarrow> False" by code_simp
  then obtain rows s' where "?run = (Inr rows, s')" "length rows = 1"
    by (auto split: prod.splits sum.splits)
  then show ?thesis using ListMessages_bounded by blast
qed

end
