(* ===== verification/Developer_Api.thy ===== *)
theory Developer_Api
  imports Apps Accounts Chat Triples
begin

text \<open>
  \<open>internal/developerapi\<close>: what an app's server does with its API key. A request runs in the environment of its key,
  live or sandbox, and sees the app with the workspace of that environment. The broadcaster, the webhook dispatcher and
  the billing hook may be nil. Random bytes, the identifiers of \<open>uuid\<close> and bcrypt are parameters.
\<close>

record runtime_app =
  run_app :: app_row
  run_workspace :: int
  run_sandbox :: bool
  run_env :: string

text \<open>\<open>APIKeyMiddleware\<close> stores the effective app, \<open>runtimeFromContext\<close> reads it back.\<close>

definition runtime_of :: "app_row \<Rightarrow> api_key_row \<Rightarrow> runtime_app" where
  "runtime_of app key =
     (let sandbox = k_is_sandbox key; effective = EffectiveApp app sandbox in
      \<lparr>run_app = effective, run_workspace = a_workspace_id effective, run_sandbox = sandbox,
       run_env = EnvironmentFromSandbox sandbox\<rparr>)"

record app_billing =
  CheckMessageQuota :: "int \<Rightarrow> unit prog"
  RecordMessageByAppID :: "int \<Rightarrow> unit prog"

record devapi_service =
  dv_broadcast :: "(int \<Rightarrow> int \<Rightarrow> message_row \<Rightarrow> effect) option"
  dv_webhooks :: bool
  dv_billing :: "app_billing option"
  dv_sandbox :: sandbox_config

definition devapi_wired :: "sandbox_config \<Rightarrow> devapi_service" where
  "devapi_wired cfg =
     \<lparr>dv_broadcast = Some PublishMessageNew, dv_webhooks = True,
      dv_billing = Some \<lparr>CheckMessageQuota = billing_CheckMessageQuota,
                         RecordMessageByAppID = billing_RecordMessageByAppID\<rparr>,
      dv_sandbox = cfg\<rparr>"

record user_response =
  ur_id :: int
  ur_external_id :: string
  ur_email :: string
  ur_username :: string

definition devapi_toUserResponse :: "user_row \<Rightarrow> string \<Rightarrow> user_response" where
  "devapi_toUserResponse u ext =
     \<lparr>ur_id = u_id u, ur_external_id = ext, ur_email = u_email u, ur_username = u_username u\<rparr>"

definition user_payload :: "user_response \<Rightarrow> gomap" where
  "user_payload r = [(''id'', VInt (ur_id r)), (''external_id'', VStr (ur_external_id r)),
     (''email'', VStr (ur_email r)), (''username'', VStr (ur_username r))]"

record channel_response =
  chr_id :: int
  chr_name :: string
  chr_workspace_id :: int
  chr_is_read_only :: bool

definition devapi_toChannelResponse :: "channel_row \<Rightarrow> channel_response" where
  "devapi_toChannelResponse c =
     \<lparr>chr_id = ch_id c, chr_name = ch_name c, chr_workspace_id = ch_workspace_id c, chr_is_read_only = ch_is_read_only c\<rparr>"

definition channel_payload :: "channel_response \<Rightarrow> gomap" where
  "channel_payload r = [(''id'', VInt (chr_id r)), (''name'', VStr (chr_name r)),
     (''workspace_id'', VInt (chr_workspace_id r)), (''is_read_only'', VBool (chr_is_read_only r))]"

text \<open>The response for a message has the fields of its row.\<close>

definition message_payload :: "message_row \<Rightarrow> gomap" where
  "message_payload m = [(''id'', VInt (m_id m)), (''channel_id'', VInt (m_channel_id m)),
     (''sender_id'', VInt (m_sender_id m)), (''content'', VStr (m_content m)), (''created_at'', VTime (m_created_at m))]"

definition devapi_dispatch :: "devapi_service \<Rightarrow> runtime_app \<Rightarrow> string \<Rightarrow> gomap \<Rightarrow> unit prog" where
  "devapi_dispatch sv rt event payload =
     (if \<not> dv_webhooks sv \<or> run_sandbox rt then ret () else webhooks_Dispatch (a_id (run_app rt)) event payload)"

definition isDuplicateChannelName :: "goerr \<Rightarrow> bool" where
  "isDuplicateChannelName e \<longleftrightarrow>
     (case e of EPg code c \<Rightarrow> contains_sub ''channels_workspace_name_unique'' c | _ \<Rightarrow> False)"

section \<open>Sandbox limits\<close>

definition sandbox_limit :: "runtime_app \<Rightarrow> int \<Rightarrow> int sql \<Rightarrow> unit prog" where
  "sandbox_limit rt limit count_query =
     (if \<not> run_sandbox rt \<or> limit \<le> 0 then ret ()
      else andthen (exec count_query) (\<lambda>count. if count \<ge> limit then fail (EDev Dev_SandboxLimit) else ret ()))"

definition devapi_checkSandboxUsers :: "devapi_service \<Rightarrow> runtime_app \<Rightarrow> unit prog" where
  "devapi_checkSandboxUsers sv rt =
     sandbox_limit rt (MaxUsers (dv_sandbox sv)) (CountSandboxAppUsers (a_id (run_app rt)))"

definition devapi_checkSandboxChannels :: "devapi_service \<Rightarrow> runtime_app \<Rightarrow> unit prog" where
  "devapi_checkSandboxChannels sv rt =
     sandbox_limit rt (MaxChannels (dv_sandbox sv)) (CountSandboxWorkspaceChannels (run_workspace rt))"

definition devapi_checkSandboxMessages :: "devapi_service \<Rightarrow> runtime_app \<Rightarrow> unit prog" where
  "devapi_checkSandboxMessages sv rt =
     sandbox_limit rt (MaxMessages (dv_sandbox sv)) (CountWorkspaceMessages (run_workspace rt))"

section \<open>Users and sessions\<close>

definition devapi_resolveUserID :: "runtime_app \<Rightarrow> int \<Rightarrow> string \<Rightarrow> int prog" where
  "devapi_resolveUserID rt uid raw_ext =
     (if uid > 0
      then attempt (exec (GetAppUserByUserID (a_id (run_app rt)) uid (run_env rt)))
             (\<lambda>e. fail (no_rows_as (EDev Dev_UserNotFound) e)) (\<lambda>_. ret uid)
      else let ext = TrimSpace raw_ext in
           if ext = [] then fail (EDev Dev_InvalidRequest)
           else attempt (exec (GetAppUserByExternalID (a_id (run_app rt)) ext (run_env rt)))
                  (\<lambda>e. fail (no_rows_as (EDev Dev_UserNotFound) e)) (\<lambda>au. ret (au_user_id au)))"

definition devapi_ensureChannelMember :: "int \<Rightarrow> int \<Rightarrow> unit prog" where
  "devapi_ensureChannelMember ch uid =
     andthen (exec (IsChannelMember ch uid)) (\<lambda>is_member.
     if is_member then ret () else andthen (exec (AddChannelMember ch uid)) (\<lambda>_. ret ()))"

definition devapi_ensureWorkspaceMember :: "int \<Rightarrow> int \<Rightarrow> unit prog" where
  "devapi_ensureWorkspaceMember ws uid =
     attempt (exec (AddWorkspaceMember ws uid ''member''))
       (\<lambda>e. if is_unique_violation e then ret () else fail e) (\<lambda>_. ret ())"

record session_response =
  sr_token :: string
  sr_workspace_id :: int
  sr_environment :: string
  sr_channel_id :: int
  sr_user :: user_response

definition devapi_CreateSession ::
  "jwt_lib \<Rightarrow> (string \<Rightarrow> string) \<Rightarrow> string \<Rightarrow> runtime_app \<Rightarrow> string \<Rightarrow> int \<Rightarrow> session_response prog" where
  "devapi_CreateSession lib getenv uuid rt raw_ext ch =
     (let ext = TrimSpace raw_ext in
      if ext = [] then fail (EDev Dev_InvalidRequest)
      else andthen (devapi_resolveUserID rt 0 ext) (\<lambda>uid.
           attempt (exec (GetUserByID uid)) (\<lambda>e. fail (no_rows_as (EDev Dev_UserNotFound) e)) (\<lambda>user.
           clock (\<lambda>t. case GenerateSessionToken lib getenv uuid t uid (a_id (run_app rt)) (run_sandbox rt) of
             Inl e \<Rightarrow> fail e
           | Inr token \<Rightarrow>
               (let resp = (\<lambda>c. \<lparr>sr_token = token, sr_workspace_id = run_workspace rt, sr_environment = run_env rt,
                                 sr_channel_id = c, sr_user = devapi_toUserResponse user ext\<rparr>) in
                if ch > 0
                then attempt (exec (GetChannelInWorkspace ch (run_workspace rt)))
                       (\<lambda>e. fail (no_rows_as (EDev Dev_ChannelNotFound) e)) (\<lambda>_.
                     andthen (devapi_ensureChannelMember ch uid) (\<lambda>_. ret (resp ch)))
                else ret (resp 0))))))"

text \<open>The password is the base64 text of 32 random bytes; the third argument is the result of \<open>rand.Read\<close>.\<close>

definition devapi_resolveOrCreateProvisionedUser ::
  "crypto \<Rightarrow> goerr + 8 word list \<Rightarrow> string \<Rightarrow> string \<Rightarrow> (user_row \<times> bool) prog" where
  "devapi_resolveOrCreateProvisionedUser cr random email username =
     attempt (exec (GetUserByEmail email))
       (\<lambda>e. if e \<noteq> ENoRows then fail e
            else case randomSecret random of
              Inl e \<Rightarrow> fail e
            | Inr password \<Rightarrow>
                (case bcrypt_hash cr password of
                   Inl e \<Rightarrow> fail e
                 | Inr hash \<Rightarrow>
                     attempt (exec (CreateUser email username hash))
                       (\<lambda>e. if \<not> is_unique_violation e then fail e
                            else attempt (exec (GetUserByEmail email))
                                   (\<lambda>_. attempt (exec (GetUserByUsername username)) (\<lambda>_. fail e)
                                          (\<lambda>existing. ret (existing, False)))
                                   (\<lambda>existing. ret (existing, False)))
                       (\<lambda>user. ret (user, True))))
       (\<lambda>existing. ret (existing, False))"

definition devapi_linked_user :: "int \<Rightarrow> string \<Rightarrow> user_response prog" where
  "devapi_linked_user uid ext = andthen (exec (GetUserByID uid)) (\<lambda>user. ret (devapi_toUserResponse user ext))"

definition devapi_ProvisionUser ::
  "devapi_service \<Rightarrow> crypto \<Rightarrow> goerr + 8 word list \<Rightarrow> runtime_app \<Rightarrow> string \<Rightarrow> string \<Rightarrow> string \<Rightarrow> user_response prog"
where
  "devapi_ProvisionUser sv cr random rt raw_ext raw_email raw_username =
     (let ext = TrimSpace raw_ext; app = a_id (run_app rt); slug = a_slug (run_app rt) in
      if ext = [] then fail (EDev Dev_InvalidRequest)
      else attempt (exec (GetAppUserByExternalID app ext (run_env rt)))
        (\<lambda>e. if e \<noteq> ENoRows then fail e
             else andthen (devapi_checkSandboxUsers sv rt) (\<lambda>_.
               let email = (if TrimSpace raw_email = [] then ext @ ''@'' @ slug @ ''.app.brenox'' else TrimSpace raw_email);
                   username = (if TrimSpace raw_username = [] then slug @ ''_'' @ ext else TrimSpace raw_username) in
               andthen (devapi_resolveOrCreateProvisionedUser cr random email username) (\<lambda>(user, created).
               andthen (devapi_ensureWorkspaceMember (run_workspace rt) (u_id user)) (\<lambda>_.
               attempt (exec (CreateAppUser app (u_id user) ext (run_env rt)))
                 (\<lambda>e. if \<not> is_unique_violation e then fail e
                      else attempt (exec (GetAppUserByExternalID app ext (run_env rt)))
                             (\<lambda>_. attempt (exec (GetAppUserByUserID app (u_id user) (run_env rt)))
                                    (\<lambda>_. fail (EDev Dev_ExternalIDTaken))
                                    (\<lambda>linked. if au_external_id linked = ext
                                              then devapi_linked_user (au_user_id linked) ext
                                              else fail (EDev Dev_ExternalIDTaken)))
                             (\<lambda>linked. devapi_linked_user (au_user_id linked) ext))
                 (\<lambda>_. let resp = devapi_toUserResponse user ext in
                      andthen (if created then devapi_dispatch sv rt ''user.provisioned'' (user_payload resp) else ret ())
                        (\<lambda>_. ret resp))))))
        (\<lambda>existing. devapi_linked_user (au_user_id existing) ext))"

section \<open>Channels and messages\<close>

definition devapi_CreateChannel ::
  "devapi_service \<Rightarrow> runtime_app \<Rightarrow> string \<Rightarrow> bool \<Rightarrow> channel_response prog" where
  "devapi_CreateChannel sv rt raw_name read_only =
     (let name = TrimSpace raw_name;
          by_name = exec (GetChannelByNameInWorkspace (run_workspace rt) name);
          create =
            attempt (exec (CreateChannel name (a_owner_id (run_app rt)) (run_workspace rt) read_only))
              (\<lambda>e. if isDuplicateChannelName e
                   then attempt by_name (\<lambda>_. fail (EDev Dev_ChannelNameExists)) (\<lambda>c. ret (devapi_toChannelResponse c))
                   else fail e)
              (\<lambda>c. andthen (exec (AddChannelMember (ch_id c) (a_owner_id (run_app rt)))) (\<lambda>_.
                   let resp = devapi_toChannelResponse c in
                   andthen (devapi_dispatch sv rt ''channel.created'' (channel_payload resp)) (\<lambda>_. ret resp)))
      in if name = [] then fail (EDev Dev_InvalidRequest)
         else if run_sandbox rt
         then attempt by_name
                (\<lambda>e. if e \<noteq> ENoRows then fail e else andthen (devapi_checkSandboxChannels sv rt) (\<lambda>_. create))
                (\<lambda>c. ret (devapi_toChannelResponse c))
         else create)"

definition devapi_SendMessage ::
  "devapi_service \<Rightarrow> runtime_app \<Rightarrow> int \<Rightarrow> int \<Rightarrow> string \<Rightarrow> string \<Rightarrow> message_row prog" where
  "devapi_SendMessage sv rt ch req_uid ext raw_content =
     (let content = TrimSpace raw_content;
          billing = (if run_sandbox rt then None else dv_billing sv);
          app = a_id (run_app rt) in
      if content = [] then fail (EDev Dev_EmptyContent)
      else andthen (devapi_resolveUserID rt req_uid ext) (\<lambda>uid.
           attempt (exec (GetChannelInWorkspace ch (run_workspace rt)))
             (\<lambda>e. fail (no_rows_as (EDev Dev_ChannelNotFound) e)) (\<lambda>c.
           andthen (devapi_ensureChannelMember (ch_id c) uid) (\<lambda>_.
           andthen (case billing of None \<Rightarrow> ret () | Some b \<Rightarrow> CheckMessageQuota b app) (\<lambda>_.
           andthen (devapi_checkSandboxMessages sv rt) (\<lambda>_.
           andthen (exec (CreateMessage (ch_id c) uid content)) (\<lambda>m.
           andthen (case dv_broadcast sv of None \<Rightarrow> ret () | Some f \<Rightarrow> emit (f (run_workspace rt) (ch_id c) m)) (\<lambda>_.
           andthen (case billing of None \<Rightarrow> ret () | Some b \<Rightarrow> ignoring (RecordMessageByAppID b app)) (\<lambda>_.
           andthen (devapi_dispatch sv rt ''message.created'' (message_payload m)) (\<lambda>_.
           ret m))))))))))"

definition devapi_ListMessages :: "runtime_app \<Rightarrow> int \<Rightarrow> int \<Rightarrow> int \<Rightarrow> (message_row \<times> string) list prog" where
  "devapi_ListMessages rt ch limit offset =
     attempt (exec (GetChannelInWorkspace ch (run_workspace rt)))
       (\<lambda>e. fail (no_rows_as (EDev Dev_ChannelNotFound) e)) (\<lambda>_.
     let limit = (if limit \<le> 0 then 50 else limit);
         limit = (if limit > 100 then 100 else limit);
         offset = (if offset < 0 then 0 else offset) in
     exec (GetChannelMessages ch limit offset))"

section \<open>Idempotency keys\<close>

text \<open>\<open>None\<close>: no response is stored under the key.\<close>

definition devapi_GetIdempotency :: "int \<Rightarrow> string \<Rightarrow> (string \<times> int) option prog" where
  "devapi_GetIdempotency app key =
     attempt (exec (GetIdempotencyKey app key)) (\<lambda>e. if e = ENoRows then ret None else fail e)
       (\<lambda>row. ret (Some (ik_response_body row, ik_status_code row)))"

definition devapi_SaveIdempotency :: "int \<Rightarrow> string \<Rightarrow> string \<Rightarrow> int \<Rightarrow> string \<Rightarrow> unit prog" where
  "devapi_SaveIdempotency app key endpoint status body =
     attempt (exec (CreateIdempotencyKey app key endpoint status body))
       (\<lambda>e. case e of
          EPg code c \<Rightarrow> if contains_sub ''idempotency_keys_app_id_idempotency_key_key'' c then ret () else fail e
        | _ \<Rightarrow> fail e)
       (\<lambda>_. ret ())"

section \<open>Confinement\<close>

lemma devapi_readers [readers]:
  "reader (exec (GetAppUserByUserID app uid env)) (\<lambda>d. case find (\<lambda>u. au_app_id u = app \<and> au_user_id u = uid \<and> au_environment u = env) (app_users d) of None \<Rightarrow> Inl ENoRows | Some u \<Rightarrow> Inr u)"
  "reader (exec (GetAppUserByExternalID app ext env)) (\<lambda>d. case find (\<lambda>u. au_app_id u = app \<and> au_external_id u = ext \<and> au_environment u = env) (app_users d) of None \<Rightarrow> Inl ENoRows | Some u \<Rightarrow> Inr u)"
  "reader (exec (GetUserByEmail email)) (\<lambda>d. case find (\<lambda>u. u_email u = email) (users d) of None \<Rightarrow> Inl ENoRows | Some u \<Rightarrow> Inr u)"
  "reader (exec (GetUserByUsername name)) (\<lambda>d. case find (\<lambda>u. ToLower (u_username u) = ToLower name) (users d) of None \<Rightarrow> Inl ENoRows | Some u \<Rightarrow> Inr u)"
  "reader (exec (GetChannelByNameInWorkspace ws name)) (\<lambda>d. case find (\<lambda>c. ch_workspace_id c = ws \<and> ch_name c = name) (channels d) of None \<Rightarrow> Inl ENoRows | Some c \<Rightarrow> Inr c)"
  "reader (exec (CountSandboxAppUsers app)) (\<lambda>d. Inr (count_rows (\<lambda>u. au_app_id u = app \<and> au_environment u = ''sandbox'') (app_users d)))"
  "reader (exec (CountSandboxWorkspaceChannels ws)) (\<lambda>d. Inr (count_rows (\<lambda>c. ch_workspace_id c = ws) (channels d)))"
  "reader (exec (CountWorkspaceMessages ws)) (\<lambda>d. Inr (int (length [m. m \<leftarrow> messages d, c \<leftarrow> channels d, ch_id c = m_channel_id m \<and> ch_workspace_id c = ws])))"
  "reader (exec (ListWebhooksByApp app)) (\<lambda>d. Inr (order_desc wh_created_at (filter (\<lambda>w. wh_app_id w = app \<and> wh_disabled_at w = None) (webhooks d))))"
  unfolding GetAppUserByUserID_def GetAppUserByExternalID_def GetUserByEmail_def GetUserByUsername_def
    GetChannelByNameInWorkspace_def CountSandboxAppUsers_def CountSandboxWorkspaceChannels_def
    CountWorkspaceMessages_def ListWebhooksByApp_def
  by (rule reader_select_one reader_select)+

text \<open>
  What a request of a runtime may do to the tables: rows are only added, and only in its own lane, which are
  messages and channels of its workspace, members of it, and users of its app and environment.
\<close>

definition grows :: "('r \<Rightarrow> bool) \<Rightarrow> 'r list \<Rightarrow> 'r list \<Rightarrow> bool" where
  "grows p old new \<longleftrightarrow> (\<exists>added. new = old @ added \<and> list_all p added)"

lemma grows_refl [simp]: "grows p xs xs"
  by (simp add: grows_def)

lemma grows_snoc: "grows p xs ys \<Longrightarrow> p y \<Longrightarrow> grows p xs (ys @ [y])"
  by (auto simp: grows_def)

lemma grows_member: "grows p xs ys \<Longrightarrow> x \<in> set xs \<Longrightarrow> x \<in> set ys"
  by (auto simp: grows_def)

definition own_channel :: "runtime_app \<Rightarrow> db \<Rightarrow> int \<Rightarrow> bool" where
  "own_channel rt d ch \<longleftrightarrow> (\<exists>c\<in>set (channels d). ch_id c = ch \<and> ch_workspace_id c = run_workspace rt)"

definition lane_tables :: "db \<Rightarrow> db" where
  "lane_tables d = sans_metering d\<lparr>users := [], workspace_members := [], channels := [], channel_members := [],
     messages := [], app_users := [], nextid := (\<lambda>_. 0)\<rparr>"

definition confined :: "runtime_app \<Rightarrow> db \<Rightarrow> db \<Rightarrow> bool" where
  "confined rt d d' \<longleftrightarrow>
     grows (\<lambda>u. u_platform_role u = ''user'') (users d) (users d') \<and>
     grows (\<lambda>m. wm_workspace_id m = run_workspace rt \<and> wm_role m = ''member'') (workspace_members d) (workspace_members d') \<and>
     grows (\<lambda>c. ch_workspace_id c = run_workspace rt \<and> ch_owner_id c = a_owner_id (run_app rt)) (channels d) (channels d') \<and>
     grows (\<lambda>m. own_channel rt d' (cm_channel_id m)) (channel_members d) (channel_members d') \<and>
     grows (\<lambda>m. own_channel rt d' (m_channel_id m)) (messages d) (messages d') \<and>
     grows (\<lambda>u. au_app_id u = a_id (run_app rt) \<and> au_environment u = run_env rt) (app_users d) (app_users d') \<and>
     lane_tables d' = lane_tables d \<and>
     (run_sandbox rt \<longrightarrow> billing_tables d' = billing_tables d)"

lemma lane_tables_upd [simp]:
  "lane_tables (users_update F1 d) = lane_tables d" "lane_tables (workspace_members_update F2 d) = lane_tables d"
  "lane_tables (channels_update F3 d) = lane_tables d" "lane_tables (channel_members_update F4 d) = lane_tables d"
  "lane_tables (messages_update F5 d) = lane_tables d" "lane_tables (app_users_update F6 d) = lane_tables d"
  "lane_tables (nextid_update F7 d) = lane_tables d"
  by (simp_all add: lane_tables_def sans_metering_def)

lemma billing_tables_upd [simp]:
  "billing_tables (users_update F1 d) = billing_tables d" "billing_tables (workspace_members_update F2 d) = billing_tables d"
  "billing_tables (channels_update F3 d) = billing_tables d" "billing_tables (channel_members_update F4 d) = billing_tables d"
  "billing_tables (messages_update F5 d) = billing_tables d" "billing_tables (app_users_update F6 d) = billing_tables d"
  "billing_tables (nextid_update F7 d) = billing_tables d"
  by (simp_all add: billing_tables_def)

lemma own_channel_upd [simp]:
  "own_channel rt (users_update F1 d) = own_channel rt d" "own_channel rt (workspace_members_update F2 d) = own_channel rt d"
  "own_channel rt (channel_members_update F3 d) = own_channel rt d" "own_channel rt (messages_update F4 d) = own_channel rt d"
  "own_channel rt (app_users_update F5 d) = own_channel rt d" "own_channel rt (nextid_update F6 d) = own_channel rt d"
  by (simp_all add: own_channel_def fun_eq_iff)

text \<open>The statements of the developer API.\<close>

definition lane :: "runtime_app \<Rightarrow> db \<Rightarrow> int option \<Rightarrow> db \<Rightarrow> bool" where
  "lane rt d0 ch d \<longleftrightarrow> confined rt d0 d \<and> (\<forall>i. ch = Some i \<longrightarrow> own_channel rt d i)"

lemma grows_mono: "grows p xs ys \<Longrightarrow> (\<And>x. p x \<Longrightarrow> q x) \<Longrightarrow> grows q xs ys"
  by (auto simp: grows_def list_all_iff)

lemma own_channel_added: "own_channel rt (channels_update (\<lambda>cs. cs @ xs) d) i \<longleftrightarrow> own_channel rt d i \<or>
    (\<exists>c\<in>set xs. ch_id c = i \<and> ch_workspace_id c = run_workspace rt)"
  by (auto simp: own_channel_def)

lemma insert_preserves:
  assumes "\<And>d n. I d \<Longrightarrow> I (nextid_update n d)" and "\<And>d i t. I d \<Longrightarrow> I (upd (\<lambda>rows. rows @ [mk i t]) d)"
  shows "preserves I (exec (insert_into tb upd viol mk))"
proof (rule preserves_exec)
  fix t d assume "I d"
  then show "I (snd (insert_into tb upd viol mk t d))"
    using assms unfolding insert_into_def Let_def by (cases "first_violation (viol d)") simp_all
qed

lemma lane_nextid [simp]: "lane rt d0 ch (nextid_update n d) \<longleftrightarrow> lane rt d0 ch d"
  by (cases ch) (simp_all add: lane_def confined_def)

lemma CreateUser_lane [preserve]: "preserves (lane rt d0 ch) (exec (CreateUser email name hash))"
  unfolding CreateUser_def by (rule insert_preserves) (simp_all add: lane_def confined_def grows_snoc)

lemma AddWorkspaceMember_lane [preserve]:
  "preserves (lane rt d0 ch) (exec (AddWorkspaceMember (run_workspace rt) uid ''member''))"
  unfolding AddWorkspaceMember_def by (rule insert_preserves) (simp_all add: lane_def confined_def grows_snoc)

lemma CreateAppUser_lane [preserve]:
  "preserves (lane rt d0 ch) (exec (CreateAppUser (a_id (run_app rt)) uid ext (run_env rt)))"
  unfolding CreateAppUser_def by (rule insert_preserves) (simp_all add: lane_def confined_def grows_snoc)

lemma AddChannelMember_lane [preserve]: "preserves (lane rt d0 (Some ch)) (exec (AddChannelMember ch uid))"
  unfolding AddChannelMember_def by (rule insert_preserves) (simp_all add: lane_def confined_def grows_snoc)

lemma CreateMessage_lane [preserve]: "preserves (lane rt d0 (Some ch)) (exec (CreateMessage ch uid content))"
  unfolding CreateMessage_def by (rule insert_preserves) (simp_all add: lane_def confined_def grows_snoc)

lemma CreateChannel_lane:
  "triple (lane rt d0 None) (exec (CreateChannel name (a_owner_id (run_app rt)) (run_workspace rt) ro))
     (\<lambda>c. lane rt d0 (Some (ch_id c))) (\<lambda>_. lane rt d0 None)"
  by (rule triple_exec)
    (auto simp: lane_def confined_def CreateChannel_def insert_into_def Let_def own_channel_added
      intro!: grows_snoc elim!: grows_mono split: option.splits)

lemmas devapi_reads [preserve] = devapi_readers [THEN reader_preserves] reader_GetUserByID [THEN reader_preserves]
  reader_IsChannelMember [THEN reader_preserves]

lemma lane_metering:
  assumes "leaves sans_metering m" and "\<not> run_sandbox rt"
  shows "preserves (lane rt d0 ch) m"
proof (rule leaves_imp_preserves [OF assms(1)])
  fix d d' assume eq: "sans_metering d = sans_metering d'" and l: "lane rt d0 ch d"
  have "users d = users d'" "workspace_members d = workspace_members d'" "channels d = channels d'"
    "channel_members d = channel_members d'" "messages d = messages d'"
    using sans_metering_cong [OF eq] by simp_all
  moreover have "app_users d = app_users d'"
    using arg_cong [OF eq, of app_users] unfolding sans_metering_def by simp
  moreover have "lane_tables d = lane_tables d'" using eq by (simp add: lane_tables_def)
  ultimately show "lane rt d0 ch d'" using l assms(2) by (cases ch) (simp_all add: lane_def confined_def own_channel_def)
qed

lemma preserves_in_channel:
  assumes "\<And>e. preserves (lane rt d0 None) (h e)"
    and "\<And>c. ch_id c = ch \<Longrightarrow> preserves (lane rt d0 (Some ch)) (k c)"
  shows "preserves (lane rt d0 None) (attempt (exec (GetChannelInWorkspace ch (run_workspace rt))) h k)"
  unfolding preserves_def
proof (intro allI impI)
  fix s :: world assume P: "lane rt d0 None (db s)"
  let ?m = "attempt (exec (GetChannelInWorkspace ch (run_workspace rt))) h k"
  obtain r s' where run: "?m s = (r, s')" by (rule prod.exhaust)
  from run reader_GetChannelInWorkspace have "lane rt d0 None (db s')"
  proof (cases rule: attempt_readerE)
    case (error e s1)
    then show ?thesis using assms(1) P by (metis preserves_run)
  next
    case (got c s1)
    then have c: "c \<in> set (channels (db s))" "ch_id c = ch" "ch_workspace_id c = run_workspace rt"
      unfolding channel_of_def by (auto split: option.splits dest!: find_SomeD)
    then have "lane rt d0 (Some ch) (db s1)" using P got(3) by (auto simp: lane_def own_channel_def)
    then have "lane rt d0 (Some ch) (db s')" using preserves_run [OF assms(2) [OF c(2)] got(2)] by blast
    then show ?thesis by (simp add: lane_def)
  qed
  then show "lane rt d0 None (db (snd (?m s)))" using run by simp
qed

lemma devapi_dispatch_leaves [read_only]: "leaves f (devapi_dispatch sv rt event payload)"
  unfolding devapi_dispatch_def webhooks_Dispatch_def
  by (intro read_only leaves_for_each reader_leaves [OF devapi_readers(9)])

lemma devapi_dispatch_lane [preserve]: "preserves I (devapi_dispatch sv rt event payload)"
  by (rule leaves_imp_preserves [OF devapi_dispatch_leaves]) auto

lemma resolve_reads [preserve]: "preserves I (devapi_resolveUserID rt uid ext)"
  unfolding devapi_resolveUserID_def Let_def by (intro preserve)

lemma sandbox_limits_read [preserve]:
  "preserves I (devapi_checkSandboxUsers sv rt)" "preserves I (devapi_checkSandboxChannels sv rt)"
  "preserves I (devapi_checkSandboxMessages sv rt)"
  unfolding devapi_checkSandboxUsers_def devapi_checkSandboxChannels_def devapi_checkSandboxMessages_def sandbox_limit_def
  by (intro preserve)+

lemma linked_user_reads [preserve]: "preserves I (devapi_linked_user uid ext)"
  unfolding devapi_linked_user_def by (intro preserve)

lemma ensureChannelMember_lane [preserve]: "preserves (lane rt d0 (Some ch)) (devapi_ensureChannelMember ch uid)"
  unfolding devapi_ensureChannelMember_def by (intro preserve)

lemma ensureWorkspaceMember_lane [preserve]: "preserves (lane rt d0 ch) (devapi_ensureWorkspaceMember (run_workspace rt) uid)"
  unfolding devapi_ensureWorkspaceMember_def by (intro preserve)

lemma resolveOrCreate_lane [preserve]: "preserves (lane rt d0 ch) (devapi_resolveOrCreateProvisionedUser cr random email name)"
  unfolding devapi_resolveOrCreateProvisionedUser_def by (intro preserve)

lemma ProvisionUser_lane: "preserves (lane rt d0 None) (devapi_ProvisionUser sv cr random rt ext email name)"
  unfolding devapi_ProvisionUser_def Let_def by (intro preserve)

lemma CreateSession_lane: "preserves (lane rt d0 None) (devapi_CreateSession lib getenv uuid rt ext ch)"
  unfolding devapi_CreateSession_def Let_def by (intro preserve preserves_in_channel)

lemma ListMessages_lane: "preserves (lane rt d0 None) (devapi_ListMessages rt ch limit offset)"
  unfolding devapi_ListMessages_def Let_def GetChannelMessages_def by (intro preserve preserves_in_channel)

lemma preserves_create_channel:
  assumes "\<And>e. preserves (lane rt d0 None) (h e)" and "\<And>c. preserves (lane rt d0 (Some (ch_id c))) (k c)"
  shows "preserves (lane rt d0 None)
    (attempt (exec (CreateChannel name (a_owner_id (run_app rt)) (run_workspace rt) ro)) h k)"
proof -
  have "triple (lane rt d0 (Some (ch_id c))) (k c) (\<lambda>_. lane rt d0 None) (\<lambda>_. lane rt d0 None)" for c
    by (rule triple_weaken [OF triple_preserves [OF assms(2) [of c]]]) (auto simp: lane_def)
  then have "triple (lane rt d0 None) (attempt (exec (CreateChannel name (a_owner_id (run_app rt)) (run_workspace rt) ro)) h k)
      (\<lambda>_. lane rt d0 None) (\<lambda>_. lane rt d0 None)"
    by (rule triple_attempt [OF CreateChannel_lane triple_preserves [OF assms(1)]])
  then show ?thesis by (rule triple_imp_preserves)
qed

lemma CreateChannel_op_lane: "preserves (lane rt d0 None) (devapi_CreateChannel sv rt name ro)"
proof -
  have "preserves (lane rt d0 None)
      (attempt (exec (CreateChannel n (a_owner_id (run_app rt)) (run_workspace rt) ro))
        (\<lambda>e. if isDuplicateChannelName e
             then attempt (exec (GetChannelByNameInWorkspace (run_workspace rt) n)) (\<lambda>_. fail (EDev Dev_ChannelNameExists))
                    (\<lambda>c. ret (devapi_toChannelResponse c))
             else fail e)
        (\<lambda>c. andthen (exec (AddChannelMember (ch_id c) (a_owner_id (run_app rt)))) (\<lambda>_.
           andthen (devapi_dispatch sv rt ''channel.created'' (channel_payload (devapi_toChannelResponse c)))
             (\<lambda>_. ret (devapi_toChannelResponse c)))))" for n
    by (rule preserves_create_channel) (intro preserve)+
  note create = this
  show ?thesis
    unfolding devapi_CreateChannel_def Let_def
    by (rule preserves_if, rule preserves_fail, rule preserves_if, rule preserves_attempt, rule devapi_reads,
      rule preserves_if, rule preserves_fail, rule preserves_andthen, rule sandbox_limits_read, rule create,
      rule preserves_ret, rule create)
qed

definition wired_billing :: app_billing where
  "wired_billing = \<lparr>CheckMessageQuota = billing_CheckMessageQuota, RecordMessageByAppID = billing_RecordMessageByAppID\<rparr>"

lemma metering_by_app_leaves [read_only]:
  "leaves sans_metering (billing_CheckMessageQuota app)" "leaves sans_metering (billing_RecordMessageByAppID app)"
  unfolding billing_CheckMessageQuota_def billing_checkOwnerMessageQuota_def billing_RecordMessageByAppID_def
  by (intro read_only)+

lemma SendMessage_lane: "preserves (lane rt d0 None) (devapi_SendMessage (devapi_wired cfg) rt ch uid ext content)"
proof -
  have b: "dv_billing (devapi_wired cfg) = Some wired_billing" by (simp add: devapi_wired_def wired_billing_def)
  have quota: "preserves (lane rt d0 c) (case (if run_sandbox rt then None else Some wired_billing) of
      None \<Rightarrow> ret () | Some b \<Rightarrow> CheckMessageQuota b app)" for c app
    by (cases "run_sandbox rt")
      (simp_all add: preserve wired_billing_def lane_metering [OF metering_by_app_leaves(1)])
  have metered: "preserves (lane rt d0 c) (case (if run_sandbox rt then None else Some wired_billing) of
      None \<Rightarrow> ret () | Some b \<Rightarrow> ignoring (RecordMessageByAppID b app))" for c app
    by (cases "run_sandbox rt")
      (simp_all add: preserve wired_billing_def lane_metering [OF metering_by_app_leaves(2)])
  show ?thesis
    unfolding devapi_SendMessage_def Let_def b
    by (intro preserve preserves_in_channel quota metered preserves_case_option; simp; intro preserve)
qed


section \<open>What leaves the process\<close>

text \<open>Everything that a program emits satisfies \<open>p\<close>.\<close>

definition emits :: "(effect \<Rightarrow> bool) \<Rightarrow> 'a prog \<Rightarrow> bool" where
  "emits p m \<longleftrightarrow> (\<forall>s. grows p (outbox s) (outbox (snd (m s))))"

named_theorems emission \<open>rules about what a program emits\<close>

lemma grows_trans: "grows p xs ys \<Longrightarrow> grows p ys zs \<Longrightarrow> grows p xs zs"
  unfolding grows_def by (metis append.assoc list_all_append)

lemma emits_ret [emission]: "emits p (ret x)"
  by (simp add: emits_def ret_def)

lemma emits_fail [emission]: "emits p (fail e)"
  by (simp add: emits_def fail_def)

lemma emits_exec [emission]: "emits p (exec q)"
  by (simp add: emits_def)

lemma emits_emit [emission]: "p e \<Longrightarrow> emits p (emit e)"
  by (simp add: emits_def emit_def grows_snoc)

lemma emits_attempt [emission]:
  "emits p q \<Longrightarrow> (\<And>e. emits p (h e)) \<Longrightarrow> (\<And>x. emits p (k x)) \<Longrightarrow> emits p (attempt q h k)"
  unfolding emits_def attempt_def by (fastforce split: prod.splits sum.splits intro: grows_trans)

lemma emits_andthen [emission]: "emits p q \<Longrightarrow> (\<And>x. emits p (k x)) \<Longrightarrow> emits p (andthen q k)"
  by (simp add: andthen_def emits_attempt emits_fail)

lemma emits_ignoring [emission]: "emits p q \<Longrightarrow> emits p (ignoring q)"
  by (simp add: ignoring_def emits_attempt emits_ret)

lemma emits_clock [emission]: "(\<And>t. emits p (k t)) \<Longrightarrow> emits p (clock k)"
  by (simp add: emits_def clock_def)

lemma emits_if [emission]:
  "(b \<Longrightarrow> emits p m) \<Longrightarrow> (\<not> b \<Longrightarrow> emits p n) \<Longrightarrow> emits p (if b then m else n)"
  by simp

lemma emits_case_option [emission]:
  "(v = None \<Longrightarrow> emits p m) \<Longrightarrow> (\<And>x. v = Some x \<Longrightarrow> emits p (n x)) \<Longrightarrow>
    emits p (case v of None \<Rightarrow> m | Some x \<Rightarrow> n x)"
  by (cases v) auto

lemma emits_case_sum [emission]:
  "(\<And>e. v = Inl e \<Longrightarrow> emits p (m e)) \<Longrightarrow> (\<And>x. v = Inr x \<Longrightarrow> emits p (n x)) \<Longrightarrow>
    emits p (case v of Inl e \<Rightarrow> m e | Inr x \<Rightarrow> n x)"
  by (cases v) auto

lemma emits_case_prod [emission]: "(\<And>a b. emits p (f a b)) \<Longrightarrow> emits p (case x of (a, b) \<Rightarrow> f a b)"
  by (cases x) auto

lemma emits_for_each [emission]: "(\<And>x. x \<in> set xs \<Longrightarrow> emits p (f x)) \<Longrightarrow> emits p (for_each xs f)"
  by (induction xs) (auto intro: emission)

text \<open>A program that starts with a read continues with what it has read.\<close>

lemma emits_read:
  assumes "reader q f" and "\<And>e. emits p (h e)" and "\<And>d x. f d = Inr x \<Longrightarrow> emits p (k x)"
  shows "emits p (attempt q h k)"
  unfolding emits_def
proof
  fix s
  obtain r s' where run: "attempt q h k s = (r, s')" by (rule prod.exhaust)
  from run assms(1) have "grows p (outbox s) (outbox s')"
  proof (cases rule: attempt_readerE)
    case (error e s1)
    then show ?thesis using assms(2) [of e] unfolding emits_def by (metis snd_conv)
  next
    case (got x s1)
    then show ?thesis using assms(3) [OF got(1)] unfolding emits_def by (metis snd_conv)
  qed
  then show "grows p (outbox s) (outbox (snd (attempt q h k s)))" using run by simp
qed

text \<open>
  Events go to the own workspace, webhooks only to the own app and never from the sandbox.
\<close>

fun own_effect :: "runtime_app \<Rightarrow> effect \<Rightarrow> bool" where
  "own_effect rt (Publish kind ws ch payload) \<longleftrightarrow> ws = run_workspace rt"
| "own_effect rt (Deliver uid payload) \<longleftrightarrow> False"
| "own_effect rt (Webhook hook event payload) \<longleftrightarrow>
     wh_app_id hook = a_id (run_app rt) \<and> wh_disabled_at hook = None \<and> \<not> run_sandbox rt"

lemma set_order_desc: "set (order_desc f xs) = set xs"
  by (simp add: order_desc_def)

lemma dispatch_own [emission]: "emits (own_effect rt) (devapi_dispatch sv rt event payload)"
  unfolding devapi_dispatch_def webhooks_Dispatch_def
  by (rule emits_if, rule emits_ret, rule emits_read [OF devapi_readers(9)], rule emits_ret)
    (auto simp: set_order_desc intro!: emits_for_each emits_emit)

lemma limits_silent [emission]:
  "emits p (devapi_checkSandboxUsers sv rt)" "emits p (devapi_checkSandboxChannels sv rt)"
  "emits p (devapi_checkSandboxMessages sv rt)" "emits p (devapi_resolveUserID rt uid ext)"
  "emits p (devapi_ensureChannelMember ch uid)" "emits p (devapi_ensureWorkspaceMember ws uid)"
  "emits p (devapi_linked_user uid ext)" "emits p (devapi_resolveOrCreateProvisionedUser cr random email name)"
  unfolding devapi_checkSandboxUsers_def devapi_checkSandboxChannels_def devapi_checkSandboxMessages_def sandbox_limit_def
    devapi_resolveUserID_def devapi_ensureChannelMember_def devapi_ensureWorkspaceMember_def devapi_linked_user_def
    devapi_resolveOrCreateProvisionedUser_def Let_def
  by (intro emission)+

lemma quota_silent [emission]: "emits p (billing_CheckMessageQuota app)" "emits p (billing_RecordMessageByAppID app)"
  unfolding billing_CheckMessageQuota_def billing_checkOwnerMessageQuota_def billing_RecordMessageByAppID_def
    billing_EnsureUserSubscription_def or_zero_def
  by (intro emission)+

lemma SendMessage_own: "emits (own_effect rt) (devapi_SendMessage (devapi_wired cfg) rt ch uid ext content)"
  unfolding devapi_SendMessage_def devapi_wired_def Let_def
  by (auto intro!: emission simp: PublishMessageNew_def)

lemma CreateChannel_own: "emits (own_effect rt) (devapi_CreateChannel sv rt name ro)"
  unfolding devapi_CreateChannel_def Let_def by (intro emission)

lemma ProvisionUser_own: "emits (own_effect rt) (devapi_ProvisionUser sv cr random rt ext email name)"
  unfolding devapi_ProvisionUser_def Let_def by (intro emission)

lemma sessions_silent:
  "emits p (devapi_CreateSession lib getenv uuid rt ext ch)" "emits p (devapi_ListMessages rt ch limit offset)"
  unfolding devapi_CreateSession_def devapi_ListMessages_def GetChannelMessages_def Let_def by (intro emission)+

definition stays_in_lane :: "runtime_app \<Rightarrow> 'a prog \<Rightarrow> bool" where
  "stays_in_lane rt m \<longleftrightarrow>
     (\<forall>s. confined rt (db s) (db (snd (m s))) \<and> grows (own_effect rt) (outbox s) (outbox (snd (m s))))"

lemma stays_in_laneI:
  assumes "\<And>d0. preserves (lane rt d0 None) m" and "emits (own_effect rt) m"
  shows "stays_in_lane rt m"
proof -
  have "lane rt (db s) None (db s)" for s :: world by (simp add: lane_def confined_def)
  then have "lane rt (db s) None (db (snd (m s)))" for s using assms(1) by (rule preservesD [rotated])
  then show ?thesis using assms(2) by (simp add: stays_in_lane_def lane_def emits_def)
qed

text \<open>C5: An API key cannot leave its app and environment. Whatever a request asks for and whatever its statements meet,
  no row of the engine is changed or deleted, except the bookkeeping of the message quota, which the sandbox does not
  touch; the rows added are users without platform role, plain memberships of the workspace of the environment, its
  channels, members and messages of its channels, and links of users to the app in this environment; events are
  published in that workspace only, webhooks called are active ones of the app, and none from the sandbox.\<close>

theorem devapi_confined:
  "stays_in_lane rt (devapi_ProvisionUser sv cr random rt ext email username) \<and>
   stays_in_lane rt (devapi_CreateSession lib getenv uuid rt ext ch) \<and>
   stays_in_lane rt (devapi_CreateChannel sv rt name read_only) \<and>
   stays_in_lane rt (devapi_SendMessage (devapi_wired cfg) rt ch uid ext content) \<and>
   stays_in_lane rt (devapi_ListMessages rt ch limit offset)"
  by (intro conjI stays_in_laneI ProvisionUser_lane ProvisionUser_own CreateSession_lane sessions_silent
      CreateChannel_op_lane CreateChannel_own SendMessage_lane SendMessage_own ListMessages_lane)


section \<open>Sending as an app user\<close>

text \<open>The link that \<open>resolveUserID\<close> finds.\<close>

definition linked_sender :: "runtime_app \<Rightarrow> db \<Rightarrow> int \<Rightarrow> string \<Rightarrow> int \<Rightarrow> bool" where
  "linked_sender rt d req_uid ext uid \<longleftrightarrow>
     (\<exists>u\<in>set (app_users d). au_app_id u = a_id (run_app rt) \<and> au_environment u = run_env rt \<and> au_user_id u = uid \<and>
        (if req_uid > 0 then uid = req_uid else au_external_id u = TrimSpace ext))"

lemma resolveUserID_links:
  assumes "devapi_resolveUserID rt req_uid ext s = (Inr uid, s1)"
  shows "linked_sender rt (db s) req_uid ext uid \<and> db s1 = db s \<and> outbox s1 = outbox s"
proof (cases "req_uid > 0")
  case True
  then show ?thesis
    using assms by (auto simp: devapi_resolveUserID_def attempt_eq linked_sender_def dest!: reader_Inr [OF devapi_readers(1)]
        find_SomeD split: option.splits)
next
  case False
  then show ?thesis
    using assms by (auto simp: devapi_resolveUserID_def attempt_eq linked_sender_def Let_def
        dest!: reader_Inr [OF devapi_readers(2)] find_SomeD split: option.splits if_splits)
qed

definition workspace_messages :: "int \<Rightarrow> db \<Rightarrow> int" where
  "workspace_messages ws d = int (length [m. m \<leftarrow> messages d, c \<leftarrow> channels d, ch_id c = m_channel_id m \<and> ch_workspace_id c = ws])"

lemma filter_one: "distinct (map f xs) \<Longrightarrow> length (filter (\<lambda>x. f x = a \<and> p x) xs) \<le> 1"
  by (induction xs) (auto simp: filter_empty_conv image_iff)

lemma length_concat_if: "length (concat (map (\<lambda>c. if p c then [x] else []) cs)) = length (filter p cs)"
  by (induction cs) auto

lemma workspace_messages_snoc:
  assumes "distinct (map ch_id (channels d))" and "messages d' = messages d @ [m]" and "channels d' = channels d"
  shows "workspace_messages ws d' \<le> workspace_messages ws d + 1"
  using filter_one [OF assms(1), of "m_channel_id m" "\<lambda>c. ch_workspace_id c = ws"] assms(2,3)
  by (simp add: workspace_messages_def length_concat_if)

lemma AddChannelMember_joins:
  assumes "exec (AddChannelMember ch uid) s = (Inr x, s')"
  shows "in_channel (db s') ch uid \<and> messages (db s') = messages (db s) \<and> channels (db s') = channels (db s) \<and>
    outbox s' = outbox s"
  using exec_insert_Inr [OF assms [unfolded AddChannelMember_def]] by (simp add: in_channel_def)

lemma ensureChannelMember_joins:
  assumes "devapi_ensureChannelMember ch uid s = (Inr x, s')"
  shows "in_channel (db s') ch uid \<and> messages (db s') = messages (db s) \<and> channels (db s') = channels (db s) \<and>
    outbox s' = outbox s"
proof -
  obtain b s1 where b: "exec (IsChannelMember ch uid) s = (Inr b, s1)"
    and k: "(if b then ret () else andthen (exec (AddChannelMember ch uid)) (\<lambda>_. ret ())) s1 = (Inr x, s')"
    using assms unfolding devapi_ensureChannelMember_def andthen_Inr by blast
  have s1: "b = in_channel (db s) ch uid" "db s1 = db s" "outbox s1 = outbox s"
    using reader_Inr [OF reader_IsChannelMember b] by auto
  show ?thesis
  proof (cases b)
    case True
    then show ?thesis using k s1 by simp
  next
    case False
    then obtain y where "exec (AddChannelMember ch uid) s1 = (Inr y, s')" using k by (auto simp: andthen_Inr)
    then show ?thesis using AddChannelMember_joins s1 by metis
  qed
qed

lemma sandbox_limit_Inr:
  assumes "devapi_checkSandboxMessages sv rt s = (Inr x, s')"
  shows "db s' = db s \<and> outbox s' = outbox s \<and>
    (run_sandbox rt \<and> 0 < MaxMessages (dv_sandbox sv) \<longrightarrow>
       workspace_messages (run_workspace rt) (db s) < MaxMessages (dv_sandbox sv))"
  using assms
  by (auto simp: devapi_checkSandboxMessages_def sandbox_limit_def andthen_Inr workspace_messages_def
      dest!: reader_Inr [OF devapi_readers(8)] split: if_splits)

lemma silent_run: "(\<And>p. emits p m) \<Longrightarrow> m s = (r, s') \<Longrightarrow> outbox s' = outbox s"
proof -
  assume "\<And>p. emits p m" and run: "m s = (r, s')"
  then have "grows (\<lambda>_. False) (outbox s) (outbox s')" unfolding emits_def by (metis snd_conv)
  then show "outbox s' = outbox s" by (auto simp: grows_def list_all_iff)
qed

lemma quota_checked:
  assumes "(case (if run_sandbox rt then None else Some wired_billing) of None \<Rightarrow> ret ()
      | Some b \<Rightarrow> CheckMessageQuota b app) s = (r, s')"
  shows "sans_metering (db s') = sans_metering (db s) \<and> outbox s' = outbox s"
proof (cases "run_sandbox rt")
  case False
  then have run: "billing_CheckMessageQuota app s = (r, s')" using assms by (simp add: wired_billing_def)
  show ?thesis using leaves_run [OF metering_by_app_leaves(1) run] silent_run [OF quota_silent(1) run] by simp
qed (use assms in simp)

lemma after_send:
  assumes "andthen (emit (PublishMessageNew ws ch m)) (\<lambda>_.
      andthen (case (if run_sandbox rt then None else Some wired_billing) of None \<Rightarrow> ret ()
                | Some b \<Rightarrow> ignoring (RecordMessageByAppID b app)) (\<lambda>_.
      andthen (devapi_dispatch sv rt ev payload) (\<lambda>_. ret m))) s = (Inr m', s')"
  shows "m' = m \<and> messages (db s') = messages (db s) \<and> channels (db s') = channels (db s) \<and>
    channel_members (db s') = channel_members (db s) \<and>
    (\<exists>rest. outbox s' = outbox s @ PublishMessageNew ws ch m # rest)"
proof -
  let ?metering = "case (if run_sandbox rt then None else Some wired_billing) of None \<Rightarrow> ret ()
                | Some b \<Rightarrow> ignoring (RecordMessageByAppID b app)"
  obtain s1 s2 s3 x y where s1: "s1 = s\<lparr>outbox := outbox s @ [PublishMessageNew ws ch m]\<rparr>"
    and r: "?metering s1 = (Inr x, s2)" and d: "devapi_dispatch sv rt ev payload s2 = (Inr y, s')" and m: "m' = m"
    using assms by (auto simp: andthen_Inr)
  have rl: "leaves sans_metering ?metering" and re: "emits p ?metering" for p
    by (simp_all add: wired_billing_def read_only emission)
  have "sans_metering (db s2) = sans_metering (db s)" "outbox s2 = outbox s1"
    using leaves_run [OF rl r] silent_run [OF re r] s1 by simp_all
  moreover have "db s' = db s2" using leaves_run [OF devapi_dispatch_leaves [of "\<lambda>d. d"] d] .
  moreover have "grows (own_effect rt) (outbox s2) (outbox s')"
    using dispatch_own d unfolding emits_def by (metis snd_conv)
  ultimately show ?thesis
    using m s1 sans_metering_cong [of "db s2" "db s"] by (auto simp: grows_def)
qed


text \<open>C26: A message that an app's server sends is sent by one of its users. When \<open>SendMessage\<close> succeeds the sender is
  linked to the app in the environment of the key, under the given id or external id, the channel belongs to the
  workspace of the environment, and the sender is a member of it afterwards; the trimmed content is not empty, exactly
  this message is added, its event is the first thing published; and in the sandbox the number of messages was below its
  limit and, when channel ids are unique, does not exceed it afterwards.\<close>

theorem devapi_SendMessage_success:
  assumes "devapi_SendMessage (devapi_wired cfg) rt ch uid ext content s = (Inr m, s')"
  shows "m_channel_id m = ch \<and> m_content m = TrimSpace content \<and> TrimSpace content \<noteq> [] \<and>
    linked_sender rt (db s) uid ext (m_sender_id m) \<and> own_channel rt (db s) ch \<and>
    in_channel (db s') ch (m_sender_id m) \<and> messages (db s') = messages (db s) @ [m] \<and>
    (\<exists>rest. outbox s' = outbox s @ PublishMessageNew (run_workspace rt) ch m # rest) \<and>
    (run_sandbox rt \<and> 0 < MaxMessages cfg \<longrightarrow> workspace_messages (run_workspace rt) (db s) < MaxMessages cfg \<and>
      (distinct (map ch_id (channels (db s))) \<longrightarrow> workspace_messages (run_workspace rt) (db s') \<le> MaxMessages cfg))"
proof -
  have b: "dv_billing (devapi_wired cfg) = Some wired_billing" "dv_broadcast (devapi_wired cfg) = Some PublishMessageNew"
    "dv_sandbox (devapi_wired cfg) = cfg"
    by (simp_all add: devapi_wired_def wired_billing_def)
  have nonempty: "TrimSpace content \<noteq> []" using assms by (auto simp: devapi_SendMessage_def Let_def)
  with assms obtain u s1 c s2 x s3 y s4 z s5 m0 s6 where
    u: "devapi_resolveUserID rt uid ext s = (Inr u, s1)" and
    c: "exec (GetChannelInWorkspace ch (run_workspace rt)) s1 = (Inr c, s2)" and
    j: "devapi_ensureChannelMember (ch_id c) u s2 = (Inr x, s3)" and
    q: "(case (if run_sandbox rt then None else Some wired_billing) of None \<Rightarrow> ret ()
         | Some b \<Rightarrow> CheckMessageQuota b (a_id (run_app rt))) s3 = (Inr y, s4)" and
    l: "devapi_checkSandboxMessages (devapi_wired cfg) rt s4 = (Inr z, s5)" and
    i: "exec (CreateMessage (ch_id c) u (TrimSpace content)) s5 = (Inr m0, s6)" and
    rest: "andthen (emit (PublishMessageNew (run_workspace rt) (ch_id c) m0)) (\<lambda>_.
      andthen (case (if run_sandbox rt then None else Some wired_billing) of None \<Rightarrow> ret ()
                | Some b \<Rightarrow> ignoring (RecordMessageByAppID b (a_id (run_app rt)))) (\<lambda>_.
      andthen (devapi_dispatch (devapi_wired cfg) rt ''message.created'' (message_payload m0)) (\<lambda>_. ret m0))) s6 = (Inr m, s')"
    unfolding devapi_SendMessage_def Let_def b by (auto simp: andthen_Inr attempt_eq)
  have c: "c \<in> set (channels (db s1))" "ch_id c = ch" "ch_workspace_id c = run_workspace rt" "db s2 = db s1" "outbox s2 = outbox s1"
    using reader_Inr [OF reader_GetChannelInWorkspace c] unfolding channel_of_def
    by (auto split: option.splits dest!: find_SomeD)
  note i = exec_insert_Inr [OF i [unfolded CreateMessage_def]]
  note q = quota_checked [OF q]
  have q: "messages (db s4) = messages (db s3)" "channels (db s4) = channels (db s3)"
    "channel_members (db s4) = channel_members (db s3)" "outbox s4 = outbox s3"
    using q sans_metering_cong [of "db s4" "db s3"] by simp_all
  note a = after_send [OF rest] and l = sandbox_limit_Inr [OF l] and j = ensureChannelMember_joins [OF j]
    and u = resolveUserID_links [OF u]
  have msgs: "messages (db s') = messages (db s) @ [m]" "channels (db s') = channels (db s)"
    using a i l q j c u by auto
  have count: "workspace_messages w (db s4) = workspace_messages w (db s)" for w
    using q j c u by (simp add: workspace_messages_def)
  have row: "m_channel_id m = ch" "m_content m = TrimSpace content" "m_sender_id m = u" using a i c(2) by simp_all
  have "in_channel (db s') ch u" using a i l q j c(2) by (simp add: in_channel_def)
  moreover have "own_channel rt (db s) ch" using c u by (auto simp: own_channel_def)
  moreover have "\<exists>rest. outbox s' = outbox s @ PublishMessageNew (run_workspace rt) ch m # rest"
    using a i l q j c u by simp
  moreover have "run_sandbox rt \<and> 0 < MaxMessages cfg \<longrightarrow> workspace_messages (run_workspace rt) (db s) < MaxMessages cfg"
    using l count b(3) by simp
  ultimately show ?thesis
    using nonempty msgs row u workspace_messages_snoc [of "db s" "db s'" m "run_workspace rt"] by auto
qed


section \<open>Provisioning an address that is already taken\<close>

text \<open>The link of an external id.\<close>

definition link_of :: "runtime_app \<Rightarrow> db \<Rightarrow> string \<Rightarrow> app_user_row option" where
  "link_of rt d ext =
     find (\<lambda>u. au_app_id u = a_id (run_app rt) \<and> au_external_id u = ext \<and> au_environment u = run_env rt) (app_users d)"

text \<open>
  Provisioning an unused external id with the address of an existing user links that user; nobody asks them.
\<close>

lemma ProvisionUser_links:
  assumes run: "devapi_ProvisionUser sv cr random rt ext email name s = (Inr resp, s')"
    and quiet: "tape s = []" and none: "link_of rt (db s) ext = None" and ext: "TrimSpace ext = ext"
    and mail: "TrimSpace email = email" "email \<noteq> []"
    and victim: "find (\<lambda>u. u_email u = email) (users (db s)) = Some u"
    and unlinked: "\<forall>a\<in>set (app_users (db s)). au_app_id a = a_id (run_app rt) \<and> au_environment a = run_env rt \<longrightarrow>
      au_user_id a \<noteq> u_id u"
  shows "ur_id resp = u_id u \<and> ur_external_id resp = ext \<and> tape s' = [] \<and> users (db s') = users (db s) \<and>
    revoked_tokens (db s') = revoked_tokens (db s) \<and> map_option au_user_id (link_of rt (db s') ext) = Some (u_id u)"
proof -
  let ?v = "\<lambda>d. (users d, revoked_tokens d, app_users d)" and ?app = "a_id (run_app rt)"
  let ?link = "exec (CreateAppUser ?app (u_id u) ext (run_env rt))"
  have noext: "ext \<noteq> []" using run ext by (auto simp: devapi_ProvisionUser_def Let_def)
  have free: "exec (GetAppUserByExternalID ?app ext (run_env rt)) s = (Inl ENoRows, s)"
    using reader_quiet [OF devapi_readers(2) quiet] none by (simp add: link_of_def)
  have found: "devapi_resolveOrCreateProvisionedUser cr random email n s = (Inr (u, False), s)" for n
    using reader_quiet [OF devapi_readers(3) quiet] victim
    by (simp add: devapi_resolveOrCreateProvisionedUser_def attempt_def ret_def)
  have "snd (devapi_checkSandboxUsers sv rt s) = s"
    using reader_quiet [OF devapi_readers(6) quiet]
    by (simp add: devapi_checkSandboxUsers_def sandbox_limit_def andthen_def attempt_def ret_def fail_def)
  then obtain l where limit: "devapi_checkSandboxUsers sv rt s = (l, s)" by (metis prod.collapse)
  obtain r1 s1 where join: "devapi_ensureWorkspaceMember (run_workspace rt) (u_id u) s = (r1, s1)" by (rule prod.exhaust)
  have "leaves ?v (devapi_ensureWorkspaceMember (run_workspace rt) (u_id u))"
    unfolding devapi_ensureWorkspaceMember_def
    by (intro read_only leaves_exec) (simp add: AddWorkspaceMember_def insert_into_def Let_def split: option.splits)
  then have v1: "?v (db s1) = ?v (db s)" using join by (rule leaves_run)
  have "keeps_quiet (devapi_ensureWorkspaceMember (run_workspace rt) (u_id u))"
    unfolding devapi_ensureWorkspaceMember_def by (intro calm)
  then have q1: "tape s1 = []" using join quiet keeps_quiet_run by blast
  obtain r2 s2 where link: "?link s1 = (r2, s2)" by (rule prod.exhaust)
  have nolink: "\<not> exists_row (\<lambda>a. au_app_id a = ?app \<and> au_external_id a = ext \<and> au_environment a = run_env rt) (app_users (db s1))"
    "\<not> exists_row (\<lambda>a. au_app_id a = ?app \<and> au_user_id a = u_id u \<and> au_environment a = run_env rt) (app_users (db s1))"
    using none unlinked v1 by (auto simp: link_of_def find_None_iff exists_row_def)
  then have "\<not> is_unique_violation e" if "r2 = Inl e" for e
    using link that q1
    by (auto simp: exec_quiet CreateAppUser_def insert_into_def Let_def
        split: if_splits option.splits)
  then have ok: "r1 = Inr () \<and> (\<exists>a. r2 = Inr a) \<and> resp = devapi_toUserResponse u ext \<and> s' = s2"
    using run noext ext mail free found limit join link
    by (cases l; cases r1; cases r2) (auto simp: devapi_ProvisionUser_def Let_def attempt_def andthen_def fail_def ret_def)
  then obtain a where a: "?link s1 = (Inr a, s2)" using link by auto
  note row = exec_insert_Inr [OF a [unfolded CreateAppUser_def]]
  have "tape s2 = []" using a q1 keeps_quiet_exec keeps_quiet_run by blast
  moreover have "find (\<lambda>b. au_app_id b = ?app \<and> au_external_id b = ext \<and> au_environment b = run_env rt) (app_users (db s2)) = Some a"
    using row none v1 by (simp add: link_of_def find_append)
  ultimately show ?thesis
    using ok row v1 by (simp add: link_of_def devapi_toUserResponse_def)
qed


lemma CreateSession_quiet:
  assumes "tape s = []" and "link_of rt (db s) ext = Some a" and "TrimSpace ext = ext" and "ext \<noteq> []"
    and "user_by_id (db s) (au_user_id a) = Some u"
    and "GenerateSessionToken lib getenv uuid (now s) (au_user_id a) (a_id (run_app rt)) (run_sandbox rt) = Inr token"
  shows "devapi_CreateSession lib getenv uuid rt ext 0 s =
    (Inr \<lparr>sr_token = token, sr_workspace_id = run_workspace rt, sr_environment = run_env rt, sr_channel_id = 0,
          sr_user = devapi_toUserResponse u ext\<rparr>, s)"
proof -
  have "devapi_resolveUserID rt 0 ext s = (Inr (au_user_id a), s)"
    using reader_quiet [OF devapi_readers(2) assms(1)] assms(2-4)
    by (simp add: devapi_resolveUserID_def attempt_def ret_def link_of_def)
  moreover have "exec (GetUserByID (au_user_id a)) s = (Inr u, s)"
    using reader_quiet [OF reader_GetUserByID assms(1)] assms(5) by simp
  ultimately show ?thesis using assms(3,4,6) by (simp add: devapi_CreateSession_def Let_def andthen_def attempt_def ret_def)
qed


section \<open>Samples\<close>

definition sample_runtime :: "bool \<Rightarrow> runtime_app" where
  "sample_runtime sandbox =
     \<lparr>run_app = hd (apps sample_db), run_workspace = (if sandbox then 2 else 1), run_sandbox = sandbox,
      run_env = EnvironmentFromSandbox sandbox\<rparr>"

text \<open>The sample with a channel in the sandbox and bob linked to the app there.\<close>

definition sample_linked :: world where
  "sample_linked = sample\<lparr>db := sample_db
     \<lparr>channels := channels sample_db @
        [\<lparr>ch_id = 12, ch_name = ''test'', ch_owner_id = 1, ch_created_at = 0, ch_updated_at = None, ch_workspace_id = 2,
          ch_is_read_only = False\<rparr>],
      app_users := [\<lparr>au_id = 1, au_app_id = 1, au_user_id = 2, au_external_id = ''b'', au_created_at = 0,
        au_environment = ''sandbox''\<rparr>]\<rparr>\<rparr>"

theorem devapi_SendMessage_success_witness:
  "\<exists>m s'. devapi_SendMessage (devapi_wired sample_sandbox) (sample_runtime True) 12 0 '' b '' ''hi '' sample_linked =
      (Inr m, s') \<and>
    m_sender_id m = 2 \<and> in_channel (db s') 12 2 \<and> messages (db s') = messages (db sample_linked) @ [m]"
proof -
  let ?run = "devapi_SendMessage (devapi_wired sample_sandbox) (sample_runtime True) 12 0 '' b '' ''hi '' sample_linked"
  have "case ?run of (Inr m, s') \<Rightarrow> m_sender_id m = 2 | _ \<Rightarrow> False" by code_simp
  then obtain m s' where run: "?run = (Inr m, s')" and m: "m_sender_id m = 2"
    by (auto split: prod.splits sum.splits)
  show ?thesis using devapi_SendMessage_success [OF run] run m by metis
qed

end
