(* ===== verification/Platform_Admin.thy ===== *)
theory Platform_Admin
  imports Accounts Realtime_Events Triples
begin

text \<open>
  \<open>internal/platformadmin\<close>: what platform administrators see and change. The service after its statements in
  \<open>Db_Admin\<close>, the decoding of pages and the statuses of errors of its handler. The roles and the bootstrap of
  administrators are in \<open>Accounts\<close>.
\<close>

section \<open>Responses\<close>

record user_item =
  ui_id :: int
  ui_email :: string
  ui_username :: string
  ui_platform_role :: string
  ui_suspended :: bool
  ui_created_at :: int

record user_detail = user_item +
  ud_workspace_count :: int
  ud_app_count :: int

definition admin_toUserListItem :: "user_row \<Rightarrow> user_item" where
  "admin_toUserListItem u =
     \<lparr>ui_id = u_id u, ui_email = u_email u, ui_username = u_username u, ui_platform_role = u_platform_role u,
      ui_suspended = (u_suspended_at u \<noteq> None), ui_created_at = u_created_at u\<rparr>"

record workspace_item =
  wi_id :: int
  wi_name :: string
  wi_slug :: string
  wi_owner_id :: int
  wi_created_at :: int

record workspace_detail = workspace_item +
  wd_member_count :: int
  wd_channel_count :: int

definition workspace_item_of :: "workspace_row \<Rightarrow> workspace_item" where
  "workspace_item_of w =
     \<lparr>wi_id = w_id w, wi_name = w_name w, wi_slug = w_slug w, wi_owner_id = w_owner_id w, wi_created_at = w_created_at w\<rparr>"

record app_item =
  ai_id :: int
  ai_name :: string
  ai_slug :: string
  ai_workspace_id :: int
  ai_sandbox_workspace_id :: int
  ai_owner_id :: int
  ai_owner_email :: string
  ai_created_at :: int

definition admin_toAppListItem :: "app_row \<times> string \<Rightarrow> app_item" where
  "admin_toAppListItem x = (case x of (a, email) \<Rightarrow>
     \<lparr>ai_id = a_id a, ai_name = a_name a, ai_slug = a_slug a, ai_workspace_id = a_workspace_id a,
      ai_sandbox_workspace_id = a_sandbox_workspace_id a, ai_owner_id = a_owner_id a, ai_owner_email = email,
      ai_created_at = a_created_at a\<rparr>)"

record key_item =
  ki_id :: int
  ki_app_id :: int
  ki_name :: string
  ki_key_prefix :: string
  ki_is_sandbox :: bool
  ki_created_at :: int
  ki_revoked_at :: "int option"
  ki_last_used :: "int option"

definition admin_toAPIKeyItem :: "api_key_row \<Rightarrow> key_item" where
  "admin_toAPIKeyItem k =
     \<lparr>ki_id = k_id k, ki_app_id = k_app_id k, ki_name = k_name k, ki_key_prefix = k_key_prefix k,
      ki_is_sandbox = k_is_sandbox k, ki_created_at = k_created_at k, ki_revoked_at = k_revoked_at k,
      ki_last_used = k_last_used_at k\<rparr>"

record member_item =
  mi_id :: int
  mi_user_id :: int
  mi_username :: string
  mi_email :: string
  mi_role :: string
  mi_created_at :: int

definition member_item_of :: "workspace_member_row \<times> string \<times> string \<Rightarrow> member_item" where
  "member_item_of x = (case x of (m, name, email) \<Rightarrow>
     \<lparr>mi_id = wm_id m, mi_user_id = wm_user_id m, mi_username = name, mi_email = email, mi_role = wm_role m,
      mi_created_at = wm_created_at m\<rparr>)"

text \<open>The username of an entry is empty when it has no user.\<close>

record audit_item =
  li_id :: int
  li_user_id :: "int option"
  li_username :: string
  li_app_id :: "int option"
  li_action :: string
  li_method :: string
  li_path :: string
  li_ip_address :: "string option"
  li_status_code :: "int option"
  li_created_at :: int

definition admin_auditLogRowToItem :: "audit_row \<times> string option \<Rightarrow> audit_item" where
  "admin_auditLogRowToItem x = (case x of (l, name) \<Rightarrow>
     \<lparr>li_id = al_id l, li_user_id = al_user_id l, li_username = coalesce name [], li_app_id = al_app_id l,
      li_action = al_action l, li_method = al_method l, li_path = al_path l, li_ip_address = al_ip_address l,
      li_status_code = al_status_code l, li_created_at = al_created_at l\<rparr>)"

section \<open>The service\<close>

definition admin_GetOverview :: "(int \<times> int \<times> int) prog" where
  "admin_GetOverview =
     andthen (exec AdminCountUsers) (\<lambda>u. andthen (exec AdminCountWorkspaces) (\<lambda>w.
     andthen (exec AdminCountApps) (\<lambda>a. ret (u, w, a))))"

definition admin_ListUsers :: "string \<Rightarrow> int \<Rightarrow> int \<Rightarrow> user_item list prog" where
  "admin_ListUsers raw limit offset =
     (let search = TrimSpace raw in
      andthen (if search = [] then exec (ListUsersAdmin limit offset) else exec (SearchUsersAdmin search limit offset))
        (\<lambda>rows. ret (map admin_toUserListItem rows)))"

definition admin_GetUser :: "int \<Rightarrow> user_detail prog" where
  "admin_GetUser uid =
     attempt (exec (GetUserAdmin uid)) (\<lambda>e. fail (no_rows_as (EAdmin Adm_NotFound) e)) (\<lambda>u.
     andthen (exec (CountUserWorkspaces uid)) (\<lambda>w.
     andthen (exec (CountUserApps uid)) (\<lambda>a.
     ret (user_item.extend (admin_toUserListItem u) (user_detail.fields w a)))))"

text \<open>The request may leave out the role, or whether the account is suspended.\<close>

definition admin_UpdateUser :: "int \<Rightarrow> int \<Rightarrow> string option \<Rightarrow> bool option \<Rightarrow> user_detail prog" where
  "admin_UpdateUser actor uid platform_role suspended =
     (if platform_role = None \<and> suspended = None then fail (EAdmin Adm_InvalidRequest)
      else attempt (exec (GetUserAdmin uid)) (\<lambda>e. fail (no_rows_as (EAdmin Adm_NotFound) e)) (\<lambda>_.
           andthen (case platform_role of
                      None \<Rightarrow> ret ()
                    | Some raw \<Rightarrow>
                        (let role = TrimSpace raw in
                         if \<not> IsValidRole role then fail (EAdmin Adm_InvalidRole)
                         else if uid = actor \<and> role \<noteq> ''admin'' then fail (EAdmin Adm_SelfDemotion)
                         else andthen (exec (UpdateUserPlatformRole uid role)) (\<lambda>_. ret ()))) (\<lambda>_.
           andthen (case suspended of
                      None \<Rightarrow> ret ()
                    | Some suspend \<Rightarrow>
                        if uid = actor \<and> suspend then fail (EAdmin Adm_SelfSuspend)
                        else if suspend then andthen (exec (SuspendUser uid)) (\<lambda>_. ret ())
                        else andthen (exec (UnsuspendUser uid)) (\<lambda>_. ret ())) (\<lambda>_.
           admin_GetUser uid))))"

definition admin_ListWorkspaces :: "int \<Rightarrow> int \<Rightarrow> workspace_item list prog" where
  "admin_ListWorkspaces limit offset =
     andthen (exec (ListWorkspacesAdmin limit offset)) (\<lambda>rows. ret (map workspace_item_of rows))"

definition admin_GetWorkspace :: "int \<Rightarrow> workspace_detail prog" where
  "admin_GetWorkspace ws =
     attempt (exec (GetWorkspaceAdmin ws)) (\<lambda>e. fail (no_rows_as (EAdmin Adm_NotFound) e)) (\<lambda>w.
     andthen (exec (CountWorkspaceMembers ws)) (\<lambda>m.
     andthen (exec (CountWorkspaceChannels ws)) (\<lambda>c.
     ret (workspace_item.extend (workspace_item_of w) (workspace_detail.fields m c)))))"

definition admin_ListApps :: "int \<Rightarrow> int \<Rightarrow> app_item list prog" where
  "admin_ListApps limit offset =
     andthen (exec (ListAppsAdmin limit offset)) (\<lambda>rows. ret (map admin_toAppListItem rows))"

definition admin_GetApp :: "int \<Rightarrow> app_item prog" where
  "admin_GetApp app =
     attempt (exec (GetAppAdmin app)) (\<lambda>e. fail (no_rows_as (EAdmin Adm_NotFound) e)) (\<lambda>row.
     ret (admin_toAppListItem row))"

definition admin_ListAppKeys :: "int \<Rightarrow> key_item list prog" where
  "admin_ListAppKeys app =
     attempt (exec (GetAppAdmin app)) (\<lambda>e. fail (no_rows_as (EAdmin Adm_NotFound) e)) (\<lambda>_.
     andthen (exec (ListAPIKeysByApp app)) (\<lambda>rows. ret (map admin_toAPIKeyItem rows)))"

definition admin_RevokeAppKey :: "int \<Rightarrow> int \<Rightarrow> unit prog" where
  "admin_RevokeAppKey app key =
     attempt (exec (GetAppAdmin app)) (\<lambda>e. fail (no_rows_as (EAdmin Adm_NotFound) e)) (\<lambda>_.
     attempt (exec (RevokeAPIKey key app)) (\<lambda>e. fail (no_rows_as (EAdmin Adm_KeyNotFound) e)) (\<lambda>_. ret ()))"

definition admin_ListWorkspaceMembers :: "int \<Rightarrow> member_item list prog" where
  "admin_ListWorkspaceMembers ws =
     attempt (exec (GetWorkspaceAdmin ws)) (\<lambda>e. fail (no_rows_as (EAdmin Adm_NotFound) e)) (\<lambda>_.
     andthen (exec (ListWorkspaceMembers ws)) (\<lambda>rows. ret (map member_item_of rows)))"

definition admin_ListAuditLogs :: "int option \<Rightarrow> string \<Rightarrow> int \<Rightarrow> int \<Rightarrow> audit_item list prog" where
  "admin_ListAuditLogs uid raw limit offset =
     (let action = TrimSpace raw in
      andthen (if uid \<noteq> None \<or> action \<noteq> []
               then exec (ListAuditLogsAdminFiltered uid (if action = [] then None else Some action) limit offset)
               else exec (ListAuditLogsAdmin limit offset)) (\<lambda>rows.
      ret (map admin_auditLogRowToItem rows)))"

section \<open>The handler\<close>

definition wrap_int32 :: "int \<Rightarrow> int" where
  "wrap_int32 n = (n + 2147483648) mod 4294967296 - 2147483648"

text \<open>\<open>strconv.Atoi\<close> reads an \<open>int\<close>, of 64 bits; the conversion to \<open>int32\<close> keeps the low half.\<close>

definition admin_pagination :: "string \<Rightarrow> string \<Rightarrow> int \<times> int" where
  "admin_pagination raw_limit raw_offset =
     ((case ParseInt raw_limit of
         Some n \<Rightarrow> if n > 0 \<and> n \<le> 100 then wrap_int32 n else 50 | None \<Rightarrow> 50),
      (case ParseInt raw_offset of
         Some n \<Rightarrow> if n \<ge> 0 then wrap_int32 n else 0 | None \<Rightarrow> 0))"

fun admin_error_text :: "goerr \<Rightarrow> string" where
  "admin_error_text (EAdmin Adm_Forbidden) = ''platform admin access required''"
| "admin_error_text (EAdmin Adm_NotFound) = ''resource not found''"
| "admin_error_text (EAdmin Adm_InvalidRole) = ''invalid platform role''"
| "admin_error_text (EAdmin Adm_SelfDemotion) = ''cannot change your own platform role''"
| "admin_error_text (EAdmin Adm_SelfSuspend) = ''cannot suspend your own account''"
| "admin_error_text (EAdmin Adm_InvalidRequest) = ''invalid request''"
| "admin_error_text (EAdmin Adm_KeyNotFound) = ''api key not found''"
| "admin_error_text _ = []"

definition admin_writeError :: "goerr \<Rightarrow> int \<times> string" where
  "admin_writeError e =
     (let say = (\<lambda>known. ClientMessage admin_error_text (Some e) (map EAdmin known)) in
      if e = EAdmin Adm_NotFound then (404, say [Adm_NotFound])
      else if e = EAdmin Adm_Forbidden then (403, say [Adm_Forbidden])
      else if e = EAdmin Adm_InvalidRole then (400, say [Adm_InvalidRole])
      else if e = EAdmin Adm_SelfDemotion \<or> e = EAdmin Adm_SelfSuspend then (409, say [Adm_SelfDemotion, Adm_SelfSuspend])
      else if e = EAdmin Adm_InvalidRequest then (400, say [Adm_InvalidRequest])
      else if e = EAdmin Adm_KeyNotFound then (404, say [Adm_KeyNotFound])
      else (500, InternalMessage))"

section \<open>Reads\<close>

lemma paged_leaves [read_only]: "leaves f (exec (paged limit offset rows))"
  by (rule leaves_exec) (simp add: paged_def guarded_def select_def split: option.splits)

lemma admin_statements_read [read_only]:
  "leaves f (exec AdminCountUsers)" "leaves f (exec AdminCountWorkspaces)" "leaves f (exec AdminCountApps)"
  "leaves f (exec (CountUserWorkspaces uid))" "leaves f (exec (CountUserApps uid))"
  "leaves f (exec (CountWorkspaceMembers ws))" "leaves f (exec (CountWorkspaceChannels ws))"
  "leaves f (exec (GetUserAdmin uid))" "leaves f (exec (GetWorkspaceAdmin ws))" "leaves f (exec (GetAppAdmin app))"
  "leaves f (exec (ListAPIKeysByApp app))" "leaves f (exec (ListWorkspaceMembers ws))"
  unfolding AdminCountUsers_def AdminCountWorkspaces_def AdminCountApps_def CountUserWorkspaces_def CountUserApps_def
    CountWorkspaceMembers_def CountWorkspaceChannels_def GetUserAdmin_def GetWorkspaceAdmin_def GetAppAdmin_def
    ListAPIKeysByApp_def ListWorkspaceMembers_def
  by (intro read_only)+

lemma GetUser_reads [read_only]: "leaves f (admin_GetUser uid)"
  unfolding admin_GetUser_def by (intro read_only)

text \<open>Looking around changes nothing.\<close>

lemma admin_views_read:
  "leaves f admin_GetOverview" "leaves f (admin_ListUsers search limit offset)"
  "leaves f (admin_ListWorkspaces limit offset)" "leaves f (admin_GetWorkspace ws)" "leaves f (admin_ListApps limit offset)"
  "leaves f (admin_GetApp app)" "leaves f (admin_ListAppKeys app)" "leaves f (admin_ListWorkspaceMembers ws)"
  "leaves f (admin_ListAuditLogs uid action limit offset)"
  unfolding admin_GetOverview_def admin_ListUsers_def admin_ListWorkspaces_def admin_GetWorkspace_def admin_ListApps_def
    admin_GetApp_def admin_ListAppKeys_def admin_ListWorkspaceMembers_def admin_ListAuditLogs_def
    ListUsersAdmin_def SearchUsersAdmin_def ListWorkspacesAdmin_def ListAppsAdmin_def ListAuditLogsAdmin_def
    ListAuditLogsAdminFiltered_def Let_def
  by (intro read_only)+


section \<open>Administrators\<close>

definition active_admin :: "int \<Rightarrow> db \<Rightarrow> bool" where
  "active_admin a d \<longleftrightarrow> (\<exists>u\<in>set (users d). u_id u = a) \<and>
     (\<forall>u\<in>set (users d). u_id u = a \<longrightarrow> u_platform_role u = ''admin'' \<and> u_suspended_at u = None)"

lemma active_admin_update:
  assumes "active_admin a d" and "\<And>u. p u \<Longrightarrow> u_id (g u) = u_id u"
    and "\<And>u. p u \<Longrightarrow> u_id u = a \<Longrightarrow> u_platform_role u = ''admin'' \<Longrightarrow> u_suspended_at u = None \<Longrightarrow>
           u_platform_role (g u) = ''admin'' \<and> u_suspended_at (g u) = None"
  shows "active_admin a (users_update (update_where p g) d)"
proof -
  let ?f = "\<lambda>r. if p r then g r else r"
  have id_f: "u_id (?f u) = u_id u" for u using assms(2) by simp
  have rows: "set (users (users_update (update_where p g) d)) = ?f ` set (users d)" by (simp add: set_update_where)
  have "u_platform_role (?f u) = ''admin'' \<and> u_suspended_at (?f u) = None" if "u \<in> set (users d)" "u_id u = a" for u
    using assms(1,3) that unfolding active_admin_def by auto
  moreover have "\<exists>u\<in>?f ` set (users d). u_id u = a"
    using assms(1) id_f unfolding active_admin_def by (metis imageI)
  ultimately show ?thesis unfolding active_admin_def rows ball_simps(9) using id_f by simp
qed

lemma role_keeps_admin:
  "uid = actor \<longrightarrow> role = ''admin'' \<Longrightarrow> preserves (active_admin actor) (exec (UpdateUserPlatformRole uid role))"
  by (rule preserves_exec)
    (auto simp: UpdateUserPlatformRole_def guarded_def update_one_def split: option.splits intro!: active_admin_update)

lemma suspend_keeps_admin: "uid \<noteq> actor \<Longrightarrow> preserves (active_admin actor) (exec (SuspendUser uid))"
  by (rule preserves_exec) (auto simp: SuspendUser_def update_one_def split: option.splits intro!: active_admin_update)

lemma unsuspend_keeps_admin: "preserves (active_admin actor) (exec (UnsuspendUser uid))"
  by (rule preserves_exec) (auto simp: UnsuspendUser_def update_one_def split: option.splits intro!: active_admin_update)

text \<open>C31: The administrator who changes users stays an active administrator: no request to \<open>UpdateUser\<close> demotes or
  suspends the one who sends it, whatever its statements meet, so a request at a time never leaves the platform without
  an administrator.\<close>

theorem acting_admin_remains: "preserves (active_admin actor) (admin_UpdateUser actor uid platform_role suspended)"
proof -
  have role: "preserves (active_admin actor)
      (if \<not> IsValidRole role then fail (EAdmin Adm_InvalidRole)
       else if uid = actor \<and> role \<noteq> ''admin'' then fail (EAdmin Adm_SelfDemotion)
       else andthen (exec (UpdateUserPlatformRole uid role)) (\<lambda>_. ret ()))" for role
    by (auto intro!: preserve role_keeps_admin)
  have suspend: "preserves (active_admin actor)
      (if uid = actor \<and> b then fail (EAdmin Adm_SelfSuspend)
       else if b then andthen (exec (SuspendUser uid)) (\<lambda>_. ret ()) else andthen (exec (UnsuspendUser uid)) (\<lambda>_. ret ()))" for b
    by (auto intro!: preserve suspend_keeps_admin unsuspend_keeps_admin)
  have get: "preserves (active_admin actor) (exec (GetUserAdmin uid))" "preserves (active_admin actor) (admin_GetUser uid)"
    by (rule leaves_imp_preserves [of "\<lambda>d. d"], intro read_only, simp)+
  show ?thesis
    unfolding admin_UpdateUser_def Let_def
    by (intro preserves_if preserves_fail preserves_attempt preserves_andthen preserves_case_option preserves_ret role
        suspend get)
qed

section \<open>Suspension\<close>

lemma SuspendUser_effect:
  assumes "exec (SuspendUser uid) s = (Inr u, s')"
  shows "\<forall>u\<in>set (users (db s')). u_id u = uid \<longrightarrow> u_suspended_at u = Some (now s') \<and> u_tokens_invalidated_at u = Some (now s')"
proof -
  obtain d where d: "users (db s') = update_where (\<lambda>u. u_id u = uid)
      (\<lambda>u. u\<lparr>u_suspended_at := Some (now s'), u_tokens_invalidated_at := Some (now s')\<rparr>) d"
    using exec_update_one_Inr [OF assms [unfolded SuspendUser_def]] by auto
  show ?thesis unfolding d set_update_where ball_simps(9) by simp
qed

text \<open>The account is closed since \<open>t\<close> for tokens issued before.\<close>

definition closed_since :: "int \<Rightarrow> int \<Rightarrow> db \<Rightarrow> bool" where
  "closed_since uid t d \<longleftrightarrow> (\<forall>u\<in>set (users d). u_id u = uid \<longrightarrow> (\<exists>x\<ge>t. u_tokens_invalidated_at u = Some x))"

lemma closed_since_rejects:
  assumes "closed_since (jc_UserID c) t d" and "jc_IssuedAt c = Some i" and "i < t"
  shows "\<exists>e. token_result c d = Inl e"
proof (cases "user_by_id d (jc_UserID c)")
  case (Some u)
  then have "u \<in> set (users d)" "u_id u = jc_UserID c" unfolding user_by_id_def by (auto dest: find_SomeD)
  then obtain x where "u_tokens_invalidated_at u = Some x" "t \<le> x" using assms(1) by (auto simp: closed_since_def)
  then have "invalidated c (state_of_user u)" using assms(2,3) by (simp add: invalidated_def state_of_user_def)
  then show ?thesis using Some by (auto simp: token_result_def)
qed (auto simp: token_result_def)

lemma closed_since_unsuspended:
  "closed_since uid t d \<Longrightarrow> closed_since uid t (snd (UnsuspendUser i t' d))"
  by (auto simp: UnsuspendUser_def update_one_def closed_since_def set_update_where split: option.splits)

lemma UpdateUser_suspends:
  assumes "admin_UpdateUser actor uid platform_role (Some True) s = (Inr r, s')" and "tape s = []"
  shows "uid \<noteq> actor \<and> closed_since uid (now s) (db s') \<and>
    (\<forall>u\<in>set (users (db s')). u_id u = uid \<longrightarrow> u_suspended_at u \<noteq> None)"
proof -
  let ?role = "case platform_role of
      None \<Rightarrow> ret ()
    | Some raw \<Rightarrow>
        (let role = TrimSpace raw in
         if \<not> IsValidRole role then fail (EAdmin Adm_InvalidRole)
         else if uid = actor \<and> role \<noteq> ''admin'' then fail (EAdmin Adm_SelfDemotion)
         else andthen (exec (UpdateUserPlatformRole uid role)) (\<lambda>_. ret ()))"
  let ?suspend = "if uid = actor \<and> True then fail (EAdmin Adm_SelfSuspend)
        else if True then andthen (exec (SuspendUser uid)) (\<lambda>_. ret ()) else andthen (exec (UnsuspendUser uid)) (\<lambda>_. ret ())"
  have "attempt (exec (GetUserAdmin uid)) (\<lambda>e. fail (no_rows_as (EAdmin Adm_NotFound) e)) (\<lambda>_.
      andthen ?role (\<lambda>_. andthen ?suspend (\<lambda>_. admin_GetUser uid))) s = (Inr r, s')"
    using assms(1) unfolding admin_UpdateUser_def by simp
  then obtain u s1 where get: "exec (GetUserAdmin uid) s = (Inr u, s1)"
    and more: "andthen ?role (\<lambda>_. andthen ?suspend (\<lambda>_. admin_GetUser uid)) s1 = (Inr r, s')"
    unfolding attempt_eq by auto
  then obtain x s2 where role: "?role s1 = (Inr x, s2)"
    and rest: "andthen ?suspend (\<lambda>_. admin_GetUser uid) s2 = (Inr r, s')"
    unfolding andthen_Inr by blast
  have "keeps_quiet ?role" unfolding Let_def by (intro calm)
  from keeps_quiet_run [OF this role] keeps_quiet_run [OF keeps_quiet_exec get assms(2)]
  have quiet: "tape s2 = []" "now s2 = now s" by simp_all
  from rest obtain v s3 where other: "uid \<noteq> actor" and sus: "exec (SuspendUser uid) s2 = (Inr v, s3)"
    and read: "admin_GetUser uid s3 = (Inr r, s')"
    by (auto simp: andthen_Inr split: if_splits)
  have "now s3 = now s" using keeps_quiet_run [OF keeps_quiet_exec sus quiet(1)] quiet(2) by simp
  moreover have "db s' = db s3" using leaves_run [OF GetUser_reads [of "\<lambda>d. d"] read] .
  ultimately have "\<forall>u\<in>set (users (db s')). u_id u = uid \<longrightarrow>
      u_suspended_at u = Some (now s) \<and> u_tokens_invalidated_at u = Some (now s)"
    using SuspendUser_effect [OF sus] by simp
  then show ?thesis using other by (simp add: closed_since_def)
qed



section \<open>Pages\<close>

lemma wrap_int32_range: "-2147483648 \<le> wrap_int32 n \<and> wrap_int32 n < 2147483648"
  unfolding wrap_int32_def by (simp add: pos_mod_bound)

lemma wrap_int32_id: "-2147483648 \<le> n \<Longrightarrow> n < 2147483648 \<Longrightarrow> wrap_int32 n = n"
  unfolding wrap_int32_def by (simp add: mod_pos_pos_trivial)

lemma wrap_int32_above: "2147483648 \<le> n \<Longrightarrow> n < 4294967296 \<Longrightarrow> wrap_int32 n = n - 4294967296"
proof -
  assume n: "2147483648 \<le> n" "n < 4294967296"
  have "(n + 2147483648) mod 4294967296 = (n - 2147483648) mod 4294967296"
    using mod_add_self2 [of "n - 2147483648" "4294967296 :: int"] by (simp add: algebra_simps)
  then show "wrap_int32 n = n - 4294967296" using n by (simp add: wrap_int32_def mod_pos_pos_trivial)
qed

text \<open>A page has between 1 and 100 rows, and its offset is the requested one below $2^{31}$. From there the
  conversion to 32 bits wraps: up to $2^{32}$ it is negative, and the listing of users fails with an error of the
  database.\<close>

theorem pagination_bounds:
  "1 \<le> fst (admin_pagination raw_limit raw_offset) \<and> fst (admin_pagination raw_limit raw_offset) \<le> 100 \<and>
   (0 \<le> n \<and> n < 2147483648 \<longrightarrow> snd (admin_pagination raw_limit (FormatInt n)) = n) \<and>
   (2147483648 \<le> n \<and> n < 4294967296 \<longrightarrow> snd (admin_pagination raw_limit (FormatInt n)) < 0 \<and>
      (tape s = [] \<longrightarrow> admin_ListUsers search (fst (admin_pagination raw_limit (FormatInt n)))
         (snd (admin_pagination raw_limit (FormatInt n))) s = (Inl (EPg ''2201X'' []), s)))"
proof -
  have lim: "1 \<le> fst (admin_pagination raw_limit o')" "fst (admin_pagination raw_limit o') \<le> 100" for o'
    by (auto simp: admin_pagination_def wrap_int32_id split: option.split)
  have off: "snd (admin_pagination raw_limit (FormatInt n)) = wrap_int32 n" if "0 \<le> n" "n < 4294967296"
    using that ParseInt_FormatInt [of n] by (simp add: admin_pagination_def)
  have "admin_ListUsers search l o' s = (Inl (EPg ''2201X'' []), s)" if "tape s = []" "1 \<le> l" "o' < 0" for l o'
    using that
    by (simp add: admin_ListUsers_def Let_def andthen_def attempt_def exec_quiet ListUsersAdmin_def SearchUsersAdmin_def
        paged_def guarded_def fail_def)
  then show ?thesis using lim off by (auto simp: wrap_int32_id wrap_int32_above)
qed

theorem pagination_bounds_witness:
  "snd (admin_pagination [] (FormatInt 2147483648)) < 0 \<and>
   admin_ListUsers [] (fst (admin_pagination [] (FormatInt 2147483648))) (snd (admin_pagination [] (FormatInt 2147483648)))
     sample = (Inl (EPg ''2201X'' []), sample)"
  using pagination_bounds [of "[]" "[]" 2147483648 sample "[]"] by simp

end
