(* ===== verification/Rate_Limit.thy ===== *)
theory Rate_Limit
  imports Go_Strings
begin

text \<open>
  \<open>internal/ratelimit\<close>: a limiter allows so many requests a minute for a key, counted in Redis when there is a client,
  otherwise, or when Redis fails, in a log of times in memory. Times and durations are nanoseconds. What \<open>INCR\<close> answers
  is an argument: \<open>None\<close> is an error.
\<close>

section \<open>Configuration\<close>

definition limit_env :: "(string \<Rightarrow> string) \<Rightarrow> string \<Rightarrow> int \<Rightarrow> int" where
  "limit_env getenv key fallback =
     (let raw = TrimSpace (getenv key) in
      if raw = [] then fallback
      else case ParseInt raw of None \<Rightarrow> fallback | Some v \<Rightarrow> if v \<le> 0 then fallback else v)"

definition ratelimit_LoadConfig :: "(string \<Rightarrow> string) \<Rightarrow> int" where
  "ratelimit_LoadConfig getenv = limit_env getenv ''API_RATE_LIMIT_PER_MINUTE'' 120"

definition ratelimit_LoadSandboxConfig :: "(string \<Rightarrow> string) \<Rightarrow> int" where
  "ratelimit_LoadSandboxConfig getenv = limit_env getenv ''SANDBOX_API_RATE_LIMIT_PER_MINUTE'' 30"

definition ratelimit_LoadIPConfig :: "(string \<Rightarrow> string) \<Rightarrow> int" where
  "ratelimit_LoadIPConfig getenv = limit_env getenv ''HTTP_RATE_LIMIT_PER_IP'' 300"

section \<open>The limiter\<close>

text \<open>A key without entry has the nil slice.\<close>

record limiter =
  lm_redis :: bool
  lm_limit :: int
  lm_window :: int
  lm_count :: "string \<Rightarrow> int list"

definition NewLimiter :: "bool \<Rightarrow> int \<Rightarrow> limiter" where
  "NewLimiter redis per_minute =
     \<lparr>lm_redis = redis, lm_limit = (if per_minute \<le> 0 then 120 else per_minute), lm_window = 60000000000,
      lm_count = (\<lambda>_. [])\<rparr>"

definition limiter_allowMemory :: "string \<Rightarrow> int \<Rightarrow> limiter \<Rightarrow> bool \<times> limiter" where
  "limiter_allowMemory key t l =
     (let cutoff = t - lm_window l;
          filtered = filter (\<lambda>ts. ts > cutoff) (lm_count l key)
      in if int (length filtered) \<ge> lm_limit l
         then (False, l\<lparr>lm_count := (lm_count l)(key := filtered)\<rparr>)
         else (True, l\<lparr>lm_count := (lm_count l)(key := filtered @ [t])\<rparr>))"

text \<open>The last component tells whether \<open>EXPIRE\<close> is sent; its error is dropped.\<close>

definition limiter_allowRedis :: "string \<Rightarrow> int \<Rightarrow> int option \<Rightarrow> limiter \<Rightarrow> bool \<times> limiter \<times> bool" where
  "limiter_allowRedis key t incr l =
     (case incr of
        None \<Rightarrow> (let (ok, l) = limiter_allowMemory key t l in (ok, l, False))
      | Some count \<Rightarrow> (count \<le> lm_limit l, l, count = 1))"

definition limiter_Allow :: "string \<Rightarrow> int \<Rightarrow> int option \<Rightarrow> limiter \<Rightarrow> bool \<times> limiter \<times> bool" where
  "limiter_Allow key t incr l =
     (if lm_redis l then limiter_allowRedis key t incr l
      else let (ok, l) = limiter_allowMemory key t l in (ok, l, False))"

definition ratelimit_IPKey :: "string \<Rightarrow> string" where
  "ratelimit_IPKey ip = ''ip:'' @ ip"

definition ratelimit_Key :: "int \<Rightarrow> int \<Rightarrow> string" where
  "ratelimit_Key app key = ''app:'' @ FormatInt app @ '':key:'' @ FormatInt key"

text \<open>Every API key has a bucket of its own, and no address of a client shares one with it, also where the limiters
  of live, sandbox and address share one Redis.\<close>

theorem rate_limit_buckets_distinct:
  "(ratelimit_Key app key = ratelimit_Key app' key' \<longleftrightarrow> app = app' \<and> key = key') \<and>
   (ratelimit_IPKey ip = ratelimit_IPKey ip' \<longleftrightarrow> ip = ip') \<and> ratelimit_Key app key \<noteq> ratelimit_IPKey ip"
proof -
  have "app = app' \<and> key = key'" if "ratelimit_Key app key = ratelimit_Key app' key'"
  proof -
    have split: "split_first CHR '':'' (FormatInt a @ CHR '':'' # ''key:'' @ FormatInt k) = Some (FormatInt a, ''key:'' @ FormatInt k)"
      for a k using FormatInt_no_colon by (rule split_first_append)
    show ?thesis using that split [of app key] split [of app' key'] by (simp add: ratelimit_Key_def FormatInt_inject)
  qed
  then show ?thesis by (auto simp: ratelimit_IPKey_def ratelimit_Key_def)
qed

section \<open>A stream of requests\<close>

text \<open>The answers to a stream of requests, given as their keys and times, while no count comes from Redis.\<close>

fun answers :: "limiter \<Rightarrow> (string \<times> int) list \<Rightarrow> bool list" where
  "answers l [] = []"
| "answers l ((key, t) # rs) = (case limiter_Allow key t None l of (ok, l2, _) \<Rightarrow> ok # answers l2 rs)"

text \<open>The reference: a request is allowed when fewer than the limit were allowed in the window that ends with it.\<close>

definition recent :: "int \<Rightarrow> (string \<times> int) list \<Rightarrow> string \<Rightarrow> int \<Rightarrow> int list" where
  "recent window past key t = filter (\<lambda>ts. ts > t - window) (map snd (filter (\<lambda>r. fst r = key) past))"

fun sliding_window :: "int \<Rightarrow> int \<Rightarrow> (string \<times> int) list \<Rightarrow> (string \<times> int) list \<Rightarrow> bool list" where
  "sliding_window limit window past [] = []"
| "sliding_window limit window past ((key, t) # rs) =
     (let ok = int (length (recent window past key t)) < limit
      in ok # sliding_window limit window (if ok then past @ [(key, t)] else past) rs)"

text \<open>What the log of a limiter must still know at the time of the next request.\<close>

definition logs :: "limiter \<Rightarrow> (string \<times> int) list \<Rightarrow> int \<Rightarrow> bool" where
  "logs l past t0 \<longleftrightarrow> (\<forall>key t. t0 \<le> t \<longrightarrow> filter (\<lambda>ts. ts > t - lm_window l) (lm_count l key) = recent (lm_window l) past key t)"

lemma Allow_memory: "limiter_Allow key t None l = (case limiter_allowMemory key t l of (ok, l2) \<Rightarrow> (ok, l2, False))"
  by (simp add: limiter_Allow_def limiter_allowRedis_def)

lemma recent_snoc:
  "recent w (past @ [(key, t)]) k t' = recent w past k t' @ (if k = key \<and> t > t' - w then [t] else [])"
  by (simp add: recent_def)

lemma filter_later: "t \<le> t' \<Longrightarrow> filter (\<lambda>ts. ts > t' - w) (filter (\<lambda>ts. ts > t - w) xs) = filter (\<lambda>ts. ts > t' - w) (xs :: int list)"
  by (induction xs) auto

lemma allowMemory_logs:
  assumes "logs l past t0" and "t0 \<le> t" and "limiter_allowMemory key t l = (ok, l2)"
  shows "ok = (int (length (recent (lm_window l) past key t)) < lm_limit l) \<and>
    logs l2 (if ok then past @ [(key, t)] else past) t \<and> lm_window l2 = lm_window l \<and> lm_limit l2 = lm_limit l"
proof -
  have now: "filter (\<lambda>ts. ts > t - lm_window l) (lm_count l key) = recent (lm_window l) past key t"
    using assms(1,2) by (simp add: logs_def)
  have later: "filter (\<lambda>ts. ts > t' - lm_window l) (recent (lm_window l) past key t) = recent (lm_window l) past key t'"
    if "t \<le> t'" for t'
    using that by (simp only: recent_def filter_later)
  have other: "filter (\<lambda>ts. ts > t' - lm_window l) (lm_count l k) = recent (lm_window l) past k t'" if "t \<le> t'" for k t'
    using that assms(1,2) by (simp add: logs_def)
  show ?thesis
  proof (cases "int (length (recent (lm_window l) past key t)) < lm_limit l")
    case True
    then have "ok" and "l2 = l\<lparr>lm_count := (lm_count l)(key := recent (lm_window l) past key t @ [t])\<rparr>"
      using assms(3) by (auto simp: limiter_allowMemory_def Let_def now)
    then show ?thesis using True later other by (simp add: logs_def recent_snoc)
  next
    case False
    then have "\<not> ok" and "l2 = l\<lparr>lm_count := (lm_count l)(key := recent (lm_window l) past key t)\<rparr>"
      using assms(3) by (auto simp: limiter_allowMemory_def Let_def now)
    then show ?thesis using False later other by (simp add: logs_def)
  qed
qed

lemma answers_sliding:
  assumes "logs l past t0" and "sorted (t0 # map snd rs)"
  shows "answers l rs = sliding_window (lm_limit l) (lm_window l) past rs"
  using assms
proof (induction rs arbitrary: l past t0)
  case (Cons r rs)
  obtain key t where r: "r = (key, t)" by (rule prod.exhaust)
  obtain ok l2 where ok: "limiter_allowMemory key t l = (ok, l2)" by (rule prod.exhaust)
  have "t0 \<le> t" using Cons.prems(2) r by simp
  note step = allowMemory_logs [OF Cons.prems(1) this ok]
  then have "answers l2 rs = sliding_window (lm_limit l2) (lm_window l2) (if ok then past @ [(key, t)] else past) rs"
    using Cons.IH [of l2 "if ok then past @ [(key, t)] else past" t] Cons.prems(2) r by (cases ok) simp_all
  moreover have "ok = (int (length (recent (lm_window l) past key t)) < lm_limit l)" "lm_window l2 = lm_window l"
    "lm_limit l2 = lm_limit l"
    using step Cons.prems(2) r by simp_all
  ultimately show ?case using r ok by (cases ok) (simp_all add: Allow_memory Let_def)
qed simp

text \<open>C28: The limiter in memory is an exact sliding window. When no count comes from Redis, either because there is no
  client or because it fails, and time does not go back, a request is allowed exactly when fewer than the limit were
  allowed for its key in the minute that ends with it, although the log forgets times and knows nothing of refusals.\<close>

theorem memory_limiter_exact:
  assumes "sorted (map snd rs)"
  shows "answers (NewLimiter redis per_minute) rs =
    sliding_window (if per_minute \<le> 0 then 120 else per_minute) 60000000000 [] rs"
proof (cases rs)
  case (Cons r rest)
  have "logs (NewLimiter redis per_minute) [] (snd r)" by (simp add: logs_def NewLimiter_def recent_def)
  then show ?thesis using answers_sliding [of "NewLimiter redis per_minute" "[]" "snd r" rs] assms Cons
    by (simp add: NewLimiter_def)
qed simp

definition granted :: "(string \<times> int) list \<Rightarrow> bool list \<Rightarrow> (string \<times> int) list" where
  "granted rs oks = map fst (filter snd (zip rs oks))"

definition in_window :: "int \<Rightarrow> (string \<times> int) list \<Rightarrow> string \<Rightarrow> int \<Rightarrow> int list" where
  "in_window window past key t = filter (\<lambda>ts. t - window < ts \<and> ts \<le> t) (map snd (filter (\<lambda>r. fst r = key) past))"

lemma in_window_recent: "(\<And>r. r \<in> set past \<Longrightarrow> snd r \<le> t) \<Longrightarrow> in_window w past key t = recent w past key t"
  unfolding in_window_def recent_def by (rule filter_cong) auto

lemma in_window_snoc:
  "in_window w (past @ [(key, t)]) k t' = in_window w past k t' @ (if k = key \<and> t' - w < t \<and> t \<le> t' then [t] else [])"
  by (simp add: in_window_def)

lemma recent_shrinks: "t \<le> t' \<Longrightarrow> length (recent w past key t') \<le> length (recent w past key t)"
  unfolding recent_def by (metis filter_later length_filter_le)

lemma sliding_window_bound:
  assumes "\<And>k t. int (length (in_window w past k t)) \<le> limit" and "sorted (map snd rs)"
    and "\<And>r r'. r \<in> set past \<Longrightarrow> r' \<in> set rs \<Longrightarrow> snd r \<le> snd r'"
  shows "int (length (in_window w (past @ granted rs (sliding_window limit w past rs)) key t)) \<le> limit"
  using assms
proof (induction rs arbitrary: past)
  case (Cons r rs)
  obtain k0 t0 where r: "r = (k0, t0)" by (rule prod.exhaust)
  let ?ok = "int (length (recent w past k0 t0)) < limit"
  let ?past = "if ?ok then past @ [r] else past"
  have old: "snd r' \<le> t0" if "r' \<in> set past" for r' using Cons.prems(3) [OF that, of r] r by simp
  have "int (length (in_window w ?past k t)) \<le> limit" for k t
  proof (cases "?ok \<and> k = k0 \<and> t - w < t0 \<and> t0 \<le> t")
    case True
    then have "in_window w past k t = recent w past k t" using old by (intro in_window_recent) force
    then have "int (length (in_window w past k t)) < limit" using True recent_shrinks [of t0 t w past k0] by simp
    then show ?thesis using True r by (simp add: in_window_snoc)
  next
    case False
    then show ?thesis using Cons.prems(1) [of k t] r by (auto simp: in_window_snoc)
  qed
  moreover have "snd a \<le> snd b" if "a \<in> set ?past" "b \<in> set rs" for a b
  proof (cases "a = r")
    case True
    then show ?thesis using Cons.prems(2) that(2) by simp
  next
    case False
    then have "a \<in> set past" using that(1) by (simp split: if_splits)
    then show ?thesis using Cons.prems(3) [of a b] that(2) by simp
  qed
  ultimately have "int (length (in_window w (?past @ granted rs (sliding_window limit w ?past rs)) key t)) \<le> limit"
    using Cons.IH [of ?past] Cons.prems(2) by simp
  then show ?case using r by (auto simp: granted_def Let_def split: if_splits)
qed (simp add: granted_def)

text \<open>No key is allowed more than its limit in any minute: of the requests that the limiter in memory grants,
  however they come, at most the limit for one key lie in any window of a minute.\<close>

theorem memory_limiter_bound:
  assumes "sorted (map snd rs)" and "0 < per_minute"
  shows "int (length (in_window 60000000000 (granted rs (answers (NewLimiter redis per_minute) rs)) key t)) \<le> per_minute"
  using sliding_window_bound [of 60000000000 "[]" per_minute rs key t] assms
  by (simp add: memory_limiter_exact in_window_def)

theorem memory_limiter_exact_witness:
  "answers (NewLimiter False 2) [(''k'', 0), (''k'', 1), (''k'', 2), (''j'', 2), (''k'', 60000000000)] =
    sliding_window 2 60000000000 [] [(''k'', 0), (''k'', 1), (''k'', 2), (''j'', 2), (''k'', 60000000000)] \<and>
   answers (NewLimiter False 2) [(''k'', 0), (''k'', 1), (''k'', 2), (''j'', 2), (''k'', 60000000000)] =
    [True, True, False, True, True]"
proof
  show "answers (NewLimiter False 2) [(''k'', 0), (''k'', 1), (''k'', 2), (''j'', 2), (''k'', 60000000000)] =
    sliding_window 2 60000000000 [] [(''k'', 0), (''k'', 1), (''k'', 2), (''j'', 2), (''k'', 60000000000)]"
    by (subst memory_limiter_exact) simp_all
qed code_simp

theorem memory_limiter_bound_witness:
  "int (length (in_window 60000000000 (granted [(''k'', 0), (''k'', 1), (''k'', 2)]
     (answers (NewLimiter False 2) [(''k'', 0), (''k'', 1), (''k'', 2)])) ''k'' 5)) \<le> 2"
  by (rule memory_limiter_bound) simp_all

end
