(* ===== verification/Middleware.thy ===== *)
theory Middleware
  imports Developer_Api Platform_Admin Rate_Limit
begin

text \<open>
  \<open>internal/middleware\<close> and the routes of \<open>cmd/api/main.go\<close>: what stands between a request and the services.
  A middleware that only decides whether a request goes on is a gate, which stops it with a status and a message or
  passes it with what it sets in the context. The idempotency and the audit middleware also act after the handler, they
  are functions of the rest of the chain. A panic, of \<open>c.MustGet\<close> when a value is not set, is an error of the program:
  it skips the rest of the chain and what the middleware would do after it, and gin answers 500.
\<close>

section \<open>Requests and contexts\<close>

text \<open>The path of the matched route is empty when there is none; absent headers and parameters are empty.\<close>

record request =
  rq_method :: string
  rq_path :: string
  rq_full_path :: string
  rq_header :: "string \<Rightarrow> string"
  rq_query :: "string \<Rightarrow> string"
  rq_raw_query :: string
  rq_param :: "string \<Rightarrow> string"
  rq_ip :: string

record ctx =
  cx_user_id :: "int option"
  cx_app_id :: "int option"
  cx_key_env :: "string option"
  cx_app :: "app_row option"
  cx_workspace_id :: "int option"
  cx_api_key_id :: "int option"
  cx_is_sandbox :: "bool option"
  cx_platform_role :: "string option"

definition empty_ctx :: ctx where
  "empty_ctx = \<lparr>cx_user_id = None, cx_app_id = None, cx_key_env = None, cx_app = None, cx_workspace_id = None,
     cx_api_key_id = None, cx_is_sandbox = None, cx_platform_role = None\<rparr>"

definition go_panic :: "'a prog" where
  "go_panic = fail (EExternal ''panic'')"

datatype gate_result = Pass ctx | Stop int string

type_synonym gate = "request \<Rightarrow> ctx \<Rightarrow> gate_result prog"

text \<open>The result comes with the context at the end.\<close>

fun through :: "gate list \<Rightarrow> request \<Rightarrow> ctx \<Rightarrow> (gate_result \<times> ctx) prog" where
  "through [] r c = ret (Pass c, c)"
| "through (g # gs) r c =
     andthen (g r c) (\<lambda>res. case res of Pass c2 \<Rightarrow> through gs r c2 | Stop status message \<Rightarrow> ret (Stop status message, c))"

section \<open>Tokens\<close>

definition splitBearer :: "string \<Rightarrow> string list" where
  "splitBearer h = (if length h > 7 \<and> take 7 h = ''Bearer '' then [''Bearer '', drop 7 h] else [])"

text \<open>\<open>None\<close> when there is no token.\<close>

definition bearerToken :: "request \<Rightarrow> string option" where
  "bearerToken r =
     (let h = rq_header r ''Authorization'' in
      if h = [] then None
      else let parts = splitBearer h in
           if length parts \<noteq> 2 \<or> parts ! 1 = [] then None else Some (parts ! 1))"

definition AuthMiddleware :: "jwt_lib \<Rightarrow> gate" where
  "AuthMiddleware lib r c =
     (let token = (case bearerToken r of Some t \<Rightarrow> t | None \<Rightarrow> TrimSpace (rq_query r ''token'')) in
      if token = [] then ret (Stop 401 ''missing auth token'')
      else attempt (auth_ValidateAccessToken lib token) (\<lambda>_. ret (Stop 401 ''invalid token''))
             (\<lambda>(uid, app, env).
               ret (Pass (if app > 0 then c\<lparr>cx_user_id := Some uid, cx_app_id := Some app, cx_key_env := Some env\<rparr>
                          else c\<lparr>cx_user_id := Some uid\<rparr>))))"

definition extractAPIKey :: "request \<Rightarrow> string option" where
  "extractAPIKey r =
     (let h = TrimSpace (rq_header r ''X-API-Key'') in
      if h \<noteq> [] then Some h
      else case bearerToken r of None \<Rightarrow> None | Some t \<Rightarrow> if IsAPIKeyToken t then Some t else None)"

definition APIKeyMiddleware :: "(string \<Rightarrow> 8 word list) \<Rightarrow> gate" where
  "APIKeyMiddleware sha256 r c =
     (case extractAPIKey r of
        None \<Rightarrow> ret (Stop 401 ''missing api key'')
      | Some key \<Rightarrow>
          attempt (apps_AuthenticateAPIKey sha256 key) (\<lambda>_. ret (Stop 401 ''invalid api key'')) (\<lambda>(app, k).
          let sandbox = k_is_sandbox k in
          ret (Pass (c\<lparr>cx_app := Some (EffectiveApp app sandbox), cx_app_id := Some (a_id app),
                       cx_workspace_id := Some (WorkspaceForSandbox app sandbox), cx_api_key_id := Some (k_id k),
                       cx_is_sandbox := Some sandbox, cx_key_env := Some (EnvironmentFromSandbox sandbox)\<rparr>))))"

section \<open>Guards\<close>

text \<open>The guards of workspaces and of web sockets differ in where they read the id of the workspace.\<close>

definition embed_guard :: "string \<Rightarrow> gate" where
  "embed_guard raw r c =
     (case cx_app_id c of
        None \<Rightarrow> ret (Pass c)
      | Some app_id \<Rightarrow>
          if app_id = 0 then ret (Pass c)
          else case ParseInt raw of
                 None \<Rightarrow> ret (Stop 400 ''invalid workspace_id'')
               | Some ws \<Rightarrow>
                   if ws \<le> 0 then ret (Stop 400 ''invalid workspace_id'')
                   else let env = (case cx_key_env c of None \<Rightarrow> ''live'' | Some e \<Rightarrow> if e \<noteq> [] then e else ''live'') in
                        attempt (exec (GetAppByID app_id)) (\<lambda>_. ret (Stop 403 ''forbidden'')) (\<lambda>app.
                        if ws \<noteq> WorkspaceForEnvironment app env then ret (Stop 403 ''forbidden'') else ret (Pass c)))"

definition EmbedWorkspaceGuard :: gate where
  "EmbedWorkspaceGuard r c = embed_guard (rq_param r ''workspace_id'') r c"

definition EmbedWorkspaceQueryGuard :: gate where
  "EmbedWorkspaceQueryGuard r c = embed_guard (rq_query r ''workspace_id'') r c"

definition PlatformUserMiddleware :: gate where
  "PlatformUserMiddleware r c =
     (case cx_user_id c of
        None \<Rightarrow> go_panic
      | Some uid \<Rightarrow>
          attempt (exec (GetUserAuthState uid)) (\<lambda>_. ret (Stop 401 ''invalid token'')) (\<lambda>st.
          if as_suspended_at st \<noteq> None then ret (Stop 403 ''account suspended'')
          else ret (Pass (c\<lparr>cx_platform_role := Some (as_platform_role st)\<rparr>))))"

definition RequirePlatformRole :: "string \<Rightarrow> gate" where
  "RequirePlatformRole min_role r c =
     (if RoleRank (coalesce (cx_platform_role c) []) < RoleRank min_role
      then ret (Stop 403 ''platform admin access required'')
      else ret (Pass c))"

definition RequirePlatformWrite :: gate where
  "RequirePlatformWrite = RequirePlatformRole ''admin''"

text \<open>
  The limiters of \<open>Rate_Limit\<close> are reached through \<open>allow\<close>: the answer of \<open>Allow\<close> for a key at this moment. A limiter
  may be nil.
\<close>

definition RateLimitMiddleware :: "(string \<Rightarrow> bool) option \<Rightarrow> (string \<Rightarrow> bool) option \<Rightarrow> gate" where
  "RateLimitMiddleware live sandbox r c =
     (case (if cx_is_sandbox c = Some True then sandbox else live) of
        None \<Rightarrow> ret (Pass c)
      | Some allow \<Rightarrow>
          (case (cx_app_id c, cx_api_key_id c) of
             (Some app, Some key) \<Rightarrow>
               if allow (ratelimit_Key app key) then ret (Pass c) else ret (Stop 429 ''rate limit exceeded'')
           | _ \<Rightarrow> go_panic))"

definition IPRateLimitMiddleware :: "(string \<Rightarrow> bool) option \<Rightarrow> gate" where
  "IPRateLimitMiddleware limiter r c =
     (case limiter of
        None \<Rightarrow> ret (Pass c)
      | Some allow \<Rightarrow> if allow (ratelimit_IPKey (rq_ip r)) then ret (Pass c) else ret (Stop 429 ''rate limit exceeded''))"

definition isMaintenanceBypass :: "string \<Rightarrow> bool" where
  "isMaintenanceBypass path \<longleftrightarrow>
     path \<in> {''/health'', ''/version'', ''/metrics''} \<or> has_prefix ''/webhooks/stripe'' path \<or>
     path \<in> {''/api/platform/status'', ''/api/plans''} \<or> has_prefix ''/api/admin'' path \<or>
     path \<in> {''/auth/login'', ''/auth/refresh'', ''/api/users/me''}"

definition MaintenanceMiddleware :: gate where
  "MaintenanceMiddleware r c =
     (if isMaintenanceBypass (rq_path r) then ret (Pass c)
      else attempt billing_IsMaintenanceMode (\<lambda>_. ret (Pass c)) (\<lambda>(active, message).
           if active then ret (Stop 503 (if TrimSpace message = [] then ''Platform is under maintenance'' else message))
           else ret (Pass c)))"

section \<open>Responses\<close>

text \<open>Bodies are kept as the message of an error or as the bytes that a handler writes.\<close>

datatype body = NoBody | ErrorBody string | Bytes string

record response =
  rs_status :: int
  rs_body :: body

type_synonym handler = "request \<Rightarrow> ctx \<Rightarrow> (response \<times> ctx) prog"

text \<open>The bytes of \<open>gin.H{"error": message}\<close>, for a message that needs no escapes.\<close>

definition error_bytes :: "string \<Rightarrow> string" where
  "error_bytes message =
     CHR 0x7B # CHR 0x22 # ''error'' @ CHR 0x22 # CHR '':'' # CHR 0x22 # message @ [CHR 0x22, CHR 0x7D]"

fun body_bytes :: "body \<Rightarrow> string" where
  "body_bytes NoBody = []"
| "body_bytes (ErrorBody message) = error_bytes message"
| "body_bytes (Bytes b) = b"

text \<open>A handler behind gates.\<close>

definition gated :: "gate list \<Rightarrow> handler \<Rightarrow> handler" where
  "gated gs h r c =
     andthen (through gs r c) (\<lambda>(res, c2). case res of
       Pass c3 \<Rightarrow> h r c3
     | Stop status message \<Rightarrow> ret (\<lparr>rs_status = status, rs_body = ErrorBody message\<rparr>, c2))"

definition IdempotencyMiddleware :: "handler \<Rightarrow> handler" where
  "IdempotencyMiddleware next r c =
     (if rq_method r = ''GET'' then next r c
      else let key = TrimSpace (rq_header r ''Idempotency-Key'') in
           if key = [] then next r c
           else case cx_app_id c of
             None \<Rightarrow> go_panic
           | Some app \<Rightarrow>
               (let run =
                  andthen (next r c) (\<lambda>(resp, c2).
                  andthen (if 200 \<le> rs_status resp \<and> rs_status resp < 300 \<and> body_bytes (rs_body resp) \<noteq> []
                           then ignoring (devapi_SaveIdempotency app key (rq_full_path r) (rs_status resp)
                                  (body_bytes (rs_body resp)))
                           else ret ()) (\<lambda>_.
                  ret (resp, c2)))
                in attempt (devapi_GetIdempotency app key) (\<lambda>_. run) (\<lambda>hit. case hit of
                     Some (bytes, status) \<Rightarrow> ret (\<lparr>rs_status = status, rs_body = Bytes bytes\<rparr>, c)
                   | None \<Rightarrow> run)))"

section \<open>Audit\<close>

definition shouldAudit :: "string \<Rightarrow> string \<Rightarrow> bool" where
  "shouldAudit full_path raw_path =
     (let path = (if full_path = [] then raw_path else full_path) in
      if has_prefix ''/health'' path \<or> has_prefix ''/metrics'' path then False
      else has_prefix ''/auth'' path \<or> has_prefix ''/api'' path \<or> has_prefix ''/v1'' path)"

definition auditAction :: "string \<Rightarrow> string" where
  "auditAction full_path =
     (if contains_sub ''/keys'' full_path then ''api_key.mutate''
      else if contains_sub ''/webhooks'' full_path then ''webhook.mutate''
      else if contains_sub ''/auth/login'' full_path then ''auth.login''
      else if contains_sub ''/auth/refresh'' full_path then ''auth.refresh''
      else if contains_sub ''/auth/register'' full_path then ''auth.register''
      else ''http.mutate'')"

definition RecordAudit ::
  "int option \<Rightarrow> int option \<Rightarrow> string \<Rightarrow> string \<Rightarrow> string \<Rightarrow> string \<Rightarrow> int \<Rightarrow> unit prog" where
  "RecordAudit uid app action meth path ip status =
     andthen (exec (CreateAuditLog uid app action meth path (if ip \<noteq> [] then Some ip else None)
                (if status > 0 then Some status else None))) (\<lambda>_. ret ())"

text \<open>The entry is written by a goroutine of its own; here it is written when the response is there.\<close>

definition AuditMiddleware :: "handler \<Rightarrow> handler" where
  "AuditMiddleware next r c =
     andthen (next r c) (\<lambda>(resp, c2).
     if rq_method r \<in> {''GET'', ''OPTIONS'', ''HEAD''} \<or> \<not> shouldAudit (rq_full_path r) (rq_path r) then ret (resp, c2)
     else andthen (ignoring (RecordAudit (cx_user_id c2) (cx_app_id c2) (auditAction (rq_full_path r)) (rq_method r)
                     (rq_path r) (rq_ip r) (rs_status resp))) (\<lambda>_.
          ret (resp, c2)))"

section \<open>CORS\<close>

text \<open>
  The answer is the origin allowed in the headers and, when the request ends here, its status. The parameters are the
  parsed query and the app of a valid token.
\<close>

definition CORSMiddleware ::
  "(string \<Rightarrow> string option) \<Rightarrow> (string \<Rightarrow> int option) \<Rightarrow> request \<Rightarrow> ctx \<Rightarrow> checker \<Rightarrow> world \<Rightarrow>
     (string option \<times> int option) \<times> checker \<times> world" where
  "CORSMiddleware get claims_app r c ck s =
     (let origin = Normalize (rq_header r ''Origin'');
          app = (case cx_app_id c of
                   Some i \<Rightarrow> i
                 | None \<Rightarrow> AppIDFromToken claims_app (rq_header r ''Authorization'') (rq_query r ''token''));
          h = HintsFromRequest get (rq_method r) (rq_path r) (rq_raw_query r) app;
          (ok, ck, s) = (if origin \<noteq> [] then origins_IsAllowed ck origin h s else (False, ck, s));
          header = (if ok then Some origin else None)
      in if rq_method r = ''OPTIONS''
         then (let (ok, ck, s) = (if origin \<noteq> [] then origins_IsAllowed ck origin h s else (False, ck, s)) in
               ((header, Some (if ok then 204 else 403)), ck, s))
         else ((header, None), ck, s))"

section \<open>Sizes and headers\<close>

definition LoadMaxBodyBytes :: "(string \<Rightarrow> string) \<Rightarrow> int" where
  "LoadMaxBodyBytes getenv =
     (let raw = TrimSpace (getenv ''MAX_REQUEST_BODY_BYTES'') in
      if raw = [] then 1048576
      else case ParseInt raw of None \<Rightarrow> 1048576 | Some v \<Rightarrow> if v \<le> 0 then 1048576 else v)"

definition SecurityHeaders :: "(string \<times> string) list" where
  "SecurityHeaders =
     [(''X-Content-Type-Options'', ''nosniff''), (''X-Frame-Options'', ''DENY''),
      (''Referrer-Policy'', ''strict-origin-when-cross-origin''), (''X-XSS-Protection'', ''0''),
      (''Content-Security-Policy'', ''default-src '' @ CHR 0x27 # ''none'' @ CHR 0x27 # ''; frame-ancestors '' @
         CHR 0x27 # ''none'' @ [CHR 0x27]),
      (''Permissions-Policy'', ''geolocation=(), microphone=(), camera=()'')]"

section \<open>Routes\<close>

text \<open>Which middleware a group of routes uses.\<close>

datatype access = Open | SignedIn | InWorkspace | OnSocket | Support | Administrator | ApiClient

fun gates_for ::
  "jwt_lib \<Rightarrow> (string \<Rightarrow> 8 word list) \<Rightarrow> (string \<Rightarrow> bool) option \<Rightarrow> (string \<Rightarrow> bool) option \<Rightarrow> access \<Rightarrow> gate list" where
  "gates_for lib sha256 live sandbox Open = []"
| "gates_for lib sha256 live sandbox SignedIn = [AuthMiddleware lib]"
| "gates_for lib sha256 live sandbox InWorkspace = [AuthMiddleware lib, EmbedWorkspaceGuard]"
| "gates_for lib sha256 live sandbox OnSocket = [AuthMiddleware lib, EmbedWorkspaceQueryGuard]"
| "gates_for lib sha256 live sandbox Support =
     [AuthMiddleware lib, PlatformUserMiddleware, RequirePlatformRole ''support'']"
| "gates_for lib sha256 live sandbox Administrator =
     [AuthMiddleware lib, PlatformUserMiddleware, RequirePlatformRole ''support'', RequirePlatformWrite]"
| "gates_for lib sha256 live sandbox ApiClient =
     [APIKeyMiddleware sha256, RateLimitMiddleware live sandbox]"

definition routes :: "(string \<times> string \<times> access) list" where
  "routes =
     [(''GET'', ''/health'', Open), (''GET'', ''/version'', Open), (''GET'', ''/metrics'', Open),
      (''GET'', ''/api/plans'', Open), (''GET'', ''/api/platform/status'', Open), (''POST'', ''/webhooks/stripe'', Open),
      (''POST'', ''/auth/register'', Open), (''POST'', ''/auth/login'', Open), (''POST'', ''/auth/refresh'', Open),
      (''POST'', ''/api/uploads'', SignedIn), (''GET'', ''/api/notifications'', SignedIn),
      (''PATCH'', ''/api/notifications/:id/read'', SignedIn), (''POST'', ''/api/notifications/read-all'', SignedIn),
      (''POST'', ''/api/calls/:id/join'', SignedIn), (''POST'', ''/api/calls/:id/leave'', SignedIn),
      (''POST'', ''/api/workspaces'', SignedIn), (''GET'', ''/api/workspaces'', SignedIn),
      (''GET'', ''/api/workspaces/:workspace_id'', SignedIn),
      (''GET'', ''/api/workspaces/:workspace_id/members'', InWorkspace),
      (''POST'', ''/api/workspaces/:workspace_id/members'', InWorkspace),
      (''DELETE'', ''/api/workspaces/:workspace_id/members/:user_id'', InWorkspace),
      (''PATCH'', ''/api/workspaces/:workspace_id/members/:user_id'', InWorkspace),
      (''GET'', ''/api/workspaces/:workspace_id/presence'', InWorkspace),
      (''POST'', ''/api/workspaces/:workspace_id/channels'', InWorkspace),
      (''GET'', ''/api/workspaces/:workspace_id/channels'', InWorkspace),
      (''POST'', ''/api/workspaces/:workspace_id/channels/:id/join'', InWorkspace),
      (''POST'', ''/api/workspaces/:workspace_id/channels/:id/leave'', InWorkspace),
      (''POST'', ''/api/workspaces/:workspace_id/channels/:id/messages'', InWorkspace),
      (''GET'', ''/api/workspaces/:workspace_id/channels/:id/messages'', InWorkspace),
      (''POST'', ''/api/workspaces/:workspace_id/channels/:id/messages/:message_id/attachments'', InWorkspace),
      (''GET'', ''/api/workspaces/:workspace_id/channels/:id/messages/:message_id/attachments'', InWorkspace),
      (''GET'', ''/api/workspaces/:workspace_id/channels/:id/messages/:message_id/attachments/:attachment_id/content'', InWorkspace),
      (''POST'', ''/api/workspaces/:workspace_id/channels/:id/calls'', InWorkspace),
      (''GET'', ''/api/presence'', SignedIn), (''GET'', ''/api/users/me'', SignedIn), (''PATCH'', ''/api/users/me'', SignedIn),
      (''PATCH'', ''/api/users/me/password'', SignedIn), (''GET'', ''/api/users/me/status'', SignedIn),
      (''PATCH'', ''/api/users/me/status'', SignedIn), (''GET'', ''/api/ws'', OnSocket),
      (''POST'', ''/api/apps'', SignedIn), (''GET'', ''/api/apps'', SignedIn), (''GET'', ''/api/apps/:app_id'', SignedIn),
      (''PATCH'', ''/api/apps/:app_id/origins'', SignedIn), (''POST'', ''/api/apps/:app_id/keys'', SignedIn),
      (''GET'', ''/api/apps/:app_id/keys'', SignedIn), (''DELETE'', ''/api/apps/:app_id/keys/:key_id'', SignedIn),
      (''POST'', ''/api/apps/:app_id/webhooks'', SignedIn), (''GET'', ''/api/apps/:app_id/webhooks'', SignedIn),
      (''DELETE'', ''/api/apps/:app_id/webhooks/:webhook_id'', SignedIn), (''GET'', ''/api/billing'', SignedIn),
      (''POST'', ''/api/billing/checkout'', SignedIn),
      (''GET'', ''/api/admin/overview'', Support), (''GET'', ''/api/admin/users'', Support),
      (''GET'', ''/api/admin/users/:id'', Support), (''PATCH'', ''/api/admin/users/:id'', Administrator),
      (''GET'', ''/api/admin/users/:id/billing'', Support),
      (''PATCH'', ''/api/admin/users/:id/subscription'', Administrator), (''GET'', ''/api/admin/workspaces'', Support),
      (''GET'', ''/api/admin/workspaces/:id'', Support), (''GET'', ''/api/admin/workspaces/:id/members'', Support),
      (''GET'', ''/api/admin/apps'', Support), (''GET'', ''/api/admin/apps/:app_id'', Support),
      (''GET'', ''/api/admin/apps/:app_id/keys'', Support),
      (''DELETE'', ''/api/admin/apps/:app_id/keys/:key_id'', Administrator), (''GET'', ''/api/admin/audit-logs'', Support),
      (''GET'', ''/api/admin/billing/overview'', Support), (''GET'', ''/api/admin/billing/subscriptions'', Support),
      (''GET'', ''/api/admin/platform-settings'', Support), (''PATCH'', ''/api/admin/platform-settings'', Administrator),
      (''GET'', ''/api/admin/plans'', Support), (''POST'', ''/api/admin/plans'', Administrator),
      (''PATCH'', ''/api/admin/plans/:slug'', Administrator), (''DELETE'', ''/api/admin/plans/:slug'', Administrator),
      (''POST'', ''/v1/users'', ApiClient), (''POST'', ''/v1/sessions'', ApiClient), (''POST'', ''/v1/channels'', ApiClient),
      (''POST'', ''/v1/messages'', ApiClient), (''GET'', ''/v1/messages'', ApiClient)]"


section \<open>Who passes\<close>

lemma route_access:
  "list_all (\<lambda>(meth, path, a).
     (has_prefix ''/api/admin/'' path \<longrightarrow> (if meth = ''GET'' then a \<in> {Support, Administrator} else a = Administrator)) \<and>
     (has_prefix ''/v1/'' path \<longrightarrow> a = ApiClient) \<and>
     (has_prefix ''/api/workspaces/:workspace_id/'' path \<longrightarrow> a = InWorkspace) \<and>
     (has_prefix ''/api/'' path \<and> a = Open \<longrightarrow> path \<in> {''/api/plans'', ''/api/platform/status''})) routes"
  by code_simp

lemma through_Pass:
  "through (g # gs) r c s = (Inr (Pass c', c''), s') \<longleftrightarrow>
    (\<exists>c1 s1. g r c s = (Inr (Pass c1), s1) \<and> through gs r c1 s1 = (Inr (Pass c', c''), s'))"
proof
  assume "through (g # gs) r c s = (Inr (Pass c', c''), s')"
  then obtain res s1 where g: "g r c s = (Inr res, s1)"
    and k: "(case res of Pass c2 \<Rightarrow> through gs r c2 | Stop status message \<Rightarrow> ret (Stop status message, c)) s1 = (Inr (Pass c', c''), s')"
    by (auto simp: andthen_Inr)
  then show "\<exists>c1 s1. g r c s = (Inr (Pass c1), s1) \<and> through gs r c1 s1 = (Inr (Pass c', c''), s')"
    by (cases res) auto
next
  assume "\<exists>c1 s1. g r c s = (Inr (Pass c1), s1) \<and> through gs r c1 s1 = (Inr (Pass c', c''), s')"
  then show "through (g # gs) r c s = (Inr (Pass c', c''), s')" by (auto simp: andthen_def attempt_def)
qed

lemma through_end: "through [] r c s = (Inr (Pass c', c''), s') \<longleftrightarrow> c' = c \<and> c'' = c \<and> s' = s"
  by auto

lemma through_same: "through gs r c s = (Inr (Pass c', c''), s') \<Longrightarrow> c'' = c'"
proof (induction gs arbitrary: c s)
  case (Cons g gs)
  then show ?case by (auto simp: through_Pass simp del: through.simps(2))
qed simp

text \<open>The user of a session and the app that it was made for, 0 for none.\<close>

definition session_of :: "jwt_lib \<Rightarrow> db \<Rightarrow> int \<Rightarrow> request \<Rightarrow> int \<Rightarrow> int \<Rightarrow> string \<Rightarrow> bool" where
  "session_of lib d t r uid app env \<longleftrightarrow>
     (\<exists>token claims u. token = (case bearerToken r of Some x \<Rightarrow> x | None \<Rightarrow> TrimSpace (rq_query r ''token'')) \<and>
        ValidateToken lib t token = Inr claims \<and> token_result claims d = Inr (uid, app, env) \<and>
        user_by_id d uid = Some u \<and> u_suspended_at u = None)"

lemma token_result_Inr:
  assumes "token_result c d = Inr (uid, app, env)"
  shows "jc_UserID c = uid \<and> (\<exists>u. user_by_id d uid = Some u \<and> u_suspended_at u = None)"
proof (cases "user_by_id d (jc_UserID c)")
  case None
  then show ?thesis using assms by (simp add: token_result_def split: if_splits)
next
  case (Some u)
  then show ?thesis using assms by (simp add: token_result_def split: if_splits)
qed

lemma ValidateAccessToken_Inr:
  assumes "auth_ValidateAccessToken lib token s = (Inr (uid, app, env), s')"
  shows "\<exists>claims u. ValidateToken lib (now s) token = Inr claims \<and> token_result claims (db s) = Inr (uid, app, env) \<and>
    user_by_id (db s) uid = Some u \<and> u_suspended_at u = None \<and> db s' = db s"
proof (cases "ValidateToken lib (now s) token")
  case (Inl e)
  then show ?thesis using assms by (simp add: auth_ValidateAccessToken_def)
next
  case (Inr claims)
  obtain q where q: "reader q (token_result claims)" "auth_ValidateAccessToken lib token s = q s"
    using ValidateAccessToken_eq [OF Inr] by blast
  have res: "token_result claims (db s) = Inr (uid, app, env)" "db s' = db s"
    using reader_Inr [OF q(1), of s "(uid, app, env)" s'] assms q(2) by simp_all
  show ?thesis using Inr res token_result_Inr [OF res(1)] by simp
qed

lemma AuthMiddleware_passes:
  assumes "AuthMiddleware lib r c s = (Inr (Pass c'), s')"
  shows "\<exists>uid app env. session_of lib (db s) (now s) r uid app env \<and> db s' = db s \<and>
    c' = (if app > 0 then c\<lparr>cx_user_id := Some uid, cx_app_id := Some app, cx_key_env := Some env\<rparr>
          else c\<lparr>cx_user_id := Some uid\<rparr>)"
proof -
  let ?token = "case bearerToken r of Some t \<Rightarrow> t | None \<Rightarrow> TrimSpace (rq_query r ''token'')"
  obtain uid app env where v: "auth_ValidateAccessToken lib ?token s = (Inr (uid, app, env), s')"
    and c': "c' = (if app > 0 then c\<lparr>cx_user_id := Some uid, cx_app_id := Some app, cx_key_env := Some env\<rparr>
          else c\<lparr>cx_user_id := Some uid\<rparr>)"
    using assms unfolding AuthMiddleware_def Let_def by (auto simp: attempt_eq split: if_splits)
  show ?thesis using ValidateAccessToken_Inr [OF v] c' unfolding session_of_def by blast
qed

lemma reader_GetAppByID_any:
  "exec (GetAppByID i) s = (Inr a, s') \<Longrightarrow> a \<in> set (apps (db s)) \<and> a_id a = i \<and> db s' = db s"
  unfolding GetAppByID_def by (drule exec_select_one_Inr) (auto dest: find_SomeD)

lemma embed_guard_passes:
  assumes "embed_guard raw r c s = (Inr (Pass c'), s')"
  shows "c' = c \<and> db s' = db s \<and> (\<forall>app. cx_app_id c = Some app \<and> app \<noteq> 0 \<longrightarrow>
    (\<exists>a\<in>set (apps (db s)). a_id a = app \<and>
       ParseInt raw = Some (WorkspaceForEnvironment a (if coalesce (cx_key_env c) [] = [] then ''live'' else coalesce (cx_key_env c) []))))"
proof (cases "cx_app_id c")
  case (Some app)
  show ?thesis
  proof (cases "app = 0")
    case False
    let ?env = "case cx_key_env c of None \<Rightarrow> ''live'' | Some e \<Rightarrow> if e \<noteq> [] then e else ''live''"
    obtain ws where ws: "ParseInt raw = Some ws" "0 < ws"
      using assms Some False unfolding embed_guard_def by (cases "ParseInt raw") (auto split: if_splits)
    then have "attempt (exec (GetAppByID app)) (\<lambda>_. ret (Stop 403 ''forbidden'')) (\<lambda>a.
        if ws \<noteq> WorkspaceForEnvironment a ?env then ret (Stop 403 ''forbidden'') else ret (Pass c)) s = (Inr (Pass c'), s')"
      using assms Some False by (simp add: embed_guard_def Let_def)
    then obtain a s1 where "exec (GetAppByID app) s = (Inr a, s1)"
      "(if ws \<noteq> WorkspaceForEnvironment a ?env then ret (Stop 403 ''forbidden'') else ret (Pass c)) s1 = (Inr (Pass c'), s')"
      unfolding attempt_eq by auto
    moreover from this(2) have "ws = WorkspaceForEnvironment a ?env" "c' = c" "s' = s1"
      by (cases "ws = WorkspaceForEnvironment a ?env", simp_all)+
    moreover have "?env = (if coalesce (cx_key_env c) [] = [] then ''live'' else coalesce (cx_key_env c) [])"
      by (cases "cx_key_env c") (auto simp: coalesce_def)
    ultimately show ?thesis using reader_GetAppByID_any [of app s a s1] Some ws by auto
  qed (use assms Some in \<open>simp add: embed_guard_def\<close>)
qed (use assms in \<open>simp add: embed_guard_def\<close>)

lemma PlatformUser_passes:
  assumes "PlatformUserMiddleware r c s = (Inr (Pass c'), s')"
  shows "\<exists>uid u. cx_user_id c = Some uid \<and> user_by_id (db s) uid = Some u \<and> u_suspended_at u = None \<and>
    c' = c\<lparr>cx_platform_role := Some (u_platform_role u)\<rparr> \<and> db s' = db s"
proof (cases "cx_user_id c")
  case (Some uid)
  then obtain st s1 where st: "exec (GetUserAuthState uid) s = (Inr st, s1)" "as_suspended_at st = None"
    "c' = c\<lparr>cx_platform_role := Some (as_platform_role st)\<rparr>" "s' = s1"
    using assms unfolding PlatformUserMiddleware_def by (auto simp: attempt_eq split: if_splits)
  then show ?thesis using reader_Inr [OF reader_GetUserAuthState st(1)] Some
    by (auto simp: state_of_user_def split: option.splits)
qed (use assms in \<open>simp add: PlatformUserMiddleware_def go_panic_def\<close>)

lemma RequirePlatformRole_passes:
  "RequirePlatformRole role r c s = (Inr (Pass c'), s') \<longleftrightarrow>
    c' = c \<and> s' = s \<and> RoleRank role \<le> RoleRank (coalesce (cx_platform_role c) [])"
  by (auto simp: RequirePlatformRole_def)

lemma RoleRank_admin: "RoleRank ''admin'' \<le> RoleRank role \<longleftrightarrow> role = ''admin''"
  by (simp add: RoleRank_def)

lemma RoleRank_support: "RoleRank ''support'' \<le> RoleRank role \<longleftrightarrow> role = ''admin'' \<or> role = ''support''"
  by (simp add: RoleRank_def)


lemma Authenticate_finds:
  assumes "apps_AuthenticateAPIKey sha256 key s = (Inr (a, k), s')"
  shows "k \<in> set (api_keys (db s)) \<and> k_revoked_at k = None \<and> k_key_hash k = HashAPIKey sha256 key \<and>
    a \<in> set (apps (db s)) \<and> a_id a = k_app_id k"
proof -
  obtain k0 s1 where k0: "exec (GetAPIKeyByPrefix (LookupPrefix key)) s = (Inr k0, s1)"
    and more: "(if k_key_hash k0 \<noteq> HashAPIKey sha256 key then fail (EApps Apps_InvalidKey)
      else clock (\<lambda>t.
        if k_is_sandbox k0 \<and> (case k_expires_at k0 of None \<Rightarrow> False | Some x \<Rightarrow> \<not> t < x)
        then fail (EApps Apps_InvalidKey)
        else attempt (exec (GetAppByID (k_app_id k0))) (\<lambda>_. fail (EApps Apps_InvalidKey)) (\<lambda>app.
             andthen (ignoring (exec (TouchAPIKeyLastUsed (k_id k0)))) (\<lambda>_. ret (app, k0))))) s1 = (Inr (a, k), s')"
    using assms unfolding apps_AuthenticateAPIKey_def by (auto simp: attempt_eq split: if_splits)
  have k0: "k0 \<in> set (api_keys (db s))" "k_revoked_at k0 = None" "db s1 = db s"
    using exec_select_one_Inr [OF k0 [unfolded GetAPIKeyByPrefix_def]] by (auto dest: find_SomeD)
  have hash: "k_key_hash k0 = HashAPIKey sha256 key" using more by (auto split: if_splits)
  then obtain a0 s2 where a0: "exec (GetAppByID (k_app_id k0)) s1 = (Inr a0, s2)"
    and "andthen (ignoring (exec (TouchAPIKeyLastUsed (k_id k0)))) (\<lambda>_. ret (a0, k0)) s2 = (Inr (a, k), s')"
    using more by (auto simp: attempt_eq split: if_splits)
  then have "a = a0" "k = k0" by (auto simp: andthen_Inr)
  then show ?thesis using k0 hash reader_GetAppByID_any [OF a0] by simp
qed

lemma RateLimit_passes: "RateLimitMiddleware live sandbox r c s = (Inr (Pass c'), s') \<Longrightarrow> c' = c"
  by (auto simp: RateLimitMiddleware_def go_panic_def split: option.splits if_splits)

text \<open>What the context of a request that was let through says, for each group of routes.\<close>

definition signed_in :: "jwt_lib \<Rightarrow> world \<Rightarrow> request \<Rightarrow> ctx \<Rightarrow> bool" where
  "signed_in lib s r c \<longleftrightarrow>
     (\<exists>uid app env. session_of lib (db s) (now s) r uid app env \<and> cx_user_id c = Some uid \<and>
        cx_app_id c = (if app > 0 then Some app else None) \<and> cx_key_env c = (if app > 0 then Some env else None))"

text \<open>The workspace named by the request is the one of the app and environment of the token, if it has any.\<close>

definition own_lane :: "db \<Rightarrow> string \<Rightarrow> ctx \<Rightarrow> bool" where
  "own_lane d raw c \<longleftrightarrow>
     (\<forall>app. cx_app_id c = Some app \<longrightarrow>
        (\<exists>a\<in>set (apps d). a_id a = app \<and>
           ParseInt raw = Some (if cx_key_env c = Some ''sandbox'' then a_sandbox_workspace_id a else a_workspace_id a)))"

definition has_platform_role :: "db \<Rightarrow> ctx \<Rightarrow> string set \<Rightarrow> bool" where
  "has_platform_role d c roles \<longleftrightarrow>
     (\<exists>uid u. cx_user_id c = Some uid \<and> user_by_id d uid = Some u \<and> u_suspended_at u = None \<and> u_platform_role u \<in> roles)"

definition has_key :: "(string \<Rightarrow> 8 word list) \<Rightarrow> db \<Rightarrow> request \<Rightarrow> ctx \<Rightarrow> bool" where
  "has_key sha256 d r c \<longleftrightarrow>
     (\<exists>key k a. extractAPIKey r = Some key \<and> k \<in> set (api_keys d) \<and> k_revoked_at k = None \<and>
        k_key_hash k = HashAPIKey sha256 key \<and> a \<in> set (apps d) \<and> a_id a = k_app_id k \<and>
        cx_app c = Some (EffectiveApp a (k_is_sandbox k)) \<and> cx_app_id c = Some (a_id a) \<and> cx_api_key_id c = Some (k_id k) \<and>
        cx_is_sandbox c = Some (k_is_sandbox k) \<and> cx_workspace_id c = Some (WorkspaceForSandbox a (k_is_sandbox k)))"

fun admitted :: "jwt_lib \<Rightarrow> (string \<Rightarrow> 8 word list) \<Rightarrow> access \<Rightarrow> world \<Rightarrow> request \<Rightarrow> ctx \<Rightarrow> bool" where
  "admitted lib sha256 Open s r c \<longleftrightarrow> c = empty_ctx"
| "admitted lib sha256 SignedIn s r c \<longleftrightarrow> signed_in lib s r c"
| "admitted lib sha256 InWorkspace s r c \<longleftrightarrow> signed_in lib s r c \<and> own_lane (db s) (rq_param r ''workspace_id'') c"
| "admitted lib sha256 OnSocket s r c \<longleftrightarrow> signed_in lib s r c \<and> own_lane (db s) (rq_query r ''workspace_id'') c"
| "admitted lib sha256 Support s r c \<longleftrightarrow> signed_in lib s r c \<and> has_platform_role (db s) c {''support'', ''admin''}"
| "admitted lib sha256 Administrator s r c \<longleftrightarrow> signed_in lib s r c \<and> has_platform_role (db s) c {''admin''}"
| "admitted lib sha256 ApiClient s r c \<longleftrightarrow> has_key sha256 (db s) r c"

lemma signed_in_lane:
  assumes "AuthMiddleware lib r empty_ctx s = (Inr (Pass c), s1)" and "embed_guard raw r c s1 = (Inr (Pass c'), s2)"
  shows "signed_in lib s r c' \<and> own_lane (db s) raw c'"
proof -
  obtain uid app env where auth: "session_of lib (db s) (now s) r uid app env" "db s1 = db s"
    "c = (if app > 0 then empty_ctx\<lparr>cx_user_id := Some uid, cx_app_id := Some app, cx_key_env := Some env\<rparr>
          else empty_ctx\<lparr>cx_user_id := Some uid\<rparr>)"
    using AuthMiddleware_passes [OF assms(1)] by auto
  note guard = embed_guard_passes [OF assms(2)]
  have sandbox: "WorkspaceForEnvironment a (if env = [] then ''live'' else env) =
      (if env = ''sandbox'' then a_sandbox_workspace_id a else a_workspace_id a)" for a
    by (auto simp: WorkspaceForEnvironment_def WorkspaceForSandbox_def)
  show ?thesis
  proof (cases "app > 0")
    case True
    then have "signed_in lib s r c'" using auth guard unfolding signed_in_def by (auto simp: empty_ctx_def)
    moreover have "own_lane (db s) raw c'"
    proof -
      have cx: "cx_app_id c = Some app" "cx_key_env c = Some env" "c' = c" "app \<noteq> 0"
        using auth(3) True guard by (simp_all add: empty_ctx_def)
      have "coalesce (cx_key_env c) [] = env" using cx by (simp add: coalesce_def)
      then obtain a where "a \<in> set (apps (db s))" "a_id a = app"
        "ParseInt raw = Some (WorkspaceForEnvironment a (if env = [] then ''live'' else env))"
        using guard cx auth(2) by auto
      then have "a \<in> set (apps (db s))" "a_id a = app"
        "ParseInt raw = Some (if env = ''sandbox'' then a_sandbox_workspace_id a else a_workspace_id a)"
        by (simp_all only: sandbox)
      then show ?thesis using cx by (simp add: own_lane_def) blast
    qed
    ultimately show ?thesis ..
  next
    case False
    then have "signed_in lib s r c'" using auth guard unfolding signed_in_def by (auto simp: empty_ctx_def)
    then show ?thesis using guard auth False unfolding own_lane_def by (auto simp: empty_ctx_def)
  qed
qed

lemma signed_in_platform:
  assumes "AuthMiddleware lib r empty_ctx s = (Inr (Pass c), s1)" and "PlatformUserMiddleware r c s1 = (Inr (Pass c'), s2)"
  shows "signed_in lib s r c' \<and> db s2 = db s \<and>
    has_platform_role (db s) c' {coalesce (cx_platform_role c') []}"
proof -
  obtain uid app env where auth: "session_of lib (db s) (now s) r uid app env" "db s1 = db s"
    "c = (if app > 0 then empty_ctx\<lparr>cx_user_id := Some uid, cx_app_id := Some app, cx_key_env := Some env\<rparr>
          else empty_ctx\<lparr>cx_user_id := Some uid\<rparr>)"
    using AuthMiddleware_passes [OF assms(1)] by auto
  obtain u where user: "user_by_id (db s1) uid = Some u" "u_suspended_at u = None"
    "c' = c\<lparr>cx_platform_role := Some (u_platform_role u)\<rparr>" "db s2 = db s1"
    using PlatformUser_passes [OF assms(2)] auth(3) by (auto split: if_splits)
  have "signed_in lib s r c'" unfolding signed_in_def
    by (rule exI [of _ uid], rule exI [of _ app], rule exI [of _ env]) (use auth user in \<open>simp add: empty_ctx_def\<close>)
  moreover have "has_platform_role (db s) c' {coalesce (cx_platform_role c') []}"
    unfolding has_platform_role_def using auth user by (auto simp: coalesce_def)
  ultimately show ?thesis using auth user by simp
qed

lemma has_platform_role_mono: "has_platform_role d c roles \<Longrightarrow> roles \<subseteq> roles' \<Longrightarrow> has_platform_role d c roles'"
  unfolding has_platform_role_def by blast

lemma APIKey_passes:
  assumes "APIKeyMiddleware sha256 r empty_ctx s = (Inr (Pass c), s')"
  shows "has_key sha256 (db s) r c"
proof -
  obtain plain app k where "extractAPIKey r = Some plain"
    "apps_AuthenticateAPIKey sha256 plain s = (Inr (app, k), s')"
    "c = empty_ctx\<lparr>cx_app := Some (EffectiveApp app (k_is_sandbox k)), cx_app_id := Some (a_id app),
        cx_workspace_id := Some (WorkspaceForSandbox app (k_is_sandbox k)), cx_api_key_id := Some (k_id k),
        cx_is_sandbox := Some (k_is_sandbox k), cx_key_env := Some (EnvironmentFromSandbox (k_is_sandbox k))\<rparr>"
    using assms unfolding APIKeyMiddleware_def Let_def by (auto simp: attempt_eq split: option.splits)
  then show ?thesis using Authenticate_finds [of sha256 plain s app k s']
    by (simp add: has_key_def) metis
qed

lemma through_admitted:
  assumes "through (gates_for lib sha256 live sandbox a) r empty_ctx s = (Inr (Pass c, c'), s')"
  shows "admitted lib sha256 a s r c"
proof (cases a)
  case SignedIn
  then obtain s1 where "AuthMiddleware lib r empty_ctx s = (Inr (Pass c), s1)"
    using assms by (auto simp: through_Pass simp del: through.simps(2))
  then obtain uid app env where "session_of lib (db s) (now s) r uid app env"
    "c = (if app > 0 then empty_ctx\<lparr>cx_user_id := Some uid, cx_app_id := Some app, cx_key_env := Some env\<rparr>
          else empty_ctx\<lparr>cx_user_id := Some uid\<rparr>)"
    using AuthMiddleware_passes by blast
  then have "signed_in lib s r c" unfolding signed_in_def
    by (intro exI [of _ uid] exI [of _ app] exI [of _ env]) (simp add: empty_ctx_def)
  then show ?thesis using SignedIn by simp
next
  case InWorkspace
  then obtain c1 s1 c2 s2 where "AuthMiddleware lib r empty_ctx s = (Inr (Pass c1), s1)"
    "embed_guard (rq_param r ''workspace_id'') r c1 s1 = (Inr (Pass c), s2)"
    using assms by (auto simp: through_Pass EmbedWorkspaceGuard_def simp del: through.simps(2))
  from signed_in_lane [OF this] InWorkspace show ?thesis by simp
next
  case OnSocket
  then obtain c1 s1 c2 s2 where "AuthMiddleware lib r empty_ctx s = (Inr (Pass c1), s1)"
    "embed_guard (rq_query r ''workspace_id'') r c1 s1 = (Inr (Pass c), s2)"
    using assms by (auto simp: through_Pass EmbedWorkspaceQueryGuard_def simp del: through.simps(2))
  from signed_in_lane [OF this] OnSocket show ?thesis by simp
next
  case Support
  then obtain c1 s1 s2 where "AuthMiddleware lib r empty_ctx s = (Inr (Pass c1), s1)"
    "PlatformUserMiddleware r c1 s1 = (Inr (Pass c), s2)"
    and role: "RoleRank ''support'' \<le> RoleRank (coalesce (cx_platform_role c) [])"
    using assms by (auto simp: through_Pass RequirePlatformRole_passes simp del: through.simps(2))
  from signed_in_platform [OF this(1,2)] role Support show ?thesis
    by (auto simp: RoleRank_support elim: has_platform_role_mono)
next
  case Administrator
  then obtain c1 s1 s2 where "AuthMiddleware lib r empty_ctx s = (Inr (Pass c1), s1)"
    "PlatformUserMiddleware r c1 s1 = (Inr (Pass c), s2)"
    and role: "RoleRank ''admin'' \<le> RoleRank (coalesce (cx_platform_role c) [])"
    using assms
    by (auto simp: through_Pass RequirePlatformRole_passes RequirePlatformWrite_def simp del: through.simps(2))
  from signed_in_platform [OF this(1,2)] role Administrator show ?thesis by (simp add: RoleRank_admin)
next
  case ApiClient
  then obtain c1 s1 where key: "APIKeyMiddleware sha256 r empty_ctx s = (Inr (Pass c1), s1)"
    and "RateLimitMiddleware live sandbox r c1 s1 = (Inr (Pass c), s')"
    using assms by (auto simp: through_Pass simp del: through.simps(2))
  from this(2) have "c = c1" by (rule RateLimit_passes)
  then show ?thesis using ApiClient APIKey_passes [OF key] by simp
next
  case Open
  then show ?thesis using assms by simp
qed

text \<open>C3: What gets through is who it says. Whatever the statements of the gates meet, a request that passes has, by its
  group of routes: a signed token of an existing user who is not suspended; for the routes of a workspace and the web
  socket moreover, when the token was made for an app, the workspace of that app and environment; for the routes of the
  platform the role of support or, to change something, of an administrator; for the developer API a key that is not
  revoked, with the app and the environment of this key.\<close>

theorem gates_admit:
  assumes "through (gates_for lib sha256 live sandbox a) r empty_ctx s = (Inr (Pass c, c'), s')"
  shows "admitted lib sha256 a s r c"
  using assms by (rule through_admitted)

section \<open>A token for somebody else\<close>

lemma gate_session_quiet:
  assumes "tape s = []" and "bearerToken r = Some token" and "token \<noteq> []" and "0 < app"
    and "auth_ValidateAccessToken lib token s = (Inr (uid, app, env), s)"
    and "user_by_id (db s) uid = Some u" and "u_suspended_at u = None" and "u_platform_role u = ''admin''"
  shows "\<exists>c. through (gates_for lib sha256 live sandbox Administrator) r empty_ctx s = (Inr (Pass c, c), s) \<and>
    cx_user_id c = Some uid"
proof -
  let ?c = "empty_ctx\<lparr>cx_user_id := Some uid, cx_app_id := Some app, cx_key_env := Some env\<rparr>"
  have auth: "AuthMiddleware lib r empty_ctx s = (Inr (Pass ?c), s)"
    using assms(2-5) by (simp add: AuthMiddleware_def attempt_def ret_def)
  have "exec (GetUserAuthState uid) s = (Inr (state_of_user u), s)"
    using reader_quiet [OF reader_GetUserAuthState assms(1)] assms(6) by simp
  then have user: "PlatformUserMiddleware r ?c s = (Inr (Pass (?c\<lparr>cx_platform_role := Some ''admin''\<rparr>)), s)"
    using assms(7,8) by (simp add: PlatformUserMiddleware_def attempt_def ret_def state_of_user_def)
  show ?thesis
    by (rule exI [of _ "?c\<lparr>cx_platform_role := Some ''admin''\<rparr>"])
      (simp add: auth user through_Pass RequirePlatformRole_passes RequirePlatformWrite_def RoleRank_def coalesce_def
        del: through.simps(2))
qed



section \<open>Retries\<close>

lemma Save_quiet:
  assumes "tape s = []" and "find (\<lambda>r. ik_app_id r = app \<and> ik_key r = key) (idempotency_keys (db s)) = None"
    and "app_exists (db s) app"
  shows "\<exists>row d. exec (CreateIdempotencyKey app key endpoint status bytes) s = (Inr row, s\<lparr>db := d\<rparr>) \<and>
    find (\<lambda>r. ik_app_id r = app \<and> ik_key r = key) (idempotency_keys d) = Some row \<and>
    ik_status_code row = status \<and> ik_response_body row = bytes"
proof -
  let ?row = "\<lparr>ik_id = nextid (db s) TIdempotency, ik_app_id = app, ik_key = key, ik_endpoint = endpoint,
      ik_status_code = status, ik_response_body = bytes, ik_created_at = now s\<rparr>"
  let ?d = "idempotency_keys_update (\<lambda>rows. rows @ [?row])
      ((db s)\<lparr>nextid := (nextid (db s))(TIdempotency := nextid (db s) TIdempotency + 1)\<rparr>)"
  have "\<not> exists_row (\<lambda>r. ik_app_id r = app \<and> ik_key r = key) (idempotency_keys (db s))"
    using assms(2) by (auto simp: find_None_iff)
  then have "exec (CreateIdempotencyKey app key endpoint status bytes) s = (Inr ?row, s\<lparr>db := ?d\<rparr>)"
    using assms(1,3) by (simp add: exec_quiet CreateIdempotencyKey_def insert_into_def Let_def)
  moreover have "find (\<lambda>r. ik_app_id r = app \<and> ik_key r = key) (idempotency_keys ?d) = Some ?row"
    using assms(2) by (simp add: find_append)
  ultimately show ?thesis by (intro exI [of _ ?row] exI [of _ ?d]) simp
qed

lemma reader_GetIdempotency [readers]:
  "reader (devapi_GetIdempotency app key) (\<lambda>d.
     case find (\<lambda>r. ik_app_id r = app \<and> ik_key r = key) (idempotency_keys d) of
       None \<Rightarrow> Inr None | Some row \<Rightarrow> Inr (Some (ik_response_body row, ik_status_code row)))"
  unfolding devapi_GetIdempotency_def GetIdempotencyKey_def
  by (rule reader_cong, (rule readers)+) (auto split: option.splits)


section \<open>Maintenance and audit\<close>

lemma reader_GetPlatformSetting [readers]:
  "reader (exec (GetPlatformSetting k)) (\<lambda>d. case map_option ps_value (find (\<lambda>r. ps_key r = k) (platform_settings d)) of
     None \<Rightarrow> Inl ENoRows | Some v \<Rightarrow> Inr v)"
  unfolding GetPlatformSetting_def by (rule reader_select_one)

definition maintenance_on :: "db \<Rightarrow> bool" where
  "maintenance_on d \<longleftrightarrow>
     (\<exists>v. map_option ps_value (find (\<lambda>r. ps_key r = ''maintenance_mode'') (platform_settings d)) = Some v \<and>
        ParseBool v = Some True)"

lemma maintenance_status:
  assumes "tape s = []"
  shows "\<exists>m. billing_IsMaintenanceMode s = (Inr (maintenance_on (db s), m), s)"
proof -
  let ?get = "\<lambda>k. map_option ps_value (find (\<lambda>r. ps_key r = k) (platform_settings (db s)))"
  have get: "exec (GetPlatformSetting k) s = (case ?get k of None \<Rightarrow> Inl ENoRows | Some v \<Rightarrow> Inr v, s)" for k
    using reader_quiet [OF reader_GetPlatformSetting assms] by simp
  have "billing_getBoolSetting ''maintenance_mode'' s = (Inr (maintenance_on (db s)), s)"
    by (cases "?get ''maintenance_mode''")
      (auto simp: billing_getBoolSetting_def attempt_def ret_def fail_def get maintenance_on_def split: option.splits)
  then show ?thesis
    by (cases "?get ''maintenance_message''")
      (auto simp: billing_IsMaintenanceMode_def billing_GetPlatformStatus_def andthen_def attempt_def ret_def get)
qed

text \<open>Maintenance closes all but the routes that must stay reachable. When its statements run, a request passes
  exactly if its path is one of those or the setting is not on; otherwise the answer is 503. Nothing is changed.\<close>

theorem maintenance_exact:
  assumes "tape s = []"
  shows "\<exists>message. MaintenanceMiddleware r c s =
    (Inr (if isMaintenanceBypass (rq_path r) \<or> \<not> maintenance_on (db s) then Pass c else Stop 503 message), s)"
  using maintenance_status [OF assms] by (auto simp: MaintenanceMiddleware_def attempt_def ret_def)



section \<open>Samples\<close>

definition sample_request :: "string \<Rightarrow> string \<Rightarrow> string \<Rightarrow> request" where
  "sample_request meth path token =
     \<lparr>rq_method = meth, rq_path = path, rq_full_path = path,
      rq_header = (\<lambda>h. if h = ''Authorization'' then ''Bearer '' @ token else if h = ''Idempotency-Key'' then ''k'' else []),
      rq_query = (\<lambda>_. []), rq_raw_query = [], rq_param = (\<lambda>p. if p = ''workspace_id'' then ''2'' else []), rq_ip = ''::1''\<rparr>"

theorem gates_admit_witness:
  "\<exists>c s'. through (gates_for sample_jwt sample_sha None None InWorkspace) (sample_request ''GET'' ''/api'' ''t1'') empty_ctx sample =
      (Inr (Pass c, c), s') \<and>
    admitted sample_jwt sample_sha InWorkspace sample (sample_request ''GET'' ''/api'' ''t1'') c \<and> cx_user_id c = Some 1"
proof -
  let ?run = "through (gates_for sample_jwt sample_sha None None InWorkspace) (sample_request ''GET'' ''/api'' ''t1'') empty_ctx sample"
  have "case ?run of (Inr (Pass c, c'), s') \<Rightarrow> cx_user_id c = Some 1 | _ \<Rightarrow> False" by code_simp
  then obtain res c' s' where "?run = (Inr (res, c'), s')" and "case res of Pass c \<Rightarrow> cx_user_id c = Some 1 | _ \<Rightarrow> False"
    by (auto split: prod.splits sum.splits simp del: through.simps)
  then obtain c where run: "?run = (Inr (Pass c, c'), s')" and uid: "cx_user_id c = Some 1"
    by (cases res) simp_all
  then have run: "?run = (Inr (Pass c, c), s')" using through_same by blast
  from gates_admit [OF run] show ?thesis using run uid by blast
qed

text \<open>Alice is an administrator, and dave owns the app.\<close>

definition sample_takeover :: world where
  "sample_takeover = sample\<lparr>db := sample_db
     \<lparr>users := (sample_user 1 ''alice'')\<lparr>u_platform_role := ''admin''\<rparr> # tl (users sample_db),
      apps := [(hd (apps sample_db))\<lparr>a_owner_id := 4\<rparr>]\<rparr>\<rparr>"

definition sample_attacker :: runtime_app where
  "sample_attacker = \<lparr>run_app = (hd (apps sample_db))\<lparr>a_owner_id := 4\<rparr>, run_workspace = 1, run_sandbox = False,
     run_env = ''live''\<rparr>"


definition sample_handler :: handler where
  "sample_handler r c = ret (\<lparr>rs_status = 200, rs_body = Bytes ''{}''\<rparr>, c)"


theorem maintenance_exact_witness:
  "\<exists>message. MaintenanceMiddleware (sample_request ''POST'' ''/api/apps'' ''x'') empty_ctx
      (sample\<lparr>db := sample_db\<lparr>platform_settings := [\<lparr>ps_key = ''maintenance_mode'', ps_value = ''true'', ps_updated_at = 0\<rparr>]\<rparr>\<rparr>) =
    (Inr (Stop 503 message), sample\<lparr>db := sample_db\<lparr>platform_settings := [\<lparr>ps_key = ''maintenance_mode'', ps_value = ''true'', ps_updated_at = 0\<rparr>]\<rparr>\<rparr>)"
proof -
  let ?s = "sample\<lparr>db := sample_db\<lparr>platform_settings := [\<lparr>ps_key = ''maintenance_mode'', ps_value = ''true'', ps_updated_at = 0\<rparr>]\<rparr>\<rparr>"
  have "maintenance_on (db ?s)" by (simp add: maintenance_on_def ParseBool_def)
  moreover have "\<not> isMaintenanceBypass (rq_path (sample_request ''POST'' ''/api/apps'' ''x''))" by code_simp
  ultimately show ?thesis using maintenance_exact [of ?s "sample_request ''POST'' ''/api/apps'' ''x''" empty_ctx] by simp
qed


end
