(* ===== verification/Realtime_Client.thy ===== *)
theory Realtime_Client
  imports Realtime_Properties Chat Call_Properties
begin

text \<open>
  \<open>internal/realtime/client.go\<close> and \<open>handler.go\<close>: what a client's reader does with the messages it gets, and the
  checks before a request becomes a client. A handler is a program over the database that returns the
  text of the error reply, if any; events for the hub are its effects.
\<close>

section \<open>Error replies\<close>

text \<open>The texts of the sentinel errors of the calls package.\<close>

fun calls_error_text :: "calls_err \<Rightarrow> string" where
  "calls_error_text Calls_NotFound = ''call not found''"
| "calls_error_text Calls_NotMember = ''not a channel member''"
| "calls_error_text Calls_NotParticipant = ''not a call participant''"
| "calls_error_text Calls_CallEnded = ''call has ended''"
| "calls_error_text Calls_CallAlreadyActive = ''channel already has an active call''"
| "calls_error_text Calls_CallFull = ''call participant limit reached''"
| "calls_error_text Calls_ChannelNotFound = ''channel not found''"
| "calls_error_text Calls_RecordingActive = ''call already has an active recording''"
| "calls_error_text Calls_RecordingNotFound = ''no active recording for call''"
| "calls_error_text Calls_InvalidMode = ''invalid call mode''"

fun sentinel_text :: "goerr \<Rightarrow> string" where
  "sentinel_text (ECalls e) = calls_error_text e"
| "sentinel_text (EChat Chat_EmptyContent) = ''message content is required''"
| "sentinel_text (EChat Chat_MessageTooLong) = ''message exceeds maximum length''"
| "sentinel_text _ = []"

definition client_sendCallError :: "goerr \<Rightarrow> string" where
  "client_sendCallError e =
     ClientMessage sentinel_text (Some e)
       (map ECalls [Calls_NotFound, Calls_NotMember, Calls_NotParticipant, Calls_CallEnded, Calls_CallAlreadyActive,
          Calls_CallFull, Calls_ChannelNotFound, Calls_RecordingActive, Calls_RecordingNotFound, Calls_InvalidMode])"

definition client_handleSendMessageError :: "goerr \<Rightarrow> string" where
  "client_handleSendMessageError e =
     (if e = EChat Chat_NotMember then ''not a channel member''
      else if e = EChat Chat_NotWorkspaceMember then ''not a workspace member''
      else if e = EChat Chat_ChannelNotFound then ''channel not found''
      else if e = EChat Chat_Forbidden then ''permission denied''
      else if e = EChat Chat_EmptyContent \<or> e = EChat Chat_MessageTooLong then Sanitize (sentinel_text e)
      else InternalMessage)"

section \<open>The handlers of a reader\<close>

definition client_handleMessageSend :: "chat_service \<Rightarrow> client \<Rightarrow> event \<Rightarrow> string option prog" where
  "client_handleMessageSend sv c ev =
     (case parseMessageContent (evt_payload ev) of
        None \<Rightarrow> ret (Some ''invalid message payload'')
      | Some content \<Rightarrow>
          attempt (chat_SendMessage sv (cl_workspaceID c) (cl_channelID c) (cl_userID c) content None [])
            (\<lambda>e. ret (Some (client_handleSendMessageError e))) (\<lambda>_. ret None))"

definition client_broadcastTyping :: "client \<Rightarrow> string \<Rightarrow> string option prog" where
  "client_broadcastTyping c ty =
     andthen (hub_publish ty (cl_workspaceID c) (cl_channelID c) [(''user_id'', VInt (cl_userID c))]) (\<lambda>_. ret None)"

text \<open>The checks that \<open>handleCallSignal\<close> and \<open>handleCallMediaEvent\<close> share; \<open>k\<close> gets the call's id.\<close>

definition with_valid_call ::
  "bool \<Rightarrow> (int \<Rightarrow> int \<Rightarrow> int) \<Rightarrow> string \<Rightarrow> client \<Rightarrow> event \<Rightarrow> (int \<Rightarrow> string option prog) \<Rightarrow> string option prog" where
  "with_valid_call has_calls out invalid c ev k =
     (if \<not> has_calls then ret (Some ''calls unavailable'')
      else let call = payloadInt64 out (evt_payload ev) ''call_id'' in
        if call = 0 then ret (Some invalid)
        else attempt (calls_ValidateSignal call (cl_userID c))
          (\<lambda>e. ret (Some (client_sendCallError e)))
          (\<lambda>ctx. if sc_channel ctx \<noteq> cl_channelID c \<or> sc_workspace ctx \<noteq> cl_workspaceID c
                 then ret (Some ''call channel mismatch'') else k call))"

definition client_handleCallSignal ::
  "bool \<Rightarrow> (int \<Rightarrow> int \<Rightarrow> int) \<Rightarrow> client \<Rightarrow> event \<Rightarrow> string option prog" where
  "client_handleCallSignal has_calls out c ev =
     with_valid_call has_calls out ''invalid call signal payload'' c ev (\<lambda>call.
       andthen (hub_publish (evt_type ev) (cl_workspaceID c) (cl_channelID c)
                  (withFromUser (evt_payload ev) (cl_userID c))) (\<lambda>_. ret None))"

definition client_handleCallMediaEvent ::
  "bool \<Rightarrow> (int \<Rightarrow> int \<Rightarrow> int) \<Rightarrow> client \<Rightarrow> event \<Rightarrow> string option prog" where
  "client_handleCallMediaEvent has_calls out c ev =
     with_valid_call has_calls out ''invalid call media payload'' c ev (\<lambda>call.
       let payload = withFromUser (evt_payload ev) (cl_userID c);
           publish = (\<lambda>payload. andthen (hub_publish (evt_type ev) (cl_workspaceID c) (cl_channelID c) payload)
                                  (\<lambda>_. ret None))
       in if evt_type ev = ''call.recording.start'' then
            attempt (calls_StartRecording call (cl_userID c) (fst (payloadMap (evt_payload ev))))
              (\<lambda>e. ret (Some (client_sendCallError e)))
              (\<lambda>r. publish (put_key ''started_at'' (VTime (r_started_at r))
                             (put_key ''recording_id'' (VInt (r_id r)) payload)))
          else if evt_type ev = ''call.recording.stop'' then
            (let recording = payloadInt64 out (evt_payload ev) ''recording_id'' in
             if recording = 0 then ret (Some ''recording_id required'')
             else attempt (calls_StopRecording call (cl_userID c) recording)
               (\<lambda>e. ret (Some (client_sendCallError e)))
               (\<lambda>r. publish (put_key ''ended_at'' (case r_ended_at r of None \<Rightarrow> VNull | Some t \<Rightarrow> VTime t)
                              (put_key ''recording_id'' (VInt (r_id r)) payload))))
          else publish payload)"

text \<open>The \<open>switch\<close> of \<open>readPump\<close>.\<close>

definition client_readPump ::
  "chat_service \<Rightarrow> bool \<Rightarrow> (int \<Rightarrow> int \<Rightarrow> int) \<Rightarrow> client \<Rightarrow> event \<Rightarrow> string option prog" where
  "client_readPump sv has_calls out c ev =
     (if evt_type ev = ''message.send'' then client_handleMessageSend sv c ev
      else if evt_type ev = ''typing.start'' then client_broadcastTyping c ''typing.start''
      else if evt_type ev = ''typing.stop'' then client_broadcastTyping c ''typing.stop''
      else if evt_type ev \<in> {''call.offer'', ''call.answer'', ''call.ice''}
        then client_handleCallSignal has_calls out c ev
      else if evt_type ev \<in> {''call.video.on'', ''call.video.off'', ''call.screen.start'', ''call.screen.stop'',
          ''call.speaker.changed'', ''call.recording.start'', ''call.recording.stop'', ''call.preferences''}
        then client_handleCallMediaEvent has_calls out c ev
      else ret None)"

section \<open>Opening a connection\<close>

datatype ws_result =
    WsRefused int string
  | WsDropped          \<comment> \<open>\<open>Upgrade\<close> failed and has answered itself\<close>
  | WsOpen client

text \<open>\<open>upgrade\<close> is the result of gorilla's \<open>Upgrade\<close>, which calls \<open>CheckOrigin\<close>; \<open>n\<close> is the new pointer.\<close>

definition realtime_HandleWebSocket ::
  "hub \<Rightarrow> string \<Rightarrow> string \<Rightarrow> int \<Rightarrow> string \<Rightarrow> bool \<Rightarrow> nat \<Rightarrow> ws_result prog" where
  "realtime_HandleWebSocket h raw_ws raw_ch uid ip upgrade n =
     (case ParseInt raw_ws of
        None \<Rightarrow> ret (WsRefused 400 ''invalid workspace_id'')
      | Some ws \<Rightarrow>
     (case ParseInt raw_ch of
        None \<Rightarrow> ret (WsRefused 400 ''invalid channel_id'')
      | Some ch \<Rightarrow>
          if \<not> hub_CanConnect h uid ip then ret (WsRefused 429 ''connection limit exceeded'')
          else attempt (exec (IsWorkspaceMember ws uid)) (\<lambda>_. ret (WsRefused 500 InternalMessage)) (\<lambda>is_ws_member.
          if \<not> is_ws_member then ret (WsRefused 403 ''not a workspace member'')
          else attempt (channels_getChannelInWorkspace ws ch) (\<lambda>_. ret (WsRefused 404 ''channel not found'')) (\<lambda>_.
          attempt (exec (IsChannelMember ch uid)) (\<lambda>_. ret (WsRefused 500 InternalMessage)) (\<lambda>is_member.
          if \<not> is_member then ret (WsRefused 403 ''not a channel member'')
          else if \<not> upgrade then ret WsDropped
          else ret (WsOpen \<lparr>cl_id = n, cl_userID = uid, cl_workspaceID = ws, cl_channelID = ch,
                            cl_remoteIP = ip\<rparr>))))))"

section \<open>Properties\<close>

lemma websocket_opened:
  assumes "realtime_HandleWebSocket h raw_ws raw_ch uid ip upgrade n s = (Inr (WsOpen c), s')"
  shows "in_workspace (db s) (cl_workspaceID c) uid \<and> in_channel (db s) (cl_channelID c) uid \<and>
    channel_of (db s) (cl_workspaceID c) (cl_channelID c) \<noteq> None \<and> hub_CanConnect h uid ip \<and> cl_userID c = uid \<and> cl_remoteIP c = ip \<and>
    ParseInt raw_ws = Some (cl_workspaceID c) \<and> ParseInt raw_ch = Some (cl_channelID c) \<and> db s' = db s \<and> outbox s' = outbox s"
proof -
  obtain ws where ws: "ParseInt raw_ws = Some ws" using assms
    by (cases "ParseInt raw_ws") (simp_all add: realtime_HandleWebSocket_def)
  obtain ch where ch: "ParseInt raw_ch = Some ch" using assms ws
    by (cases "ParseInt raw_ch") (simp_all add: realtime_HandleWebSocket_def)
  have can: "hub_CanConnect h uid ip" using assms ws ch
    by (simp add: realtime_HandleWebSocket_def split: if_splits)
  have "attempt (exec (IsWorkspaceMember ws uid)) (\<lambda>_. ret (WsRefused 500 InternalMessage)) (\<lambda>is_ws_member.
      if \<not> is_ws_member then ret (WsRefused 403 ''not a workspace member'')
      else attempt (channels_getChannelInWorkspace ws ch) (\<lambda>_. ret (WsRefused 404 ''channel not found'')) (\<lambda>_.
      attempt (exec (IsChannelMember ch uid)) (\<lambda>_. ret (WsRefused 500 InternalMessage)) (\<lambda>is_member.
      if \<not> is_member then ret (WsRefused 403 ''not a channel member'')
      else if \<not> upgrade then ret WsDropped
      else ret (WsOpen \<lparr>cl_id = n, cl_userID = uid, cl_workspaceID = ws, cl_channelID = ch, cl_remoteIP = ip\<rparr>)))) s
      = (Inr (WsOpen c), s')"
    using assms by (simp add: realtime_HandleWebSocket_def ws ch can)
  then show ?thesis
    by (elim attempt_readerE [OF _ reader_IsWorkspaceMember] attempt_readerE [OF _ reader_getChannelInWorkspace]
        attempt_readerE [OF _ reader_IsChannelMember])
      (auto simp: ws ch can split: if_splits option.splits
        elim!: attempt_readerE [OF _ reader_getChannelInWorkspace] attempt_readerE [OF _ reader_IsChannelMember])
qed

text \<open>C16: A connection is opened only for a member: when \<open>HandleWebSocket\<close> makes a client, whatever the statements meet, the user is
  a member of the workspace and of the channel, the channel belongs to the workspace, the limits were not reached, the client
  carries these ids, and nothing was written.\<close>

theorem websocket_members_only:
  assumes "realtime_HandleWebSocket h raw_ws raw_ch uid ip upgrade n s = (Inr (WsOpen c), s')"
  shows "in_workspace (db s) (cl_workspaceID c) uid \<and> in_channel (db s) (cl_channelID c) uid \<and>
    channel_of (db s) (cl_workspaceID c) (cl_channelID c) \<noteq> None \<and> hub_CanConnect h uid ip \<and> cl_userID c = uid \<and> cl_remoteIP c = ip \<and>
    ParseInt raw_ws = Some (cl_workspaceID c) \<and> ParseInt raw_ch = Some (cl_channelID c) \<and> db s' = db s \<and> outbox s' = outbox s"
  using websocket_opened [OF assms] .

theorem websocket_members_only_witness:
  "\<exists>s'. realtime_HandleWebSocket (NewHub sample_cfg LocalBroker True True) ''1'' ''10'' 2 ''::1'' True 0 sample =
      (Inr (WsOpen \<lparr>cl_id = 0, cl_userID = 2, cl_workspaceID = 1, cl_channelID = 10, cl_remoteIP = ''::1''\<rparr>), s') \<and>
     in_workspace (db sample) 1 2 \<and> in_channel (db sample) 10 2"
proof -
  have "fst (realtime_HandleWebSocket (NewHub sample_cfg LocalBroker True True) ''1'' ''10'' 2 ''::1'' True 0 sample) =
      Inr (WsOpen \<lparr>cl_id = 0, cl_userID = 2, cl_workspaceID = 1, cl_channelID = 10, cl_remoteIP = ''::1''\<rparr>)"
    by code_simp
  then obtain s' where run: "realtime_HandleWebSocket (NewHub sample_cfg LocalBroker True True) ''1'' ''10'' 2 ''::1'' True 0 sample =
      (Inr (WsOpen \<lparr>cl_id = 0, cl_userID = 2, cl_workspaceID = 1, cl_channelID = 10, cl_remoteIP = ''::1''\<rparr>), s')"
    by (metis prod.collapse)
  from websocket_members_only [OF run] show ?thesis using run by simp
qed

lemma valid_callE [consumes 1]:
  assumes "with_valid_call has_calls out invalid c ev k s = (r, s')"
  obtains (refused) msg where "r = Inr (Some msg)" and "db s' = db s" and "outbox s' = outbox s"
    | (valid) row s1 where "row \<in> set (calls (db s))" and "c_id row = payloadInt64 out (evt_payload ev) ''call_id''"
      and "c_status row \<noteq> ''ended''" and "c_channel_id row = cl_channelID c" and "c_workspace_id row = cl_workspaceID c"
      and "cl_userID c \<in> seated (db s) (c_id row)" and "db s1 = db s" and "outbox s1 = outbox s"
      and "k (c_id row) s1 = (r, s')"
proof -
  let ?call = "payloadInt64 out (evt_payload ev) ''call_id''"
  consider (early) msg where "r = Inr (Some msg)" "s' = s"
    | (run) "attempt (calls_ValidateSignal ?call (cl_userID c)) (\<lambda>e. ret (Some (client_sendCallError e)))
        (\<lambda>ctx. if sc_channel ctx \<noteq> cl_channelID c \<or> sc_workspace ctx \<noteq> cl_workspaceID c
               then ret (Some ''call channel mismatch'') else k ?call) s = (r, s')"
    using assms by (auto simp: with_valid_call_def Let_def split: if_splits)
  then show ?thesis
  proof cases
    case early
    then show ?thesis using refused by simp
  next
    case run
    show ?thesis
      using run reader_ValidateSignal
    proof (cases rule: attempt_readerE)
      case (error e s1)
      then show ?thesis using refused by auto
    next
      case (got ctx s1)
      from got(1) obtain row where row: "find (\<lambda>c. c_id c = ?call) (calls (db s)) = Some row"
        "c_status row \<noteq> ''ended''" "cl_userID c \<in> seated (db s) ?call"
        "sc_channel ctx = c_channel_id row" "sc_workspace ctx = c_workspace_id row"
        by (auto split: option.splits if_splits)
      then have mem: "row \<in> set (calls (db s))" "c_id row = ?call" by (auto dest: find_SomeD)
      show ?thesis
      proof (cases "sc_channel ctx \<noteq> cl_channelID c \<or> sc_workspace ctx \<noteq> cl_workspaceID c")
        case True
        then show ?thesis using got refused by auto
      next
        case False
        then show ?thesis using got row mem by (intro valid [of row s1]) auto
      qed
    qed
  qed
qed

text \<open>The recording operations publish nothing themselves.\<close>

definition silent :: "'a prog \<Rightarrow> bool" where
  "silent m \<longleftrightarrow> (\<forall>s. outbox (snd (m s)) = outbox s)"

lemma silent_attempt: "silent q \<Longrightarrow> (\<And>e. silent (h e)) \<Longrightarrow> (\<And>x. silent (k x)) \<Longrightarrow> silent (attempt q h k)"
  by (auto simp: silent_def attempt_def split: prod.split sum.split) (metis snd_conv)+

lemma silent_basic: "silent (ret x)" "silent (fail e)" "silent (exec q)"
  by (simp_all add: silent_def ret_def fail_def)

lemma silent_reader: "reader q f \<Longrightarrow> silent q"
  by (simp add: silent_def reader_def)

lemma recordings_silent: "silent (calls_StartRecording call uid md)" "silent (calls_StopRecording call uid i)"
  unfolding calls_StartRecording_def calls_StopRecording_def andthen_def
  by (auto intro!: silent_attempt silent_basic silent_reader [OF reader_ValidateSignal] simp: if_distrib
      split: if_split)

text \<open>What a media message publishes: the payload with the sender, and the recording it started or stopped.\<close>

definition relayed :: "client \<Rightarrow> event \<Rightarrow> gomap \<Rightarrow> bool" where
  "relayed c ev pl \<longleftrightarrow> (\<forall>k. k \<notin> {''started_at'', ''ended_at'', ''recording_id''} \<longrightarrow>
     map_of pl k = map_of (withFromUser (evt_payload ev) (cl_userID c)) k)"

lemma relayed_payload:
  assumes "relayed c ev pl"
  shows "payloadInt64 out (VObj pl) ''from_user_id'' = cl_userID c \<and>
    payloadInt64 out (VObj pl) ''to_user_id'' = payloadInt64 out (evt_payload ev) ''to_user_id''"
proof -
  have "payloadInt64 out (VObj pl) k = payloadInt64 out (VObj (withFromUser (evt_payload ev) (cl_userID c))) k"
    if "k \<notin> {''started_at'', ''ended_at'', ''recording_id''}" for k
    using assms that by (simp add: relayed_def payloadInt64_def)
  then show ?thesis by simp
qed

text \<open>A program that publishes nothing or one relayed message.\<close>

definition relays :: "client \<Rightarrow> event \<Rightarrow> string option prog \<Rightarrow> bool" where
  "relays c ev m \<longleftrightarrow> (\<forall>s. outbox (snd (m s)) = outbox s \<or>
     (\<exists>pl. relayed c ev pl \<and>
       outbox (snd (m s)) = outbox s @ [Publish (evt_type ev) (cl_workspaceID c) (cl_channelID c) pl]))"

lemma relays_publish:
  "evt_type ev = ty \<Longrightarrow> relayed c ev pl \<Longrightarrow>
    relays c ev (andthen (hub_publish ty (cl_workspaceID c) (cl_channelID c) pl) (\<lambda>_. ret None))"
  by (auto simp: relays_def andthen_def attempt_def hub_publish_def emit_def ret_def)

lemma relays_ret: "relays c ev (ret x)"
  by (simp add: relays_def ret_def)

lemma relays_attempt:
  assumes "silent q" and "\<And>e. relays c ev (h e)" and "\<And>x. relays c ev (k x)"
  shows "relays c ev (attempt q h k)"
  unfolding relays_def
proof
  fix s
  obtain v s1 where q: "q s = (v, s1)" by (cases "q s")
  then have "outbox s1 = outbox s" using assms(1) by (metis silent_def snd_conv)
  then show "outbox (snd (attempt q h k s)) = outbox s \<or> (\<exists>pl. relayed c ev pl \<and>
      outbox (snd (attempt q h k s)) = outbox s @ [Publish (evt_type ev) (cl_workspaceID c) (cl_channelID c) pl])"
    using assms(2,3) [unfolded relays_def, rule_format, of _ s1] by (cases v) (auto simp: attempt_def q)
qed

lemma relayed_plain: "relayed c ev (withFromUser (evt_payload ev) (cl_userID c))"
  by (simp add: relayed_def)

lemma relayed_put:
  "relayed c ev pl \<Longrightarrow> k \<in> {''started_at'', ''ended_at'', ''recording_id''} \<Longrightarrow> relayed c ev (put_key k v pl)"
  by (auto simp: relayed_def map_of_put_key)

text \<open>Each handler is \<open>with_valid_call\<close> of a program that relays.\<close>

lemma call_handlers_relay:
  assumes "isCallSignal (evt_type ev) \<or> isCallMediaEvent (evt_type ev)"
  obtains invalid k where "client_readPump sv has_calls out c ev = with_valid_call has_calls out invalid c ev k"
    and "\<And>call. relays c ev (k call)"
proof (cases "isCallSignal (evt_type ev)")
  case True
  then have "client_readPump sv has_calls out c ev = client_handleCallSignal has_calls out c ev"
    by (auto simp: client_readPump_def isCallSignal_def)
  then show thesis using that relays_publish [OF refl relayed_plain] unfolding client_handleCallSignal_def by blast
next
  case False
  then have "client_readPump sv has_calls out c ev = client_handleCallMediaEvent has_calls out c ev"
    using assms by (auto simp: client_readPump_def isCallMediaEvent_def)
  then show thesis unfolding client_handleCallMediaEvent_def Let_def
    by (rule that) (auto intro!: relays_publish relays_ret relays_attempt recordings_silent relayed_put relayed_plain)
qed

text \<open>C15: Call events relayed to a channel are authentic: whatever a client puts in a call signal or a call media message and
  whatever the statements meet, its reader either publishes nothing or exactly one event, of the message's type, on the client's own
  channel, whose \<open>from_user_id\<close> is the client's user and whose \<open>to_user_id\<close> is the one sent; and then the message names a call of
  that channel that has not ended and in which this user sits.\<close>

theorem call_events_are_authentic:
  assumes "client_readPump sv has_calls out c ev s = (r, s')"
    and "isCallSignal (evt_type ev) \<or> isCallMediaEvent (evt_type ev)"
  shows "outbox s' = outbox s \<or>
    (\<exists>pl. outbox s' = outbox s @ [Publish (evt_type ev) (cl_workspaceID c) (cl_channelID c) pl] \<and>
      payloadInt64 out (VObj pl) ''from_user_id'' = cl_userID c \<and>
      payloadInt64 out (VObj pl) ''to_user_id'' = payloadInt64 out (evt_payload ev) ''to_user_id'' \<and>
      (\<exists>row\<in>set (calls (db s)). c_id row = payloadInt64 out (evt_payload ev) ''call_id'' \<and>
        c_status row \<noteq> ''ended'' \<and> c_channel_id row = cl_channelID c \<and> c_workspace_id row = cl_workspaceID c \<and>
        cl_userID c \<in> seated (db s) (c_id row)))"
proof -
  obtain invalid k where k: "client_readPump sv has_calls out c ev = with_valid_call has_calls out invalid c ev k"
    "\<And>call. relays c ev (k call)" using call_handlers_relay [OF assms(2)] by blast
  show ?thesis
    using assms(1) unfolding k(1)
  proof (cases rule: valid_callE)
    case (valid row s1)
    then show ?thesis using k(2) [of "c_id row", unfolded relays_def, rule_format, of s1] relayed_payload by fastforce
  qed simp
qed

definition sample_signal :: event where
  "sample_signal = sample_event ''call.offer'' (VObj [(''call_id'', VFloat 50 0), (''to_user_id'', VFloat 1 0),
     (''from_user_id'', VFloat 1 0)])"

theorem call_events_are_authentic_witness:
  "\<exists>r s' pl. client_readPump (chat_wired None 0) True (\<lambda>_ _. 0) (sample_client 0 2) sample_signal sample_in_call = (r, s') \<and>
     outbox s' = outbox sample_in_call @ [Publish ''call.offer'' 1 10 pl] \<and>
     payloadInt64 (\<lambda>_ _. 0) (VObj pl) ''from_user_id'' = 2"
proof -
  obtain r s' where run: "client_readPump (chat_wired None 0) True (\<lambda>_ _. 0) (sample_client 0 2) sample_signal sample_in_call = (r, s')"
    by fastforce
  have "length (outbox (snd (client_readPump (chat_wired None 0) True (\<lambda>_ _. 0) (sample_client 0 2) sample_signal sample_in_call))) =
      Suc (length (outbox sample_in_call))"
    by code_simp
  then have "outbox s' \<noteq> outbox sample_in_call" by (auto simp: run)
  moreover have "isCallSignal (evt_type sample_signal) \<or> isCallMediaEvent (evt_type sample_signal)"
    by (simp add: sample_signal_def sample_event_def isCallSignal_def)
  ultimately show ?thesis using run call_events_are_authentic [OF run]
    by (auto simp: sample_signal_def sample_event_def sample_client_def)
qed

end
