(* ===== verification/Workspaces.thy ===== *)
theory Workspaces
  imports Channels Notifications
begin

text \<open>
  \<open>internal/workspaces\<close>: creating workspaces with their slug, and the administration of members.
  The \<open>InviteNotifier\<close> that \<open>SetInviteNotifier\<close> stores is an argument; it may be nil.
\<close>

type_synonym invite_notifier = "int \<Rightarrow> int \<Rightarrow> int \<Rightarrow> string \<Rightarrow> string \<Rightarrow> unit prog"

definition normalizeSlug :: "string \<Rightarrow> string \<Rightarrow> goerr + string" where
  "normalizeSlug raw name =
     (let slug = TrimSpace (ToLower raw);
          slug = (if slug = []
                  then trim_char CHR ''-''
                         (collapse_dashes (remove_non_slug (spaces_to_dashes (ToLower name))))
                  else slug)
      in if slug = [] \<or> \<not> slug_pattern slug then Inl (EWorkspaces Ws_InvalidSlug) else Inr slug)"

definition workspaces_CreateWorkspace :: "int \<Rightarrow> string \<Rightarrow> string \<Rightarrow> workspace_row prog" where
  "workspaces_CreateWorkspace uid raw_name raw_slug =
     (let name = TrimSpace raw_name in
      if name = [] then fail (EWorkspaces Ws_NameRequired)
      else case normalizeSlug raw_slug name of
        Inl e \<Rightarrow> fail e
      | Inr slug \<Rightarrow>
          attempt (exec (GetWorkspaceBySlug slug))
            (\<lambda>e. if e \<noteq> ENoRows then fail e
                 else andthen (exec (CreateWorkspace name slug uid)) (\<lambda>w.
                      andthen (exec (AddWorkspaceMember (w_id w) uid ''owner'')) (\<lambda>_.
                      ret w)))
            (\<lambda>_. fail (EWorkspaces Ws_SlugTaken)))"

definition workspaces_assertMember :: "int \<Rightarrow> int \<Rightarrow> unit prog" where
  "workspaces_assertMember ws uid =
     andthen (exec (IsWorkspaceMember ws uid)) (\<lambda>is_member.
     if \<not> is_member then fail (EWorkspaces Ws_NotMember) else ret ())"

definition workspaces_ListWorkspaces :: "int \<Rightarrow> (workspace_row \<times> string) list prog" where
  "workspaces_ListWorkspaces uid = exec (GetWorkspacesByUser uid)"

definition workspaces_GetWorkspace :: "int \<Rightarrow> int \<Rightarrow> workspace_row prog" where
  "workspaces_GetWorkspace ws uid =
     andthen (workspaces_assertMember ws uid) (\<lambda>_.
     attempt (exec (GetWorkspaceByID ws)) (\<lambda>e. fail (no_rows_as (EWorkspaces Ws_NotFound) e)) ret)"

definition workspaces_MemberRole :: "int \<Rightarrow> int \<Rightarrow> string prog" where
  "workspaces_MemberRole ws uid =
     attempt (exec (GetWorkspaceMember ws uid))
       (\<lambda>e. fail (no_rows_as (EWorkspaces Ws_NotMember) e)) (\<lambda>m. ret (wm_role m))"

record member_response =
  mr_user_id :: int
  mr_username :: string
  mr_email :: string
  mr_role :: string
  mr_created_at :: int

definition workspaces_ListMembers :: "int \<Rightarrow> int \<Rightarrow> member_response list prog" where
  "workspaces_ListMembers ws uid =
     andthen (workspaces_assertMember ws uid) (\<lambda>_.
     andthen (exec (ListWorkspaceMembers ws)) (\<lambda>rows.
     ret (map (\<lambda>(m, username, email).
            \<lparr>mr_user_id = wm_user_id m, mr_username = username, mr_email = email,
             mr_role = wm_role m, mr_created_at = wm_created_at m\<rparr>) rows)))"

definition member_response_of :: "user_row \<Rightarrow> workspace_member_row \<Rightarrow> member_response" where
  "member_response_of u m =
     \<lparr>mr_user_id = u_id u, mr_username = u_username u, mr_email = u_email u,
      mr_role = wm_role m, mr_created_at = wm_created_at m\<rparr>"

text \<open>The checks that \<open>AddMember\<close> and \<open>UpdateMemberRole\<close> share, up to \<open>CanAssignRole\<close>.\<close>

definition workspaces_authorize_role :: "int \<Rightarrow> int \<Rightarrow> Action \<Rightarrow> string \<Rightarrow> Role prog" where
  "workspaces_authorize_role ws actor action raw =
     attempt (authz_Can ws actor action no_options)
       (\<lambda>e. fail (mapAuthzError (EWorkspaces Ws_Forbidden) e)) (\<lambda>_.
     case ParseRole (TrimSpace raw) of
       None \<Rightarrow> fail (EWorkspaces Ws_InvalidRole)
     | Some target \<Rightarrow>
         if target = RoleOwner then fail (EWorkspaces Ws_InvalidRole)
         else attempt (authz_WorkspaceRole ws actor)
                (\<lambda>e. fail (mapAuthzError (EWorkspaces Ws_Forbidden) e)) (\<lambda>actor_role.
              if \<not> canAssignRole actor_role target then fail (EWorkspaces Ws_Forbidden)
              else ret target))"

text \<open>The notification of \<open>AddMember\<close>: both lookups run, and either error drops it.\<close>

definition workspaces_notify :: "invite_notifier option \<Rightarrow> int \<Rightarrow> int \<Rightarrow> int \<Rightarrow> unit prog" where
  "workspaces_notify notifier ws actor target =
     (case notifier of
        None \<Rightarrow> ret ()
      | Some notify \<Rightarrow>
          attempt (exec (GetWorkspaceByID ws))
            (\<lambda>_. ignoring (exec (GetUserByID actor)))
            (\<lambda>w. attempt (exec (GetUserByID actor))
                   (\<lambda>_. ret ())
                   (\<lambda>a. ignoring (notify ws actor target (w_name w) (u_username a)))))"

definition workspaces_AddMember ::
  "invite_notifier option \<Rightarrow> int \<Rightarrow> int \<Rightarrow> string \<Rightarrow> string \<Rightarrow> member_response prog" where
  "workspaces_AddMember notifier ws actor raw_email raw_role =
     andthen (workspaces_authorize_role ws actor ActionInviteMember raw_role) (\<lambda>target_role.
     let email = TrimSpace (ToLower raw_email) in
     if email = [] then fail (EWorkspaces Ws_EmailRequired)
     else attempt (exec (GetUserByEmail email))
            (\<lambda>e. fail (no_rows_as (EWorkspaces Ws_UserNotFound) e)) (\<lambda>user.
          attempt (exec (GetWorkspaceMember ws (u_id user)))
            (\<lambda>e. if e \<noteq> ENoRows then fail e
                 else andthen (exec (AddWorkspaceMember ws (u_id user) (role_name target_role))) (\<lambda>_.
                      andthen (exec (GetWorkspaceMember ws (u_id user))) (\<lambda>member.
                      andthen (workspaces_notify notifier ws actor (u_id user)) (\<lambda>_.
                      ret (member_response_of user member)))))
            (\<lambda>_. fail (EWorkspaces Ws_AlreadyMember))))"

definition workspaces_RemoveMember :: "int \<Rightarrow> int \<Rightarrow> int \<Rightarrow> unit prog" where
  "workspaces_RemoveMember ws actor target_id =
     attempt (authz_Can ws actor ActionRemoveMember no_options)
       (\<lambda>e. fail (mapAuthzError (EWorkspaces Ws_Forbidden) e)) (\<lambda>_.
     attempt (exec (GetWorkspaceMember ws target_id))
       (\<lambda>e. fail (no_rows_as (EWorkspaces Ws_NotMember) e)) (\<lambda>target.
     if wm_role target = role_name RoleOwner then fail (EWorkspaces Ws_CannotModifyOwner)
     else exec (RemoveWorkspaceMember ws target_id)))"

definition workspaces_UpdateMemberRole ::
  "int \<Rightarrow> int \<Rightarrow> int \<Rightarrow> string \<Rightarrow> member_response prog" where
  "workspaces_UpdateMemberRole ws actor target_id raw_role =
     andthen (workspaces_authorize_role ws actor ActionChangeMemberRole raw_role) (\<lambda>new_role.
     attempt (exec (GetWorkspaceMember ws target_id))
       (\<lambda>e. fail (no_rows_as (EWorkspaces Ws_NotMember) e)) (\<lambda>target.
     if wm_role target = role_name RoleOwner then fail (EWorkspaces Ws_CannotModifyOwner)
     else andthen (exec (UpdateWorkspaceMemberRole ws target_id (role_name new_role))) (\<lambda>_.
          andthen (exec (GetUserByID target_id)) (\<lambda>user.
          andthen (exec (GetWorkspaceMember ws target_id)) (\<lambda>updated.
          ret (member_response_of user updated))))))"

section \<open>Who may change members\<close>

definition members_unique :: "db \<Rightarrow> bool" where
  "members_unique d \<longleftrightarrow>
     distinct (map (\<lambda>m. (wm_workspace_id m, wm_user_id m)) (workspace_members d))"

definition owners :: "db \<Rightarrow> workspace_member_row list" where
  "owners d = filter (\<lambda>m. wm_role m = ''owner'') (workspace_members d)"

lemma can_manage:
  "a \<in> {ActionInviteMember, ActionRemoveMember, ActionChangeMemberRole} \<Longrightarrow>
    can_result d ws uid a no_options =
      (if role_of d ws uid \<in> {Some RoleOwner, Some RoleAdmin} then Inr ()
       else Inl (EAuthz Authz_Forbidden))"
  by (auto simp: can_result_def effective_options_def no_options_def split: option.splits)

lemma reader_authorize_role [readers]:
  assumes "a \<in> {ActionInviteMember, ActionRemoveMember, ActionChangeMemberRole}"
  shows "reader (workspaces_authorize_role ws actor a raw)
    (\<lambda>d. if role_of d ws actor \<notin> {Some RoleOwner, Some RoleAdmin} then Inl (EWorkspaces Ws_Forbidden)
         else case ParseRole (TrimSpace raw) of
           None \<Rightarrow> Inl (EWorkspaces Ws_InvalidRole)
         | Some t \<Rightarrow>
             if t = RoleOwner then Inl (EWorkspaces Ws_InvalidRole)
             else if canAssignRole (the (role_of d ws actor)) t then Inr t
             else Inl (EWorkspaces Ws_Forbidden))"
  unfolding workspaces_authorize_role_def
  by (rule reader_cong, (rule readers | simp add: mapAuthzError_def)+)
     (auto simp: can_manage [OF assms] mapAuthzError_def split: option.splits)

text \<open>
  What an operation of \<open>actor\<close> on the members of a workspace may have done: nothing, or a change
  by an owner or admin that leaves owners and other workspaces alone and only introduces roles
  the actor may assign.
\<close>

definition authorized_change :: "db \<Rightarrow> db \<Rightarrow> int \<Rightarrow> int \<Rightarrow> bool" where
  "authorized_change d d' ws actor \<longleftrightarrow>
     workspace_members d' = workspace_members d \<or>
     (members_unique d' \<and> owners d' = owners d \<and>
      filter (\<lambda>m. wm_workspace_id m \<noteq> ws) (workspace_members d') =
        filter (\<lambda>m. wm_workspace_id m \<noteq> ws) (workspace_members d) \<and>
      (\<exists>role. role_of d ws actor = Some role \<and> (role = RoleOwner \<or> role = RoleAdmin) \<and>
         (\<forall>m\<in>set (workspace_members d'). m \<in> set (workspace_members d) \<or>
            (\<exists>t\<in>set (AssignableRoles role). wm_role m = role_name t))))"

lemma authorized_same: "workspace_members d' = workspace_members d \<Longrightarrow> authorized_change d d' ws actor"
  by (simp add: authorized_change_def)

lemma authorized_trans:
  "authorized_change d d1 ws actor \<Longrightarrow> workspace_members d2 = workspace_members d1 \<Longrightarrow>
    authorized_change d d2 ws actor"
  by (auto simp: authorized_change_def members_unique_def owners_def)

lemma member_of_None: "member_of d ws uid = None \<longleftrightarrow>
    (ws, uid) \<notin> (\<lambda>m. (wm_workspace_id m, wm_user_id m)) ` set (workspace_members d)"
  by (auto simp: member_of_def find_None_iff)

lemma member_of_unique:
  assumes "members_unique d" and "member_of d ws uid = Some t" and "m \<in> set (workspace_members d)"
    and "wm_workspace_id m = ws" and "wm_user_id m = uid"
  shows "m = t"
proof -
  have "t \<in> set (workspace_members d)" "wm_workspace_id t = ws" "wm_user_id t = uid"
    using assms(2) by (auto simp: member_of_def dest: find_SomeD)
  then show ?thesis
    using distinct_map_unique [of "\<lambda>m. (wm_workspace_id m, wm_user_id m)" "workspace_members d" m t] assms
    by (simp add: members_unique_def)
qed

lemma authorized_remove:
  assumes "members_unique d" and "member_of d ws tid = Some t" and "wm_role t \<noteq> ''owner''"
    and "role_of d ws actor = Some role" and "role = RoleOwner \<or> role = RoleAdmin"
  shows "authorized_change d (snd (RemoveWorkspaceMember ws tid time d)) ws actor"
proof -
  let ?p = "\<lambda>m. wm_workspace_id m = ws \<and> wm_user_id m = tid"
  have "filter (\<lambda>m. wm_role m = ''owner'') (delete_where ?p (workspace_members d)) =
      filter (\<lambda>m. wm_role m = ''owner'') (workspace_members d)"
    using member_of_unique [OF assms(1,2)] assms(3) by (auto intro!: filter_delete_where_disjoint)
  moreover have "filter (\<lambda>m. wm_workspace_id m \<noteq> ws) (delete_where ?p (workspace_members d)) =
      filter (\<lambda>m. wm_workspace_id m \<noteq> ws) (workspace_members d)"
    by (rule filter_delete_where_disjoint) simp
  ultimately show ?thesis using assms(1,4,5)
    by (simp add: authorized_change_def RemoveWorkspaceMember_def delete_all_def owners_def
        members_unique_def delete_where_def distinct_map_filter)
qed

lemma authorized_update:
  assumes "members_unique d" and "member_of d ws tid = Some t" and "wm_role t \<noteq> ''owner''"
    and "role_of d ws actor = Some role" and "role = RoleOwner \<or> role = RoleAdmin"
    and "canAssignRole role new"
  shows "authorized_change d (snd (UpdateWorkspaceMemberRole ws tid (role_name new) time d)) ws actor"
proof -
  let ?p = "\<lambda>m. wm_workspace_id m = ws \<and> wm_user_id m = tid"
  let ?g = "\<lambda>m. m\<lparr>wm_role := role_name new, wm_updated_at := Some time\<rparr>"
  have new: "role_name new \<noteq> ''owner''" "role_name new \<in> {''owner'', ''admin'', ''moderator'', ''member''}"
    using assms(6) by (cases new; simp)+
  have "filter (\<lambda>m. wm_role m = ''owner'') (update_where ?p ?g (workspace_members d)) =
      filter (\<lambda>m. wm_role m = ''owner'') (workspace_members d)"
    using member_of_unique [OF assms(1,2)] assms(3) new by (auto intro!: filter_update_where_disjoint)
  moreover have "filter (\<lambda>m. wm_workspace_id m \<noteq> ws) (update_where ?p ?g (workspace_members d)) =
      filter (\<lambda>m. wm_workspace_id m \<noteq> ws) (workspace_members d)"
    by (rule filter_update_where_disjoint) simp
  moreover have "map (\<lambda>m. (wm_workspace_id m, wm_user_id m)) (update_where ?p ?g (workspace_members d)) =
      map (\<lambda>m. (wm_workspace_id m, wm_user_id m)) (workspace_members d)"
    by (rule map_update_where) simp
  moreover have "\<forall>m\<in>set (update_where ?p ?g (workspace_members d)).
      m \<in> set (workspace_members d) \<or> (\<exists>t\<in>set (AssignableRoles role). wm_role m = role_name t)"
    using assms(6) by (auto simp: set_update_where canAssignRole_iff)
  ultimately show ?thesis using assms(1,4,5) new(2)
    by (simp add: authorized_change_def UpdateWorkspaceMemberRole_def guarded_def update_all_def
        owners_def members_unique_def)
qed

lemma authorized_add:
  assumes "members_unique d" and "member_of d ws uid = None"
    and "role_of d ws actor = Some role" and "role = RoleOwner \<or> role = RoleAdmin"
    and "canAssignRole role new"
  shows "authorized_change d (snd (AddWorkspaceMember ws uid (role_name new) time d)) ws actor"
proof -
  have new: "role_name new \<noteq> ''owner''" using assms(5) by (cases new) auto
  show ?thesis using assms new
    by (auto simp: authorized_change_def AddWorkspaceMember_def insert_into_def Let_def owners_def
        members_unique_def member_of_None canAssignRole_iff split: option.splits)
qed

lemma RemoveMember_authorized:
  assumes "members_unique (db s)" and "workspaces_RemoveMember ws actor tid s = (r, s')"
  shows "authorized_change (db s) (db s') ws actor"
  using assms(2) reader_Can unfolding workspaces_RemoveMember_def
proof (cases rule: attempt_readerE)
  case (error e s1)
  then show ?thesis by (auto intro: authorized_same)
next
  case (got x s1)
  from got(2) reader_GetWorkspaceMember show ?thesis
  proof (cases rule: attempt_readerE)
    case (error e s2)
    then show ?thesis using got by (auto intro: authorized_same)
  next
    case (got t s2)
    note t = this
    have d: "db s2 = db s" "member_of (db s) ws tid = Some t"
      using t \<open>db s1 = db s\<close> by (auto split: option.splits)
    show ?thesis
    proof (cases "wm_role t = role_name RoleOwner")
      case True
      then show ?thesis using t(2) d by (auto intro: authorized_same)
    next
      case False
      with t(2) have "exec (RemoveWorkspaceMember ws tid) s2 = (r, s')" by simp
      then show ?thesis
      proof (cases rule: exec_runE)
        case same
        then show ?thesis using d by (auto intro: authorized_same)
      next
        case (ran time)
        obtain role where "role_of (db s) ws actor = Some role" "role = RoleOwner \<or> role = RoleAdmin"
          using \<open>can_result (db s) ws actor ActionRemoveMember no_options = Inr x\<close>
          by (auto simp: can_manage split: if_splits)
        then show ?thesis
          using authorized_remove [OF assms(1) d(2)] False ran(1) d(1) by simp
      qed
    qed
  qed
qed

lemma GetUserByID_leaves [read_only]: "leaves f (exec (GetUserByID i))"
  unfolding GetUserByID_def by (rule read_only)

lemma GetWorkspaceMember_leaves [read_only]: "leaves f (exec (GetWorkspaceMember ws i))"
  unfolding GetWorkspaceMember_def by (rule read_only)

lemma GetWorkspaceByID_leaves [read_only]: "leaves f (exec (GetWorkspaceByID i))"
  unfolding GetWorkspaceByID_def by (rule read_only)

text \<open>A statement on the members followed by steps that leave them alone.\<close>

lemma authorized_exec:
  assumes run: "andthen (exec q) k s = (r, s')"
    and step: "\<And>t. authorized_change (db s) (snd (q t (db s))) ws actor"
    and rest: "\<And>x. leaves workspace_members (k x)"
  shows "authorized_change (db s) (db s') ws actor"
proof -
  obtain v s1 where q: "exec q s = (v, s1)" by (cases "exec q s") auto
  have s1: "authorized_change (db s) (db s1) ws actor"
    using q by (cases rule: exec_runE) (auto intro: authorized_same step)
  have "workspace_members (db s') = workspace_members (db s1)"
    using run q leaves_run [OF rest] by (cases v) (auto simp: andthen_eq)
  then show ?thesis by (rule authorized_trans [OF s1])
qed

lemma UpdateMemberRole_authorized:
  assumes "members_unique (db s)" and "workspaces_UpdateMemberRole ws actor tid raw s = (r, s')"
  shows "authorized_change (db s) (db s') ws actor"
  using assms(2) reader_authorize_role [OF insertI2 [OF insertI2 [OF insertI1]]]
  unfolding workspaces_UpdateMemberRole_def
proof (cases rule: andthen_readerE)
  case (got new s1)
  note g = this
  from g(2) reader_GetWorkspaceMember show ?thesis
  proof (cases rule: attempt_readerE)
    case (error e s2)
    then show ?thesis using g by (auto intro: authorized_same)
  next
    case (got t s2)
    note t = this
    have d: "db s2 = db s" "member_of (db s) ws tid = Some t"
      using t g by (auto split: option.splits)
    obtain role where role: "role_of (db s) ws actor = Some role" "role = RoleOwner \<or> role = RoleAdmin"
      "canAssignRole role new"
      using g(1) by (auto split: if_splits option.splits)
    show ?thesis
    proof (cases "wm_role t = role_name RoleOwner")
      case True
      then show ?thesis using t(2) d by (auto intro: authorized_same)
    next
      case False
      with t(2) have run: "andthen (exec (UpdateWorkspaceMemberRole ws tid (role_name new))) (\<lambda>_.
          andthen (exec (GetUserByID tid)) (\<lambda>user.
          andthen (exec (GetWorkspaceMember ws tid)) (\<lambda>updated.
          ret (member_response_of user updated)))) s2 = (r, s')" by simp
      have "authorized_change (db s2) (db s') ws actor"
        by (rule authorized_exec [OF run])
           (use authorized_update [OF assms(1) d(2) _ role] False d(1) in
             \<open>auto intro: read_only\<close>)
      then show ?thesis using d by simp
    qed
  qed
qed (auto intro: authorized_same)

text \<open>The law of the \<open>InviteNotifier\<close> interface: it does not touch the members.\<close>

locale invite_notifier =
  fixes notify :: invite_notifier
  assumes notify_leaves: "leaves workspace_members (notify ws actor target wname aname)"
begin

lemma invite_step_leaves: "leaves workspace_members (workspaces_notify (Some notify) ws a t)"
  unfolding workspaces_notify_def by (simp, intro read_only notify_leaves)

lemma AddMember_authorized:
  assumes "members_unique (db s)"
    and "workspaces_AddMember (Some notify) ws actor email raw s = (r, s')"
  shows "authorized_change (db s) (db s') ws actor"
  using assms(2) reader_authorize_role [OF insertI1] unfolding workspaces_AddMember_def Let_def
proof (cases rule: andthen_readerE)
  case (got new s1)
  note g = this
  obtain role where role: "role_of (db s) ws actor = Some role" "role = RoleOwner \<or> role = RoleAdmin"
    "canAssignRole role new"
    using g(1) by (auto split: if_splits option.splits)
  show ?thesis
  proof (cases "TrimSpace (ToLower email) = []")
    case True
    then show ?thesis using g by (auto intro: authorized_same)
  next
    case False
    with g(2) have "attempt (exec (GetUserByEmail (TrimSpace (ToLower email))))
        (\<lambda>e. fail (no_rows_as (EWorkspaces Ws_UserNotFound) e)) (\<lambda>user.
        attempt (exec (GetWorkspaceMember ws (u_id user)))
            (\<lambda>e. if e \<noteq> ENoRows then fail e
                 else andthen (exec (AddWorkspaceMember ws (u_id user) (role_name new))) (\<lambda>_.
                      andthen (exec (GetWorkspaceMember ws (u_id user))) (\<lambda>member.
                      andthen (workspaces_notify (Some notify) ws actor (u_id user)) (\<lambda>_.
                      ret (member_response_of user member)))))
            (\<lambda>_. fail (EWorkspaces Ws_AlreadyMember))) s1 = (r, s')" by simp
    from this reader_select_one show ?thesis unfolding GetUserByEmail_def
    proof (cases rule: attempt_readerE)
      case (got user s2)
      note u = this
      from u(2) reader_GetWorkspaceMember show ?thesis
      proof (cases rule: attempt_readerE)
        case (error e s3)
        note e = this
        show ?thesis
        proof (cases "e = ENoRows")
          case True
          then have none: "member_of (db s) ws (u_id user) = None" and d: "db s3 = db s"
            using e u g by (auto split: option.splits)
          have run: "andthen (exec (AddWorkspaceMember ws (u_id user) (role_name new))) (\<lambda>_.
              andthen (exec (GetWorkspaceMember ws (u_id user))) (\<lambda>member.
              andthen (workspaces_notify (Some notify) ws actor (u_id user)) (\<lambda>_.
              ret (member_response_of user member)))) s3 = (r, s')" using e(2) True by simp
          have "authorized_change (db s3) (db s') ws actor"
            by (rule authorized_exec [OF run])
               (use authorized_add [OF assms(1) none role] d in
                 \<open>auto intro!: read_only invite_step_leaves\<close>)
          then show ?thesis using d by simp
        next
          case False
          then show ?thesis using e u g by (auto intro: authorized_same)
        qed
      next
        case (got m s3)
        then show ?thesis using u g by (auto intro: authorized_same)
      qed
    qed (use g in \<open>auto intro: authorized_same\<close>)
  qed
qed (auto intro: authorized_same)

end

interpretation wired_invites: invite_notifier "notifications_HandleWorkspaceInvite notifications_wired"
  by unfold_locales
     (rule leaves_fun [OF wired_senders.HandleWorkspaceInvite_leaves], erule sans_notifications_cong(3))

section \<open>Slugs\<close>

lemma slug_chars_remove: "list_all slug_char (remove_non_slug s)"
  by (simp add: remove_non_slug_def slug_char_def list_all_iff)

definition derived :: "string \<Rightarrow> string" where
  "derived name =
     trim_char CHR ''-'' (collapse_dashes (remove_non_slug (spaces_to_dashes (ToLower name))))"

lemma derived_empty_iff: "derived name = [] \<longleftrightarrow> \<not> (\<exists>c\<in>set (ToLower name). is_alnum_lower c)"
proof
  assume e: "derived name = []"
  show "\<not> (\<exists>c\<in>set (ToLower name). is_alnum_lower c)"
  proof
    assume "\<exists>c\<in>set (ToLower name). is_alnum_lower c"
    then obtain c where c: "c \<in> set (ToLower name)" "is_alnum_lower c" by blast
    then have "c \<noteq> CHR '' ''" "c \<noteq> CHR ''-''" by (auto simp: is_alnum_lower_def)
    then have "c \<in> set (collapse_dashes (remove_non_slug (spaces_to_dashes (ToLower name))))"
      using c by (auto simp: set_collapse_dashes remove_non_slug_def spaces_to_dashes_def image_iff)
    then show False using trim_char_keeps [of c _ "CHR ''-''"] \<open>c \<noteq> CHR ''-''\<close> e
      by (metis derived_def empty_iff empty_set)
  qed
next
  assume no: "\<not> (\<exists>c\<in>set (ToLower name). is_alnum_lower c)"
  have dash: "c = CHR ''-''" if "c \<in> set (remove_non_slug (spaces_to_dashes (ToLower name)))" for c
    using that no by (auto simp: remove_non_slug_def spaces_to_dashes_def split: if_splits)
  define t where "t = collapse_dashes (remove_non_slug (spaces_to_dashes (ToLower name)))"
  obtain a b where ab: "t = a @ derived name @ b"
    unfolding derived_def t_def using trim_char_infix by blast
  have "set (derived name) \<subseteq> set t" using ab by auto
  then have "\<forall>c\<in>set (derived name). c = CHR ''-''"
    using dash by (auto simp: t_def set_collapse_dashes)
  moreover have "hd (derived name) \<noteq> CHR ''-''" if "derived name \<noteq> []"
    using trim_char_ends that unfolding derived_def by blast
  ultimately show "derived name = []" using hd_in_set by blast
qed

section \<open>Properties\<close>

lemma sample_members_unique: "members_unique sample_db"
  by (simp add: members_unique_def sample_db_def sample_member_def)



text \<open>the slug of a workspace. The result always matches the pattern, a slug that matches it is
kept as it is, and a name without an explicit slug gets one exactly when it has an ASCII letter or
digit.\<close>
theorem normalizeSlug_spec:
  "(normalizeSlug raw name = Inr slug \<longrightarrow> slug_pattern slug) \<and>
   (slug_pattern raw \<longrightarrow> normalizeSlug raw name = Inr raw) \<and>
   (TrimSpace (ToLower raw) = [] \<longrightarrow>
      ((\<exists>slug. normalizeSlug raw name = Inr slug) \<longleftrightarrow> (\<exists>c\<in>set (ToLower name). is_alnum_lower c)))"
proof (intro conjI impI)
  show "slug_pattern slug" if "normalizeSlug raw name = Inr slug"
    using that by (auto simp: normalizeSlug_def Let_def split: if_splits)
  show "normalizeSlug raw name = Inr raw" if p: "slug_pattern raw"
  proof -
    have "list_all slug_char raw" using p by (simp add: slug_pattern_def slug_match_iff)
    then show ?thesis using p slug_pattern_nonempty [OF p]
      by (simp add: normalizeSlug_def ToLower_slug TrimSpace_slug)
  qed
  show "(\<exists>slug. normalizeSlug raw name = Inr slug) \<longleftrightarrow> (\<exists>c\<in>set (ToLower name). is_alnum_lower c)"
    if "TrimSpace (ToLower raw) = []"
    using that derived_slug [OF slug_chars_remove, of "spaces_to_dashes (ToLower name)"]
      derived_empty_iff [of name]
    by (auto simp: normalizeSlug_def Let_def derived_def)
qed

theorem normalizeSlug_spec_witness:
  "normalizeSlug [] ''Acme  Corp!'' = Inr ''acme-corp'' \<and> slug_pattern ''acme-corp''"
proof -
  have n: "normalizeSlug [] ''Acme  Corp!'' = Inr ''acme-corp''" by code_simp
  then show ?thesis using normalizeSlug_spec [of "[]" "''Acme  Corp!''" "''acme-corp''"] by blast
qed

text \<open>what a successful \<open>CreateWorkspace\<close> did, whatever its statements met: the workspace is
new, its slug matches the pattern and was free, its name is not empty, and its only member is the
caller, as owner.\<close>
theorem CreateWorkspace_success:
  assumes "workspaces_CreateWorkspace uid name slug s = (Inr w, s')"
  shows "workspaces (db s') = workspaces (db s) @ [w] \<and> slug_pattern (w_slug w) \<and>
    w_slug w \<notin> w_slug ` set (workspaces (db s)) \<and> w_name w = TrimSpace name \<and> w_name w \<noteq> [] \<and>
    w_owner_id w = uid \<and>
    (\<exists>m. workspace_members (db s') = workspace_members (db s) @ [m] \<and>
         wm_workspace_id m = w_id w \<and> wm_user_id m = uid \<and> wm_role m = ''owner'')"
proof -
  obtain sl where sl: "normalizeSlug slug (TrimSpace name) = Inr sl" and n: "TrimSpace name \<noteq> []"
    using assms by (auto simp: workspaces_CreateWorkspace_def Let_def split: if_splits sum.splits)
  have pat: "slug_pattern sl" using sl by (auto simp: normalizeSlug_def Let_def split: if_splits)
  have "attempt (exec (select_one (\<lambda>d. find (\<lambda>w. w_slug w = sl) (workspaces d))))
        (\<lambda>e. if e \<noteq> ENoRows then fail e
             else andthen (exec (CreateWorkspace (TrimSpace name) sl uid)) (\<lambda>w.
                  andthen (exec (AddWorkspaceMember (w_id w) uid ''owner'')) (\<lambda>_. ret w)))
        (\<lambda>_. fail (EWorkspaces Ws_SlugTaken)) s = (Inr w, s')"
    using assms sl n by (simp add: workspaces_CreateWorkspace_def Let_def GetWorkspaceBySlug_def)
  then obtain s1 s2 where free: "find (\<lambda>w. w_slug w = sl) (workspaces (db s)) = None"
    and d1: "db s1 = db s"
    and c: "exec (CreateWorkspace (TrimSpace name) sl uid) s1 = (Inr w, s2)"
    and a: "\<exists>m. exec (AddWorkspaceMember (w_id w) uid ''owner'') s2 = (Inr m, s')"
    using reader_select_one [of "\<lambda>d. find (\<lambda>w. w_slug w = sl) (workspaces d)"]
    by (cases rule: attempt_readerE) (auto simp: andthen_Inr split: option.splits if_splits)
  have "workspaces (db s2) = workspaces (db s) @ [w] \<and> workspace_members (db s2) = workspace_members (db s) \<and>
      w_slug w = sl \<and> w_name w = TrimSpace name \<and> w_owner_id w = uid"
    using exec_insert_Inr [OF c [unfolded CreateWorkspace_def]] d1 by simp
  moreover have "workspaces (db s') = workspaces (db s2) \<and> (\<exists>m. workspace_members (db s') =
      workspace_members (db s2) @ [m] \<and> wm_workspace_id m = w_id w \<and> wm_user_id m = uid \<and>
      wm_role m = ''owner'')"
  proof -
    obtain m where "exec (AddWorkspaceMember (w_id w) uid ''owner'') s2 = (Inr m, s')" using a by blast
    from exec_insert_Inr [OF this [unfolded AddWorkspaceMember_def]] show ?thesis by simp
  qed
  ultimately show ?thesis using pat n free by (auto simp: find_None_iff)
qed

theorem CreateWorkspace_success_witness:
  "\<exists>w s'. workspaces_CreateWorkspace 4 ''Dave Inc'' [] sample = (Inr w, s') \<and> w_slug w = ''dave-inc'' \<and>
    workspaces (db s') = workspaces sample_db @ [w]"
proof -
  have "case workspaces_CreateWorkspace 4 ''Dave Inc'' [] sample of
      (Inr w, s') \<Rightarrow> w_slug w = ''dave-inc'' | _ \<Rightarrow> False" by code_simp
  then obtain w s' where "workspaces_CreateWorkspace 4 ''Dave Inc'' [] sample = (Inr w, s')"
      "w_slug w = ''dave-inc''"
    by (auto split: prod.splits sum.splits)
  then show ?thesis using CreateWorkspace_success [of 4 "''Dave Inc''" "[]" sample w s'] by auto
qed

text \<open>creation is not atomic. When the second insert is refused the caller gets an error, but
the workspace stays, with its slug taken and without any member.\<close>
theorem CreateWorkspace_orphan:
  "let (r, s') = workspaces_CreateWorkspace 4 ''Dave Inc'' []
         (sample\<lparr>tape := [(Done, 0), (Done, 0), (Refused, 0)]\<rparr>)
   in r = Inl EConn \<and> exists_row (\<lambda>w. w_slug w = ''dave-inc'' \<and>
        \<not> exists_row (\<lambda>m. wm_workspace_id m = w_id w) (workspace_members (db s'))) (workspaces (db s'))"
  by code_simp

end
