(* ===== verification/Http.thy ===== *)
theory Http
  imports Middleware Realtime_Client Workspaces Attachments
begin

text \<open>
  What the HTTP handlers of \<open>internal/*/handler.go\<close> share: the decoding of parameters and JSON bodies, the JSON of the
  responses, and the functions that turn the error of a service into a status and a message. The bytes that
  \<open>encoding/json\<close> makes of a value are a parameter. A body is \<open>None\<close> when it is not JSON; the keys of an object are
  distinct and matched exactly; a nil slice is the empty one. The text of a time does not show its format.
\<close>

section \<open>Decoding\<close>

text \<open>A missing field has the zero value, and so has \<^verbatim>\<open>null\<close>.\<close>

definition json_field :: "gomap \<Rightarrow> string \<Rightarrow> gov" where
  "json_field obj k = (case map_of obj k of None \<Rightarrow> VNull | Some v \<Rightarrow> v)"

definition dec_str :: "gov \<Rightarrow> string option" where
  "dec_str v = (case v of VNull \<Rightarrow> Some [] | VStr s \<Rightarrow> Some s | _ \<Rightarrow> None)"

definition dec_bool :: "gov \<Rightarrow> bool option" where
  "dec_bool v = (case v of VNull \<Rightarrow> Some False | VBool b \<Rightarrow> Some b | _ \<Rightarrow> None)"

definition dec_int :: "nat \<Rightarrow> gov \<Rightarrow> int option" where
  "dec_int w v =
     (case v of
        VNull \<Rightarrow> Some 0
      | VInt n \<Rightarrow> if - (2 ^ (w - 1)) \<le> n \<and> n < 2 ^ (w - 1) then Some n else None
      | _ \<Rightarrow> None)"

definition dec_pointer :: "(gov \<Rightarrow> 'a option) \<Rightarrow> gov \<Rightarrow> 'a option option" where
  "dec_pointer d v = (case v of VNull \<Rightarrow> Some None | _ \<Rightarrow> map_option Some (d v))"

definition dec_slice :: "(gov \<Rightarrow> 'a option) \<Rightarrow> gov \<Rightarrow> 'a list option" where
  "dec_slice d v = (case v of VNull \<Rightarrow> Some [] | VList vs \<Rightarrow> those (map d vs) | _ \<Rightarrow> None)"

definition dec_struct :: "(gomap \<Rightarrow> 'a option) \<Rightarrow> gov \<Rightarrow> 'a option" where
  "dec_struct d v = (case v of VNull \<Rightarrow> d [] | VObj obj \<Rightarrow> d obj | _ \<Rightarrow> None)"

definition with_field :: "gomap \<Rightarrow> string \<Rightarrow> (gov \<Rightarrow> 'a option) \<Rightarrow> ('a \<Rightarrow> 'b option) \<Rightarrow> 'b option" where
  "with_field obj k d f = Option.bind (d (json_field obj k)) f"

section \<open>Replies\<close>

definition json_reply :: "(gov \<Rightarrow> string) \<Rightarrow> int \<Rightarrow> gov \<Rightarrow> ctx \<Rightarrow> (response \<times> ctx) prog" where
  "json_reply marshal status v c = ret (\<lparr>rs_status = status, rs_body = Bytes (marshal v)\<rparr>, c)"

definition status_reply :: "int \<Rightarrow> ctx \<Rightarrow> (response \<times> ctx) prog" where
  "status_reply status c = ret (\<lparr>rs_status = status, rs_body = NoBody\<rparr>, c)"

definition error_reply :: "int \<times> string \<Rightarrow> ctx \<Rightarrow> (response \<times> ctx) prog" where
  "error_reply e c = ret (\<lparr>rs_status = fst e, rs_body = ErrorBody (snd e)\<rparr>, c)"

text \<open>\<open>c.MustGet("user_id")\<close>.\<close>

definition must_user :: "ctx \<Rightarrow> (int \<Rightarrow> (response \<times> ctx) prog) \<Rightarrow> (response \<times> ctx) prog" where
  "must_user c k = (case cx_user_id c of None \<Rightarrow> go_panic | Some uid \<Rightarrow> k uid)"

definition int_param ::
  "string \<Rightarrow> string \<Rightarrow> request \<Rightarrow> ctx \<Rightarrow> (int \<Rightarrow> (response \<times> ctx) prog) \<Rightarrow> (response \<times> ctx) prog" where
  "int_param name message r c k =
     (case ParseInt (rq_param r name) of None \<Rightarrow> error_reply (400, message) c | Some n \<Rightarrow> k n)"

definition bind_json ::
  "(gov \<Rightarrow> 'a option) \<Rightarrow> string \<Rightarrow> gov option \<Rightarrow> ctx \<Rightarrow> ('a \<Rightarrow> (response \<times> ctx) prog) \<Rightarrow> (response \<times> ctx) prog" where
  "bind_json d message body c k =
     (case Option.bind body d of None \<Rightarrow> error_reply (400, message) c | Some x \<Rightarrow> k x)"

text \<open>The call of a service: its error goes through the function of the package.\<close>

definition serve :: "'a prog \<Rightarrow> (goerr \<Rightarrow> int \<times> string) \<Rightarrow> ctx \<Rightarrow> ('a \<Rightarrow> (response \<times> ctx) prog) \<Rightarrow> (response \<times> ctx) prog" where
  "serve m write c k = attempt m (\<lambda>e. error_reply (write e) c) k"

text \<open>\<open>strconv.ParseInt(s, 10, 32)\<close> with the error dropped: a number out of range gives the bound, other text 0.\<close>

definition ParseInt32_value :: "string \<Rightarrow> int" where
  "ParseInt32_value s =
     (case s of
        [] \<Rightarrow> 0
      | c # cs \<Rightarrow>
          (case (if c = CHR ''-'' then map_option (\<lambda>n. - int n) (parse_nat cs)
                 else if c = CHR ''+'' then map_option int (parse_nat cs)
                 else map_option int (parse_nat s)) of
             None \<Rightarrow> 0
           | Some v \<Rightarrow> max (- (2 ^ 31)) (min (2 ^ 31 - 1) v)))"

definition DefaultQuery :: "request \<Rightarrow> string \<Rightarrow> string \<Rightarrow> string" where
  "DefaultQuery r name fallback = (if rq_query r name = [] then fallback else rq_query r name)"

section \<open>Messages of errors\<close>

fun workspaces_error_text :: "workspaces_err \<Rightarrow> string" where
  "workspaces_error_text Ws_NotFound = ''workspace not found''"
| "workspaces_error_text Ws_NotMember = ''not a workspace member''"
| "workspaces_error_text Ws_SlugTaken = ''workspace slug already exists''"
| "workspaces_error_text Ws_InvalidSlug = ''invalid workspace slug''"
| "workspaces_error_text Ws_Forbidden = ''permission denied''"
| "workspaces_error_text Ws_InvalidRole = ''invalid role''"
| "workspaces_error_text Ws_CannotModifyOwner = ''cannot modify workspace owner''"
| "workspaces_error_text Ws_UserNotFound = ''user not found''"
| "workspaces_error_text Ws_AlreadyMember = ''user is already a workspace member''"
| "workspaces_error_text Ws_NameRequired = ''workspace name is required''"
| "workspaces_error_text Ws_EmailRequired = ''email is required''"

fun channels_error_text :: "channels_err \<Rightarrow> string" where
  "channels_error_text Ch_ChannelNotFound = ''channel not found''"
| "channels_error_text Ch_AlreadyMember = ''already a channel member''"
| "channels_error_text Ch_NotMember = ''not a channel member''"
| "channels_error_text Ch_OwnerCannotLeave = ''channel owner cannot leave; transfer ownership first''"
| "channels_error_text Ch_NotWorkspaceMember = ''not a workspace member''"
| "channels_error_text Ch_DuplicateChannelName = ''channel name already exists in workspace''"
| "channels_error_text Ch_Forbidden = ''permission denied''"

fun chat_error_text :: "chat_err \<Rightarrow> string" where
  "chat_error_text Chat_NotMember = ''not a channel member''"
| "chat_error_text Chat_NotWorkspaceMember = ''not a workspace member''"
| "chat_error_text Chat_ChannelNotFound = ''channel not found''"
| "chat_error_text Chat_Forbidden = ''permission denied''"
| "chat_error_text Chat_EmptyContent = ''message content is required''"
| "chat_error_text Chat_MessageTooLong = ''message exceeds maximum length''"

fun attachments_error_text :: "attachments_err \<Rightarrow> string" where
  "attachments_error_text Att_NotFound = ''message not found''"
| "attachments_error_text Att_Forbidden = ''permission denied''"
| "attachments_error_text Att_StorageUnavailable = ''file storage unavailable''"
| "attachments_error_text Att_InvalidFile = ''invalid file''"
| "attachments_error_text Att_FileTooLarge = ''file exceeds maximum size''"
| "attachments_error_text Att_MimeNotAllowed = ''mime type not allowed''"
| "attachments_error_text Att_ObjectNotFound = ''uploaded object not found''"
| "attachments_error_text Att_ObjectKeyMismatch = ''object key does not belong to user''"

fun billing_error_text :: "billing_err \<Rightarrow> string" where
  "billing_error_text Bil_NotFound = ''billing record not found''"
| "billing_error_text Bil_Forbidden = ''forbidden''"
| "billing_error_text Bil_InvalidPlan = ''invalid plan''"
| "billing_error_text Bil_StripeNotConfigured = ''stripe billing is not configured''"
| "billing_error_text Bil_PlanStripePriceMissing = ''plan is missing stripe_price_id''"
| "billing_error_text Bil_MessageLimit = ''monthly message limit reached''"
| "billing_error_text Bil_SubscriptionInactive = ''subscription inactive''"
| "billing_error_text Bil_WebhooksNotAllowed = ''webhooks not included in current plan''"
| "billing_error_text Bil_VideoNotAllowed = ''video calls not included in current plan''"
| "billing_error_text Bil_VideoMinutesLimit = ''monthly video minutes limit reached''"
| "billing_error_text Bil_AppLimit = ''app limit reached for current plan''"
| "billing_error_text Bil_InvalidRequest = ''invalid request''"
| "billing_error_text Bil_PlanInUse = ''plan has active subscriptions''"
| "billing_error_text Bil_SlugTaken = ''plan slug already taken''"
| "billing_error_text Bil_InvalidSlug = ''invalid plan slug''"
| "billing_error_text Bil_MissingMetadata = []"
| "billing_error_text Bil_BadMetadata = []"

fun notifications_error_text :: "notifications_err \<Rightarrow> string" where
  "notifications_error_text Not_NotFound = ''notification not found''"
| "notifications_error_text Not_InvalidType = ''invalid notification type''"

fun apps_error_text :: "apps_err \<Rightarrow> string" where
  "apps_error_text Apps_NotFound = ''app not found''"
| "apps_error_text Apps_Forbidden = ''forbidden''"
| "apps_error_text Apps_SlugTaken = ''app slug already taken''"
| "apps_error_text Apps_InvalidSlug = ''invalid app slug''"
| "apps_error_text Apps_NameRequired = ''app name is required''"
| "apps_error_text Apps_InvalidKey = ''invalid api key''"
| "apps_error_text Apps_KeyNotFound = ''api key not found''"
| "apps_error_text Apps_WebhookNotFound = ''webhook not found''"
| "apps_error_text Apps_WebhookURLRequired = ''webhook url is required''"
| "apps_error_text Apps_InvalidOrigin = ''invalid allowed origin''"
| "apps_error_text Apps_TooManyOrigins = ''too many allowed origins''"

fun users_error_text :: "users_err \<Rightarrow> string" where
  "users_error_text Usr_NotFound = ''user not found''"
| "users_error_text Usr_UsernameRequired = ''username is required''"
| "users_error_text Usr_UsernameTaken = ''username already taken''"
| "users_error_text Usr_InvalidPassword = ''current password is incorrect''"
| "users_error_text Usr_PasswordRequired = ''password is required''"
| "users_error_text Usr_PasswordTooShort = ''password must be at least 8 characters''"

fun presence_error_text :: "presence_err \<Rightarrow> string" where
  "presence_error_text Pres_InvalidStatus = ''invalid status''"
| "presence_error_text Pres_NotWorkspaceMember = ''not a workspace member''"

fun auth_error_text :: "auth_err \<Rightarrow> string" where
  "auth_error_text Auth_EmailExists = ''email already exists''"
| "auth_error_text Auth_InvalidCredentials = ''invalid credentials''"
| "auth_error_text Auth_InvalidToken = ''invalid or expired token''"
| "auth_error_text Auth_RegistrationFailed = ''registration failed''"
| "auth_error_text Auth_AccountSuspended = ''account suspended''"
| "auth_error_text Auth_TokenInvalid = ''invalid token''"
| "auth_error_text Auth_TokenRevoked = ''token revoked''"
| "auth_error_text Auth_TokenExpired = []"

fun devapi_error_text :: "devapi_err \<Rightarrow> string" where
  "devapi_error_text Dev_NotFound = ''resource not found''"
| "devapi_error_text Dev_InvalidRequest = ''invalid request''"
| "devapi_error_text Dev_ExternalIDTaken = ''external_id already exists''"
| "devapi_error_text Dev_UserNotFound = ''user not found''"
| "devapi_error_text Dev_ChannelNotFound = ''channel not found''"
| "devapi_error_text Dev_EmptyContent = ''message content is required''"
| "devapi_error_text Dev_SandboxLimit = ''sandbox limit exceeded''"
| "devapi_error_text Dev_ChannelNameExists = ''channel name already exists''"

text \<open>The errors of the driver, of the libraries and of tokens that expired are never shown; their text is left out.\<close>

fun http_error_text :: "goerr \<Rightarrow> string" where
  "http_error_text ENoRows = []"
| "http_error_text EConn = []"
| "http_error_text (EPg code constraint) = []"
| "http_error_text (EExternal message) = message"
| "http_error_text (EAuthz e) = []"
| "http_error_text (ECalls e) = calls_error_text e"
| "http_error_text (EAdmin e) = admin_error_text (EAdmin e)"
| "http_error_text (EOrigins e) = []"
| "http_error_text (EWorkspaces e) = workspaces_error_text e"
| "http_error_text (EChannels e) = channels_error_text e"
| "http_error_text (EChat e) = chat_error_text e"
| "http_error_text (EAttachments e) = attachments_error_text e"
| "http_error_text (EBilling e) = billing_error_text e"
| "http_error_text (ENotifications e) = notifications_error_text e"
| "http_error_text (EApps e) = apps_error_text e"
| "http_error_text (EUsers e) = users_error_text e"
| "http_error_text (EPresence e) = presence_error_text e"
| "http_error_text (EAuth e) = auth_error_text e"
| "http_error_text (EDev e) = devapi_error_text e"

text \<open>\<open>httperr.WriteInternal\<close>, and the reply for an error whose text may be shown.\<close>

definition WriteInternal :: "int \<times> string" where
  "WriteInternal = (500, Sanitize InternalMessage)"

definition shown :: "int \<Rightarrow> goerr \<Rightarrow> int \<times> string" where
  "shown status e = (status, Sanitize (http_error_text e))"

text \<open>\<open>httperr.WriteJSON\<close> with the \<open>ClientMessage\<close> of the error among those listed.\<close>

definition shown_known :: "int \<Rightarrow> goerr \<Rightarrow> goerr list \<Rightarrow> int \<times> string" where
  "shown_known status e known = (status, Sanitize (ClientMessage http_error_text (Some e) known))"

definition billing_WriteHTTPError :: "goerr \<Rightarrow> (int \<times> string) option" where
  "billing_WriteHTTPError e =
     (let known = map EBilling [Bil_MessageLimit, Bil_VideoMinutesLimit, Bil_AppLimit, Bil_SubscriptionInactive,
                    Bil_WebhooksNotAllowed, Bil_VideoNotAllowed]
      in if e \<in> set known then Some (shown_known 402 e known) else None)"

definition or_internal :: "(int \<times> string) option \<Rightarrow> int \<times> string" where
  "or_internal r = (case r of Some reply \<Rightarrow> reply | None \<Rightarrow> WriteInternal)"

definition chat_writeServiceError :: "goerr \<Rightarrow> int \<times> string" where
  "chat_writeServiceError e =
     (if e = EChat Chat_ChannelNotFound then shown 404 e
      else if e \<in> {EChat Chat_NotMember, EChat Chat_NotWorkspaceMember, EChat Chat_Forbidden} then shown 403 e
      else if e \<in> {EChat Chat_EmptyContent, EChat Chat_MessageTooLong} then shown 400 e
      else or_internal (billing_WriteHTTPError e))"

definition channels_writeChannelError :: "goerr \<Rightarrow> int \<times> string" where
  "channels_writeChannelError e =
     (if e = EChannels Ch_ChannelNotFound then shown 404 e
      else if e = EChannels Ch_AlreadyMember then shown 409 e
      else if e \<in> {EChannels Ch_NotMember, EChannels Ch_NotWorkspaceMember} then shown 403 e
      else if e \<in> {EChannels Ch_OwnerCannotLeave, EChannels Ch_DuplicateChannelName} then shown 409 e
      else if e = EChannels Ch_Forbidden then shown 403 e
      else WriteInternal)"

definition workspaces_writeWorkspaceError :: "goerr \<Rightarrow> int \<times> string" where
  "workspaces_writeWorkspaceError e =
     (if e = EWorkspaces Ws_NotFound then shown 404 e
      else if e = EWorkspaces Ws_NotMember then shown 403 e
      else if e = EWorkspaces Ws_Forbidden then shown 403 e
      else if e \<in> {EWorkspaces Ws_InvalidRole, EWorkspaces Ws_CannotModifyOwner} then shown 409 e
      else if e = EWorkspaces Ws_UserNotFound then shown 404 e
      else if e = EWorkspaces Ws_AlreadyMember then shown 409 e
      else if e \<in> {EWorkspaces Ws_SlugTaken, EWorkspaces Ws_InvalidSlug} then shown 409 e
      else if e = EWorkspaces Ws_NameRequired then shown 400 e
      else if e = EWorkspaces Ws_EmailRequired then shown 400 e
      else WriteInternal)"

definition attachments_writeError :: "goerr \<Rightarrow> int \<times> string" where
  "attachments_writeError e =
     (if e = EAttachments Att_NotFound then shown 404 e
      else if e = EAttachments Att_Forbidden then shown 403 e
      else if e = EAttachments Att_StorageUnavailable then shown 503 e
      else if e \<in> EAttachments ` {Att_InvalidFile, Att_FileTooLarge, Att_MimeNotAllowed, Att_ObjectNotFound,
                   Att_ObjectKeyMismatch} then shown 400 e
      else WriteInternal)"

definition calls_writeError :: "goerr \<Rightarrow> int \<times> string" where
  "calls_writeError e =
     (if e \<in> {ECalls Calls_NotFound, ECalls Calls_ChannelNotFound} then shown 404 e
      else if e \<in> {ECalls Calls_NotMember, ECalls Calls_NotParticipant, ECalls Calls_CallEnded} then shown 403 e
      else if e = ECalls Calls_CallAlreadyActive then shown 409 e
      else if e \<in> {ECalls Calls_CallFull, ECalls Calls_RecordingActive} then shown 409 e
      else if e = ECalls Calls_InvalidMode then shown 400 e
      else or_internal (billing_WriteHTTPError e))"

definition notifications_writeError :: "goerr \<Rightarrow> int \<times> string" where
  "notifications_writeError e =
     (if e = ENotifications Not_NotFound then shown 404 e
      else if e = ENotifications Not_InvalidType then shown 400 e
      else WriteInternal)"

definition presence_writePresenceError :: "goerr \<Rightarrow> int \<times> string" where
  "presence_writePresenceError e =
     (if e = EPresence Pres_InvalidStatus then shown 400 e
      else if e = EPresence Pres_NotWorkspaceMember then shown 403 e
      else WriteInternal)"

definition users_writeError :: "goerr \<Rightarrow> int \<times> string" where
  "users_writeError e =
     (if e = EUsers Usr_NotFound then shown 404 e
      else if e = EUsers Usr_UsernameRequired then shown 400 e
      else if e = EUsers Usr_UsernameTaken then shown 409 e
      else if e = EUsers Usr_InvalidPassword then shown 401 e
      else if e \<in> {EUsers Usr_PasswordRequired, EUsers Usr_PasswordTooShort} then shown 400 e
      else WriteInternal)"

definition auth_writeAuthError :: "goerr \<Rightarrow> int \<times> string" where
  "auth_writeAuthError e =
     (let token = map EAuth [Auth_InvalidToken, Auth_TokenInvalid, Auth_TokenRevoked] in
      if e = EAuth Auth_EmailExists then shown_known 400 e [EAuth Auth_EmailExists]
      else if e = EAuth Auth_RegistrationFailed then shown_known 400 e [EAuth Auth_RegistrationFailed]
      else if e = EAuth Auth_InvalidCredentials then shown_known 401 e [EAuth Auth_InvalidCredentials]
      else if e = EAuth Auth_AccountSuspended then shown_known 403 e [EAuth Auth_AccountSuspended]
      else if e \<in> set token then shown_known 401 e token
      else WriteInternal)"

definition apps_writeError :: "goerr \<Rightarrow> int \<times> string" where
  "apps_writeError e =
     (if e \<in> EApps ` {Apps_NotFound, Apps_KeyNotFound, Apps_WebhookNotFound} then shown 404 e
      else if e = EApps Apps_Forbidden then shown 403 e
      else if e = EApps Apps_SlugTaken then shown 409 e
      else if e \<in> EApps ` {Apps_NameRequired, Apps_InvalidSlug, Apps_WebhookURLRequired, Apps_InvalidOrigin,
                   Apps_TooManyOrigins} then shown 400 e
      else or_internal (billing_WriteHTTPError e))"

definition billing_writeError :: "goerr \<Rightarrow> int \<times> string" where
  "billing_writeError e =
     (let reply = (\<lambda>status known. shown_known status e (map EBilling known)) in
      if e = EBilling Bil_NotFound then reply 404 [Bil_NotFound]
      else if e = EBilling Bil_Forbidden then reply 403 [Bil_Forbidden]
      else if e \<in> EBilling ` {Bil_InvalidPlan, Bil_InvalidRequest, Bil_InvalidSlug}
      then reply 400 [Bil_InvalidPlan, Bil_InvalidRequest, Bil_InvalidSlug]
      else if e = EBilling Bil_SlugTaken then reply 409 [Bil_SlugTaken]
      else if e = EBilling Bil_PlanInUse then reply 409 [Bil_PlanInUse]
      else if e = EBilling Bil_StripeNotConfigured then reply 503 [Bil_StripeNotConfigured]
      else if e = EBilling Bil_PlanStripePriceMissing then reply 503 [Bil_PlanStripePriceMissing]
      else if e \<in> EBilling ` {Bil_MessageLimit, Bil_VideoMinutesLimit, Bil_AppLimit}
      then reply 402 [Bil_MessageLimit, Bil_VideoMinutesLimit, Bil_AppLimit]
      else if e = EBilling Bil_SubscriptionInactive then reply 402 [Bil_SubscriptionInactive]
      else if e \<in> EBilling ` {Bil_WebhooksNotAllowed, Bil_VideoNotAllowed}
      then reply 402 [Bil_WebhooksNotAllowed, Bil_VideoNotAllowed]
      else WriteInternal)"

definition devapi_writeError :: "goerr \<Rightarrow> int \<times> string" where
  "devapi_writeError e =
     (if e \<in> EDev ` {Dev_ChannelNotFound, Dev_UserNotFound, Dev_NotFound} then shown 404 e
      else if e \<in> EDev ` {Dev_InvalidRequest, Dev_EmptyContent} then shown 400 e
      else if e = EDev Dev_ExternalIDTaken then shown 409 e
      else if e = EDev Dev_SandboxLimit then shown 403 e
      else if e = EDev Dev_ChannelNameExists then shown 409 e
      else or_internal (billing_WriteHTTPError e))"

section \<open>Every reply to an error is safe to show\<close>

lemma shown_safe [simp]: "\<not> IsSensitive (snd (shown status e))" "\<not> IsSensitive (snd (shown_known status e known))"
  "\<not> IsSensitive (snd WriteInternal)"
  by (simp_all add: shown_def shown_known_def WriteInternal_def Sanitize_safe)

lemma or_internal_safe [simp]: "(\<And>x. r = Some x \<Longrightarrow> \<not> IsSensitive (snd x)) \<Longrightarrow> \<not> IsSensitive (snd (or_internal r))"
  by (cases r) (simp_all add: or_internal_def)

lemma WriteHTTPError_safe: "billing_WriteHTTPError e = Some x \<Longrightarrow> \<not> IsSensitive (snd x)"
  by (auto simp: billing_WriteHTTPError_def Let_def split: if_splits)

lemma writers_safe:
  "\<not> IsSensitive (snd (chat_writeServiceError e))" "\<not> IsSensitive (snd (channels_writeChannelError e))"
  "\<not> IsSensitive (snd (workspaces_writeWorkspaceError e))" "\<not> IsSensitive (snd (attachments_writeError e))"
  "\<not> IsSensitive (snd (calls_writeError e))" "\<not> IsSensitive (snd (notifications_writeError e))"
  "\<not> IsSensitive (snd (presence_writePresenceError e))" "\<not> IsSensitive (snd (users_writeError e))"
  "\<not> IsSensitive (snd (auth_writeAuthError e))" "\<not> IsSensitive (snd (apps_writeError e))"
  "\<not> IsSensitive (snd (billing_writeError e))" "\<not> IsSensitive (snd (devapi_writeError e))"
  by (simp_all add: chat_writeServiceError_def channels_writeChannelError_def workspaces_writeWorkspaceError_def
      attachments_writeError_def calls_writeError_def notifications_writeError_def presence_writePresenceError_def
      users_writeError_def auth_writeAuthError_def apps_writeError_def billing_writeError_def devapi_writeError_def
      WriteHTTPError_safe Let_def)

end
