(* ===== verification/Handlers.thy ===== *)
theory Handlers
  imports Http Presence_Memory
begin

text \<open>
  The handlers of \<open>workspaces\<close>, \<open>channels\<close>, \<open>chat\<close>, \<open>attachments\<close>, \<open>calls\<close>, \<open>notifications\<close>, \<open>users\<close>, \<open>auth\<close> and
  \<open>presence\<close> (\<open>internal/*/handler.go\<close>), with the JSON of their responses. What \<open>main.go\<close> wires is in \<open>server\<close>, with
  the parameters that a request draws: random bytes and the next identifier of \<open>uuid\<close>.
\<close>

record server =
  sv_marshal :: "gov \<Rightarrow> string"
  sv_getenv :: "string \<Rightarrow> string"
  sv_jwt :: jwt_lib
  sv_crypto :: crypto
  sv_sha256 :: "string \<Rightarrow> 8 word list"
  sv_stripe :: stripe_api
  sv_billing :: billing_config
  sv_sandbox :: sandbox_config
  sv_store :: "object_store option"
  sv_maxUpload :: int
  sv_callLimit :: int
  sv_uuid :: string
  sv_random :: "goerr + 8 word list"

text \<open>A handler gets the body of the request as JSON.\<close>

type_synonym json_handler = "server \<Rightarrow> gov option \<Rightarrow> handler"

definition opt_time :: "string \<Rightarrow> int option \<Rightarrow> gomap" where
  "opt_time k t = (case t of None \<Rightarrow> [] | Some t \<Rightarrow> [(k, VTime t)])"

definition omit_empty :: "string \<Rightarrow> string \<Rightarrow> gomap" where
  "omit_empty k s = (if s = [] then [] else [(k, VStr s)])"

definition reply_with :: "server \<Rightarrow> int \<Rightarrow> gov \<Rightarrow> ctx \<Rightarrow> (response \<times> ctx) prog" where
  "reply_with sv status v c = json_reply (sv_marshal sv) status v c"

section \<open>workspaces\<close>

definition workspace_json :: "workspace_row \<Rightarrow> string \<Rightarrow> gov" where
  "workspace_json w role =
     VObj ([(''id'', VInt (w_id w)), (''name'', VStr (w_name w)), (''slug'', VStr (w_slug w)),
            (''owner_id'', VInt (w_owner_id w))] @ omit_empty ''role'' role @ [(''created_at'', VTime (w_created_at w))])"

definition member_json :: "member_response \<Rightarrow> gov" where
  "member_json m =
     VObj [(''user_id'', VInt (mr_user_id m)), (''username'', VStr (mr_username m)), (''email'', VStr (mr_email m)),
           (''role'', VStr (mr_role m)), (''created_at'', VTime (mr_created_at m))]"

definition dec_create_workspace :: "gov \<Rightarrow> (string \<times> string) option" where
  "dec_create_workspace = dec_struct (\<lambda>obj.
     with_field obj ''name'' dec_str (\<lambda>name. with_field obj ''slug'' dec_str (\<lambda>slug. Some (name, slug))))"

definition dec_add_member :: "gov \<Rightarrow> (string \<times> string) option" where
  "dec_add_member = dec_struct (\<lambda>obj.
     with_field obj ''email'' dec_str (\<lambda>email. with_field obj ''role'' dec_str (\<lambda>role. Some (email, role))))"

definition dec_role :: "gov \<Rightarrow> string option" where
  "dec_role = dec_struct (\<lambda>obj. with_field obj ''role'' dec_str Some)"

definition parseWorkspaceID :: "request \<Rightarrow> ctx \<Rightarrow> (int \<Rightarrow> (response \<times> ctx) prog) \<Rightarrow> (response \<times> ctx) prog" where
  "parseWorkspaceID = int_param ''workspace_id'' ''invalid workspace id''"

definition workspaces_handle_Create :: json_handler where
  "workspaces_handle_Create sv body r c =
     bind_json dec_create_workspace ''invalid request body'' body c (\<lambda>(name, slug).
     must_user c (\<lambda>uid.
     serve (workspaces_CreateWorkspace uid name slug) workspaces_writeWorkspaceError c (\<lambda>w.
     reply_with sv 201 (workspace_json w []) c)))"

definition workspaces_handle_List :: json_handler where
  "workspaces_handle_List sv body r c =
     must_user c (\<lambda>uid.
     serve (workspaces_ListWorkspaces uid) (\<lambda>_. WriteInternal) c (\<lambda>rows.
     reply_with sv 200 (VObj [(''workspaces'', VList (map (\<lambda>(w, role). workspace_json w role) rows))]) c))"

definition workspaces_handle_Get :: json_handler where
  "workspaces_handle_Get sv body r c =
     parseWorkspaceID r c (\<lambda>ws.
     must_user c (\<lambda>uid.
     serve (workspaces_GetWorkspace ws uid) workspaces_writeWorkspaceError c (\<lambda>w.
     attempt (workspaces_MemberRole ws uid)
       (\<lambda>_. reply_with sv 200 (workspace_json w []) c)
       (\<lambda>role. reply_with sv 200 (workspace_json w role) c))))"

definition workspaces_handle_ListMembers :: json_handler where
  "workspaces_handle_ListMembers sv body r c =
     parseWorkspaceID r c (\<lambda>ws.
     must_user c (\<lambda>uid.
     serve (workspaces_ListMembers ws uid) workspaces_writeWorkspaceError c (\<lambda>members.
     reply_with sv 200 (VObj [(''members'', VList (map member_json members))]) c)))"

definition wired_invite :: invite_notifier where
  "wired_invite = notifications_HandleWorkspaceInvite notifications_wired"

definition workspaces_handle_AddMember :: json_handler where
  "workspaces_handle_AddMember sv body r c =
     parseWorkspaceID r c (\<lambda>ws.
     bind_json dec_add_member ''invalid request body'' body c (\<lambda>(email, role).
     must_user c (\<lambda>actor.
     serve (workspaces_AddMember (Some wired_invite) ws actor email role) workspaces_writeWorkspaceError c (\<lambda>m.
     reply_with sv 201 (member_json m) c))))"

definition workspaces_handle_RemoveMember :: json_handler where
  "workspaces_handle_RemoveMember sv body r c =
     parseWorkspaceID r c (\<lambda>ws.
     int_param ''user_id'' ''invalid user id'' r c (\<lambda>target.
     must_user c (\<lambda>actor.
     serve (workspaces_RemoveMember ws actor target) workspaces_writeWorkspaceError c (\<lambda>_.
     status_reply 204 c))))"

definition workspaces_handle_UpdateMemberRole :: json_handler where
  "workspaces_handle_UpdateMemberRole sv body r c =
     parseWorkspaceID r c (\<lambda>ws.
     int_param ''user_id'' ''invalid user id'' r c (\<lambda>target.
     bind_json dec_role ''invalid request body'' body c (\<lambda>role.
     must_user c (\<lambda>actor.
     serve (workspaces_UpdateMemberRole ws actor target role) workspaces_writeWorkspaceError c (\<lambda>m.
     reply_with sv 200 (member_json m) c)))))"

section \<open>channels\<close>

text \<open>The rows of the table are marshalled as they are, a null time as \<^verbatim>\<open>null\<close>.\<close>

definition channel_json :: "channel_row \<Rightarrow> gov" where
  "channel_json ch =
     VObj [(''ID'', VInt (ch_id ch)), (''Name'', VStr (ch_name ch)), (''OwnerID'', VInt (ch_owner_id ch)),
           (''CreatedAt'', VTime (ch_created_at ch)),
           (''UpdatedAt'', case ch_updated_at ch of None \<Rightarrow> VNull | Some t \<Rightarrow> VTime t),
           (''WorkspaceID'', VInt (ch_workspace_id ch)), (''IsReadOnly'', VBool (ch_is_read_only ch))]"

definition dec_create_channel :: "gov \<Rightarrow> (string \<times> bool) option" where
  "dec_create_channel = dec_struct (\<lambda>obj.
     with_field obj ''name'' dec_str (\<lambda>name. with_field obj ''is_read_only'' dec_bool (\<lambda>ro. Some (name, ro))))"

definition parseChannelID :: "request \<Rightarrow> ctx \<Rightarrow> (int \<Rightarrow> (response \<times> ctx) prog) \<Rightarrow> (response \<times> ctx) prog" where
  "parseChannelID = int_param ''id'' ''invalid channel id''"

definition channels_handle_Create :: json_handler where
  "channels_handle_Create sv body r c =
     parseWorkspaceID r c (\<lambda>ws.
     bind_json dec_create_channel ''invalid request'' body c (\<lambda>(name, ro).
     must_user c (\<lambda>uid.
     serve (channels_CreateChannel ws uid name ro) channels_writeChannelError c (\<lambda>ch.
     reply_with sv 201 (channel_json ch) c))))"

definition channels_handle_Get :: json_handler where
  "channels_handle_Get sv body r c =
     parseWorkspaceID r c (\<lambda>ws.
     must_user c (\<lambda>uid.
     serve (channels_GetChannels ws uid) channels_writeChannelError c (\<lambda>chs.
     reply_with sv 200 (if chs = [] then VNull else VList (map channel_json chs)) c)))"

definition membership_json :: "int \<Rightarrow> int \<Rightarrow> int \<Rightarrow> string \<Rightarrow> gov" where
  "membership_json ws ch uid status =
     VObj [(''workspace_id'', VInt ws), (''channel_id'', VInt ch), (''user_id'', VInt uid), (''status'', VStr status)]"

definition channels_handle_Join :: json_handler where
  "channels_handle_Join sv body r c =
     parseWorkspaceID r c (\<lambda>ws.
     parseChannelID r c (\<lambda>ch.
     must_user c (\<lambda>uid.
     serve (channels_JoinChannel ws ch uid) channels_writeChannelError c (\<lambda>_.
     andthen (hub_publish ''member.joined'' ws ch [(''user_id'', VInt uid)]) (\<lambda>_.
     reply_with sv 200 (membership_json ws ch uid ''joined'') c)))))"

definition channels_handle_Leave :: json_handler where
  "channels_handle_Leave sv body r c =
     parseWorkspaceID r c (\<lambda>ws.
     parseChannelID r c (\<lambda>ch.
     must_user c (\<lambda>uid.
     serve (channels_LeaveChannel ws ch uid) channels_writeChannelError c (\<lambda>_.
     andthen (hub_publish ''member.left'' ws ch [(''user_id'', VInt uid)]) (\<lambda>_.
     reply_with sv 200 (membership_json ws ch uid ''left'') c)))))"

section \<open>chat\<close>

definition message_json :: "message_row \<Rightarrow> gov" where
  "message_json m =
     VObj [(''id'', VInt (m_id m)), (''channel_id'', VInt (m_channel_id m)), (''sender_id'', VInt (m_sender_id m)),
           (''content'', VStr (m_content m)), (''created_at'', VTime (m_created_at m))]"

definition message_item_json :: "message_row \<times> string \<Rightarrow> gov" where
  "message_item_json x = (case x of (m, username) \<Rightarrow>
     VObj [(''id'', VInt (m_id m)), (''channel_id'', VInt (m_channel_id m)), (''sender_id'', VInt (m_sender_id m)),
           (''username'', VStr username), (''content'', VStr (m_content m)), (''created_at'', VTime (m_created_at m))])"

definition dec_attachment :: "gov \<Rightarrow> attachment_input option" where
  "dec_attachment = dec_struct (\<lambda>obj.
     with_field obj ''object_key'' dec_str (\<lambda>key.
     with_field obj ''file_name'' dec_str (\<lambda>name.
     with_field obj ''mime_type'' dec_str (\<lambda>mime.
     with_field obj ''size_bytes'' (dec_int 64) (\<lambda>sz.
     Some \<lparr>ai_object_key = key, ai_file_name = name, ai_mime_type = mime, ai_size_bytes = sz\<rparr>)))))"

definition dec_create_message :: "gov \<Rightarrow> (string \<times> int option \<times> attachment_input list) option" where
  "dec_create_message = dec_struct (\<lambda>obj.
     with_field obj ''content'' dec_str (\<lambda>content.
     with_field obj ''reply_to_message_id'' (dec_pointer (dec_int 64)) (\<lambda>reply_to.
     with_field obj ''attachments'' (dec_slice dec_attachment) (\<lambda>atts. Some (content, reply_to, atts)))))"

definition chat_handle_CreateMessage :: json_handler where
  "chat_handle_CreateMessage sv body r c =
     parseWorkspaceID r c (\<lambda>ws.
     parseChannelID r c (\<lambda>ch.
     bind_json dec_create_message ''invalid request body'' body c (\<lambda>(content, reply_to, atts).
     must_user c (\<lambda>uid.
     serve (chat_SendMessage (chat_wired (sv_store sv) (sv_maxUpload sv)) ws ch uid content reply_to atts)
       chat_writeServiceError c (\<lambda>m.
     reply_with sv 201 (message_json m) c)))))"

definition chat_handle_GetMessages :: json_handler where
  "chat_handle_GetMessages sv body r c =
     parseWorkspaceID r c (\<lambda>ws.
     parseChannelID r c (\<lambda>ch.
     must_user c (\<lambda>uid.
     serve (chat_ListMessages ws ch uid (ParseInt32_value (DefaultQuery r ''limit'' ''50''))
              (ParseInt32_value (DefaultQuery r ''offset'' ''0''))) chat_writeServiceError c (\<lambda>rows.
     reply_with sv 200 (VObj [(''messages'', VList (map message_item_json rows))]) c))))"

section \<open>attachments\<close>

definition attachment_json :: "int \<Rightarrow> int \<Rightarrow> attachment_row \<Rightarrow> gov" where
  "attachment_json ws ch a =
     VObj [(''id'', VInt (at_id a)), (''message_id'', VInt (at_message_id a)), (''file_name'', VStr (at_file_name a)),
           (''mime_type'', VStr (at_mime_type a)), (''size_bytes'', VInt (at_size_bytes a)),
           (''url'', VStr (contentURL ws ch (at_message_id a) (at_id a))), (''created_at'', VTime (at_created_at a))]"

text \<open>The tag \<^verbatim>\<open>binding:"required"\<close> refuses the zero value.\<close>

definition dec_upload :: "gov \<Rightarrow> (string \<times> string \<times> int) option" where
  "dec_upload = dec_struct (\<lambda>obj.
     with_field obj ''file_name'' dec_str (\<lambda>name.
     with_field obj ''mime_type'' dec_str (\<lambda>mime.
     with_field obj ''size_bytes'' (dec_int 64) (\<lambda>sz.
     if name = [] \<or> mime = [] \<or> sz = 0 then None else Some (name, mime, sz)))))"

text \<open>Without \<^verbatim>\<open>dive\<close> the validator does not look at the elements, so their own tags have no effect.\<close>

definition dec_attach :: "gov \<Rightarrow> attachment_input list option" where
  "dec_attach = dec_struct (\<lambda>obj.
     with_field obj ''attachments'' (dec_slice dec_attachment) (\<lambda>atts. if atts = [] then None else Some atts))"

definition parseMessageID :: "request \<Rightarrow> ctx \<Rightarrow> (int \<Rightarrow> (response \<times> ctx) prog) \<Rightarrow> (response \<times> ctx) prog" where
  "parseMessageID = int_param ''message_id'' ''invalid message id''"

definition server_attachments :: "server \<Rightarrow> attachments_service" where
  "server_attachments sv = attachments_wired (sv_store sv) (sv_maxUpload sv)"

definition attachments_handle_CreateUpload :: json_handler where
  "attachments_handle_CreateUpload sv body r c =
     bind_json dec_upload ''invalid request body'' body c (\<lambda>(name, mime, sz).
     must_user c (\<lambda>uid.
     serve (attachments_CreateUploadURL (server_attachments sv) (sv_uuid sv) uid name mime sz) attachments_writeError c
       (\<lambda>(key, url, expires).
     reply_with sv 200
       (VObj [(''object_key'', VStr key), (''upload_url'', VStr url), (''expires_at'', VTime expires)]) c)))"

definition attachments_handle_Attach :: json_handler where
  "attachments_handle_Attach sv body r c =
     parseWorkspaceID r c (\<lambda>ws.
     parseChannelID r c (\<lambda>ch.
     parseMessageID r c (\<lambda>msg.
     bind_json dec_attach ''invalid request body'' body c (\<lambda>inputs.
     must_user c (\<lambda>uid.
     serve (attachments_AttachToMessage (server_attachments sv) ws ch msg uid inputs) attachments_writeError c (\<lambda>items.
     reply_with sv 201 (VObj [(''attachments'', VList (map (attachment_json ws ch) items))]) c))))))"

definition attachments_handle_List :: json_handler where
  "attachments_handle_List sv body r c =
     parseWorkspaceID r c (\<lambda>ws.
     parseChannelID r c (\<lambda>ch.
     parseMessageID r c (\<lambda>msg.
     must_user c (\<lambda>uid.
     serve (attachments_ListByMessage (server_attachments sv) ws ch msg uid) attachments_writeError c (\<lambda>items.
     reply_with sv 200 (VObj [(''attachments'', VList (map (attachment_json ws ch) items))]) c)))))"

text \<open>The content is the body of the response; its headers are these.\<close>

definition content_headers :: "string \<Rightarrow> string \<Rightarrow> int \<Rightarrow> (string \<times> string) list" where
  "content_headers file_name mime sz =
     (let base = path_base file_name;
          name = (if base = ''.'' \<or> base = ''/'' then ''file'' else base);
          safe = filter (\<lambda>x. x \<noteq> CHR 0x22) name
      in [(''Content-Type'', mime),
          (''Content-Disposition'', ''inline; filename='' @ CHR 0x22 # safe @ [CHR 0x22]),
          (''Cache-Control'', ''private, max-age=300'')] @
         (if sz > 0 then [(''Content-Length'', FormatInt sz)] else []))"

definition attachments_handle_Download :: json_handler where
  "attachments_handle_Download sv body r c =
     parseWorkspaceID r c (\<lambda>ws.
     parseChannelID r c (\<lambda>ch.
     parseMessageID r c (\<lambda>msg.
     int_param ''attachment_id'' ''invalid attachment id'' r c (\<lambda>att.
     must_user c (\<lambda>uid.
     serve (attachments_OpenContent (server_attachments sv) ws ch msg att uid) attachments_writeError c
       (\<lambda>(content, name, mime, sz). ret (\<lparr>rs_status = 200, rs_body = Bytes content\<rparr>, c)))))))"

section \<open>calls\<close>

definition call_json :: "call_row \<Rightarrow> gov" where
  "call_json x =
     VObj ([(''id'', VInt (c_id x)), (''channel_id'', VInt (c_channel_id x)), (''workspace_id'', VInt (c_workspace_id x)),
            (''initiator_id'', VInt (c_initiator_id x)), (''status'', VStr (c_status x)), (''mode'', VStr (c_mode x)),
            (''created_at'', VTime (c_created_at x))] @ opt_time ''ended_at'' (c_ended_at x))"

text \<open>The error of the decoder is dropped: a body that does not decode leaves the mode empty.\<close>

definition dec_mode :: "gov option \<Rightarrow> string" where
  "dec_mode body =
     (case Option.bind body (dec_struct (\<lambda>obj. with_field obj ''mode'' dec_str Some)) of None \<Rightarrow> [] | Some m \<Rightarrow> m)"

definition parseCallID :: "request \<Rightarrow> ctx \<Rightarrow> (int \<Rightarrow> (response \<times> ctx) prog) \<Rightarrow> (response \<times> ctx) prog" where
  "parseCallID = int_param ''id'' ''invalid call id''"

definition calls_handle_Initiate :: json_handler where
  "calls_handle_Initiate sv body r c =
     parseWorkspaceID r c (\<lambda>ws.
     parseChannelID r c (\<lambda>ch.
     must_user c (\<lambda>uid.
     serve (calls_InitiateCall (calls_wired (sv_callLimit sv)) ws ch uid (dec_mode body)) calls_writeError c (\<lambda>x.
     reply_with sv 201 (call_json x) c))))"

definition calls_handle_Join :: json_handler where
  "calls_handle_Join sv body r c =
     parseCallID r c (\<lambda>call.
     must_user c (\<lambda>uid.
     serve (calls_JoinCall (calls_wired (sv_callLimit sv)) call uid) calls_writeError c (\<lambda>x.
     reply_with sv 200 (call_json x) c)))"

definition calls_handle_Leave :: json_handler where
  "calls_handle_Leave sv body r c =
     parseCallID r c (\<lambda>call.
     must_user c (\<lambda>uid.
     serve (calls_LeaveCall (calls_wired (sv_callLimit sv)) call uid) calls_writeError c (\<lambda>x.
     reply_with sv 200 (call_json x) c)))"

section \<open>notifications\<close>

definition notification_json :: "notification_response \<Rightarrow> gov" where
  "notification_json n =
     VObj ([(''id'', VInt (nr_id n)), (''type'', VStr (nr_type n)), (''title'', VStr (nr_title n)),
            (''body'', VStr (nr_body n)), (''data'', VObj (nr_data n)), (''read'', VBool (nr_read n)),
            (''created_at'', VTime (nr_created_at n))] @ opt_time ''read_at'' (nr_read_at n))"

definition notifications_handle_List :: json_handler where
  "notifications_handle_List sv body r c =
     must_user c (\<lambda>uid.
     serve (notifications_List uid (ParseInt32_value (DefaultQuery r ''limit'' ''50''))
              (ParseInt32_value (DefaultQuery r ''offset'' ''0''))) (\<lambda>_. WriteInternal) c (\<lambda>items.
     reply_with sv 200 (VObj [(''notifications'', VList (map notification_json items))]) c))"

definition notifications_handle_MarkRead :: json_handler where
  "notifications_handle_MarkRead sv body r c =
     must_user c (\<lambda>uid.
     int_param ''id'' ''invalid notification id'' r c (\<lambda>nid.
     serve (notifications_MarkRead uid nid) notifications_writeError c (\<lambda>item.
     reply_with sv 200 (notification_json item) c)))"

definition notifications_handle_MarkAllRead :: json_handler where
  "notifications_handle_MarkAllRead sv body r c =
     must_user c (\<lambda>uid.
     serve (notifications_MarkAllRead uid) (\<lambda>_. WriteInternal) c (\<lambda>n.
     reply_with sv 200 (VObj [(''marked_read'', VInt n)]) c))"

section \<open>users and auth\<close>

definition profile_json :: "user_row \<Rightarrow> gov" where
  "profile_json u =
     VObj [(''id'', VInt (u_id u)), (''email'', VStr (u_email u)), (''username'', VStr (u_username u)),
           (''platform_role'', VStr (u_platform_role u)), (''suspended'', VBool (u_suspended_at u \<noteq> None)),
           (''created_at'', VTime (u_created_at u))]"

definition dec_profile :: "gov \<Rightarrow> string option" where
  "dec_profile = dec_struct (\<lambda>obj. with_field obj ''username'' dec_str Some)"

definition dec_password :: "gov \<Rightarrow> (string \<times> string) option" where
  "dec_password = dec_struct (\<lambda>obj.
     with_field obj ''current_password'' dec_str (\<lambda>current. with_field obj ''new_password'' dec_str (\<lambda>new.
     Some (current, new))))"

definition users_handle_Me :: json_handler where
  "users_handle_Me sv body r c =
     must_user c (\<lambda>uid.
     serve (users_handle_GetMe (sv_getenv sv) uid) users_writeError c (\<lambda>u. reply_with sv 200 (profile_json u) c))"

definition users_handle_UpdateMe :: json_handler where
  "users_handle_UpdateMe sv body r c =
     bind_json dec_profile ''invalid request body'' body c (\<lambda>name.
     must_user c (\<lambda>uid.
     serve (users_UpdateProfile uid name) users_writeError c (\<lambda>u. reply_with sv 200 (profile_json u) c)))"

definition users_handle_ChangePassword :: json_handler where
  "users_handle_ChangePassword sv body r c =
     bind_json dec_password ''invalid request body'' body c (\<lambda>(current, new).
     must_user c (\<lambda>uid.
     serve (users_ChangePassword (sv_crypto sv) uid current new) users_writeError c (\<lambda>_.
     reply_with sv 200 (VObj [(''changed'', VBool True)]) c)))"

definition dec_register :: "gov \<Rightarrow> (string \<times> string \<times> string) option" where
  "dec_register = dec_struct (\<lambda>obj.
     with_field obj ''email'' dec_str (\<lambda>email. with_field obj ''username'' dec_str (\<lambda>name.
     with_field obj ''password'' dec_str (\<lambda>password. Some (email, name, password)))))"

definition dec_login :: "gov \<Rightarrow> (string \<times> string) option" where
  "dec_login = dec_struct (\<lambda>obj.
     with_field obj ''email'' dec_str (\<lambda>email. with_field obj ''password'' dec_str (\<lambda>password. Some (email, password))))"

definition auth_handle_register_request :: json_handler where
  "auth_handle_register_request sv body r c =
     bind_json dec_register ''invalid request body'' body c (\<lambda>(email, name, password).
     serve (auth_handle_Register (sv_getenv sv) (sv_crypto sv) email name password) auth_writeAuthError c
       (\<lambda>(uid, email, name).
     reply_with sv 201 (VObj [(''id'', VInt uid), (''email'', VStr email), (''username'', VStr name)]) c))"

definition auth_handle_login_request :: json_handler where
  "auth_handle_login_request sv body r c =
     bind_json dec_login ''invalid request'' body c (\<lambda>(email, password).
     serve (auth_handle_Login (sv_getenv sv) (sv_crypto sv) (sv_jwt sv) (sv_uuid sv) email password)
       auth_writeAuthError c (\<lambda>token.
     reply_with sv 200 (VObj [(''token'', VStr token)]) c))"

text \<open>The text after the first \<^verbatim>\<open>"Bearer "\<close> in the header, wherever it stands.\<close>

fun after_bearer :: "string \<Rightarrow> string option" where
  "after_bearer [] = None"
| "after_bearer (x # xs) = (if has_prefix ''Bearer '' (x # xs) then Some (drop 7 (x # xs)) else after_bearer xs)"

definition auth_bearerToken :: "request \<Rightarrow> string option" where
  "auth_bearerToken r =
     (case after_bearer (rq_header r ''Authorization'') of
        None \<Rightarrow> None | Some token \<Rightarrow> if token = [] then None else Some token)"

definition dec_refresh :: "gov \<Rightarrow> string option" where
  "dec_refresh = dec_struct (\<lambda>obj. with_field obj ''token'' dec_str (\<lambda>token.
     if TrimSpace token = [] then None else Some token))"

definition auth_handle_Refresh :: json_handler where
  "auth_handle_Refresh sv body r c =
     (let go = (\<lambda>token. serve (auth_Refresh (sv_jwt sv) (sv_getenv sv) (sv_uuid sv) token) auth_writeAuthError c
                  (\<lambda>token. reply_with sv 200 (VObj [(''token'', VStr token)]) c))
      in case auth_bearerToken r of
           Some token \<Rightarrow> go token
         | None \<Rightarrow> bind_json dec_refresh ''token required'' body c go)"

section \<open>presence\<close>

text \<open>These handlers also run over the state of the presence store; the last component is what the hub is told.\<close>

definition presence_json :: "user_presence \<Rightarrow> gov" where
  "presence_json p =
     VObj [(''user_id'', VInt (up_user_id p)), (''status'', VStr (up_status p)),
           (''connection_count'', VInt (up_connection_count p)), (''last_seen'', last_seen_value (up_last_seen p))]"

definition presence_reply ::
  "server \<Rightarrow> (goerr \<Rightarrow> int \<times> string) \<Rightarrow> ('a \<Rightarrow> gov) \<Rightarrow> ctx \<Rightarrow> goerr + 'a \<Rightarrow> response \<times> ctx" where
  "presence_reply sv write json c res =
     (case res of
        Inl e \<Rightarrow> (\<lparr>rs_status = fst (write e), rs_body = ErrorBody (snd (write e))\<rparr>, c)
      | Inr x \<Rightarrow> (\<lparr>rs_status = 200, rs_body = Bytes (sv_marshal sv (json x))\<rparr>, c))"

definition online_json :: "user_presence list \<Rightarrow> gov" where
  "online_json ps = VObj [(''online_users'', VList (map presence_json ps))]"

definition presence_handle_Global ::
  "server \<Rightarrow> 's presence_store \<Rightarrow> int \<Rightarrow> ctx \<Rightarrow> 's \<Rightarrow> (response \<times> ctx) \<times> 's" where
  "presence_handle_Global sv S t c st =
     (case ps_ListOnline S t st of (res, st') \<Rightarrow> (presence_reply sv (\<lambda>_. WriteInternal) online_json c res, st'))"

definition presence_handle_Workspace ::
  "server \<Rightarrow> 's presence_store \<Rightarrow> int \<Rightarrow> request \<Rightarrow> ctx \<Rightarrow> world \<Rightarrow> 's \<Rightarrow> (goerr + response \<times> ctx) \<times> world \<times> 's" where
  "presence_handle_Workspace sv S t r c s st =
     (case ParseInt (rq_param r ''workspace_id'') of
        None \<Rightarrow> (Inr (\<lparr>rs_status = 400, rs_body = ErrorBody ''invalid workspace id''\<rparr>, c), s, st)
      | Some ws \<Rightarrow>
          (case cx_user_id c of
             None \<Rightarrow> (Inl (EExternal ''panic''), s, st)
           | Some uid \<Rightarrow>
               (case presence_ListWorkspacePresence S t ws uid s st of
                  (res, s', st') \<Rightarrow> (Inr (presence_reply sv presence_writePresenceError online_json c res), s', st'))))"

definition dec_status :: "gov \<Rightarrow> string option" where
  "dec_status = dec_struct (\<lambda>obj. with_field obj ''status'' dec_str (\<lambda>status. if status = [] then None else Some status))"

definition presence_handle_Update ::
  "server \<Rightarrow> 's presence_store \<Rightarrow> int \<Rightarrow> gov option \<Rightarrow> ctx \<Rightarrow> 's \<times> effect list \<Rightarrow>
     (goerr + response \<times> ctx) \<times> 's \<times> effect list" where
  "presence_handle_Update sv S t body c st =
     (case Option.bind body dec_status of
        None \<Rightarrow> (Inr (\<lparr>rs_status = 400, rs_body = ErrorBody ''invalid request body''\<rparr>, c), st)
      | Some status \<Rightarrow>
          (case cx_user_id c of
             None \<Rightarrow> (Inl (EExternal ''panic''), st)
           | Some uid \<Rightarrow>
               (case presence_UpdateStatus S True t uid status st of
                  (res, st') \<Rightarrow> (Inr (presence_reply sv presence_writePresenceError presence_json c res), st'))))"

definition presence_handle_Mine ::
  "server \<Rightarrow> 's presence_store \<Rightarrow> int \<Rightarrow> ctx \<Rightarrow> 's \<Rightarrow> (goerr + response \<times> ctx) \<times> 's" where
  "presence_handle_Mine sv S t c st =
     (case cx_user_id c of
        None \<Rightarrow> (Inl (EExternal ''panic''), st)
      | Some uid \<Rightarrow>
          (case ps_Get S t uid st of (res, st') \<Rightarrow> (Inr (presence_reply sv (\<lambda>_. WriteInternal) presence_json c res), st')))"

end
