(* ===== verification/Admin_Handlers.thy ===== *)
theory Admin_Handlers
  imports Handlers
begin

text \<open>
  The handlers of \<open>apps\<close>, \<open>billing\<close>, \<open>platformadmin\<close> and \<open>developerapi\<close> with the JSON of their responses, and the paged
  list of subscriptions, which only its handler uses.
\<close>

section \<open>apps\<close>

definition app_json :: "app_row \<Rightarrow> gov" where
  "app_json a =
     VObj [(''id'', VInt (a_id a)), (''name'', VStr (a_name a)), (''slug'', VStr (a_slug a)),
           (''workspace_id'', VInt (a_workspace_id a)), (''sandbox_workspace_id'', VInt (a_sandbox_workspace_id a)),
           (''owner_id'', VInt (a_owner_id a)), (''created_at'', VTime (a_created_at a)),
           (''allowed_origins'', VList (map VStr (a_allowed_origins a)))]"

definition key_fields :: "key_response \<Rightarrow> gomap" where
  "key_fields k =
     [(''id'', VInt (kr_id k)), (''app_id'', VInt (kr_app_id k)), (''name'', VStr (kr_name k)),
      (''key_prefix'', VStr (kr_key_prefix k)), (''is_sandbox'', VBool (kr_is_sandbox k)),
      (''created_at'', VTime (kr_created_at k))] @
     opt_time ''revoked_at'' (kr_revoked_at k) @ opt_time ''last_used_at'' (kr_last_used k) @
     opt_time ''expires_at'' (kr_expires_at k)"

definition webhook_json :: "webhook_response \<Rightarrow> string \<Rightarrow> gov" where
  "webhook_json w secret =
     VObj ([(''id'', VInt (whr_id w)), (''app_id'', VInt (whr_app_id w)), (''url'', VStr (whr_url w)),
            (''events'', VList (map VStr (whr_events w))), (''created_at'', VTime (whr_created_at w))] @
           omit_empty ''secret'' secret)"

definition dec_create_app :: "gov \<Rightarrow> (string \<times> string \<times> string) option" where
  "dec_create_app = dec_struct (\<lambda>obj.
     with_field obj ''name'' dec_str (\<lambda>name. with_field obj ''slug'' dec_str (\<lambda>slug.
     with_field obj ''plan_slug'' dec_str (\<lambda>plan. Some (name, slug, plan)))))"

definition dec_origins :: "gov \<Rightarrow> string list option" where
  "dec_origins = dec_struct (\<lambda>obj. with_field obj ''allowed_origins'' (dec_slice dec_str) Some)"

definition dec_create_key :: "gov \<Rightarrow> (string \<times> bool) option" where
  "dec_create_key = dec_struct (\<lambda>obj.
     with_field obj ''name'' dec_str (\<lambda>name. with_field obj ''sandbox'' dec_bool (\<lambda>sandbox. Some (name, sandbox))))"

definition dec_create_webhook :: "gov \<Rightarrow> (string \<times> string list) option" where
  "dec_create_webhook = dec_struct (\<lambda>obj.
     with_field obj ''url'' dec_str (\<lambda>url. with_field obj ''events'' (dec_slice dec_str) (\<lambda>events. Some (url, events))))"

definition parseAppID :: "request \<Rightarrow> ctx \<Rightarrow> (int \<Rightarrow> (response \<times> ctx) prog) \<Rightarrow> (response \<times> ctx) prog" where
  "parseAppID = int_param ''app_id'' ''invalid app id''"

definition server_apps :: "server \<Rightarrow> apps_service" where
  "server_apps sv = apps_wired (sv_sandbox sv)"

definition apps_handle_Create :: json_handler where
  "apps_handle_Create sv body r c =
     bind_json dec_create_app ''invalid request body'' body c (\<lambda>(name, slug, plan).
     must_user c (\<lambda>uid.
     serve (apps_CreateApp (server_apps sv) uid name slug) apps_writeError c (\<lambda>a. reply_with sv 201 (app_json a) c)))"

definition apps_handle_List :: json_handler where
  "apps_handle_List sv body r c =
     must_user c (\<lambda>uid.
     serve (apps_ListApps uid) apps_writeError c (\<lambda>as.
     reply_with sv 200 (VObj [(''apps'', VList (map app_json as))]) c))"

definition apps_handle_Get :: json_handler where
  "apps_handle_Get sv body r c =
     parseAppID r c (\<lambda>app.
     must_user c (\<lambda>uid.
     serve (apps_GetAppForOwner app uid) apps_writeError c (\<lambda>a. reply_with sv 200 (app_json a) c)))"

text \<open>The handler of origins also runs over the origin checker.\<close>

definition apps_handle_UpdateOrigins ::
  "url_lib \<Rightarrow> server \<Rightarrow> gov option \<Rightarrow> request \<Rightarrow> ctx \<Rightarrow> checker option \<Rightarrow> world \<Rightarrow>
     (goerr + response \<times> ctx) \<times> checker option \<times> world" where
  "apps_handle_UpdateOrigins lib sv body r c chk s =
     (case ParseInt (rq_param r ''app_id'') of
        None \<Rightarrow> (Inr (\<lparr>rs_status = 400, rs_body = ErrorBody ''invalid app id''\<rparr>, c), chk, s)
      | Some app \<Rightarrow>
          (case Option.bind body dec_origins of
             None \<Rightarrow> (Inr (\<lparr>rs_status = 400, rs_body = ErrorBody ''invalid request body''\<rparr>, c), chk, s)
           | Some allowed \<Rightarrow>
               (case cx_user_id c of
                  None \<Rightarrow> (Inl (EExternal ''panic''), chk, s)
                | Some uid \<Rightarrow>
                    (case apps_UpdateAllowedOrigins lib app uid allowed chk s of
                       (Inl e, chk', s') \<Rightarrow>
                         (Inr (\<lparr>rs_status = fst (apps_writeError e), rs_body = ErrorBody (snd (apps_writeError e))\<rparr>, c),
                          chk', s')
                     | (Inr a, chk', s') \<Rightarrow>
                         (Inr (\<lparr>rs_status = 200, rs_body = Bytes (sv_marshal sv (app_json a))\<rparr>, c), chk', s')))))"

definition apps_handle_CreateKey :: json_handler where
  "apps_handle_CreateKey sv body r c =
     parseAppID r c (\<lambda>app.
     bind_json dec_create_key ''invalid request body'' body c (\<lambda>(name, sandbox).
     must_user c (\<lambda>uid.
     serve (apps_CreateAPIKey (server_apps sv) (sv_sha256 sv) (sv_random sv) app uid name sandbox) apps_writeError c
       (\<lambda>(k, secret).
     reply_with sv 201 (VObj (key_fields k @ [(''secret'', VStr secret)])) c))))"

definition apps_handle_ListKeys :: json_handler where
  "apps_handle_ListKeys sv body r c =
     parseAppID r c (\<lambda>app.
     must_user c (\<lambda>uid.
     serve (apps_ListAPIKeys app uid) apps_writeError c (\<lambda>ks.
     reply_with sv 200 (VObj [(''api_keys'', VList (map (VObj \<circ> key_fields) ks))]) c)))"

definition apps_handle_RevokeKey :: json_handler where
  "apps_handle_RevokeKey sv body r c =
     parseAppID r c (\<lambda>app.
     int_param ''key_id'' ''invalid key id'' r c (\<lambda>key.
     must_user c (\<lambda>uid.
     serve (apps_RevokeAPIKey app key uid) apps_writeError c (\<lambda>_.
     reply_with sv 200 (VObj [(''revoked'', VBool True)]) c))))"

definition apps_handle_CreateWebhook :: json_handler where
  "apps_handle_CreateWebhook sv body r c =
     parseAppID r c (\<lambda>app.
     bind_json dec_create_webhook ''invalid request body'' body c (\<lambda>(url, events).
     must_user c (\<lambda>uid.
     serve (apps_CreateWebhook (server_apps sv) (sv_random sv) app uid url events) apps_writeError c (\<lambda>(w, secret).
     reply_with sv 201 (webhook_json w secret) c))))"

definition apps_handle_ListWebhooks :: json_handler where
  "apps_handle_ListWebhooks sv body r c =
     parseAppID r c (\<lambda>app.
     must_user c (\<lambda>uid.
     serve (apps_ListWebhooks app uid) apps_writeError c (\<lambda>ws.
     reply_with sv 200 (VObj [(''webhooks'', VList (map (\<lambda>w. webhook_json w []) ws))]) c)))"

definition apps_handle_DeleteWebhook :: json_handler where
  "apps_handle_DeleteWebhook sv body r c =
     parseAppID r c (\<lambda>app.
     int_param ''webhook_id'' ''invalid webhook id'' r c (\<lambda>wh.
     must_user c (\<lambda>uid.
     serve (apps_DisableWebhook app wh uid) apps_writeError c (\<lambda>_.
     reply_with sv 200 (VObj [(''deleted'', VBool True)]) c))))"

section \<open>billing\<close>

definition plan_fields :: "plan_row \<Rightarrow> gomap" where
  "plan_fields p =
     [(''slug'', VStr (pl_slug p)), (''name'', VStr (pl_name p))] @ omit_empty ''description'' (pl_description p) @
     [(''price_cents'', VInt (pl_price_cents p)), (''price_display'', VStr (formatPriceDisplay (pl_price_cents p))),
      (''messages_limit'', VInt (pl_messages_limit p)), (''connections_limit'', VInt (pl_connections_limit p)),
      (''retention_days'', VInt (pl_retention_days p)), (''max_apps'', VInt (pl_max_apps p)),
      (''video_minutes_limit'', VInt (pl_video_minutes_limit p)),
      (''max_call_participants'', VInt (pl_max_call_participants p)),
      (''webhooks_enabled'', VBool (pl_webhooks_enabled p)), (''video_calls_enabled'', VBool (pl_video_calls_enabled p)),
      (''moderation_enabled'', VBool (pl_moderation_enabled p)), (''is_highlighted'', VBool (pl_is_highlighted p)),
      (''sort_order'', VInt (pl_sort_order p))]"

definition admin_plan_json :: "admin_plan_response \<Rightarrow> gov" where
  "admin_plan_json x =
     VObj (plan_fields (apr_plan x) @
           (case pl_stripe_price_id (apr_plan x) of None \<Rightarrow> [] | Some price \<Rightarrow> omit_empty ''stripe_price_id'' price) @
           [(''is_active'', VBool (pl_is_active (apr_plan x))), (''subscription_count'', VInt (apr_subscription_count x))])"

definition subscription_fields :: "subscription_row \<times> plan_row \<Rightarrow> gomap" where
  "subscription_fields x = (case x of (s, p) \<Rightarrow>
     [(''plan_slug'', VStr (s_plan_slug s)), (''plan_name'', VStr (pl_name p)), (''status'', VStr (s_status s)),
      (''price_cents'', VInt (pl_price_cents p)), (''messages_limit'', VInt (pl_messages_limit p)),
      (''connections_limit'', VInt (pl_connections_limit p)), (''retention_days'', VInt (pl_retention_days p)),
      (''max_apps'', VInt (pl_max_apps p)), (''video_minutes_limit'', VInt (pl_video_minutes_limit p)),
      (''max_call_participants'', VInt (pl_max_call_participants p)),
      (''webhooks_enabled'', VBool (pl_webhooks_enabled p)), (''video_calls_enabled'', VBool (pl_video_calls_enabled p)),
      (''moderation_enabled'', VBool (pl_moderation_enabled p))] @
     opt_time ''current_period_end'' (s_current_period_end s) @
     [(''needs_payment'', VBool (s_status s = ''past_due''))])"

definition account_json :: "account_billing \<Rightarrow> gov" where
  "account_json b =
     (let p = snd (ab_subscription b) in
      VObj [(''subscription'', VObj (subscription_fields (ab_subscription b))),
            (''usage'', VObj [(''messages_this_month'', VInt (ab_messages b)), (''messages_limit'', VInt (pl_messages_limit p)),
                              (''video_minutes_this_month'', VInt (ab_video_minutes b)),
                              (''video_minutes_limit'', VInt (pl_video_minutes_limit p))]),
            (''apps_count'', VInt (ab_apps_count b)), (''apps_limit'', VInt (pl_max_apps p)),
            (''app_usage'', VList (map (\<lambda>(app, name, slug, msgs, minutes).
               VObj [(''app_id'', VInt app), (''app_name'', VStr name), (''app_slug'', VStr slug),
                     (''messages_this_month'', VInt msgs), (''video_minutes_this_month'', VInt minutes)])
               (ab_app_usage b)))])"

text \<open>A subscription with its user, its plan, and the number of apps, messages and video minutes of the month.\<close>

definition AdminListUserSubscriptions ::
  "int \<Rightarrow> int \<Rightarrow> (subscription_row \<times> user_row \<times> plan_row \<times> int \<times> int \<times> int) list sql" where
  "AdminListUserSubscriptions limit offset t =
     paged limit offset (\<lambda>d.
       [(s, u, p, count_rows (\<lambda>a. a_owner_id a = s_user_id s) (apps d),
         owner_usage uc_messages_count (s_user_id s) (month_of t) d,
         owner_usage uc_video_minutes (s_user_id s) (month_of t) d).
        s \<leftarrow> order_desc s_updated_at (user_subscriptions d), u \<leftarrow> users d, u_id u = s_user_id s,
        p \<leftarrow> plans d, pl_slug p = s_plan_slug s]) t"

definition subscription_item_json :: "subscription_row \<times> user_row \<times> plan_row \<times> int \<times> int \<times> int \<Rightarrow> gov" where
  "subscription_item_json x = (case x of (s, u, p, n, msgs, minutes) \<Rightarrow>
     VObj ([(''user_id'', VInt (s_user_id s)), (''user_email'', VStr (u_email u)), (''user_username'', VStr (u_username u)),
            (''plan_slug'', VStr (s_plan_slug s)), (''plan_name'', VStr (pl_name p)), (''status'', VStr (s_status s))] @
           opt_time ''current_period_end'' (s_current_period_end s) @
           [(''max_apps'', VInt (pl_max_apps p)), (''apps_count'', VInt n), (''messages_this_month'', VInt msgs),
            (''video_minutes_this_month'', VInt minutes)]))"

definition billing_AdminListSubscriptions ::
  "int \<Rightarrow> int \<Rightarrow> (subscription_row \<times> user_row \<times> plan_row \<times> int \<times> int \<times> int) list prog" where
  "billing_AdminListSubscriptions limit offset = exec (AdminListUserSubscriptions limit offset)"

definition dec_checkout :: "gov \<Rightarrow> string option" where
  "dec_checkout = dec_struct (\<lambda>obj. with_field obj ''plan_slug'' dec_str Some)"

definition dec_subscription :: "gov \<Rightarrow> (string option \<times> string option) option" where
  "dec_subscription = dec_struct (\<lambda>obj.
     with_field obj ''plan_slug'' (dec_pointer dec_str) (\<lambda>plan. with_field obj ''status'' (dec_pointer dec_str) (\<lambda>status.
     Some (plan, status))))"

definition dec_settings :: "gov \<Rightarrow> (bool option \<times> string option) option" where
  "dec_settings = dec_struct (\<lambda>obj.
     with_field obj ''maintenance_mode'' (dec_pointer dec_bool) (\<lambda>mode.
     with_field obj ''maintenance_message'' (dec_pointer dec_str) (\<lambda>message. Some (mode, message))))"

text \<open>The request and, apart, its price id, as \<open>billing_AdminCreatePlan\<close> takes them.\<close>

definition dec_create_plan :: "gov \<Rightarrow> (plan_params \<times> string) option" where
  "dec_create_plan = dec_struct (\<lambda>obj.
     with_field obj ''slug'' dec_str (\<lambda>slug. with_field obj ''name'' dec_str (\<lambda>name.
     with_field obj ''description'' dec_str (\<lambda>descr. with_field obj ''price_cents'' (dec_int 32) (\<lambda>cents.
     with_field obj ''stripe_price_id'' dec_str (\<lambda>price. with_field obj ''messages_limit'' (dec_int 32) (\<lambda>msgs.
     with_field obj ''connections_limit'' (dec_int 32) (\<lambda>conns. with_field obj ''retention_days'' (dec_int 32) (\<lambda>days.
     with_field obj ''max_apps'' (dec_int 32) (\<lambda>max_apps. with_field obj ''video_minutes_limit'' (dec_int 32) (\<lambda>video.
     with_field obj ''max_call_participants'' (dec_int 32) (\<lambda>parts. with_field obj ''webhooks_enabled'' dec_bool (\<lambda>hooks.
     with_field obj ''video_calls_enabled'' dec_bool (\<lambda>calls. with_field obj ''moderation_enabled'' dec_bool (\<lambda>mods.
     with_field obj ''is_active'' dec_bool (\<lambda>active. with_field obj ''is_highlighted'' dec_bool (\<lambda>high.
     with_field obj ''sort_order'' (dec_int 32) (\<lambda>order.
     Some (\<lparr>pp_slug = slug, pp_name = name, pp_price_cents = cents, pp_stripe_price_id = None, pp_messages_limit = msgs,
            pp_connections_limit = conns, pp_retention_days = days, pp_webhooks_enabled = hooks,
            pp_video_calls_enabled = calls, pp_moderation_enabled = mods, pp_is_active = active, pp_is_highlighted = high,
            pp_sort_order = order, pp_description = descr, pp_max_apps = max_apps, pp_video_minutes_limit = video,
            pp_max_call_participants = parts\<rparr>, price)))))))))))))))))))"

definition dec_update_plan :: "gov \<Rightarrow> plan_update option" where
  "dec_update_plan = dec_struct (\<lambda>obj.
     let str = dec_pointer dec_str; int32 = dec_pointer (dec_int 32); bool = dec_pointer dec_bool in
     with_field obj ''name'' str (\<lambda>name. with_field obj ''description'' str (\<lambda>descr.
     with_field obj ''price_cents'' int32 (\<lambda>cents. with_field obj ''stripe_price_id'' str (\<lambda>price.
     with_field obj ''messages_limit'' int32 (\<lambda>msgs. with_field obj ''connections_limit'' int32 (\<lambda>conns.
     with_field obj ''retention_days'' int32 (\<lambda>days. with_field obj ''max_apps'' int32 (\<lambda>max_apps.
     with_field obj ''video_minutes_limit'' int32 (\<lambda>video. with_field obj ''max_call_participants'' int32 (\<lambda>parts.
     with_field obj ''webhooks_enabled'' bool (\<lambda>hooks. with_field obj ''video_calls_enabled'' bool (\<lambda>calls.
     with_field obj ''moderation_enabled'' bool (\<lambda>mods. with_field obj ''is_active'' bool (\<lambda>active.
     with_field obj ''is_highlighted'' bool (\<lambda>high. with_field obj ''sort_order'' int32 (\<lambda>order.
     Some \<lparr>pu_name = name, pu_price_cents = cents, pu_stripe_price_id = price, pu_messages_limit = msgs,
           pu_connections_limit = conns, pu_retention_days = days, pu_webhooks_enabled = hooks,
           pu_video_calls_enabled = calls, pu_moderation_enabled = mods, pu_is_active = active, pu_is_highlighted = high,
           pu_sort_order = order, pu_description = descr, pu_max_apps = max_apps, pu_video_minutes_limit = video,
           pu_max_call_participants = parts\<rparr>)))))))))))))))))"

definition parseID :: "string \<Rightarrow> request \<Rightarrow> ctx \<Rightarrow> (int \<Rightarrow> (response \<times> ctx) prog) \<Rightarrow> (response \<times> ctx) prog" where
  "parseID name = int_param name ''invalid id''"

definition billing_handle_ListPlans :: json_handler where
  "billing_handle_ListPlans sv body r c =
     serve billing_ListPlans (\<lambda>_. WriteInternal) c (\<lambda>ps.
     reply_with sv 200 (VObj [(''plans'', VList (map (VObj \<circ> plan_fields) ps))]) c)"

definition billing_handle_Status :: json_handler where
  "billing_handle_Status sv body r c =
     serve billing_GetPlatformStatus (\<lambda>_. WriteInternal) c (\<lambda>(mode, message).
     reply_with sv 200 (VObj ((''maintenance_mode'', VBool mode) # omit_empty ''maintenance_message'' message)) c)"

definition billing_handle_Account :: json_handler where
  "billing_handle_Account sv body r c =
     must_user c (\<lambda>uid.
     serve (billing_GetAccountBilling uid) billing_writeError c (\<lambda>b. reply_with sv 200 (account_json b) c))"

definition billing_handle_Checkout :: json_handler where
  "billing_handle_Checkout sv body r c =
     must_user c (\<lambda>uid.
     bind_json dec_checkout ''invalid request body'' body c (\<lambda>slug.
     serve (billing_UserEmail uid) billing_writeError c (\<lambda>email.
     serve (billing_CreateCheckoutSession (sv_stripe sv) (sv_billing sv) uid email slug) billing_writeError c (\<lambda>url.
     reply_with sv 200 (VObj [(''url'', VStr url)]) c))))"

text \<open>The payload is \<open>None\<close> when the body is longer than 65536 bytes or cannot be read.\<close>

definition billing_handle_StripeWebhook :: "server \<Rightarrow> string option \<Rightarrow> handler" where
  "billing_handle_StripeWebhook sv payload r c =
     (case payload of
        None \<Rightarrow> error_reply (400, Sanitize ''invalid payload'') c
      | Some bytes \<Rightarrow>
          attempt (billing_HandleStripeWebhook (sv_stripe sv) (sv_billing sv) bytes (rq_header r ''Stripe-Signature''))
            (\<lambda>e. if e = EBilling Bil_StripeNotConfigured
                 then error_reply (shown_known 503 e [EBilling Bil_StripeNotConfigured]) c
                 else error_reply (400, Sanitize ''webhook verification failed'') c)
            (\<lambda>_. status_reply 200 c))"

definition billing_handle_Overview :: json_handler where
  "billing_handle_Overview sv body r c =
     serve billing_AdminGetOverview (\<lambda>_. WriteInternal) c (\<lambda>n.
     reply_with sv 200 (VObj [(''active_subscriptions'', VInt n)]) c)"

definition admin_page :: "request \<Rightarrow> int \<times> int" where
  "admin_page r = admin_pagination (rq_query r ''limit'') (rq_query r ''offset'')"

definition billing_handle_ListSubscriptions :: json_handler where
  "billing_handle_ListSubscriptions sv body r c =
     serve (billing_AdminListSubscriptions (fst (admin_page r)) (snd (admin_page r))) (\<lambda>_. WriteInternal) c (\<lambda>items.
     reply_with sv 200 (VObj [(''subscriptions'', VList (map subscription_item_json items))]) c)"

definition billing_handle_UserBilling :: json_handler where
  "billing_handle_UserBilling sv body r c =
     parseID ''id'' r c (\<lambda>uid.
     serve (billing_GetAccountBilling uid) billing_writeError c (\<lambda>b. reply_with sv 200 (account_json b) c))"

definition billing_handle_UpdateSubscription :: json_handler where
  "billing_handle_UpdateSubscription sv body r c =
     parseID ''id'' r c (\<lambda>uid.
     bind_json dec_subscription ''invalid request body'' body c (\<lambda>(plan, status).
     serve (billing_AdminUpdateSubscription uid plan status) billing_writeError c (\<lambda>b.
     reply_with sv 200 (account_json b) c)))"

definition settings_json :: "bool \<times> string \<Rightarrow> gov" where
  "settings_json x = VObj [(''maintenance_mode'', VBool (fst x)), (''maintenance_message'', VStr (snd x))]"

definition billing_handle_Settings :: json_handler where
  "billing_handle_Settings sv body r c =
     serve billing_GetPlatformSettings (\<lambda>_. WriteInternal) c (\<lambda>x. reply_with sv 200 (settings_json x) c)"

definition billing_handle_UpdateSettings :: json_handler where
  "billing_handle_UpdateSettings sv body r c =
     bind_json dec_settings ''invalid request body'' body c (\<lambda>(mode, message).
     serve (billing_UpdatePlatformSettings mode message) billing_writeError c (\<lambda>x.
     reply_with sv 200 (settings_json x) c))"

definition billing_handle_AdminListPlans :: json_handler where
  "billing_handle_AdminListPlans sv body r c =
     serve billing_AdminListPlans (\<lambda>_. WriteInternal) c (\<lambda>ps.
     reply_with sv 200 (VObj [(''plans'', VList (map admin_plan_json ps))]) c)"

definition billing_handle_CreatePlan :: json_handler where
  "billing_handle_CreatePlan sv body r c =
     bind_json dec_create_plan ''invalid request body'' body c (\<lambda>(req, price).
     serve (billing_AdminCreatePlan req price) billing_writeError c (\<lambda>p. reply_with sv 201 (admin_plan_json p) c))"

definition billing_handle_UpdatePlan :: json_handler where
  "billing_handle_UpdatePlan sv body r c =
     bind_json dec_update_plan ''invalid request body'' body c (\<lambda>req.
     serve (billing_AdminUpdatePlan (rq_param r ''slug'') req) billing_writeError c (\<lambda>p.
     reply_with sv 200 (admin_plan_json p) c))"

definition billing_handle_DeletePlan :: json_handler where
  "billing_handle_DeletePlan sv body r c =
     serve (billing_AdminDeletePlan (rq_param r ''slug'')) billing_writeError c (\<lambda>_. status_reply 204 c)"

section \<open>platformadmin\<close>

definition admin_user_fields :: "'a user_item_scheme \<Rightarrow> gomap" where
  "admin_user_fields u =
     [(''id'', VInt (ui_id u)), (''email'', VStr (ui_email u)), (''username'', VStr (ui_username u)),
      (''platform_role'', VStr (ui_platform_role u)), (''suspended'', VBool (ui_suspended u)),
      (''created_at'', VTime (ui_created_at u))]"

definition admin_user_json :: "user_detail \<Rightarrow> gov" where
  "admin_user_json u =
     VObj (admin_user_fields u @ [(''workspace_count'', VInt (ud_workspace_count u)), (''app_count'', VInt (ud_app_count u))])"

definition admin_workspace_fields :: "'a workspace_item_scheme \<Rightarrow> gomap" where
  "admin_workspace_fields w =
     [(''id'', VInt (wi_id w)), (''name'', VStr (wi_name w)), (''slug'', VStr (wi_slug w)),
      (''owner_id'', VInt (wi_owner_id w)), (''created_at'', VTime (wi_created_at w))]"

definition admin_workspace_json :: "workspace_detail \<Rightarrow> gov" where
  "admin_workspace_json w =
     VObj (admin_workspace_fields w @ [(''member_count'', VInt (wd_member_count w)), (''channel_count'', VInt (wd_channel_count w))])"

definition admin_app_json :: "app_item \<Rightarrow> gov" where
  "admin_app_json a =
     VObj [(''id'', VInt (Platform_Admin.ai_id a)), (''name'', VStr (ai_name a)), (''slug'', VStr (ai_slug a)),
           (''workspace_id'', VInt (ai_workspace_id a)), (''sandbox_workspace_id'', VInt (ai_sandbox_workspace_id a)),
           (''owner_id'', VInt (ai_owner_id a)), (''owner_email'', VStr (ai_owner_email a)),
           (''created_at'', VTime (ai_created_at a))]"

definition admin_key_json :: "key_item \<Rightarrow> gov" where
  "admin_key_json k =
     VObj ([(''id'', VInt (ki_id k)), (''app_id'', VInt (ki_app_id k)), (''name'', VStr (ki_name k)),
            (''key_prefix'', VStr (ki_key_prefix k)), (''is_sandbox'', VBool (ki_is_sandbox k)),
            (''created_at'', VTime (ki_created_at k))] @
           opt_time ''revoked_at'' (ki_revoked_at k) @ opt_time ''last_used_at'' (ki_last_used k))"

definition admin_member_json :: "member_item \<Rightarrow> gov" where
  "admin_member_json m =
     VObj [(''id'', VInt (mi_id m)), (''user_id'', VInt (mi_user_id m)), (''username'', VStr (mi_username m)),
           (''email'', VStr (mi_email m)), (''role'', VStr (mi_role m)), (''created_at'', VTime (mi_created_at m))]"

definition opt_int :: "string \<Rightarrow> int option \<Rightarrow> gomap" where
  "opt_int k n = (case n of None \<Rightarrow> [] | Some n \<Rightarrow> [(k, VInt n)])"

definition admin_audit_json :: "audit_item \<Rightarrow> gov" where
  "admin_audit_json l =
     VObj ((''id'', VInt (li_id l)) # opt_int ''user_id'' (li_user_id l) @ omit_empty ''username'' (li_username l) @
           opt_int ''app_id'' (li_app_id l) @
           [(''action'', VStr (li_action l)), (''method'', VStr (li_method l)), (''path'', VStr (li_path l))] @
           (case li_ip_address l of None \<Rightarrow> [] | Some ip \<Rightarrow> [(''ip_address'', VStr ip)]) @
           opt_int ''status_code'' (li_status_code l) @ [(''created_at'', VTime (li_created_at l))])"

definition dec_update_user :: "gov \<Rightarrow> (string option \<times> bool option) option" where
  "dec_update_user = dec_struct (\<lambda>obj.
     with_field obj ''platform_role'' (dec_pointer dec_str) (\<lambda>role.
     with_field obj ''suspended'' (dec_pointer dec_bool) (\<lambda>suspended. Some (role, suspended))))"

definition admin_handle_Overview :: json_handler where
  "admin_handle_Overview sv body r c =
     serve admin_GetOverview (\<lambda>_. WriteInternal) c (\<lambda>(u, w, a).
     reply_with sv 200 (VObj [(''users'', VInt u), (''workspaces'', VInt w), (''apps'', VInt a)]) c)"

definition admin_handle_ListUsers :: json_handler where
  "admin_handle_ListUsers sv body r c =
     serve (admin_ListUsers (rq_query r ''search'') (fst (admin_page r)) (snd (admin_page r))) (\<lambda>_. WriteInternal) c (\<lambda>us.
     reply_with sv 200 (VObj [(''users'', VList (map (VObj \<circ> admin_user_fields) us))]) c)"

definition admin_handle_GetUser :: json_handler where
  "admin_handle_GetUser sv body r c =
     parseID ''id'' r c (\<lambda>uid.
     serve (admin_GetUser uid) admin_writeError c (\<lambda>u. reply_with sv 200 (admin_user_json u) c))"

definition admin_handle_UpdateUser :: json_handler where
  "admin_handle_UpdateUser sv body r c =
     parseID ''id'' r c (\<lambda>uid.
     bind_json dec_update_user ''invalid request body'' body c (\<lambda>(role, suspended).
     must_user c (\<lambda>actor.
     serve (admin_UpdateUser actor uid role suspended) admin_writeError c (\<lambda>u. reply_with sv 200 (admin_user_json u) c))))"

definition admin_handle_ListWorkspaces :: json_handler where
  "admin_handle_ListWorkspaces sv body r c =
     serve (admin_ListWorkspaces (fst (admin_page r)) (snd (admin_page r))) (\<lambda>_. WriteInternal) c (\<lambda>ws.
     reply_with sv 200 (VObj [(''workspaces'', VList (map (VObj \<circ> admin_workspace_fields) ws))]) c)"

definition admin_handle_GetWorkspace :: json_handler where
  "admin_handle_GetWorkspace sv body r c =
     parseID ''id'' r c (\<lambda>ws.
     serve (admin_GetWorkspace ws) admin_writeError c (\<lambda>w. reply_with sv 200 (admin_workspace_json w) c))"

definition admin_handle_ListApps :: json_handler where
  "admin_handle_ListApps sv body r c =
     serve (admin_ListApps (fst (admin_page r)) (snd (admin_page r))) (\<lambda>_. WriteInternal) c (\<lambda>as.
     reply_with sv 200 (VObj [(''apps'', VList (map admin_app_json as))]) c)"

definition admin_handle_GetApp :: json_handler where
  "admin_handle_GetApp sv body r c =
     parseID ''app_id'' r c (\<lambda>app.
     serve (admin_GetApp app) admin_writeError c (\<lambda>a. reply_with sv 200 (admin_app_json a) c))"

definition admin_handle_ListKeys :: json_handler where
  "admin_handle_ListKeys sv body r c =
     parseID ''app_id'' r c (\<lambda>app.
     serve (admin_ListAppKeys app) admin_writeError c (\<lambda>ks.
     reply_with sv 200 (VObj [(''keys'', VList (map admin_key_json ks))]) c))"

definition admin_handle_RevokeKey :: json_handler where
  "admin_handle_RevokeKey sv body r c =
     parseID ''app_id'' r c (\<lambda>app.
     parseID ''key_id'' r c (\<lambda>key.
     serve (admin_RevokeAppKey app key) admin_writeError c (\<lambda>_. status_reply 204 c)))"

definition admin_handle_ListMembers :: json_handler where
  "admin_handle_ListMembers sv body r c =
     parseID ''id'' r c (\<lambda>ws.
     serve (admin_ListWorkspaceMembers ws) admin_writeError c (\<lambda>ms.
     reply_with sv 200 (VObj [(''members'', VList (map admin_member_json ms))]) c))"

definition admin_handle_ListAudit :: json_handler where
  "admin_handle_ListAudit sv body r c =
     (let raw = TrimSpace (rq_query r ''user_id'');
          go = (\<lambda>uid. serve (admin_ListAuditLogs uid (rq_query r ''action'') (fst (admin_page r)) (snd (admin_page r)))
                  (\<lambda>_. WriteInternal) c (\<lambda>ls.
                  reply_with sv 200 (VObj [(''audit_logs'', VList (map admin_audit_json ls))]) c))
      in if raw = [] then go None
         else case ParseInt raw of
                None \<Rightarrow> error_reply (400, Sanitize ''invalid user_id'') c
              | Some uid \<Rightarrow> go (Some uid))"

section \<open>developerapi\<close>

definition must_app :: "ctx \<Rightarrow> (runtime_app \<Rightarrow> (response \<times> ctx) prog) \<Rightarrow> (response \<times> ctx) prog" where
  "must_app c k =
     (case cx_app c of
        None \<Rightarrow> go_panic
      | Some app \<Rightarrow>
          (let sandbox = (case cx_is_sandbox c of None \<Rightarrow> False | Some b \<Rightarrow> b) in
           k \<lparr>run_app = app, run_workspace = a_workspace_id app, run_sandbox = sandbox,
              run_env = EnvironmentFromSandbox sandbox\<rparr>))"

definition devapi_user_json :: "user_response \<Rightarrow> gov" where
  "devapi_user_json u =
     VObj [(''id'', VInt (ur_id u)), (''external_id'', VStr (ur_external_id u)), (''email'', VStr (ur_email u)),
           (''username'', VStr (ur_username u))]"

definition devapi_session_json :: "session_response \<Rightarrow> gov" where
  "devapi_session_json x =
     VObj ([(''token'', VStr (sr_token x)), (''workspace_id'', VInt (sr_workspace_id x)),
            (''environment'', VStr (sr_environment x))] @
           (if sr_channel_id x = 0 then [] else [(''channel_id'', VInt (sr_channel_id x))]) @
           [(''user'', devapi_user_json (sr_user x))])"

definition devapi_channel_json :: "channel_response \<Rightarrow> gov" where
  "devapi_channel_json x =
     VObj [(''id'', VInt (chr_id x)), (''name'', VStr (chr_name x)), (''workspace_id'', VInt (chr_workspace_id x)),
           (''is_read_only'', VBool (chr_is_read_only x))]"

definition dec_session :: "gov \<Rightarrow> (string \<times> int) option" where
  "dec_session = dec_struct (\<lambda>obj.
     with_field obj ''external_id'' dec_str (\<lambda>ext. with_field obj ''channel_id'' (dec_int 64) (\<lambda>ch. Some (ext, ch))))"

definition dec_provision :: "gov \<Rightarrow> (string \<times> string \<times> string) option" where
  "dec_provision = dec_struct (\<lambda>obj.
     with_field obj ''external_id'' dec_str (\<lambda>ext. with_field obj ''email'' dec_str (\<lambda>email.
     with_field obj ''username'' dec_str (\<lambda>name. Some (ext, email, name)))))"

definition dec_devapi_message :: "gov \<Rightarrow> (int \<times> int \<times> string \<times> string) option" where
  "dec_devapi_message = dec_struct (\<lambda>obj.
     with_field obj ''channel_id'' (dec_int 64) (\<lambda>ch. with_field obj ''user_id'' (dec_int 64) (\<lambda>uid.
     with_field obj ''external_id'' dec_str (\<lambda>ext. with_field obj ''content'' dec_str (\<lambda>content.
     Some (ch, uid, ext, content))))))"

definition server_devapi :: "server \<Rightarrow> devapi_service" where
  "server_devapi sv = devapi_wired (sv_sandbox sv)"

definition devapi_handle_CreateSession :: json_handler where
  "devapi_handle_CreateSession sv body r c =
     bind_json dec_session ''invalid request body'' body c (\<lambda>(ext, ch).
     must_app c (\<lambda>rt.
     serve (devapi_CreateSession (sv_jwt sv) (sv_getenv sv) (sv_uuid sv) rt ext ch) devapi_writeError c (\<lambda>x.
     reply_with sv 200 (devapi_session_json x) c)))"

definition devapi_handle_ProvisionUser :: json_handler where
  "devapi_handle_ProvisionUser sv body r c =
     bind_json dec_provision ''invalid request body'' body c (\<lambda>(ext, email, name).
     must_app c (\<lambda>rt.
     serve (devapi_ProvisionUser (server_devapi sv) (sv_crypto sv) (sv_random sv) rt ext email name) devapi_writeError c (\<lambda>u.
     reply_with sv 201 (devapi_user_json u) c)))"

definition devapi_handle_CreateChannel :: json_handler where
  "devapi_handle_CreateChannel sv body r c =
     bind_json dec_create_channel ''invalid request body'' body c (\<lambda>(name, ro).
     must_app c (\<lambda>rt.
     serve (devapi_CreateChannel (server_devapi sv) rt name ro) devapi_writeError c (\<lambda>x.
     reply_with sv 201 (devapi_channel_json x) c)))"

definition devapi_handle_SendMessage :: json_handler where
  "devapi_handle_SendMessage sv body r c =
     bind_json dec_devapi_message ''invalid request body'' body c (\<lambda>(ch, uid, ext, content).
     must_app c (\<lambda>rt.
     serve (devapi_SendMessage (server_devapi sv) rt ch uid ext content) devapi_writeError c (\<lambda>m.
     reply_with sv 201 (message_json m) c)))"

definition devapi_handle_ListMessages :: json_handler where
  "devapi_handle_ListMessages sv body r c =
     (case ParseInt (rq_query r ''channel_id'') of
        None \<Rightarrow> error_reply (400, ''channel_id is required'') c
      | Some ch \<Rightarrow>
          if ch \<le> 0 then error_reply (400, ''channel_id is required'') c
          else must_app c (\<lambda>rt.
            serve (devapi_ListMessages rt ch (ParseInt32_value (DefaultQuery r ''limit'' ''50''))
                     (ParseInt32_value (DefaultQuery r ''offset'' ''0''))) devapi_writeError c (\<lambda>rows.
            reply_with sv 200 (VObj [(''messages'', VList (map message_item_json rows))]) c)))"

end
