(* ===== verification/Server.thy ===== *)
theory Server
  imports Admin_Handlers
begin

text \<open>
  The router of \<open>cmd/api/main.go\<close>: the chain of middleware before a handler, and which handler answers a route. The
  handlers of presence, of the web socket, of origins and of Stripe's webhook run over more than the world of the
  services; those of \<open>health\<close>, \<open>version\<close> and \<open>metrics\<close> have no model. The outermost middleware, which only sets headers,
  counts, or bounds the body, is left out of the chain, and so is the answer to a preflight request.
\<close>

section \<open>The chain\<close>

text \<open>What the limiters answer at this moment.\<close>

record limiters =
  lm_ip :: "(string \<Rightarrow> bool) option"
  lm_live :: "(string \<Rightarrow> bool) option"
  lm_sandbox :: "(string \<Rightarrow> bool) option"

definition group_chain :: "server \<Rightarrow> limiters \<Rightarrow> access \<Rightarrow> handler \<Rightarrow> handler" where
  "group_chain sv lim a h =
     gated (gates_for (sv_jwt sv) (sv_sha256 sv) (lm_live lim) (lm_sandbox lim) a)
       (if a = ApiClient then IdempotencyMiddleware h else h)"

definition server_chain :: "server \<Rightarrow> limiters \<Rightarrow> access \<Rightarrow> handler \<Rightarrow> handler" where
  "server_chain sv lim a h =
     gated [IPRateLimitMiddleware (lm_ip lim)]
       (AuditMiddleware (gated [MaintenanceMiddleware] (group_chain sv lim a h)))"

definition public_handlers :: "((string \<times> string) \<times> json_handler) list" where
  "public_handlers =
     [((''GET'', ''/api/plans''), billing_handle_ListPlans), ((''GET'', ''/api/platform/status''), billing_handle_Status),
      ((''POST'', ''/auth/register''), auth_handle_register_request), ((''POST'', ''/auth/login''), auth_handle_login_request),
      ((''POST'', ''/auth/refresh''), auth_handle_Refresh)]"

definition user_handlers :: "((string \<times> string) \<times> json_handler) list" where
  "user_handlers =
     [((''POST'', ''/api/uploads''), attachments_handle_CreateUpload), ((''GET'', ''/api/notifications''), notifications_handle_List),
      ((''PATCH'', ''/api/notifications/:id/read''), notifications_handle_MarkRead),
      ((''POST'', ''/api/notifications/read-all''), notifications_handle_MarkAllRead),
      ((''POST'', ''/api/calls/:id/join''), calls_handle_Join), ((''POST'', ''/api/calls/:id/leave''), calls_handle_Leave),
      ((''POST'', ''/api/workspaces''), workspaces_handle_Create), ((''GET'', ''/api/workspaces''), workspaces_handle_List),
      ((''GET'', ''/api/workspaces/:workspace_id''), workspaces_handle_Get),
      ((''GET'', ''/api/users/me''), users_handle_Me), ((''PATCH'', ''/api/users/me''), users_handle_UpdateMe),
      ((''PATCH'', ''/api/users/me/password''), users_handle_ChangePassword),
      ((''POST'', ''/api/apps''), apps_handle_Create), ((''GET'', ''/api/apps''), apps_handle_List),
      ((''GET'', ''/api/apps/:app_id''), apps_handle_Get), ((''POST'', ''/api/apps/:app_id/keys''), apps_handle_CreateKey),
      ((''GET'', ''/api/apps/:app_id/keys''), apps_handle_ListKeys),
      ((''DELETE'', ''/api/apps/:app_id/keys/:key_id''), apps_handle_RevokeKey),
      ((''POST'', ''/api/apps/:app_id/webhooks''), apps_handle_CreateWebhook),
      ((''GET'', ''/api/apps/:app_id/webhooks''), apps_handle_ListWebhooks),
      ((''DELETE'', ''/api/apps/:app_id/webhooks/:webhook_id''), apps_handle_DeleteWebhook),
      ((''GET'', ''/api/billing''), billing_handle_Account), ((''POST'', ''/api/billing/checkout''), billing_handle_Checkout)]"

definition workspace_handlers :: "((string \<times> string) \<times> json_handler) list" where
  "workspace_handlers =
     [((''GET'', ''/api/workspaces/:workspace_id/members''), workspaces_handle_ListMembers),
      ((''POST'', ''/api/workspaces/:workspace_id/members''), workspaces_handle_AddMember),
      ((''DELETE'', ''/api/workspaces/:workspace_id/members/:user_id''), workspaces_handle_RemoveMember),
      ((''PATCH'', ''/api/workspaces/:workspace_id/members/:user_id''), workspaces_handle_UpdateMemberRole),
      ((''POST'', ''/api/workspaces/:workspace_id/channels''), channels_handle_Create),
      ((''GET'', ''/api/workspaces/:workspace_id/channels''), channels_handle_Get),
      ((''POST'', ''/api/workspaces/:workspace_id/channels/:id/join''), channels_handle_Join),
      ((''POST'', ''/api/workspaces/:workspace_id/channels/:id/leave''), channels_handle_Leave),
      ((''POST'', ''/api/workspaces/:workspace_id/channels/:id/messages''), chat_handle_CreateMessage),
      ((''GET'', ''/api/workspaces/:workspace_id/channels/:id/messages''), chat_handle_GetMessages),
      ((''POST'', ''/api/workspaces/:workspace_id/channels/:id/messages/:message_id/attachments''), attachments_handle_Attach),
      ((''GET'', ''/api/workspaces/:workspace_id/channels/:id/messages/:message_id/attachments''), attachments_handle_List),
      ((''GET'', ''/api/workspaces/:workspace_id/channels/:id/messages/:message_id/attachments/:attachment_id/content''),
       attachments_handle_Download),
      ((''POST'', ''/api/workspaces/:workspace_id/channels/:id/calls''), calls_handle_Initiate)]"

definition admin_handlers :: "((string \<times> string) \<times> json_handler) list" where
  "admin_handlers =
     [((''GET'', ''/api/admin/overview''), admin_handle_Overview), ((''GET'', ''/api/admin/users''), admin_handle_ListUsers),
      ((''GET'', ''/api/admin/users/:id''), admin_handle_GetUser), ((''PATCH'', ''/api/admin/users/:id''), admin_handle_UpdateUser),
      ((''GET'', ''/api/admin/users/:id/billing''), billing_handle_UserBilling),
      ((''PATCH'', ''/api/admin/users/:id/subscription''), billing_handle_UpdateSubscription),
      ((''GET'', ''/api/admin/workspaces''), admin_handle_ListWorkspaces),
      ((''GET'', ''/api/admin/workspaces/:id''), admin_handle_GetWorkspace),
      ((''GET'', ''/api/admin/workspaces/:id/members''), admin_handle_ListMembers),
      ((''GET'', ''/api/admin/apps''), admin_handle_ListApps), ((''GET'', ''/api/admin/apps/:app_id''), admin_handle_GetApp),
      ((''GET'', ''/api/admin/apps/:app_id/keys''), admin_handle_ListKeys),
      ((''DELETE'', ''/api/admin/apps/:app_id/keys/:key_id''), admin_handle_RevokeKey),
      ((''GET'', ''/api/admin/audit-logs''), admin_handle_ListAudit),
      ((''GET'', ''/api/admin/billing/overview''), billing_handle_Overview),
      ((''GET'', ''/api/admin/billing/subscriptions''), billing_handle_ListSubscriptions),
      ((''GET'', ''/api/admin/platform-settings''), billing_handle_Settings),
      ((''PATCH'', ''/api/admin/platform-settings''), billing_handle_UpdateSettings),
      ((''GET'', ''/api/admin/plans''), billing_handle_AdminListPlans), ((''POST'', ''/api/admin/plans''), billing_handle_CreatePlan),
      ((''PATCH'', ''/api/admin/plans/:slug''), billing_handle_UpdatePlan),
      ((''DELETE'', ''/api/admin/plans/:slug''), billing_handle_DeletePlan)]"

definition client_handlers :: "((string \<times> string) \<times> json_handler) list" where
  "client_handlers =
     [((''POST'', ''/v1/users''), devapi_handle_ProvisionUser), ((''POST'', ''/v1/sessions''), devapi_handle_CreateSession),
      ((''POST'', ''/v1/channels''), devapi_handle_CreateChannel), ((''POST'', ''/v1/messages''), devapi_handle_SendMessage),
      ((''GET'', ''/v1/messages''), devapi_handle_ListMessages)]"

definition handlers :: "((string \<times> string) \<times> json_handler) list" where
  "handlers = public_handlers @ user_handlers @ workspace_handlers @ admin_handlers @ client_handlers"

text \<open>The routes of the table are those of the router, but for those named above.\<close>

definition other_routes :: "(string \<times> string) list" where
  "other_routes =
     [(''GET'', ''/health''), (''GET'', ''/version''), (''GET'', ''/metrics''), (''POST'', ''/webhooks/stripe''),
      (''GET'', ''/api/workspaces/:workspace_id/presence''), (''GET'', ''/api/presence''), (''GET'', ''/api/users/me/status''),
      (''PATCH'', ''/api/users/me/status''), (''GET'', ''/api/ws''), (''PATCH'', ''/api/apps/:app_id/origins'')]"

lemma routes_in_pieces:
  "map (\<lambda>(meth, path, a). (meth, path)) routes =
     take 3 other_routes @ take 2 (map fst public_handlers) @ take 1 (drop 3 other_routes) @ drop 2 (map fst public_handlers) @
     take 9 (map fst user_handlers) @ take 4 (map fst workspace_handlers) @ take 1 (drop 4 other_routes) @
     drop 4 (map fst workspace_handlers) @ take 1 (drop 5 other_routes) @ take 3 (drop 9 (map fst user_handlers)) @
     take 3 (drop 6 other_routes) @ take 3 (drop 12 (map fst user_handlers)) @ drop 9 other_routes @
     drop 15 (map fst user_handlers) @ map fst admin_handlers @ map fst client_handlers"
  unfolding routes_def other_routes_def public_handlers_def user_handlers_def workspace_handlers_def admin_handlers_def
    client_handlers_def
  by simp

lemma mset_take_drop: "n \<le> m \<Longrightarrow> mset (take (m - n) (drop n xs)) + mset (drop m xs) = mset (drop n xs)"
  by (metis append_take_drop_id drop_drop le_add_diff_inverse2 mset_append)

lemma handlers_complete:
  "mset (map (\<lambda>(meth, path, a). (meth, path)) routes) = mset (map fst handlers) + mset other_routes"
proof -
  note split = mset_take_drop [symmetric]
  have O: "mset other_routes = mset (take 3 other_routes) + (mset (take 1 (drop 3 other_routes)) +
      (mset (take 1 (drop 4 other_routes)) + (mset (take 1 (drop 5 other_routes)) + (mset (take 3 (drop 6 other_routes)) +
       mset (drop 9 other_routes)))))"
    using split [of 0 3 other_routes] split [of 3 4 other_routes] split [of 4 5 other_routes] split [of 5 6 other_routes]
      split [of 6 9 other_routes] by simp
  have P: "mset (map fst public_handlers) = mset (take 2 (map fst public_handlers)) + mset (drop 2 (map fst public_handlers))"
    using split [of 0 2 "map fst public_handlers"] by simp
  have U: "mset (map fst user_handlers) = mset (take 9 (map fst user_handlers)) +
      (mset (take 3 (drop 9 (map fst user_handlers))) + (mset (take 3 (drop 12 (map fst user_handlers))) +
       mset (drop 15 (map fst user_handlers))))"
    using split [of 0 9 "map fst user_handlers"] split [of 9 12 "map fst user_handlers"]
      split [of 12 15 "map fst user_handlers"] by simp
  have W: "mset (map fst workspace_handlers) = mset (take 4 (map fst workspace_handlers)) + mset (drop 4 (map fst workspace_handlers))"
    using split [of 0 4 "map fst workspace_handlers"] by simp
  show ?thesis unfolding routes_in_pieces handlers_def mset_append map_append P U W O
    by (simp only: ac_simps)
qed

section \<open>Requests that are turned away\<close>

text \<open>
  \<open>answers m Q\<close>: the program returns a value with \<open>Q\<close> whatever its statements meet, and changes neither tables nor
  events.
\<close>

definition answers :: "'a prog \<Rightarrow> ('a \<Rightarrow> bool) \<Rightarrow> bool" where
  "answers m Q \<longleftrightarrow> (\<forall>s. \<exists>x s'. m s = (Inr x, s') \<and> db s' = db s \<and> outbox s' = outbox s \<and> Q x)"

definition silent_read :: "'a prog \<Rightarrow> bool" where
  "silent_read m \<longleftrightarrow> (\<forall>s. db (snd (m s)) = db s \<and> outbox (snd (m s)) = outbox s)"

lemma reader_silent_read: "reader q f \<Longrightarrow> silent_read q"
  by (simp add: reader_def silent_read_def)

lemma answers_ret: "Q x \<Longrightarrow> answers (ret x) Q"
  by (simp add: answers_def ret_def)

lemma answers_attempt:
  assumes "silent_read q" and "\<And>e. answers (h e) Q" and "\<And>x. answers (k x) Q"
  shows "answers (attempt q h k) Q"
  unfolding answers_def
proof
  fix s
  obtain r s1 where q: "q s = (r, s1)" by (cases "q s")
  then have same: "db s1 = db s" "outbox s1 = outbox s" using assms(1) unfolding silent_read_def by (metis snd_conv)+
  show "\<exists>x s'. attempt q h k s = (Inr x, s') \<and> db s' = db s \<and> outbox s' = outbox s \<and> Q x"
  proof (cases r)
    case (Inl e)
    then show ?thesis using assms(2) [of e] q same unfolding answers_def attempt_def by (auto dest!: spec [of _ s1])
  next
    case (Inr x)
    then show ?thesis using assms(3) [of x] q same unfolding answers_def attempt_def by (auto dest!: spec [of _ s1])
  qed
qed

lemma answers_andthen:
  assumes "answers q P" and "\<And>x. P x \<Longrightarrow> answers (k x) Q"
  shows "answers (andthen q k) Q"
  unfolding answers_def
proof
  fix s
  obtain x s1 where q: "q s = (Inr x, s1)" "db s1 = db s" "outbox s1 = outbox s" "P x"
    using assms(1) unfolding answers_def by blast
  then show "\<exists>x s'. andthen q k s = (Inr x, s') \<and> db s' = db s \<and> outbox s' = outbox s \<and> Q x"
    using assms(2) [OF q(4)] unfolding answers_def andthen_def attempt_def by (auto dest!: spec [of _ s1])
qed

lemma answers_weaken: "answers m P \<Longrightarrow> (\<And>x. P x \<Longrightarrow> Q x) \<Longrightarrow> answers m Q"
  unfolding answers_def by blast

lemma silent_ValidateAccessToken: "silent_read (auth_ValidateAccessToken lib token)"
  unfolding silent_read_def
proof
  fix s
  show "db (snd (auth_ValidateAccessToken lib token s)) = db s \<and> outbox (snd (auth_ValidateAccessToken lib token s)) = outbox s"
  proof (cases "ValidateToken lib (now s) token")
    case (Inl e)
    then show ?thesis by (simp add: auth_ValidateAccessToken_def fail_def)
  next
    case (Inr c)
    obtain q where "reader q (token_result c)" "auth_ValidateAccessToken lib token s = q s"
      using ValidateAccessToken_eq [OF Inr] by blast
    then show ?thesis using reader_silent_read [of q] unfolding silent_read_def by simp
  qed
qed

text \<open>A gate that reads passes a context with \<open>P\<close>, or stops with one of the statuses.\<close>

definition passes :: "int set \<Rightarrow> (ctx \<Rightarrow> bool) \<Rightarrow> gate_result \<Rightarrow> bool" where
  "passes st P res \<longleftrightarrow> (case res of Pass c \<Rightarrow> P c | Stop status _ \<Rightarrow> status \<in> st)"

lemma passes_simps [simp]: "passes st P (Pass c) \<longleftrightarrow> P c" "passes st P (Stop status m) \<longleftrightarrow> status \<in> st"
  by (simp_all add: passes_def)

lemma Auth_answers: "answers (AuthMiddleware lib r c) (passes {401} (\<lambda>c'. cx_user_id c' \<noteq> None))"
  unfolding AuthMiddleware_def Let_def
  by (auto intro!: answers_ret answers_attempt silent_ValidateAccessToken split: prod.split)

lemma embed_guard_answers: "cx_user_id c \<noteq> None \<Longrightarrow> answers (embed_guard raw r c) (passes {400, 403} (\<lambda>_. True))"
  unfolding embed_guard_def Let_def
  by (auto intro!: answers_ret answers_attempt reader_silent_read reader_GetAppByID split: option.split)

lemma EmbedWorkspace_answers:
  "cx_user_id c \<noteq> None \<Longrightarrow> answers (EmbedWorkspaceGuard r c) (passes {400, 403} (\<lambda>_. True))"
  "cx_user_id c \<noteq> None \<Longrightarrow> answers (EmbedWorkspaceQueryGuard r c) (passes {400, 403} (\<lambda>_. True))"
  unfolding EmbedWorkspaceGuard_def EmbedWorkspaceQueryGuard_def by (rule embed_guard_answers, assumption)+

lemma PlatformUser_answers:
  "cx_user_id c \<noteq> None \<Longrightarrow> answers (PlatformUserMiddleware r c) (passes {401, 403} (\<lambda>c'. cx_user_id c' \<noteq> None))"
  unfolding PlatformUserMiddleware_def
  by (auto intro!: answers_ret answers_attempt reader_silent_read reader_GetUserAuthState split: option.split)

lemma RequirePlatformRole_answers:
  "cx_user_id c \<noteq> None \<Longrightarrow> answers (RequirePlatformRole role r c) (passes {403} (\<lambda>c'. cx_user_id c' \<noteq> None))"
  unfolding RequirePlatformRole_def by (auto intro!: answers_ret)

lemma IPRateLimit_answers: "answers (IPRateLimitMiddleware lim r c) (passes {429} (\<lambda>c'. c' = c))"
  unfolding IPRateLimitMiddleware_def by (auto intro!: answers_ret split: option.split)

lemma silent_read_rules:
  "silent_read (ret x)" "silent_read (fail e)"
  "silent_read q \<Longrightarrow> (\<And>e. silent_read (h e)) \<Longrightarrow> (\<And>x. silent_read (k x)) \<Longrightarrow> silent_read (attempt q h k)"
  unfolding silent_read_def attempt_def ret_def fail_def by (auto split: prod.split sum.split) (metis snd_conv)+

lemma silent_GetPlatformSetting: "silent_read (exec (GetPlatformSetting k))"
  by (rule reader_silent_read [OF reader_GetPlatformSetting])

lemma silent_setting: "silent_read (billing_getBoolSetting k)"
  unfolding billing_getBoolSetting_def
  by (auto intro!: silent_read_rules silent_GetPlatformSetting)

lemma silent_status: "silent_read billing_IsMaintenanceMode"
  unfolding billing_IsMaintenanceMode_def billing_GetPlatformStatus_def andthen_def
  by (intro silent_read_rules silent_setting silent_GetPlatformSetting)

lemma Maintenance_answers: "answers (MaintenanceMiddleware r c) (passes {503} (\<lambda>c'. c' = c))"
  unfolding MaintenanceMiddleware_def
  by (auto intro!: answers_ret answers_attempt silent_status split: prod.split)

lemma answers_through_Nil: "answers (through [] r c) (\<lambda>(res, _). passes st (\<lambda>_. True) res)"
  by (simp add: answers_ret)

lemma answers_through_Cons:
  assumes "answers (g r c) (passes st0 P)" and "st0 \<subseteq> st"
    and "\<And>c2. P c2 \<Longrightarrow> answers (through gs r c2) (\<lambda>(res, _). passes st (\<lambda>_. True) res)"
  shows "answers (through (g # gs) r c) (\<lambda>(res, _). passes st (\<lambda>_. True) res)"
  unfolding through.simps
proof (rule answers_andthen [OF assms(1)])
  fix res assume "passes st0 P res"
  then show "answers (case res of Pass c2 \<Rightarrow> through gs r c2 | Stop status message \<Rightarrow> ret (Stop status message, c))
      (\<lambda>(res, _). passes st (\<lambda>_. True) res)"
    using assms(2,3) by (cases res) (auto intro!: answers_ret)
qed

lemma session_gates_answer:
  assumes "a \<noteq> ApiClient"
  shows "answers (through (gates_for lib sha256 lv sb a) r empty_ctx) (\<lambda>(res, _). passes {400, 401, 403, 429} (\<lambda>_. True) res)"
  using assms
  by (cases a) (simp_all only: gates_for.simps simp_thms access.distinct RequirePlatformWrite_def,
    auto intro!: answers_through_Cons [OF Auth_answers] answers_through_Cons [OF EmbedWorkspace_answers(1)]
      answers_through_Cons [OF EmbedWorkspace_answers(2)]
      answers_through_Cons [OF PlatformUser_answers] answers_through_Cons [OF RequirePlatformRole_answers] answers_through_Nil
      simp del: through.simps)

lemma key_reads_keep:
  "exec (GetAPIKeyByPrefix p) s = (res, s') \<Longrightarrow> db s' = db s \<and> outbox s' = outbox s"
  "exec (GetAppByID i) s = (res2, s') \<Longrightarrow> db s' = db s \<and> outbox s' = outbox s"
  using readerD [OF reader_GetAPIKeyByPrefix, of p s res s'] readerD [OF reader_GetAppByID, of i s res2 s'] by blast+

lemma Authenticate_error: "apps_AuthenticateAPIKey sha256 key s = (Inl e, s') \<Longrightarrow> db s' = db s \<and> outbox s' = outbox s"
  unfolding apps_AuthenticateAPIKey_def
  by (auto simp: attempt_eq andthen_ignoring split: if_splits dest!: key_reads_keep)

lemma through_one: "g r c s = (Inr (Stop st m), s') \<Longrightarrow> through (g # gs) r c s = (Inr (Stop st m, c), s')"
  by (simp add: andthen_def attempt_def ret_def)

text \<open>Whoever is not admitted is stopped, and nothing has changed by then.\<close>

lemma stranger_stopped:
  assumes "\<forall>c. \<not> admitted lib sha256 a s r c"
  shows "\<exists>st m c s'. through (gates_for lib sha256 lv sb a) r empty_ctx s = (Inr (Stop st m, c), s') \<and>
    st \<in> {400, 401, 403, 429} \<and> db s' = db s \<and> outbox s' = outbox s"
proof (cases "a = ApiClient")
  case False
  obtain res c s' where run: "through (gates_for lib sha256 lv sb a) r empty_ctx s = (Inr (res, c), s')"
    "db s' = db s" "outbox s' = outbox s" "passes {400, 401, 403, 429} (\<lambda>_. True) res"
    using session_gates_answer [OF False, of lib sha256 lv sb r] unfolding answers_def by (auto dest!: spec [of _ s])
  then show ?thesis using through_admitted [of lib sha256 lv sb a r s _ c s'] assms
    by (cases res) (simp_all add: passes_def del: through.simps)
next
  case True
  have no_pass: "APIKeyMiddleware sha256 r empty_ctx s \<noteq> (Inr (Pass c), s')" for c s'
    using APIKey_passes [of sha256 r s c s'] assms True by auto
  have "\<exists>m s'. APIKeyMiddleware sha256 r empty_ctx s = (Inr (Stop 401 m), s') \<and> db s' = db s \<and> outbox s' = outbox s"
  proof (cases "extractAPIKey r")
    case None
    then show ?thesis by (simp add: APIKeyMiddleware_def ret_def)
  next
    case (Some key)
    obtain res s1 where auth: "apps_AuthenticateAPIKey sha256 key s = (res, s1)" by (cases "apps_AuthenticateAPIKey sha256 key s")
    show ?thesis
    proof (cases res)
      case (Inl e)
      then show ?thesis using Authenticate_error [of sha256 key s e s1] auth Some
        by (simp add: APIKeyMiddleware_def attempt_def ret_def)
    next
      case (Inr x)
      then have "\<exists>c. APIKeyMiddleware sha256 r empty_ctx s = (Inr (Pass c), s1)" using auth Some
        by (cases x) (simp add: APIKeyMiddleware_def attempt_def ret_def Let_def)
      then show ?thesis using no_pass by blast
    qed
  qed
  then show ?thesis using through_one [of "APIKeyMiddleware sha256" r empty_ctx s 401] True by fastforce
qed

text \<open>The tables without the audit log.\<close>

definition but_audit :: "db \<Rightarrow> db" where
  "but_audit d = d\<lparr>audit_logs := [], nextid := (nextid d)(TAudit := 0)\<rparr>"

lemma RecordAudit_leaves: "leaves but_audit (RecordAudit uid app action meth path ip status)"
  unfolding RecordAudit_def
  by (intro leaves_andthen leaves_exec leaves_ret)
    (auto simp: CreateAuditLog_def insert_into_def but_audit_def Let_def split: option.splits)

lemma outbox_andthen_ret: "outbox (snd (andthen q (\<lambda>_. ret x) s)) = outbox (snd (q s))"
  by (auto simp: andthen_def attempt_def ret_def fail_def split: prod.split sum.split)

lemma silent_exec_audit: "outbox (snd (RecordAudit uid app action meth path ip status s)) = outbox s"
  unfolding RecordAudit_def outbox_andthen_ret by (rule outbox_exec)

lemma Audit_answer:
  assumes "next r c s = (Inr (resp, c2), s1)"
  shows "\<exists>s'. AuditMiddleware next r c s = (Inr (resp, c2), s') \<and> but_audit (db s') = but_audit (db s1) \<and> outbox s' = outbox s1"
proof -
  let ?rec = "RecordAudit (cx_user_id c2) (cx_app_id c2) (auditAction (rq_full_path r)) (rq_method r) (rq_path r)
      (rq_ip r) (rs_status resp)"
  have "but_audit (db (snd (?rec s1))) = but_audit (db s1)"
    using RecordAudit_leaves unfolding leaves_def by blast
  moreover have "outbox (snd (?rec s1)) = outbox s1" by (rule silent_exec_audit)
  ultimately show ?thesis using assms by (cases "?rec s1")
    (auto simp: AuditMiddleware_def andthen_def attempt_def ret_def ignoring_def split: sum.splits)
qed

text \<open>What a stopped request is answered.\<close>

definition turned_away :: "response \<Rightarrow> bool" where
  "turned_away resp \<longleftrightarrow> rs_status resp \<in> {400, 401, 403, 429, 503} \<and> (\<exists>m. rs_body resp = ErrorBody m)"

lemma gated_Stop:
  "through gs r c s = (Inr (Stop st m, c2), s') \<Longrightarrow> gated gs h r c s = (Inr (\<lparr>rs_status = st, rs_body = ErrorBody m\<rparr>, c2), s')"
  by (simp add: gated_def andthen_def attempt_def ret_def del: through.simps)

lemma gated_Pass: "through gs r c s = (Inr (Pass c1, c2), s1) \<Longrightarrow> gated gs h r c s = h r c1 s1"
  by (simp add: gated_def andthen_def attempt_def del: through.simps)

lemma gated_single:
  "g r c s = (Inr res, s1) \<Longrightarrow>
    gated [g] h r c s =
      (case res of Pass c1 \<Rightarrow> h r c1 s1 | Stop st m \<Rightarrow> (Inr (\<lparr>rs_status = st, rs_body = ErrorBody m\<rparr>, c), s1))"
  by (cases res)
    (simp_all add: gated_def andthen_def attempt_def ret_def fail_def split: prod.split sum.split)

lemma admitted_now: "db s1 = db s \<Longrightarrow> admitted lib sha256 a s1 r c \<longleftrightarrow> admitted lib sha256 a (s\<lparr>now := now s1\<rparr>) r c"
  by (cases a) (simp_all add: signed_in_def)

lemma inner_turned_away:
  assumes "\<forall>t c. \<not> admitted (sv_jwt sv) (sv_sha256 sv) a (s\<lparr>now := t\<rparr>) r c"
  shows "\<exists>resp c' s'. gated [MaintenanceMiddleware] (group_chain sv lim a h) r empty_ctx s = (Inr (resp, c'), s') \<and>
    turned_away resp \<and> db s' = db s \<and> outbox s' = outbox s"
proof -
  obtain res s1 where gate: "MaintenanceMiddleware r empty_ctx s = (Inr res, s1)" and same: "db s1 = db s" "outbox s1 = outbox s"
    and res: "passes {503} (\<lambda>c'. c' = empty_ctx) res"
    using Maintenance_answers [of r empty_ctx] unfolding answers_def by blast
  show ?thesis
  proof (cases res)
    case (Stop st m)
    then show ?thesis using gated_single [of MaintenanceMiddleware r empty_ctx s res s1 "group_chain sv lim a h", OF gate] res same by (auto simp: turned_away_def)
  next
    case (Pass c)
    have "\<forall>c. \<not> admitted (sv_jwt sv) (sv_sha256 sv) a s1 r c" using assms admitted_now [OF same(1)] by blast
    from stranger_stopped [OF this, of "lm_live lim" "lm_sandbox lim"] obtain st m c' s' where
      stop: "through (gates_for (sv_jwt sv) (sv_sha256 sv) (lm_live lim) (lm_sandbox lim) a) r empty_ctx s1 =
          (Inr (Stop st m, c'), s')" "st \<in> {400, 401, 403, 429}" "db s' = db s1" "outbox s' = outbox s1" by blast
    then show ?thesis using gated_single [of MaintenanceMiddleware r empty_ctx s res s1 "group_chain sv lim a h", OF gate] res Pass same gated_Stop [OF stop(1)]
      by (auto simp: group_chain_def turned_away_def)
  qed
qed

text \<open>C4: Strangers change nothing. A request for a route of a group, from someone whom the gates of the group would not
  admit at any time, gets an error of a gate whatever the handler would do, also when the statements of the gates fail;
  no event is sent, and no table changes but the audit log.\<close>

theorem strangers_change_nothing:
  assumes "\<forall>t c. \<not> admitted (sv_jwt sv) (sv_sha256 sv) a (s\<lparr>now := t\<rparr>) r c"
  shows "\<exists>resp c' s'. server_chain sv lim a h r empty_ctx s = (Inr (resp, c'), s') \<and> turned_away resp \<and>
    outbox s' = outbox s \<and> but_audit (db s') = but_audit (db s)"
proof -
  obtain res s1 where gate: "IPRateLimitMiddleware (lm_ip lim) r empty_ctx s = (Inr res, s1)"
    and same: "db s1 = db s" "outbox s1 = outbox s" and res: "passes {429} (\<lambda>c'. c' = empty_ctx) res"
    using IPRateLimit_answers [of "lm_ip lim" r empty_ctx] unfolding answers_def by blast
  show ?thesis
  proof (cases res)
    case (Stop st m)
    then show ?thesis using gated_single [of "IPRateLimitMiddleware (lm_ip lim)" r empty_ctx s res s1, OF gate] res same by (auto simp: server_chain_def turned_away_def)
  next
    case (Pass c)
    have "\<forall>t c. \<not> admitted (sv_jwt sv) (sv_sha256 sv) a (s1\<lparr>now := t\<rparr>) r c"
      using assms admitted_now [of "s1\<lparr>now := t\<rparr>" s for t] same by simp
    from inner_turned_away [OF this, of lim h] obtain resp c' s2 where
      "gated [MaintenanceMiddleware] (group_chain sv lim a h) r empty_ctx s1 = (Inr (resp, c'), s2)"
      "turned_away resp" "db s2 = db s1" "outbox s2 = outbox s1" by blast
    with Audit_answer [of "gated [MaintenanceMiddleware] (group_chain sv lim a h)" r empty_ctx s1, OF this(1)] show ?thesis using gated_single [of "IPRateLimitMiddleware (lm_ip lim)" r empty_ctx s res s1, OF gate] res Pass same
      by (auto simp: server_chain_def)
  qed
qed

section \<open>What errors show\<close>

text \<open>\<open>safe_replies m\<close>: an error that is shown tells nothing about the infrastructure.\<close>

definition safe_body :: "body \<Rightarrow> bool" where
  "safe_body b \<longleftrightarrow> (\<forall>m. b = ErrorBody m \<longrightarrow> \<not> IsSensitive m)"

definition safe_replies :: "(response \<times> ctx) prog \<Rightarrow> bool" where
  "safe_replies p \<longleftrightarrow> (\<forall>s resp c s'. p s = (Inr (resp, c), s') \<longrightarrow> safe_body (rs_body resp))"

named_theorems safe \<open>rules that a program shows no sensitive error\<close>

lemma safe_bodies [simp]: "safe_body NoBody" "safe_body (Bytes b)" "safe_body (ErrorBody m) \<longleftrightarrow> \<not> IsSensitive m"
  by (simp_all add: safe_body_def)

lemma safe_ret: "safe_body (rs_body resp) \<Longrightarrow> safe_replies (ret (resp, c))"
  by (simp add: safe_replies_def)

lemma safe_bytes [safe]: "safe_replies (ret (\<lparr>rs_status = st, rs_body = Bytes b\<rparr>, c))"
  by (rule safe_ret) simp

lemma safe_panic [safe]: "safe_replies go_panic"
  by (simp add: safe_replies_def go_panic_def)

lemma safe_attempt [safe]:
  "(\<And>e. safe_replies (h e)) \<Longrightarrow> (\<And>x. safe_replies (k x)) \<Longrightarrow> safe_replies (attempt q h k)"
  unfolding safe_replies_def attempt_eq by blast

lemma safe_andthen [safe]: "(\<And>x. safe_replies (k x)) \<Longrightarrow> safe_replies (andthen q k)"
  unfolding safe_replies_def andthen_eq by blast

lemma safe_if [safe]: "safe_replies p \<Longrightarrow> safe_replies q \<Longrightarrow> safe_replies (if b then p else q)"
  by simp

lemma safe_case_prod [safe]: "(\<And>a b. safe_replies (f a b)) \<Longrightarrow> safe_replies (case x of (a, b) \<Rightarrow> f a b)"
  by (cases x) simp

lemma safe_case_option [safe]:
  "safe_replies p \<Longrightarrow> (\<And>x. safe_replies (q x)) \<Longrightarrow> safe_replies (case v of None \<Rightarrow> p | Some x \<Rightarrow> q x)"
  by (cases v) auto

lemma safe_error [safe]: "\<not> IsSensitive (snd e) \<Longrightarrow> safe_replies (error_reply e c)"
  unfolding error_reply_def by (rule safe_ret) simp

lemma safe_status [safe]: "safe_replies (status_reply st c)"
  unfolding status_reply_def by (rule safe_ret) simp

lemma safe_reply_with [safe]: "safe_replies (reply_with sv st v c)"
  unfolding reply_with_def json_reply_def by (rule safe_ret) simp

lemma safe_serve [safe]:
  "(\<And>e. \<not> IsSensitive (snd (w e))) \<Longrightarrow> (\<And>x. safe_replies (k x)) \<Longrightarrow> safe_replies (serve q w c k)"
  unfolding serve_def by (intro safe)

lemma safe_must_user [safe]: "(\<And>uid. safe_replies (k uid)) \<Longrightarrow> safe_replies (must_user c k)"
  unfolding must_user_def by (intro safe)

lemma safe_must_app [safe]: "(\<And>rt. safe_replies (k rt)) \<Longrightarrow> safe_replies (must_app c k)"
  unfolding must_app_def Let_def by (intro safe)

lemma safe_int_param [safe]:
  "\<not> IsSensitive m \<Longrightarrow> (\<And>n. safe_replies (k n)) \<Longrightarrow> safe_replies (int_param name m r c k)"
  unfolding int_param_def by (intro safe) simp_all

lemma safe_bind_json [safe]:
  "\<not> IsSensitive m \<Longrightarrow> (\<And>x. safe_replies (k x)) \<Longrightarrow> safe_replies (bind_json d m body c k)"
  unfolding bind_json_def by (intro safe) simp_all

lemma safe_literals [safe]:
  "\<not> IsSensitive ''invalid request body''" "\<not> IsSensitive ''invalid request''" "\<not> IsSensitive ''invalid workspace id''"
  "\<not> IsSensitive ''invalid channel id''" "\<not> IsSensitive ''invalid user id''" "\<not> IsSensitive ''invalid message id''"
  "\<not> IsSensitive ''invalid attachment id''" "\<not> IsSensitive ''invalid call id''" "\<not> IsSensitive ''invalid notification id''"
  "\<not> IsSensitive ''invalid app id''" "\<not> IsSensitive ''invalid key id''" "\<not> IsSensitive ''invalid webhook id''"
  "\<not> IsSensitive ''invalid id''" "\<not> IsSensitive ''token required''"
  "\<not> IsSensitive (snd (400, ''channel_id is required''))"
  by code_simp+

lemma admin_writeError_safe: "\<not> IsSensitive (snd (admin_writeError e))"
  by (simp add: admin_writeError_def Let_def ClientMessage_safe InternalMessage_safe)

lemma safe_fixed [safe]: "\<not> IsSensitive (snd WriteInternal)" "\<not> IsSensitive (snd (st, Sanitize m))"
  "\<not> IsSensitive (snd (shown_known st e known))"
  by (simp_all add: Sanitize_safe)

lemmas writers_safe_rules [safe] = writers_safe admin_writeError_safe

lemmas parse_defs = parseWorkspaceID_def parseChannelID_def parseMessageID_def parseCallID_def parseAppID_def parseID_def

lemma workspaces_replies_safe:
  "safe_replies (workspaces_handle_Create sv body r c)" "safe_replies (workspaces_handle_List sv body r c)"
  "safe_replies (workspaces_handle_Get sv body r c)" "safe_replies (workspaces_handle_ListMembers sv body r c)"
  "safe_replies (workspaces_handle_AddMember sv body r c)" "safe_replies (workspaces_handle_RemoveMember sv body r c)"
  "safe_replies (workspaces_handle_UpdateMemberRole sv body r c)"
  unfolding workspaces_handle_Create_def workspaces_handle_List_def workspaces_handle_Get_def workspaces_handle_ListMembers_def
    workspaces_handle_AddMember_def workspaces_handle_RemoveMember_def workspaces_handle_UpdateMemberRole_def
    parse_defs Let_def
  by (intro safe)+

lemma channels_replies_safe:
  "safe_replies (channels_handle_Create sv body r c)" "safe_replies (channels_handle_Get sv body r c)"
  "safe_replies (channels_handle_Join sv body r c)" "safe_replies (channels_handle_Leave sv body r c)"
  unfolding channels_handle_Create_def channels_handle_Get_def channels_handle_Join_def channels_handle_Leave_def parse_defs
    Let_def
  by (intro safe)+

lemma chat_replies_safe:
  "safe_replies (chat_handle_CreateMessage sv body r c)" "safe_replies (chat_handle_GetMessages sv body r c)"
  unfolding chat_handle_CreateMessage_def chat_handle_GetMessages_def parse_defs Let_def
  by (intro safe)+

lemma attachments_replies_safe:
  "safe_replies (attachments_handle_CreateUpload sv body r c)" "safe_replies (attachments_handle_Attach sv body r c)"
  "safe_replies (attachments_handle_List sv body r c)" "safe_replies (attachments_handle_Download sv body r c)"
  unfolding attachments_handle_CreateUpload_def attachments_handle_Attach_def attachments_handle_List_def
    attachments_handle_Download_def parse_defs Let_def
  by (intro safe)+

lemma calls_replies_safe:
  "safe_replies (calls_handle_Initiate sv body r c)" "safe_replies (calls_handle_Join sv body r c)"
  "safe_replies (calls_handle_Leave sv body r c)"
  unfolding calls_handle_Initiate_def calls_handle_Join_def calls_handle_Leave_def parse_defs Let_def
  by (intro safe)+

lemma notifications_replies_safe:
  "safe_replies (notifications_handle_List sv body r c)" "safe_replies (notifications_handle_MarkRead sv body r c)"
  "safe_replies (notifications_handle_MarkAllRead sv body r c)"
  unfolding notifications_handle_List_def notifications_handle_MarkRead_def notifications_handle_MarkAllRead_def parse_defs
    Let_def
  by (intro safe)+

lemma users_replies_safe:
  "safe_replies (users_handle_Me sv body r c)" "safe_replies (users_handle_UpdateMe sv body r c)"
  "safe_replies (users_handle_ChangePassword sv body r c)"
  unfolding users_handle_Me_def users_handle_UpdateMe_def users_handle_ChangePassword_def parse_defs Let_def
  by (intro safe)+

lemma auth_replies_safe:
  "safe_replies (auth_handle_register_request sv body r c)" "safe_replies (auth_handle_login_request sv body r c)"
  "safe_replies (auth_handle_Refresh sv body r c)"
  unfolding auth_handle_register_request_def auth_handle_login_request_def auth_handle_Refresh_def parse_defs Let_def
  by (intro safe)+

lemma apps_replies_safe:
  "safe_replies (apps_handle_Create sv body r c)" "safe_replies (apps_handle_List sv body r c)"
  "safe_replies (apps_handle_Get sv body r c)" "safe_replies (apps_handle_CreateKey sv body r c)"
  "safe_replies (apps_handle_ListKeys sv body r c)" "safe_replies (apps_handle_RevokeKey sv body r c)"
  "safe_replies (apps_handle_CreateWebhook sv body r c)" "safe_replies (apps_handle_ListWebhooks sv body r c)"
  "safe_replies (apps_handle_DeleteWebhook sv body r c)"
  unfolding apps_handle_Create_def apps_handle_List_def apps_handle_Get_def apps_handle_CreateKey_def apps_handle_ListKeys_def
    apps_handle_RevokeKey_def apps_handle_CreateWebhook_def apps_handle_ListWebhooks_def apps_handle_DeleteWebhook_def
    parse_defs Let_def
  by (intro safe)+

lemma billing_replies_safe:
  "safe_replies (billing_handle_ListPlans sv body r c)" "safe_replies (billing_handle_Status sv body r c)"
  "safe_replies (billing_handle_Account sv body r c)" "safe_replies (billing_handle_Checkout sv body r c)"
  "safe_replies (billing_handle_Overview sv body r c)" "safe_replies (billing_handle_ListSubscriptions sv body r c)"
  "safe_replies (billing_handle_UserBilling sv body r c)" "safe_replies (billing_handle_UpdateSubscription sv body r c)"
  "safe_replies (billing_handle_Settings sv body r c)" "safe_replies (billing_handle_UpdateSettings sv body r c)"
  "safe_replies (billing_handle_AdminListPlans sv body r c)" "safe_replies (billing_handle_CreatePlan sv body r c)"
  "safe_replies (billing_handle_UpdatePlan sv body r c)" "safe_replies (billing_handle_DeletePlan sv body r c)"
  unfolding billing_handle_ListPlans_def billing_handle_Status_def billing_handle_Account_def billing_handle_Checkout_def
    billing_handle_Overview_def billing_handle_ListSubscriptions_def billing_handle_UserBilling_def
    billing_handle_UpdateSubscription_def billing_handle_Settings_def billing_handle_UpdateSettings_def
    billing_handle_AdminListPlans_def billing_handle_CreatePlan_def billing_handle_UpdatePlan_def
    billing_handle_DeletePlan_def parse_defs Let_def
  by (intro safe)+

lemma admin_replies_safe:
  "safe_replies (admin_handle_Overview sv body r c)" "safe_replies (admin_handle_ListUsers sv body r c)"
  "safe_replies (admin_handle_GetUser sv body r c)" "safe_replies (admin_handle_UpdateUser sv body r c)"
  "safe_replies (admin_handle_ListWorkspaces sv body r c)" "safe_replies (admin_handle_GetWorkspace sv body r c)"
  "safe_replies (admin_handle_ListApps sv body r c)" "safe_replies (admin_handle_GetApp sv body r c)"
  "safe_replies (admin_handle_ListKeys sv body r c)" "safe_replies (admin_handle_RevokeKey sv body r c)"
  "safe_replies (admin_handle_ListMembers sv body r c)" "safe_replies (admin_handle_ListAudit sv body r c)"
  unfolding admin_handle_Overview_def admin_handle_ListUsers_def admin_handle_GetUser_def admin_handle_UpdateUser_def
    admin_handle_ListWorkspaces_def admin_handle_GetWorkspace_def admin_handle_ListApps_def admin_handle_GetApp_def
    admin_handle_ListKeys_def admin_handle_RevokeKey_def admin_handle_ListMembers_def admin_handle_ListAudit_def
    parse_defs Let_def
  by (intro safe)+

lemma devapi_replies_safe:
  "safe_replies (devapi_handle_CreateSession sv body r c)" "safe_replies (devapi_handle_ProvisionUser sv body r c)"
  "safe_replies (devapi_handle_CreateChannel sv body r c)" "safe_replies (devapi_handle_SendMessage sv body r c)"
  "safe_replies (devapi_handle_ListMessages sv body r c)"
  unfolding devapi_handle_CreateSession_def devapi_handle_ProvisionUser_def devapi_handle_CreateChannel_def
    devapi_handle_SendMessage_def devapi_handle_ListMessages_def parse_defs Let_def
  by (intro safe)+

lemmas handlers_safe = workspaces_replies_safe channels_replies_safe chat_replies_safe attachments_replies_safe calls_replies_safe notifications_replies_safe users_replies_safe auth_replies_safe apps_replies_safe billing_replies_safe admin_replies_safe devapi_replies_safe

lemma handler_safe: "(k, h) \<in> set handlers \<Longrightarrow> safe_replies (h sv body r c)"
  unfolding handlers_def public_handlers_def user_handlers_def workspace_handlers_def admin_handlers_def client_handlers_def
    set_append set_simps Un_iff insert_iff empty_iff prod.inject
  by (elim disjE conjE FalseE) (simp_all only: handlers_safe)

lemma safe_then_same:
  "safe_replies q \<Longrightarrow> safe_replies (andthen q (\<lambda>(resp, c2). andthen (k resp c2) (\<lambda>_. ret (resp, c2))))"
  unfolding safe_replies_def by (auto simp: andthen_Inr)

lemma Idempotency_safe:
  assumes "\<And>r c. safe_replies (h r c)"
  shows "safe_replies (IdempotencyMiddleware h r c)"
  unfolding IdempotencyMiddleware_def Let_def by (intro safe assms safe_then_same)

text \<open>Gates stop with fixed messages, except for maintenance.\<close>

definition safe_gate :: "gate \<Rightarrow> bool" where
  "safe_gate g \<longleftrightarrow> (\<forall>r c s st m s'. g r c s = (Inr (Stop st m), s') \<longrightarrow> \<not> IsSensitive m)"

lemma gate_literals:
  "\<not> IsSensitive ''missing auth token''" "\<not> IsSensitive ''invalid token''" "\<not> IsSensitive ''missing api key''"
  "\<not> IsSensitive ''invalid api key''" "\<not> IsSensitive ''invalid workspace_id''" "\<not> IsSensitive ''forbidden''"
  "\<not> IsSensitive ''account suspended''" "\<not> IsSensitive ''platform admin access required''"
  "\<not> IsSensitive ''rate limit exceeded''" "\<not> IsSensitive ''Platform is under maintenance''"
  by code_simp+

lemma gates_safe:
  "safe_gate (AuthMiddleware lib)" "safe_gate (APIKeyMiddleware sha256)" "safe_gate EmbedWorkspaceGuard"
  "safe_gate EmbedWorkspaceQueryGuard" "safe_gate PlatformUserMiddleware" "safe_gate (RequirePlatformRole role)"
  "safe_gate (RateLimitMiddleware lv sb)" "safe_gate (IPRateLimitMiddleware lim)"
  unfolding safe_gate_def AuthMiddleware_def APIKeyMiddleware_def EmbedWorkspaceGuard_def EmbedWorkspaceQueryGuard_def
    embed_guard_def PlatformUserMiddleware_def RequirePlatformRole_def RateLimitMiddleware_def IPRateLimitMiddleware_def
    Let_def go_panic_def
  by (auto simp: attempt_eq gate_literals split: if_splits option.splits prod.splits)

lemma through_safe:
  assumes "\<forall>g\<in>set gs. safe_gate g" and "through gs r c s = (Inr (Stop st m, c'), s')"
  shows "\<not> IsSensitive m"
  using assms
proof (induction gs arbitrary: c s)
  case (Cons g gs)
  then obtain res s1 where g: "g r c s = (Inr res, s1)"
    and k: "(case res of Pass c2 \<Rightarrow> through gs r c2 | Stop status message \<Rightarrow> ret (Stop status message, c)) s1 = (Inr (Stop st m, c'), s')"
    by (auto simp: andthen_Inr)
  show ?case
  proof (cases res)
    case (Pass c2)
    then show ?thesis using Cons.IH [of c2 s1] Cons.prems(1) k by simp
  next
    case (Stop st2 m2)
    then have "m = m2" using k by simp
    moreover have "safe_gate g" using Cons.prems(1) by simp
    ultimately show ?thesis using g Stop unfolding safe_gate_def by blast
  qed
qed simp

lemma gated_safe:
  assumes "\<forall>g\<in>set gs. safe_gate g" and "\<And>c. safe_replies (h r c)"
  shows "safe_replies (gated gs h r c)"
  unfolding safe_replies_def
proof (intro allI impI)
  fix s resp c' s' assume "gated gs h r c s = (Inr (resp, c'), s')"
  then obtain res c2 s1 where run: "through gs r c s = (Inr (res, c2), s1)"
    and k: "(case res of Pass c3 \<Rightarrow> h r c3 | Stop status message \<Rightarrow> ret (\<lparr>rs_status = status, rs_body = ErrorBody message\<rparr>, c2)) s1 = (Inr (resp, c'), s')"
    unfolding gated_def by (auto simp: andthen_Inr split: prod.splits simp del: through.simps)
  show "safe_body (rs_body resp)"
  proof (cases res)
    case (Pass c3)
    then show ?thesis using assms(2) [of c3] k unfolding safe_replies_def by auto
  next
    case (Stop st m)
    then show ?thesis using through_safe [OF assms(1), of r c s st m c2 s1] run k by auto
  qed
qed

lemma gates_for_safe: "\<forall>g\<in>set (gates_for lib sha256 lv sb a). safe_gate g"
  by (cases a) (simp_all add: gates_safe RequirePlatformWrite_def)

lemma group_safe: "(\<And>r c. safe_replies (h r c)) \<Longrightarrow> safe_replies (group_chain sv lim a h r c)"
  unfolding group_chain_def by (rule gated_safe [OF gates_for_safe]) (simp add: Idempotency_safe)

text \<open>What administrators have the platform say during maintenance.\<close>

definition maintenance_messages :: "db \<Rightarrow> string set" where
  "maintenance_messages d = ps_value ` {p \<in> set (platform_settings d). ps_key p = ''maintenance_message''}"

lemma status_message:
  assumes "billing_IsMaintenanceMode s = (Inr (mode, message), s')"
  shows "message = [] \<or> message \<in> maintenance_messages (db s)"
proof -
  obtain s1 where mode: "billing_getBoolSetting ''maintenance_mode'' s = (Inr mode, s1)"
    and get: "attempt (exec (GetPlatformSetting ''maintenance_message'')) (\<lambda>_. ret (mode, [])) (\<lambda>msg. ret (mode, msg)) s1 =
      (Inr (mode, message), s')"
    using assms unfolding billing_IsMaintenanceMode_def billing_GetPlatformStatus_def
    by (auto simp: andthen_Inr attempt_eq)
  have same: "db s1 = db s"
    using silent_setting [of "''maintenance_mode''"] mode unfolding silent_read_def by (metis snd_conv)
  show ?thesis
  proof (cases "exec (GetPlatformSetting ''maintenance_message'') s1")
    case (Pair res s2)
    show ?thesis
    proof (cases res)
      case (Inr v)
      then have "message = v" using get Pair by (simp add: attempt_def ret_def)
      then show ?thesis using reader_Inr [OF reader_GetPlatformSetting Pair [unfolded Inr]] same
        unfolding maintenance_messages_def by (auto split: option.splits dest!: find_SomeD)
    qed (use get Pair in \<open>simp add: attempt_def ret_def\<close>)
  qed
qed

lemma maintenance_stop:
  assumes "MaintenanceMiddleware r c s = (Inr (Stop st m), s')"
  shows "\<not> IsSensitive m \<or> m \<in> maintenance_messages (db s)"
proof -
  obtain mode message s1 where "billing_IsMaintenanceMode s = (Inr (mode, message), s1)"
    and m: "m = (if TrimSpace message = [] then ''Platform is under maintenance'' else message)"
    using assms unfolding MaintenanceMiddleware_def by (auto simp: attempt_eq split: if_splits prod.splits)
  have nil: "TrimSpace [] = []" by code_simp
  from status_message [OF \<open>billing_IsMaintenanceMode s = (Inr (mode, message), s1)\<close>] m nil show ?thesis
    by (cases "message = []") (auto simp: gate_literals nil)
qed

lemma Audit_inner:
  "AuditMiddleware next r c s = (Inr (resp, c2), s') \<Longrightarrow> \<exists>s1. next r c s = (Inr (resp, c2), s1)"
  unfolding AuditMiddleware_def by (auto simp: andthen_Inr split: if_splits prod.splits)


section \<open>Outsiders of a channel\<close>

text \<open>
  The attachments service hands on the error of the chat service for who may not read a channel, and its handlers do not
  know it: they answer 500, where the chat handlers answer 403.
\<close>

lemma attachments_answer_outsiders:
  assumes "ParseInt (rq_param r ''workspace_id'') = Some ws" and "ParseInt (rq_param r ''id'') = Some ch"
    and "ParseInt (rq_param r ''message_id'') = Some msg" and "cx_user_id c = Some uid"
    and "at_access (server_attachments sv) ws ch uid s = (Inl (EChat e), s')"
  shows "attachments_handle_List sv body r c s =
    (Inr (\<lparr>rs_status = 500, rs_body = ErrorBody (Sanitize InternalMessage)\<rparr>, c), s')"
  using assms
  by (simp add: attachments_handle_List_def parse_defs int_param_def must_user_def serve_def attempt_def
      attachments_ListByMessage_def andthen_def fail_def attachments_writeError_def WriteInternal_def error_reply_def ret_def)

lemma chat_refuses_outsiders:
  "chat_writeServiceError (EChat Chat_NotMember) = (403, ''not a channel member'')"
  "chat_writeServiceError (EChat Chat_NotWorkspaceMember) = (403, ''not a workspace member'')"
  by code_simp+

section \<open>Samples\<close>

definition sample_stripe :: stripe_api where
  "sample_stripe =
     \<lparr>customer_new = (\<lambda>_ _. Inl (EExternal ''off'')), checkoutsession_new = (\<lambda>_. Inl (EExternal ''off'')),
      webhook_ConstructEvent = (\<lambda>_ _ _. Inl (EExternal ''off'')), unmarshal_subscription = (\<lambda>_. Inl (EExternal ''off''))\<rparr>"

definition sample_server :: server where
  "sample_server =
     \<lparr>sv_marshal = (\<lambda>_. ''{}''), sv_getenv = (\<lambda>_. []), sv_jwt = sample_jwt, sv_crypto = sample_crypto, sv_sha256 = sample_sha,
      sv_stripe = sample_stripe, sv_billing = \<lparr>StripeSecretKey = [], StripeWebhookSecret = [], CheckoutBaseURL = []\<rparr>, sv_sandbox = sample_sandbox, sv_store = None,
      sv_maxUpload = 1000, sv_callLimit = 2, sv_uuid = ''u'', sv_random = Inr []\<rparr>"

definition no_limiters :: limiters where
  "no_limiters = \<lparr>lm_ip = None, lm_live = None, lm_sandbox = None\<rparr>"

text \<open>A token that nobody signed.\<close>

theorem strangers_change_nothing_witness:
  "\<exists>resp c' s'. server_chain sample_server no_limiters SignedIn (\<lambda>_ _. fail EConn) (sample_request ''POST'' ''/api/apps'' ''bad'')
      empty_ctx sample = (Inr (resp, c'), s') \<and> turned_away resp \<and> outbox s' = outbox sample \<and> but_audit (db s') = but_audit (db sample)"
proof (rule strangers_change_nothing, intro allI)
  fix t c
  have "bearerToken (sample_request ''POST'' ''/api/apps'' ''bad'') = Some ''bad''" by code_simp
  moreover have "ValidateToken sample_jwt u ''bad'' = Inl (EAuth Auth_TokenInvalid)" for u
    by (simp add: ValidateToken_def parseClaims_def sample_jwt_def table_jwt_def)
  ultimately show "\<not> admitted (sv_jwt sample_server) (sv_sha256 sample_server) SignedIn (sample\<lparr>now := t\<rparr>)
      (sample_request ''POST'' ''/api/apps'' ''bad'') c"
    by (simp add: sample_server_def signed_in_def session_of_def)
qed

lemma repliedE:
  assumes "case p of (Inr (resp, c), s') \<Rightarrow> P resp | (Inl _, s') \<Rightarrow> False"
  shows "\<exists>resp c s'. p = (Inr (resp, c), s') \<and> P resp"
  using assms by (auto split: prod.splits sum.splits)

text \<open>The statement of the service is refused after those of the gates have run.\<close>

definition sample_outage :: world where
  "sample_outage = sample\<lparr>tape := [(Done, 0), (Done, 0), (Done, 0), (Done, 0), (Refused, 0)]\<rparr>"


end
