(* ===== verification/Links.thy ===== *)
theory Links
  imports Realtime_Broker Presence_Redis Server
begin

text \<open>
  What links a node to the rest: events over Redis (\<open>redis_broker.go\<close>), the sequencer in Redis (\<open>sequence.go\<close>), the
  delivery of webhooks (\<open>webhooks/dispatcher.go\<close>), and the request that opens a web socket (\<open>realtime/handler.go\<close>). The
  bytes of an event and the MAC are parameters.
\<close>

section \<open>Events over Redis\<close>

definition with_event_id :: "int \<Rightarrow> 64 word \<Rightarrow> event \<Rightarrow> 64 word \<times> event" where
  "with_event_id nanos counter ev =
     (if evt_id ev = []
      then NewOutboundEvent nanos counter (evt_type ev) (evt_workspace ev) (evt_channel ev) (evt_payload ev)
      else (counter, ev))"

text \<open>The message that goes out, a topic and a payload; none when the event has no JSON.\<close>

definition rb_Publish ::
  "(event \<Rightarrow> string option) \<Rightarrow> int \<Rightarrow> 64 word \<Rightarrow> event \<Rightarrow> 64 word \<times> (string \<times> string) option" where
  "rb_Publish marshal nanos counter ev =
     (case with_event_id nanos counter ev of (counter, ev) \<Rightarrow>
        (counter, map_option (Pair (ChannelTopic (evt_workspace ev) (evt_channel ev))) (marshal ev)))"

definition rb_PublishToUser ::
  "(event \<Rightarrow> string option) \<Rightarrow> int \<Rightarrow> 64 word \<Rightarrow> int \<Rightarrow> event \<Rightarrow> 64 word \<times> (string \<times> string) option" where
  "rb_PublishToUser marshal nanos counter uid ev =
     (case with_event_id nanos counter ev of (counter, ev) \<Rightarrow> (counter, map_option (Pair (UserTopic uid)) (marshal ev)))"

text \<open>The loop over the messages of a subscription; a payload that is no event is skipped.\<close>

fun rb_readLoop :: "(string \<Rightarrow> event option) \<Rightarrow> (string \<times> string) list \<Rightarrow> hub \<Rightarrow> hub" where
  "rb_readLoop unmarshal [] h = h"
| "rb_readLoop unmarshal ((topic, payload) # msgs) h =
     rb_readLoop unmarshal msgs (case unmarshal payload of None \<Rightarrow> h | Some ev \<Rightarrow> rb_receive topic ev h)"

text \<open>\<^verbatim>\<open>json.Unmarshal\<close> of what \<^verbatim>\<open>json.Marshal\<close> made of an event gives the event back.\<close>

definition event_codec :: "(event \<Rightarrow> string option) \<Rightarrow> (string \<Rightarrow> event option) \<Rightarrow> bool" where
  "event_codec marshal unmarshal \<longleftrightarrow> (\<forall>ev d. marshal ev = Some d \<longrightarrow> unmarshal d = Some ev)"

definition same_content :: "event \<Rightarrow> event \<Rightarrow> bool" where
  "same_content ev ev' \<longleftrightarrow>
     evt_type ev' = evt_type ev \<and> evt_workspace ev' = evt_workspace ev \<and> evt_channel ev' = evt_channel ev \<and>
     evt_payload ev' = evt_payload ev \<and> (evt_id ev \<noteq> [] \<longrightarrow> ev' = ev)"

lemma with_event_id_same: "with_event_id nanos counter ev = (counter', ev') \<Longrightarrow> same_content ev ev'"
  by (auto simp: with_event_id_def same_content_def NewOutboundEvent_def newEventID_def split: if_splits)

text \<open>
  What a node publishes for a channel makes every node that reads it broadcast an event of the same type, workspace,
  channel and payload, and the same event when it had an identifier; what it publishes for a user reaches exactly the
  clients of this user there.
\<close>

lemma channel_events_cross_nodes:
  assumes "event_codec marshal unmarshal" and "rb_Publish marshal nanos counter ev = (counter', Some msg)"
  shows "\<exists>ev'. same_content ev ev' \<and> rb_readLoop unmarshal [msg] h = hub_enqueueBroadcast ev' h"
proof -
  obtain ev' d where out: "with_event_id nanos counter ev = (counter', ev')" "marshal ev' = Some d"
    "msg = (ChannelTopic (evt_workspace ev') (evt_channel ev'), d)"
    using assms(2) by (auto simp: rb_Publish_def split: prod.splits)
  then have "rb_readLoop unmarshal [msg] h = hub_enqueueBroadcast ev' h" using assms(1)
    by (simp add: event_codec_def rb_receive_def parse_ChannelTopic)
  then show ?thesis using with_event_id_same [OF out(1)] by blast
qed

lemma user_events_cross_nodes:
  assumes "event_codec marshal unmarshal" and "rb_PublishToUser marshal nanos counter uid ev = (counter', Some msg)"
    and "- (2 ^ 63) \<le> uid" and "uid < 2 ^ 63"
  shows "\<exists>ev'. same_content ev ev' \<and>
    rb_readLoop unmarshal [msg] h = h\<lparr>h_notifying := h_notifying h @ map (\<lambda>c. (c, ev')) (hub_notifyUserLocal uid h)\<rparr>"
proof -
  obtain ev' d where out: "with_event_id nanos counter ev = (counter', ev')" "marshal ev' = Some d" "msg = (UserTopic uid, d)"
    using assms(2) by (auto simp: rb_PublishToUser_def split: prod.splits)
  then have "rb_readLoop unmarshal [msg] h = h\<lparr>h_notifying := h_notifying h @ map (\<lambda>c. (c, ev')) (hub_notifyUserLocal uid h)\<rparr>"
    using assms(1) parse_UserTopic [OF assms(3,4)] by (simp add: event_codec_def rb_receive_def)
  then show ?thesis using with_event_id_same [OF out(1)] by blast
qed

section \<open>The sequencer in Redis\<close>

definition sequence_key :: "int \<Rightarrow> string" where
  "sequence_key ch = ''channel:'' @ FormatInt ch @ '':seq''"

text \<open>One round trip of \<open>INCR\<close>, which may be refused before or lost after Redis has run it.\<close>

definition redseq_Next :: "fate \<Rightarrow> int \<Rightarrow> int \<Rightarrow> redis_keys \<Rightarrow> int \<times> redis_keys" where
  "redseq_Next f ch t m =
     (case redis_INCRBY (sequence_key ch) 1 t m of (r, m') \<Rightarrow>
        (case f of
           Done \<Rightarrow> ((case r of Inl _ \<Rightarrow> 0 | Inr v \<Rightarrow> v), m')
         | Refused \<Rightarrow> (0, m)
         | Lost \<Rightarrow> (0, m')))"

text \<open>The counters in Redis: nothing else writes these keys, and they do not expire.\<close>

definition redis_counters :: "redis_keys \<Rightarrow> (int \<Rightarrow> int) \<Rightarrow> bool" where
  "redis_counters m seq \<longleftrightarrow>
     (\<forall>ch. m (sequence_key ch) = (if seq ch = 0 then None else Some (RInt (seq ch), None)) \<and> 0 \<le> seq ch)"

lemma sequence_key_inject [simp]: "sequence_key a = sequence_key b \<longleftrightarrow> a = b"
  by (auto dest!: arg_cong [where f = "split_on CHR '':''"] simp: sequence_key_def split_colon FormatInt_inject)

lemma redseq_step:
  assumes "redis_counters m seq"
  shows "\<exists>m'. redis_INCRBY (sequence_key ch) 1 t m = (Inr (seq ch + 1), m') \<and> redis_counters m' (seq(ch := seq ch + 1))"
proof -
  let ?m = "m(sequence_key ch \<mapsto> (RInt (seq ch + 1), None))"
  have all: "m (sequence_key c) = (if seq c = 0 then None else Some (RInt (seq c), None))" "0 \<le> seq c" for c
    using assms unfolding redis_counters_def by blast+
  have "redis_INCRBY (sequence_key ch) 1 t m = (Inr (seq ch + 1), ?m)"
    by (cases "seq ch = 0") (simp_all add: redis_INCRBY_def redis_live_def all(1))
  moreover have "redis_counters ?m (seq(ch := seq ch + 1))" unfolding redis_counters_def
  proof (intro allI)
    fix c
    show "?m (sequence_key c) = (if (seq(ch := seq ch + 1)) c = 0 then None else Some (RInt ((seq(ch := seq ch + 1)) c), None)) \<and>
        0 \<le> (seq(ch := seq ch + 1)) c"
      using all [of c] all(2) [of ch] by (cases "c = ch") auto
  qed
  ultimately show ?thesis by blast
qed

text \<open>When nothing fails a node cannot tell the shared sequencer from its own.\<close>

lemma sequencers_agree:
  assumes "redis_counters m seq"
  shows "\<exists>m'. redseq_Next Done ch t m = (fst (memseq_Next seq ch), m') \<and> redis_counters m' (snd (memseq_Next seq ch))"
  using redseq_step [OF assms, of ch t] by (auto simp: redseq_Next_def memseq_Next_def)

text \<open>A lost answer numbers the event 0 and uses up a number, so the readers of the channel see a gap.\<close>

lemma lost_answer_leaves_gap:
  assumes "redis_counters m seq"
  shows "\<exists>m' m''. redseq_Next Lost ch t m = (0, m') \<and> redseq_Next Done ch t' m' = (seq ch + 2, m'')"
proof -
  obtain m' where m': "redis_INCRBY (sequence_key ch) 1 t m = (Inr (seq ch + 1), m')"
    "redis_counters m' (seq(ch := seq ch + 1))" using redseq_step [OF assms] by blast
  then show ?thesis using redseq_step [OF m'(2), of ch t'] by (auto simp: redseq_Next_def)
qed

section \<open>Webhooks\<close>

record http_post =
  hp_url :: string
  hp_headers :: "(string \<times> string) list"
  hp_body :: string

definition webhook_body :: "(gov \<Rightarrow> string) \<Rightarrow> int \<Rightarrow> string \<Rightarrow> gomap \<Rightarrow> string" where
  "webhook_body marshal t event payload =
     marshal (VObj [(''event'', VStr event), (''timestamp'', VTime t), (''data'', VObj payload)])"

text \<open>\<open>hmac\<close> is HMAC-SHA256 of a key and a text.\<close>

definition webhooks_sign :: "(string \<Rightarrow> string \<Rightarrow> 8 word list) \<Rightarrow> string \<Rightarrow> string \<Rightarrow> string" where
  "webhooks_sign hmac body secret = hex_encode (hmac secret body)"

definition webhooks_deliver :: "(string \<Rightarrow> string \<Rightarrow> 8 word list) \<Rightarrow> webhook_row \<Rightarrow> string \<Rightarrow> http_post" where
  "webhooks_deliver hmac hook body =
     \<lparr>hp_url = wh_url hook,
      hp_headers = [(''Content-Type'', ''application/json''), (''X-Brenox-Signature'', webhooks_sign hmac body (wh_secret hook))],
      hp_body = body\<rparr>"

section \<open>Opening a web socket\<close>

text \<open>The result of \<open>strconv.ParseInt\<close> with its error dropped: out of range it is the bound.\<close>

definition ParseInt_value :: "string \<Rightarrow> int" where
  "ParseInt_value s =
     (case s of
        [] \<Rightarrow> 0
      | c # cs \<Rightarrow>
          (case (if c = CHR ''-'' then map_option (\<lambda>n. - int n) (parse_nat cs)
                 else if c = CHR ''+'' then map_option int (parse_nat cs)
                 else map_option int (parse_nat s)) of
             None \<Rightarrow> 0
           | Some v \<Rightarrow> max (- (2 ^ 63)) (min (2 ^ 63 - 1) v)))"

definition realtime_CheckOrigin ::
  "(string \<Rightarrow> int option) \<Rightarrow> request \<Rightarrow> checker \<Rightarrow> world \<Rightarrow> bool \<times> checker \<times> world" where
  "realtime_CheckOrigin claims_app r ck s =
     origins_IsAllowed ck (Normalize (rq_header r ''Origin''))
       \<lparr>hint_AppID = AppIDFromToken claims_app (rq_header r ''Authorization'') (rq_query r ''token''),
        hint_WorkspaceID = ParseInt_value (rq_query r ''workspace_id''), hint_Preflight = False\<rparr> s"

text \<open>The parameters are parsed before the user of the context is read. The address of gin has no port.\<close>

definition realtime_handle_socket :: "hub \<Rightarrow> bool \<Rightarrow> nat \<Rightarrow> request \<Rightarrow> ctx \<Rightarrow> ws_result prog" where
  "realtime_handle_socket h upgrade n r c =
     (let ws = rq_query r ''workspace_id''; ch = rq_query r ''channel_id'' in
      case cx_user_id c of
        Some uid \<Rightarrow> realtime_HandleWebSocket h ws ch uid (rq_ip r) upgrade n
      | None \<Rightarrow> if ParseInt ws = None \<or> ParseInt ch = None then realtime_HandleWebSocket h ws ch 0 (rq_ip r) upgrade n
               else go_panic)"

text \<open>C18: A web socket opens for its user only. Behind the gates of its route a request makes a client only with a signed
  token of an existing user who is not suspended, for a workspace that the app and environment of the token allow; the
  client is this user, a member of the workspace and of the channel, which belongs to the workspace.\<close>

theorem socket_opens_for_members:
  assumes "through (gates_for lib sha256 lv sb OnSocket) r empty_ctx s = (Inr (Pass c, c'), s1)"
    and "realtime_handle_socket h upgrade n r c s1 = (Inr (WsOpen cl), s2)"
  shows "signed_in lib s r c \<and> own_lane (db s) (rq_query r ''workspace_id'') c \<and> cx_user_id c = Some (cl_userID cl) \<and>
    ParseInt (rq_query r ''workspace_id'') = Some (cl_workspaceID cl) \<and>
    in_workspace (db s1) (cl_workspaceID cl) (cl_userID cl) \<and> in_channel (db s1) (cl_channelID cl) (cl_userID cl) \<and>
    channel_of (db s1) (cl_workspaceID cl) (cl_channelID cl) \<noteq> None \<and> db s2 = db s"
proof -
  have gate: "signed_in lib s r c \<and> own_lane (db s) (rq_query r ''workspace_id'') c"
    using through_admitted [OF assms(1)] by simp
  then obtain uid where uid: "cx_user_id c = Some uid" unfolding signed_in_def by blast
  have "db s1 = db s" using session_gates_answer [of OnSocket lib sha256 lv sb r] assms(1)
    unfolding answers_def by (auto dest!: spec [of _ s])
  moreover have "realtime_HandleWebSocket h (rq_query r ''workspace_id'') (rq_query r ''channel_id'') uid (rq_ip r) upgrade n s1 =
      (Inr (WsOpen cl), s2)" using assms(2) uid by (simp add: realtime_handle_socket_def Let_def)
  ultimately show ?thesis using websocket_opened gate uid by fastforce
qed

lemma socket_runE:
  assumes "case p of
      (Inr (Pass c, c'), s1) \<Rightarrow> (case f c s1 of (Inr (WsOpen cl), s2) \<Rightarrow> P cl | _ \<Rightarrow> False)
    | _ \<Rightarrow> False"
  shows "\<exists>c c' s1 cl s2. p = (Inr (Pass c, c'), s1) \<and> f c s1 = (Inr (WsOpen cl), s2) \<and> P cl"
proof -
  obtain res s1 where p: "p = (res, s1)" by (cases p)
  with assms obtain g c' where g: "res = Inr (g, c')" by (cases res) auto
  with assms p obtain c where c: "g = Pass c" by (cases g) auto
  obtain res2 s2 where f: "f c s1 = (res2, s2)" by (cases "f c s1")
  with assms p g c obtain w where w: "res2 = Inr w" by (cases res2) auto
  with assms p g c f obtain cl where "w = WsOpen cl" "P cl" by (cases w) auto
  then show ?thesis using p g c f w by blast
qed

definition sample_socket :: request where
  "sample_socket = (sample_request ''GET'' ''/api/ws'' ''t'')
     \<lparr>rq_query := (\<lambda>q. if q = ''workspace_id'' then ''1'' else if q = ''channel_id'' then ''10'' else [])\<rparr>"

definition sample_live :: jwt_lib where
  "sample_live = table_jwt [(''t'', sample_claims 1 1 ''live'' ''j'')]"

theorem socket_opens_for_members_witness:
  "\<exists>c s1 cl s2. through (gates_for sample_live sample_sha None None OnSocket) sample_socket empty_ctx sample = (Inr (Pass c, c), s1) \<and>
    realtime_handle_socket (NewHub sample_cfg LocalBroker True True) True 0 sample_socket c s1 = (Inr (WsOpen cl), s2) \<and>
    cl_userID cl = 1 \<and> in_channel (db s1) 10 1"
proof -
  let ?gates = "through (gates_for sample_live sample_sha None None OnSocket) sample_socket empty_ctx sample"
  let ?open = "realtime_handle_socket (NewHub sample_cfg LocalBroker True True) True 0 sample_socket"
  have "case ?gates of
      (Inr (Pass c, c'), s1) \<Rightarrow> (case ?open c s1 of (Inr (WsOpen cl), s2) \<Rightarrow> cl_userID cl = 1 \<and> cl_channelID cl = 10 | _ \<Rightarrow> False)
    | _ \<Rightarrow> False"
    by code_simp
  from socket_runE [OF this] obtain c c' s1 cl s2 where
    run: "?gates = (Inr (Pass c, c'), s1)" "?open c s1 = (Inr (WsOpen cl), s2)" "cl_userID cl = 1" "cl_channelID cl = 10"
    by blast
  have "c' = c" by (rule through_same [OF run(1)])
  then show ?thesis using socket_opens_for_members [OF run(1,2)] run by auto
qed

end
