(* ===== verification/Operations.thy ===== *)
theory Operations
  imports Server
begin

text \<open>
  What the engine reads when it starts and how it reports its health: the configurations of \<open>calls\<close>, \<open>billing\<close> and
  \<open>storage\<close>, the client of the object store over the SDK of S3 (a parameter), \<open>database/schema.go\<close>, \<open>health/handler.go\<close>,
  \<open>version\<close>, and the part of \<open>main.go\<close> that makes the server of the handlers from them.
\<close>

section \<open>Configuration\<close>

definition trim_slashes :: "string \<Rightarrow> string" where
  "trim_slashes s = rev (dropWhile (\<lambda>c. c = CHR ''/'') (rev s))"

definition positive_env :: "(string \<Rightarrow> string) \<Rightarrow> string \<Rightarrow> int \<Rightarrow> int" where
  "positive_env getenv k fallback =
     (let raw = TrimSpace (getenv k) in
      if raw = [] then fallback
      else case ParseInt raw of None \<Rightarrow> fallback | Some v \<Rightarrow> if v \<le> 0 then fallback else v)"

definition calls_LoadConfig :: "(string \<Rightarrow> string) \<Rightarrow> int" where
  "calls_LoadConfig getenv = positive_env getenv ''CALL_MAX_PARTICIPANTS'' 25"

definition MaxUploadBytes :: "(string \<Rightarrow> string) \<Rightarrow> int" where
  "MaxUploadBytes getenv = positive_env getenv ''MAX_UPLOAD_BYTES'' (10 * 1024 * 1024)"

definition billing_LoadConfig :: "(string \<Rightarrow> string) \<Rightarrow> billing_config" where
  "billing_LoadConfig getenv =
     \<lparr>StripeSecretKey = TrimSpace (getenv ''STRIPE_SECRET_KEY''),
      StripeWebhookSecret = TrimSpace (getenv ''STRIPE_WEBHOOK_SECRET''),
      CheckoutBaseURL = trim_slashes (TrimSpace (getenv ''STRIPE_CHECKOUT_BASE_URL''))\<rparr>"

record s3_config =
  s3_Endpoint :: string
  s3_PublicEndpoint :: string
  s3_Bucket :: string
  s3_AccessKey :: string
  s3_SecretKey :: string
  s3_Region :: string
  s3_UseSSL :: bool

definition envOr :: "(string \<Rightarrow> string) \<Rightarrow> string \<Rightarrow> string \<Rightarrow> string" where
  "envOr getenv k fallback = (let v = TrimSpace (getenv k) in if v = [] then fallback else v)"

text \<open>\<open>strings.EqualFold\<close> on ASCII.\<close>

definition EqualFold :: "string \<Rightarrow> string \<Rightarrow> bool" where
  "EqualFold a b \<longleftrightarrow> ToLower a = ToLower b"

definition storage_LoadConfig :: "(string \<Rightarrow> string) \<Rightarrow> s3_config" where
  "storage_LoadConfig getenv =
     (let endpoint = TrimSpace (getenv ''S3_ENDPOINT''); public = TrimSpace (getenv ''S3_PUBLIC_ENDPOINT'') in
      \<lparr>s3_Endpoint = endpoint, s3_PublicEndpoint = (if public = [] then endpoint else public),
       s3_Bucket = TrimSpace (getenv ''S3_BUCKET''), s3_AccessKey = TrimSpace (getenv ''S3_ACCESS_KEY''),
       s3_SecretKey = TrimSpace (getenv ''S3_SECRET_KEY''), s3_Region = envOr getenv ''S3_REGION'' ''us-east-1'',
       s3_UseSSL = EqualFold (getenv ''S3_USE_SSL'') ''true''\<rparr>)"

definition storage_Enabled :: "s3_config \<Rightarrow> bool" where
  "storage_Enabled cfg \<longleftrightarrow> s3_Endpoint cfg \<noteq> [] \<and> s3_Bucket cfg \<noteq> [] \<and> s3_AccessKey cfg \<noteq> [] \<and> s3_SecretKey cfg \<noteq> []"

section \<open>Object store\<close>

text \<open>A client of the SDK, for the URL of an endpoint. Answers may lack a length or a type.\<close>

record s3_api =
  api_HeadBucket :: "string \<Rightarrow> goerr + unit"
  api_CreateBucket :: "string \<Rightarrow> goerr + unit"
  api_PresignPut :: "string \<Rightarrow> string \<Rightarrow> string \<Rightarrow> int \<Rightarrow> int \<Rightarrow> goerr + string"   \<comment> \<open>bucket, key, type, size, expiry\<close>
  api_PresignGet :: "string \<Rightarrow> string \<Rightarrow> int \<Rightarrow> goerr + string"
  api_HeadObject :: "string \<Rightarrow> string \<Rightarrow> goerr + (int option \<times> string option)"
  api_GetObject :: "string \<Rightarrow> string \<Rightarrow> goerr + (string \<times> int option \<times> string option)"

record s3_client =
  s3c_bucket :: string
  s3c_client :: s3_api
  s3c_presign :: s3_api

definition s3_url :: "s3_config \<Rightarrow> string \<Rightarrow> string" where
  "s3_url cfg endpoint = (if s3_UseSSL cfg then ''https'' else ''http'') @ ''://'' @ endpoint"

text \<open>\<^verbatim>\<open>newS3Client\<close>: \<open>sdk\<close> makes a client from the region, the keys and the URL.\<close>

type_synonym s3_sdk = "string \<Rightarrow> string \<Rightarrow> string \<Rightarrow> string \<Rightarrow> s3_api"

definition newS3Client :: "s3_sdk \<Rightarrow> s3_config \<Rightarrow> string \<Rightarrow> s3_api" where
  "newS3Client sdk cfg endpoint = sdk (s3_Region cfg) (s3_AccessKey cfg) (s3_SecretKey cfg) (s3_url cfg endpoint)"

definition storage_NewClient :: "s3_sdk \<Rightarrow> s3_config \<Rightarrow> goerr + s3_client" where
  "storage_NewClient sdk cfg =
     (if \<not> storage_Enabled cfg then Inl (EExternal ''S3 storage is not configured'')
      else let inner = newS3Client sdk cfg (s3_Endpoint cfg);
               endpoint = (if TrimSpace (s3_PublicEndpoint cfg) = [] then s3_Endpoint cfg else s3_PublicEndpoint cfg);
               presign = (if EqualFold endpoint (s3_Endpoint cfg) then inner else newS3Client sdk cfg endpoint);
               client = \<lparr>s3c_bucket = s3_Bucket cfg, s3c_client = inner, s3c_presign = presign\<rparr>
           in case api_HeadBucket inner (s3_Bucket cfg) of
                Inr _ \<Rightarrow> Inr client
              | Inl _ \<Rightarrow> (case api_CreateBucket inner (s3_Bucket cfg) of Inl e \<Rightarrow> Inl e | Inr _ \<Rightarrow> Inr client))"

text \<open>\<open>t\<close> is the time of the call. The attachments service does not use the URLs for reading.\<close>

definition storage_PresignPut :: "s3_client \<Rightarrow> int \<Rightarrow> string \<Rightarrow> string \<Rightarrow> int \<Rightarrow> goerr + (string \<times> int)" where
  "storage_PresignPut cl t key mime sz =
     (let expires = 15 * 60 * 1000000 in
      case api_PresignPut (s3c_presign cl) (s3c_bucket cl) key mime sz expires of
        Inl e \<Rightarrow> Inl e | Inr url \<Rightarrow> Inr (url, t + expires))"

definition storage_PresignGet :: "s3_client \<Rightarrow> int \<Rightarrow> string \<Rightarrow> goerr + (string \<times> int)" where
  "storage_PresignGet cl t key =
     (let expires = 15 * 60 * 1000000 in
      case api_PresignGet (s3c_presign cl) (s3c_bucket cl) key expires of
        Inl e \<Rightarrow> Inl e | Inr url \<Rightarrow> Inr (url, t + expires))"

definition storage_HeadObject :: "s3_client \<Rightarrow> string \<Rightarrow> goerr + (int \<times> string)" where
  "storage_HeadObject cl key =
     (case api_HeadObject (s3c_client cl) (s3c_bucket cl) key of
        Inl e \<Rightarrow> Inl e | Inr (sz, mime) \<Rightarrow> Inr (coalesce sz 0, coalesce mime []))"

definition storage_GetObject :: "s3_client \<Rightarrow> string \<Rightarrow> goerr + (string \<times> int \<times> string)" where
  "storage_GetObject cl key =
     (case api_GetObject (s3c_client cl) (s3c_bucket cl) key of
        Inl e \<Rightarrow> Inl e | Inr (body, sz, mime) \<Rightarrow> Inr (body, coalesce sz 0, coalesce mime []))"

definition storage_store :: "s3_client \<Rightarrow> int \<Rightarrow> object_store" where
  "storage_store cl t =
     \<lparr>PresignPut = storage_PresignPut cl t, HeadObject = storage_HeadObject cl, GetObject = storage_GetObject cl\<rparr>"

section \<open>The server\<close>

text \<open>The services of \<open>main.go\<close> with what the environment sets; the libraries are parameters.\<close>

definition wired_store :: "s3_sdk \<Rightarrow> (string \<Rightarrow> string) \<Rightarrow> int \<Rightarrow> object_store option" where
  "wired_store sdk getenv t =
     (let cfg = storage_LoadConfig getenv in
      if storage_Enabled cfg
      then (case storage_NewClient sdk cfg of Inl _ \<Rightarrow> None | Inr cl \<Rightarrow> Some (storage_store cl t))
      else None)"

definition wired_server ::
  "(gov \<Rightarrow> string) \<Rightarrow> (string \<Rightarrow> string) \<Rightarrow> jwt_lib \<Rightarrow> crypto \<Rightarrow> (string \<Rightarrow> 8 word list) \<Rightarrow> stripe_api \<Rightarrow> s3_sdk \<Rightarrow> string \<Rightarrow>
     (goerr + 8 word list) \<Rightarrow> int \<Rightarrow> server" where
  "wired_server marshal getenv jwt crypto sha256 stripe sdk uuid random t =
     \<lparr>sv_marshal = marshal, sv_getenv = getenv, sv_jwt = jwt, sv_crypto = crypto, sv_sha256 = sha256, sv_stripe = stripe,
      sv_billing = billing_LoadConfig getenv, sv_sandbox = sandbox_LoadConfig getenv,
      sv_store = wired_store sdk getenv t, sv_maxUpload = MaxUploadBytes getenv, sv_callLimit = calls_LoadConfig getenv,
      sv_uuid = uuid, sv_random = random\<rparr>"

section \<open>Health\<close>

record migration_status =
  mig_Version :: int
  mig_Dirty :: bool
  mig_OK :: bool
  mig_Message :: string

definition em_dash :: string where
  "em_dash = [CHR 0xE2, CHR 0x80, CHR 0x94]"

definition ExpectedMigrationVersion :: int where
  "ExpectedMigrationVersion = 17"

text \<open>\<open>row\<close> is the answer to the query of the last migration: its version and whether it is dirty.\<close>

definition CheckMigrations :: "goerr + int \<times> bool \<Rightarrow> migration_status" where
  "CheckMigrations row =
     (case row of
        Inl _ \<Rightarrow> \<lparr>mig_Version = 0, mig_Dirty = False, mig_OK = False,
                 mig_Message = ''schema_migrations table missing '' @ em_dash @
                   '' run database migrations before starting the API''\<rparr>
      | Inr (version, dirty) \<Rightarrow>
          (let status = (\<lambda>ok message. \<lparr>mig_Version = version, mig_Dirty = dirty, mig_OK = ok, mig_Message = message\<rparr>) in
           if dirty then status False (''migration '' @ FormatInt version @ '' is dirty '' @ em_dash @
                           '' fix schema_migrations before serving traffic'')
           else if version < ExpectedMigrationVersion
           then status False (''database schema is at version '' @ FormatInt version @ '', expected '' @
                  FormatInt ExpectedMigrationVersion @ '' '' @ em_dash @ '' run migrations before serving traffic'')
           else status True ''ok''))"

definition migrationCheck :: "migration_status \<Rightarrow> gov" where
  "migrationCheck m =
     VObj ([(''status'', VStr (if mig_OK m then ''up'' else ''pending'')), (''version'', VInt (mig_Version m))] @
           (if mig_OK m then [] else [(''message'', VStr (mig_Message m))]) @
           (if mig_Dirty m then [(''dirty'', VBool True)] else []))"

definition dbCheck :: "bool \<Rightarrow> gov" where
  "dbCheck ok = VObj [(''status'', VStr (if ok then ''up'' else ''down''))]"

definition redisCheck :: "bool \<Rightarrow> bool \<Rightarrow> gov" where
  "redisCheck configured ok =
     VObj [(''status'', VStr (if \<not> configured then ''disabled'' else if ok then ''up'' else ''down''))]"

definition statusText :: "int \<Rightarrow> string" where
  "statusText code = (if code = 200 then ''ok'' else ''degraded'')"

text \<open>The answers of the pings are given; the client of Redis may be nil.\<close>

definition health_Check ::
  "(gov \<Rightarrow> string) \<Rightarrow> (string \<Rightarrow> string) \<Rightarrow> bool \<Rightarrow> bool option \<Rightarrow> (goerr + int \<times> bool) \<Rightarrow> response" where
  "health_Check marshal getenv db_ping redis_ping row =
     (let configured = TrimSpace (getenv ''REDIS_URL'') \<noteq> [];
          redis_ok = (\<not> configured \<or> redis_ping = Some True);
          mig = CheckMigrations row;
          status = (if \<not> mig_OK mig then 503 else if \<not> db_ping \<or> \<not> redis_ok then 503 else 200)
      in \<lparr>rs_status = status,
          rs_body = Bytes (marshal (VObj [(''status'', VStr (statusText status)),
            (''checks'', VObj [(''database'', dbCheck db_ping), (''redis'', redisCheck configured redis_ok),
                               (''migrations'', migrationCheck mig)])]))\<rparr>)"

text \<open>The version and the commit are set at link time.\<close>

definition version_json :: "string \<Rightarrow> string \<Rightarrow> gov" where
  "version_json engine commit =
     VObj ([(''engine'', VStr engine), (''api_version'', VStr ''v1'')] @ omit_empty ''commit'' commit)"

section \<open>What follows\<close>

lemma positive_env_pos: "0 < fallback \<Longrightarrow> 0 < positive_env getenv k fallback"
  by (simp add: positive_env_def Let_def split: option.split)

lemma wired_limits: "0 < sv_maxUpload (wired_server m getenv j cr sha st sdk uuid rnd t)"
  "0 < sv_callLimit (wired_server m getenv j cr sha st sdk uuid rnd t)"
  by (simp_all add: wired_server_def MaxUploadBytes_def calls_LoadConfig_def positive_env_pos)

text \<open>Healthy means: the database answers, Redis does when it is configured, and the schema is clean and new enough.\<close>

lemma health_exact:
  "rs_status (health_Check marshal getenv db_ping redis_ping row) = 200 \<longleftrightarrow>
     db_ping \<and> (TrimSpace (getenv ''REDIS_URL'') = [] \<or> redis_ping = Some True) \<and>
     (\<exists>version. row = Inr (version, False) \<and> 17 \<le> version)"
  by (auto simp: health_Check_def CheckMigrations_def ExpectedMigrationVersion_def Let_def split: sum.splits if_splits)

text \<open>A client exists exactly when the storage is configured and its bucket is there or can be made.\<close>

lemma NewClient_exact:
  "(\<exists>cl. storage_NewClient sdk cfg = Inr cl) \<longleftrightarrow>
     storage_Enabled cfg \<and>
     ((\<exists>u. api_HeadBucket (newS3Client sdk cfg (s3_Endpoint cfg)) (s3_Bucket cfg) = Inr u) \<or>
      (\<exists>u. api_CreateBucket (newS3Client sdk cfg (s3_Endpoint cfg)) (s3_Bucket cfg) = Inr u))"
  by (auto simp: storage_NewClient_def Let_def split: sum.splits)

text \<open>Without an object store an upload is answered 503, and every other part of the server works.\<close>

lemma uploads_need_storage:
  assumes "\<not> storage_Enabled (storage_LoadConfig getenv)" and "Option.bind body dec_upload = Some x" and "cx_user_id c = Some uid"
  shows "attachments_handle_CreateUpload (wired_server m getenv j cr sha st sdk uuid rnd t) body r c s =
    (Inr (\<lparr>rs_status = 503, rs_body = ErrorBody (Sanitize ''file storage unavailable'')\<rparr>, c), s)"
  using assms
  by (cases x)
    (simp add: attachments_handle_CreateUpload_def bind_json_def must_user_def serve_def attempt_def server_attachments_def
      wired_server_def wired_store_def attachments_wired_def attachments_CreateUploadURL_def fail_def error_reply_def ret_def
      attachments_writeError_def shown_def)

end
